(* ===== verification/Prelude.thy ===== *)
theory Prelude
  imports Main "HOL-Library.Word" "HOL-Library.Sublist"
begin

text \<open>
  Shared vocabulary of the development: Go's fixed-width integers, error values (with the
  wrapping of \<^verbatim>\<open>github.com/pkg/errors\<close>), the three ways a Go call can end (a value, an
  error, a panic), Go maps as partial functions, and the generic facts about lists, options and
  maps that the component theories use.
\<close>

section \<open>Integers\<close>

text \<open>
  \<^verbatim>\<open>int64\<close>, \<^verbatim>\<open>int\<close> (the repository is built for 64-bit targets) and \<^verbatim>\<open>time.Duration\<close> are
  64-bit two's complement words; \<open>+\<close> and \<open>*\<close> wrap as Go's do, \<open>sint\<close> reads the value.
\<close>

type_synonym int64 = "64 word"
type_synonym int32 = "32 word"

definition in_int64 :: "int \<Rightarrow> bool" where
  "in_int64 n \<longleftrightarrow> - (2 ^ 63) \<le> n \<and> n < 2 ^ 63"

lemma in_int64_sint [simp, intro]: "in_int64 (sint (w :: int64))"
  using sint_lt [of w] sint_ge [of w] by (simp add: in_int64_def)

lemma sint_of_int64 [simp]: "in_int64 n \<Longrightarrow> sint (word_of_int n :: int64) = n"
  by (simp add: in_int64_def sint_sbintrunc' signed_take_bit_int_eq_self)

lemma sint_int64_inject [simp]: "sint (v :: int64) = sint w \<longleftrightarrow> v = w"
  by (auto intro: signed_word_eqI)

section \<open>Errors and outcomes\<close>

text \<open>The two reasons \<^verbatim>\<open>strconv\<close> rejects a number.\<close>

datatype num_err = ErrSyntax | ErrRange

text \<open>
  Error values. The sentinels that the code compares by identity have a constructor each, or are
  \<open>Sentinel\<close> with the name of the variable;
  \<open>ErrorString\<close> is \<^verbatim>\<open>errors.New\<close> / \<^verbatim>\<open>errors.Errorf\<close> with its text, \<open>NumError\<close> is
  \<^verbatim>\<open>*strconv.NumError\<close> (function, input, reason), \<open>ParseError\<close> is \<^verbatim>\<open>*time.ParseError\<close>
  (layout, input), \<open>ExitError\<close> the failure of an external command, \<open>Status\<close> an error of the
  Kubernetes API with its reason, \<open>Wrap\<close> is \<^verbatim>\<open>errors.Wrap\<close> around a non-nil error.
\<close>

datatype go_error =
    ErrDurationIsUnlimited
  | ErrFileNotFound
  | EOF
  | ErrUnexpectedEOF
  | Sentinel string
  | ErrorString string
  | NumError string string num_err
  | ParseError string string
  | ExitError string
  | Status string string
  | Wrap string go_error

type_synonym 'a result = "go_error + 'a"

text \<open>\<^verbatim>\<open>errors.Is\<close> for a sentinel: the error itself or one it wraps.\<close>

fun errors_Is :: "go_error \<Rightarrow> go_error \<Rightarrow> bool" where
  "errors_Is (Wrap m e) t \<longleftrightarrow> Wrap m e = t \<or> errors_Is e t"
| "errors_Is e t \<longleftrightarrow> e = t"

text \<open>\<^verbatim>\<open>errors.Wrap(err, msg)\<close> of a possibly nil error: nil stays nil.\<close>

definition errors_Wrap :: "go_error option \<Rightarrow> string \<Rightarrow> go_error option" where
  "errors_Wrap e m = map_option (Wrap m) e"

text \<open>Run-time panics that the code can reach.\<close>

datatype panic = NilDereference | IndexOutOfRange | NotImplemented | BadQuantity | PanicMessage string

datatype 'a outcome = Value 'a | Error go_error | Panic panic

primrec outcome_of :: "'a result \<Rightarrow> 'a outcome" where
  "outcome_of (Inl e) = Error e"
| "outcome_of (Inr x) = Value x"

primrec returns :: "'a outcome \<Rightarrow> bool" where
  "returns (Value x) = True"
| "returns (Error e) = True"
| "returns (Panic p) = False"

lemma outcome_of_eq [simp]:
  "outcome_of r = Value x \<longleftrightarrow> r = Inr x"
  "outcome_of r = Error e \<longleftrightarrow> r = Inl e"
  "outcome_of r \<noteq> Panic p"
  by (cases r; simp)+

lemma returns_iff: "returns x \<longleftrightarrow> (\<forall>p. x \<noteq> Panic p)"
  by (cases x) auto

named_theorems splits_go "case splits of the outcome types"

lemmas [splits_go] = sum.splits option.splits outcome.splits prod.splits if_splits

section \<open>Maps\<close>

text \<open>Go's \<^verbatim>\<open>m[k]\<close> on a missing key gives the zero value.\<close>

definition map_get :: "('k \<rightharpoonup> string) \<Rightarrow> 'k \<Rightarrow> string" where
  "map_get m k = (case m k of None \<Rightarrow> [] | Some v \<Rightarrow> v)"

lemma map_get_upd [simp]: "map_get (m(k \<mapsto> v)) j = (if j = k then v else map_get m j)"
  by (simp add: map_get_def)

lemma map_get_empty [simp]: "map_get Map.empty k = []"
  by (simp add: map_get_def)

section \<open>Lists\<close>

text \<open>A loop that stops at the first error: \<^verbatim>\<open>for i, x := range xs { y, err := f(x); ... }\<close>.\<close>

fun map_result :: "('a \<Rightarrow> 'e + 'b) \<Rightarrow> 'a list \<Rightarrow> 'e + 'b list" where
  "map_result f [] = Inr []"
| "map_result f (x # xs) =
     (case f x of
        Inl e \<Rightarrow> Inl e
      | Inr y \<Rightarrow> (case map_result f xs of Inl e \<Rightarrow> Inl e | Inr ys \<Rightarrow> Inr (y # ys)))"

lemma map_result_InrI:
  "(\<And>x. x \<in> set xs \<Longrightarrow> f x = Inr (g x)) \<Longrightarrow> map_result f xs = Inr (map g xs)"
  by (induction xs) auto

lemma map_result_Inr_iff:
  "map_result f xs = Inr ys \<longleftrightarrow> list_all2 (\<lambda>x y. f x = Inr y) xs ys"
proof (induction xs arbitrary: ys)
  case Nil
  then show ?case by auto
next
  case (Cons x xs)
  then show ?case
    by (cases "map_result f xs") (auto simp: list_all2_Cons1 split: sum.splits)
qed

lemma map_result_Inr_length: "map_result f xs = Inr ys \<Longrightarrow> length ys = length xs"
  by (auto simp: map_result_Inr_iff dest: list_all2_lengthD)

lemma map_result_Inl: "map_result f xs = Inl e \<Longrightarrow> \<exists>x \<in> set xs. f x = Inl e"
  by (induction xs) (auto split: sum.splits)

lemma map_result_append:
  "map_result f (xs @ ys) =
     (case map_result f xs of
        Inl e \<Rightarrow> Inl e
      | Inr us \<Rightarrow> (case map_result f ys of Inl e \<Rightarrow> Inl e | Inr vs \<Rightarrow> Inr (us @ vs)))"
  by (induction xs) (auto split: sum.splits)

end
