(* ===== verification/GoStrings.thy ===== *)
theory GoStrings
  imports Prelude
begin

text \<open>
  The parts of Go's \<^verbatim>\<open>strings\<close>, \<^verbatim>\<open>strconv\<close> and \<^verbatim>\<open>bufio\<close> packages that the repository calls.
  A Go string is a sequence of bytes, so it is a \<^typ>\<open>string\<close> (a list of 8-bit \<^typ>\<open>char\<close>).
  White space is Unicode white space: the multi-byte UTF-8 encodings of \<^verbatim>\<open>unicode.IsSpace\<close> are
  recognised byte for byte. The lemmas give the round trips (print/parse of integers, split/join)
  on which the parsers of the Slurm agent rest.
\<close>

section \<open>Bytes and digits\<close>

definition byte :: "char \<Rightarrow> int" where
  "byte c = of_char c"

definition is_digit :: "char \<Rightarrow> bool" where
  "is_digit c \<longleftrightarrow> 48 \<le> byte c \<and> byte c \<le> 57"

definition digit_val :: "char \<Rightarrow> int" where
  "digit_val c = byte c - 48"

definition digit_char :: "int \<Rightarrow> char" where
  "digit_char d = char_of (48 + d)"

text \<open>Printable ASCII other than the space: what Slurm's field names and most values are made of.\<close>

definition graphic :: "char \<Rightarrow> bool" where
  "graphic c \<longleftrightarrow> 33 \<le> byte c \<and> byte c \<le> 126"

lemma byte_digit_char: "0 \<le> d \<Longrightarrow> d < 10 \<Longrightarrow> byte (digit_char d) = 48 + d"
  by (simp add: byte_def digit_char_def)

lemma is_digit_digit_char [simp]: "0 \<le> d \<Longrightarrow> d < 10 \<Longrightarrow> is_digit (digit_char d)"
  by (simp add: is_digit_def byte_digit_char)

lemma digit_val_digit_char [simp]: "0 \<le> d \<Longrightarrow> d < 10 \<Longrightarrow> digit_val (digit_char d) = d"
  by (simp add: digit_val_def byte_digit_char)

lemma digit_val_bounds: "is_digit c \<Longrightarrow> 0 \<le> digit_val c \<and> digit_val c < 10"
  by (auto simp: is_digit_def digit_val_def)

lemma graphic_if_digit: "is_digit c \<Longrightarrow> graphic c"
  by (auto simp: is_digit_def graphic_def)

section \<open>strconv\<close>

text \<open>\<^verbatim>\<open>strconv.FormatInt(n, 10)\<close> and \<^verbatim>\<open>strconv.Itoa\<close>.\<close>

function dec :: "int \<Rightarrow> string" where
  "dec n = (if n < 10 then [digit_char n] else dec (n div 10) @ [digit_char (n mod 10)])"
  by pat_completeness auto
termination
  by (relation "measure nat") auto

declare dec.simps [simp del]

definition FormatInt :: "int \<Rightarrow> string" where
  "FormatInt n = (if n < 0 then ''-'' @ dec (- n) else dec n)"

abbreviation FormatInt64 :: "int64 \<Rightarrow> string" where
  "FormatInt64 w \<equiv> FormatInt (sint w)"

text \<open>
  \<^verbatim>\<open>strconv.ParseUint(s, 10, bits)\<close>: digit by digit; a value that no longer fits is a range
  error at once, even when a later byte is not a digit.
\<close>

fun parse_uint :: "nat \<Rightarrow> int \<Rightarrow> string \<Rightarrow> num_err + int" where
  "parse_uint bits n [] = Inr n"
| "parse_uint bits n (c # cs) =
     (if \<not> is_digit c then Inl ErrSyntax
      else if 2 ^ bits \<le> 10 * n + digit_val c then Inl ErrRange
      else parse_uint bits (10 * n + digit_val c) cs)"

definition ParseUint :: "nat \<Rightarrow> string \<Rightarrow> num_err + int" where
  "ParseUint bits s = (if s = [] then Inl ErrSyntax else parse_uint bits 0 s)"

text \<open>
  \<^verbatim>\<open>strconv.ParseInt(s, 10, bits)\<close>: the value and the error. A syntax error returns 0, a range
  error the nearest representable value.
\<close>

definition ParseInt :: "nat \<Rightarrow> string \<Rightarrow> int \<times> num_err option" where
  "ParseInt bits s =
     (case s of
        [] \<Rightarrow> (0, Some ErrSyntax)
      | c # cs \<Rightarrow>
          (let neg = (c = CHR ''-'');
               body = (if c = CHR ''+'' \<or> c = CHR ''-'' then cs else s)
           in case ParseUint bits body of
                Inl ErrSyntax \<Rightarrow> (0, Some ErrSyntax)
              | Inl ErrRange \<Rightarrow>
                  (if neg then - (2 ^ (bits - 1)) else 2 ^ (bits - 1) - 1, Some ErrRange)
              | Inr un \<Rightarrow>
                  if \<not> neg \<and> 2 ^ (bits - 1) \<le> un then (2 ^ (bits - 1) - 1, Some ErrRange)
                  else if neg \<and> 2 ^ (bits - 1) < un then (- (2 ^ (bits - 1)), Some ErrRange)
                  else (if neg then - un else un, None)))"

text \<open>The three ways the code uses the result: with its error, as \<^verbatim>\<open>Atoi\<close>, and ignoring it.\<close>

definition parse_as :: "string \<Rightarrow> string \<Rightarrow> int64 result" where
  "parse_as fn s =
     (case ParseInt 64 s of
        (v, None) \<Rightarrow> Inr (word_of_int v)
      | (v, Some e) \<Rightarrow> Inl (NumError fn s e))"

definition ParseInt64 :: "string \<Rightarrow> int64 result" where
  "ParseInt64 s = parse_as ''ParseInt'' s"

definition Atoi :: "string \<Rightarrow> int64 result" where
  "Atoi s = parse_as ''Atoi'' s"

definition ParseInt64_value :: "string \<Rightarrow> int64" where
  "ParseInt64_value s = word_of_int (fst (ParseInt 64 s))"

subsection \<open>Printing and parsing integers\<close>

lemma dec_not_Nil [simp]: "dec n \<noteq> []"
  by (subst dec.simps) simp

lemma dec_digits: "c \<in> set (dec n) \<Longrightarrow> 0 \<le> n \<Longrightarrow> is_digit c"
proof (induction n rule: dec.induct)
  case (1 n)
  then show ?case
    by (cases "n < 10") (auto simp: dec.simps [of n])
qed

lemma parse_uint_append:
  "parse_uint bits n (xs @ ys) =
     (case parse_uint bits n xs of Inl e \<Rightarrow> Inl e | Inr m \<Rightarrow> parse_uint bits m ys)"
  by (induction bits n xs rule: parse_uint.induct) auto

lemma parse_uint_dec: "0 \<le> n \<Longrightarrow> n < 2 ^ bits \<Longrightarrow> parse_uint bits 0 (dec n) = Inr n"
proof (induction n rule: dec.induct)
  case (1 n)
  show ?case
  proof (cases "n < 10")
    case True
    with "1.prems" show ?thesis by (simp add: dec.simps [of n])
  next
    case False
    with 1 have "parse_uint bits 0 (dec (n div 10)) = Inr (n div 10)"
      by simp
    with False "1.prems" show ?thesis
      by (simp add: dec.simps [of n] parse_uint_append)
  qed
qed

lemma ParseUint_dec: "0 \<le> n \<Longrightarrow> n < 2 ^ bits \<Longrightarrow> ParseUint bits (dec n) = Inr n"
  by (simp add: ParseUint_def parse_uint_dec)

lemma not_digit_signs [simp]: "\<not> is_digit CHR ''-''" "\<not> is_digit CHR ''+''"
  by (simp_all add: is_digit_def byte_def)

lemma dec_head:
  assumes "0 \<le> n"
  obtains c cs where "dec n = c # cs" and "is_digit c"
  using assms by (metis dec_digits dec_not_Nil list.exhaust list.set_intros(1))

lemma ParseInt_FormatInt:
  assumes "in_int64 n"
  shows "ParseInt 64 (FormatInt n) = (n, None)"
proof (cases "n < 0")
  case True
  with assms show ?thesis
    by (simp add: FormatInt_def ParseInt_def ParseUint_dec in_int64_def)
next
  case False
  with assms have n: "0 \<le> n" "n < 2 ^ 63" by (simp_all add: in_int64_def)
  obtain c cs where c: "dec n = c # cs" "is_digit c" using n(1) by (rule dec_head)
  then have "c \<noteq> CHR ''-''" "c \<noteq> CHR ''+''" by auto
  with False n c ParseUint_dec [of n 64] show ?thesis
    by (simp add: FormatInt_def ParseInt_def)
qed

lemma parse_as_FormatInt64 [simp]: "parse_as fn (FormatInt64 w) = Inr w"
  by (simp add: parse_as_def ParseInt_FormatInt)

lemma ParseInt64_FormatInt64 [simp]: "ParseInt64 (FormatInt64 w) = Inr w"
  by (simp add: ParseInt64_def)

lemma Atoi_FormatInt64 [simp]: "Atoi (FormatInt64 w) = Inr w"
  by (simp add: Atoi_def)

lemma ParseInt64_value_FormatInt64 [simp]: "ParseInt64_value (FormatInt64 w) = w"
  by (simp add: ParseInt64_value_def ParseInt_FormatInt)

lemma FormatInt64_inject [simp]: "FormatInt64 v = FormatInt64 w \<longleftrightarrow> v = w"
  by (metis ParseInt64_value_FormatInt64)

lemma FormatInt_not_Nil [simp]: "FormatInt n \<noteq> []"
  by (simp add: FormatInt_def)

lemma FormatInt_graphic: "c \<in> set (FormatInt n) \<Longrightarrow> is_digit c \<or> c = CHR ''-''"
  by (auto simp: FormatInt_def dest!: dec_digits split: if_splits)

lemma parse_uint_bound:
  "parse_uint bits n s = Inr m \<Longrightarrow> 0 \<le> n \<Longrightarrow> n < 2 ^ bits \<Longrightarrow> 0 \<le> m \<and> m < 2 ^ bits"
  by (induction bits n s rule: parse_uint.induct) (auto dest: digit_val_bounds split: if_splits)

lemma ParseUint_bound: "ParseUint bits s = Inr m \<Longrightarrow> 0 \<le> m \<and> m < 2 ^ bits"
  by (auto simp: ParseUint_def dest: parse_uint_bound split: if_splits)

lemma ParseInt_range:
  assumes "ParseInt 64 s = (v, e)"
  shows "in_int64 v"
proof -
  have "in_int64 (fst (ParseInt 64 s))"
    by (auto simp: ParseInt_def in_int64_def Let_def dest!: ParseUint_bound
        split: list.split sum.split num_err.split)
  with assms show ?thesis by simp
qed

section \<open>strings\<close>

definition HasPrefix :: "string \<Rightarrow> string \<Rightarrow> bool" where
  "HasPrefix s p = prefix p s"

definition HasSuffix :: "string \<Rightarrow> string \<Rightarrow> bool" where
  "HasSuffix s p = suffix p s"

definition TrimPrefix :: "string \<Rightarrow> string \<Rightarrow> string" where
  "TrimPrefix s p = (if HasPrefix s p then drop (length p) s else s)"

definition Contains :: "string \<Rightarrow> string \<Rightarrow> bool" where
  "Contains s p = sublist p s"

text \<open>\<^verbatim>\<open>strings.IndexByte\<close>: the first position of a byte, -1 when there is none.\<close>

definition IndexByte :: "string \<Rightarrow> char \<Rightarrow> int" where
  "IndexByte s c =
     (if c \<in> set s then int (length (takeWhile (\<lambda>x. x \<noteq> c) s)) else -1)"

text \<open>
  \<^verbatim>\<open>strings.Split(s, sep)\<close>: cut at every leftmost, non-overlapping occurrence of \<open>sep\<close>;
  \<open>acc\<close> is the current piece, reversed. The code never passes an empty separator.
\<close>

function split_aux :: "string \<Rightarrow> string \<Rightarrow> string \<Rightarrow> string list" where
  "split_aux sep acc s =
     (case s of
        [] \<Rightarrow> [rev acc]
      | c # cs \<Rightarrow>
          if sep \<noteq> [] \<and> prefix sep s then rev acc # split_aux sep [] (drop (length sep) s)
          else split_aux sep (c # acc) cs)"
  by pat_completeness auto
termination
  by (relation "measure (\<lambda>(sep, acc, s). length s)") (auto split: list.splits)

declare split_aux.simps [simp del]

definition Split :: "string \<Rightarrow> string \<Rightarrow> string list" where
  "Split s sep = split_aux sep [] s"

text \<open>\<^verbatim>\<open>strings.Join\<close>.\<close>

fun Join :: "string list \<Rightarrow> string \<Rightarrow> string" where
  "Join [] sep = []"
| "Join [x] sep = x"
| "Join (x # y # ys) sep = x @ sep @ Join (y # ys) sep"

text \<open>
  The length in bytes of the white-space rune a string starts with (0 if it starts with none):
  the ASCII spaces, U+0085, U+00A0, U+1680, U+2000 to U+200A, U+2028, U+2029, U+202F, U+205F
  and U+3000 in UTF-8.
\<close>

definition space_len :: "string \<Rightarrow> nat" where
  "space_len s =
     (case s of
        [] \<Rightarrow> 0
      | a # s1 \<Rightarrow>
          if byte a \<in> {9, 10, 11, 12, 13, 32} then 1
          else case s1 of
              [] \<Rightarrow> 0
            | b # s2 \<Rightarrow>
                if byte a = 194 \<and> byte b \<in> {133, 160} then 2
                else case s2 of
                    [] \<Rightarrow> 0
                  | c # _ \<Rightarrow>
                      if byte a = 225 \<and> byte b = 154 \<and> byte c = 128
                       \<or> byte a = 226 \<and> byte b = 128 \<and>
                           (128 \<le> byte c \<and> byte c \<le> 138 \<or> byte c \<in> {168, 169, 175})
                       \<or> byte a = 226 \<and> byte b = 129 \<and> byte c = 159
                       \<or> byte a = 227 \<and> byte b = 128 \<and> byte c = 128
                      then 3 else 0)"

text \<open>The length of the white-space rune a string ends with.\<close>

definition space_suffix_len :: "string \<Rightarrow> nat" where
  "space_suffix_len s =
     (if space_len (drop (length s - 1) s) = 1 then 1
      else if space_len (drop (length s - 2) s) = 2 then 2
      else if space_len (drop (length s - 3) s) = 3 then 3
      else 0)"

function trim_left_space :: "string \<Rightarrow> string" where
  "trim_left_space s =
     (if s \<noteq> [] \<and> 0 < space_len s then trim_left_space (drop (space_len s) s) else s)"
  by pat_completeness auto
termination
  by (relation "measure length") auto

function trim_right_space :: "string \<Rightarrow> string" where
  "trim_right_space s =
     (if s \<noteq> [] \<and> 0 < space_suffix_len s
      then trim_right_space (take (length s - space_suffix_len s) s) else s)"
  by pat_completeness auto
termination
  by (relation "measure length") auto

declare trim_left_space.simps [simp del] trim_right_space.simps [simp del]

definition TrimSpace :: "string \<Rightarrow> string" where
  "TrimSpace s = trim_right_space (trim_left_space s)"

text \<open>\<^verbatim>\<open>strings.Trim(s, cutset)\<close> for a cutset of ASCII bytes.\<close>

definition Trim :: "string \<Rightarrow> string \<Rightarrow> string" where
  "Trim s cutset =
     rev (dropWhile (\<lambda>c. c \<in> set cutset) (rev (dropWhile (\<lambda>c. c \<in> set cutset) s)))"

text \<open>\<^verbatim>\<open>strings.Fields\<close>: the maximal runs of non-space text.\<close>

function fields_aux :: "string \<Rightarrow> string \<Rightarrow> string list" where
  "fields_aux acc s =
     (case s of
        [] \<Rightarrow> if acc = [] then [] else [rev acc]
      | c # cs \<Rightarrow>
          if 0 < space_len s
          then (if acc = [] then [] else [rev acc]) @ fields_aux [] (drop (space_len s) s)
          else fields_aux (c # acc) cs)"
  by pat_completeness auto
termination
  by (relation "measure (\<lambda>(acc, s). length s)") (auto split: list.splits)

declare fields_aux.simps [simp del]

definition Fields :: "string \<Rightarrow> string list" where
  "Fields s = fields_aux [] s"

text \<open>
  \<^verbatim>\<open>strings.ToLower\<close>, as far as a comparison with an ASCII string can tell: ASCII letters are
  folded, and so are the two other runes whose lower case is ASCII, U+212A (Kelvin sign, to k)
  and U+0130 (to i); every other non-ASCII rune stays non-ASCII and is left as it is.
\<close>

definition lower_char :: "char \<Rightarrow> char" where
  "lower_char c = (if 65 \<le> byte c \<and> byte c \<le> 90 then char_of (byte c + 32) else c)"

fun ToLower :: "string \<Rightarrow> string" where
  "ToLower (a # b # c # s) =
     (if byte a = 226 \<and> byte b = 132 \<and> byte c = 170 then CHR ''k'' # ToLower s
      else if byte a = 196 \<and> byte b = 176 then CHR ''i'' # ToLower (c # s)
      else lower_char a # ToLower (b # c # s))"
| "ToLower [a, b] =
     (if byte a = 196 \<and> byte b = 176 then [CHR ''i''] else [lower_char a, lower_char b])"
| "ToLower [a] = [lower_char a]"
| "ToLower [] = []"

section \<open>bufio.Scanner over lines\<close>

text \<open>
  \<^verbatim>\<open>bufio.NewScanner(strings.NewReader(s))\<close> with the default split function: the lines without
  their line feed and one trailing carriage return; an empty last line is not delivered, and the
  scan stops for good at a line that does not fit the 64 KiB buffer.
\<close>

definition MaxScanTokenSize :: int where
  "MaxScanTokenSize = 65536"

definition drop_cr :: "string \<Rightarrow> string" where
  "drop_cr l = (if l \<noteq> [] \<and> last l = CHR 0x0D then butlast l else l)"

definition raw_lines :: "string \<Rightarrow> string list" where
  "raw_lines s = (let ls = Split s [CHR 0x0A] in if last ls = [] then butlast ls else ls)"

definition scan_lines :: "string \<Rightarrow> string list" where
  "scan_lines s = map drop_cr (takeWhile (\<lambda>l. int (length l) < MaxScanTokenSize) (raw_lines s))"

section \<open>Splitting and joining\<close>

lemma split_aux_Nil [simp]: "split_aux sep acc [] = [rev acc]"
  by (subst split_aux.simps) simp

lemma split_aux_not_Nil [simp]: "split_aux sep acc s \<noteq> []"
proof (induction sep acc s rule: split_aux.induct)
  case (1 sep acc s)
  then show ?case by (auto simp: split_aux.simps [of sep acc s] split: list.split)
qed

lemma Split_not_Nil [simp]: "Split s sep \<noteq> []"
  by (simp add: Split_def)

lemma Join_Cons: "xs \<noteq> [] \<Longrightarrow> Join (x # xs) sep = x @ sep @ Join xs sep"
  by (cases xs) simp_all

lemma Join_split_aux: "Join (split_aux sep acc s) sep = rev acc @ s"
proof (induction sep acc s rule: split_aux.induct)
  case (1 sep acc s)
  show ?case
  proof (cases s)
    case Nil
    then show ?thesis by simp
  next
    case (Cons c cs)
    show ?thesis
    proof (cases "sep \<noteq> [] \<and> prefix sep s")
      case True
      then have "s = sep @ drop (length sep) s" by (auto simp: prefix_def)
      moreover have "split_aux sep acc s = rev acc # split_aux sep [] (drop (length sep) s)"
        using True Cons by (subst split_aux.simps) simp
      ultimately show ?thesis
        using 1(1) [OF Cons True] by (simp add: Join_Cons)
    next
      case False
      then have "split_aux sep acc s = split_aux sep (c # acc) cs"
        using Cons by (subst split_aux.simps) auto
      then show ?thesis using 1(2) [OF Cons False] Cons by simp
    qed
  qed
qed

theorem Join_Split [simp]: "Join (Split s sep) sep = s"
  by (simp add: Split_def Join_split_aux)

lemma split_aux_step:
  "split_aux [d] acc (c # cs) =
     (if c = d then rev acc # split_aux [d] [] cs else split_aux [d] (c # acc) cs)"
  by (subst split_aux.simps) auto

lemma split_aux_free:
  "d \<notin> set x \<Longrightarrow> split_aux [d] acc (x @ s) = split_aux [d] (rev x @ acc) s"
  by (induction x arbitrary: acc) (auto simp: split_aux_step)

lemma split_aux_sep: "split_aux [d] acc (d # s) = rev acc # split_aux [d] [] s"
  by (simp add: split_aux_step)

lemma Split_free: "d \<notin> set x \<Longrightarrow> Split x [d] = [x]"
  using split_aux_free [of d x "[]" "[]"] by (simp add: Split_def)

lemma Split_Cons: "d \<notin> set x \<Longrightarrow> Split (x @ d # s) [d] = x # Split s [d]"
  by (simp add: Split_def split_aux_free split_aux_sep)

theorem Split_Join:
  assumes "xs \<noteq> []" and "\<forall>x \<in> set xs. d \<notin> set x"
  shows "Split (Join xs [d]) [d] = xs"
  using assms by (induction xs "[d]" rule: Join.induct) (simp_all add: Split_free Split_Cons)

lemma Split_pair: "d \<notin> set k \<Longrightarrow> d \<notin> set v \<Longrightarrow> Split (k @ d # v) [d] = [k, v]"
  by (simp add: Split_Cons Split_free)

lemma length_split_aux: "length (split_aux [d] acc s) = Suc (count_list s d)"
  by (induction s arbitrary: acc) (simp_all add: split_aux_step)

lemma length_Split: "length (Split s [d]) = Suc (count_list s d)"
  by (simp add: Split_def length_split_aux)

lemma split_aux_pieces:
  "x \<in> set (split_aux [d] acc s) \<Longrightarrow> d \<notin> set acc \<Longrightarrow> d \<notin> set x"
proof (induction s arbitrary: acc)
  case Nil
  then show ?case by simp
next
  case (Cons c s)
  then show ?case
    by (cases "c = d") (auto simp: split_aux_step dest: Cons.IH)
qed

lemma Split_pieces: "x \<in> set (Split s [d]) \<Longrightarrow> d \<notin> set x"
  by (auto simp: Split_def dest: split_aux_pieces)

text \<open>A field has exactly two pieces iff it is one key and one value around a single separator.\<close>

lemma Split_two_iff:
  "Split s [d] = [k, v] \<longleftrightarrow> s = k @ d # v \<and> d \<notin> set k \<and> d \<notin> set v"
proof
  assume split: "Split s [d] = [k, v]"
  have "s = Join (Split s [d]) [d]" by (rule Join_Split [symmetric])
  also have "\<dots> = k @ d # v" by (simp add: split)
  finally show "s = k @ d # v \<and> d \<notin> set k \<and> d \<notin> set v"
    using Split_pieces [of k s d] Split_pieces [of v s d] split by simp
qed (simp add: Split_pair)

text \<open>The same for the two-byte separators (blank lines): blocks without an empty line inside.\<close>

fun block :: "char \<Rightarrow> string \<Rightarrow> bool" where
  "block d [] = True"
| "block d [x] = (x \<noteq> d)"
| "block d (x # y # s) = (\<not> (x = d \<and> y = d) \<and> block d (y # s))"

lemma split_aux_two:
  "split_aux [d, d] acc (c # cs) =
     (if c = d \<and> cs \<noteq> [] \<and> hd cs = d then rev acc # split_aux [d, d] [] (tl cs)
      else split_aux [d, d] (c # acc) cs)"
  by (subst split_aux.simps) (cases cs; auto)

lemma split_aux_block:
  "block d x \<Longrightarrow> split_aux [d, d] acc (x @ d # d # s) = (rev acc @ x) # split_aux [d, d] [] s"
  by (induction d x arbitrary: acc rule: block.induct) (auto simp: split_aux_two)

lemma split_aux_block_end: "block d x \<Longrightarrow> split_aux [d, d] acc x = [rev acc @ x]"
  by (induction d x arbitrary: acc rule: block.induct) (auto simp: split_aux_two)

theorem Split_Join_blocks:
  assumes "xs \<noteq> []" and "\<forall>x \<in> set xs. block d x"
  shows "Split (Join xs [d, d]) [d, d] = xs"
  using assms
  by (induction xs "[d, d]" rule: Join.induct)
     (simp_all add: Split_def split_aux_block split_aux_block_end)

section \<open>Fields and white space\<close>

definition blank :: "char \<Rightarrow> bool" where
  "blank c \<longleftrightarrow> byte c \<in> {9, 10, 11, 12, 13, 32}"

lemma blank_simps [simp]: "blank CHR '' ''" "blank CHR 0x0A" "blank CHR 0x09"
  by (simp_all add: blank_def byte_def)

lemma space_len_blank: "blank c \<Longrightarrow> space_len (c # s) = 1"
  by (simp add: space_len_def blank_def)

lemma space_len_graphic: "graphic c \<Longrightarrow> space_len (c # s) = 0"
  by (auto simp: space_len_def graphic_def split: list.split)

lemma fields_aux_Nil [simp]: "fields_aux acc [] = (if acc = [] then [] else [rev acc])"
  by (subst fields_aux.simps) simp

lemma fields_aux_blank:
  "blank c \<Longrightarrow> fields_aux acc (c # s) = (if acc = [] then [] else [rev acc]) @ fields_aux [] s"
  by (subst fields_aux.simps) (simp add: space_len_blank)

lemma fields_aux_graphic: "graphic c \<Longrightarrow> fields_aux acc (c # s) = fields_aux (c # acc) s"
  by (subst fields_aux.simps) (simp add: space_len_graphic)

lemma fields_aux_word:
  "\<forall>c \<in> set w. graphic c \<Longrightarrow> fields_aux acc (w @ s) = fields_aux (rev w @ acc) s"
  by (induction w arbitrary: acc) (simp_all add: fields_aux_graphic)

lemma Fields_blank: "blank c \<Longrightarrow> Fields (c # s) = Fields s"
  by (simp add: Fields_def fields_aux_blank)

lemma Fields_word:
  assumes "\<forall>c \<in> set w. graphic c" and "w \<noteq> []" and "blank c"
  shows "Fields (w @ c # s) = w # Fields s"
  using assms by (simp add: Fields_def fields_aux_word fields_aux_blank)

lemma Fields_last_word:
  assumes "\<forall>c \<in> set w. graphic c" and "w \<noteq> []"
  shows "Fields w = [w]"
  using fields_aux_word [of w "[]" "[]"] assms by (simp add: Fields_def)

theorem Fields_Join:
  assumes "\<forall>w \<in> set ws. w \<noteq> [] \<and> (\<forall>c \<in> set w. graphic c)" and "blank b"
  shows "Fields (Join ws [b]) = ws"
  using assms
  by (induction ws "[b]" rule: Join.induct)
     (simp_all add: Fields_word Fields_last_word Fields_def [of "[]"])

lemma fields_aux_not_Nil: "w \<in> set (fields_aux acc s) \<Longrightarrow> w \<noteq> []"
proof (induction acc s rule: fields_aux.induct)
  case (1 acc s)
  then show ?case
    by (auto simp: fields_aux.simps [of acc s] split: list.splits if_splits)
qed

lemma Fields_not_Nil: "w \<in> set (Fields s) \<Longrightarrow> w \<noteq> []"
  by (auto simp: Fields_def dest: fields_aux_not_Nil)

lemma trim_left_graphic: "graphic c \<Longrightarrow> trim_left_space (c # s) = c # s"
  by (subst trim_left_space.simps) (simp add: space_len_graphic)

lemma space_len_le: "space_len s \<le> length s"
  by (auto simp: space_len_def split: list.split)

lemma space_len_last:
  assumes "graphic c" and "length a \<le> 2"
  shows "space_len (a @ [c]) \<noteq> Suc (length a)"
proof -
  from assms(2) consider "a = []" | x where "a = [x]" | x y where "a = [x, y]"
    by (cases a; cases "tl a"; cases "tl (tl a)") auto
  then show ?thesis
    using assms(1) by cases (auto simp: space_len_def graphic_def)
qed

lemma space_suffix_graphic:
  assumes "graphic c"
  shows "space_suffix_len (s @ [c]) = 0"
proof -
  have "space_len (drop (length s - k) s @ [c]) \<noteq> Suc k" if "k \<le> 2" for k
  proof (cases "k \<le> length s")
    case True
    then show ?thesis using space_len_last [OF assms, of "drop (length s - k) s"] that by simp
  next
    case False
    then show ?thesis using space_len_le [of "s @ [c]"] by simp
  qed
  from this [of 0] this [of 1] this [of 2] show ?thesis
    by (simp add: space_suffix_len_def numeral_2_eq_2 numeral_3_eq_3)
qed

lemma trim_right_graphic: "graphic c \<Longrightarrow> trim_right_space (s @ [c]) = s @ [c]"
  by (subst trim_right_space.simps) (simp add: space_suffix_graphic)

text \<open>Text that starts and ends with a printable byte is left alone by \<^const>\<open>TrimSpace\<close>.\<close>

lemma TrimSpace_id:
  assumes "s \<noteq> []" and "graphic (hd s)" and "graphic (last s)"
  shows "TrimSpace s = s"
proof -
  have "trim_left_space s = s"
    using trim_left_graphic [of "hd s" "tl s"] assms by simp
  moreover have "trim_right_space s = s"
    using trim_right_graphic [of "last s" "butlast s"] assms by simp
  ultimately show ?thesis by (simp add: TrimSpace_def)
qed

lemma FormatInt_is_graphic: "c \<in> set (FormatInt n) \<Longrightarrow> graphic c"
  by (auto dest!: FormatInt_graphic simp: graphic_if_digit) (simp add: graphic_def byte_def)

lemma TrimSpace_FormatInt [simp]: "TrimSpace (FormatInt n) = FormatInt n"
  by (rule TrimSpace_id)
     (auto intro: FormatInt_is_graphic [where n = n] simp: hd_in_set)

text \<open>Trimming does not change the fields: white space at either end is skipped anyway.\<close>

lemma space_len_Nil [simp]: "space_len [] = 0"
  by (simp add: space_len_def)

lemma fields_aux_space:
  "0 < space_len s \<Longrightarrow>
     fields_aux acc s = (if acc = [] then [] else [rev acc]) @ fields_aux [] (drop (space_len s) s)"
  by (subst fields_aux.simps) (auto split: list.split)

lemma fields_aux_other: "space_len (c # cs) = 0 \<Longrightarrow> fields_aux acc (c # cs) = fields_aux (c # acc) cs"
  by (subst fields_aux.simps) simp

lemma Fields_space: "0 < space_len s \<Longrightarrow> Fields s = Fields (drop (space_len s) s)"
  by (simp add: Fields_def fields_aux_space)

lemma Fields_trim_left: "Fields (trim_left_space s) = Fields s"
proof (induction s rule: trim_left_space.induct)
  case (1 s)
  then show ?case
    using Fields_space [of s] by (auto simp: trim_left_space.simps [of s])
qed

lemma space_len_append:
  assumes "t \<noteq> []" and "r \<noteq> []" and "\<not> (128 \<le> byte (hd r) \<and> byte (hd r) \<le> 191)"
  shows "space_len (t @ r) = space_len t"
  using assms by (cases t; cases "tl t"; cases "tl (tl t)") (auto simp: space_len_def split: list.split)

lemma space_len_head:
  "0 < space_len r \<Longrightarrow> r \<noteq> [] \<and> \<not> (128 \<le> byte (hd r) \<and> byte (hd r) \<le> 191)"
  by (auto simp: space_len_def split: list.splits if_splits)

lemma fields_aux_trailing:
  assumes "space_len r = length r" and "r \<noteq> []"
  shows "fields_aux acc (s @ r) = fields_aux acc s"
proof (induction acc s rule: fields_aux.induct)
  case (1 acc s)
  have r: "0 < space_len r" using assms by simp
  show ?case
  proof (cases s)
    case Nil
    with r assms show ?thesis by (simp add: fields_aux_space)
  next
    case (Cons c cs)
    then have len: "space_len (s @ r) = space_len s"
      using space_len_append [of s r] space_len_head [OF r] by simp
    show ?thesis
    proof (cases "0 < space_len s")
      case True
      have "drop (space_len s) (s @ r) = drop (space_len s) s @ r"
        using space_len_le [of s] by simp
      with True len 1(1) [OF Cons True] show ?thesis
        by (simp add: fields_aux_space)
    next
      case False
      with len Cons 1(2) [OF Cons False] show ?thesis
        by (simp add: fields_aux_other)
    qed
  qed
qed

lemma space_suffix_len_spec:
  assumes "0 < space_suffix_len s"
  shows "space_len (drop (length s - space_suffix_len s) s) = space_suffix_len s"
    and "space_suffix_len s \<le> length s"
proof -
  show len: "space_len (drop (length s - space_suffix_len s) s) = space_suffix_len s"
    using assms by (auto simp: space_suffix_len_def split: if_splits)
  show "space_suffix_len s \<le> length s"
    using space_len_le [of "drop (length s - space_suffix_len s) s"] len by simp
qed

lemma Fields_trim_right: "Fields (trim_right_space s) = Fields s"
proof (induction s rule: trim_right_space.induct)
  case (1 s)
  show ?case
  proof (cases "s \<noteq> [] \<and> 0 < space_suffix_len s")
    case True
    define k where "k = length s - space_suffix_len s"
    have k: "space_len (drop k s) = length (drop k s)" "drop k s \<noteq> []"
      using True space_suffix_len_spec [of s] by (auto simp: k_def)
    have "Fields (take k s @ drop k s) = Fields (take k s)"
      unfolding Fields_def using k by (rule fields_aux_trailing)
    with True 1 show ?thesis by (simp add: trim_right_space.simps [of s] k_def)
  next
    case False
    then show ?thesis by (auto simp: trim_right_space.simps [of s])
  qed
qed

theorem Fields_TrimSpace [simp]: "Fields (TrimSpace s) = Fields s"
  by (simp add: TrimSpace_def Fields_trim_left Fields_trim_right)


section \<open>Lines\<close>

definition script_line :: "string \<Rightarrow> bool" where
  "script_line l \<longleftrightarrow>
     CHR 0x0A \<notin> set l \<and> int (length l) < MaxScanTokenSize \<and> (l = [] \<or> last l \<noteq> CHR 0x0D)"

theorem scan_lines_Join:
  assumes "ls \<noteq> []" and "\<forall>l \<in> set ls. script_line l" and "last ls \<noteq> []"
  shows "scan_lines (Join ls [CHR 0x0A]) = ls"
proof -
  have "Split (Join ls [CHR 0x0A]) [CHR 0x0A] = ls"
    using assms by (intro Split_Join) (auto simp: script_line_def)
  moreover have "map drop_cr (takeWhile (\<lambda>l. int (length l) < MaxScanTokenSize) ls) = ls"
  proof -
    have "takeWhile (\<lambda>l. int (length l) < MaxScanTokenSize) ls = ls"
      using assms(2) by (intro takeWhile_eq_all_conv [THEN iffD2]) (auto simp: script_line_def)
    moreover have "map drop_cr ls = ls"
      using assms(2) by (intro map_idI) (auto simp: script_line_def drop_cr_def)
    ultimately show ?thesis by (simp only:)
  qed
  ultimately show ?thesis using assms(3) by (simp add: scan_lines_def raw_lines_def)
qed

section \<open>Quoting\<close>

text \<open>\<^verbatim>\<open>%q\<close>: control characters and quotes are escaped; bytes from 128 are those of printable letters.\<close>

definition hex_digit :: "nat \<Rightarrow> char" where
  "hex_digit n = ''0123456789abcdef'' ! n"

definition quote_char :: "char \<Rightarrow> string" where
  "quote_char c =
     (if c = CHR 0x22 \<or> c = CHR 0x5C then [CHR 0x5C, c]
      else if c = CHR 0x07 then CHR 0x5C # ''a'' else if c = CHR 0x08 then CHR 0x5C # ''b''
      else if c = CHR 0x09 then CHR 0x5C # ''t'' else if c = CHR 0x0A then CHR 0x5C # ''n''
      else if c = CHR 0x0B then CHR 0x5C # ''v'' else if c = CHR 0x0C then CHR 0x5C # ''f''
      else if c = CHR 0x0D then CHR 0x5C # ''r''
      else if of_char c < (32 :: nat) \<or> c = CHR 0x7F
      then CHR 0x5C # CHR ''x'' # [hex_digit (of_char c div 16), hex_digit (of_char c mod 16)]
      else [c])"

definition go_quote :: "string \<Rightarrow> string" where
  "go_quote s = CHR 0x22 # concat (map quote_char s) @ [CHR 0x22]"

end
