(* ===== verification/GoTime.thy ===== *)
theory GoTime
  imports GoStrings "HOL-Library.Monad_Syntax"
begin

text \<open>
  The parts of Go's \<^verbatim>\<open>time\<close> package that the repository uses: instants, durations, and
  \<^verbatim>\<open>time.Parse\<close> for the one layout the Slurm agent parses, \<^verbatim>\<open>2006-01-02T15:04:05\<close>, with the
  details of the library's parser (a one-digit hour and a fraction of a second are accepted, the
  day is checked against the month's length at the end).
\<close>

section \<open>Instants and durations\<close>

text \<open>An instant (\<^verbatim>\<open>time.Time\<close> in UTC) is its number of nanoseconds since the Unix epoch.\<close>

type_synonym go_time = int

text \<open>\<^verbatim>\<open>time.Duration\<close> is an \<^verbatim>\<open>int64\<close> of nanoseconds.\<close>

type_synonym duration = int64

abbreviation Second :: duration where "Second \<equiv> 1000000000"
abbreviation Minute :: duration where "Minute \<equiv> 60000000000"
abbreviation Hour :: duration where "Hour \<equiv> 3600000000000"

section \<open>The calendar\<close>

definition is_leap :: "int \<Rightarrow> bool" where
  "is_leap y \<longleftrightarrow> 4 dvd y \<and> (\<not> 100 dvd y \<or> 400 dvd y)"

definition daysIn :: "int \<Rightarrow> int \<Rightarrow> int" where
  "daysIn m y =
     (if m = 2 then (if is_leap y then 29 else 28)
      else if m \<in> {4, 6, 9, 11} then 30 else 31)"

text \<open>Days before a month in its year, and before a year since year 0.\<close>

definition days_before_month :: "int \<Rightarrow> int \<Rightarrow> int" where
  "days_before_month m y =
     [0, 31, 59, 90, 120, 151, 181, 212, 243, 273, 304, 334] ! nat (m - 1) +
     (if 2 < m \<and> is_leap y then 1 else 0)"

definition days_before_year :: "int \<Rightarrow> int" where
  "days_before_year y = 365 * y + (y + 3) div 4 - (y + 99) div 100 + (y + 399) div 400"

definition unix_days :: "int \<Rightarrow> int \<Rightarrow> int \<Rightarrow> int" where
  "unix_days y m d = days_before_year y + days_before_month m y + (d - 1) - 719528"

definition date_time :: "int \<Rightarrow> int \<Rightarrow> int \<Rightarrow> int \<Rightarrow> int \<Rightarrow> int \<Rightarrow> int \<Rightarrow> go_time" where
  "date_time y m d hh mm ss ns =
     (((unix_days y m d * 24 + hh) * 60 + mm) * 60 + ss) * 1000000000 + ns"

text \<open>The calendar is right: the days of a month are consecutive, and so are months and years.\<close>

lemma unix_days_epoch: "unix_days 1970 1 1 = 0"
  by (simp add: unix_days_def days_before_year_def days_before_month_def)

lemma unix_days_next_day: "unix_days y m (d + 1) = unix_days y m d + 1"
  by (simp add: unix_days_def)

lemma month_cases:
  "1 \<le> (m :: int) \<Longrightarrow> m \<le> 12 \<Longrightarrow>
     m = 1 \<or> m = 2 \<or> m = 3 \<or> m = 4 \<or> m = 5 \<or> m = 6 \<or> m = 7 \<or> m = 8 \<or> m = 9 \<or>
     m = 10 \<or> m = 11 \<or> m = 12"
  by presburger

lemma unix_days_next_month:
  assumes "1 \<le> m" and "m < 12"
  shows "unix_days y (m + 1) 1 = unix_days y m (daysIn m y) + 1"
proof -
  from assms have "m \<le> 12" by simp
  from month_cases [OF assms(1) this] assms(2) show ?thesis
    by (elim disjE; simp add: unix_days_def days_before_month_def daysIn_def)
qed

lemma ceil_div_Suc:
  fixes y k :: int
  assumes "0 < k"
  shows "(y + k) div k = (y + (k - 1)) div k + of_bool (k dvd y)"
proof -
  define q r where "q = y div k" and "r = y mod k"
  have y: "y = q * k + r" by (simp add: q_def r_def)
  have r: "0 \<le> r" "r < k" using assms by (simp_all add: r_def)
  have "(y + k) div k = q + 1"
    using assms by (simp add: q_def div_add_self2)
  moreover have "(y + (k - 1)) div k = q + (r + (k - 1)) div k"
  proof -
    have "y + (k - 1) = (r + (k - 1)) + q * k" by (simp add: y)
    then show ?thesis using assms by (simp only: div_mult_self1)
  qed
  moreover have "(r + (k - 1)) div k = (if r = 0 then 0 else 1)"
    using r by (auto intro: div_pos_pos_trivial simp: div_add_self2 [symmetric] int_div_pos_eq)
  moreover have "k dvd y \<longleftrightarrow> r = 0" by (simp add: r_def dvd_eq_mod_eq_0)
  ultimately show ?thesis by simp
qed

lemma days_before_year_Suc:
  "days_before_year (y + 1) = days_before_year y + (if is_leap y then 366 else 365)"
proof -
  define a b c where "a \<longleftrightarrow> 4 dvd y" and "b \<longleftrightarrow> 100 dvd y" and "c \<longleftrightarrow> 400 dvd y"
  have "4 dvd (100 :: int)" "100 dvd (400 :: int)" by simp_all
  then have "b \<longrightarrow> a" and "c \<longrightarrow> b"
    unfolding a_def b_def c_def by (blast intro: dvd_trans)+
  then have leap: "(if is_leap y then 366 else 365 :: int) =
      365 + of_bool a - of_bool b + of_bool c"
    unfolding is_leap_def a_def [symmetric] b_def [symmetric] c_def [symmetric]
    by (cases a; cases b; cases c) simp_all
  have "days_before_year (y + 1) =
      365 * y + 365 + (y + 4) div 4 - (y + 100) div 100 + (y + 400) div 400"
    unfolding days_before_year_def by (simp only: ring_distribs add.assoc) simp
  moreover have "(y + 4) div 4 = (y + 3) div 4 + of_bool a"
    "(y + 100) div 100 = (y + 99) div 100 + of_bool b"
    "(y + 400) div 400 = (y + 399) div 400 + of_bool c"
    using ceil_div_Suc [of 4 y] ceil_div_Suc [of 100 y] ceil_div_Suc [of 400 y]
    by (simp_all only: a_def b_def c_def)
  ultimately show ?thesis
    unfolding days_before_year_def leap by linarith
qed

lemma unix_days_next_year:
  "unix_days (y + 1) 1 1 = unix_days y 12 (daysIn 12 y) + 1"
  by (simp add: unix_days_def days_before_year_Suc days_before_month_def daysIn_def)

section \<open>time.Parse\<close>

definition slurmTimeLayout :: string where
  "slurmTimeLayout = ''2006-01-02T15:04:05''"

text \<open>A literal byte of the layout.\<close>

definition lit :: "char \<Rightarrow> string \<Rightarrow> string option" where
  "lit c s = (case s of [] \<Rightarrow> None | x # xs \<Rightarrow> if x = c then Some xs else None)"

text \<open>The library's \<^verbatim>\<open>getnum\<close>: two digits, or one when the field is not fixed-width.\<close>

definition getnum :: "bool \<Rightarrow> string \<Rightarrow> (int \<times> string) option" where
  "getnum fixed s =
     (case s of
        [] \<Rightarrow> None
      | a # s1 \<Rightarrow>
          if \<not> is_digit a then None
          else case s1 of
              [] \<Rightarrow> if fixed then None else Some (digit_val a, s1)
            | b # s2 \<Rightarrow>
                if is_digit b then Some (10 * digit_val a + digit_val b, s2)
                else if fixed then None else Some (digit_val a, s1))"

definition getyear :: "string \<Rightarrow> (int \<times> string) option" where
  "getyear s =
     (case s of
        a # b # c # d # r \<Rightarrow>
          if list_all is_digit [a, b, c, d]
          then Some (1000 * digit_val a + 100 * digit_val b + 10 * digit_val c + digit_val d, r)
          else None
      | _ \<Rightarrow> None)"

definition in_range :: "int \<Rightarrow> int \<Rightarrow> int \<Rightarrow> unit option" where
  "in_range lo hi n = (if lo \<le> n \<and> n \<le> hi then Some () else None)"

text \<open>
  After the seconds, a fraction that the layout does not mention is accepted: a period or a comma
  and digits, of which nine count.
\<close>

fun digits_val :: "int \<Rightarrow> string \<Rightarrow> int" where
  "digits_val n [] = n"
| "digits_val n (c # cs) = digits_val (10 * n + digit_val c) cs"

definition getfrac :: "string \<Rightarrow> int \<times> string" where
  "getfrac s =
     (case s of
        p # d # r \<Rightarrow>
          if p \<in> {CHR ''.'', CHR '',''} \<and> is_digit d
          then let ds = takeWhile is_digit (d # r); ns = take 9 ds
               in (digits_val 0 ns * 10 ^ (9 - length ns), drop (length ds) (d # r))
          else (0, s)
      | _ \<Rightarrow> (0, s))"

definition parse_layout :: "string \<Rightarrow> go_time option" where
  "parse_layout s0 = do {
     (y, s1) \<leftarrow> getyear s0;
     s2 \<leftarrow> lit CHR ''-'' s1;
     (mo, s3) \<leftarrow> getnum True s2;
     in_range 1 12 mo;
     s4 \<leftarrow> lit CHR ''-'' s3;
     (d, s5) \<leftarrow> getnum True s4;
     s6 \<leftarrow> lit CHR ''T'' s5;
     (hh, s7) \<leftarrow> getnum False s6;
     in_range 0 23 hh;
     s8 \<leftarrow> lit CHR '':'' s7;
     (mi, s9) \<leftarrow> getnum True s8;
     in_range 0 59 mi;
     s10 \<leftarrow> lit CHR '':'' s9;
     (ss, s11) \<leftarrow> getnum True s10;
     in_range 0 59 ss;
     let (ns, rest) = getfrac s11;
     (if rest = [] then Some () else None);
     in_range 1 (daysIn mo y) d;
     Some (date_time y mo d hh mi ss ns)
   }"

text \<open>\<^verbatim>\<open>time.Parse(slurmTimeLayout, s)\<close>.\<close>

definition time_Parse :: "string \<Rightarrow> go_time result" where
  "time_Parse s =
     (case parse_layout s of None \<Rightarrow> Inl (ParseError slurmTimeLayout s) | Some t \<Rightarrow> Inr t)"

subsection \<open>Formatting and parsing\<close>

definition two :: "int \<Rightarrow> string" where
  "two n = [digit_char (n div 10), digit_char (n mod 10)]"

definition four :: "int \<Rightarrow> string" where
  "four n = two (n div 100) @ two (n mod 100)"

text \<open>How Slurm prints a time (\<^verbatim>\<open>strftime\<close> with \<^verbatim>\<open>%FT%T\<close>).\<close>

definition slurm_time :: "int \<Rightarrow> int \<Rightarrow> int \<Rightarrow> int \<Rightarrow> int \<Rightarrow> int \<Rightarrow> string" where
  "slurm_time y mo d hh mi ss =
     four y @ ''-'' @ two mo @ ''-'' @ two d @ ''T'' @ two hh @ '':'' @ two mi @ '':'' @ two ss"

lemma lit_Cons [simp]: "lit c (c # s) = Some s"
  by (simp add: lit_def)

lemma getnum_two [simp]: "0 \<le> n \<Longrightarrow> n < 100 \<Longrightarrow> getnum b (two n @ s) = Some (n, s)"
  by (simp add: getnum_def two_def)

lemma getyear_four [simp]: "0 \<le> n \<Longrightarrow> n < 10000 \<Longrightarrow> getyear (four n @ s) = Some (n, s)"
  by (simp add: getyear_def four_def two_def) presburger

lemma in_range_ok [simp]: "lo \<le> n \<Longrightarrow> n \<le> hi \<Longrightarrow> in_range lo hi n = Some ()"
  by (simp add: in_range_def)

lemma daysIn_le: "daysIn m y \<le> 31"
  by (simp add: daysIn_def)

theorem parse_layout_slurm_time:
  assumes "0 \<le> y" "y \<le> 9999" "1 \<le> mo" "mo \<le> 12" "1 \<le> d" "d \<le> daysIn mo y"
    and "0 \<le> hh" "hh \<le> 23" "0 \<le> mi" "mi \<le> 59" "0 \<le> ss" "ss \<le> 59"
  shows "parse_layout (slurm_time y mo d hh mi ss) = Some (date_time y mo d hh mi ss 0)"
proof -
  have "d < 100" using assms(6) daysIn_le [of mo y] by simp
  moreover have "getnum True (two ss) = Some (ss, [])"
    using getnum_two [of ss True "[]"] assms by simp
  ultimately show ?thesis
    using assms by (simp add: parse_layout_def slurm_time_def getfrac_def)
qed

end
