(* ===== verification/Workload.thy ===== *)
theory Workload
  imports GoTime
begin

text \<open>
  The messages of the workload-manager service that connects the Kubernetes side with the Slurm
  agent (\<^verbatim>\<open>pkg/workload/workload.pb.go\<close>, generated from \<^verbatim>\<open>workload.proto\<close>): one record per message
  with its fields in order, one datatype per enumeration, the name tables of the enumerations and
  the nil-safe getters the code calls. A \<^verbatim>\<open>*timestamppb.Timestamp\<close> field may be nil, so it is an
  option.
\<close>

section \<open>Well-known types\<close>

record Timestamp =
  ts_Seconds :: int64
  ts_Nanos :: int32

record Duration =
  du_Seconds :: int64
  du_Nanos :: int32

section \<open>Enumerations\<close>

datatype TailAction = Start | ReadToEndAndClose

datatype JobStatus = COMPLETED | CANCELLED | FAILED | TIMEOUT | PENDING | RUNNING | UNKNOWN

definition JobStatus_name :: "JobStatus \<Rightarrow> string" where
  "JobStatus_name s =
     (case s of
        COMPLETED \<Rightarrow> ''COMPLETED''
      | CANCELLED \<Rightarrow> ''CANCELLED''
      | FAILED \<Rightarrow> ''FAILED''
      | TIMEOUT \<Rightarrow> ''TIMEOUT''
      | PENDING \<Rightarrow> ''PENDING''
      | RUNNING \<Rightarrow> ''RUNNING''
      | UNKNOWN \<Rightarrow> ''UNKNOWN'')"

definition JobStatus_value :: "string \<Rightarrow> JobStatus option" where
  "JobStatus_value = map_of
     [(''COMPLETED'', COMPLETED), (''CANCELLED'', CANCELLED), (''FAILED'', FAILED),
      (''TIMEOUT'', TIMEOUT), (''PENDING'', PENDING), (''RUNNING'', RUNNING),
      (''UNKNOWN'', UNKNOWN)]"

lemma JobStatus_value_name [simp]: "JobStatus_value (JobStatus_name s) = Some s"
  by (cases s) (simp_all add: JobStatus_value_def JobStatus_name_def)

lemma JobStatus_value_Some: "JobStatus_value n = Some s \<Longrightarrow> JobStatus_name s = n"
  by (auto simp: JobStatus_value_def JobStatus_name_def split: if_splits)

section \<open>Requests and responses\<close>

record SubmitJobRequest =
  sj_Script :: string
  sj_Partition :: string
  sj_ClientId :: string
  sj_RunAsUser :: string
  sj_RunAsGroup :: string
  sj_Uid :: string
  sj_CpufsPerTask :: int64
  sj_MemPerCpu :: int64
  sj_NtasksPerNode :: int64
  sj_Array :: string
  sj_Ntasks :: int64
  sj_Nodes :: int64
  sj_JobName :: string
  sj_WorkingDir :: string

definition zero_SubmitJobRequest :: SubmitJobRequest where
  "zero_SubmitJobRequest =
     \<lparr>sj_Script = [], sj_Partition = [], sj_ClientId = [], sj_RunAsUser = [], sj_RunAsGroup = [],
      sj_Uid = [], sj_CpufsPerTask = 0, sj_MemPerCpu = 0, sj_NtasksPerNode = 0, sj_Array = [],
      sj_Ntasks = 0, sj_Nodes = 0, sj_JobName = [], sj_WorkingDir = []\<rparr>"

record SubmitJobResponse =
  sjr_JobId :: int64

record CancelJobRequest =
  cj_JobId :: int64

record JobInfoRequest =
  jir_JobId :: int64

record JobInfo =
  ji_Id :: string
  ji_UserId :: string
  ji_Name :: string
  ji_ExitCode :: string
  ji_Status :: JobStatus
  ji_SubmitTime :: "Timestamp option"
  ji_StartTime :: "Timestamp option"
  ji_RunTime :: "Duration option"
  ji_TimeLimit :: "Duration option"
  ji_WorkingDir :: string
  ji_StdOut :: string
  ji_StdErr :: string
  ji_Partition :: string
  ji_NodeList :: string
  ji_BatchHost :: string
  ji_NumNodes :: string
  ji_ArrayId :: string
  ji_Reason :: string
  ji_EndTime :: "Timestamp option"

text \<open>The zero value: the first constant of the enumeration is \<^const>\<open>COMPLETED\<close>.\<close>

definition zero_JobInfo :: JobInfo where
  "zero_JobInfo =
     \<lparr>ji_Id = [], ji_UserId = [], ji_Name = [], ji_ExitCode = [], ji_Status = COMPLETED,
      ji_SubmitTime = None, ji_StartTime = None, ji_RunTime = None, ji_TimeLimit = None,
      ji_WorkingDir = [], ji_StdOut = [], ji_StdErr = [], ji_Partition = [], ji_NodeList = [],
      ji_BatchHost = [], ji_NumNodes = [], ji_ArrayId = [], ji_Reason = [], ji_EndTime = None\<rparr>"

record JobInfoResponse =
  jr_Info :: "JobInfo list"

record JobStepsRequest =
  jsq_JobId :: int64

record JobStepInfo =
  jsi_Id :: string
  jsi_Name :: string
  jsi_ExitCode :: int32
  jsi_Status :: JobStatus
  jsi_StartTime :: "Timestamp option"
  jsi_EndTime :: "Timestamp option"

record JobStepsResponse =
  jsr_JobSteps :: "JobStepInfo list"

record OpenFileRequest =
  of_Path :: string

record TailFileRequest =
  tf_Action :: TailAction
  tf_Path :: string

record Chunk =
  ch_Content :: string

record ResourcesRequest =
  rr_Partition :: string

record WFeature =
  wf_Name :: string
  wf_Version :: string
  wf_Quantity :: int64

record ResourcesResponse =
  rs_Nodes :: int64
  rs_CpuPerNode :: int64
  rs_MemPerNode :: int64
  rs_WallTime :: int64
  rs_Features :: "WFeature list"

record PartitionsResponse =
  psr_Partition :: "string list"

record PartitionRequest =
  pq_Partition :: string

record PartitionResponse =
  pr_Nodes :: "string list"

record NodesRequest =
  nq_Nodes :: "string list"

record WNode =
  wn_Cpus :: int64
  wn_Memory :: int64
  wn_Gpus :: int64
  wn_GpuType :: string
  wn_AlloCpus :: int64
  wn_AlloMemory :: int64
  wn_AlloGpus :: int64

record NodesResponse =
  nr_Nodes :: "WNode list"

record WorkloadInfoResponse =
  wi_Name :: string
  wi_Version :: string
  wi_Uid :: int64

record SingularityOptions =
  so_App :: string
  so_AllowUnsigned :: bool
  so_Binds :: "string list"
  so_ClearEnv :: bool
  so_FakeRoot :: bool
  so_HostName :: string
  so_Ipc :: bool
  so_Pid :: bool
  so_NoPrivs :: bool
  so_Writable :: bool

record SubmitJobContainerRequest =
  sc_ImageName :: string
  sc_Nodes :: int64
  sc_CpuPerNode :: int64
  sc_MemPerNode :: int64
  sc_WallTime :: int64
  sc_Partition :: string
  sc_ClientId :: string
  sc_Options :: "SingularityOptions option"

record SubmitJobContainerResponse =
  scr_JobId :: int64

section \<open>Getters\<close>

text \<open>A getter of a nil message returns the field's zero value.\<close>

definition GetUserId :: "JobInfo option \<Rightarrow> string" where
  "GetUserId x = (case x of None \<Rightarrow> [] | Some i \<Rightarrow> ji_UserId i)"

definition GetExitCode :: "JobInfo option \<Rightarrow> string" where
  "GetExitCode x = (case x of None \<Rightarrow> [] | Some i \<Rightarrow> ji_ExitCode i)"

definition GetReason :: "JobInfo option \<Rightarrow> string" where
  "GetReason x = (case x of None \<Rightarrow> [] | Some i \<Rightarrow> ji_Reason i)"

definition GetEndTime :: "JobInfo option \<Rightarrow> Timestamp option" where
  "GetEndTime x = (case x of None \<Rightarrow> None | Some i \<Rightarrow> ji_EndTime i)"

definition GetJobId :: "SubmitJobResponse option \<Rightarrow> int64" where
  "GetJobId x = (case x of None \<Rightarrow> 0 | Some r \<Rightarrow> sjr_JobId r)"

lemmas getters [simp] = GetUserId_def GetExitCode_def GetReason_def GetEndTime_def GetJobId_def

end
