(* ===== verification/SlurmParse.thy ===== *)
theory SlurmParse
  imports Workload
begin

text \<open>
  The parsers of the Slurm agent (\<^verbatim>\<open>pkg/slurm-agent/parse.go\<close>) with the data types they fill in
  (\<^verbatim>\<open>pkg/slurm-agent/slurm.go\<close>): durations, the resources of a partition, partition names, the
  accounting records of job steps, and the node lines. A duration is a 64-bit number of nanoseconds
  and wraps as the code's does.
\<close>

section \<open>Data\<close>

record Feature =
  f_Name :: string
  f_Version :: string
  f_Quantity :: int64

record Resources =
  r_Nodes :: int64
  r_MemPerNode :: int64
  r_CPUPerNode :: int64
  r_WallTime :: duration
  r_Features :: "Feature list"

definition zero_Resources :: Resources where
  "zero_Resources =
     \<lparr>r_Nodes = 0, r_MemPerNode = 0, r_CPUPerNode = 0, r_WallTime = 0, r_Features = []\<rparr>"

record Node =
  n_Cpus :: int64
  n_Memory :: int64
  n_Gpus :: int64
  n_GpuType :: string
  n_AlloCpus :: int64
  n_AlloMemory :: int64
  n_AlloGpus :: int64

definition zero_Node :: Node where
  "zero_Node =
     \<lparr>n_Cpus = 0, n_Memory = 0, n_Gpus = 0, n_GpuType = [], n_AlloCpus = 0, n_AlloMemory = 0,
      n_AlloGpus = 0\<rparr>"

record Partition =
  p_Nodes :: "string list"

record StepInfo =
  st_ID :: string
  st_Name :: string
  st_StartedAt :: "go_time option"
  st_FinishedAt :: "go_time option"
  st_ExitCode :: int64
  st_State :: string

section \<open>ParseDuration\<close>

definition unlimited :: string where
  "unlimited = ''UNLIMITED''"

text \<open>The sum the function ends with, in 64-bit arithmetic.\<close>

definition duration_of :: "int64 \<Rightarrow> int64 \<Rightarrow> int64 \<Rightarrow> int64 \<Rightarrow> duration" where
  "duration_of days hours minutes seconds =
     Hour * 24 * days + Hour * hours + Minute * minutes + Second * seconds"

text \<open>One number of the duration, with the message its failure is wrapped in.\<close>

definition amount :: "string \<Rightarrow> string \<Rightarrow> int64 result" where
  "amount what s =
     (case ParseInt64 s of Inl e \<Rightarrow> Inl (Wrap (''invalid amount of '' @ what) e) | Inr v \<Rightarrow> Inr v)"

text \<open>The two arms on the colon-separated parts: with a dash in the first part, and without.\<close>

definition parse_dashed :: "string list \<Rightarrow> int \<Rightarrow> duration result" where
  "parse_dashed parts i =
     (let p0 = parts ! 0 in
      case amount ''days'' (take (nat i) p0) of Inl e \<Rightarrow> Inl e | Inr days \<Rightarrow>
      case amount ''hours'' (drop (nat i + 1) p0) of Inl e \<Rightarrow> Inl e | Inr hours \<Rightarrow>
      case (if 1 < length parts then amount ''minutes'' (parts ! 1) else Inr 0) of
        Inl e \<Rightarrow> Inl e | Inr minutes \<Rightarrow>
      case (if 2 < length parts then amount ''seconds'' (parts ! 2) else Inr 0) of
        Inl e \<Rightarrow> Inl e | Inr seconds \<Rightarrow>
      Inr (duration_of days hours minutes seconds))"

definition parse_undashed :: "string list \<Rightarrow> duration result" where
  "parse_undashed parts =
     (if length parts = 1 then
        (case amount ''minutes'' (parts ! 0) of Inl e \<Rightarrow> Inl e | Inr minutes \<Rightarrow>
         Inr (duration_of 0 0 minutes 0))
      else if length parts = 2 then
        (case amount ''minutes'' (parts ! 0) of Inl e \<Rightarrow> Inl e | Inr minutes \<Rightarrow>
         case amount ''seconds'' (parts ! 1) of Inl e \<Rightarrow> Inl e | Inr seconds \<Rightarrow>
         Inr (duration_of 0 0 minutes seconds))
      else
        (case amount ''hours'' (parts ! 0) of Inl e \<Rightarrow> Inl e | Inr hours \<Rightarrow>
         case amount ''minutes'' (parts ! 1) of Inl e \<Rightarrow> Inl e | Inr minutes \<Rightarrow>
         case amount ''seconds'' (parts ! 2) of Inl e \<Rightarrow> Inl e | Inr seconds \<Rightarrow>
         Inr (duration_of 0 hours minutes seconds)))"

definition ParseDuration :: "string \<Rightarrow> duration result" where
  "ParseDuration duration =
     (if duration = unlimited \<or> duration = [] then Inl ErrDurationIsUnlimited
      else
        let parts = Split duration '':'' in
        if 3 < length parts then Inl (ErrorString ''invalid duration format'')
        else
          let i = IndexByte (parts ! 0) CHR ''-'' in
          if i \<noteq> -1 then parse_dashed parts i else parse_undashed parts)"

section \<open>key=value fields\<close>

text \<open>
  The loops over \<^verbatim>\<open>strings.Fields\<close>: fields that are not exactly one key and one value are skipped.
\<close>

definition kv :: "string \<Rightarrow> (string \<times> string) option" where
  "kv f = (case Split f ''='' of [k, v] \<Rightarrow> Some (k, v) | _ \<Rightarrow> None)"

definition kvs :: "string \<Rightarrow> (string \<times> string) list" where
  "kvs s = List.map_filter kv (Fields s)"

text \<open>\<^verbatim>\<open>fMap[s[0]] = append(fMap[s[0]], strings.Split(s[1], ",")...)\<close>\<close>

fun append_fields :: "(string \<rightharpoonup> string list) \<Rightarrow> (string \<times> string) list \<Rightarrow> (string \<rightharpoonup> string list)" where
  "append_fields m [] = m"
| "append_fields m ((k, v) # r) =
     append_fields (m(k \<mapsto> (case m k of None \<Rightarrow> [] | Some l \<Rightarrow> l) @ Split v '','')) r"

section \<open>parseResources\<close>

definition resources_wall_time :: "(string \<rightharpoonup> string list) \<Rightarrow> Resources \<Rightarrow> Resources result" where
  "resources_wall_time fMap resources =
     (case fMap ''MaxTime'' of
        None \<Rightarrow> Inr resources
      | Some maxTime \<Rightarrow>
          (case ParseDuration (maxTime ! 0) of
             Inl err \<Rightarrow>
               if \<not> errors_Is err ErrDurationIsUnlimited
               then Inl (Wrap ''could not parse duration'' err)
               else Inr (resources\<lparr>r_WallTime := -1\<rparr>)
           | Inr d \<Rightarrow> Inr (resources\<lparr>r_WallTime := d\<rparr>)))"

definition wrap_parse :: "string \<Rightarrow> string \<Rightarrow> int64 result" where
  "wrap_parse msg s = (case ParseInt64 s of Inl e \<Rightarrow> Inl (Wrap msg e) | Inr v \<Rightarrow> Inr v)"

definition resources_cpus :: "(string \<rightharpoonup> string list) \<Rightarrow> Resources \<Rightarrow> Resources result" where
  "resources_cpus fMap resources =
     (case fMap ''MaxCPUsPerNode'' of
        None \<Rightarrow> Inr resources
      | Some maxCPUs \<Rightarrow>
          if maxCPUs ! 0 = unlimited then
            (case fMap ''TotalCPUs'' of
               None \<Rightarrow> Inr (resources\<lparr>r_CPUPerNode := -1\<rparr>)
             | Some totalCPUs \<Rightarrow>
                 (case wrap_parse ''could not parse total cpus'' (totalCPUs ! 0) of
                    Inl e \<Rightarrow> Inl e | Inr cpus \<Rightarrow> Inr (resources\<lparr>r_CPUPerNode := cpus\<rparr>)))
          else
            (case wrap_parse ''could not parse max cpus num'' (maxCPUs ! 0) of
               Inl e \<Rightarrow> Inl e | Inr cpus \<Rightarrow> Inr (resources\<lparr>r_CPUPerNode := cpus\<rparr>)))"

definition resources_mem :: "(string \<rightharpoonup> string list) \<Rightarrow> Resources \<Rightarrow> Resources result" where
  "resources_mem fMap resources =
     (case fMap ''MaxMemPerNode'' of
        None \<Rightarrow> Inr resources
      | Some maxMem \<Rightarrow>
          if maxMem ! 0 = unlimited then Inr (resources\<lparr>r_MemPerNode := -1\<rparr>)
          else
            (case wrap_parse ''could not parse max mem'' (maxMem ! 0) of
               Inl e \<Rightarrow> Inl e | Inr mem \<Rightarrow> Inr (resources\<lparr>r_MemPerNode := mem\<rparr>)))"

definition resources_nodes :: "(string \<rightharpoonup> string list) \<Rightarrow> Resources \<Rightarrow> Resources result" where
  "resources_nodes fMap resources =
     (case fMap ''MaxNodes'' of
        None \<Rightarrow> Inr resources
      | Some maxNodes \<Rightarrow>
          if maxNodes ! 0 = unlimited then
            (case fMap ''TotalNodes'' of
               None \<Rightarrow> Inr (resources\<lparr>r_Nodes := -1\<rparr>)
             | Some vv \<Rightarrow>
                 (case wrap_parse ''could not parse total nodes'' (vv ! 0) of
                    Inl e \<Rightarrow> Inl e | Inr nodes \<Rightarrow> Inr (resources\<lparr>r_Nodes := nodes\<rparr>)))
          else
            (case wrap_parse ''could not parse max nodes'' (maxNodes ! 0) of
               Inl e \<Rightarrow> Inl e | Inr nodes \<Rightarrow> Inr (resources\<lparr>r_Nodes := nodes\<rparr>)))"

definition parseResources :: "string \<Rightarrow> Resources result" where
  "parseResources partitionInfo =
     (let fMap = append_fields Map.empty (kvs (TrimSpace partitionInfo)) in
      case resources_wall_time fMap zero_Resources of Inl e \<Rightarrow> Inl e | Inr r1 \<Rightarrow>
      case resources_cpus fMap r1 of Inl e \<Rightarrow> Inl e | Inr r2 \<Rightarrow>
      case resources_mem fMap r2 of Inl e \<Rightarrow> Inl e | Inr r3 \<Rightarrow>
      resources_nodes fMap r3)"

section \<open>Partition names, partitions and nodes\<close>

text \<open>The last \<^verbatim>\<open>PartitionName\<close> field of each blank-line-separated block, [] when it has none.\<close>

definition partition_name :: "string \<Rightarrow> string" where
  "partition_name p =
     fold (\<lambda>(k, v) name. if k = ''PartitionName'' then v else name) (kvs p) []"

definition parsePartitionsNames :: "string \<Rightarrow> string list" where
  "parsePartitionsNames raw =
     map partition_name (Split (TrimSpace raw) [CHR 0x0A, CHR 0x0A])"

definition parsePartition :: "string \<Rightarrow> Partition" where
  "parsePartition raw =
     fold (\<lambda>(k, v) p. if k = ''Nodes'' then p\<lparr>p_Nodes := p_Nodes p @ Split v '',''\<rparr> else p)
       (kvs raw) \<lparr>p_Nodes = []\<rparr>"

definition node_field :: "string \<times> string \<Rightarrow> Node \<Rightarrow> Node" where
  "node_field f node =
     (let (k, v) = f; n = ParseInt64_value v in
      if k = ''CPUTot'' then node\<lparr>n_Cpus := n\<rparr>
      else if k = ''CPUAlloc'' then node\<lparr>n_AlloCpus := n\<rparr>
      else if k = ''RealMemory'' then node\<lparr>n_Memory := n\<rparr>
      else if k = ''AllocMem'' then node\<lparr>n_AlloMemory := n\<rparr>
      else node)"

definition parseNode :: "string \<Rightarrow> Node" where
  "parseNode raw = fold node_field (kvs raw) zero_Node"

section \<open>Job steps\<close>

definition parseTime :: "string \<Rightarrow> go_time option result" where
  "parseTime timeStr =
     (if timeStr = [] \<or> ToLower timeStr = ''unknown'' then Inr None
      else case time_Parse timeStr of Inl e \<Rightarrow> Inl e | Inr t \<Rightarrow> Inr (Some t))"

definition parse_step :: "string \<Rightarrow> StepInfo result" where
  "parse_step l =
     (let splitted = Split l ''|'' in
      if length splitted \<noteq> 7 then Inl (ErrorString ''output must contain 6 sections'')
      else
        case parseTime (splitted ! 0) of Inl e \<Rightarrow> Inl e | Inr startedAt \<Rightarrow>
        case parseTime (splitted ! 1) of Inl e \<Rightarrow> Inl e | Inr finishedAt \<Rightarrow>
        let exitCodeSplitted = Split (splitted ! 2) '':'' in
        if length exitCodeSplitted \<noteq> 2
        then Inl (ErrorString ''exit code must contain 2 sections'')
        else
          case Atoi (exitCodeSplitted ! 0) of Inl e \<Rightarrow> Inl e | Inr exitCode \<Rightarrow>
          Inr \<lparr>st_ID = splitted ! 4, st_Name = splitted ! 5, st_StartedAt = startedAt,
               st_FinishedAt = finishedAt, st_ExitCode = exitCode, st_State = splitted ! 3\<rparr>)"

definition parseSacctResponse :: "string \<Rightarrow> StepInfo list result" where
  "parseSacctResponse raw =
     map_result parse_step (Split (Trim raw [CHR 0x0A]) [CHR 0x0A])"

section \<open>Durations\<close>

text \<open>The formats the function documents, how Slurm prints them, and the nanoseconds they mean.\<close>

datatype duration_format =
    Minutes int
  | MinutesSeconds int int
  | HoursMinutesSeconds int int int
  | DaysHours int int
  | DaysHoursMinutes int int int
  | DaysHoursMinutesSeconds int int int int

fun duration_text :: "duration_format \<Rightarrow> string" where
  "duration_text (Minutes m) = FormatInt m"
| "duration_text (MinutesSeconds m s) = FormatInt m @ '':'' @ FormatInt s"
| "duration_text (HoursMinutesSeconds h m s) =
     FormatInt h @ '':'' @ FormatInt m @ '':'' @ FormatInt s"
| "duration_text (DaysHours d h) = FormatInt d @ ''-'' @ FormatInt h"
| "duration_text (DaysHoursMinutes d h m) = FormatInt d @ ''-'' @ FormatInt h @ '':'' @ FormatInt m"
| "duration_text (DaysHoursMinutesSeconds d h m s) =
     FormatInt d @ ''-'' @ FormatInt h @ '':'' @ FormatInt m @ '':'' @ FormatInt s"

fun duration_nanos :: "duration_format \<Rightarrow> int" where
  "duration_nanos (Minutes m) = m * 60000000000"
| "duration_nanos (MinutesSeconds m s) = m * 60000000000 + s * 1000000000"
| "duration_nanos (HoursMinutesSeconds h m s) =
     h * 3600000000000 + m * 60000000000 + s * 1000000000"
| "duration_nanos (DaysHours d h) = d * 86400000000000 + h * 3600000000000"
| "duration_nanos (DaysHoursMinutes d h m) =
     d * 86400000000000 + h * 3600000000000 + m * 60000000000"
| "duration_nanos (DaysHoursMinutesSeconds d h m s) =
     d * 86400000000000 + h * 3600000000000 + m * 60000000000 + s * 1000000000"

fun duration_numbers :: "duration_format \<Rightarrow> int list" where
  "duration_numbers (Minutes m) = [m]"
| "duration_numbers (MinutesSeconds m s) = [m, s]"
| "duration_numbers (HoursMinutesSeconds h m s) = [h, m, s]"
| "duration_numbers (DaysHours d h) = [d, h]"
| "duration_numbers (DaysHoursMinutes d h m) = [d, h, m]"
| "duration_numbers (DaysHoursMinutesSeconds d h m s) = [d, h, m, s]"

lemma FormatInt_no_colon [simp]: "CHR '':'' \<notin> set (FormatInt n)"
  by (auto dest!: FormatInt_graphic simp: is_digit_def byte_def)

lemma FormatInt_no_dash: "0 \<le> n \<Longrightarrow> CHR ''-'' \<notin> set (FormatInt n)"
  by (auto simp: FormatInt_def dest!: dec_digits)

lemma amount_FormatInt [simp]: "in_int64 n \<Longrightarrow> amount w (FormatInt n) = Inr (word_of_int n)"
  by (simp add: amount_def ParseInt64_def parse_as_def ParseInt_FormatInt)

lemma IndexByte_free: "c \<notin> set s \<Longrightarrow> IndexByte s c = -1"
  by (simp add: IndexByte_def)

lemma IndexByte_first: "c \<notin> set s \<Longrightarrow> IndexByte (s @ c # t) c = int (length s)"
  by (simp add: IndexByte_def takeWhile_append)

lemma digits_neq_unlimited [simp]: "0 \<le> n \<Longrightarrow> FormatInt n @ t \<noteq> unlimited"
proof -
  assume "0 \<le> n"
  then obtain c cs where "FormatInt n = c # cs" "is_digit c"
    using dec_head [of n] by (auto simp: FormatInt_def)
  then show ?thesis by (auto simp: unlimited_def is_digit_def byte_def)
qed

lemma FormatInt_neq_unlimited [simp]: "0 \<le> n \<Longrightarrow> FormatInt n \<noteq> unlimited"
  using digits_neq_unlimited [of n "[]"] by simp

lemma Split_dashed:
  "CHR '':'' \<notin> set x \<Longrightarrow> CHR '':'' \<notin> set y \<Longrightarrow>
     Split (x @ CHR ''-'' # y @ CHR '':'' # s) '':'' = (x @ CHR ''-'' # y) # Split s '':''"
  using Split_Cons [of "CHR '':''" "x @ CHR ''-'' # y" s] by simp

lemma ParseDuration_text:
  assumes "\<forall>n \<in> set (duration_numbers f). 0 \<le> n \<and> in_int64 n"
  shows "ParseDuration (duration_text f) = Inr (word_of_int (duration_nanos f))"
  using assms
  by (cases f)
     (simp_all add: ParseDuration_def parse_undashed_def parse_dashed_def Let_def Split_free
       Split_Cons Split_dashed IndexByte_free IndexByte_first FormatInt_no_dash duration_of_def
       mult.commute)

lemma ParseDuration_unlimited_iff:
  "(\<exists>e. ParseDuration s = Inl e \<and> errors_Is e ErrDurationIsUnlimited) \<longleftrightarrow> s \<in> {unlimited, []}"
proof -
  have amount: "\<not> errors_Is e ErrDurationIsUnlimited" if "amount w x = Inl e" for w x e
    using that by (auto simp: amount_def ParseInt64_def parse_as_def split: splits_go)
  then show ?thesis
    by (auto simp: ParseDuration_def parse_undashed_def parse_dashed_def Let_def split: splits_go)
qed



text \<open>
  A duration is reported as unlimited (an error that is or wraps
  \<^const>\<open>ErrDurationIsUnlimited\<close>) for the text \<^verbatim>\<open>UNLIMITED\<close> and the empty text, and for no other.
\<close>

theorem ParseDuration_unlimited:
  "(\<exists>e. ParseDuration s = Inl e \<and> errors_Is e ErrDurationIsUnlimited) \<longleftrightarrow> s \<in> {''UNLIMITED'', []}"
  using ParseDuration_unlimited_iff by (simp add: unlimited_def)

text \<open>The total is not checked: a limit of 106752 days comes out as a negative duration.\<close>

lemma ParseDuration_wraps:
  "\<exists>d. ParseDuration ''106752-0'' = Inr d \<and> sint d < 0"
proof -
  have "ParseDuration (duration_text (DaysHours 106752 0)) =
      Inr (word_of_int (duration_nanos (DaysHours 106752 0)))"
    by (rule ParseDuration_text) (simp add: in_int64_def)
  moreover have "duration_text (DaysHours 106752 0) = ''106752-0''"
    by code_simp
  moreover have "sint (word_of_int (duration_nanos (DaysHours 106752 0)) :: int64) < 0"
    by code_simp
  ultimately show ?thesis by simp
qed

section \<open>Texts of key=value fields\<close>

definition kv_text :: "string \<times> string \<Rightarrow> string" where
  "kv_text f = fst f @ CHR ''='' # snd f"

text \<open>Keys and values that are printable and free of the field's own separator.\<close>

definition plain_field :: "string \<times> string \<Rightarrow> bool" where
  "plain_field f \<longleftrightarrow>
     (\<forall>c \<in> set (fst f) \<union> set (snd f). graphic c \<and> c \<noteq> CHR ''='')"

text \<open>A text whose white-space separated fields are exactly these.\<close>

definition has_fields :: "string \<Rightarrow> (string \<times> string) list \<Rightarrow> bool" where
  "has_fields s fs \<longleftrightarrow> Fields s = map kv_text fs \<and> list_all plain_field fs"

lemma kv_kv_text [simp]: "plain_field f \<Longrightarrow> kv (kv_text f) = Some f"
proof -
  assume "plain_field f"
  then have "CHR ''='' \<notin> set (fst f)" "CHR ''='' \<notin> set (snd f)"
    unfolding plain_field_def by blast+
  then show ?thesis by (simp add: kv_def kv_text_def Split_pair)
qed

lemma kvs_has_fields: "has_fields s fs \<Longrightarrow> kvs s = fs"
proof -
  have "List.map_filter kv (map kv_text fs) = fs" if "list_all plain_field fs"
    using that by (induction fs) (simp_all add: map_filter_simps)
  then show "has_fields s fs \<Longrightarrow> ?thesis" by (simp add: has_fields_def kvs_def)
qed

lemma has_fields_TrimSpace [simp]: "has_fields (TrimSpace s) fs \<longleftrightarrow> has_fields s fs"
  by (simp add: has_fields_def)

lemma graphic_eq [simp]: "graphic CHR ''=''"
  by (simp add: graphic_def byte_def)

lemma has_fields_Join:
  assumes "list_all plain_field fs" and "blank b"
  shows "has_fields (Join (map kv_text fs) [b]) fs"
proof -
  have "w \<noteq> [] \<and> (\<forall>c \<in> set w. graphic c)" if "w \<in> set (map kv_text fs)" for w
  proof -
    from that obtain f where f: "f \<in> set fs" "w = kv_text f" by auto
    then have "\<forall>c \<in> set (fst f) \<union> set (snd f). graphic c"
      using assms(1) unfolding list_all_iff plain_field_def by blast
    then show ?thesis by (simp add: f(2) kv_text_def ball_Un)
  qed
  then show ?thesis
    using Fields_Join [of "map kv_text fs" b] assms by (simp add: has_fields_def)
qed

text \<open>What the map of \<^const>\<open>append_fields\<close> holds: never an empty list, so index 0 is in range.\<close>

lemma append_fields_nonempty:
  "(\<forall>k l. m k = Some l \<longrightarrow> l \<noteq> []) \<Longrightarrow> append_fields m fs k = Some l \<Longrightarrow> l \<noteq> []"
  by (induction m fs rule: append_fields.induct) (auto split: if_splits)

lemma append_fields_keep: "k \<notin> fst ` set fs \<Longrightarrow> append_fields m fs k = m k"
  by (induction m fs rule: append_fields.induct) auto

lemma append_fields_Some:
  "m k = Some l \<Longrightarrow> \<exists>l'. append_fields m fs k = Some (l @ l')"
proof (induction m fs arbitrary: l rule: append_fields.induct)
  case (2 m j w r)
  let ?m = "m(j \<mapsto> (case m j of None \<Rightarrow> [] | Some l \<Rightarrow> l) @ Split w '','')"
  have "\<exists>x. ?m k = Some (l @ x)" using 2(2) by (cases "k = j") auto
  then obtain x where "?m k = Some (l @ x)" ..
  from 2(1) [OF this] show ?case by (auto simp del: fun_upd_apply)
qed simp

text \<open>The first element for a key is the first piece of the first value given for it.\<close>

lemma append_fields_first:
  assumes "m k = None" and "map_of fs k = Some v" and "CHR '','' \<notin> set v"
  shows "\<exists>l. append_fields m fs k = Some (v # l)"
  using assms
proof (induction m fs rule: append_fields.induct)
  case (2 m j w r)
  show ?case
  proof (cases "j = k")
    case True
    then show ?thesis
      using 2 append_fields_Some [of "m(j \<mapsto> Split w '','')" k "[v]" r] by (simp add: Split_free)
  next
    case False
    then show ?thesis using 2(1) [OF _ _ 2(4)] 2(2,3) by (simp del: fun_upd_apply add: fun_upd_other)
  qed
qed simp

lemma append_fields_None:
  "map_of fs k = None \<Longrightarrow> append_fields Map.empty fs k = None"
  by (simp add: append_fields_keep map_of_eq_None_iff)

section \<open>Resources of a partition\<close>

text \<open>
  How \<^verbatim>\<open>scontrol show partition\<close> prints a limit, and the number the agent works with: an unlimited
  processor or node count falls back to the partition's total when that is shown.
\<close>

datatype limit = Unlimited | Limit int64

primrec limit_text :: "limit \<Rightarrow> string" where
  "limit_text Unlimited = unlimited"
| "limit_text (Limit n) = FormatInt64 n"

primrec limit_value :: "limit \<Rightarrow> int64 option \<Rightarrow> int64" where
  "limit_value Unlimited tot = (case tot of None \<Rightarrow> -1 | Some t \<Rightarrow> t)"
| "limit_value (Limit n) tot = n"

primrec wall_text :: "duration_format option \<Rightarrow> string" where
  "wall_text None = unlimited"
| "wall_text (Some f) = duration_text f"

primrec wall_value :: "duration_format option \<Rightarrow> duration" where
  "wall_value None = -1"
| "wall_value (Some f) = word_of_int (duration_nanos f)"

primrec wall_ok :: "duration_format option \<Rightarrow> bool" where
  "wall_ok None = True"
| "wall_ok (Some f) = (\<forall>n \<in> set (duration_numbers f). 0 \<le> n \<and> in_int64 n)"

lemma FormatInt_no_comma [simp]: "CHR '','' \<notin> set (FormatInt n)"
  by (auto dest!: FormatInt_graphic simp: is_digit_def byte_def)

lemma unlimited_no_comma [simp]: "CHR '','' \<notin> set unlimited"
  by (simp add: unlimited_def)

lemma limit_text_no_comma [simp]: "CHR '','' \<notin> set (limit_text l)"
  by (cases l) simp_all

lemma wall_text_no_comma [simp]: "CHR '','' \<notin> set (wall_text w)"
proof (cases w)
  case (Some f)
  then show ?thesis by (cases f) simp_all
qed simp

lemma FormatInt64_neq_unlimited [simp]: "FormatInt64 n \<noteq> unlimited"
proof
  assume "FormatInt64 n = unlimited"
  moreover have "CHR ''U'' \<in> set unlimited" by (simp add: unlimited_def)
  ultimately have "CHR ''U'' \<in> set (FormatInt64 n)" by simp
  then show False by (auto dest!: FormatInt_graphic simp: is_digit_def byte_def)
qed

lemma ParseDuration_wall:
  "wall_ok w \<Longrightarrow> (case ParseDuration (wall_text w) of
      Inl e \<Rightarrow> w = None \<and> errors_Is e ErrDurationIsUnlimited
    | Inr d \<Rightarrow> w \<noteq> None \<and> d = wall_value w)"
  by (cases w) (simp_all add: ParseDuration_text ParseDuration_def [of unlimited])

lemma resources_wall_time_field:
  assumes "fMap ''MaxTime'' = Some (wall_text w # l)" and "wall_ok w"
  shows "resources_wall_time fMap r = Inr (r\<lparr>r_WallTime := wall_value w\<rparr>)"
  using ParseDuration_wall [OF assms(2)] assms(1)
  by (auto simp: resources_wall_time_def split: sum.splits)

lemma wrap_parse_FormatInt64 [simp]: "wrap_parse m (FormatInt64 n) = Inr n"
  by (simp add: wrap_parse_def)

lemma resources_mem_field:
  assumes "fMap ''MaxMemPerNode'' = Some (limit_text mem # l)"
  shows "resources_mem fMap r = Inr (r\<lparr>r_MemPerNode := limit_value mem None\<rparr>)"
  using assms by (cases mem) (simp_all add: resources_mem_def)

lemma resources_cpus_field:
  assumes "fMap ''MaxCPUsPerNode'' = Some (limit_text cpus # l)"
    and "map_option hd (fMap ''TotalCPUs'') = map_option (\<lambda>n. FormatInt64 n) tot"
    and "\<forall>l. fMap ''TotalCPUs'' = Some l \<longrightarrow> l \<noteq> []"
  shows "resources_cpus fMap r = Inr (r\<lparr>r_CPUPerNode := limit_value cpus tot\<rparr>)"
  using assms
  by (cases cpus; cases tot) (auto simp: resources_cpus_def hd_conv_nth)

lemma resources_nodes_field:
  assumes "fMap ''MaxNodes'' = Some (limit_text nodes # l)"
    and "map_option hd (fMap ''TotalNodes'') = map_option (\<lambda>n. FormatInt64 n) tot"
    and "\<forall>l. fMap ''TotalNodes'' = Some l \<longrightarrow> l \<noteq> []"
  shows "resources_nodes fMap r = Inr (r\<lparr>r_Nodes := limit_value nodes tot\<rparr>)"
  using assms
  by (cases nodes; cases tot) (auto simp: resources_nodes_def hd_conv_nth)

lemma append_fields_total:
  assumes "map_of fs k = map_option (\<lambda>n. FormatInt64 n) tot"
  shows "map_option hd (append_fields Map.empty fs k) = map_option (\<lambda>n. FormatInt64 n) tot"
proof (cases tot)
  case None
  then show ?thesis using assms append_fields_None [of fs k] by simp
next
  case (Some n)
  then obtain l where "append_fields Map.empty fs k = Some (FormatInt64 n # l)"
    using append_fields_first [of Map.empty k fs "FormatInt64 n"] assms by auto
  with Some show ?thesis by simp
qed

lemma append_fields_index_safe: "append_fields Map.empty fs k = Some l \<Longrightarrow> l \<noteq> []"
  by (rule append_fields_nonempty [of Map.empty]) simp_all

lemma parseResources_fields:
  assumes "has_fields s fs"
    and "map_of fs ''MaxTime'' = Some (wall_text w)" and "wall_ok w"
    and "map_of fs ''MaxCPUsPerNode'' = Some (limit_text cpus)"
    and "map_of fs ''TotalCPUs'' = map_option (\<lambda>n. FormatInt64 n) tcpus"
    and "map_of fs ''MaxMemPerNode'' = Some (limit_text mem)"
    and "map_of fs ''MaxNodes'' = Some (limit_text nodes)"
    and "map_of fs ''TotalNodes'' = map_option (\<lambda>n. FormatInt64 n) tnodes"
  shows "parseResources s =
    Inr \<lparr>r_Nodes = limit_value nodes tnodes, r_MemPerNode = limit_value mem None,
         r_CPUPerNode = limit_value cpus tcpus, r_WallTime = wall_value w, r_Features = []\<rparr>"
proof -
  let ?f = "append_fields Map.empty fs"
  have first: "\<exists>l. ?f k = Some (v # l)" if "map_of fs k = Some v" "CHR '','' \<notin> set v" for k v
    using append_fields_first [of Map.empty] that by simp
  obtain l1 where "?f ''MaxTime'' = Some (wall_text w # l1)" using first assms(2) by fastforce
  note 1 = resources_wall_time_field [of ?f, OF this assms(3)]
  obtain l2 where "?f ''MaxCPUsPerNode'' = Some (limit_text cpus # l2)"
    using first assms(4) by fastforce
  note 2 = resources_cpus_field [of ?f, OF this append_fields_total [OF assms(5)]]
  obtain l3 where "?f ''MaxMemPerNode'' = Some (limit_text mem # l3)"
    using first assms(6) by fastforce
  note 3 = resources_mem_field [of ?f, OF this]
  obtain l4 where "?f ''MaxNodes'' = Some (limit_text nodes # l4)" using first assms(7) by fastforce
  note 4 = resources_nodes_field [of ?f, OF this append_fields_total [OF assms(8)]]
  show ?thesis
    using kvs_has_fields [of "TrimSpace s"] assms(1) 1 2 3 4 append_fields_index_safe
    by (simp add: parseResources_def zero_Resources_def)
qed

text \<open>
  On the output of \<^verbatim>\<open>scontrol show partition\<close>, \<^const>\<open>parseResources\<close> returns the limits shown:
  a wall time in any documented format or -1 when it is unlimited, an unlimited processor or
  node count as the partition's total when that is shown and -1 otherwise, unlimited memory
  as -1. Other fields and the order of the fields do not matter.
\<close>

theorem parseResources_correct:
  assumes "has_fields s fs"
    and "map_of fs ''MaxTime'' = Some (wall_text w)" and "wall_ok w"
    and "map_of fs ''MaxCPUsPerNode'' = Some (limit_text cpus)"
    and "map_of fs ''TotalCPUs'' = map_option (\<lambda>n. FormatInt64 n) tcpus"
    and "map_of fs ''MaxMemPerNode'' = Some (limit_text mem)"
    and "map_of fs ''MaxNodes'' = Some (limit_text nodes)"
    and "map_of fs ''TotalNodes'' = map_option (\<lambda>n. FormatInt64 n) tnodes"
  shows "parseResources s =
    Inr \<lparr>r_Nodes = limit_value nodes tnodes, r_MemPerNode = limit_value mem None,
         r_CPUPerNode = limit_value cpus tcpus, r_WallTime = wall_value w, r_Features = []\<rparr>"
  using assms by (rule parseResources_fields)

theorem parseResources_correct_witness:
  "parseResources
     (''MaxTime=1-0:30 MaxNodes=UNLIMITED TotalNodes=3 '' @ ''MaxCPUsPerNode=8 MaxMemPerNode=UNLIMITED'') =
    Inr \<lparr>r_Nodes = 3, r_MemPerNode = -1, r_CPUPerNode = 8, r_WallTime = Hour * 24 + Minute * 30,
         r_Features = []\<rparr>"
proof -
  let ?fs = "[(''MaxTime'', ''1-0:30''), (''MaxNodes'', unlimited), (''TotalNodes'', ''3''),
    (''MaxCPUsPerNode'', ''8''), (''MaxMemPerNode'', unlimited)]"
  have "parseResources
     (''MaxTime=1-0:30 MaxNodes=UNLIMITED TotalNodes=3 '' @ ''MaxCPUsPerNode=8 MaxMemPerNode=UNLIMITED'') =
    Inr \<lparr>r_Nodes = limit_value Unlimited (Some 3), r_MemPerNode = limit_value Unlimited None,
         r_CPUPerNode = limit_value (Limit 8) None,
         r_WallTime = wall_value (Some (DaysHoursMinutes 1 0 30)), r_Features = []\<rparr>"
    by (rule parseResources_correct [of _ ?fs]) code_simp+
  then show ?thesis by simp
qed

section \<open>Partition names\<close>

lemma fold_partition_name:
  "''PartitionName'' \<notin> fst ` set fs \<Longrightarrow>
     fold (\<lambda>(k, v) name. if k = ''PartitionName'' then v else name) fs n = n"
  by (induction fs) auto

lemma partition_name_block:
  assumes "has_fields b ((''PartitionName'', n) # fs)" and "''PartitionName'' \<notin> fst ` set fs"
  shows "partition_name b = n"
  using kvs_has_fields [OF assms(1)] fold_partition_name [OF assms(2), of n]
  by (simp add: partition_name_def)

definition names_block :: "string \<Rightarrow> string \<Rightarrow> bool" where
  "names_block b n \<longleftrightarrow>
     block CHR 0x0A b \<and> kvs b \<noteq> [] \<and> hd (kvs b) = (''PartitionName'', n) \<and>
     ''PartitionName'' \<notin> fst ` set (tl (kvs b))"

lemma names_block_name: "names_block b n \<Longrightarrow> partition_name b = n"
  by (cases "kvs b") (auto simp: names_block_def partition_name_def fold_partition_name)

text \<open>
  The names \<^const>\<open>parsePartitionsNames\<close> returns are those of the partitions in the output
  of \<^verbatim>\<open>scontrol show partition\<close>, in its order: one per blank-line separated block.
\<close>

theorem parsePartitionsNames_correct:
  assumes "TrimSpace raw = Join blocks [CHR 0x0A, CHR 0x0A]" and "blocks \<noteq> []"
    and "list_all2 names_block blocks names"
  shows "parsePartitionsNames raw = names"
proof -
  have "\<forall>b \<in> set blocks. block CHR 0x0A b"
    using assms(3) by (auto simp: names_block_def list_all2_conv_all_nth in_set_conv_nth)
  then have "Split (TrimSpace raw) [CHR 0x0A, CHR 0x0A] = blocks"
    using Split_Join_blocks assms(1,2) by simp
  moreover have "map partition_name blocks = names"
    using assms(3) by (auto simp: list_all2_conv_all_nth names_block_name intro: nth_equalityI)
  ultimately show ?thesis by (simp add: parsePartitionsNames_def)
qed

theorem parsePartitionsNames_correct_witness:
  "parsePartitionsNames
     (''PartitionName=debug A=b'' @ [CHR 0x0A] @ ''Nodes=n1'' @ [CHR 0x0A, CHR 0x0A] @
      ''PartitionName=long'' @ [CHR 0x0A, CHR 0x0A]) = [''debug'', ''long'']"
  by (rule parsePartitionsNames_correct
        [of _ "[''PartitionName=debug A=b'' @ [CHR 0x0A] @ ''Nodes=n1'', ''PartitionName=long'']"])
     code_simp+

section \<open>Nodes\<close>

text \<open>Only processors and memory are read: the GPU numbers of a node are always zero.\<close>

lemma fold_node_field_gpus:
  "n_Gpus (fold node_field fs n) = n_Gpus n \<and> n_AlloGpus (fold node_field fs n) = n_AlloGpus n \<and>
   n_GpuType (fold node_field fs n) = n_GpuType n"
  by (induction fs arbitrary: n) (simp_all add: node_field_def Let_def split: prod.splits)

lemma parseNode_gpus [simp]:
  "n_Gpus (parseNode raw) = 0" "n_AlloGpus (parseNode raw) = 0" "n_GpuType (parseNode raw) = []"
  by (simp_all add: parseNode_def fold_node_field_gpus zero_Node_def)

text \<open>What each number of a node is after the fields: the last one given for its key.\<close>

definition last_value :: "string \<Rightarrow> (string \<times> string) list \<Rightarrow> int64 \<Rightarrow> int64" where
  "last_value k fs d = (case map_of (rev fs) k of None \<Rightarrow> d | Some v \<Rightarrow> ParseInt64_value v)"

lemma last_value_simps [simp]:
  "last_value k [] d = d"
  "last_value k ((j, v) # fs) d = last_value k fs (if j = k then ParseInt64_value v else d)"
  by (auto simp: last_value_def map_add_def split: option.splits)

lemma fold_node_field:
  "fold node_field fs n =
     n\<lparr>n_Cpus := last_value ''CPUTot'' fs (n_Cpus n),
       n_AlloCpus := last_value ''CPUAlloc'' fs (n_AlloCpus n),
       n_Memory := last_value ''RealMemory'' fs (n_Memory n),
       n_AlloMemory := last_value ''AllocMem'' fs (n_AlloMemory n)\<rparr>"
proof (induction fs arbitrary: n)
  case (Cons f fs)
  then show ?case by (cases f) (simp add: node_field_def)
qed simp

text \<open>
  \<^const>\<open>parseNode\<close> reads the processor and memory numbers of a node, allocated and in
  total, from the fields of \<^verbatim>\<open>scontrol show node\<close>, the last field of a name counting.
\<close>

theorem parseNode_correct:
  assumes "has_fields raw fs"
    and "map_of (rev fs) ''CPUTot'' = Some (FormatInt64 cpus)"
    and "map_of (rev fs) ''CPUAlloc'' = Some (FormatInt64 acpus)"
    and "map_of (rev fs) ''RealMemory'' = Some (FormatInt64 mem)"
    and "map_of (rev fs) ''AllocMem'' = Some (FormatInt64 amem)"
  shows "parseNode raw =
    \<lparr>n_Cpus = cpus, n_Memory = mem, n_Gpus = 0, n_GpuType = [], n_AlloCpus = acpus,
     n_AlloMemory = amem, n_AlloGpus = 0\<rparr>"
  using assms
  by (simp add: parseNode_def kvs_has_fields fold_node_field last_value_def zero_Node_def)

theorem parseNode_correct_witness:
  "parseNode ''NodeName=n1 CPUAlloc=2 CPUTot=8 RealMemory=1024 AllocMem=512'' =
    \<lparr>n_Cpus = 8, n_Memory = 1024, n_Gpus = 0, n_GpuType = [], n_AlloCpus = 2,
     n_AlloMemory = 512, n_AlloGpus = 0\<rparr>"
  by (rule parseNode_correct [of _ "[(''NodeName'', ''n1''), (''CPUAlloc'', ''2''), (''CPUTot'', ''8''),
        (''RealMemory'', ''1024''), (''AllocMem'', ''512'')]"]) code_simp+

section \<open>Job steps\<close>

text \<open>A civil time as Slurm prints it; \<^const>\<open>None\<close> is printed as \<^verbatim>\<open>Unknown\<close>.\<close>

datatype civil = Civil int int int int int int

primrec civil_ok :: "civil \<Rightarrow> bool" where
  "civil_ok (Civil y mo d hh mi ss) \<longleftrightarrow>
     0 \<le> y \<and> y \<le> 9999 \<and> 1 \<le> mo \<and> mo \<le> 12 \<and> 1 \<le> d \<and> d \<le> daysIn mo y \<and>
     0 \<le> hh \<and> hh \<le> 23 \<and> 0 \<le> mi \<and> mi \<le> 59 \<and> 0 \<le> ss \<and> ss \<le> 59"

primrec civil_text :: "civil \<Rightarrow> string" where
  "civil_text (Civil y mo d hh mi ss) = slurm_time y mo d hh mi ss"

primrec civil_time :: "civil \<Rightarrow> go_time" where
  "civil_time (Civil y mo d hh mi ss) = date_time y mo d hh mi ss 0"

definition time_text :: "civil option \<Rightarrow> string" where
  "time_text t = (case t of None \<Rightarrow> ''Unknown'' | Some c \<Rightarrow> civil_text c)"

lemma digit_char_neq:
  assumes "0 \<le> d" "d < 10"
  shows "digit_char d \<noteq> CHR ''|''" "digit_char d \<noteq> CHR 0x0A" "digit_char d \<noteq> CHR ''u''"
    "digit_char d \<noteq> CHR ''U''"
  using is_digit_digit_char [OF assms] by (auto simp: is_digit_def byte_def)

lemma two_digits:
  assumes "0 \<le> n" "n < 100" "c \<in> set (two n)"
  shows "is_digit c"
proof -
  have "0 \<le> n div 10" "n div 10 < 10" "0 \<le> n mod 10" "n mod 10 < 10" using assms by auto
  then show ?thesis using assms(3) by (auto simp: two_def)
qed

lemma four_digits: "0 \<le> n \<Longrightarrow> n < 10000 \<Longrightarrow> c \<in> set (four n) \<Longrightarrow> is_digit c"
  using two_digits [of "n div 100" c] two_digits [of "n mod 100" c] by (auto simp: four_def)

lemma civil_text_chars:
  assumes "civil_ok t" and "c \<in> set (civil_text t)"
  shows "is_digit c \<or> c \<in> set ''-T:''"
proof (cases t)
  case (Civil y mo d hh mi ss)
  then have "d < 100" using assms(1) daysIn_le [of mo y] by simp
  then have "\<forall>n \<in> {mo, d, hh, mi, ss}. 0 \<le> n \<and> n < 100" using assms(1) Civil by auto
  then have "\<forall>n \<in> {mo, d, hh, mi, ss}. c \<in> set (two n) \<longrightarrow> is_digit c"
    using two_digits by blast
  then show ?thesis
    using assms Civil four_digits [of y c] by (auto simp: slurm_time_def)
qed

lemma civil_text_head:
  assumes "civil_ok t"
  shows "\<exists>c cs. civil_text t = c # cs \<and> is_digit c"
proof (cases t)
  case (Civil y mo d hh mi ss)
  then have "0 \<le> y div 100 div 10" "y div 100 div 10 < 10" using assms by auto
  then show ?thesis using Civil by (simp add: slurm_time_def four_def two_def)
qed

lemma ToLower_digit: "is_digit c \<Longrightarrow> \<exists>s'. ToLower (c # s) = c # s'"
  by (cases s rule: remdups_adj.cases) (auto simp: is_digit_def byte_def lower_char_def)

lemma parseTime_time_text:
  assumes "pred_option civil_ok t"
  shows "parseTime (time_text t) = Inr (map_option civil_time t)"
proof (cases t)
  case None
  have "ToLower ''Unknown'' = ''unknown''" by code_simp
  then show ?thesis using None by (simp add: parseTime_def time_text_def)
next
  case (Some c)
  then have ok: "civil_ok c" using assms by simp
  then obtain x xs where x: "civil_text c = x # xs" "is_digit x" using civil_text_head by blast
  then obtain s' where "ToLower (civil_text c) = x # s'" using ToLower_digit by metis
  then have "ToLower (civil_text c) \<noteq> ''unknown''" using x(2) by (auto simp: is_digit_def byte_def)
  moreover have "parse_layout (civil_text c) = Some (civil_time c)"
    using ok parse_layout_slurm_time by (cases c) simp
  ultimately show ?thesis
    using Some x by (simp add: parseTime_def time_text_def time_Parse_def)
qed

text \<open>
  One job step as \<^verbatim>\<open>sacct -p -n\<close> prints it: start, end, exit code with signal, state, identifier
  and name, each followed by a bar.
\<close>

record sacct_step =
  ss_start :: "civil option"
  ss_end :: "civil option"
  ss_exit :: int64
  ss_signal :: int64
  ss_state :: string
  ss_id :: string
  ss_name :: string

definition step_text :: "sacct_step \<Rightarrow> string" where
  "step_text x =
     Join [time_text (ss_start x), time_text (ss_end x),
           FormatInt64 (ss_exit x) @ '':'' @ FormatInt64 (ss_signal x),
           ss_state x, ss_id x, ss_name x, []] ''|''"

definition step_info :: "sacct_step \<Rightarrow> StepInfo" where
  "step_info x =
     \<lparr>st_ID = ss_id x, st_Name = ss_name x, st_StartedAt = map_option civil_time (ss_start x),
      st_FinishedAt = map_option civil_time (ss_end x), st_ExitCode = ss_exit x,
      st_State = ss_state x\<rparr>"

definition step_ok :: "sacct_step \<Rightarrow> bool" where
  "step_ok x \<longleftrightarrow>
     pred_option civil_ok (ss_start x) \<and> pred_option civil_ok (ss_end x) \<and>
     (\<forall>c \<in> set (ss_state x) \<union> set (ss_id x) \<union> set (ss_name x). c \<noteq> CHR ''|'' \<and> c \<noteq> CHR 0x0A)"

lemma time_text_free:
  assumes "pred_option civil_ok t" and "c \<in> {CHR ''|'', CHR 0x0A}"
  shows "c \<notin> set (time_text t)"
proof (cases t)
  case (Some u)
  show ?thesis
  proof
    assume "c \<in> set (time_text t)"
    then have "is_digit c \<or> c \<in> set ''-T:''"
      using civil_text_chars [of u c] Some assms(1) by (simp add: time_text_def)
    then show False using assms(2) by (auto simp: is_digit_def byte_def)
  qed
qed (use assms(2) in \<open>auto simp: time_text_def\<close>)

lemma FormatInt_free [simp]: "CHR ''|'' \<notin> set (FormatInt n)" "CHR 0x0A \<notin> set (FormatInt n)"
  by (auto dest!: FormatInt_graphic simp: is_digit_def byte_def)

lemma Split_step_text:
  assumes "step_ok x"
  shows "Split (step_text x) ''|'' =
    [time_text (ss_start x), time_text (ss_end x),
     FormatInt64 (ss_exit x) @ '':'' @ FormatInt64 (ss_signal x), ss_state x, ss_id x, ss_name x, []]"
proof -
  have "CHR ''|'' \<notin> set (ss_state x)" "CHR ''|'' \<notin> set (ss_id x)" "CHR ''|'' \<notin> set (ss_name x)"
    using assms unfolding step_ok_def by blast+
  then show ?thesis
    unfolding step_text_def
    using assms time_text_free [of _ "CHR ''|''"]
    by (intro Split_Join) (simp_all add: step_ok_def)
qed

lemma parse_step_text:
  assumes "step_ok x"
  shows "parse_step (step_text x) = Inr (step_info x)"
  using assms
  by (simp add: parse_step_def Split_step_text parseTime_time_text step_ok_def step_info_def Split_pair)

lemma step_text_newline:
  assumes "step_ok x"
  shows "CHR 0x0A \<notin> set (step_text x)"
proof -
  have "CHR 0x0A \<notin> set (ss_state x)" "CHR 0x0A \<notin> set (ss_id x)" "CHR 0x0A \<notin> set (ss_name x)"
    using assms unfolding step_ok_def by blast+
  then show ?thesis
    using assms time_text_free [of _ "CHR 0x0A"] by (simp add: step_text_def step_ok_def)
qed

lemma step_text_ends: "\<exists>s. step_text x = s @ ''|''"
  by (simp add: step_text_def)

lemma Join_ends:
  assumes "xs \<noteq> []"
  shows "\<exists>s. Join (map step_text xs) sep = s @ ''|''"
  using assms
proof (induction xs rule: induct_list012)
  case (2 x)
  then show ?case using step_text_ends by simp
next
  case (3 x y zs)
  then show ?case by (auto simp flip: append_assoc)
qed simp

lemma Trim_newlines:
  assumes "s \<noteq> []" and "hd s \<noteq> c" and "last s \<noteq> c"
  shows "Trim (s @ replicate n c) [c] = s"
proof -
  have "dropWhile (\<lambda>x. x = c) (s @ t) = s @ t" for t using assms(1,2) by (cases s) auto
  moreover have "dropWhile (\<lambda>x. x = c) (replicate n c @ rev s) = rev s"
    using assms(1,3) by (induction n) (auto simp: dropWhile_eq_self_iff hd_rev)
  ultimately show ?thesis by (simp add: Trim_def)
qed

lemma step_text_head:
  assumes "step_ok x"
  shows "step_text x \<noteq> [] \<and> hd (step_text x) \<noteq> CHR 0x0A"
  using step_text_newline [OF assms] step_text_ends [of x] by (metis append_is_Nil_conv hd_in_set list.discI)

lemma parseSacctResponse_steps:
  assumes "xs \<noteq> []" and "list_all step_ok xs"
  shows "parseSacctResponse (Join (map step_text xs) [CHR 0x0A] @ replicate n CHR 0x0A) =
    Inr (map step_info xs)"
proof -
  let ?raw = "Join (map step_text xs) [CHR 0x0A]"
  obtain y ys where xs: "xs = y # ys" using assms(1) by (cases xs) auto
  then have "step_text y \<noteq> [] \<and> hd (step_text y) \<noteq> CHR 0x0A"
    using step_text_head assms(2) by simp
  then have "?raw \<noteq> [] \<and> hd ?raw \<noteq> CHR 0x0A"
    using xs by (cases ys) (auto simp: hd_append)
  moreover have "last ?raw \<noteq> CHR 0x0A" using Join_ends [OF assms(1), of "[CHR 0x0A]"] by auto
  ultimately have "Trim (?raw @ replicate n CHR 0x0A) [CHR 0x0A] = ?raw"
    by (simp add: Trim_newlines)
  moreover have "Split ?raw [CHR 0x0A] = map step_text xs"
    using assms by (intro Split_Join) (auto simp: step_text_newline list_all_iff)
  moreover have "map_result parse_step (map step_text xs) = Inr (map step_info xs)"
    using assms(2) by (induction xs) (auto simp: parse_step_text)
  ultimately show ?thesis by (simp add: parseSacctResponse_def)
qed

text \<open>
  C31. The accounting records of a job come back from \<^const>\<open>parseSacctResponse\<close> as they were
  printed: one step per line in order, with its start and end (none when unknown), exit code,
  state, identifier and name, whatever blank lines end the output.
\<close>

theorem parseSacctResponse_correct:
  assumes "xs \<noteq> []" and "list_all step_ok xs"
  shows "parseSacctResponse (Join (map step_text xs) [CHR 0x0A] @ replicate n CHR 0x0A) =
    Inr (map step_info xs)"
  using assms by (rule parseSacctResponse_steps)

definition sample_step :: sacct_step where
  "sample_step =
     \<lparr>ss_start = Some (Civil 2019 2 20 11 16 55), ss_end = None, ss_exit = 2, ss_signal = 0,
      ss_state = ''RUNNING'', ss_id = ''35'', ss_name = ''sbatch''\<rparr>"

theorem parseSacctResponse_correct_witness:
  "parseSacctResponse (''2019-02-20T11:16:55|Unknown|2:0|RUNNING|35|sbatch|'' @ [CHR 0x0A]) =
    Inr [step_info sample_step]"
proof -
  have "parseSacctResponse (Join (map step_text [sample_step]) [CHR 0x0A] @ replicate 1 CHR 0x0A) =
      Inr (map step_info [sample_step])"
    by (rule parseSacctResponse_correct)
       (simp_all add: step_ok_def sample_step_def daysIn_def is_leap_def)
  moreover have "Join (map step_text [sample_step]) [CHR 0x0A] =
      ''2019-02-20T11:16:55|Unknown|2:0|RUNNING|35|sbatch|''"
    by code_simp
  ultimately show ?thesis by simp
qed

text \<open>
  A response is accepted only if every one of its lines has seven bar-separated sections,
  the last empty or not (the message of the error says six), and then gives one step per line.
\<close>

theorem parseSacctResponse_accepts:
  assumes "parseSacctResponse raw = Inr steps"
  shows "length steps = Suc (count_list (Trim raw [CHR 0x0A]) CHR 0x0A) \<and>
    (\<forall>l \<in> set (Split (Trim raw [CHR 0x0A]) [CHR 0x0A]). count_list l CHR ''|'' = 6)"
proof -
  let ?ls = "Split (Trim raw [CHR 0x0A]) [CHR 0x0A]"
  have ok: "list_all2 (\<lambda>l x. parse_step l = Inr x) ?ls steps"
    using assms by (simp add: parseSacctResponse_def map_result_Inr_iff)
  have "count_list l CHR ''|'' = 6" if "parse_step l = Inr x" for l x
    using that length_Split [of l "CHR ''|''"]
    by (auto simp: parse_step_def Let_def split: if_splits)
  then show ?thesis
    using ok list_all2_lengthD [OF ok] by (auto simp: length_Split list_all2_conv_all_nth in_set_conv_nth)
qed

theorem parseSacctResponse_accepts_witness:
  "count_list ''2019-02-20T11:16:55|Unknown|2:0|RUNNING|35|sbatch|'' CHR ''|'' = 6"
proof -
  have "parseSacctResponse ''2019-02-20T11:16:55|Unknown|2:0|RUNNING|35|sbatch|'' =
      Inr [step_info sample_step]"
    by code_simp
  from parseSacctResponse_accepts [OF this] show ?thesis
    by (simp add: Trim_def Split_free)
qed

end
