(* ===== verification/GoIO.thy ===== *)
theory GoIO
  imports Prelude
begin

text \<open>
  Readers. \<open>io_reader\<close> states what the code relies on of an \<^verbatim>\<open>io.Reader\<close>: reads hand out the
  remaining content in order, never more than the buffer holds, and \<^const>\<open>EOF\<close> only when nothing
  is left. The lemmas on sequences of reads are proved once here; every reader of the repository
  is an instance.
\<close>

type_synonym read_result = "string \<times> go_error option"

text \<open>Reads with buffers of these sizes, up to the first error.\<close>

fun reads :: "(nat \<Rightarrow> 'r \<Rightarrow> read_result \<times> 'r) \<Rightarrow> nat list \<Rightarrow> 'r \<Rightarrow> read_result \<times> 'r" where
  "reads read [] r = (([], None), r)"
| "reads read (n # ns) r =
     (case read n r of
        ((b, Some e), r') \<Rightarrow> ((b, Some e), r')
      | ((b, None), r') \<Rightarrow> (case reads read ns r' of ((b', e), r'') \<Rightarrow> ((b @ b', e), r'')))"

locale io_reader =
  fixes read :: "nat \<Rightarrow> 'r \<Rightarrow> read_result \<times> 'r"
    and content :: "'r \<Rightarrow> string"
    and inv :: "'r \<Rightarrow> bool"
  assumes read_inv: "inv r \<Longrightarrow> read n r = ((b, e), r') \<Longrightarrow> inv r'"
    and read_data: "inv r \<Longrightarrow> read n r = ((b, e), r') \<Longrightarrow> content r = b @ content r'"
    and read_len: "inv r \<Longrightarrow> read n r = ((b, e), r') \<Longrightarrow> length b \<le> n"
    and read_eof: "inv r \<Longrightarrow> read n r = ((b, Some EOF), r') \<Longrightarrow> content r' = []"
begin

lemma reads_data: "inv r \<Longrightarrow> reads read ns r = ((b, e), r') \<Longrightarrow> content r = b @ content r'"
proof (induction ns arbitrary: r b)
  case (Cons n ns)
  obtain b1 e1 r1 where r1: "read n r = ((b1, e1), r1)" by (metis surj_pair)
  then have "inv r1" "content r = b1 @ content r1"
    using Cons.prems(1) read_inv read_data by blast+
  then show ?case
    using Cons.IH [of r1] Cons.prems(2) r1 by (cases e1) (auto split: prod.splits)
qed simp

lemma reads_inv: "inv r \<Longrightarrow> reads read ns r = ((b, e), r') \<Longrightarrow> inv r'"
proof (induction ns arbitrary: r b)
  case (Cons n ns)
  obtain b1 e1 r1 where r1: "read n r = ((b1, e1), r1)" by (metis surj_pair)
  then have "inv r1" using Cons.prems(1) read_inv by blast
  then show ?case
    using Cons.IH [of r1] Cons.prems(2) r1 by (cases e1) (auto split: prod.splits)
qed simp

text \<open>A sequence of reads that ends with \<^const>\<open>EOF\<close> has delivered everything, whatever the sizes.\<close>

lemma reads_eof: "inv r \<Longrightarrow> reads read ns r = ((b, Some EOF), r') \<Longrightarrow> b = content r"
proof (induction ns arbitrary: r b)
  case (Cons n ns)
  obtain b1 e1 r1 where r1: "read n r = ((b1, e1), r1)" by (metis surj_pair)
  then have r1': "inv r1" "content r = b1 @ content r1"
    using Cons.prems(1) read_inv read_data by blast+
  show ?case
  proof (cases e1)
    case None
    then obtain b2 where "reads read ns r1 = ((b2, Some EOF), r')" "b = b1 @ b2"
      using Cons.prems(2) r1 by (auto split: prod.splits)
    then show ?thesis using Cons.IH [of r1 b2] r1' by simp
  next
    case (Some x)
    then have "read n r = ((b1, Some EOF), r1)" "b = b1"
      using Cons.prems(2) r1 by auto
    then show ?thesis using read_eof [of r n b1 r1] Cons.prems(1) r1' by simp
  qed
qed simp

end

text \<open>Readers that end: reads with a non-empty buffer get closer to an error.\<close>

locale finite_reader = io_reader +
  fixes left :: "'a \<Rightarrow> nat"
  assumes read_left: "inv r \<Longrightarrow> 0 < n \<Longrightarrow> read n r = ((b, None), r') \<Longrightarrow> left r' < left r"
begin

text \<open>Enough reads with non-empty buffers end with an error (\<^const>\<open>EOF\<close> for a clean end).\<close>

lemma reads_end:
  "inv r \<Longrightarrow> left r < length ns \<Longrightarrow> \<forall>n \<in> set ns. 0 < n \<Longrightarrow> \<exists>b e r'. reads read ns r = ((b, Some e), r')"
proof (induction ns arbitrary: r)
  case (Cons n ns)
  obtain b1 e1 r1 where r1: "read n r = ((b1, e1), r1)" by (metis surj_pair)
  show ?case
  proof (cases e1)
    case None
    then have "left r1 < left r" "inv r1"
      using r1 read_left [of r n b1 r1] read_inv [of r n b1 e1 r1] Cons.prems by auto
    then obtain b e r' where "reads read ns r1 = ((b, Some e), r')"
      using Cons.IH [of r1] Cons.prems by auto
    then show ?thesis using r1 None by simp
  next
    case (Some x)
    then show ?thesis using r1 by simp
  qed
qed simp

end

text \<open>Readers that end cleanly: the only error is \<^const>\<open>EOF\<close>.\<close>

locale clean_reader = finite_reader +
  assumes read_clean: "inv r \<Longrightarrow> read n r = ((b, Some e), r') \<Longrightarrow> e = EOF"
begin

lemma reads_clean: "inv r \<Longrightarrow> reads read ns r = ((b, Some e), r') \<Longrightarrow> e = EOF"
proof (induction ns arbitrary: r b)
  case (Cons n ns)
  obtain b1 e1 r1 where r1: "read n r = ((b1, e1), r1)" by (metis surj_pair)
  then have "inv r1" using Cons.prems(1) read_inv by blast
  then show ?case
    using Cons.IH [of r1] Cons.prems r1 read_clean [of r n b1 e r1]
    by (cases e1) (auto split: prod.splits)
qed simp

text \<open>Reading on with non-empty buffers of any sizes gives the whole content and then \<^const>\<open>EOF\<close>.\<close>

lemma reads_all:
  assumes "inv r" and "left r < length ns" and "\<forall>n \<in> set ns. 0 < n"
  shows "\<exists>r'. reads read ns r = ((content r, Some EOF), r')"
proof -
  obtain b e r' where r: "reads read ns r = ((b, Some e), r')" using reads_end [OF assms] by blast
  then have "e = EOF" using reads_clean assms(1) by blast
  then show ?thesis using reads_eof [of r ns b r'] r assms(1) by auto
qed

end

end
