(* ===== verification/TailReader.thy ===== *)
theory TailReader
  imports GoIO GoStrings
begin

text \<open>
  The reader of a file that is being written (\<^verbatim>\<open>pkg/common/tail/reader.go\<close>): a goroutine appends
  the lines of the tailed file to a buffer, \<^verbatim>\<open>Read\<close> takes bytes from it and reports the end only
  after the goroutine has finished.
\<close>

record tail_reader =
  tr_isClosed :: bool
  tr_buff :: string

definition new_reader :: tail_reader where
  "new_reader = \<lparr>tr_isClosed = False, tr_buff = []\<rparr>"

definition NewReader :: "(string \<Rightarrow> go_error option) \<Rightarrow> string \<Rightarrow> tail_reader result" where
  "NewReader TailFile_start path =
     (case TailFile_start path of Some err \<Rightarrow> Inl err | None \<Rightarrow> Inr new_reader)"

text \<open>\<^verbatim>\<open>io.ReadFull\<close> on a \<^verbatim>\<open>bytes.Buffer\<close>, for a buffer of \<open>n\<close> bytes.\<close>

definition ReadFull :: "nat \<Rightarrow> string \<Rightarrow> read_result \<times> string" where
  "ReadFull n buff =
     ((take n buff,
       if n \<le> length buff then None else if buff = [] then Some EOF else Some ErrUnexpectedEOF),
      drop n buff)"

definition Reader_Read :: "nat \<Rightarrow> tail_reader \<Rightarrow> read_result \<times> tail_reader" where
  "Reader_Read n tr =
     (let ((b, err), buff) = ReadFull n (tr_buff tr);
          tr' = tr\<lparr>tr_buff := buff\<rparr>
      in if (err = Some EOF \<or> err = Some ErrUnexpectedEOF) \<and> \<not> tr_isClosed tr
         then ((b, None), tr') else ((b, err), tr'))"

text \<open>
  What the goroutine receives: a line, a line with an error, or the close of the channel. It ends
  at the last two and then receives nothing more.
\<close>

datatype tail_line = TextLine string | ErrLine go_error | Closed

fun readTail :: "tail_line \<Rightarrow> tail_reader \<Rightarrow> tail_reader" where
  "readTail (TextLine l) tr =
     (if tr_isClosed tr then tr else tr\<lparr>tr_buff := tr_buff tr @ l @ [CHR 0x0A]\<rparr>)"
| "readTail (ErrLine e) tr = tr\<lparr>tr_isClosed := True\<rparr>"
| "readTail Closed tr = tr\<lparr>tr_isClosed := True\<rparr>"

lemma Reader_Read_eq:
  "Reader_Read n tr =
     ((take n (tr_buff tr),
       if n \<le> length (tr_buff tr) \<or> \<not> tr_isClosed tr then None
       else if tr_buff tr = [] then Some EOF else Some ErrUnexpectedEOF),
      tr\<lparr>tr_buff := drop n (tr_buff tr)\<rparr>)"
  by (simp add: Reader_Read_def ReadFull_def)

interpretation tr: io_reader Reader_Read tr_buff "\<lambda>_. True"
  by unfold_locales (auto simp: Reader_Read_eq split: if_splits)

text \<open>Once the goroutine has ended, reading ends as well.\<close>

interpretation tr_end: finite_reader Reader_Read tr_buff tr_isClosed "\<lambda>tr. length (tr_buff tr)"
  by unfold_locales (auto simp: Reader_Read_eq split: if_splits)

end
