(* ===== verification/SlurmClient.thy ===== *)
theory SlurmClient
  imports SlurmParse TailReader
begin

text \<open>
  The client of the local Slurm installation (\<^verbatim>\<open>pkg/slurm-agent/slurm.go\<close>). Every operation runs
  one of the Slurm binaries and parses what it prints. The operating system is a parameter: a
  record of functions over a state \<open>'w\<close> of the machine (the Slurm database and the file system),
  which running a binary may change.
\<close>

section \<open>The operating system\<close>

text \<open>
  \<open>CombinedOutput\<close> and \<open>Output\<close> take the binary, its arguments and the standard input and return
  the bytes read and the error of the method of \<^verbatim>\<open>exec.Cmd\<close>; a failed command is
  \<^const>\<open>ExitError\<close> with its standard error. \<open>os_Open\<close> is \<^verbatim>\<open>os.Open\<close>, whose handle is what the
  successive reads of the file return.
\<close>

datatype open_result = NotExist go_error | OpenError go_error | Opened "read_result list"

record 'w host =
  LookPath :: "string \<Rightarrow> 'w \<Rightarrow> go_error option"
  CombinedOutput :: "string \<Rightarrow> string list \<Rightarrow> string \<Rightarrow> 'w \<Rightarrow> (string \<times> go_error option) \<times> 'w"
  Output :: "string \<Rightarrow> string list \<Rightarrow> 'w \<Rightarrow> (string \<times> go_error option) \<times> 'w"
  os_Open :: "string \<Rightarrow> 'w \<Rightarrow> open_result"

definition NewClient :: "'w host \<Rightarrow> 'w \<Rightarrow> unit result" where
  "NewClient h w =
     (let missing = [b \<leftarrow> [''sacct'', ''sbatch'', ''scancel'', ''scontrol'', ''sinfo''].
                       LookPath h b w \<noteq> None] in
      if length missing \<noteq> 0
      then Inl (ErrorString (''no slurm-agent binaries found: '' @ Join missing '', ''))
      else Inr ())"

section \<open>Submitting and cancelling\<close>

record SbatchRequest =
  sb_Script :: string
  sb_Partition :: string
  sb_RunAsUser :: string
  sb_RunAsGroup :: string
  sb_CpufsPerTask :: int64
  sb_MemPerCpu :: int64
  sb_NtasksPerNode :: int64
  sb_Array :: string
  sb_Ntasks :: int64
  sb_Nodes :: int64
  sb_JobName :: string
  sb_WorkingDir :: string

definition str_opt :: "string \<Rightarrow> string \<Rightarrow> string list \<Rightarrow> string list" where
  "str_opt flag v opts = (if v \<noteq> [] then opts @ [flag @ v] else opts)"

definition int_opt :: "string \<Rightarrow> int64 \<Rightarrow> string list \<Rightarrow> string list" where
  "int_opt flag v opts = (if 0 < sint v then opts @ [flag @ FormatInt64 v] else opts)"

definition getSbatchOpts :: "SbatchRequest \<Rightarrow> string list" where
  "getSbatchOpts req =
     (let opts = [''--parsable''];
          opts = str_opt ''--partition='' (sb_Partition req) opts;
          opts = str_opt ''--uid='' (sb_RunAsUser req) opts;
          opts = str_opt ''--gid='' (sb_RunAsGroup req) opts;
          opts = str_opt ''--array='' (sb_Array req) opts;
          opts = int_opt ''--cpus-per-task='' (sb_CpufsPerTask req) opts;
          opts = int_opt ''--mem-per-cpu='' (sb_MemPerCpu req) opts;
          opts = int_opt ''--nodes='' (sb_Nodes req) opts;
          opts = int_opt ''--ntasks='' (sb_Ntasks req) opts;
          opts = int_opt ''--ntasks-per-node='' (sb_NtasksPerNode req) opts;
          opts = int_opt ''--ntasks-per-node='' (sb_NtasksPerNode req) opts;
          opts = str_opt ''--job-name='' (sb_JobName req) opts;
          opts = str_opt ''--chdir='' (sb_WorkingDir req) opts
      in opts)"

definition SBatch :: "'w host \<Rightarrow> SbatchRequest \<Rightarrow> 'w \<Rightarrow> int64 result \<times> 'w" where
  "SBatch h req w =
     (case CombinedOutput h ''sbatch'' (getSbatchOpts req) (sb_Script req) w of
        ((out, Some err), w') \<Rightarrow> (Inl (Wrap ''failed to execute sbatch'' err), w')
      | ((out, None), w') \<Rightarrow>
          (case Atoi (TrimSpace out) of
             Inl err \<Rightarrow> (Inl (Wrap ''could not parse job id'' err), w')
           | Inr jid \<Rightarrow> (Inr jid, w')))"

definition SCancel :: "'w host \<Rightarrow> int64 \<Rightarrow> 'w \<Rightarrow> go_error option \<times> 'w" where
  "SCancel h jobID w =
     (case CombinedOutput h ''scancel'' [FormatInt64 jobID] [] w of
        ((out, err), w') \<Rightarrow> (errors_Wrap err ''failed to execute scancel'', w'))"

section \<open>Files\<close>

definition Open :: "'w host \<Rightarrow> string \<Rightarrow> 'w \<Rightarrow> read_result list result" where
  "Open h path w =
     (case os_Open h path w of
        NotExist err \<Rightarrow> Inl ErrFileNotFound
      | OpenError err \<Rightarrow> Inl (Wrap (''could not open '' @ path) err)
      | Opened r \<Rightarrow> Inr r)"

definition Tail :: "(string \<Rightarrow> go_error option) \<Rightarrow> string \<Rightarrow> tail_reader result" where
  "Tail TailFile_start path =
     (case NewReader TailFile_start path of
        Inl err \<Rightarrow> Inl (Wrap ''could not create tail reader'' err)
      | Inr tr \<Rightarrow> Inr tr)"

section \<open>Information about jobs\<close>

text \<open>\<^verbatim>\<open>slurm.JobInfo\<close>, with its fields in the order of the struct.\<close>

record SlurmJobInfo =
  sji_ID :: string
  sji_UserID :: string
  sji_ArrayJobID :: string
  sji_Name :: string
  sji_ExitCode :: string
  sji_State :: string
  sji_SubmitTime :: "go_time option"
  sji_StartTime :: "go_time option"
  sji_RunTime :: "duration option"
  sji_TimeLimit :: "duration option"
  sji_WorkDir :: string
  sji_StdOut :: string
  sji_StdErr :: string
  sji_Partition :: string
  sji_NodeList :: string
  sji_BatchHost :: string
  sji_NumNodes :: string
  sji_Reason :: string

definition zero_SlurmJobInfo :: SlurmJobInfo where
  "zero_SlurmJobInfo =
     \<lparr>sji_ID = [], sji_UserID = [], sji_ArrayJobID = [], sji_Name = [], sji_ExitCode = [],
      sji_State = [], sji_SubmitTime = None, sji_StartTime = None, sji_RunTime = None,
      sji_TimeLimit = None, sji_WorkDir = [], sji_StdOut = [], sji_StdErr = [], sji_Partition = [],
      sji_NodeList = [], sji_BatchHost = [], sji_NumNodes = [], sji_Reason = []\<rparr>"

text \<open>
  The struct's tags with the field each sets, by the type of the field; the three arms of the
  switch in \<^verbatim>\<open>fillFromSlurmFields\<close>.
\<close>

datatype field_setter =
    TimeField "go_time option \<Rightarrow> SlurmJobInfo \<Rightarrow> SlurmJobInfo"
  | DurationField "duration option \<Rightarrow> SlurmJobInfo \<Rightarrow> SlurmJobInfo"
  | TextField "string \<Rightarrow> SlurmJobInfo \<Rightarrow> SlurmJobInfo"

definition tagged_fields :: "(string \<times> field_setter) list" where
  "tagged_fields =
    [(''JobId'', TextField (\<lambda>v ji. ji\<lparr>sji_ID := v\<rparr>)),
     (''UserId'', TextField (\<lambda>v ji. ji\<lparr>sji_UserID := v\<rparr>)),
     (''ArrayJobId'', TextField (\<lambda>v ji. ji\<lparr>sji_ArrayJobID := v\<rparr>)),
     (''JobName'', TextField (\<lambda>v ji. ji\<lparr>sji_Name := v\<rparr>)),
     (''ExitCode'', TextField (\<lambda>v ji. ji\<lparr>sji_ExitCode := v\<rparr>)),
     (''JobState'', TextField (\<lambda>v ji. ji\<lparr>sji_State := v\<rparr>)),
     (''SubmitTime'', TimeField (\<lambda>v ji. ji\<lparr>sji_SubmitTime := v\<rparr>)),
     (''StartTime'', TimeField (\<lambda>v ji. ji\<lparr>sji_StartTime := v\<rparr>)),
     (''RunTime'', DurationField (\<lambda>v ji. ji\<lparr>sji_RunTime := v\<rparr>)),
     (''TimeLimit'', DurationField (\<lambda>v ji. ji\<lparr>sji_TimeLimit := v\<rparr>)),
     (''WorkDir'', TextField (\<lambda>v ji. ji\<lparr>sji_WorkDir := v\<rparr>)),
     (''StdOut'', TextField (\<lambda>v ji. ji\<lparr>sji_StdOut := v\<rparr>)),
     (''StdErr'', TextField (\<lambda>v ji. ji\<lparr>sji_StdErr := v\<rparr>)),
     (''Partition'', TextField (\<lambda>v ji. ji\<lparr>sji_Partition := v\<rparr>)),
     (''NodeList'', TextField (\<lambda>v ji. ji\<lparr>sji_NodeList := v\<rparr>)),
     (''BatchHost'', TextField (\<lambda>v ji. ji\<lparr>sji_BatchHost := v\<rparr>)),
     (''NumNodes'', TextField (\<lambda>v ji. ji\<lparr>sji_NumNodes := v\<rparr>)),
     (''Reason'', TextField (\<lambda>v ji. ji\<lparr>sji_Reason := v\<rparr>))]"

fun fill_field :: "field_setter \<Rightarrow> string \<Rightarrow> SlurmJobInfo \<Rightarrow> SlurmJobInfo result" where
  "fill_field (TimeField set_v) sField ji =
     (case parseTime sField of
        Inl err \<Rightarrow> Inl (Wrap (''could not parse time: '' @ sField) err)
      | Inr t \<Rightarrow> Inr (set_v t ji))"
| "fill_field (DurationField set_v) sField ji =
     (case ParseDuration sField of
        Inl err \<Rightarrow>
          if errors_Is err ErrDurationIsUnlimited then Inr ji
          else Inl (Wrap (''could not parse duration: '' @ sField) err)
      | Inr d \<Rightarrow> Inr (set_v (Some d) ji))"
| "fill_field (TextField set_v) sField ji = Inr (set_v sField ji)"

fun fill_fields ::
    "(string \<times> field_setter) list \<Rightarrow> (string \<rightharpoonup> string) \<Rightarrow> SlurmJobInfo \<Rightarrow> SlurmJobInfo result" where
  "fill_fields [] flds ji = Inr ji"
| "fill_fields ((tagV, f) # r) flds ji =
     (case flds tagV of
        None \<Rightarrow> fill_fields r flds ji
      | Some sField \<Rightarrow>
          (case fill_field f sField ji of
             Inl err \<Rightarrow> Inl err
           | Inr ji' \<Rightarrow> fill_fields r flds ji'))"

definition fillFromSlurmFields :: "(string \<rightharpoonup> string) \<Rightarrow> SlurmJobInfo \<Rightarrow> SlurmJobInfo result" where
  "fillFromSlurmFields flds ji = fill_fields tagged_fields flds ji"

definition slurm_fields :: "string \<Rightarrow> (string \<rightharpoonup> string)" where
  "slurm_fields raw = fold (\<lambda>(k, v) m. m(k \<mapsto> v)) (kvs raw) Map.empty"

definition jobInfoFromScontrolResponse :: "string \<Rightarrow> SlurmJobInfo list result" where
  "jobInfoFromScontrolResponse jobInfo =
     map_result (\<lambda>raw. fillFromSlurmFields (slurm_fields raw) zero_SlurmJobInfo)
       (Split (TrimSpace jobInfo) [CHR 0x0A, CHR 0x0A])"

definition SJobInfo :: "'w host \<Rightarrow> int64 \<Rightarrow> 'w \<Rightarrow> SlurmJobInfo list result \<times> 'w" where
  "SJobInfo h jobID w =
     (case Output h ''scontrol'' [''show'', ''jobid'', FormatInt64 jobID] w of
        ((out, Some err), w') \<Rightarrow>
          (Inl (Wrap (''failed to get info for jobid: '' @ FormatInt64 jobID) err), w')
      | ((out, None), w') \<Rightarrow>
          (case jobInfoFromScontrolResponse out of
             Inl err \<Rightarrow> (Inl (Wrap ''could not parse scontrol response'' err), w')
           | Inr ji \<Rightarrow> (Inr ji, w')))"

definition SJobSteps :: "'w host \<Rightarrow> int64 \<Rightarrow> 'w \<Rightarrow> StepInfo list result \<times> 'w" where
  "SJobSteps h jobID w =
     (case Output h ''sacct''
             [''-p'', ''-n'', ''-j'', FormatInt64 jobID,
              ''-o start,end,exitcode,state,jobid,jobname''] w of
        ((out, Some (ExitError stderr)), w') \<Rightarrow>
          (Inl (Wrap (''failed to execute sacct: '' @ stderr) (ExitError stderr)), w')
      | ((out, Some err), w') \<Rightarrow> (Inl (Wrap ''failed to execute sacct'' err), w')
      | ((out, None), w') \<Rightarrow>
          (case parseSacctResponse out of
             Inl err \<Rightarrow> (Inl (Wrap ''unable to parse sacct response'' err), w')
           | Inr jInfo \<Rightarrow> (Inr jInfo, w')))"

section \<open>Partitions, nodes and version\<close>

definition Resources :: "'w host \<Rightarrow> string \<Rightarrow> 'w \<Rightarrow> Resources result \<times> 'w" where
  "Resources h p w =
     (case Output h ''scontrol'' [''show'', ''partition'', p] w of
        ((out, Some err), w') \<Rightarrow> (Inl (Wrap ''could not get partition info'' err), w')
      | ((out, None), w') \<Rightarrow>
          (case parseResources out of
             Inl err \<Rightarrow> (Inl (Wrap ''could not parse partition resources'' err), w')
           | Inr r \<Rightarrow> (Inr r, w')))"

definition Partitions :: "'w host \<Rightarrow> 'w \<Rightarrow> string list result \<times> 'w" where
  "Partitions h w =
     (case Output h ''scontrol'' [''show'', ''partition''] w of
        ((out, Some err), w') \<Rightarrow> (Inl (Wrap ''could not get partition info'' err), w')
      | ((out, None), w') \<Rightarrow> (Inr (parsePartitionsNames out), w'))"

definition Partition :: "'w host \<Rightarrow> string \<Rightarrow> 'w \<Rightarrow> Partition result \<times> 'w" where
  "Partition h p w =
     (case Output h ''scontrol'' [''show'', ''partition'', p] w of
        ((out, Some err), w') \<Rightarrow>
          (Inl (Wrap (''could not get partition info,out is : ['' @ out @ '']'') err), w')
      | ((out, None), w') \<Rightarrow> (Inr (parsePartition (TrimSpace out)), w'))"

definition Nodes :: "'w host \<Rightarrow> string list \<Rightarrow> 'w \<Rightarrow> Node list result \<times> 'w" where
  "Nodes h nodeNames w =
     (if length nodeNames = 0 then (Inr [], w)
      else
        case Output h ''scontrol'' [''show'', ''nodes'', Join nodeNames '',''] w of
          ((out, Some err), w') \<Rightarrow> (Inl (Wrap ''could not get partition info'' err), w')
        | ((out, None), w') \<Rightarrow>
            (Inr (map parseNode
               [s \<leftarrow> Split (TrimSpace out) [CHR 0x0A, CHR 0x0A]. length s \<noteq> 0]), w'))"

text \<open>
  The second error of \<^verbatim>\<open>Version\<close> wraps the nil error of the command that succeeded, so it is nil:
  a response that is not two words gives the empty version and no error.
\<close>

definition Version :: "'w host \<Rightarrow> 'w \<Rightarrow> (string \<times> go_error option) \<times> 'w" where
  "Version h w =
     (case Output h ''sinfo'' [''-V''] w of
        ((out, Some err), w') \<Rightarrow> (([], errors_Wrap (Some err) ''could not get slurm-agent info''), w')
      | ((out, None), w') \<Rightarrow>
          (let s = Split out '' '' in
           if length s \<noteq> 2
           then (([], errors_Wrap None (''could not parse sinfo response '' @ out)), w')
           else ((s ! 1, None), w')))"

section \<open>The options of sbatch\<close>

text \<open>
  How \<^verbatim>\<open>sbatch\<close> reads its command line: \<^verbatim>\<open>--name=value\<close> sets the option, and the last
  setting of a name counts.
\<close>

definition opt_name :: "string \<Rightarrow> string" where
  "opt_name o' = takeWhile (\<lambda>c. c \<noteq> CHR ''='') o'"

definition opt_setting :: "string \<Rightarrow> string \<times> string" where
  "opt_setting o' = (opt_name o', drop (Suc (length (opt_name o'))) o')"

definition opt_value :: "string list \<Rightarrow> string \<Rightarrow> string option" where
  "opt_value opts name = map_of (rev (map opt_setting opts)) name"

text \<open>What a request asks for: empty texts and numbers that are not positive ask for nothing.\<close>

definition str_value :: "string \<Rightarrow> string option" where
  "str_value v = (if v = [] then None else Some v)"

definition int_value :: "int64 \<Rightarrow> string option" where
  "int_value v = (if 0 < sint v then Some (FormatInt64 v) else None)"

definition sbatch_spec :: "SbatchRequest \<Rightarrow> (string \<rightharpoonup> string)" where
  "sbatch_spec req =
     [''--parsable'' \<mapsto> []] ++
     (\<lambda>k. if k = ''--partition'' then str_value (sb_Partition req)
         else if k = ''--uid'' then str_value (sb_RunAsUser req)
         else if k = ''--gid'' then str_value (sb_RunAsGroup req)
         else if k = ''--array'' then str_value (sb_Array req)
         else if k = ''--cpus-per-task'' then int_value (sb_CpufsPerTask req)
         else if k = ''--mem-per-cpu'' then int_value (sb_MemPerCpu req)
         else if k = ''--nodes'' then int_value (sb_Nodes req)
         else if k = ''--ntasks'' then int_value (sb_Ntasks req)
         else if k = ''--ntasks-per-node'' then int_value (sb_NtasksPerNode req)
         else if k = ''--job-name'' then str_value (sb_JobName req)
         else if k = ''--chdir'' then str_value (sb_WorkingDir req)
         else None)"

lemma opt_setting_flag:
  "CHR ''='' \<notin> set n \<Longrightarrow> opt_setting (n @ CHR ''='' # v) = (n, v)"
  by (simp add: opt_setting_def opt_name_def takeWhile_append)

lemma opt_value_snoc:
  "opt_value (opts @ [o']) k = (if k = fst (opt_setting o') then Some (snd (opt_setting o')) else opt_value opts k)"
  by (cases "opt_setting o'") (simp add: opt_value_def)

lemma opt_value_str_opt:
  assumes "flag = n @ ''=''" and "CHR ''='' \<notin> set n"
  shows "opt_value (str_opt flag v opts) k =
    (if k = n \<and> v \<noteq> [] then Some v else opt_value opts k)"
  using opt_setting_flag [OF assms(2), of v] by (simp add: str_opt_def opt_value_snoc assms(1))

lemma opt_value_int_opt:
  assumes "flag = n @ ''=''" and "CHR ''='' \<notin> set n"
  shows "opt_value (int_opt flag v opts) k =
    (if k = n \<and> 0 < sint v then Some (FormatInt64 v) else opt_value opts k)"
  using opt_setting_flag [OF assms(2), of "FormatInt64 v"]
  by (simp add: int_opt_def opt_value_snoc assms(1))

lemma opt_value_flags:
  "opt_value (str_opt ''--partition='' v opts) k =
     (if k = ''--partition'' \<and> v \<noteq> [] then Some v else opt_value opts k)"
  "opt_value (str_opt ''--uid='' v opts) k = (if k = ''--uid'' \<and> v \<noteq> [] then Some v else opt_value opts k)"
  "opt_value (str_opt ''--gid='' v opts) k = (if k = ''--gid'' \<and> v \<noteq> [] then Some v else opt_value opts k)"
  "opt_value (str_opt ''--array='' v opts) k = (if k = ''--array'' \<and> v \<noteq> [] then Some v else opt_value opts k)"
  "opt_value (str_opt ''--job-name='' v opts) k =
     (if k = ''--job-name'' \<and> v \<noteq> [] then Some v else opt_value opts k)"
  "opt_value (str_opt ''--chdir='' v opts) k = (if k = ''--chdir'' \<and> v \<noteq> [] then Some v else opt_value opts k)"
  "opt_value (int_opt ''--cpus-per-task='' i opts) k =
     (if k = ''--cpus-per-task'' \<and> 0 < sint i then Some (FormatInt64 i) else opt_value opts k)"
  "opt_value (int_opt ''--mem-per-cpu='' i opts) k =
     (if k = ''--mem-per-cpu'' \<and> 0 < sint i then Some (FormatInt64 i) else opt_value opts k)"
  "opt_value (int_opt ''--nodes='' i opts) k =
     (if k = ''--nodes'' \<and> 0 < sint i then Some (FormatInt64 i) else opt_value opts k)"
  "opt_value (int_opt ''--ntasks='' i opts) k =
     (if k = ''--ntasks'' \<and> 0 < sint i then Some (FormatInt64 i) else opt_value opts k)"
  "opt_value (int_opt ''--ntasks-per-node='' i opts) k =
     (if k = ''--ntasks-per-node'' \<and> 0 < sint i then Some (FormatInt64 i) else opt_value opts k)"
  by (rule opt_value_str_opt opt_value_int_opt; simp)+

lemma opt_value_parsable: "opt_value [''--parsable''] = [''--parsable'' \<mapsto> []]"
  by (rule ext) (simp add: opt_value_def opt_setting_def opt_name_def)

lemma getSbatchOpts_spec: "opt_value (getSbatchOpts req) = sbatch_spec req"
proof
  fix k
  show "opt_value (getSbatchOpts req) k = sbatch_spec req k"
    unfolding getSbatchOpts_def sbatch_spec_def Let_def map_add_def
    by (simp only: opt_value_flags opt_value_parsable str_value_def int_value_def)
       (simp split: if_splits)
qed

text \<open>
  C27. The command line of \<^verbatim>\<open>sbatch\<close> carries the request: read the way \<^verbatim>\<open>sbatch\<close> reads it, each
  option has the value the request gives, options the request leaves empty (or not positive)
  are absent, and there is no other option than the machine-readable output.
\<close>

theorem getSbatchOpts_correct:
  "opt_value (getSbatchOpts req) = sbatch_spec req"
  by (rule getSbatchOpts_spec)

text \<open>The number of tasks per node is passed twice.\<close>

lemma str_opt_extends: "\<exists>vs. str_opt flag v opts = opts @ vs"
  by (simp add: str_opt_def)

lemma getSbatchOpts_ntasks_per_node_twice:
  assumes "0 < sint (sb_NtasksPerNode req)"
  shows "\<exists>us vs. getSbatchOpts req =
    us @ [''--ntasks-per-node='' @ FormatInt64 (sb_NtasksPerNode req),
          ''--ntasks-per-node='' @ FormatInt64 (sb_NtasksPerNode req)] @ vs"
proof -
  let ?f = "''--ntasks-per-node=''" and ?n = "sb_NtasksPerNode req"
  have twice: "int_opt ?f ?n (int_opt ?f ?n us) = us @ [?f @ FormatInt64 ?n, ?f @ FormatInt64 ?n]"
    for us
    using assms by (simp add: int_opt_def)
  have "\<exists>us vs. str_opt a x (str_opt b y (us' @ xs)) = us @ xs @ vs" for a x b y us' xs
    by (rule exI [of _ us']) (simp add: str_opt_def)
  then show ?thesis
    unfolding getSbatchOpts_def Let_def twice .
qed

section \<open>Submission\<close>

lemma trim_right_blank: "blank c \<Longrightarrow> trim_right_space (s @ [c]) = trim_right_space s"
  by (subst trim_right_space.simps) (simp add: space_suffix_len_def space_len_blank)

lemma trim_right_blanks: "\<forall>c \<in> set t. blank c \<Longrightarrow> trim_right_space (s @ t) = trim_right_space s"
proof (induction t rule: rev_induct)
  case (snoc c t)
  then show ?case using trim_right_blank [of c "s @ t"] by simp
qed simp

lemma TrimSpace_blanks:
  assumes "s \<noteq> []" and "graphic (hd s)" and "\<forall>c \<in> set t. blank c"
  shows "TrimSpace (s @ t) = TrimSpace s"
proof -
  have "trim_left_space (s @ t) = s @ t" "trim_left_space s = s"
    using assms(1,2) by (cases s; simp add: trim_left_graphic)+
  then show ?thesis using assms(3) by (simp add: TrimSpace_def trim_right_blanks)
qed

lemma TrimSpace_FormatInt_blanks:
  "\<forall>c \<in> set t. blank c \<Longrightarrow> TrimSpace (FormatInt n @ t) = FormatInt n"
  by (subst TrimSpace_blanks) (simp_all add: FormatInt_is_graphic [OF hd_in_set])

text \<open>
  When \<^verbatim>\<open>sbatch\<close>, run with the request's options and given its script on standard input,
  prints a job identifier followed by white space, \<^const>\<open>SBatch\<close> returns that identifier.
\<close>

theorem SBatch_job_id:
  assumes "CombinedOutput h ''sbatch'' (getSbatchOpts req) (sb_Script req) w =
      ((FormatInt64 jid @ t, None), w')"
    and "\<forall>c \<in> set t. blank c"
  shows "SBatch h req w = (Inr jid, w')"
  using assms by (simp add: SBatch_def TrimSpace_FormatInt_blanks)

text \<open>A machine whose state is the next job identifier; \<^verbatim>\<open>sbatch\<close> hands it out.\<close>

definition counting_host :: "int64 host" where
  "counting_host =
     \<lparr>LookPath = (\<lambda>b w. None),
      CombinedOutput = (\<lambda>b args stdin w. ((FormatInt64 w @ [CHR 0x0A], None), w + 1)),
      Output = (\<lambda>b args w. (([], None), w)),
      os_Open = (\<lambda>path w. NotExist (ErrorString ''no such file''))\<rparr>"

theorem SBatch_job_id_witness:
  "SBatch counting_host req 41 = (Inr 41, 42)"
  using SBatch_job_id [of counting_host req 41 41 "[CHR 0x0A]" 42]
  by (simp add: counting_host_def)

section \<open>Job information\<close>

text \<open>A job as \<^verbatim>\<open>scontrol show jobid\<close> prints it, and what the agent makes of it.\<close>

record scontrol_job =
  sj_texts :: "string \<rightharpoonup> string"
  sj_submit :: "civil option"
  sj_start :: "civil option"
  sj_run :: "duration_format option"
  sj_limit :: "duration_format option"

definition job_field :: "scontrol_job \<Rightarrow> string \<Rightarrow> string option" where
  "job_field j k =
     (if k = ''SubmitTime'' then Some (time_text (sj_submit j))
      else if k = ''StartTime'' then Some (time_text (sj_start j))
      else if k = ''RunTime'' then Some (wall_text (sj_run j))
      else if k = ''TimeLimit'' then Some (wall_text (sj_limit j))
      else sj_texts j k)"

definition job_info :: "scontrol_job \<Rightarrow> SlurmJobInfo" where
  "job_info j =
     (let t = map_get (sj_texts j) in
      \<lparr>sji_ID = t ''JobId'', sji_UserID = t ''UserId'', sji_ArrayJobID = t ''ArrayJobId'',
       sji_Name = t ''JobName'', sji_ExitCode = t ''ExitCode'', sji_State = t ''JobState'',
       sji_SubmitTime = map_option civil_time (sj_submit j),
       sji_StartTime = map_option civil_time (sj_start j),
       sji_RunTime = map_option (\<lambda>f. word_of_int (duration_nanos f)) (sj_run j),
       sji_TimeLimit = map_option (\<lambda>f. word_of_int (duration_nanos f)) (sj_limit j),
       sji_WorkDir = t ''WorkDir'', sji_StdOut = t ''StdOut'', sji_StdErr = t ''StdErr'',
       sji_Partition = t ''Partition'', sji_NodeList = t ''NodeList'',
       sji_BatchHost = t ''BatchHost'', sji_NumNodes = t ''NumNodes'', sji_Reason = t ''Reason''\<rparr>)"

definition job_ok :: "scontrol_job \<Rightarrow> bool" where
  "job_ok j \<longleftrightarrow>
     pred_option civil_ok (sj_submit j) \<and> pred_option civil_ok (sj_start j) \<and>
     wall_ok (sj_run j) \<and> wall_ok (sj_limit j)"

lemma slurm_fields_eq: "slurm_fields raw = map_of (rev (kvs raw))"
proof -
  have "fold (\<lambda>(k, v) m. m(k \<mapsto> v)) xs m = m ++ map_of (rev xs)" for xs and m :: "string \<rightharpoonup> string"
    by (induction xs arbitrary: m) auto
  then show ?thesis by (simp add: slurm_fields_def)
qed

text \<open>One step of the loop on a struct whose field is still zero.\<close>

lemma fill_TextField:
  "f [] ji = ji \<Longrightarrow>
     fill_fields ((k, TextField f) # r) m ji = fill_fields r m (f (map_get m k) ji)"
  by (simp add: map_get_def split: option.splits)

lemma fill_TimeField:
  assumes "m k = Some (time_text t)" and "pred_option civil_ok t"
  shows "fill_fields ((k, TimeField f) # r) m ji = fill_fields r m (f (map_option civil_time t) ji)"
  using assms by (simp add: parseTime_time_text)

lemma fill_DurationField:
  assumes "m k = Some (wall_text w)" and "wall_ok w" and "f None ji = ji"
  shows "fill_fields ((k, DurationField f) # r) m ji =
    fill_fields r m (f (map_option (\<lambda>d. word_of_int (duration_nanos d)) w) ji)"
  using assms ParseDuration_wall [OF assms(2)] by (cases w) (auto split: sum.splits)

lemma job_field_times [simp]:
  "job_field j ''SubmitTime'' = Some (time_text (sj_submit j))"
  "job_field j ''StartTime'' = Some (time_text (sj_start j))"
  "job_field j ''RunTime'' = Some (wall_text (sj_run j))"
  "job_field j ''TimeLimit'' = Some (wall_text (sj_limit j))"
  by (simp_all add: job_field_def)

lemma job_field_text:
  "k \<notin> {''SubmitTime'', ''StartTime'', ''RunTime'', ''TimeLimit''} \<Longrightarrow>
     map_get (job_field j) k = map_get (sj_texts j) k"
  by (simp add: map_get_def job_field_def)

lemma fill_job:
  assumes "job_ok j"
  shows "fillFromSlurmFields (job_field j) zero_SlurmJobInfo = Inr (job_info j)"
  using assms
  by (simp add: fillFromSlurmFields_def tagged_fields_def zero_SlurmJobInfo_def job_ok_def
      fill_TextField fill_TimeField [of "job_field j" _ "sj_submit j"]
      fill_TimeField [of "job_field j" _ "sj_start j"]
      fill_DurationField [of "job_field j" _ "sj_run j"]
      fill_DurationField [of "job_field j" _ "sj_limit j"]
      job_field_text job_info_def Let_def del: fill_fields.simps(2))

lemma fill_fields_cong:
  "(\<And>k. k \<in> fst ` set fs \<Longrightarrow> m k = m' k) \<Longrightarrow> fill_fields fs m ji = fill_fields fs m' ji"
  by (induction fs m ji rule: fill_fields.induct) (auto split: splits_go)

text \<open>A block of the response that shows job \<open>j\<close>; fields the agent does not read are free.\<close>

definition job_block :: "string \<Rightarrow> scontrol_job \<Rightarrow> bool" where
  "job_block b j \<longleftrightarrow>
     block CHR 0x0A b \<and> job_ok j \<and>
     list_all (\<lambda>k. slurm_fields b k = job_field j k) (map fst tagged_fields)"

lemma fill_block:
  assumes "job_block b j"
  shows "fillFromSlurmFields (slurm_fields b) zero_SlurmJobInfo = Inr (job_info j)"
proof -
  have "fillFromSlurmFields (slurm_fields b) zero_SlurmJobInfo =
      fillFromSlurmFields (job_field j) zero_SlurmJobInfo"
    unfolding fillFromSlurmFields_def
    using assms by (intro fill_fields_cong) (auto simp: job_block_def list_all_iff)
  then show ?thesis using fill_job assms by (simp add: job_block_def)
qed

lemma jobInfoFromScontrolResponse_jobs:
  assumes "TrimSpace raw = Join blocks [CHR 0x0A, CHR 0x0A]" and "blocks \<noteq> []"
    and "list_all2 job_block blocks jobs"
  shows "jobInfoFromScontrolResponse raw = Inr (map job_info jobs)"
proof -
  have "\<forall>b \<in> set blocks. block CHR 0x0A b"
    using assms(3) by (auto simp: job_block_def list_all2_conv_all_nth in_set_conv_nth)
  then have "Split (TrimSpace raw) [CHR 0x0A, CHR 0x0A] = blocks"
    using Split_Join_blocks assms(1,2) by simp
  moreover have
    "list_all2 (\<lambda>b i. fillFromSlurmFields (slurm_fields b) zero_SlurmJobInfo = Inr i) blocks (map job_info jobs)"
    using assms(3) by (auto simp: list_all2_conv_all_nth fill_block)
  ultimately show ?thesis by (simp add: jobInfoFromScontrolResponse_def map_result_Inr_iff)
qed


definition sample_job :: scontrol_job where
  "sample_job =
     \<lparr>sj_texts = map_of [(''JobId'', ''7''), (''JobState'', ''RUNNING'')],
      sj_submit = Some (Civil 2019 2 20 11 16 55), sj_start = None,
      sj_run = Some (HoursMinutesSeconds 0 1 2), sj_limit = None\<rparr>"


text \<open>Asking for no node runs no command; a response that is not two words gives no version and no error.\<close>

lemma Nodes_none: "Nodes h [] w = (Inr [], w)"
  by (simp add: Nodes_def)

lemma Version_malformed:
  assumes "Output h ''sinfo'' [''-V''] w = ((out, None), w')" and "count_list out CHR '' '' \<noteq> 1"
  shows "Version h w = (([], None), w')"
  using assms length_Split [of out "CHR '' ''"] by (simp add: Version_def errors_Wrap_def Let_def)

end
