(* ===== verification/SlurmServer.thy ===== *)
theory SlurmServer
  imports SlurmClient
begin

text \<open>
  The gRPC service of the Slurm agent (\<^verbatim>\<open>pkg/slurm-agent/api/slurm.go\<close>): every method of the
  workload manager on top of the client of \<^verbatim>\<open>SlurmClient\<close>. The service keeps the map of the
  submissions it knows. Third-party code is part of the machine the service runs on:
  \<open>TimestampProto\<close> and \<open>DurationProto\<close> are the conversions of \<^verbatim>\<open>ptypes\<close>, \<open>uuid_New\<close> the random
  identifier of \<^verbatim>\<open>google/uuid\<close>, and \<open>Sprintf_other\<close> stands for \<^verbatim>\<open>fmt.Sprintf\<close> on formats with
  verbs other than \<^verbatim>\<open>%s\<close> and \<^verbatim>\<open>%d\<close>. gRPC never hands a handler a nil request; the one handler that
  checks for it takes an option.
\<close>

section \<open>State\<close>

record 'w agent_host = "'w host" +
  TimestampProto :: "go_time \<Rightarrow> Timestamp result"
  DurationProto :: "duration \<Rightarrow> Duration"
  uuid_New :: "'w \<Rightarrow> string \<times> 'w"
  Sprintf_other :: "string \<Rightarrow> string \<Rightarrow> string"

record PartitionResources =
  pc_AutoNodes :: bool
  pc_AutoCPUPerNode :: bool
  pc_AutoMemPerNode :: bool
  pc_AutoWallTime :: bool
  pc_Nodes :: int64
  pc_CPUPerNode :: int64
  pc_MemPerNode :: int64
  pc_WallTime :: duration
  pc_AdditionalFeatures :: "Feature list"

definition zero_PartitionResources :: PartitionResources where
  "zero_PartitionResources =
     \<lparr>pc_AutoNodes = False, pc_AutoCPUPerNode = False, pc_AutoMemPerNode = False,
      pc_AutoWallTime = False, pc_Nodes = 0, pc_CPUPerNode = 0, pc_MemPerNode = 0,
      pc_WallTime = 0, pc_AdditionalFeatures = []\<rparr>"

type_synonym Config = "string \<rightharpoonup> PartitionResources"

record Slurm =
  s_uid :: int64
  s_cfg :: Config
  s_knownJobs :: "string \<rightharpoonup> int64"

definition NewSlurm :: "Config \<Rightarrow> int64 \<Rightarrow> Slurm" where
  "NewSlurm cfg euid = \<lparr>s_uid = euid, s_cfg = cfg, s_knownJobs = Map.empty\<rparr>"

definition JobState :: "Slurm \<Rightarrow> JobStepsResponse outcome" where
  "JobState s = Panic NotImplemented"

section \<open>Submission and cancellation\<close>

definition sbatch_request :: "SubmitJobRequest \<Rightarrow> SbatchRequest" where
  "sbatch_request req =
     \<lparr>sb_Script = sj_Script req, sb_Partition = sj_Partition req, sb_RunAsUser = sj_RunAsUser req,
      sb_RunAsGroup = sj_RunAsGroup req, sb_CpufsPerTask = sj_CpufsPerTask req,
      sb_MemPerCpu = sj_MemPerCpu req, sb_NtasksPerNode = sj_NtasksPerNode req,
      sb_Array = sj_Array req, sb_Ntasks = sj_Ntasks req, sb_Nodes = sj_Nodes req,
      sb_JobName = sj_JobName req, sb_WorkingDir = sj_WorkingDir req\<rparr>"

definition valid_request :: "SubmitJobRequest \<Rightarrow> bool" where
  "valid_request req \<longleftrightarrow> \<not> (sj_Script req = [] \<or> sj_Partition req = [] \<or> sj_Uid req = [])"

definition SubmitJob ::
    "'w agent_host \<Rightarrow> SubmitJobRequest option \<Rightarrow> Slurm \<times> 'w \<Rightarrow> SubmitJobResponse result \<times> Slurm \<times> 'w" where
  "SubmitJob h req0 sw =
     (let (s, w) = sw in
      case req0 of
        None \<Rightarrow> (Inl (ErrorString ''Invalid submit job request''), s, w)
      | Some req \<Rightarrow>
          if \<not> valid_request req then (Inl (ErrorString ''Invalid submit job request''), s, w)
          else
            (case s_knownJobs s (sj_Uid req) of
               Some value \<Rightarrow> (Inr \<lparr>sjr_JobId = value\<rparr>, s, w)
             | None \<Rightarrow>
                 (case SBatch (host.truncate h) (sbatch_request req) w of
                    (Inl err, w') \<Rightarrow> (Inl (Wrap ''could not submit sbatch script'' err), s, w')
                  | (Inr jid, w') \<Rightarrow>
                      (Inr \<lparr>sjr_JobId = jid\<rparr>,
                       s\<lparr>s_knownJobs := (s_knownJobs s)(sj_Uid req \<mapsto> jid)\<rparr>, w'))))"

definition CancelJob ::
    "'w agent_host \<Rightarrow> CancelJobRequest \<Rightarrow> Slurm \<times> 'w \<Rightarrow> unit result \<times> Slurm \<times> 'w" where
  "CancelJob h req sw =
     (let (s, w) = sw in
      case SCancel (host.truncate h) (cj_JobId req) w of
        (Some err, w') \<Rightarrow> (Inl (Wrap (''could not cancel job '' @ FormatInt64 (cj_JobId req)) err), s, w')
      | (None, w') \<Rightarrow> (Inr (), s, w'))"

section \<open>Partitions and nodes\<close>

definition Partition_rpc ::
    "'w agent_host \<Rightarrow> PartitionRequest \<Rightarrow> Slurm \<times> 'w \<Rightarrow> PartitionResponse result \<times> Slurm \<times> 'w" where
  "Partition_rpc h req sw =
     (let (s, w) = sw in
      case SlurmClient.Partition (host.truncate h) (pq_Partition req) w of
        (Inl err, w') \<Rightarrow>
          (Inl (Wrap (''could not get partition '' @ pq_Partition req @ '' info'') err), s, w')
      | (Inr p, w') \<Rightarrow> (Inr \<lparr>pr_Nodes = p_Nodes p\<rparr>, s, w'))"

definition node_proto :: "Node \<Rightarrow> WNode" where
  "node_proto n =
     \<lparr>wn_Cpus = n_Cpus n, wn_Memory = n_Memory n, wn_Gpus = n_Gpus n, wn_GpuType = n_GpuType n,
      wn_AlloCpus = n_AlloCpus n, wn_AlloMemory = n_AlloMemory n, wn_AlloGpus = n_AlloGpus n\<rparr>"

definition Nodes_rpc ::
    "'w agent_host \<Rightarrow> NodesRequest \<Rightarrow> Slurm \<times> 'w \<Rightarrow> NodesResponse result \<times> Slurm \<times> 'w" where
  "Nodes_rpc h req sw =
     (let (s, w) = sw in
      case SlurmClient.Nodes (host.truncate h) (nq_Nodes req) w of
        (Inl err, w') \<Rightarrow>
          (Inl (Wrap (''could not get nodes ['' @ Join (nq_Nodes req) '' '' @ ''] info'') err), s, w')
      | (Inr ns, w') \<Rightarrow> (Inr \<lparr>nr_Nodes = map node_proto ns\<rparr>, s, w'))"

definition Partitions_rpc ::
    "'w agent_host \<Rightarrow> Slurm \<times> 'w \<Rightarrow> PartitionsResponse result \<times> Slurm \<times> 'w" where
  "Partitions_rpc h sw =
     (let (s, w) = sw in
      case SlurmClient.Partitions (host.truncate h) w of
        (Inl err, w') \<Rightarrow> (Inl (Wrap ''could not get partition names'' err), s, w')
      | (Inr names, w') \<Rightarrow> (Inr \<lparr>psr_Partition = names\<rparr>, s, w'))"

definition WorkloadInfo ::
    "'w agent_host \<Rightarrow> Slurm \<times> 'w \<Rightarrow> WorkloadInfoResponse result \<times> Slurm \<times> 'w" where
  "WorkloadInfo h sw =
     (let (s, w) = sw in
      case Version (host.truncate h) w of
        ((v, Some err), w') \<Rightarrow> (Inl (Wrap ''could not get slurm-agent version'' err), s, w')
      | ((v, None), w') \<Rightarrow>
          (Inr \<lparr>wi_Name = ''slurm-agent'', wi_Version = v, wi_Uid = s_uid s\<rparr>, s, w'))"

section \<open>Job information\<close>

definition status_of :: "string \<Rightarrow> JobStatus" where
  "status_of st = (case JobStatus_value st of None \<Rightarrow> UNKNOWN | Some v \<Rightarrow> v)"

text \<open>The conversion of an optional time, with the message its failure is wrapped in.\<close>

definition proto_time ::
    "(go_time \<Rightarrow> Timestamp result) \<Rightarrow> string \<Rightarrow> go_time option \<Rightarrow> Timestamp option result" where
  "proto_time tp what t =
     (case t of
        None \<Rightarrow> Inr None
      | Some x \<Rightarrow>
          (case tp x of
             Inl err \<Rightarrow> Inl (Wrap (''could not convert '' @ what @ '' go time to proto time'') err)
           | Inr pt \<Rightarrow> Inr (Some pt)))"

definition step_proto :: "(go_time \<Rightarrow> Timestamp result) \<Rightarrow> StepInfo \<Rightarrow> JobStepInfo result" where
  "step_proto tp x =
     (case proto_time tp ''started'' (st_StartedAt x) of Inl err \<Rightarrow> Inl err | Inr startedAt \<Rightarrow>
      case proto_time tp ''finished'' (st_FinishedAt x) of Inl err \<Rightarrow> Inl err | Inr finishedAt \<Rightarrow>
      Inr \<lparr>jsi_Id = st_ID x, jsi_Name = st_Name x, jsi_ExitCode = ucast (st_ExitCode x),
           jsi_Status = status_of (st_State x), jsi_StartTime = startedAt,
           jsi_EndTime = finishedAt\<rparr>)"

definition toProtoSteps ::
    "(go_time \<Rightarrow> Timestamp result) \<Rightarrow> StepInfo list \<Rightarrow> JobStepInfo list result" where
  "toProtoSteps tp ss = map_result (step_proto tp) ss"

definition info_proto ::
    "(go_time \<Rightarrow> Timestamp result) \<Rightarrow> (duration \<Rightarrow> Duration) \<Rightarrow> SlurmJobInfo \<Rightarrow> JobInfo result" where
  "info_proto tp dp info =
     (case proto_time tp ''submit'' (sji_SubmitTime info) of Inl err \<Rightarrow> Inl err | Inr submitTime \<Rightarrow>
      case proto_time tp ''start'' (sji_StartTime info) of Inl err \<Rightarrow> Inl err | Inr startTime \<Rightarrow>
      Inr \<lparr>ji_Id = sji_ID info, ji_UserId = sji_UserID info, ji_Name = sji_Name info,
           ji_ExitCode = sji_ExitCode info, ji_Status = status_of (sji_State info),
           ji_SubmitTime = submitTime, ji_StartTime = startTime,
           ji_RunTime = map_option dp (sji_RunTime info),
           ji_TimeLimit = map_option dp (sji_TimeLimit info),
           ji_WorkingDir = sji_WorkDir info, ji_StdOut = sji_StdOut info, ji_StdErr = sji_StdErr info,
           ji_Partition = sji_Partition info, ji_NodeList = sji_NodeList info,
           ji_BatchHost = sji_BatchHost info, ji_NumNodes = sji_NumNodes info,
           ji_ArrayId = sji_ArrayJobID info, ji_Reason = sji_Reason info, ji_EndTime = None\<rparr>)"

definition mapSInfoToProtoInfo ::
    "(go_time \<Rightarrow> Timestamp result) \<Rightarrow> (duration \<Rightarrow> Duration) \<Rightarrow> SlurmJobInfo list \<Rightarrow> JobInfo list result" where
  "mapSInfoToProtoInfo tp dp si = map_result (info_proto tp dp) si"

definition JobInfo_rpc ::
    "'w agent_host \<Rightarrow> JobInfoRequest \<Rightarrow> Slurm \<times> 'w \<Rightarrow> JobInfoResponse result \<times> Slurm \<times> 'w" where
  "JobInfo_rpc h req sw =
     (let (s, w) = sw in
      case SJobInfo (host.truncate h) (jir_JobId req) w of
        (Inl err, w') \<Rightarrow>
          (Inl (Wrap (''could not get job '' @ FormatInt64 (jir_JobId req) @ '' info'') err), s, w')
      | (Inr info, w') \<Rightarrow>
          (case mapSInfoToProtoInfo (TimestampProto h) (DurationProto h) info of
             Inl err \<Rightarrow>
               (Inl (Wrap ''could not convert slurm-agent info into proto info'' err), s, w')
           | Inr pInfo \<Rightarrow>
               if length pInfo = 0
               then (Inl (ErrorString ''job info slice is empty, probably invalid scontrol output''), s, w')
               else (Inr \<lparr>jr_Info = pInfo\<rparr>, s, w')))"

definition JobSteps_rpc ::
    "'w agent_host \<Rightarrow> JobStepsRequest \<Rightarrow> Slurm \<times> 'w \<Rightarrow> JobStepsResponse result \<times> Slurm \<times> 'w" where
  "JobSteps_rpc h req sw =
     (let (s, w) = sw in
      case SJobSteps (host.truncate h) (jsq_JobId req) w of
        (Inl err, w') \<Rightarrow>
          (Inl (Wrap (''could not get job '' @ FormatInt64 (jsq_JobId req) @ '' steps'') err), s, w')
      | (Inr steps, w') \<Rightarrow>
          (case toProtoSteps (TimestampProto h) steps of
             Inl err \<Rightarrow>
               (Inl (Wrap ''could not convert slurm-agent steps into proto steps'' err), s, w')
           | Inr pSteps \<Rightarrow> (Inr \<lparr>jsr_JobSteps = pSteps\<rparr>, s, w')))"

section \<open>Resources\<close>

text \<open>
  \<^verbatim>\<open>int64(d.Seconds())\<close>. \<^verbatim>\<open>Seconds\<close> adds the whole seconds and the remaining nanoseconds divided by
  \<^verbatim>\<open>1e9\<close> as 64-bit floating-point numbers, and the conversion truncates. Both roundings (to 53
  binary digits, nearest, ties to even) are written out on integers: a float is \<open>m / 2 ^ k\<close>.
\<close>

definition round_div :: "int \<Rightarrow> int \<Rightarrow> int" where
  "round_div a b =
     (let q = a div b; r = a mod b in
      if 2 * r < b \<or> 2 * r = b \<and> even q then q else q + 1)"

text \<open>The number of binary digits, and the scale that gives a proper fraction 53 of them.\<close>

function bit_length :: "int \<Rightarrow> nat" where
  "bit_length n = (if n \<le> 0 then 0 else Suc (bit_length (n div 2)))"
  by pat_completeness auto
termination
  by (relation "measure nat") auto

function frac_scale :: "int \<Rightarrow> int \<Rightarrow> nat" where
  "frac_scale a b = (if a \<le> 0 \<or> b * 2 ^ 52 \<le> a then 0 else Suc (frac_scale (2 * a) b))"
  by pat_completeness auto
termination
  by (relation "measure (\<lambda>(a, b). nat (b * 2 ^ 52 - a))") auto

declare bit_length.simps [simp del] frac_scale.simps [simp del]

definition round_53 :: "int \<Rightarrow> int" where
  "round_53 n =
     (let t = bit_length n - 53 in if t = 0 then n else round_div n (2 ^ t) * 2 ^ t)"

definition seconds_pos :: "int \<Rightarrow> int" where
  "seconds_pos d =
     (let sec = d div 1000000000; nsec = d mod 1000000000 in
      if nsec = 0 then sec
      else
        let k = frac_scale nsec 1000000000;
            frac = round_div (nsec * 2 ^ k) 1000000000
        in round_53 (sec * 2 ^ k + frac) div 2 ^ k)"

definition duration_Seconds :: "duration \<Rightarrow> int64" where
  "duration_Seconds d =
     (if sint d < 0 then word_of_int (- seconds_pos (- sint d))
      else word_of_int (seconds_pos (sint d)))"

definition feature_proto :: "Feature \<Rightarrow> WFeature" where
  "feature_proto f = \<lparr>wf_Name = f_Name f, wf_Version = f_Version f, wf_Quantity = f_Quantity f\<rparr>"

definition merge_resources :: "PartitionResources \<Rightarrow> Resources \<Rightarrow> ResourcesResponse" where
  "merge_resources partitionResources slurmResources =
     (let response =
            \<lparr>rs_Nodes = pc_Nodes partitionResources,
             rs_CpuPerNode = pc_CPUPerNode partitionResources,
             rs_MemPerNode = pc_MemPerNode partitionResources,
             rs_WallTime = duration_Seconds (pc_WallTime partitionResources),
             rs_Features =
               map feature_proto (r_Features slurmResources) @
               map feature_proto (pc_AdditionalFeatures partitionResources)\<rparr>;
          response = (if pc_AutoNodes partitionResources \<or> rs_Nodes response = 0
                      then response\<lparr>rs_Nodes := r_Nodes slurmResources\<rparr> else response);
          response = (if pc_AutoCPUPerNode partitionResources \<or> rs_CpuPerNode response = 0
                      then response\<lparr>rs_CpuPerNode := r_CPUPerNode slurmResources\<rparr> else response);
          response = (if pc_AutoMemPerNode partitionResources \<or> rs_MemPerNode response = 0
                      then response\<lparr>rs_MemPerNode := r_MemPerNode slurmResources\<rparr> else response);
          response = (if pc_AutoWallTime partitionResources \<or> rs_WallTime response = 0
                      then response\<lparr>rs_WallTime := duration_Seconds (r_WallTime slurmResources)\<rparr>
                      else response)
      in response)"

definition Resources_rpc ::
    "'w agent_host \<Rightarrow> ResourcesRequest \<Rightarrow> Slurm \<times> 'w \<Rightarrow> ResourcesResponse result \<times> Slurm \<times> 'w" where
  "Resources_rpc h req sw =
     (let (s, w) = sw in
      case SlurmClient.Resources (host.truncate h) (rr_Partition req) w of
        (Inl err, w') \<Rightarrow>
          (Inl (Wrap (''could not get resources for partition '' @ rr_Partition req) err), s, w')
      | (Inr slurmResources, w') \<Rightarrow>
          (let partitionResources =
                 (case s_cfg s (rr_Partition req) of None \<Rightarrow> zero_PartitionResources | Some p \<Rightarrow> p)
           in (Inr (merge_resources partitionResources slurmResources), s, w')))"

section \<open>Files\<close>

text \<open>
  The stream the file methods write to: what it has taken so far and what \<^verbatim>\<open>Send\<close> of the next chunk
  returns. The loops run over what the reads return; \<^const>\<open>None\<close> means that the loop still waits
  for a read.
\<close>

type_synonym sender = "Chunk list \<Rightarrow> Chunk \<Rightarrow> go_error option"

fun open_loop :: "sender \<Rightarrow> read_result list \<Rightarrow> Chunk list \<Rightarrow> (Chunk list \<times> go_error option) option" where
  "open_loop send [] sent = None"
| "open_loop send ((buff, err) # rds) sent =
     (let chunk = \<lparr>ch_Content = buff\<rparr>;
          sent' = (if 0 < length buff then sent @ [chunk] else sent)
      in case (if 0 < length buff then send sent chunk else None) of
           Some e \<Rightarrow> Some (sent, Some (Wrap ''could not send chunk'' e))
         | None \<Rightarrow>
             (case err of
                Some e \<Rightarrow> if e = EOF then Some (sent', None) else Some (sent', Some e)
              | None \<Rightarrow> open_loop send rds sent'))"

definition OpenFile ::
    "'w agent_host \<Rightarrow> OpenFileRequest \<Rightarrow> sender \<Rightarrow> 'w \<Rightarrow> (Chunk list \<times> go_error option) option" where
  "OpenFile h r send w =
     (case Open (host.truncate h) (of_Path r) w of
        Inl err \<Rightarrow> Some ([], Some (Wrap (''could not open file at '' @ of_Path r) err))
      | Inr fd \<Rightarrow> open_loop send fd [])"

text \<open>
  The select loop of \<^verbatim>\<open>TailFile\<close>, run on the sequence of events it takes: the client's context is
  done, the one request the goroutine hands over, a tick at which the reader is read; and, between
  them, what the goroutine of the reader receives. Closing the reader asks the tailed file to stop
  at its end.
\<close>

datatype tail_event =
    CtxDone go_error
  | Request TailFileRequest
  | Tick
  | Lines tail_line

record tail_state =
  ta_reader :: tail_reader
  ta_sent :: "Chunk list"
  ta_stop :: bool

fun tail_loop :: "sender \<Rightarrow> tail_event list \<Rightarrow> tail_state \<Rightarrow> tail_state \<times> go_error option" where
  "tail_loop send [] st = (st, None)"
| "tail_loop send (CtxDone e # evs) st = (st, Some e)"
| "tail_loop send (Request r # evs) st =
     tail_loop send evs
       (if tf_Action r = ReadToEndAndClose then st\<lparr>ta_stop := True\<rparr> else st)"
| "tail_loop send (Lines l # evs) st =
     tail_loop send evs (st\<lparr>ta_reader := readTail l (ta_reader st)\<rparr>)"
| "tail_loop send (Tick # evs) st =
     (let ((buff, err), tr) = Reader_Read 128 (ta_reader st);
          st' = st\<lparr>ta_reader := tr\<rparr>
      in
        if err \<noteq> None \<and> length buff = 0 then (st', err)
        else if length buff = 0 then tail_loop send evs st'
        else
          case send (ta_sent st') \<lparr>ch_Content = buff\<rparr> of
            Some e \<Rightarrow> (st', Some (Wrap ''could not send chunk'' e))
          | None \<Rightarrow> tail_loop send evs (st'\<lparr>ta_sent := ta_sent st' @ [\<lparr>ch_Content = buff\<rparr>]\<rparr>))"

text \<open>\<open>TailFile_start\<close> is \<^verbatim>\<open>tail.TailFile\<close> of the tail package: whether the file can be tailed.\<close>

definition TailFile ::
    "(string \<Rightarrow> go_error option) \<Rightarrow> TailFileRequest result \<Rightarrow> sender \<Rightarrow> tail_event list \<Rightarrow>
     tail_state \<times> go_error option" where
  "TailFile TailFile_start recv send evs =
     (let st = \<lparr>ta_reader = new_reader, ta_sent = [], ta_stop = False\<rparr> in
      case recv of
        Inl err \<Rightarrow> (st, Some (Wrap ''could not receive request'' err))
      | Inr r \<Rightarrow>
          (case Tail TailFile_start (tf_Path r) of
             Inl err \<Rightarrow> (st, Some (Wrap (''could not tail file at '' @ tf_Path r) err))
           | Inr tr \<Rightarrow> tail_loop send evs (st\<lparr>ta_reader := tr\<rparr>)))"

section \<open>Container jobs\<close>

text \<open>
  \<^verbatim>\<open>fmt.Sprintf\<close> for the verbs \<^verbatim>\<open>%s\<close> and \<^verbatim>\<open>%d\<close>, with the texts of the arguments; other verbs and
  missing or surplus arguments give \<^const>\<open>None\<close>.
\<close>

fun sprintf :: "string \<Rightarrow> string list \<Rightarrow> string option" where
  "sprintf [] args = (if args = [] then Some [] else None)"
| "sprintf [c] args = (if c \<noteq> CHR ''%'' \<and> args = [] then Some [c] else None)"
| "sprintf (c # d # s) args =
     (if c \<noteq> CHR ''%'' then map_option (Cons c) (sprintf (d # s) args)
      else if d \<in> set ''sd'' \<and> args \<noteq> [] then map_option (append (hd args)) (sprintf s (tl args))
      else None)"

definition Sprintf :: "(string \<Rightarrow> string \<Rightarrow> string) \<Rightarrow> string \<Rightarrow> string \<Rightarrow> string" where
  "Sprintf other format arg =
     (case sprintf format [arg] of Some s \<Rightarrow> s | None \<Rightarrow> other format arg)"

definition flag_if :: "bool \<Rightarrow> string \<Rightarrow> string list \<Rightarrow> string list" where
  "flag_if b f flags = (if b then flags @ [f] else flags)"

definition quoted :: "string \<Rightarrow> string" where
  "quoted s = [CHR 0x22] @ s @ [CHR 0x22]"

definition buildRunCommand :: "SingularityOptions option \<Rightarrow> string outcome" where
  "buildRunCommand opt0 =
     (case opt0 of
        None \<Rightarrow> Panic NilDereference
      | Some opt \<Rightarrow>
          (let run = ''srun singularity run'';
               flags = flag_if (so_App opt \<noteq> []) (''--app='' @ quoted (so_App opt)) [];
               flags = flag_if (so_HostName opt \<noteq> []) (''--hostname='' @ quoted (so_HostName opt)) flags;
               flags = flag_if (length (so_Binds opt) \<noteq> 0)
                         (''--bind='' @ quoted (Join (so_Binds opt) '','')) flags;
               flags = flag_if (so_ClearEnv opt) ''-c'' flags;
               flags = flag_if (so_FakeRoot opt) ''-f'' flags;
               flags = flag_if (so_Ipc opt) ''-i'' flags;
               flags = flag_if (so_Pid opt) ''-p'' flags;
               flags = flag_if (so_NoPrivs opt) ''--no-privs'' flags;
               flags = flag_if (so_Writable opt) ''-w'' flags;
               run = (if length flags \<noteq> 0 then run @ '' '' @ Join flags '' '' else run)
           in Value (run @ '' '' @ quoted ''%s'' @ '' || exit'')))"

definition localFilePrefix :: string where
  "localFilePrefix = ''local.file''"

definition sbatch_line :: "string \<Rightarrow> int64 \<Rightarrow> string list" where
  "sbatch_line flag v = (if v \<noteq> 0 then [''#SBATCH '' @ flag @ FormatInt64 v] else [])"

definition buildSLURMScript ::
    "'w agent_host \<Rightarrow> SubmitJobContainerRequest \<Rightarrow> 'w \<Rightarrow> string outcome \<times> 'w" where
  "buildSLURMScript h r w =
     (case buildRunCommand (sc_Options r) of
        Error e \<Rightarrow> (Error e, w)
      | Panic p \<Rightarrow> (Panic p, w)
      | Value runT \<Rightarrow>
          (let allowUnsigned = so_AllowUnsigned (the (sc_Options r));
               pull = (if allowUnsigned then ''srun singularity pull -U --name ''
                       else ''srun singularity pull --name '');
               header =
                 [''#!/bin/sh''] @
                 sbatch_line ''--time=0:'' (sc_WallTime r) @
                 sbatch_line ''--mem='' (sc_MemPerNode r) @
                 sbatch_line ''--nodes='' (sc_Nodes r) @
                 sbatch_line ''--cpus-per-task='' (sc_CpuPerNode r)
           in
             if HasPrefix (sc_ImageName r) localFilePrefix then
               (let image = TrimPrefix (sc_ImageName r) localFilePrefix;
                    verify = (if \<not> allowUnsigned
                              then [''srun singularity verify '' @ quoted image @ '' || exit''] else [])
                in (Value (Join (header @ verify @ [Sprintf (Sprintf_other h) runT image]) [CHR 0x0A]), w))
             else
               (let (uid, w') = uuid_New h w
                in (Value (Join
                      (header @
                       [pull @ quoted uid @ '' '' @ quoted (sc_ImageName r) @ '' || exit'',
                        Sprintf (Sprintf_other h) runT uid,
                        ''srun rm '' @ quoted uid]) [CHR 0x0A]), w'))))"

definition SubmitJobContainer ::
    "'w agent_host \<Rightarrow> SubmitJobContainerRequest \<Rightarrow> Slurm \<times> 'w \<Rightarrow>
     SubmitJobContainerResponse outcome \<times> Slurm \<times> 'w" where
  "SubmitJobContainer h r sw =
     (let (s, w) = sw in
      case buildSLURMScript h r w of
        (Panic p, w') \<Rightarrow> (Panic p, s, w')
      | (Error e, w') \<Rightarrow> (Error e, s, w')
      | (Value script, w') \<Rightarrow>
          (case SBatch (host.truncate h)
                  \<lparr>sb_Script = script, sb_Partition = sc_Partition r, sb_RunAsUser = [],
                   sb_RunAsGroup = [], sb_CpufsPerTask = 0, sb_MemPerCpu = 0, sb_NtasksPerNode = 0,
                   sb_Array = [], sb_Ntasks = 0, sb_Nodes = 0, sb_JobName = [], sb_WorkingDir = []\<rparr> w' of
             (Inl err, w'') \<Rightarrow> (Error (Wrap ''could not submit sbatch script'' err), s, w'')
           | (Inr jid, w'') \<Rightarrow> (Value \<lparr>scr_JobId = jid\<rparr>, s, w'')))"

section \<open>What the resources method reports\<close>

lemma seconds_pos_whole: "seconds_pos (n * 1000000000) = n"
  by (simp add: seconds_pos_def)

lemma duration_Seconds_whole:
  assumes "in_int64 (n * 1000000000)"
  shows "duration_Seconds (word_of_int (n * 1000000000)) = word_of_int n"
proof -
  have "seconds_pos (- (n * 1000000000)) = - n" using seconds_pos_whole [of "- n"] by simp
  moreover have "sint (word_of_int (n * 1000000000) :: int64) = n * 1000000000"
    using assms by (rule sint_of_int64)
  ultimately show ?thesis
    by (simp only: duration_Seconds_def seconds_pos_whole) simp
qed

lemma duration_nanos_whole: "\<exists>n. duration_nanos f = n * 1000000000"
proof -
  have "duration_nanos f =
    (case f of
       Minutes m \<Rightarrow> m * 60
     | MinutesSeconds m s \<Rightarrow> m * 60 + s
     | HoursMinutesSeconds h m s \<Rightarrow> h * 3600 + m * 60 + s
     | DaysHours d h \<Rightarrow> d * 86400 + h * 3600
     | DaysHoursMinutes d h m \<Rightarrow> d * 86400 + h * 3600 + m * 60
     | DaysHoursMinutesSeconds d h m s \<Rightarrow> d * 86400 + h * 3600 + m * 60 + s) * 1000000000"
    by (cases f) simp_all
  then show ?thesis ..
qed

lemma duration_Seconds_unlimited: "duration_Seconds (-1) = 0"
  by code_simp

lemma merge_resources_unconfigured:
  "merge_resources zero_PartitionResources r =
     \<lparr>rs_Nodes = r_Nodes r, rs_CpuPerNode = r_CPUPerNode r, rs_MemPerNode = r_MemPerNode r,
      rs_WallTime = duration_Seconds (r_WallTime r),
      rs_Features = map feature_proto (r_Features r)\<rparr>"
proof -
  have "duration_Seconds 0 = 0" using duration_Seconds_whole [of 0] by (simp add: in_int64_def)
  then show ?thesis by (simp add: merge_resources_def zero_PartitionResources_def)
qed

primrec wall_seconds :: "duration_format option \<Rightarrow> int" where
  "wall_seconds None = 0"
| "wall_seconds (Some f) = duration_nanos f div 1000000000"

lemma duration_Seconds_wall:
  assumes "case w of None \<Rightarrow> True | Some f \<Rightarrow> in_int64 (duration_nanos f)"
  shows "duration_Seconds (wall_value w) = word_of_int (wall_seconds w)"
proof (cases w)
  case None
  then show ?thesis by (simp add: duration_Seconds_unlimited)
next
  case (Some f)
  obtain n where n: "duration_nanos f = n * 1000000000" using duration_nanos_whole by blast
  then show ?thesis using Some assms duration_Seconds_whole [of n] by simp
qed

text \<open>
  For a partition that is not configured, the resources method reports what
  \<^verbatim>\<open>scontrol show partition\<close> shows: node count and processors (the totals when unlimited), memory
  (-1 when unlimited) and the wall time in whole seconds. An unlimited wall time is reported as 0
  seconds.
\<close>

theorem Resources_rpc_unconfigured:
  assumes "Output h ''scontrol'' [''show'', ''partition'', p] w = ((out, None), w')"
    and "s_cfg s p = None" and "has_fields out fs"
    and "map_of fs ''MaxTime'' = Some (wall_text wall)" and "wall_ok wall"
    and "case wall of None \<Rightarrow> True | Some f \<Rightarrow> in_int64 (duration_nanos f)"
    and "map_of fs ''MaxCPUsPerNode'' = Some (limit_text cpus)"
    and "map_of fs ''TotalCPUs'' = map_option (\<lambda>n. FormatInt64 n) tcpus"
    and "map_of fs ''MaxMemPerNode'' = Some (limit_text mem)"
    and "map_of fs ''MaxNodes'' = Some (limit_text nodes)"
    and "map_of fs ''TotalNodes'' = map_option (\<lambda>n. FormatInt64 n) tnodes"
  shows "Resources_rpc h \<lparr>rr_Partition = p\<rparr> (s, w) =
    (Inr \<lparr>rs_Nodes = limit_value nodes tnodes, rs_CpuPerNode = limit_value cpus tcpus,
          rs_MemPerNode = limit_value mem None, rs_WallTime = word_of_int (wall_seconds wall),
          rs_Features = []\<rparr>, s, w')"
proof -
  have "Output (host.truncate h) = Output h" by (simp add: host.defs)
  then show ?thesis
    using assms parseResources_fields [OF assms(3,4,5,7,8,9,10,11)]
    by (simp add: Resources_rpc_def Resources_def merge_resources_unconfigured
        duration_Seconds_wall)
qed

text \<open>Concrete machines: \<^verbatim>\<open>sbatch\<close> hands out numbers, the other binaries print a given text.\<close>

definition counting_agent :: "int64 agent_host" where
  "counting_agent = host.extend counting_host
     (agent_host.fields (\<lambda>t. Inr \<lparr>ts_Seconds = word_of_int (t div 1000000000), ts_Nanos = 0\<rparr>)
        (\<lambda>d. \<lparr>du_Seconds = 0, du_Nanos = 0\<rparr>) (\<lambda>w. (''u'', w)) (\<lambda>f a. f))"

lemma counting_agent_host [simp]: "host.truncate counting_agent = counting_host"
  by (simp add: counting_agent_def host.defs agent_host.defs counting_host_def)

definition printing_agent :: "string \<Rightarrow> int64 agent_host" where
  "printing_agent out = counting_agent\<lparr>Output := (\<lambda>b args w. ((out, None), w))\<rparr>"

theorem Resources_rpc_unconfigured_witness:
  "\<exists>r. Resources_rpc
     (printing_agent (''MaxTime=UNLIMITED MaxNodes=2 MaxCPUsPerNode=UNLIMITED '' @ ''TotalCPUs=64 MaxMemPerNode=100''))
     \<lparr>rr_Partition = ''debug''\<rparr> (NewSlurm Map.empty 0, 1) = (Inr r, NewSlurm Map.empty 0, 1) \<and>
     rs_CpuPerNode r = 64 \<and> rs_WallTime r = 0"
proof -
  let ?out = "''MaxTime=UNLIMITED MaxNodes=2 MaxCPUsPerNode=UNLIMITED '' @ ''TotalCPUs=64 MaxMemPerNode=100''"
  let ?fs = "[(''MaxTime'', unlimited), (''MaxNodes'', ''2''), (''MaxCPUsPerNode'', unlimited),
    (''TotalCPUs'', ''64''), (''MaxMemPerNode'', ''100'')]"
  have "Resources_rpc (printing_agent ?out) \<lparr>rr_Partition = ''debug''\<rparr> (NewSlurm Map.empty 0, 1) =
    (Inr \<lparr>rs_Nodes = limit_value (Limit 2) None, rs_CpuPerNode = limit_value Unlimited (Some 64),
          rs_MemPerNode = limit_value (Limit 100) None, rs_WallTime = word_of_int (wall_seconds None),
          rs_Features = []\<rparr>, NewSlurm Map.empty 0, 1)"
  proof (rule Resources_rpc_unconfigured [of _ _ _ ?out _ _ ?fs])
    show "Output (printing_agent ?out) ''scontrol'' [''show'', ''partition'', ''debug''] 1 = ((?out, None), 1)"
      by (simp add: printing_agent_def)
    show "s_cfg (NewSlurm Map.empty 0) ''debug'' = None" by (simp add: NewSlurm_def)
  qed code_simp+
  then show ?thesis by simp
qed

text \<open>
  A configured number wins over what Slurm reports unless it is zero or marked automatic, for
  each resource by itself; the configured features are added to those of the partition.
\<close>

theorem merge_resources_override:
  "rs_Nodes (merge_resources c r) =
     (if pc_AutoNodes c \<or> pc_Nodes c = 0 then r_Nodes r else pc_Nodes c) \<and>
   rs_CpuPerNode (merge_resources c r) =
     (if pc_AutoCPUPerNode c \<or> pc_CPUPerNode c = 0 then r_CPUPerNode r else pc_CPUPerNode c) \<and>
   rs_MemPerNode (merge_resources c r) =
     (if pc_AutoMemPerNode c \<or> pc_MemPerNode c = 0 then r_MemPerNode r else pc_MemPerNode c) \<and>
   rs_WallTime (merge_resources c r) =
     (if pc_AutoWallTime c \<or> duration_Seconds (pc_WallTime c) = 0
      then duration_Seconds (r_WallTime r) else duration_Seconds (pc_WallTime c)) \<and>
   rs_Features (merge_resources c r) = map feature_proto (r_Features r @ pc_AdditionalFeatures c)"
  by (simp add: merge_resources_def Let_def)

section \<open>File contents\<close>

abbreviation bytes_of :: "Chunk list \<Rightarrow> string" where
  "bytes_of cs \<equiv> concat (map ch_Content cs)"

text \<open>What reading a file of this content into a buffer of 128 bytes gives.\<close>

function file_reads :: "string \<Rightarrow> read_result list" where
  "file_reads c = (if c = [] then [([], Some EOF)] else (take 128 c, None) # file_reads (drop 128 c))"
  by pat_completeness auto
termination
  by (relation "measure length") auto

declare file_reads.simps [simp del]

lemma open_loop_file:
  assumes "\<And>cs c. send cs c = None"
  shows "\<exists>cs. open_loop send (file_reads c) sent = Some (sent @ cs, None) \<and> bytes_of cs = c \<and>
    (\<forall>x \<in> set cs. 0 < length (ch_Content x) \<and> length (ch_Content x) \<le> 128)"
proof (induction c arbitrary: sent rule: file_reads.induct)
  case (1 c)
  show ?case
  proof (cases "c = []")
    case True
    then show ?thesis by (simp add: file_reads.simps [of "[]"])
  next
    case False
    let ?x = "\<lparr>ch_Content = take 128 c\<rparr>"
    obtain cs where cs: "open_loop send (file_reads (drop 128 c)) (sent @ [?x]) = Some ((sent @ [?x]) @ cs, None)"
      "bytes_of cs = drop 128 c" "\<forall>x \<in> set cs. 0 < length (ch_Content x) \<and> length (ch_Content x) \<le> 128"
      using 1 [OF False, of "sent @ [?x]"] by blast
    have "open_loop send (file_reads c) sent = Some (sent @ (?x # cs), None)"
      using cs(1) False assms by (simp add: file_reads.simps [of c])
    then show ?thesis using cs(2,3) False by (intro exI [of _ "?x # cs"]) simp
  qed
qed

lemma OpenFile_stream:
  assumes "os_Open h path w = Opened (file_reads c)"
  shows "\<exists>cs. OpenFile h \<lparr>of_Path = path\<rparr> (\<lambda>cs x. None) w = Some (cs, None) \<and> bytes_of cs = c"
proof -
  have "os_Open (host.truncate h) = os_Open h" by (simp add: host.defs)
  then show ?thesis
    using open_loop_file [of "\<lambda>cs x. None" c "[]"] assms by (auto simp: OpenFile_def Open_def)
qed

text \<open>
  Opening a file streams its whole content, in order, in non-empty chunks of at most 128
  bytes, and ends without an error.
\<close>

theorem OpenFile_content:
  assumes "os_Open h path w = Opened (file_reads c)" and "\<forall>cs x. send cs x = None"
  shows "\<exists>cs. OpenFile h \<lparr>of_Path = path\<rparr> send w = Some (cs, None) \<and> bytes_of cs = c \<and>
    (\<forall>x \<in> set cs. 0 < length (ch_Content x) \<and> length (ch_Content x) \<le> 128)"
proof -
  have "os_Open (host.truncate h) = os_Open h" by (simp add: host.defs)
  then show ?thesis
    using open_loop_file [of send c "[]"] assms by (simp add: OpenFile_def Open_def)
qed

theorem OpenFile_content_witness:
  "\<exists>cs. OpenFile (counting_agent\<lparr>os_Open := (\<lambda>p w. Opened (file_reads ''hello''))\<rparr>)
      \<lparr>of_Path = ''/out''\<rparr> (\<lambda>cs c. None) 1 = Some (cs, None) \<and> bytes_of cs = ''hello''"
  using OpenFile_content [of "counting_agent\<lparr>os_Open := (\<lambda>p w. Opened (file_reads ''hello''))\<rparr>"
      "''/out''" 1 "''hello''" "\<lambda>cs c. None"] by auto

text \<open>A missing file is reported with an error that wraps \<^const>\<open>ErrFileNotFound\<close>, and no chunk is sent.\<close>

lemma OpenFile_missing:
  assumes "os_Open h path w = NotExist e"
  shows "\<exists>err. OpenFile h \<lparr>of_Path = path\<rparr> send w = Some ([], Some err) \<and> errors_Is err ErrFileNotFound"
proof -
  have "os_Open (host.truncate h) = os_Open h" by (simp add: host.defs)
  then show ?thesis using assms by (simp add: OpenFile_def Open_def)
qed

section \<open>Tailed files\<close>

text \<open>The lines the reader takes in from a sequence of events; none after it has closed.\<close>

fun tail_text :: "bool \<Rightarrow> tail_event list \<Rightarrow> string" where
  "tail_text closed [] = []"
| "tail_text closed (Lines (TextLine l) # evs) =
     (if closed then [] else l @ [CHR 0x0A]) @ tail_text closed evs"
| "tail_text closed (Lines _ # evs) = tail_text True evs"
| "tail_text closed (_ # evs) = tail_text closed evs"

lemma tail_text_closed [simp]: "tail_text True evs = []"
  by (induction True evs rule: tail_text.induct) simp_all

abbreviation tail_pending :: "tail_state \<Rightarrow> tail_event list \<Rightarrow> string" where
  "tail_pending st evs \<equiv>
     bytes_of (ta_sent st) @ tr_buff (ta_reader st) @ tail_text (tr_isClosed (ta_reader st)) evs"

lemma Reader_Read_128:
  "Reader_Read 128 tr = ((b, e), tr') \<Longrightarrow>
     tr_buff tr = b @ tr_buff tr' \<and> tr_isClosed tr' = tr_isClosed tr \<and>
     (e \<noteq> None \<and> b = [] \<longrightarrow> e = Some EOF \<and> tr_buff tr' = [] \<and> tr_isClosed tr)"
  by (auto simp: Reader_Read_eq split: if_splits)

lemma tail_loop_TickE:
  assumes "tail_loop send (Tick # evs) st = (st', err)"
    and "Reader_Read 128 (ta_reader st) = ((b, e), tr)"
  obtains (end_err) "e \<noteq> None" "b = []" "st' = st\<lparr>ta_reader := tr\<rparr>" "err = e"
    | (idle) "b = []" "tail_loop send evs (st\<lparr>ta_reader := tr\<rparr>) = (st', err)"
    | (failed) x where "st' = st\<lparr>ta_reader := tr\<rparr>" "err = Some (Wrap ''could not send chunk'' x)"
    | (sent) "tail_loop send evs
        (st\<lparr>ta_reader := tr, ta_sent := ta_sent st @ [\<lparr>ch_Content = b\<rparr>]\<rparr>) = (st', err)"
  using assms by (auto simp: Let_def split: if_splits option.splits)

text \<open>Nothing is lost or reordered: what was sent is always the beginning of what came in.\<close>

lemma tail_loop_prefix:
  "tail_loop send evs st = (st', err) \<Longrightarrow> prefix (bytes_of (ta_sent st')) (tail_pending st evs)"
proof (induction evs arbitrary: st)
  case (Cons ev evs)
  show ?case
  proof (cases ev)
    case Tick
    obtain b e tr where r: "Reader_Read 128 (ta_reader st) = ((b, e), tr)" by (metis surj_pair)
    note buff = Reader_Read_128 [OF r]
    from Cons.prems [unfolded Tick] r show ?thesis
    proof (cases rule: tail_loop_TickE)
      case sent
      from Cons.IH [OF this] show ?thesis using buff Tick by simp
    next
      case idle
      from Cons.IH [OF this(2)] show ?thesis using buff Tick idle(1) by simp
    qed (simp_all add: prefix_def Tick buff)
  next
    case (Lines l)
    then show ?thesis using Cons.IH Cons.prems by (cases l) (fastforce split: if_splits)+
  qed (use Cons.IH Cons.prems in \<open>fastforce split: if_splits\<close>)+
qed (simp add: prefix_def)

text \<open>When the loop ends with the end of the file, everything that came in was sent.\<close>

lemma tail_loop_eof:
  assumes "tail_loop send evs st = (st', Some EOF)" and "CtxDone EOF \<notin> set evs"
  shows "bytes_of (ta_sent st') = tail_pending st evs \<and> tr_isClosed (ta_reader st')"
  using assms
proof (induction evs arbitrary: st)
  case (Cons ev evs)
  show ?case
  proof (cases ev)
    case Tick
    obtain b e tr where r: "Reader_Read 128 (ta_reader st) = ((b, e), tr)" by (metis surj_pair)
    note buff = Reader_Read_128 [OF r]
    have no_ctx: "CtxDone EOF \<notin> set evs" using Cons.prems(2) by simp
    from Cons.prems(1) [unfolded Tick] r show ?thesis
    proof (cases rule: tail_loop_TickE)
      case sent
      from Cons.IH [OF this no_ctx] show ?thesis using buff Tick by simp
    next
      case idle
      from Cons.IH [OF this(2) no_ctx] show ?thesis using buff Tick idle(1) by simp
    next
      case end_err
      then show ?thesis using buff Tick by simp
    qed simp
  next
    case (Lines l)
    then show ?thesis using Cons.IH Cons.prems by (cases l) (fastforce split: if_splits)+
  qed (use Cons.IH Cons.prems in \<open>fastforce split: if_splits\<close>)+
qed simp

text \<open>After the reader has closed, ticks alone reach the end.\<close>

lemma tail_loop_ticks:
  assumes "tr_isClosed (ta_reader st)" and "length (tr_buff (ta_reader st)) < k"
    and "\<And>cs c. send cs c = None"
  shows "\<exists>st'. tail_loop send (replicate k Tick) st = (st', Some EOF)"
  using assms(1,2)
proof (induction k arbitrary: st)
  case (Suc k)
  show ?case
  proof (cases "tr_buff (ta_reader st) = []")
    case True
    then show ?thesis using Suc.prems by (simp add: Reader_Read_eq)
  next
    case False
    let ?tr = "(ta_reader st)\<lparr>tr_buff := drop 128 (tr_buff (ta_reader st))\<rparr>"
    let ?st = "st\<lparr>ta_reader := ?tr,
      ta_sent := ta_sent st @ [\<lparr>ch_Content = take 128 (tr_buff (ta_reader st))\<rparr>]\<rparr>"
    have "length (drop 128 (tr_buff (ta_reader st))) < k"
      using Suc.prems(2) False by (cases "tr_buff (ta_reader st)") auto
    then obtain st' where "tail_loop send (replicate k Tick) ?st = (st', Some EOF)"
      using Suc.IH [of ?st] Suc.prems(1) by auto
    then show ?thesis
      using False assms(3) [of "ta_sent st" "\<lparr>ch_Content = take 128 (tr_buff (ta_reader st))\<rparr>"]
      by (simp add: Reader_Read_eq Let_def min_def)
  qed
qed simp

lemma TailFile_run:
  "TailFile start (Inr r) send evs = (st', err) \<Longrightarrow> start (tf_Path r) = None \<Longrightarrow>
     tail_loop send evs \<lparr>ta_reader = new_reader, ta_sent = [], ta_stop = False\<rparr> = (st', err)"
  by (simp add: TailFile_def Tail_def NewReader_def)

lemma TailFile_sends:
  assumes "TailFile start (Inr r) send evs = (st', Some EOF)" and "start (tf_Path r) = None"
    and "CtxDone EOF \<notin> set evs"
  shows "bytes_of (ta_sent st') = tail_text False evs"
  using tail_loop_eof [OF TailFile_run [of start r send evs st' "Some EOF"]] assms by (simp add: new_reader_def)

text \<open>
  While a file is tailed, the client gets the lines written to it in order and unchanged: at
  every moment what was sent is a prefix of the lines that arrived, and when the stream ends with
  \<^const>\<open>EOF\<close> all lines up to the close of the file have been sent.
\<close>

theorem TailFile_content:
  assumes "TailFile start (Inr r) send evs = (st', err)" and "start (tf_Path r) = None"
    and "CtxDone EOF \<notin> set evs"
  shows "prefix (bytes_of (ta_sent st')) (tail_text False evs) \<and>
    (err = Some EOF \<longrightarrow> bytes_of (ta_sent st') = tail_text False evs)"
  using tail_loop_prefix [OF TailFile_run [of start r send evs st' err]] TailFile_sends [of start r send evs st'] assms
  by (auto simp: new_reader_def)

theorem TailFile_content_witness:
  "\<exists>st'. TailFile (\<lambda>p. None) (Inr \<lparr>tf_Action = Start, tf_Path = ''/out''\<rparr>) (\<lambda>cs c. None)
     [Lines (TextLine ''a''), Tick, Lines (TextLine ''bc''),
      Request \<lparr>tf_Action = ReadToEndAndClose, tf_Path = []\<rparr>, Lines Closed, Tick, Tick] =
       (st', Some EOF) \<and> bytes_of (ta_sent st') = ''a'' @ [CHR 0x0A] @ ''bc'' @ [CHR 0x0A]"
proof -
  let ?evs = "[Lines (TextLine ''a''), Tick, Lines (TextLine ''bc''),
      Request \<lparr>tf_Action = ReadToEndAndClose, tf_Path = []\<rparr>, Lines Closed, Tick, Tick]"
  obtain st' where "TailFile (\<lambda>p. None) (Inr \<lparr>tf_Action = Start, tf_Path = ''/out''\<rparr>) (\<lambda>cs c. None)
      ?evs = (st', Some EOF)"
    by (simp add: TailFile_def Tail_def NewReader_def new_reader_def Reader_Read_eq)
  with TailFile_content [OF this] show ?thesis by simp
qed

text \<open>
  C32. A tailed file whose writer is done ends: after the lines have closed, finitely many ticks
  (more than bytes are buffered) end the stream with \<^const>\<open>EOF\<close>, if the client takes the chunks.
\<close>

theorem TailFile_ends:
  assumes "tr_isClosed (ta_reader st)" and "length (tr_buff (ta_reader st)) < k"
    and "\<forall>cs c. send cs c = None"
  shows "\<exists>st'. tail_loop send (replicate k Tick) st = (st', Some EOF)"
  using assms by (intro tail_loop_ticks) simp_all

theorem TailFile_ends_witness:
  "\<exists>st'. tail_loop (\<lambda>cs c. None) (replicate 4 Tick)
     \<lparr>ta_reader = \<lparr>tr_isClosed = True, tr_buff = ''abc''\<rparr>, ta_sent = [], ta_stop = True\<rparr> =
     (st', Some EOF)"
  by (rule TailFile_ends) simp_all

section \<open>Job information for the client\<close>

text \<open>The message for a job that \<^verbatim>\<open>scontrol\<close> shows; \<open>tp\<close> and \<open>dp\<close> convert times and durations.\<close>

definition job_message :: "(go_time \<Rightarrow> Timestamp) \<Rightarrow> (duration \<Rightarrow> Duration) \<Rightarrow> scontrol_job \<Rightarrow> JobInfo" where
  "job_message tp dp j =
     (let t = map_get (sj_texts j) in
      \<lparr>ji_Id = t ''JobId'', ji_UserId = t ''UserId'', ji_Name = t ''JobName'',
       ji_ExitCode = t ''ExitCode'', ji_Status = status_of (t ''JobState''),
       ji_SubmitTime = map_option (tp \<circ> civil_time) (sj_submit j),
       ji_StartTime = map_option (tp \<circ> civil_time) (sj_start j),
       ji_RunTime = map_option (\<lambda>f. dp (word_of_int (duration_nanos f))) (sj_run j),
       ji_TimeLimit = map_option (\<lambda>f. dp (word_of_int (duration_nanos f))) (sj_limit j),
       ji_WorkingDir = t ''WorkDir'', ji_StdOut = t ''StdOut'', ji_StdErr = t ''StdErr'',
       ji_Partition = t ''Partition'', ji_NodeList = t ''NodeList'',
       ji_BatchHost = t ''BatchHost'', ji_NumNodes = t ''NumNodes'',
       ji_ArrayId = t ''ArrayJobId'', ji_Reason = t ''Reason'', ji_EndTime = None\<rparr>)"

lemma proto_time_ok:
  "(\<And>x. t = Some x \<Longrightarrow> tp x = Inr (f x)) \<Longrightarrow> proto_time tp what t = Inr (map_option f t)"
  by (cases t) (simp_all add: proto_time_def)

lemma info_proto_job:
  assumes "\<And>c. c \<in> set_option (sj_submit j) \<union> set_option (sj_start j) \<Longrightarrow> tp (civil_time c) = Inr (f (civil_time c))"
  shows "info_proto tp dp (job_info j) = Inr (job_message f dp j)"
proof -
  have "proto_time tp what (map_option civil_time t) = Inr (map_option (f \<circ> civil_time) t)"
    if "t = sj_submit j \<or> t = sj_start j" for what t
    using that assms by (subst proto_time_ok [of _ _ f]) (auto simp: option.map_comp)
  then show ?thesis
    by (simp add: info_proto_def job_info_def job_message_def Let_def option.map_comp comp_def)
qed

lemma JobInfo_rpc_messages:
  assumes "Output h ''scontrol'' [''show'', ''jobid'', FormatInt64 jid] w = ((out, None), w')"
    and "TrimSpace out = Join blocks [CHR 0x0A, CHR 0x0A]" and "blocks \<noteq> []"
    and "list_all2 job_block blocks jobs"
    and "\<forall>t. TimestampProto h t = Inr (tp t)"
  shows "JobInfo_rpc h \<lparr>jir_JobId = jid\<rparr> (s, w) =
    (Inr \<lparr>jr_Info = map (job_message tp (DurationProto h)) jobs\<rparr>, s, w')"
proof -
  have "Output (host.truncate h) = Output h" by (simp add: host.defs)
  moreover have "jobInfoFromScontrolResponse out = Inr (map job_info jobs)"
    using assms(2-4) by (rule jobInfoFromScontrolResponse_jobs)
  moreover have "mapSInfoToProtoInfo (TimestampProto h) (DurationProto h) (map job_info jobs) =
      Inr (map (job_message tp (DurationProto h)) jobs)"
    using assms(5)
    by (simp add: mapSInfoToProtoInfo_def map_result_Inr_iff list_all2_conv_all_nth info_proto_job)
  moreover have "jobs \<noteq> []" using assms(3,4) by auto
  ultimately show ?thesis using assms(1) by (simp add: JobInfo_rpc_def SJobInfo_def)
qed



section \<open>Scripts of container jobs\<close>

lemma sprintf_step: "c \<noteq> CHR ''%'' \<Longrightarrow> sprintf (c # s) args = map_option (Cons c) (sprintf s args)"
  by (cases s) simp_all

lemma sprintf_plain: "CHR ''%'' \<notin> set s \<Longrightarrow> sprintf (s @ t) args = map_option (append s) (sprintf t args)"
  by (cases "sprintf t args"; induction s) (auto simp: sprintf_step)

lemma Sprintf_once:
  assumes "CHR ''%'' \<notin> set p" and "CHR ''%'' \<notin> set q"
  shows "Sprintf other (p @ ''%s'' @ q) a = p @ a @ q"
proof -
  have "sprintf q [] = Some q" using sprintf_plain [OF assms(2), of "[]" "[]"] by simp
  then show ?thesis using sprintf_plain [OF assms(1), of "''%s'' @ q" "[a]"] by (simp add: Sprintf_def)
qed

text \<open>The options of the run command, when none of their texts has a percent sign.\<close>

definition run_flags :: "SingularityOptions \<Rightarrow> string list" where
  "run_flags o' =
     (if so_App o' \<noteq> [] then [''--app='' @ quoted (so_App o')] else []) @
     (if so_HostName o' \<noteq> [] then [''--hostname='' @ quoted (so_HostName o')] else []) @
     (if so_Binds o' \<noteq> [] then [''--bind='' @ quoted (Join (so_Binds o') '','')] else []) @
     (if so_ClearEnv o' then [''-c''] else []) @ (if so_FakeRoot o' then [''-f''] else []) @
     (if so_Ipc o' then [''-i''] else []) @ (if so_Pid o' then [''-p''] else []) @
     (if so_NoPrivs o' then [''--no-privs''] else []) @ (if so_Writable o' then [''-w''] else [])"

definition run_line :: "SingularityOptions \<Rightarrow> string \<Rightarrow> string" where
  "run_line o' img =
     Join (''srun singularity run'' # run_flags o') '' '' @ '' '' @ quoted img @ '' || exit''"

definition no_percent :: "SingularityOptions \<Rightarrow> bool" where
  "no_percent o' \<longleftrightarrow> CHR ''%'' \<notin> set (Join (run_flags o') '' '')"

lemma flag_if_append: "flag_if b f flags = flags @ (if b then [f] else [])"
  by (simp add: flag_if_def)

lemma buildRunCommand_flags:
  "buildRunCommand (Some o') =
     Value (Join (''srun singularity run'' # run_flags o') '' '' @ '' '' @ quoted ''%s'' @ '' || exit'')"
proof -
  have flags: "flag_if (so_Writable o') ''-w'' (flag_if (so_NoPrivs o') ''--no-privs''
      (flag_if (so_Pid o') ''-p'' (flag_if (so_Ipc o') ''-i'' (flag_if (so_FakeRoot o') ''-f''
      (flag_if (so_ClearEnv o') ''-c'' (flag_if (length (so_Binds o') \<noteq> 0)
        (''--bind='' @ quoted (Join (so_Binds o') '',''))
      (flag_if (so_HostName o' \<noteq> []) (''--hostname='' @ quoted (so_HostName o'))
      (flag_if (so_App o' \<noteq> []) (''--app='' @ quoted (so_App o')) [])))))))) = run_flags o'"
    unfolding flag_if_append run_flags_def by (simp only: append_assoc append_Nil length_0_conv)
  have "(if length fs \<noteq> 0 then x @ '' '' @ Join fs '' '' else x) = Join (x # fs) '' ''" for fs x
    by (cases fs) simp_all
  then show ?thesis
    unfolding buildRunCommand_def Let_def option.case flags by (simp only: append_assoc)
qed

lemma run_line_Sprintf:
  assumes "no_percent o'" and "buildRunCommand (Some o') = Value runT"
  shows "Sprintf other runT a = run_line o' a"
proof -
  have "Join (x # fs) '' '' = x @ (if fs = [] then [] else '' '' @ Join fs '' '')" for x fs
    by (cases fs) simp_all
  then have "CHR ''%'' \<notin> set (Join (''srun singularity run'' # run_flags o') '' '' @ '' '' @ [CHR 0x22])"
    using assms(1) by (auto simp: no_percent_def)
  then show ?thesis
    using assms(2) Sprintf_once [of
        "Join (''srun singularity run'' # run_flags o') '' '' @ '' '' @ [CHR 0x22]"
        "[CHR 0x22] @ '' || exit''" other a]
    by (auto simp: buildRunCommand_flags run_line_def quoted_def)
qed

definition script_header :: "SubmitJobContainerRequest \<Rightarrow> string list" where
  "script_header r =
     [''#!/bin/sh''] @ sbatch_line ''--time=0:'' (sc_WallTime r) @
     sbatch_line ''--mem='' (sc_MemPerNode r) @ sbatch_line ''--nodes='' (sc_Nodes r) @
     sbatch_line ''--cpus-per-task='' (sc_CpuPerNode r)"

text \<open>
  The script of a container job asks for the resources of the request and runs the image with
  its options. Unless unsigned images are allowed, a local image is verified first and a remote
  image is pulled without the flag that skips the verification; a pulled image is removed at the
  end. (The options must not contain a percent sign, which the code would treat as a format verb.)
\<close>

theorem container_script:
  assumes "sc_Options r = Some o'" and "no_percent o'" and "uuid_New h w = (uid, w')"
  shows "buildSLURMScript h r w =
    (if HasPrefix (sc_ImageName r) localFilePrefix then
       (Value (Join (script_header r @
           (if so_AllowUnsigned o' then []
            else [''srun singularity verify '' @ quoted (TrimPrefix (sc_ImageName r) localFilePrefix) @ '' || exit'']) @
           [run_line o' (TrimPrefix (sc_ImageName r) localFilePrefix)]) [CHR 0x0A]), w)
     else
       (Value (Join (script_header r @
           [(if so_AllowUnsigned o' then ''srun singularity pull -U --name ''
             else ''srun singularity pull --name '') @ quoted uid @ '' '' @ quoted (sc_ImageName r) @ '' || exit'',
            run_line o' uid, ''srun rm '' @ quoted uid]) [CHR 0x0A]), w'))"
proof -
  obtain runT where run: "buildRunCommand (Some o') = Value runT" using buildRunCommand_flags by blast
  then show ?thesis
    using assms run_line_Sprintf [OF assms(2) run]
    by (simp add: buildSLURMScript_def script_header_def Let_def)
qed

theorem container_script_witness:
  "fst (buildSLURMScript counting_agent
     \<lparr>sc_ImageName = ''local.file/img.sif'', sc_Nodes = 2, sc_CpuPerNode = 0, sc_MemPerNode = 0,
      sc_WallTime = 0, sc_Partition = ''debug'', sc_ClientId = [],
      sc_Options = Some \<lparr>so_App = [], so_AllowUnsigned = False, so_Binds = [], so_ClearEnv = True,
        so_FakeRoot = False, so_HostName = [], so_Ipc = False, so_Pid = False, so_NoPrivs = False,
        so_Writable = False\<rparr>\<rparr> 1) =
   Value (Join [''#!/bin/sh'', ''#SBATCH --nodes=2'',
     ''srun singularity verify '' @ quoted ''/img.sif'' @ '' || exit'',
     ''srun singularity run -c '' @ quoted ''/img.sif'' @ '' || exit''] [CHR 0x0A])"
proof -
  let ?o = "\<lparr>so_App = [], so_AllowUnsigned = False, so_Binds = [], so_ClearEnv = True,
        so_FakeRoot = False, so_HostName = [], so_Ipc = False, so_Pid = False, so_NoPrivs = False,
        so_Writable = False\<rparr>"
  let ?r = "\<lparr>sc_ImageName = ''local.file/img.sif'', sc_Nodes = 2, sc_CpuPerNode = 0, sc_MemPerNode = 0,
      sc_WallTime = 0, sc_Partition = ''debug'', sc_ClientId = [], sc_Options = Some ?o\<rparr>"
  have 1: "no_percent ?o" by code_simp
  have 2: "uuid_New counting_agent 1 = (''u'', 1)"
    by (simp add: counting_agent_def host.defs agent_host.defs)
  have 3: "HasPrefix ''local.file/img.sif'' localFilePrefix"
    "TrimPrefix ''local.file/img.sif'' localFilePrefix = ''/img.sif''"
    "run_line ?o ''/img.sif'' = ''srun singularity run -c '' @ quoted ''/img.sif'' @ '' || exit''"
    "script_header ?r = [''#!/bin/sh'', ''#SBATCH --nodes=2'']"
    by code_simp+
  show ?thesis
    by (subst container_script [OF _ 1 2]) (simp_all add: 3)
qed

text \<open>A request without options makes the agent panic.\<close>

lemma SubmitJobContainer_nil_options:
  "sc_Options r = None \<Longrightarrow> fst (SubmitJobContainer h r (s, w)) = Panic NilDereference"
  by (simp add: SubmitJobContainer_def buildSLURMScript_def buildRunCommand_def)


end
