(* ===== verification/SubmitService.thy ===== *)
theory SubmitService
  imports SlurmServer
begin

text \<open>
  Submission through the service of the agent: the contract that the virtual kubelet relies on when
  it retries (a key is submitted once), as the locale \<open>keyed_submit\<close>, its instance for
  \<^const>\<open>SubmitJob\<close>, and what remains of it when several handlers run at the same time.
\<close>

section \<open>The contract\<close>

text \<open>
  A service that turns requests into identifiers and remembers them by the request's key. \<open>other\<close>
  are the remaining calls of the service.
\<close>

locale keyed_submit =
  fixes submit :: "'q \<Rightarrow> 's \<Rightarrow> (go_error + 'i) \<times> 's"
    and other :: "'c \<Rightarrow> 's \<Rightarrow> 's"
    and key :: "'q \<Rightarrow> 'k"
    and valid :: "'q \<Rightarrow> bool"
    and known :: "'s \<Rightarrow> 'k \<rightharpoonup> 'i"
  assumes submit_hit: "valid q \<Longrightarrow> known s (key q) = Some i \<Longrightarrow> submit q s = (Inr i, s)"
    and submit_ok: "submit q s = (Inr i, s') \<Longrightarrow> valid q \<and> known s' = (known s)(key q \<mapsto> i)"
    and submit_fail: "submit q s = (Inl e, s') \<Longrightarrow> known s' = known s"
    and other_known: "known (other c s) = known s"
begin

text \<open>Any sequence of calls.\<close>

fun serve :: "('q + 'c) list \<Rightarrow> 's \<Rightarrow> 's" where
  "serve [] s = s"
| "serve (Inl q # cs) s = serve cs (snd (submit q s))"
| "serve (Inr c # cs) s = serve cs (other c s)"

lemma submit_keeps:
  assumes "known s k = Some i"
  shows "known (snd (submit q s)) k = Some i"
proof (cases "submit q s")
  case (Pair r s')
  show ?thesis
  proof (cases r)
    case (Inl e)
    then show ?thesis using Pair submit_fail assms by simp
  next
    case (Inr j)
    then have ok: "valid q" "known s' = (known s)(key q \<mapsto> j)" using Pair submit_ok by auto
    show ?thesis
    proof (cases "key q = k")
      case True
      then have "submit q s = (Inr i, s)" using submit_hit ok(1) assms by simp
      then show ?thesis using assms by simp
    next
      case False
      then show ?thesis using ok(2) Pair assms by simp
    qed
  qed
qed

lemma serve_keeps: "known s k = Some i \<Longrightarrow> known (serve cs s) k = Some i"
  by (induction cs s rule: serve.induct) (simp_all add: submit_keeps other_known)

text \<open>A key that was submitted gives the same identifier for ever, and submits nothing again.\<close>

lemma submit_once:
  assumes "submit q s = (Inr i, s1)" and "valid q'" and "key q' = key q"
  shows "submit q' (serve cs s1) = (Inr i, serve cs s1)"
proof -
  have "known s1 (key q) = Some i" using submit_ok [OF assms(1)] by simp
  then have "known (serve cs s1) (key q') = Some i" using serve_keeps assms(3) by simp
  then show ?thesis using submit_hit assms(2) by simp
qed

end

section \<open>SubmitJob\<close>

text \<open>The other calls of the service and their effect on its state and the machine.\<close>

datatype rpc_call =
    CallCancel CancelJobRequest
  | CallContainer SubmitJobContainerRequest
  | CallPartition PartitionRequest
  | CallNodes NodesRequest
  | CallPartitions
  | CallInfo JobInfoRequest
  | CallSteps JobStepsRequest
  | CallResources ResourcesRequest
  | CallWorkloadInfo

fun rpc :: "'w agent_host \<Rightarrow> rpc_call \<Rightarrow> Slurm \<times> 'w \<Rightarrow> Slurm \<times> 'w" where
  "rpc h (CallCancel q) sw = snd (CancelJob h q sw)"
| "rpc h (CallContainer q) sw = snd (SubmitJobContainer h q sw)"
| "rpc h (CallPartition q) sw = snd (Partition_rpc h q sw)"
| "rpc h (CallNodes q) sw = snd (Nodes_rpc h q sw)"
| "rpc h CallPartitions sw = snd (Partitions_rpc h sw)"
| "rpc h (CallInfo q) sw = snd (JobInfo_rpc h q sw)"
| "rpc h (CallSteps q) sw = snd (JobSteps_rpc h q sw)"
| "rpc h (CallResources q) sw = snd (Resources_rpc h q sw)"
| "rpc h CallWorkloadInfo sw = snd (WorkloadInfo h sw)"

lemma rpc_state: "fst (rpc h c sw) = fst sw"
  by (cases c; cases sw)
     (auto simp: CancelJob_def SubmitJobContainer_def Partition_rpc_def Nodes_rpc_def
       Partitions_rpc_def JobInfo_rpc_def JobSteps_rpc_def Resources_rpc_def WorkloadInfo_def Let_def
       split: splits_go)

definition submit_id ::
    "'w agent_host \<Rightarrow> SubmitJobRequest \<Rightarrow> Slurm \<times> 'w \<Rightarrow> (go_error + int64) \<times> Slurm \<times> 'w" where
  "submit_id h q sw = (case SubmitJob h (Some q) sw of (r, sw') \<Rightarrow> (map_sum (\<lambda>x. x) sjr_JobId r, sw'))"

abbreviation known_jobs :: "Slurm \<times> 'w \<Rightarrow> (string \<rightharpoonup> int64)" where
  "known_jobs sw \<equiv> s_knownJobs (fst sw)"

interpretation submit: keyed_submit "submit_id h" "rpc h" sj_Uid valid_request known_jobs
  by unfold_locales
     (auto simp: submit_id_def SubmitJob_def rpc_state Let_def split: splits_go)

text \<open>A run of the service: submissions and other calls, one after the other.\<close>

fun serve_calls ::
    "'w agent_host \<Rightarrow> (SubmitJobRequest option + rpc_call) list \<Rightarrow> Slurm \<times> 'w \<Rightarrow> Slurm \<times> 'w" where
  "serve_calls h [] sw = sw"
| "serve_calls h (Inl q # cs) sw = serve_calls h cs (snd (SubmitJob h q sw))"
| "serve_calls h (Inr c # cs) sw = serve_calls h cs (rpc h c sw)"

fun proper_calls ::
    "(SubmitJobRequest option + rpc_call) list \<Rightarrow> (SubmitJobRequest + rpc_call) list" where
  "proper_calls [] = []"
| "proper_calls (Inl None # cs) = proper_calls cs"
| "proper_calls (Inl (Some q) # cs) = Inl q # proper_calls cs"
| "proper_calls (Inr c # cs) = Inr c # proper_calls cs"

lemma snd_submit_id: "snd (submit_id h q sw) = snd (SubmitJob h (Some q) sw)"
  by (simp add: submit_id_def split: prod.splits)

lemma serve_calls_eq: "serve_calls h cs sw = submit.serve h (proper_calls cs) sw"
  by (induction cs arbitrary: sw rule: proper_calls.induct)
     (simp_all add: snd_submit_id, simp add: SubmitJob_def Let_def split: prod.splits)

lemma SubmitJob_submit_id:
  "SubmitJob h (Some q) sw = (Inr r, sw') \<longleftrightarrow> submit_id h q sw = (Inr (sjr_JobId r), sw')"
proof -
  obtain x y where "SubmitJob h (Some q) sw = (x, y)" by (metis surj_pair)
  then show ?thesis by (cases x) (auto simp: submit_id_def)
qed

lemma SubmitJob_repeat:
  assumes "SubmitJob h (Some q) sw = (Inr r, sw1)" and "valid_request q'" and "sj_Uid q' = sj_Uid q"
  shows "SubmitJob h (Some q') (serve_calls h cs sw1) = (Inr r, serve_calls h cs sw1)"
  using assms submit.submit_once by (simp add: SubmitJob_submit_id serve_calls_eq)

text \<open>
  C4. Submission is idempotent: once a request with some identifier of its pod has been submitted,
  every later valid request with that identifier (also with another script) is answered with the
  same job and runs no command, whatever calls come in between, cancelling the job included.
\<close>

theorem SubmitJob_once:
  assumes "SubmitJob h (Some q) sw = (Inr r, sw1)" and "valid_request q'" and "sj_Uid q' = sj_Uid q"
  shows "SubmitJob h (Some q') (serve_calls h cs sw1) = (Inr r, serve_calls h cs sw1)"
  using assms by (rule SubmitJob_repeat)

definition sample_request :: "string \<Rightarrow> SubmitJobRequest" where
  "sample_request uid = zero_SubmitJobRequest
     \<lparr>sj_Script := ''#!/bin/sh'', sj_Partition := ''debug'', sj_Uid := uid\<rparr>"

lemma SBatch_counting [simp]: "SBatch counting_host q w = (Inr w, w + 1)"
  by (simp add: SBatch_def counting_host_def TrimSpace_FormatInt_blanks)

theorem SubmitJob_once_witness:
  "SubmitJob counting_agent (Some (sample_request ''p1''))
     (NewSlurm Map.empty 0 \<lparr>s_knownJobs := [''p1'' \<mapsto> 7]\<rparr>, 9) =
   (Inr \<lparr>sjr_JobId = 7\<rparr>, NewSlurm Map.empty 0 \<lparr>s_knownJobs := [''p1'' \<mapsto> 7]\<rparr>, 9)"
proof -
  have "SubmitJob counting_agent (Some (sample_request ''p1'')) (NewSlurm Map.empty 0, 7) =
      (Inr \<lparr>sjr_JobId = 7\<rparr>, NewSlurm Map.empty 0 \<lparr>s_knownJobs := [''p1'' \<mapsto> 7]\<rparr>, 8)"
    by (simp add: SubmitJob_def sample_request_def zero_SubmitJobRequest_def valid_request_def
        NewSlurm_def)
  from SubmitJob_once [OF this, of "sample_request ''p1''" "[Inr (CallCancel \<lparr>cj_JobId = 7\<rparr>)]"]
  show ?thesis
    by (simp add: sample_request_def zero_SubmitJobRequest_def valid_request_def CancelJob_def
        SCancel_def counting_host_def errors_Wrap_def)
qed

text \<open>
  A submission is rejected without running a command when the request is missing or lacks its
  script, partition or pod identifier; when \<^verbatim>\<open>sbatch\<close> fails, nothing is remembered and the next
  request for the pod runs it again.
\<close>

theorem SubmitJob_errors:
  "SubmitJob h None (s, w) = (Inl (ErrorString ''Invalid submit job request''), s, w) \<and>
   (\<not> valid_request q \<longrightarrow>
      SubmitJob h (Some q) (s, w) = (Inl (ErrorString ''Invalid submit job request''), s, w)) \<and>
   (valid_request q \<and> s_knownJobs s (sj_Uid q) = None \<and>
      SBatch (host.truncate h) (sbatch_request q) w = (Inl e, w') \<longrightarrow>
      SubmitJob h (Some q) (s, w) = (Inl (Wrap ''could not submit sbatch script'' e), s, w'))"
  by (simp add: SubmitJob_def)

theorem SubmitJob_errors_witness:
  "SubmitJob counting_agent (Some (sample_request [])) (NewSlurm Map.empty 0, 5) =
     (Inl (ErrorString ''Invalid submit job request''), NewSlurm Map.empty 0, 5)"
  using SubmitJob_errors [of counting_agent "NewSlurm Map.empty 0" 5 "sample_request []"]
  by (simp add: sample_request_def valid_request_def)

section \<open>Handlers that run at the same time\<close>

text \<open>
  gRPC runs every handler in its own goroutine. Between the load and the store of the map the
  handler of \<^verbatim>\<open>SubmitJob\<close> runs \<^verbatim>\<open>sbatch\<close>, and other handlers may run. A handler is in one of four
  phases; a step advances one handler by one of the three actions.
\<close>

datatype phase =
    Started SubmitJobRequest
  | Missed SubmitJobRequest
  | Submitted SubmitJobRequest int64
  | Done SubmitJobRequest "SubmitJobResponse result"

primrec phase_request :: "phase \<Rightarrow> SubmitJobRequest" where
  "phase_request (Started q) = q"
| "phase_request (Missed q) = q"
| "phase_request (Submitted q j) = q"
| "phase_request (Done q r) = q"

record 'w service =
  sv_known :: "string \<rightharpoonup> int64"
  sv_world :: 'w
  sv_handlers :: "phase list"

fun advance :: "'w agent_host \<Rightarrow> phase \<Rightarrow> (string \<rightharpoonup> int64) \<Rightarrow> 'w \<Rightarrow> phase \<times> (string \<rightharpoonup> int64) \<times> 'w" where
  "advance h (Started q) m w =
     (if \<not> valid_request q then (Done q (Inl (ErrorString ''Invalid submit job request'')), m, w)
      else
        case m (sj_Uid q) of
          Some v \<Rightarrow> (Done q (Inr \<lparr>sjr_JobId = v\<rparr>), m, w)
        | None \<Rightarrow> (Missed q, m, w))"
| "advance h (Missed q) m w =
     (case SBatch (host.truncate h) (sbatch_request q) w of
        (Inl err, w') \<Rightarrow> (Done q (Inl (Wrap ''could not submit sbatch script'' err)), m, w')
      | (Inr jid, w') \<Rightarrow> (Submitted q jid, m, w'))"
| "advance h (Submitted q j) m w =
     (Done q (Inr \<lparr>sjr_JobId = j\<rparr>), m(sj_Uid q \<mapsto> j), w)"
| "advance h (Done q r) m w = (Done q r, m, w)"

inductive handler_step :: "'w agent_host \<Rightarrow> 'w service \<Rightarrow> 'w service \<Rightarrow> bool" for h where
  "i < length (sv_handlers s) \<Longrightarrow>
     advance h (sv_handlers s ! i) (sv_known s) (sv_world s) = (p, m, w) \<Longrightarrow>
     handler_step h s \<lparr>sv_known = m, sv_world = w, sv_handlers = (sv_handlers s)[i := p]\<rparr>"

inductive_cases handler_stepE: "handler_step h s s'"

text \<open>Run alone, the three actions are the sequential handler.\<close>

definition run_handler :: "'w agent_host \<Rightarrow> SubmitJobRequest \<Rightarrow> (string \<rightharpoonup> int64) \<times> 'w \<Rightarrow>
    phase \<times> (string \<rightharpoonup> int64) \<times> 'w" where
  "run_handler h q mw =
     (case advance h (Started q) (fst mw) (snd mw) of (p1, m1, w1) \<Rightarrow>
      case advance h p1 m1 w1 of (p2, m2, w2) \<Rightarrow> advance h p2 m2 w2)"


text \<open>Handlers for different pods do not disturb each other.\<close>

definition distinct_pods :: "'w service \<Rightarrow> bool" where
  "distinct_pods s \<longleftrightarrow> distinct (map (sj_Uid \<circ> phase_request) (sv_handlers s))"

definition answered :: "'w service \<Rightarrow> phase \<Rightarrow> bool" where
  "answered s p \<longleftrightarrow>
     (case p of
        Done q (Inr r) \<Rightarrow> sv_known s (sj_Uid q) = Some (sjr_JobId r)
      | Missed q \<Rightarrow> sv_known s (sj_Uid q) = None
      | Submitted q j \<Rightarrow> sv_known s (sj_Uid q) = None
      | _ \<Rightarrow> True)"

definition service_inv :: "'w service \<Rightarrow> bool" where
  "service_inv s \<longleftrightarrow> distinct_pods s \<and> list_all (answered s) (sv_handlers s)"

lemma advance_request:
  "advance h p m w = (p', m', w') \<Longrightarrow> phase_request p' = phase_request p"
  by (cases p) (auto split: splits_go)

lemma advance_other:
  "advance h p m w = (p', m', w') \<Longrightarrow> k \<noteq> sj_Uid (phase_request p) \<Longrightarrow> m' k = m k"
  by (cases p) (auto split: splits_go)

lemma advance_answered:
  assumes "advance h p (sv_known s) w = (p', m', w')" and "answered s p"
  shows "answered \<lparr>sv_known = m', sv_world = w', sv_handlers = hs\<rparr> p'"
  using assms by (cases p) (auto simp: answered_def split: splits_go)

lemma answered_cong:
  "answered s p \<Longrightarrow> sv_known s' (sj_Uid (phase_request p)) = sv_known s (sj_Uid (phase_request p)) \<Longrightarrow>
     answered s' p"
  by (auto simp: answered_def split: phase.splits sum.splits)

lemma service_inv_step:
  assumes "handler_step h s s'" and "service_inv s"
  shows "service_inv s'"
proof -
  let ?hs = "sv_handlers s"
  obtain i p m w where 1: "i < length ?hs" "advance h (?hs ! i) (sv_known s) (sv_world s) = (p, m, w)"
    "s' = \<lparr>sv_known = m, sv_world = w, sv_handlers = ?hs[i := p]\<rparr>"
    using assms(1) by (elim handler_stepE) blast
  have req: "phase_request p = phase_request (?hs ! i)" using 1 advance_request by metis
  have "map (sj_Uid \<circ> phase_request) (?hs[i := p]) = map (sj_Uid \<circ> phase_request) ?hs"
    using req 1 by (simp add: map_update list_update_same_conv)
  then have dist: "distinct_pods s'" using assms(2) 1 by (simp add: service_inv_def distinct_pods_def)
  have "answered s' (?hs[i := p] ! j)" if j: "j < length ?hs" for j
  proof (cases "j = i")
    case True
    then show ?thesis
      using 1 j advance_answered [of h "?hs ! i" s "sv_world s" p m w] assms(2)
      by (simp add: service_inv_def list_all_length)
  next
    case False
    then have "sj_Uid (phase_request (?hs ! j)) \<noteq> sj_Uid (phase_request (?hs ! i))"
      using assms(2) j 1 nth_eq_iff_index_eq [of "map (sj_Uid \<circ> phase_request) ?hs" j i]
      by (simp add: service_inv_def distinct_pods_def)
    then have "m (sj_Uid (phase_request (?hs ! j))) = sv_known s (sj_Uid (phase_request (?hs ! j)))"
      using advance_other 1 by metis
    then show ?thesis
      using False j 1 assms(2) answered_cong [of s "?hs ! j" s']
      by (simp add: service_inv_def list_all_length)
  qed
  then show ?thesis using dist 1 by (simp add: service_inv_def list_all_length)
qed

lemma service_inv_reach:
  "(handler_step h)\<^sup>*\<^sup>* s s' \<Longrightarrow> service_inv s \<Longrightarrow> service_inv s'"
  by (induction rule: rtranclp_induct) (auto intro: service_inv_step)

lemma service_inv_start:
  assumes "sv_handlers s = map Started qs" and "distinct (map sj_Uid qs)"
  shows "service_inv s"
  using assms by (simp add: service_inv_def distinct_pods_def answered_def list_all_iff comp_def)

text \<open>
  Handlers for different pods may run at the same time: in every interleaving, each handler
  that has answered with a job has that job remembered for its pod.
\<close>

theorem concurrent_submissions_remembered:
  assumes "(handler_step h)\<^sup>*\<^sup>* s s'"
    and "sv_handlers s = map Started qs" and "distinct (map sj_Uid qs)"
    and "Done q (Inr r) \<in> set (sv_handlers s')"
  shows "sv_known s' (sj_Uid q) = Some (sjr_JobId r)"
proof -
  have "service_inv s'" using service_inv_reach [OF assms(1)] service_inv_start assms(2,3) by blast
  then show ?thesis using assms(4) by (auto simp: service_inv_def list_all_iff answered_def)
qed

text \<open>A schedule: the handlers that advance, in order.\<close>

fun run_schedule :: "'w agent_host \<Rightarrow> nat list \<Rightarrow> 'w service \<Rightarrow> 'w service" where
  "run_schedule h [] s = s"
| "run_schedule h (i # is') s =
     (if i < length (sv_handlers s) then
        case advance h (sv_handlers s ! i) (sv_known s) (sv_world s) of
          (p, m, w) \<Rightarrow>
            run_schedule h is' \<lparr>sv_known = m, sv_world = w, sv_handlers = (sv_handlers s)[i := p]\<rparr>
      else s)"

lemma run_schedule_reach: "(handler_step h)\<^sup>*\<^sup>* s (run_schedule h is s)"
proof (induction h "is" s rule: run_schedule.induct)
  case (2 h i is' s)
  show ?case
  proof (cases "i < length (sv_handlers s)")
    case True
    obtain p m w where a: "advance h (sv_handlers s ! i) (sv_known s) (sv_world s) = (p, m, w)"
      by (metis surj_pair)
    let ?s = "\<lparr>sv_known = m, sv_world = w, sv_handlers = (sv_handlers s)[i := p]\<rparr>"
    have "handler_step h s ?s" using True a by (rule handler_step.intros)
    moreover have "(handler_step h)\<^sup>*\<^sup>* ?s (run_schedule h is' ?s)"
      using 2 True a by simp
    ultimately show ?thesis using True a by (simp add: converse_rtranclp_into_rtranclp)
  qed simp
qed simp

definition two_handlers :: "string \<Rightarrow> string \<Rightarrow> int64 service" where
  "two_handlers u v =
     \<lparr>sv_known = Map.empty, sv_world = 7,
      sv_handlers = map Started [sample_request u, sample_request v]\<rparr>"

definition two_answered :: "string \<Rightarrow> string \<Rightarrow> int64 service" where
  "two_answered u v =
     \<lparr>sv_known = [u \<mapsto> 7, v \<mapsto> 8], sv_world = 9,
      sv_handlers = [Done (sample_request u) (Inr \<lparr>sjr_JobId = 7\<rparr>),
                     Done (sample_request v) (Inr \<lparr>sjr_JobId = 8\<rparr>)]\<rparr>"

lemma two_handlers_reach:
  assumes "u \<noteq> []" and "v \<noteq> []"
  shows "(handler_step counting_agent)\<^sup>*\<^sup>* (two_handlers u v) (two_answered u v)"
proof -
  have "run_schedule counting_agent [0, 1, 0, 1, 0, 1] (two_handlers u v) = two_answered u v"
    using assms
    by (simp add: two_handlers_def two_answered_def sample_request_def zero_SubmitJobRequest_def
        valid_request_def)
  then show ?thesis using run_schedule_reach by metis
qed

theorem concurrent_submissions_remembered_witness:
  "sv_known (two_answered ''a'' ''b'') ''b'' = Some 8"
proof -
  have "sv_known (two_answered ''a'' ''b'') (sj_Uid (sample_request ''b'')) =
      Some (sjr_JobId \<lparr>sjr_JobId = 8\<rparr>)"
    by (rule concurrent_submissions_remembered
          [OF two_handlers_reach, of _ _ "[sample_request ''a'', sample_request ''b'']"])
       (simp_all add: two_handlers_def two_answered_def sample_request_def)
  then show ?thesis by (simp add: sample_request_def)
qed


end
