(* ===== verification/KubeTypes.thy ===== *)
theory KubeTypes
  imports Workload "HOL-Library.AList"
begin

text \<open>
  The Kubernetes objects the operator and the virtual kubelet exchange, with the fields this
  repository reads or writes (\<^verbatim>\<open>k8s.io/api\<close>), the repository's own resource \<^verbatim>\<open>SlurmBridgeJob\<close>
  (\<^verbatim>\<open>apis/kubecluster.org/v1alpha1\<close>) with its validation and affinity helpers, and the label names of
  \<^verbatim>\<open>pkg/common/labels.go\<close>. Label and annotation maps are partial functions: wherever the code tells a
  nil map from a missing key it does the same in both cases. A map that the code iterates over is an
  association list whose order stands for the order of the iteration.
\<close>

section \<open>Core objects\<close>

record OwnerReference =
  or_APIVersion :: string
  or_Kind :: string
  or_Name :: string
  or_UID :: string

record ObjectMeta =
  om_Name :: string
  om_Namespace :: string
  om_UID :: string
  om_Labels :: "string \<rightharpoonup> string"
  om_Annotations :: "string \<rightharpoonup> string"
  om_OwnerReferences :: "OwnerReference list"
  om_DeletionTimestamp :: "go_time option"

definition new_meta :: "string \<Rightarrow> string \<Rightarrow> (string \<rightharpoonup> string) \<Rightarrow> ObjectMeta" where
  "new_meta name ns labels =
     \<lparr>om_Name = name, om_Namespace = ns, om_UID = [], om_Labels = labels,
      om_Annotations = Map.empty, om_OwnerReferences = [], om_DeletionTimestamp = None\<rparr>"

type_synonym ResourceList = "string \<rightharpoonup> int64"

record Toleration =
  to_Key :: string
  to_Operator :: string
  to_Value :: string
  to_Effect :: string

record Taint =
  tn_Key :: string
  tn_Value :: string
  tn_Effect :: string

record NodeSelectorRequirement =
  nsr_Key :: string
  nsr_Operator :: string
  nsr_Values :: "string list"

text \<open>An affinity is its required node selector: a list of terms, each a list of requirements.\<close>

type_synonym Affinity = "NodeSelectorRequirement list list"

record SecurityContext =
  sx_RunAsUser :: "int64 option"
  sx_RunAsGroup :: "int64 option"

record VolumeMount =
  vm_Name :: string
  vm_ReadOnly :: bool
  vm_MountPath :: string

record Container =
  c_Name :: string
  c_Image :: string
  c_Command :: "string list"
  c_Requests :: ResourceList
  c_Limits :: ResourceList
  c_SecurityContext :: "SecurityContext option"
  c_WorkingDir :: string
  c_VolumeMounts :: "VolumeMount list"

definition new_container :: "string \<Rightarrow> string \<Rightarrow> Container" where
  "new_container name img =
     \<lparr>c_Name = name, c_Image = img, c_Command = [], c_Requests = Map.empty, c_Limits = Map.empty,
      c_SecurityContext = None, c_WorkingDir = [], c_VolumeMounts = []\<rparr>"

text \<open>A volume is its name; what backs it is only passed on.\<close>

record PodSpec =
  ps_NodeName :: string
  ps_Affinity :: "Affinity option"
  ps_SecurityContext :: "SecurityContext option"
  ps_Tolerations :: "Toleration list"
  ps_Containers :: "Container list"
  ps_RestartPolicy :: string
  ps_Volumes :: "string list"

text \<open>The phases of \<^verbatim>\<open>corev1\<close>; the empty phase of an object that was just built is \<open>PodNone\<close>.\<close>

datatype PodPhase = PodNone | PodPending | PodRunning | PodSucceeded | PodFailed | PodUnknown

primrec phase_name :: "PodPhase \<Rightarrow> string" where
  "phase_name PodNone = []"
| "phase_name PodPending = ''Pending''"
| "phase_name PodRunning = ''Running''"
| "phase_name PodSucceeded = ''Succeeded''"
| "phase_name PodFailed = ''Failed''"
| "phase_name PodUnknown = ''Unknown''"

lemma phase_name_inject [simp]: "phase_name p = phase_name q \<longleftrightarrow> p = q"
  by (cases p; cases q) simp_all

datatype ContainerState =
    Running go_time
  | Terminated int32 string string go_time go_time
  | Waiting string string

record ContainerStatus =
  cs_Name :: string
  cs_State :: ContainerState
  cs_Ready :: bool
  cs_Image :: string
  cs_ContainerID :: string

record PodCondition =
  pd_Type :: string
  pd_Status :: string

record PodStatus =
  pt_Phase :: PodPhase
  pt_Conditions :: "PodCondition list"
  pt_Message :: string
  pt_StartTime :: "go_time option"
  pt_ContainerStatuses :: "ContainerStatus list"

definition zero_PodStatus :: PodStatus where
  "zero_PodStatus =
     \<lparr>pt_Phase = PodNone, pt_Conditions = [], pt_Message = [], pt_StartTime = None,
      pt_ContainerStatuses = []\<rparr>"

record Pod =
  pod_Meta :: ObjectMeta
  pod_Spec :: PodSpec
  pod_Status :: PodStatus

abbreviation pod_label :: "Pod \<Rightarrow> string \<Rightarrow> string option" where
  "pod_label p k \<equiv> om_Labels (pod_Meta p) k"

text \<open>A batch job: its object data, the pod it runs and its counts.\<close>

record BatchJob =
  bj_Meta :: ObjectMeta
  bj_Spec :: PodSpec
  bj_BackoffLimit :: int32
  bj_Succeeded :: int32
  bj_Failed :: int32

text \<open>\<^verbatim>\<open>errors.IsNotFound\<close> of apimachinery.\<close>

fun IsNotFound :: "go_error \<Rightarrow> bool" where
  "IsNotFound (Status reason msg) \<longleftrightarrow> reason = ''NotFound''"
| "IsNotFound (Wrap m e) \<longleftrightarrow> IsNotFound e"
| "IsNotFound _ \<longleftrightarrow> False"

section \<open>Label names\<close>

abbreviation LabelSlurmBridgeJobId :: string where
  "LabelSlurmBridgeJobId \<equiv> ''sbo.kubecluster.org/jobid''"
abbreviation LabelLastJobInfo :: string where
  "LabelLastJobInfo \<equiv> ''sbo.kubecluster.org/jobinfo''"
abbreviation LabelAgentEndPoint :: string where
  "LabelAgentEndPoint \<equiv> ''sbo.kubecluster.org/agent-endpoint''"
abbreviation LabelsResourceRequestCpusPerTask :: string where
  "LabelsResourceRequestCpusPerTask \<equiv> ''sbo.kubecluster.org/cpus-per-task''"
abbreviation LabelsResourceRequestNodes :: string where
  "LabelsResourceRequestNodes \<equiv> ''sbo.kubecluster.org/nodes''"
abbreviation LabelsResourceRequestMemPerCpu :: string where
  "LabelsResourceRequestMemPerCpu \<equiv> ''sbo.kubecluster.org/mem-per-cpu''"
abbreviation LabelsResourceRequestNTasksPerNode :: string where
  "LabelsResourceRequestNTasksPerNode \<equiv> ''sbo.kubecluster.org/ntasks-per-node''"
abbreviation LabelsResourceRequestArray :: string where
  "LabelsResourceRequestArray \<equiv> ''sbo.kubecluster.org/array''"
abbreviation LabelsResourceRequestNTasks :: string where
  "LabelsResourceRequestNTasks \<equiv> ''sbo.kubecluster.org/ntask''"
abbreviation LabelsRole :: string where
  "LabelsRole \<equiv> ''sbo.kubecluster.org/role''"

abbreviation RoleSizeCar :: string where "RoleSizeCar \<equiv> ''sizecar''"
abbreviation RoleWorker :: string where "RoleWorker \<equiv> ''worker''"

section \<open>SlurmBridgeJob\<close>

record SlurmBridgeJobSpec =
  sp_Partition :: string
  sp_SbatchScript :: string
  sp_RunAsUser :: "int64 option"
  sp_RunAsGroup :: "int64 option"
  sp_Array :: string
  sp_CpusPerTask :: int64
  sp_Ntasks :: int64
  sp_NtasksPerNode :: int64
  sp_Nodes :: int64
  sp_WorkingDir :: string
  sp_MemPerCpu :: int64
  sp_Gres :: string
  sp_Licenses :: string
  sp_Result :: "string option"

record SlurmSubjobStatus =
  ub_ID :: string
  ub_UserID :: string
  ub_ArrayJobID :: string
  ub_Name :: string
  ub_ExitCode :: string
  ub_State :: string
  ub_SubmitTime :: "go_time option"
  ub_StartTime :: "go_time option"
  ub_RunTime :: string
  ub_TimeLimit :: string
  ub_WorkDir :: string
  ub_StdOut :: string
  ub_StdErr :: string
  ub_Partition :: string
  ub_NodeList :: string
  ub_BatchHost :: string
  ub_NumNodes :: string

record SlurmBridgeJobStatus =
  bs_State :: string
  bs_SubjobStatus :: "(string \<times> SlurmSubjobStatus) list"
  bs_FetchResult :: bool
  bs_FetchResultStatus :: string
  bs_ClusterEndPoint :: string

record SlurmBridgeJob =
  sbj_Meta :: ObjectMeta
  sbj_Spec :: SlurmBridgeJobSpec
  sbj_Status :: SlurmBridgeJobStatus

abbreviation sbj_Name :: "SlurmBridgeJob \<Rightarrow> string" where
  "sbj_Name s \<equiv> om_Name (sbj_Meta s)"
abbreviation sbj_Namespace :: "SlurmBridgeJob \<Rightarrow> string" where
  "sbj_Namespace s \<equiv> om_Namespace (sbj_Meta s)"

text \<open>Validation; \<open>dns_errors\<close> is \<^verbatim>\<open>NameIsDNS1035Label\<close> of apimachinery, with the text of its errors.\<close>

definition validateV1alphaSlurmBridgeJobSpecs :: "SlurmBridgeJobSpec \<Rightarrow> go_error option" where
  "validateV1alphaSlurmBridgeJobSpecs spec =
     (if length (sp_Partition spec) = 0
      then Some (ErrorString ''SlurmBridgeJob is not valid: SlurmBridgeJob partition expected'')
      else if length (sp_SbatchScript spec) = 0
      then Some (ErrorString ''SlurmBridgeJob is not valid: SlurmBridgeJob SbatchScript expected'')
      else None)"

definition ValidateV1alphaSlurmBridgeJob ::
    "(string \<Rightarrow> string option) \<Rightarrow> SlurmBridgeJob \<Rightarrow> go_error option" where
  "ValidateV1alphaSlurmBridgeJob dns_errors sbj =
     (case dns_errors (sbj_Name sbj) of
        Some errs \<Rightarrow> Some (ErrorString (''TFSlurmBridgeJob name is invalid: '' @ errs))
      | None \<Rightarrow> validateV1alphaSlurmBridgeJobSpecs (sbj_Spec sbj))"

text \<open>The resources of a job, the affinity they ask for, and the defaults.\<close>

record JobResources =
  re_Nodes :: int64
  re_Array :: string
  re_CpusPerTask :: int64
  re_Ntasks :: int64
  re_NtasksPerNode :: int64
  re_MemPerCpu :: int64
  re_WallTime :: duration

definition zero_JobResources :: JobResources where
  "zero_JobResources =
     \<lparr>re_Nodes = 0, re_Array = [], re_CpusPerTask = 0, re_Ntasks = 0, re_NtasksPerNode = 0,
      re_MemPerCpu = 0, re_WallTime = 0\<rparr>"

definition AffinityForResources :: "JobResources \<Rightarrow> NodeSelectorRequirement list result" where
  "AffinityForResources r = Inr []"

definition DefaultNodeSelectors :: "(string \<times> string) list" where
  "DefaultNodeSelectors = [(''type'', ''virtual-kubelet'')]"

definition PartitionLabel :: string where
  "PartitionLabel = ''kubecluster.org/partition''"

definition DefaultTolerations :: "Toleration list" where
  "DefaultTolerations =
     [\<lparr>to_Key = ''virtual-kubelet.io/provider'', to_Operator = ''Equal'',
       to_Value = ''slurm-bridge-operator'', to_Effect = ''NoSchedule''\<rparr>]"

section \<open>Scheduling\<close>

text \<open>
  What the scheduler asks of a node (the part of it the repository relies on): every requirement
  of one term holds on the labels, and every taint that repels pods is tolerated.
\<close>

definition requirement_holds :: "(string \<rightharpoonup> string) \<Rightarrow> NodeSelectorRequirement \<Rightarrow> bool" where
  "requirement_holds labels q \<longleftrightarrow>
     nsr_Operator q = ''In'' \<and> (case labels (nsr_Key q) of None \<Rightarrow> False | Some v \<Rightarrow> v \<in> set (nsr_Values q))"

definition affinity_holds :: "(string \<rightharpoonup> string) \<Rightarrow> Affinity \<Rightarrow> bool" where
  "affinity_holds labels a \<longleftrightarrow> list_ex (list_all (requirement_holds labels)) a"

definition tolerated :: "Toleration list \<Rightarrow> Taint \<Rightarrow> bool" where
  "tolerated ts t \<longleftrightarrow>
     list_ex (\<lambda>x. to_Key x = tn_Key t \<and> to_Operator x = ''Equal'' \<and> to_Value x = tn_Value t \<and>
                  to_Effect x = tn_Effect t) ts"

end
