(* ===== verification/OperatorParse.thy ===== *)
theory OperatorParse
  imports KubeTypes SlurmParse
begin

text \<open>
  What the operator reads from the script of a job (\<^verbatim>\<open>pkg/slurm-bridge-operator/parse.go\<close>): the
  \<^verbatim>\<open>#SBATCH\<close> directives that ask for resources, and the length of a job array. The loop over the
  words of a line indexes past the end when a line ends with an option that takes no value: that
  is a panic of the model.
\<close>

section \<open>Operations\<close>

definition applySbatchParam :: "JobResources \<Rightarrow> string \<Rightarrow> string \<Rightarrow> JobResources result" where
  "applySbatchParam res param value =
     (if param = ''--time'' \<or> param = ''-t'' then
        (case ParseDuration value of
           Inl err \<Rightarrow>
             if \<not> errors_Is err ErrDurationIsUnlimited
             then Inl (Wrap ''could not parse time limit'' err) else Inr res
         | Inr duration \<Rightarrow> Inr (res\<lparr>re_WallTime := duration\<rparr>))
      else if param = ''--nodes'' \<or> param = ''-N'' then
        (let i = IndexByte value CHR ''-'';
             value = (if i \<noteq> -1 then take (nat i) value else value)
         in case ParseInt64 value of
              Inl err \<Rightarrow> Inl (Wrap ''could not parse amount of nodes'' err)
            | Inr nodes \<Rightarrow> Inr (res\<lparr>re_Nodes := nodes\<rparr>))
      else if param = ''--mem-per-cpu'' then
        (case ParseInt64 value of
           Inl err \<Rightarrow> Inl (Wrap ''could not parse memory'' err)
         | Inr mem \<Rightarrow> Inr (res\<lparr>re_MemPerCpu := mem\<rparr>))
      else if param = ''--cpus-per-task'' \<or> param = ''-c'' then
        (case ParseInt64 value of
           Inl err \<Rightarrow> Inl (Wrap ''could not parse cpus per node'' err)
         | Inr cpus \<Rightarrow> Inr (res\<lparr>re_CpusPerTask := cpus\<rparr>))
      else if param = ''--ntasks-per-node'' then
        (case ParseInt64 value of
           Inl err \<Rightarrow> Inl (Wrap ''could not parse tasks per node'' err)
         | Inr tasks \<Rightarrow> Inr (res\<lparr>re_NtasksPerNode := tasks\<rparr>))
      else Inr res)"

text \<open>
  The loop over \<^verbatim>\<open>params\<close> from index \<open>j\<close>, on the words that are left; \<open>n\<close> is the length of the whole
  slice. The condition of the code compares \<open>i\<close>, which is -1 there, and not \<open>j\<close> with it.
\<close>

function apply_params :: "nat \<Rightarrow> string list \<Rightarrow> JobResources \<Rightarrow> JobResources outcome" where
  "apply_params n [] res = Value res"
| "apply_params n (param # rest) res =
     (let i = IndexByte param CHR ''='' in
      if i \<noteq> -1 then
        (case applySbatchParam res (take (nat i) param) (drop (nat i + 1) param) of
           Inl err \<Rightarrow> Error err
         | Inr res' \<Rightarrow> apply_params n rest res')
      else if i < int n - 1 then
        (case rest of
           [] \<Rightarrow> Panic IndexOutOfRange
         | value # rest' \<Rightarrow>
             (case applySbatchParam res param value of
                Inl err \<Rightarrow> Error err
              | Inr res' \<Rightarrow> apply_params n rest' res'))
      else
        (case applySbatchParam res param [] of
           Inl err \<Rightarrow> Error err
         | Inr res' \<Rightarrow> apply_params n rest res'))"
  by pat_completeness auto
termination
  by (relation "measure (\<lambda>(n, ps, res). length ps)") auto

fun scan_headers :: "string list \<Rightarrow> JobResources \<Rightarrow> JobResources outcome" where
  "scan_headers [] res = Value res"
| "scan_headers (line # ls) res =
     (if line = [] \<or> HasPrefix line ''#!'' then scan_headers ls res
      else if \<not> HasPrefix line ''#SBATCH'' then Value res
      else
        let params = Fields (TrimPrefix line ''#SBATCH'') in
        case apply_params (length params) params res of
          Value res' \<Rightarrow> scan_headers ls res'
        | Error e \<Rightarrow> Error e
        | Panic p \<Rightarrow> Panic p)"

definition extractBatchResourcesFromScript :: "string \<Rightarrow> JobResources outcome" where
  "extractBatchResourcesFromScript script = scan_headers (scan_lines script) zero_JobResources"

definition parseArrayLen :: "string \<Rightarrow> int64" where
  "parseArrayLen array =
     (if Contains array ''-'' then
        let splits = Split array ''-'';
            startIndex = ParseInt64_value (splits ! 0);
            endIndex = ParseInt64_value (splits ! 1)
        in endIndex - startIndex + 1
      else word_of_int (int (length (Split array '',''))))"

section \<open>Directives\<close>

text \<open>A directive as one word with an equals sign or as two words.\<close>

datatype directive = Assigned string string | Spaced string string

fun directive_words :: "directive \<Rightarrow> string list" where
  "directive_words (Assigned k v) = [k @ CHR ''='' # v]"
| "directive_words (Spaced k v) = [k, v]"

fun directive_ok :: "directive \<Rightarrow> bool" where
  "directive_ok (Assigned k v) \<longleftrightarrow>
     list_all (\<lambda>c. graphic c \<and> c \<noteq> CHR ''='') k \<and> list_all graphic v"
| "directive_ok (Spaced k v) \<longleftrightarrow>
     k \<noteq> [] \<and> v \<noteq> [] \<and> list_all (\<lambda>c. graphic c \<and> c \<noteq> CHR ''='') k \<and> list_all graphic v"

fun apply_directive :: "directive \<Rightarrow> JobResources \<Rightarrow> JobResources result" where
  "apply_directive (Assigned k v) res = applySbatchParam res k v"
| "apply_directive (Spaced k v) res = applySbatchParam res k v"

fun apply_directives :: "directive list \<Rightarrow> JobResources \<Rightarrow> JobResources result" where
  "apply_directives [] res = Inr res"
| "apply_directives (d # ds) res =
     (case apply_directive d res of Inl e \<Rightarrow> Inl e | Inr res' \<Rightarrow> apply_directives ds res')"

definition header_line :: "directive list \<Rightarrow> string" where
  "header_line ds = ''#SBATCH '' @ Join (concat (map directive_words ds)) '' ''"

lemma apply_params_directive:
  assumes "directive_ok d" and "0 < n"
  shows "apply_params n (directive_words d @ ws) res =
    (case apply_directive d res of Inl e \<Rightarrow> Error e | Inr res' \<Rightarrow> apply_params n ws res')"
proof (cases d)
  case (Assigned k v)
  then have "CHR ''='' \<notin> set k" using assms(1) by (auto simp: list_all_iff)
  then show ?thesis using Assigned by (simp add: IndexByte_first)
next
  case (Spaced k v)
  then have "CHR ''='' \<notin> set k" using assms(1) by (auto simp: list_all_iff)
  then show ?thesis using Spaced assms(2) by (simp add: IndexByte_free)
qed

lemma apply_params_directives:
  assumes "list_all directive_ok ds" and "0 < n"
  shows "apply_params n (concat (map directive_words ds) @ ws) res =
    (case apply_directives ds res of Inl e \<Rightarrow> Error e | Inr res' \<Rightarrow> apply_params n ws res')"
  using assms(1)
  by (induction ds arbitrary: res) (auto simp: apply_params_directive assms(2) split: sum.splits)

lemma directive_word_ok:
  "directive_ok d \<Longrightarrow> w \<in> set (directive_words d) \<Longrightarrow> w \<noteq> [] \<and> (\<forall>c \<in> set w. graphic c)"
  by (cases d) (auto simp: list_all_iff)

lemma header_line_prefix:
  "HasPrefix (header_line ds) ''#SBATCH''" "\<not> HasPrefix (header_line ds) ''#!''" "header_line ds \<noteq> []"
  by (simp_all add: header_line_def HasPrefix_def)

lemma header_line_words:
  assumes "list_all directive_ok ds"
  shows "Fields (TrimPrefix (header_line ds) ''#SBATCH'') = concat (map directive_words ds)"
proof -
  have "\<forall>w \<in> set (concat (map directive_words ds)). w \<noteq> [] \<and> (\<forall>c \<in> set w. graphic c)"
    using assms directive_word_ok by (auto simp: list_all_iff)
  then have "Fields (Join (concat (map directive_words ds)) '' '') = concat (map directive_words ds)"
    by (intro Fields_Join) simp_all
  then show ?thesis by (simp add: header_line_def TrimPrefix_def HasPrefix_def Fields_blank)
qed

lemma scan_headers_line:
  assumes "list_all directive_ok ds"
  shows "scan_headers (header_line ds # ls) res =
    (case apply_directives ds res of Inl e \<Rightarrow> Error e | Inr res' \<Rightarrow> scan_headers ls res')"
proof (cases "ds = []")
  case True
  then show ?thesis using header_line_words [OF assms] by (simp add: header_line_prefix)
next
  case False
  then have "0 < length (concat (map directive_words ds))"
    by (cases ds; cases "hd ds") auto
  then show ?thesis
    using apply_params_directives [OF assms, of _ "[]" res] header_line_words [OF assms]
    by (simp add: header_line_prefix split: sum.splits)
qed

text \<open>A text that ends the headers: neither empty, nor a shebang, nor a directive.\<close>

definition body_line :: "string \<Rightarrow> bool" where
  "body_line l \<longleftrightarrow> l \<noteq> [] \<and> \<not> HasPrefix l ''#!'' \<and> \<not> HasPrefix l ''#SBATCH''"

lemma scan_headers_script:
  assumes "\<forall>ds \<in> set dss. list_all directive_ok ds" and "body = [] \<or> body_line (hd body)"
  shows "scan_headers (map header_line dss @ body) res = outcome_of (apply_directives (concat dss) res)"
  using assms(1)
proof (induction dss arbitrary: res)
  case Nil
  then show ?case using assms(2) by (cases body) (auto simp: body_line_def)
next
  case (Cons ds dss)
  have "apply_directives (ds @ concat dss) res =
      (case apply_directives ds res of Inl e \<Rightarrow> Inl e | Inr r \<Rightarrow> apply_directives (concat dss) r)"
    by (induction ds arbitrary: res) (auto split: sum.splits)
  then show ?case using Cons
    by (simp add: scan_headers_line del: scan_headers.simps(2) split: sum.splits)
qed



text \<open>
  An option without a value at the end of a directive line, such as
  \<^verbatim>\<open>#SBATCH --exclusive\<close>, makes the operator index past the end of the line's words: it panics.
\<close>

theorem extractBatchResources_flag_panics:
  assumes "list_all directive_ok ds" and "apply_directives ds zero_JobResources = Inr res"
    and "Fields (TrimPrefix line ''#SBATCH'') = concat (map directive_words ds) @ [flag]"
    and "CHR ''='' \<notin> set flag" and "HasPrefix line ''#SBATCH''"
    and "scan_lines script = line # ls"
  shows "extractBatchResourcesFromScript script = Panic IndexOutOfRange"
proof -
  have "line \<noteq> []" "\<not> HasPrefix line ''#!''" using assms(5) by (auto simp: HasPrefix_def prefix_def)
  moreover have "apply_params n (concat (map directive_words ds) @ [flag]) zero_JobResources =
      Panic IndexOutOfRange" if "0 < n" for n
    using apply_params_directives [OF assms(1) that, of "[flag]" zero_JobResources] assms(2,4) that
    by (simp add: IndexByte_free)
  ultimately show ?thesis
    using assms(3,5,6) by (simp add: extractBatchResourcesFromScript_def)
qed

theorem extractBatchResources_flag_panics_witness:
  "extractBatchResourcesFromScript ''#SBATCH --nodes=2 --exclusive'' = Panic IndexOutOfRange"
  by (rule extractBatchResources_flag_panics
        [of "[Assigned ''--nodes'' ''2'']" "zero_JobResources\<lparr>re_Nodes := 2\<rparr>"
          "''#SBATCH --nodes=2 --exclusive''" "''--exclusive''" _ "[]"]) code_simp+

section \<open>Job arrays\<close>

lemma Contains_char: "Contains s [c] \<longleftrightarrow> c \<in> set s"
  by (auto simp: Contains_def sublist_def in_set_conv_decomp)

lemma ParseInt64_value_FormatInt:
  assumes "in_int64 n"
  shows "ParseInt64_value (FormatInt n) = word_of_int n"
  using ParseInt64_value_FormatInt64 [of "word_of_int n"] assms by (simp del: ParseInt64_value_FormatInt64)

lemma parseArrayLen_range:
  assumes "0 \<le> a" and "a \<le> b" and "b < 2 ^ 62"
  shows "sint (parseArrayLen (FormatInt a @ ''-'' @ FormatInt b)) = b - a + 1"
proof -
  have "in_int64 a" "in_int64 b" "in_int64 (b - a + 1)" using assms by (auto simp: in_int64_def)
  moreover have "Split (FormatInt a @ CHR ''-'' # FormatInt b) ''-'' = [FormatInt a, FormatInt b]"
    using assms by (intro Split_pair FormatInt_no_dash) simp_all
  ultimately have "parseArrayLen (FormatInt a @ ''-'' @ FormatInt b) = word_of_int (b - a + 1)"
    by (simp add: parseArrayLen_def Contains_char ParseInt64_value_FormatInt)
  then show ?thesis using sint_of_int64 [OF \<open>in_int64 (b - a + 1)\<close>] by (simp only:)
qed

lemma parseArrayLen_list:
  assumes "xs \<noteq> []" and "\<forall>x \<in> set xs. CHR ''-'' \<notin> set x \<and> CHR '','' \<notin> set x"
  shows "parseArrayLen (Join xs '','') = word_of_int (int (length xs))"
proof -
  have "CHR ''-'' \<notin> set (Join xs '','')"
    using assms(2) by (induction xs "'',''" rule: Join.induct) auto
  moreover have "Split (Join xs '','') '','' = xs" using assms by (intro Split_Join) auto
  ultimately show ?thesis by (simp add: parseArrayLen_def Contains_char)
qed

text \<open>
  The length of an array given as one range \<^verbatim>\<open>a-b\<close> is \<open>b - a + 1\<close>, and that of a
  comma-separated list of indices is the number of indices.
\<close>

theorem parseArrayLen_correct:
  "(0 \<le> a \<and> a \<le> b \<and> b < 2 ^ 62 \<longrightarrow>
     sint (parseArrayLen (FormatInt a @ ''-'' @ FormatInt b)) = b - a + 1) \<and>
   (xs \<noteq> [] \<and> (\<forall>x \<in> set xs. CHR ''-'' \<notin> set x \<and> CHR '','' \<notin> set x) \<longrightarrow>
     parseArrayLen (Join xs '','') = word_of_int (int (length xs)))"
  using parseArrayLen_range parseArrayLen_list by blast

theorem parseArrayLen_correct_witness:
  "sint (parseArrayLen ''3-10'') = 8 \<and> parseArrayLen ''1,4,9'' = 3"
proof -
  have "FormatInt 3 @ ''-'' @ FormatInt 10 = ''3-10''" by code_simp
  then show ?thesis using parseArrayLen_correct [of 3 10 "[''1'', ''4'', ''9'']"] by simp
qed

text \<open>Ranges with a step or a limit on running tasks, and several ranges, are not understood.\<close>

lemma parseArrayLen_other:
  "parseArrayLen ''1-5%2'' = 0" "parseArrayLen ''0-15:4'' = 1" "parseArrayLen ''1-3,5-7'' = 0"
  by code_simp+

end
