(* ===== verification/OperatorPod.thy ===== *)
theory OperatorPod
  imports OperatorParse
begin

text \<open>
  The objects the operator builds (\<^verbatim>\<open>pkg/slurm-bridge-operator/pod.go\<close>, \<^verbatim>\<open>result.go\<close> and the worker pod
  of \<^verbatim>\<open>slurmbridgejob_controller.go\<close>): the sizecar pod that carries a job to the virtual kubelet, the
  worker pod that mirrors the Slurm jobs, and the batch job that fetches the results.
  \<open>set_owner\<close> stands for \<^verbatim>\<open>controllerutil.SetControllerReference\<close>.
\<close>

section \<open>Resources of a job\<close>

definition setRequireResourceBySpec :: "SlurmBridgeJobSpec \<Rightarrow> JobResources \<Rightarrow> JobResources" where
  "setRequireResourceBySpec spec r0 =
     (let r1 = (if 0 < sint (sp_Nodes spec) then r0\<lparr>re_Nodes := sp_Nodes spec\<rparr> else r0);
          r2 = (if 0 < sint (sp_CpusPerTask spec) then r1\<lparr>re_CpusPerTask := sp_CpusPerTask spec\<rparr> else r1);
          r3 = (if 0 < sint (sp_MemPerCpu spec) then r2\<lparr>re_MemPerCpu := sp_MemPerCpu spec\<rparr> else r2);
          r4 = (if 0 < sint (sp_NtasksPerNode spec)
                then r3\<lparr>re_NtasksPerNode := sp_NtasksPerNode spec\<rparr> else r3);
          r5 = (if 0 < length (sp_Array spec) then r4\<lparr>re_Array := sp_Array spec\<rparr> else r4);
          r6 = (if 0 < sint (sp_Ntasks spec) then r5\<lparr>re_Ntasks := sp_Ntasks spec\<rparr> else r5)
      in r6)"

definition DefaultRequireNodes :: int64 where "DefaultRequireNodes = 1"
definition DefaultRequireCpusPerTask :: int64 where "DefaultRequireCpusPerTask = 1"
definition DefaultRequireMemPerCpu :: int64 where "DefaultRequireMemPerCpu = 1024"

definition setDefaultRequireResource :: "JobResources \<Rightarrow> JobResources" where
  "setDefaultRequireResource r0 =
     (let r1 = (if re_Nodes r0 = 0 then r0\<lparr>re_Nodes := DefaultRequireNodes\<rparr> else r0);
          r2 = (if re_CpusPerTask r1 = 0 then r1\<lparr>re_CpusPerTask := DefaultRequireCpusPerTask\<rparr> else r1);
          r3 = (if re_MemPerCpu r2 = 0 then r2\<lparr>re_MemPerCpu := DefaultRequireMemPerCpu\<rparr> else r2)
      in r3)"

text \<open>
  The quantities are the integers themselves: \<^verbatim>\<open>resource.MustParse\<close> accepts the decimal text of every
  integer.
\<close>

definition cpu_count :: "JobResources \<Rightarrow> int64" where
  "cpu_count r =
     (let cpuCount =
            (if 0 < sint (re_Ntasks r) then re_CpusPerTask r * re_Ntasks r
             else if 0 < sint (re_NtasksPerNode r) \<and> 0 < sint (re_Nodes r)
             then re_CpusPerTask r * re_NtasksPerNode r * re_Nodes r
             else re_CpusPerTask r)
      in if 0 < length (re_Array r) then cpuCount * parseArrayLen (re_Array r) else cpuCount)"

definition genResourceListForPod :: "JobResources \<Rightarrow> ResourceList" where
  "genResourceListForPod r =
     [''cpu'' \<mapsto> cpu_count r, ''memory'' \<mapsto> cpu_count r * re_MemPerCpu r * 1024]"

section \<open>The sizecar pod\<close>

definition v1alpha1_ErrAffinityIsNotRequired :: go_error where
  "v1alpha1_ErrAffinityIsNotRequired = Sentinel ''v1alpha1.ErrAffinityIsNotRequired''"

definition errAffinityIsNotRequired :: go_error where
  "errAffinityIsNotRequired = Sentinel ''slurm_bridge_operator.errAffinityIsNotRequired''"

definition affinityForSj :: "SlurmBridgeJob \<Rightarrow> JobResources \<Rightarrow> Affinity result" where
  "affinityForSj sjb requiredResources =
     (case AffinityForResources requiredResources of
        Inl err \<Rightarrow> Inl err
      | Inr m0 \<Rightarrow>
          (let m1 = m0 @ map (\<lambda>(key, value).
                      \<lparr>nsr_Key = key, nsr_Operator = ''In'', nsr_Values = [value]\<rparr>) DefaultNodeSelectors;
               nodeMatch = m1 @ [\<lparr>nsr_Key = PartitionLabel, nsr_Operator = ''In'',
                                  nsr_Values = [sp_Partition (sbj_Spec sjb)]\<rparr>]
           in if length nodeMatch = 0 then Inl v1alpha1_ErrAffinityIsNotRequired
              else Inr [nodeMatch]))"

definition int_label :: "string \<Rightarrow> int64 \<Rightarrow> (string \<rightharpoonup> string) \<Rightarrow> (string \<rightharpoonup> string)" where
  "int_label k v labels = (if 0 < sint v then labels(k \<mapsto> FormatInt64 v) else labels)"

definition getResourceRequestLabelsForPod :: "SlurmBridgeJobSpec \<Rightarrow> (string \<rightharpoonup> string)" where
  "getResourceRequestLabelsForPod spec =
     (let l0 = Map.empty;
          l1 = int_label LabelsResourceRequestNodes (sp_Nodes spec) l0;
          l2 = int_label LabelsResourceRequestCpusPerTask (sp_CpusPerTask spec) l1;
          l3 = int_label LabelsResourceRequestMemPerCpu (sp_MemPerCpu spec) l2;
          l4 = int_label LabelsResourceRequestNTasksPerNode (sp_NtasksPerNode spec) l3;
          l5 = (if 0 < length (sp_Array spec) then l4(LabelsResourceRequestArray \<mapsto> sp_Array spec) else l4);
          l6 = int_label LabelsResourceRequestNTasks (sp_Ntasks spec) l5
      in l6)"

definition genPodNameByPodRole :: "SlurmBridgeJob \<Rightarrow> string \<Rightarrow> string" where
  "genPodNameByPodRole sbj podRole = sbj_Name sbj @ ''-'' @ podRole"

definition sizecar_container :: "SlurmBridgeJob \<Rightarrow> ResourceList \<Rightarrow> Container" where
  "sizecar_container sjb resourceList =
     \<lparr>c_Name = sbj_Name sjb, c_Image = ''useless-image'',
      c_Command = [sp_SbatchScript (sbj_Spec sjb)], c_Requests = resourceList,
      c_Limits = resourceList,
      c_SecurityContext = Some \<lparr>sx_RunAsUser = sp_RunAsUser (sbj_Spec sjb), sx_RunAsGroup = None\<rparr>,
      c_WorkingDir = sp_WorkingDir (sbj_Spec sjb), c_VolumeMounts = []\<rparr>"

definition sizecar_pod ::
    "(SlurmBridgeJob \<Rightarrow> ObjectMeta \<Rightarrow> ObjectMeta result) \<Rightarrow> SlurmBridgeJob \<Rightarrow> ResourceList \<Rightarrow>
     Affinity option \<Rightarrow> Pod result" where
  "sizecar_pod set_owner sjb resourceList affinity =
     (let labels = (getResourceRequestLabelsForPod (sbj_Spec sjb))(LabelsRole \<mapsto> RoleSizeCar);
          meta = new_meta (genPodNameByPodRole sjb RoleSizeCar) (sbj_Namespace sjb) labels;
          spec = \<lparr>ps_NodeName = [], ps_Affinity = affinity,
                  ps_SecurityContext = Some \<lparr>sx_RunAsUser = sp_RunAsUser (sbj_Spec sjb),
                                             sx_RunAsGroup = sp_RunAsGroup (sbj_Spec sjb)\<rparr>,
                  ps_Tolerations = DefaultTolerations,
                  ps_Containers = [sizecar_container sjb resourceList],
                  ps_RestartPolicy = ''Never'', ps_Volumes = []\<rparr>
      in case set_owner sjb meta of
           Inl err \<Rightarrow> Inl err
         | Inr meta' \<Rightarrow> Inr \<lparr>pod_Meta = meta', pod_Spec = spec, pod_Status = zero_PodStatus\<rparr>)"

definition newSizeCarPodForSJ ::
    "(SlurmBridgeJob \<Rightarrow> ObjectMeta \<Rightarrow> ObjectMeta result) \<Rightarrow> SlurmBridgeJob \<Rightarrow> Pod outcome" where
  "newSizeCarPodForSJ set_owner sjb =
     (case extractBatchResourcesFromScript (sp_SbatchScript (sbj_Spec sjb)) of
        Panic p \<Rightarrow> Panic p
      | Error err \<Rightarrow> Error (Wrap ''could not extract required resources'' err)
      | Value r0 \<Rightarrow>
          (let requiredResources = setDefaultRequireResource (setRequireResourceBySpec (sbj_Spec sjb) r0);
               resourceList = genResourceListForPod requiredResources;
               aff = affinityForSj sjb requiredResources
           in
             case aff of
               Inl err \<Rightarrow>
                 if \<not> errors_Is err errAffinityIsNotRequired
                 then Error (Wrap ''could not form slurm-agent job pod affinity'' err)
                 else outcome_of (sizecar_pod set_owner sjb resourceList None)
             | Inr affinity \<Rightarrow> outcome_of (sizecar_pod set_owner sjb resourceList (Some affinity))))"

section \<open>The worker pod\<close>

definition getWorkerPodContainerSecurityContext :: "JobInfo \<Rightarrow> SecurityContext" where
  "getWorkerPodContainerSecurityContext info =
     \<lparr>sx_RunAsUser = Some (ParseInt64_value (GetUserId (Some info))), sx_RunAsGroup = None\<rparr>"

definition worker_container :: "JobInfo \<Rightarrow> Container" where
  "worker_container jobInfo =
     (new_container (ji_Id jobInfo) ''useless-image'')
       \<lparr>c_SecurityContext := Some (getWorkerPodContainerSecurityContext jobInfo),
        c_WorkingDir := ji_WorkingDir jobInfo\<rparr>"

definition newWorkerPodForSJ ::
    "(SlurmBridgeJob \<Rightarrow> ObjectMeta \<Rightarrow> ObjectMeta result) \<Rightarrow> Pod \<Rightarrow> SlurmBridgeJob \<Rightarrow>
     JobInfoResponse \<Rightarrow> Pod result" where
  "newWorkerPodForSJ set_owner sizecarPod sjb info =
     (let labels = (om_Labels (pod_Meta sizecarPod))(LabelsRole \<mapsto> RoleWorker);
          meta = new_meta (genPodNameByPodRole sjb RoleWorker) (sbj_Namespace sjb) labels;
          spec = \<lparr>ps_NodeName = ps_NodeName (pod_Spec sizecarPod), ps_Affinity = None,
                  ps_SecurityContext = Some \<lparr>sx_RunAsUser = sp_RunAsUser (sbj_Spec sjb),
                                             sx_RunAsGroup = sp_RunAsGroup (sbj_Spec sjb)\<rparr>,
                  ps_Tolerations = DefaultTolerations,
                  ps_Containers = map worker_container (jr_Info info),
                  ps_RestartPolicy = ''Never'', ps_Volumes = []\<rparr>
      in case set_owner sjb meta of
           Inl err \<Rightarrow> Inl err
         | Inr meta' \<Rightarrow> Inr \<lparr>pod_Meta = meta', pod_Spec = spec, pod_Status = zero_PodStatus\<rparr>)"

section \<open>The result fetcher\<close>

definition result_container :: "SlurmBridgeJob \<Rightarrow> string \<Rightarrow> SlurmSubjobStatus \<Rightarrow> Container" where
  "result_container sjb volume jobStatus =
     (new_container (ub_Name jobStatus @ ''-'' @ ub_ID jobStatus)
        ''docker.io/chriskery/result-fetcher:latest'')
       \<lparr>c_Command := [''sh'', ''-c'',
          ''/result-fetcher --from '' @ ub_StdOut jobStatus @ '' --to '' @
          (''/result'' @ ''/'' @ sbj_Name sjb) @ '' --endpoint '' @
          bs_ClusterEndPoint (sbj_Status sjb) @ '' ''],
        c_VolumeMounts := [\<lparr>vm_Name = volume, vm_ReadOnly = False, vm_MountPath = ''/result''\<rparr>]\<rparr>"

text \<open>A job without a result specification has no volume to name: the nil pointer is dereferenced.\<close>

definition getJobResultContainers :: "SlurmBridgeJob \<Rightarrow> Container list outcome" where
  "getJobResultContainers sjb =
     (case bs_SubjobStatus (sbj_Status sjb) of
        [] \<Rightarrow> Value []
      | subs \<Rightarrow>
          (case sp_Result (sbj_Spec sjb) of
             None \<Rightarrow> Panic NilDereference
           | Some volume \<Rightarrow> Value (map (result_container sjb volume \<circ> snd) subs)))"

definition newJobForSJResult :: "SlurmBridgeJob \<Rightarrow> BatchJob outcome" where
  "newJobForSJResult sjb =
     (case getJobResultContainers sjb of
        Panic p \<Rightarrow> Panic p
      | Error e \<Rightarrow> Error e
      | Value containers \<Rightarrow>
          (case sp_Result (sbj_Spec sjb) of
             None \<Rightarrow> Panic NilDereference
           | Some volume \<Rightarrow>
               Value \<lparr>bj_Meta =
                        (new_meta (sbj_Name sjb @ ''-result-fetcher'') (sbj_Namespace sjb) Map.empty)
                          \<lparr>om_OwnerReferences :=
                             [\<lparr>or_APIVersion = ''kubecluster.org/v1alpha1'', or_Kind = ''SlurmBridgeJob'',
                               or_Name = sbj_Name sjb, or_UID = om_UID (sbj_Meta sjb)\<rparr>]\<rparr>,
                      bj_Spec = \<lparr>ps_NodeName = [], ps_Affinity = None, ps_SecurityContext = None,
                                 ps_Tolerations = [], ps_Containers = containers,
                                 ps_RestartPolicy = ''Never'', ps_Volumes = [volume]\<rparr>,
                      bj_BackoffLimit = 0, bj_Succeeded = 0, bj_Failed = 0\<rparr>))"

definition isFinishedFetchResult :: "string \<Rightarrow> bool" where
  "isFinishedFetchResult status \<longleftrightarrow>
     status = phase_name PodFailed \<or> status = phase_name PodSucceeded"

section \<open>What a pod asks for\<close>

text \<open>The number of processors of a job as an integer, without wrap-around.\<close>

definition job_tasks :: "JobResources \<Rightarrow> int" where
  "job_tasks r =
     (if 0 < sint (re_Ntasks r) then sint (re_Ntasks r)
      else if 0 < sint (re_NtasksPerNode r) \<and> 0 < sint (re_Nodes r)
      then sint (re_NtasksPerNode r) * sint (re_Nodes r)
      else 1)"

definition job_cpus :: "JobResources \<Rightarrow> int" where
  "job_cpus r =
     sint (re_CpusPerTask r) * job_tasks r *
     (if re_Array r = [] then 1 else sint (parseArrayLen (re_Array r)))"

lemma word_of_sint [simp]: "word_of_int (sint (w :: int64)) = w"
  by simp

lemma cpu_count_eq: "cpu_count r = word_of_int (job_cpus r)"
  by (simp add: cpu_count_def job_cpus_def job_tasks_def mult.assoc)

definition required_resources :: "SlurmBridgeJobSpec \<Rightarrow> JobResources \<Rightarrow> JobResources" where
  "required_resources spec r0 = setDefaultRequireResource (setRequireResourceBySpec spec r0)"

definition first_of :: "int64 \<Rightarrow> int64 \<Rightarrow> int64 \<Rightarrow> int64" where
  "first_of spec script dflt = (if 0 < sint spec then spec else if script \<noteq> 0 then script else dflt)"

lemma sint_pos_neq_0: "0 < sint (w :: int64) \<Longrightarrow> w \<noteq> 0"
  by auto

lemma setRequireResourceBySpec_fields:
  "re_Nodes (setRequireResourceBySpec spec r) = (if 0 < sint (sp_Nodes spec) then sp_Nodes spec else re_Nodes r)"
  "re_CpusPerTask (setRequireResourceBySpec spec r) =
     (if 0 < sint (sp_CpusPerTask spec) then sp_CpusPerTask spec else re_CpusPerTask r)"
  "re_MemPerCpu (setRequireResourceBySpec spec r) =
     (if 0 < sint (sp_MemPerCpu spec) then sp_MemPerCpu spec else re_MemPerCpu r)"
  "re_NtasksPerNode (setRequireResourceBySpec spec r) =
     (if 0 < sint (sp_NtasksPerNode spec) then sp_NtasksPerNode spec else re_NtasksPerNode r)"
  "re_Ntasks (setRequireResourceBySpec spec r) =
     (if 0 < sint (sp_Ntasks spec) then sp_Ntasks spec else re_Ntasks r)"
  "re_Array (setRequireResourceBySpec spec r) = (if sp_Array spec \<noteq> [] then sp_Array spec else re_Array r)"
  by (simp_all add: setRequireResourceBySpec_def Let_def)


definition sample_spec :: SlurmBridgeJobSpec where
  "sample_spec =
     \<lparr>sp_Partition = ''debug'', sp_SbatchScript = ''#!/bin/sh'', sp_RunAsUser = Some 1000,
      sp_RunAsGroup = Some 1000, sp_Array = ''1-3'', sp_CpusPerTask = 2, sp_Ntasks = 4,
      sp_NtasksPerNode = 0, sp_Nodes = 0, sp_WorkingDir = ''/home'', sp_MemPerCpu = 0,
      sp_Gres = [], sp_Licenses = [], sp_Result = None\<rparr>"


end
