(* ===== verification/Operator.thy ===== *)
theory Operator
  imports OperatorPod
begin

text \<open>
  The reconciler of \<^verbatim>\<open>SlurmBridgeJob\<close> (\<^verbatim>\<open>pkg/slurm-bridge-operator/slurmbridgejob_controller.go\<close>). The
  Kubernetes API, the event recorder and the third-party conversions are a record of functions over
  a state \<open>'w\<close> of the cluster; reading it may see changes made by others, so reads return a state too.
  The job the reconciler works on is a copy that is passed on and returned updated.
\<close>

section \<open>The cluster\<close>

record 'w kube =
  kb_get_sbj :: "string \<Rightarrow> string \<Rightarrow> 'w \<Rightarrow> SlurmBridgeJob result \<times> 'w"
  kb_get_pod :: "string \<Rightarrow> string \<Rightarrow> 'w \<Rightarrow> Pod result \<times> 'w"
  kb_get_job :: "string \<Rightarrow> string \<Rightarrow> 'w \<Rightarrow> BatchJob result \<times> 'w"
  kb_create_pod :: "Pod \<Rightarrow> 'w \<Rightarrow> Pod result \<times> 'w"
  kb_create_job :: "BatchJob \<Rightarrow> 'w \<Rightarrow> BatchJob result \<times> 'w"
  kb_update_status :: "SlurmBridgeJob \<Rightarrow> 'w \<Rightarrow> go_error option \<times> 'w"
  kb_event :: "string \<Rightarrow> string \<Rightarrow> string \<Rightarrow> 'w \<Rightarrow> 'w"
  kb_set_owner :: "SlurmBridgeJob \<Rightarrow> ObjectMeta \<Rightarrow> ObjectMeta result"
  kb_dns_errors :: "string \<Rightarrow> string option"
  kb_Unmarshal :: "string \<Rightarrow> JobInfoResponse result"
  kb_AsTime :: "Timestamp option \<Rightarrow> go_time"
  kb_Duration_String :: "Duration option \<Rightarrow> string"

text \<open>\<^verbatim>\<open>client.IgnoreNotFound\<close>.\<close>

definition IgnoreNotFound :: "go_error \<Rightarrow> go_error option" where
  "IgnoreNotFound e = (if IsNotFound e then None else Some e)"

record ctrl_Result =
  cr_Requeue :: bool
  cr_RequeueAfter :: duration

definition no_requeue :: ctrl_Result where
  "no_requeue = \<lparr>cr_Requeue = False, cr_RequeueAfter = 0\<rparr>"

definition NewReason :: "string \<Rightarrow> string \<Rightarrow> string" where
  "NewReason kind reason = kind @ reason"

text \<open>The two event types and the events of the job.\<close>

definition Eventf :: "'w kube \<Rightarrow> string \<Rightarrow> string \<Rightarrow> string \<Rightarrow> 'w \<Rightarrow> 'w" where
  "Eventf k etype reason msg w = kb_event k etype (NewReason ''SlurmBridgeJob'' reason) msg w"

section \<open>Status of the job\<close>

definition isSBJFinished :: "SlurmBridgeJob \<Rightarrow> bool" where
  "isSBJFinished sjb \<longleftrightarrow>
     \<not> (bs_State (sbj_Status sjb) = phase_name PodSucceeded \<or>
        bs_State (sbj_Status sjb) = phase_name PodFailed)"

abbreviation set_status :: "SlurmBridgeJob \<Rightarrow> SlurmBridgeJobStatus \<Rightarrow> SlurmBridgeJob" where
  "set_status sjb st \<equiv> sjb\<lparr>sbj_Status := st\<rparr>"

definition subjob_status :: "'w kube \<Rightarrow> JobInfo \<Rightarrow> SlurmSubjobStatus" where
  "subjob_status k jobInfo =
     \<lparr>ub_ID = ji_Id jobInfo, ub_UserID = ji_UserId jobInfo, ub_ArrayJobID = ji_ArrayId jobInfo,
      ub_Name = ji_Name jobInfo, ub_ExitCode = ji_ExitCode jobInfo,
      ub_State = JobStatus_name (ji_Status jobInfo),
      ub_SubmitTime = Some (kb_AsTime k (ji_SubmitTime jobInfo)),
      ub_StartTime = Some (kb_AsTime k (ji_StartTime jobInfo)),
      ub_RunTime = kb_Duration_String k (ji_RunTime jobInfo),
      ub_TimeLimit = kb_Duration_String k (ji_TimeLimit jobInfo),
      ub_WorkDir = ji_WorkingDir jobInfo, ub_StdOut = ji_StdErr jobInfo,
      ub_StdErr = ji_StdOut jobInfo, ub_Partition = ji_Partition jobInfo,
      ub_NodeList = ji_NodeList jobInfo, ub_BatchHost = ji_BatchHost jobInfo,
      ub_NumNodes = ji_NumNodes jobInfo\<rparr>"

definition UpdateSBJStatus ::
    "'w kube \<Rightarrow> SlurmBridgeJob \<Rightarrow> Pod option \<Rightarrow> 'w \<Rightarrow> unit outcome \<times> SlurmBridgeJob \<times> 'w" where
  "UpdateSBJStatus k sjb pod0 w =
     (case pod0 of
        None \<Rightarrow> (Panic NilDereference, sjb, w)
      | Some pod \<Rightarrow>
          (let st = sbj_Status sjb;
               phase = phase_name (pt_Phase (pod_Status pod));
               changed = bs_State st \<noteq> phase;
               w1 = (if changed
                     then Eventf k ''Normal'' ''StatusChanged'' (''SlurmBridgeJob status change to '' @ phase) w
                     else w);
               st1 = (if changed then st\<lparr>bs_State := phase\<rparr> else st);
               st2 = (case om_Annotations (pod_Meta pod) LabelAgentEndPoint of
                        None \<Rightarrow> st1
                      | Some endpoint \<Rightarrow> st1\<lparr>bs_ClusterEndPoint := endpoint\<rparr>)
           in
             if pt_Message (pod_Status pod) = [] then (Value (), set_status sjb st2, w1)
             else
               case kb_Unmarshal k (pt_Message (pod_Status pod)) of
                 Inl err \<Rightarrow> (Error err, set_status sjb st2, w1)
               | Inr info \<Rightarrow>
                   (Value (),
                    set_status sjb
                      (st2\<lparr>bs_SubjobStatus :=
                         fold (\<lambda>jobInfo m. AList.update (ji_Id jobInfo) (subjob_status k jobInfo) m)
                           (jr_Info info) (bs_SubjobStatus st2)\<rparr>),
                    w1)))"

section \<open>Reconciling\<close>

definition ReconcileSizeCarPods ::
    "'w kube \<Rightarrow> SlurmBridgeJob \<Rightarrow> 'w \<Rightarrow> Pod option outcome \<times> SlurmBridgeJob \<times> 'w" where
  "ReconcileSizeCarPods k sjb w =
     (if length (bs_SubjobStatus (sbj_Status sjb)) \<noteq> 0 then
        (Value None,
         set_status sjb ((sbj_Status sjb)\<lparr>bs_State := phase_name PodFailed\<rparr>),
         Eventf k ''Warning'' ''Failed''
           ''SlurmBridgeJob status change to failed, because pod not found but sub job status not empty'' w)
      else
        case newSizeCarPodForSJ (kb_set_owner k) sjb of
          Panic p \<Rightarrow> (Panic p, sjb, w)
        | Error err \<Rightarrow> (Error err, sjb, w)
        | Value sjPod \<Rightarrow>
            (case kb_create_pod k sjPod w of
               (Inl err, w') \<Rightarrow> (Error err, sjb, w')
             | (Inr sjPod', w') \<Rightarrow> (Value (Some sjPod'), sjb, w')))"

definition waiting_event :: "'w kube \<Rightarrow> 'w \<Rightarrow> 'w" where
  "waiting_event k w = Eventf k ''Normal'' ''FetchRunning'' ''Waiting size car pod to be submitted'' w"

definition ReconcileWorkerPods ::
    "'w kube \<Rightarrow> Pod option \<Rightarrow> SlurmBridgeJob \<Rightarrow> 'w \<Rightarrow> unit outcome \<times> 'w" where
  "ReconcileWorkerPods k sizecar sjb w =
     (case sizecar of
        None \<Rightarrow> (Panic NilDereference, w)
      | Some sizecarPod \<Rightarrow>
          (case pod_label sizecarPod LabelSlurmBridgeJobId of
             None \<Rightarrow> (Value (), waiting_event k w)
           | Some _ \<Rightarrow>
               (case kb_Unmarshal k (pt_Message (pod_Status sizecarPod)) of
                  Inl err \<Rightarrow> (Error err, w)
                | Inr info \<Rightarrow>
                    if length (jr_Info info) = 0 then (Value (), waiting_event k w)
                    else
                      case newWorkerPodForSJ (kb_set_owner k) sizecarPod sjb info of
                        Inl err \<Rightarrow> (Error err, w)
                      | Inr sjPod \<Rightarrow>
                          (case kb_create_pod k sjPod w of
                             (Inl err, w') \<Rightarrow> (Error err, w')
                           | (Inr _, w') \<Rightarrow> (Value (), w')))))"

definition reconcile_worker ::
    "'w kube \<Rightarrow> Pod option \<Rightarrow> SlurmBridgeJob \<Rightarrow> 'w \<Rightarrow> unit outcome \<times> SlurmBridgeJob \<times> 'w" where
  "reconcile_worker k sizecar sjb w =
     (case kb_get_pod k (sbj_Namespace sjb) (genPodNameByPodRole sjb RoleWorker) w of
        (Inr _, w') \<Rightarrow> (Value (), sjb, w')
      | (Inl err, w') \<Rightarrow>
          if \<not> IsNotFound err then (Error err, sjb, w')
          else case ReconcileWorkerPods k sizecar sjb w' of (r, w'') \<Rightarrow> (r, sjb, w''))"

text \<open>The sizecar pod, found or created.\<close>

definition find_sizecar ::
    "'w kube \<Rightarrow> SlurmBridgeJob \<Rightarrow> 'w \<Rightarrow> Pod option outcome \<times> SlurmBridgeJob \<times> 'w" where
  "find_sizecar k sjb w =
     (case kb_get_pod k (sbj_Namespace sjb) (genPodNameByPodRole sjb RoleSizeCar) w of
        (Inr pod, w1) \<Rightarrow> (Value (Some pod), sjb, w1)
      | (Inl err, w1) \<Rightarrow>
          if \<not> IsNotFound err then (Error err, sjb, w1) else ReconcileSizeCarPods k sjb w1)"

definition ReconcileSlurmBridgeJob ::
    "'w kube \<Rightarrow> SlurmBridgeJob \<Rightarrow> 'w \<Rightarrow> unit outcome \<times> SlurmBridgeJob \<times> 'w" where
  "ReconcileSlurmBridgeJob k sjb w =
     (case find_sizecar k sjb w of
        (Panic p, sjb1, w2) \<Rightarrow> (Panic p, sjb1, w2)
      | (Error err, sjb1, w2) \<Rightarrow> (Error err, sjb1, w2)
      | (Value pod, sjb1, w2) \<Rightarrow>
          (case UpdateSBJStatus k sjb1 pod w2 of
             (Panic p, sjb2, w3) \<Rightarrow> (Panic p, sjb2, w3)
           | (Error err, sjb2, w3) \<Rightarrow> (Error err, sjb2, w3)
           | (Value _, sjb2, w3) \<Rightarrow> reconcile_worker k pod sjb2 w3))"

text \<open>The state of the fetcher, once its job exists.\<close>

definition fetch_status :: "'w kube \<Rightarrow> BatchJob \<Rightarrow> SlurmBridgeJob \<Rightarrow> 'w \<Rightarrow> SlurmBridgeJob \<times> 'w" where
  "fetch_status k job sjb w =
     (let (phase, reason, shown) =
            (if 0 < sint (bj_Succeeded job) then (PodSucceeded, ''FetchSucceeded'', ''FetchSucceeded'')
             else if 0 < sint (bj_Failed job) then (PodFailed, ''FetchFailed'', ''Failed'')
             else (PodRunning, ''FetchRunning'', ''FetchRunning''))
      in (set_status sjb ((sbj_Status sjb)\<lparr>bs_FetchResultStatus := phase_name phase\<rparr>),
          Eventf k ''Normal'' reason (''SlurmBridgeJob fetch result status change to '' @ shown) w))"

definition zero_BatchJob :: BatchJob where
  "zero_BatchJob =
     \<lparr>bj_Meta = new_meta [] [] Map.empty,
      bj_Spec = \<lparr>ps_NodeName = [], ps_Affinity = None, ps_SecurityContext = None,
                 ps_Tolerations = [], ps_Containers = [], ps_RestartPolicy = [], ps_Volumes = []\<rparr>,
      bj_BackoffLimit = 0, bj_Succeeded = 0, bj_Failed = 0\<rparr>"

definition ReconcileSlurmBridgeJobResult ::
    "'w kube \<Rightarrow> SlurmBridgeJob \<Rightarrow> 'w \<Rightarrow> unit outcome \<times> SlurmBridgeJob \<times> 'w" where
  "ReconcileSlurmBridgeJobResult k sjb w =
     (if length (bs_SubjobStatus (sbj_Status sjb)) = 0 then
        (Value (), sjb,
         Eventf k ''Warning'' ''FailedValidation''
           ''SlurmBridgeJob had not sub jobs found, skip fetch result'' w)
      else
        case kb_get_job k (sbj_Namespace sjb) (sbj_Name sjb @ ''-result-fetcher'') w of
          (Inr job, w1) \<Rightarrow> (case fetch_status k job sjb w1 of (sjb', w') \<Rightarrow> (Value (), sjb', w'))
        | (Inl err, w1) \<Rightarrow>
            if \<not> IsNotFound err then (Error err, sjb, w1)
            else if bs_FetchResult (sbj_Status sjb) then (Value (), sjb, w1)
            else
              case newJobForSJResult sjb of
                Panic p \<Rightarrow> (Panic p, sjb, w1)
              | Error e \<Rightarrow> (Error e, sjb, w1)
              | Value job \<Rightarrow>
                  (case kb_create_job k job w1 of
                     (Inl e, w2) \<Rightarrow> (Error e, sjb, w2)
                   | (Inr _, w2) \<Rightarrow>
                       (let w3 = Eventf k ''Normal'' ''Created'' ''SlurmBridgeJob begin to fetch result'' w2;
                            sjb1 = set_status sjb ((sbj_Status sjb)\<lparr>bs_FetchResult := True\<rparr>)
                        in case fetch_status k zero_BatchJob sjb1 w3 of
                             (sjb', w') \<Rightarrow> (Value (), sjb', w'))))"

text \<open>
  \<^verbatim>\<open>reflect.DeepEqual(*oldStatus, &sjb.Status)\<close> compares a struct with a pointer to one: values of
  different types are never deeply equal.
\<close>

definition DeepEqual_status :: "SlurmBridgeJobStatus \<Rightarrow> SlurmBridgeJobStatus \<Rightarrow> bool" where
  "DeepEqual_status oldStatus ptr = False"

definition update_status ::
    "'w kube \<Rightarrow> SlurmBridgeJobStatus \<Rightarrow> SlurmBridgeJob \<Rightarrow> 'w \<Rightarrow> (ctrl_Result \<times> go_error option) outcome \<times> 'w" where
  "update_status k oldStatus sjb w =
     (if \<not> DeepEqual_status oldStatus (sbj_Status sjb)
      then case kb_update_status k sjb w of (_, w') \<Rightarrow> (Value (no_requeue, None), w')
      else (Value (no_requeue, None), w))"

text \<open>The text of an error of the validation, which only makes plain errors.\<close>

definition validation_text :: "go_error \<Rightarrow> string" where
  "validation_text err = (case err of ErrorString m \<Rightarrow> m | _ \<Rightarrow> [])"

definition Reconcile ::
    "'w kube \<Rightarrow> string \<Rightarrow> string \<Rightarrow> 'w \<Rightarrow> (ctrl_Result \<times> go_error option) outcome \<times> 'w" where
  "Reconcile k ns name w =
     (case kb_get_sbj k ns name w of
        (Inl err, w1) \<Rightarrow> (Value (no_requeue, IgnoreNotFound err), w1)
      | (Inr sjb, w1) \<Rightarrow>
          (case ValidateV1alphaSlurmBridgeJob (kb_dns_errors k) sjb of
             Some err \<Rightarrow>
               (Value (no_requeue, Some err),
                Eventf k ''Warning'' ''FailedValidation''
                  (''SlurmBridgeJob failed validation because '' @ validation_text err) w1)
           | None \<Rightarrow>
               if om_DeletionTimestamp (sbj_Meta sjb) \<noteq> None then (Value (no_requeue, None), w1)
               else
                 (let needReconcile = isSBJFinished sjb;
                      oldStatus = sbj_Status sjb
                  in
                    if \<not> needReconcile \<and> sp_Result (sbj_Spec sjb) = None
                    then (Value (no_requeue, None), w1)
                    else if \<not> needReconcile then
                      (if bs_FetchResult (sbj_Status sjb) \<and>
                          isFinishedFetchResult (bs_FetchResultStatus (sbj_Status sjb))
                       then (Value (no_requeue, None), w1)
                       else
                         case ReconcileSlurmBridgeJobResult k sjb w1 of
                           (Panic p, _, w2) \<Rightarrow> (Panic p, w2)
                         | (Error err, _, w2) \<Rightarrow>
                             (Value (\<lparr>cr_Requeue = True, cr_RequeueAfter = Second * 30\<rparr>, Some err), w2)
                         | (Value _, sjb', w2) \<Rightarrow> update_status k oldStatus sjb' w2)
                    else
                      (case ReconcileSlurmBridgeJob k sjb w1 of
                         (Panic p, _, w2) \<Rightarrow> (Panic p, w2)
                       | (Error err, _, w2) \<Rightarrow> (Value (no_requeue, Some err), w2)
                       | (Value _, sjb', w2) \<Rightarrow> update_status k oldStatus sjb' w2))))"

text \<open>The predicate of the watch on new jobs, which marks a job without a state as submitting.\<close>

definition onOwnerCreateFunc :: "SlurmBridgeJob \<Rightarrow> bool \<times> SlurmBridgeJob" where
  "onOwnerCreateFunc sbj =
     (True,
      if length (bs_State (sbj_Status sbj)) = 0
      then set_status sbj ((sbj_Status sbj)\<lparr>bs_State := ''SUBMITTING''\<rparr>) else sbj)"

section \<open>The calls of a reconciliation\<close>

text \<open>
  The same cluster with a log of the calls that change it. What a reconciliation does to any cluster
  is read off the log.
\<close>

datatype api_call = CreatePod Pod | CreateJob BatchJob | UpdateStatus SlurmBridgeJob

definition logging_read :: "('w \<Rightarrow> 'a \<times> 'w) \<Rightarrow> 'w \<times> api_call list \<Rightarrow> 'a \<times> 'w \<times> api_call list" where
  "logging_read f wl = (case f (fst wl) of (r, w') \<Rightarrow> (r, w', snd wl))"

definition logging_call ::
    "api_call \<Rightarrow> ('w \<Rightarrow> 'a \<times> 'w) \<Rightarrow> 'w \<times> api_call list \<Rightarrow> 'a \<times> 'w \<times> api_call list" where
  "logging_call c f wl = (case f (fst wl) of (r, w') \<Rightarrow> (r, w', snd wl @ [c]))"

definition logged :: "'w kube \<Rightarrow> ('w \<times> api_call list) kube" where
  "logged k =
     \<lparr>kb_get_sbj = (\<lambda>ns n. logging_read (kb_get_sbj k ns n)),
      kb_get_pod = (\<lambda>ns n. logging_read (kb_get_pod k ns n)),
      kb_get_job = (\<lambda>ns n. logging_read (kb_get_job k ns n)),
      kb_create_pod = (\<lambda>p. logging_call (CreatePod p) (kb_create_pod k p)),
      kb_create_job = (\<lambda>j. logging_call (CreateJob j) (kb_create_job k j)),
      kb_update_status = (\<lambda>s. logging_call (UpdateStatus s) (kb_update_status k s)),
      kb_event = (\<lambda>t r m wl. (kb_event k t r m (fst wl), snd wl)),
      kb_set_owner = kb_set_owner k, kb_dns_errors = kb_dns_errors k,
      kb_Unmarshal = kb_Unmarshal k, kb_AsTime = kb_AsTime k,
      kb_Duration_String = kb_Duration_String k\<rparr>"

definition reconcile_calls :: "'w kube \<Rightarrow> string \<Rightarrow> string \<Rightarrow> 'w \<Rightarrow> api_call list" where
  "reconcile_calls k ns name w = snd (snd (Reconcile (logged k) ns name (w, [])))"

lemma logged_simps [simp]:
  "kb_get_sbj (logged k) ns n wl = (case kb_get_sbj k ns n (fst wl) of (r, w') \<Rightarrow> (r, w', snd wl))"
  "kb_get_pod (logged k) ns n wl = (case kb_get_pod k ns n (fst wl) of (r, w') \<Rightarrow> (r, w', snd wl))"
  "kb_get_job (logged k) ns n wl = (case kb_get_job k ns n (fst wl) of (r, w') \<Rightarrow> (r, w', snd wl))"
  "kb_create_pod (logged k) p wl = (case kb_create_pod k p (fst wl) of (r, w') \<Rightarrow> (r, w', snd wl @ [CreatePod p]))"
  "kb_create_job (logged k) j wl = (case kb_create_job k j (fst wl) of (r, w') \<Rightarrow> (r, w', snd wl @ [CreateJob j]))"
  "kb_update_status (logged k) s wl =
     (case kb_update_status k s (fst wl) of (r, w') \<Rightarrow> (r, w', snd wl @ [UpdateStatus s]))"
  "Eventf (logged k) t r m wl = (Eventf k t r m (fst wl), snd wl)"
  "kb_set_owner (logged k) = kb_set_owner k" "kb_dns_errors (logged k) = kb_dns_errors k"
  "kb_Unmarshal (logged k) = kb_Unmarshal k" "subjob_status (logged k) = subjob_status k"
  by (simp_all add: logged_def logging_read_def logging_call_def Eventf_def subjob_status_def fun_eq_iff)

lemma waiting_event_logged [simp]: "waiting_event (logged k) wl = (waiting_event k (fst wl), snd wl)"
  by (simp add: waiting_event_def)

lemma UpdateSBJStatus_calls:
  assumes "UpdateSBJStatus (logged k) sjb p wl = (r, sjb', wl')"
  shows "snd wl' = snd wl"
  using assms by (auto simp: UpdateSBJStatus_def Let_def split: splits_go)

lemma ReconcileSizeCarPods_calls:
  assumes "ReconcileSizeCarPods (logged k) sjb wl = (r, sjb', wl')"
  shows "snd wl' = snd wl \<or>
    bs_SubjobStatus (sbj_Status sjb) = [] \<and>
    (\<exists>p. newSizeCarPodForSJ (kb_set_owner k) sjb = Value p \<and> snd wl' = snd wl @ [CreatePod p])"
  using assms by (auto simp: ReconcileSizeCarPods_def split: splits_go)

lemma ReconcileWorkerPods_calls:
  assumes "ReconcileWorkerPods (logged k) sz sjb wl = (r, wl')"
  shows "snd wl' = snd wl \<or>
    (\<exists>pod info p. sz = Some pod \<and> pod_label pod LabelSlurmBridgeJobId \<noteq> None \<and>
       kb_Unmarshal k (pt_Message (pod_Status pod)) = Inr info \<and> jr_Info info \<noteq> [] \<and>
       newWorkerPodForSJ (kb_set_owner k) pod sjb info = Inr p \<and> snd wl' = snd wl @ [CreatePod p])"
  using assms by (auto simp: ReconcileWorkerPods_def split: splits_go)

text \<open>The pods a reconciliation of this job may create.\<close>

definition sizecar_create :: "'w kube \<Rightarrow> SlurmBridgeJob \<Rightarrow> Pod \<Rightarrow> bool" where
  "sizecar_create k sjb p \<longleftrightarrow>
     bs_SubjobStatus (sbj_Status sjb) = [] \<and> newSizeCarPodForSJ (kb_set_owner k) sjb = Value p"

definition worker_create :: "'w kube \<Rightarrow> Pod \<Rightarrow> bool" where
  "worker_create k p \<longleftrightarrow>
     (\<exists>pod sjb info. pod_label pod LabelSlurmBridgeJobId \<noteq> None \<and>
        kb_Unmarshal k (pt_Message (pod_Status pod)) = Inr info \<and> jr_Info info \<noteq> [] \<and>
        newWorkerPodForSJ (kb_set_owner k) pod sjb info = Inr p)"

lemma reconcile_worker_calls:
  assumes "reconcile_worker (logged k) sz sjb wl = (r, sjb', wl')"
  shows "snd wl' = snd wl \<or> (\<exists>p. worker_create k p \<and> snd wl' = snd wl @ [CreatePod p])"
proof -
  obtain x w1 where g: "kb_get_pod k (sbj_Namespace sjb) (genPodNameByPodRole sjb RoleWorker) (fst wl) = (x, w1)"
    by (metis surj_pair)
  show ?thesis
  proof (cases "snd wl' = snd wl")
    case False
    then obtain e where "ReconcileWorkerPods (logged k) sz sjb (w1, snd wl) = (r, wl')"
      using assms g by (auto simp: reconcile_worker_def split: splits_go)
    from ReconcileWorkerPods_calls [OF this] False show ?thesis
      unfolding worker_create_def by auto
  qed simp
qed

abbreviation sizecar_missing :: "'w kube \<Rightarrow> SlurmBridgeJob \<Rightarrow> 'w \<Rightarrow> bool" where
  "sizecar_missing k sjb w \<equiv>
     (\<exists>e. fst (kb_get_pod k (sbj_Namespace sjb) (genPodNameByPodRole sjb RoleSizeCar) w) = Inl e \<and> IsNotFound e)"

lemma find_sizecar_calls:
  assumes "find_sizecar (logged k) sjb wl = (r, sjb', wl')"
  shows "snd wl' = snd wl \<or>
    (\<exists>p. sizecar_create k sjb p \<and> sizecar_missing k sjb (fst wl) \<and> snd wl' = snd wl @ [CreatePod p])"
proof -
  obtain x w1 where g: "kb_get_pod k (sbj_Namespace sjb) (genPodNameByPodRole sjb RoleSizeCar) (fst wl) = (x, w1)"
    by (metis surj_pair)
  show ?thesis
  proof (cases "snd wl' = snd wl")
    case False
    then obtain e where "x = Inl e" "IsNotFound e"
      and r: "ReconcileSizeCarPods (logged k) sjb (w1, snd wl) = (r, sjb', wl')"
      using assms g by (auto simp: find_sizecar_def split: splits_go)
    with ReconcileSizeCarPods_calls [OF r] False g show ?thesis by (auto simp: sizecar_create_def)
  qed simp
qed

text \<open>The pods created are one sizecar pod, one worker pod, or both, in this order.\<close>

definition job_calls :: "'w kube \<Rightarrow> SlurmBridgeJob \<Rightarrow> 'w \<Rightarrow> api_call list \<Rightarrow> bool" where
  "job_calls k sjb w cs \<longleftrightarrow>
     (\<exists>c1 c2. cs = c1 @ c2 \<and>
        (c1 = [] \<or> (\<exists>p. sizecar_create k sjb p \<and> sizecar_missing k sjb w \<and> c1 = [CreatePod p])) \<and>
        (c2 = [] \<or> (\<exists>p. worker_create k p \<and> c2 = [CreatePod p])))"

lemma ReconcileSlurmBridgeJob_calls:
  assumes "ReconcileSlurmBridgeJob (logged k) sjb wl = (r, sjb', wl')"
  shows "\<exists>cs. snd wl' = snd wl @ cs \<and> job_calls k sjb (fst wl) cs"
proof -
  obtain x s1 wl1 where f: "find_sizecar (logged k) sjb wl = (x, s1, wl1)" by (metis surj_pair)
  note c1 = find_sizecar_calls [OF f]
  have rest: "snd wl' = snd wl1 \<or> (\<exists>p. worker_create k p \<and> snd wl' = snd wl1 @ [CreatePod p])"
  proof (cases x)
    case (Value pod)
    obtain y s2 wl2 where u: "UpdateSBJStatus (logged k) s1 pod wl1 = (y, s2, wl2)" by (metis surj_pair)
    have same: "snd wl2 = snd wl1" using UpdateSBJStatus_calls [OF u] .
    show ?thesis
    proof (cases y)
      case (Value v)
      then have "reconcile_worker (logged k) pod s2 wl2 = (r, sjb', wl')"
        using assms f u \<open>x = Value pod\<close> by (simp add: ReconcileSlurmBridgeJob_def)
      from reconcile_worker_calls [OF this] show ?thesis using same by simp
    qed (use assms f u \<open>x = Value pod\<close> same in \<open>simp_all add: ReconcileSlurmBridgeJob_def\<close>)
  qed (use assms f in \<open>simp_all add: ReconcileSlurmBridgeJob_def\<close>)
  from c1 obtain d1 where d1: "snd wl1 = snd wl @ d1"
    "d1 = [] \<or> (\<exists>p. sizecar_create k sjb p \<and> sizecar_missing k sjb (fst wl) \<and> d1 = [CreatePod p])"
    by auto
  from rest obtain d2 where d2: "snd wl' = snd wl1 @ d2"
    "d2 = [] \<or> (\<exists>p. worker_create k p \<and> d2 = [CreatePod p])"
    by auto
  have "job_calls k sjb (fst wl) (d1 @ d2)" unfolding job_calls_def using d1(2) d2(2) by blast
  moreover have "snd wl' = snd wl @ (d1 @ d2)" using d1(1) d2(1) by simp
  ultimately show ?thesis by blast
qed

text \<open>Reading the result of a finished job changes the fetch fields of its status and nothing else.\<close>

definition same_but_fetch :: "SlurmBridgeJob \<Rightarrow> SlurmBridgeJob \<Rightarrow> bool" where
  "same_but_fetch s t \<longleftrightarrow>
     sbj_Meta t = sbj_Meta s \<and> sbj_Spec t = sbj_Spec s \<and>
     bs_State (sbj_Status t) = bs_State (sbj_Status s) \<and>
     bs_SubjobStatus (sbj_Status t) = bs_SubjobStatus (sbj_Status s) \<and>
     bs_ClusterEndPoint (sbj_Status t) = bs_ClusterEndPoint (sbj_Status s) \<and>
     (bs_FetchResult (sbj_Status s) \<longrightarrow> bs_FetchResult (sbj_Status t))"

lemma ReconcileSlurmBridgeJobResult_calls:
  assumes "ReconcileSlurmBridgeJobResult (logged k) sjb wl = (r, sjb', wl')"
  shows "same_but_fetch sjb sjb' \<and>
    (snd wl' = snd wl \<or>
     \<not> bs_FetchResult (sbj_Status sjb) \<and>
     (\<exists>j. newJobForSJResult sjb = Value j \<and> snd wl' = snd wl @ [CreateJob j]))"
  using assms
  by (auto simp: ReconcileSlurmBridgeJobResult_def fetch_status_def same_but_fetch_def Let_def
      split: splits_go)

section \<open>What a reconciliation does\<close>

text \<open>The calls for a finished job with a result to fetch, and for a job that is not finished.\<close>

definition fetch_calls :: "SlurmBridgeJob \<Rightarrow> api_call list \<Rightarrow> bool" where
  "fetch_calls sjb cs \<longleftrightarrow>
     (\<exists>us ts. cs = us @ ts \<and>
        (us = [] \<or> \<not> bs_FetchResult (sbj_Status sjb) \<and>
           (\<exists>j. newJobForSJResult sjb = Value j \<and> us = [CreateJob j])) \<and>
        (ts = [] \<or> (\<exists>t. same_but_fetch sjb t \<and> ts = [UpdateStatus t])))"

definition running_calls :: "'w kube \<Rightarrow> SlurmBridgeJob \<Rightarrow> 'w \<Rightarrow> api_call list \<Rightarrow> bool" where
  "running_calls k sjb w cs \<longleftrightarrow>
     (\<exists>us ts. cs = us @ ts \<and> job_calls k sjb w us \<and> (ts = [] \<or> (\<exists>t. ts = [UpdateStatus t])))"

definition fetch_done :: "SlurmBridgeJob \<Rightarrow> bool" where
  "fetch_done sjb \<longleftrightarrow>
     bs_FetchResult (sbj_Status sjb) \<and> isFinishedFetchResult (bs_FetchResultStatus (sbj_Status sjb))"

lemma update_status_calls: "snd (snd (update_status (logged k) old t wl)) = snd wl @ [UpdateStatus t]"
  by (simp add: update_status_def DeepEqual_status_def split: prod.splits)

lemma reconcile_calls_eq:
  assumes "kb_get_sbj k ns name w = (Inr sjb, w1)"
    and "ReconcileSlurmBridgeJobResult (logged k) sjb (w1, []) = (x, s2, wl2)"
    and "ReconcileSlurmBridgeJob (logged k) sjb (w1, []) = (y, s3, wl3)"
  shows "reconcile_calls k ns name w =
    (if ValidateV1alphaSlurmBridgeJob (kb_dns_errors k) sjb \<noteq> None \<or>
        om_DeletionTimestamp (sbj_Meta sjb) \<noteq> None \<or>
        \<not> isSBJFinished sjb \<and> (sp_Result (sbj_Spec sjb) = None \<or> fetch_done sjb)
     then []
     else if \<not> isSBJFinished sjb then (case x of Value _ \<Rightarrow> snd wl2 @ [UpdateStatus s2] | _ \<Rightarrow> snd wl2)
     else (case y of Value _ \<Rightarrow> snd wl3 @ [UpdateStatus s3] | _ \<Rightarrow> snd wl3))"
  unfolding reconcile_calls_def Reconcile_def logged_simps
  using assms
  by (cases x; cases y; cases "ValidateV1alphaSlurmBridgeJob (kb_dns_errors k) sjb")
     (simp_all add: Let_def update_status_calls fetch_done_def)

lemma Reconcile_writes:
  assumes "kb_get_sbj k ns name w = (Inr sjb, w1)"
  shows "reconcile_calls k ns name w = [] \<or>
    \<not> isSBJFinished sjb \<and> sp_Result (sbj_Spec sjb) \<noteq> None \<and> \<not> fetch_done sjb \<and>
      fetch_calls sjb (reconcile_calls k ns name w) \<or>
    isSBJFinished sjb \<and> running_calls k sjb w1 (reconcile_calls k ns name w)"
proof -
  obtain x s2 wl2 where r: "ReconcileSlurmBridgeJobResult (logged k) sjb (w1, []) = (x, s2, wl2)"
    by (metis surj_pair)
  obtain y s3 wl3 where j: "ReconcileSlurmBridgeJob (logged k) sjb (w1, []) = (y, s3, wl3)"
    by (metis surj_pair)
  note rc = ReconcileSlurmBridgeJobResult_calls [OF r]
  note jc = ReconcileSlurmBridgeJob_calls [OF j]
  note reconcile_calls_eq [OF assms r j]
  then consider (none) "reconcile_calls k ns name w = []"
    | (result) "\<not> isSBJFinished sjb" "sp_Result (sbj_Spec sjb) \<noteq> None" "\<not> fetch_done sjb"
        "reconcile_calls k ns name w = snd wl2 \<or> reconcile_calls k ns name w = snd wl2 @ [UpdateStatus s2]"
    | (job) "isSBJFinished sjb"
        "reconcile_calls k ns name w = snd wl3 \<or> reconcile_calls k ns name w = snd wl3 @ [UpdateStatus s3]"
    by (auto split: if_splits outcome.splits)
  then show ?thesis
  proof cases
    case result
    have "fetch_calls sjb (snd wl2 @ ts)" if "ts = [] \<or> ts = [UpdateStatus s2]" for ts
      unfolding fetch_calls_def
      by (rule exI [of _ "snd wl2"], rule exI [of _ ts]) (use rc that in auto)
    from this [of "[]"] this [of "[UpdateStatus s2]"] show ?thesis using result by auto
  next
    case job
    have "running_calls k sjb w1 (snd wl3 @ ts)" if "ts = [] \<or> ts = [UpdateStatus s3]" for ts
      unfolding running_calls_def
      by (rule exI [of _ "snd wl3"], rule exI [of _ ts]) (use jc that in auto)
    from this [of "[]"] this [of "[UpdateStatus s3]"] show ?thesis using job by auto
  qed simp
qed

text \<open>A cluster that holds one job, these pods and no batch job; every message reads as \<open>info\<close>.\<close>

definition sample_kube :: "SlurmBridgeJob \<Rightarrow> Pod list \<Rightarrow> JobInfoResponse \<Rightarrow> unit kube" where
  "sample_kube sjb pods info =
     \<lparr>kb_get_sbj = (\<lambda>ns n w. (Inr sjb, w)),
      kb_get_pod = (\<lambda>ns n w.
        (case find (\<lambda>p. om_Name (pod_Meta p) = n) pods of
           None \<Rightarrow> Inl (Status ''NotFound'' n) | Some p \<Rightarrow> Inr p, w)),
      kb_get_job = (\<lambda>ns n w. (Inl (Status ''NotFound'' n), w)),
      kb_create_pod = (\<lambda>p w. (Inr p, w)), kb_create_job = (\<lambda>j w. (Inr j, w)),
      kb_update_status = (\<lambda>s w. (None, w)), kb_event = (\<lambda>t r m w. w),
      kb_set_owner = (\<lambda>s m. Inr m), kb_dns_errors = (\<lambda>n. None), kb_Unmarshal = (\<lambda>s. Inr info),
      kb_AsTime = (\<lambda>t. 0), kb_Duration_String = (\<lambda>d. [])\<rparr>"

definition sample_sbj :: "string \<Rightarrow> SlurmBridgeJob" where
  "sample_sbj state =
     \<lparr>sbj_Meta = new_meta ''job'' ''default'' Map.empty,
      sbj_Spec = \<lparr>sp_Partition = ''debug'', sp_SbatchScript = ''#!/bin/sh'', sp_RunAsUser = None,
                  sp_RunAsGroup = None, sp_Array = [], sp_CpusPerTask = 0, sp_Ntasks = 0,
                  sp_NtasksPerNode = 0, sp_Nodes = 0, sp_WorkingDir = [], sp_MemPerCpu = 0,
                  sp_Gres = [], sp_Licenses = [], sp_Result = None\<rparr>,
      sbj_Status = \<lparr>bs_State = state, bs_SubjobStatus = [], bs_FetchResult = False,
                    bs_FetchResultStatus = [], bs_ClusterEndPoint = []\<rparr>\<rparr>"

text \<open>
  C16. A finished job stays finished: when the stored job has succeeded or failed, a reconciliation
  creates no pod, and a status it writes keeps the state, the jobs and the end point and never
  takes back that results were asked for; at most the batch job that fetches the results is
  created, and only if that was not done before. Without a result to fetch, or once it is
  fetched, nothing is called.
\<close>

theorem finished_job_is_final:
  assumes "kb_get_sbj k ns name w = (Inr sjb, w1)"
    and "bs_State (sbj_Status sjb) \<in> {phase_name PodSucceeded, phase_name PodFailed}"
  shows "(\<forall>c \<in> set (reconcile_calls k ns name w).
      (\<exists>t. c = UpdateStatus t \<and> same_but_fetch sjb t) \<or>
      (\<exists>j. c = CreateJob j \<and> newJobForSJResult sjb = Value j \<and> \<not> bs_FetchResult (sbj_Status sjb))) \<and>
    (sp_Result (sbj_Spec sjb) = None \<or> fetch_done sjb \<longrightarrow> reconcile_calls k ns name w = [])"
proof -
  have "\<not> isSBJFinished sjb" using assms(2) by (auto simp: isSBJFinished_def)
  then show ?thesis
    using Reconcile_writes [OF assms(1)] unfolding fetch_calls_def by auto
qed

theorem finished_job_is_final_witness:
  "reconcile_calls (sample_kube (sample_sbj ''Succeeded'') [] \<lparr>jr_Info = []\<rparr>) ''default'' ''job'' () = []"
proof -
  let ?k = "sample_kube (sample_sbj ''Succeeded'') [] \<lparr>jr_Info = []\<rparr>"
  have "kb_get_sbj ?k ''default'' ''job'' () = (Inr (sample_sbj ''Succeeded''), ())"
    by (simp add: sample_kube_def)
  from finished_job_is_final [OF this] show ?thesis by (simp add: sample_sbj_def)
qed

text \<open>Pods by role.\<close>

definition creates_role :: "string \<Rightarrow> api_call \<Rightarrow> bool" where
  "creates_role role c \<longleftrightarrow>
     (case c of CreatePod p \<Rightarrow> pod_label p LabelsRole = Some role | _ \<Rightarrow> False)"

definition keeps_labels :: "'w kube \<Rightarrow> bool" where
  "keeps_labels k \<longleftrightarrow> (\<forall>s m m'. kb_set_owner k s m = Inr m' \<longrightarrow> om_Labels m' = om_Labels m)"

lemma sizecar_pod_role:
  assumes "keeps_labels k" and "sizecar_pod (kb_set_owner k) sjb rl aff = Inr p"
  shows "pod_label p LabelsRole = Some RoleSizeCar"
  using assms by (auto simp: sizecar_pod_def keeps_labels_def Let_def new_meta_def split: sum.splits)

lemma sizecar_create_role:
  assumes "keeps_labels k" and "sizecar_create k sjb p"
  shows "pod_label p LabelsRole = Some RoleSizeCar"
  using assms(2) sizecar_pod_role [OF assms(1)]
  by (auto simp: sizecar_create_def newSizeCarPodForSJ_def Let_def split: splits_go)

lemma worker_pod_role:
  assumes "keeps_labels k" and "newWorkerPodForSJ (kb_set_owner k) pod sjb info = Inr p"
  shows "pod_label p LabelsRole = Some RoleWorker"
  using assms
  by (auto simp: newWorkerPodForSJ_def keeps_labels_def Let_def new_meta_def split: sum.splits)

lemma worker_create_role:
  assumes "keeps_labels k" and "worker_create k p"
  shows "pod_label p LabelsRole = Some RoleWorker"
  using assms worker_pod_role unfolding worker_create_def by blast

lemma job_calls_CreatePod:
  "job_calls k sjb w cs \<Longrightarrow> CreatePod p \<in> set cs \<Longrightarrow>
     sizecar_create k sjb p \<and> sizecar_missing k sjb w \<or> worker_create k p"
  unfolding job_calls_def by (elim exE conjE disjE) auto

text \<open>
  C5. A reconciliation creates pods only for a job that is not finished: at most one sizecar pod,
  and that only when none exists and no Slurm job has been seen yet, so that a job is not submitted
  again; and at most one worker pod, from a sizecar pod that has been submitted.
\<close>

theorem pods_created_once:
  assumes "kb_get_sbj k ns name w = (Inr sjb, w1)" and "keeps_labels k"
  shows "length (filter (creates_role role) (reconcile_calls k ns name w)) \<le> 1 \<and>
    (\<forall>p. CreatePod p \<in> set (reconcile_calls k ns name w) \<longrightarrow>
       bs_State (sbj_Status sjb) \<notin> {phase_name PodSucceeded, phase_name PodFailed} \<and>
       (sizecar_create k sjb p \<and> sizecar_missing k sjb w1 \<or> worker_create k p))"
proof -
  have job: "length (filter (creates_role role) (us @ ts)) \<le> 1"
    if "job_calls k sjb w1 us" "ts = [] \<or> (\<exists>t. ts = [UpdateStatus t])" for us ts
    using that sizecar_create_role [OF assms(2)] worker_create_role [OF assms(2)]
    by (auto simp: job_calls_def creates_role_def)
  show ?thesis
    using Reconcile_writes [OF assms(1)]
  proof (elim disjE conjE)
    assume "fetch_calls sjb (reconcile_calls k ns name w)"
    then show ?thesis by (auto simp: fetch_calls_def creates_role_def)
  next
    assume "isSBJFinished sjb" and "running_calls k sjb w1 (reconcile_calls k ns name w)"
    then obtain us ts where us: "reconcile_calls k ns name w = us @ ts" "job_calls k sjb w1 us"
      "ts = [] \<or> (\<exists>t. ts = [UpdateStatus t])" and st: "isSBJFinished sjb"
      by (auto simp: running_calls_def)
    have "CreatePod p \<in> set us" if "CreatePod p \<in> set (us @ ts)" for p
      using that us(3) by auto
    then show ?thesis
      using job [OF us(2,3)] job_calls_CreatePod [OF us(2)] st unfolding us(1) isSBJFinished_def by blast
  qed simp
qed

theorem pods_created_once_witness:
  "length (filter (creates_role RoleSizeCar)
     (reconcile_calls (sample_kube (sample_sbj []) [] \<lparr>jr_Info = []\<rparr>) ''default'' ''job'' ())) \<le> 1"
proof -
  let ?k = "sample_kube (sample_sbj []) [] \<lparr>jr_Info = []\<rparr>"
  have "kb_get_sbj ?k ''default'' ''job'' () = (Inr (sample_sbj []), ())" "keeps_labels ?k"
    by (simp_all add: sample_kube_def keeps_labels_def)
  from pods_created_once [OF this] show ?thesis by blast
qed

section \<open>The status of the job\<close>

lemma map_of_fold_update:
  assumes "distinct (map f xs)"
  shows "map_of (fold (\<lambda>x m. AList.update (f x) (g x) m) xs m) i =
    (case map_of (map (\<lambda>x. (f x, g x)) xs) i of Some v \<Rightarrow> Some v | None \<Rightarrow> map_of m i)"
  using assms
proof (induction xs arbitrary: m)
  case (Cons x xs)
  have "map_of (map (\<lambda>x. (f x, g x)) xs) (f x) = None"
    using Cons.prems by (auto simp: map_of_eq_None_iff)
  then show ?case using Cons by (auto simp: update_conv' split: option.splits)
qed simp

lemma UpdateSBJStatus_pod:
  assumes "kb_Unmarshal k (pt_Message (pod_Status pod)) = Inr info" and "pt_Message (pod_Status pod) \<noteq> []"
    and "distinct (map ji_Id (jr_Info info))"
    and "UpdateSBJStatus k sjb (Some pod) w = (r, sjb', w')"
  shows "r = Value () \<and> bs_State (sbj_Status sjb') = phase_name (pt_Phase (pod_Status pod)) \<and>
    bs_ClusterEndPoint (sbj_Status sjb') =
      (case om_Annotations (pod_Meta pod) LabelAgentEndPoint of
         None \<Rightarrow> bs_ClusterEndPoint (sbj_Status sjb) | Some e \<Rightarrow> e) \<and>
    (\<forall>ji \<in> set (jr_Info info). map_of (bs_SubjobStatus (sbj_Status sjb')) (ji_Id ji) = Some (subjob_status k ji)) \<and>
    (\<forall>i. i \<notin> ji_Id ` set (jr_Info info) \<longrightarrow>
       map_of (bs_SubjobStatus (sbj_Status sjb')) i = map_of (bs_SubjobStatus (sbj_Status sjb)) i)"
proof -
  let ?m = "map_of (map (\<lambda>ji. (ji_Id ji, subjob_status k ji)) (jr_Info info))"
  have subs: "map_of (bs_SubjobStatus (sbj_Status sjb')) i =
      (case ?m i of Some v \<Rightarrow> Some v | None \<Rightarrow> map_of (bs_SubjobStatus (sbj_Status sjb)) i)" for i
    using assms by (auto simp: UpdateSBJStatus_def Let_def map_of_fold_update split: option.splits if_splits)
  have "?m (ji_Id ji) = Some (subjob_status k ji)" if "ji \<in> set (jr_Info info)" for ji
    using assms(3) that by (intro map_of_is_SomeI) (auto simp: comp_def)
  moreover have "?m i = None" if "i \<notin> ji_Id ` set (jr_Info info)" for i
    using that by (auto simp: map_of_eq_None_iff)
  moreover have "r = Value ()" "bs_State (sbj_Status sjb') = phase_name (pt_Phase (pod_Status pod))"
    "bs_ClusterEndPoint (sbj_Status sjb') =
      (case om_Annotations (pod_Meta pod) LabelAgentEndPoint of
         None \<Rightarrow> bs_ClusterEndPoint (sbj_Status sjb) | Some e \<Rightarrow> e)"
    using assms by (auto simp: UpdateSBJStatus_def Let_def split: option.splits if_splits)
  ultimately show ?thesis unfolding subs by simp
qed

text \<open>
  The status of a job follows its sizecar pod: the state becomes the pod's phase, the end
  point the one the pod is annotated with, and for every Slurm job in the pod's message the status
  records it under its identifier; jobs the message does not mention are kept. Standard output and
  standard error of a job are recorded the wrong way round.
\<close>

theorem UpdateSBJStatus_follows_pod:
  assumes "kb_Unmarshal k (pt_Message (pod_Status pod)) = Inr info" and "pt_Message (pod_Status pod) \<noteq> []"
    and "distinct (map ji_Id (jr_Info info))"
    and "UpdateSBJStatus k sjb (Some pod) w = (r, sjb', w')"
  shows "r = Value () \<and> bs_State (sbj_Status sjb') = phase_name (pt_Phase (pod_Status pod)) \<and>
    bs_ClusterEndPoint (sbj_Status sjb') =
      (case om_Annotations (pod_Meta pod) LabelAgentEndPoint of
         None \<Rightarrow> bs_ClusterEndPoint (sbj_Status sjb) | Some e \<Rightarrow> e) \<and>
    (\<forall>ji \<in> set (jr_Info info). \<exists>u. map_of (bs_SubjobStatus (sbj_Status sjb')) (ji_Id ji) = Some u \<and>
       u = subjob_status k ji \<and> ub_StdOut u = ji_StdErr ji \<and> ub_StdErr u = ji_StdOut ji) \<and>
    (\<forall>i. i \<notin> ji_Id ` set (jr_Info info) \<longrightarrow>
       map_of (bs_SubjobStatus (sbj_Status sjb')) i = map_of (bs_SubjobStatus (sbj_Status sjb)) i)"
  using UpdateSBJStatus_pod [OF assms] by (simp add: subjob_status_def)

definition sample_info :: JobInfo where
  "sample_info = zero_JobInfo\<lparr>ji_Id := ''7'', ji_Name := ''job'', ji_StdOut := ''/out'', ji_StdErr := ''/err''\<rparr>"

definition sample_pod :: "PodPhase \<Rightarrow> string \<Rightarrow> Pod" where
  "sample_pod phase msg =
     \<lparr>pod_Meta = new_meta ''job-sizecar'' ''default'' [LabelsRole \<mapsto> RoleSizeCar],
      pod_Spec = \<lparr>ps_NodeName = ''vk'', ps_Affinity = None, ps_SecurityContext = None, ps_Tolerations = [],
                  ps_Containers = [new_container ''job'' ''useless-image''], ps_RestartPolicy = ''Never'',
                  ps_Volumes = []\<rparr>,
      pod_Status = zero_PodStatus\<lparr>pt_Phase := phase, pt_Message := msg\<rparr>\<rparr>"

theorem UpdateSBJStatus_follows_pod_witness:
  "\<exists>sjb' w'. UpdateSBJStatus (sample_kube (sample_sbj []) [] \<lparr>jr_Info = [sample_info]\<rparr>) (sample_sbj [])
      (Some (sample_pod PodRunning ''m'')) () = (Value (), sjb', w') \<and>
    (\<exists>u. map_of (bs_SubjobStatus (sbj_Status sjb')) ''7'' = Some u \<and> ub_StdOut u = ''/err'')"
proof -
  let ?k = "sample_kube (sample_sbj []) [] \<lparr>jr_Info = [sample_info]\<rparr>"
  obtain r sjb' w' where u: "UpdateSBJStatus ?k (sample_sbj []) (Some (sample_pod PodRunning ''m'')) () = (r, sjb', w')"
    by (metis surj_pair)
  have "kb_Unmarshal ?k (pt_Message (pod_Status (sample_pod PodRunning ''m''))) = Inr \<lparr>jr_Info = [sample_info]\<rparr>"
    "pt_Message (pod_Status (sample_pod PodRunning ''m'')) \<noteq> []"
    by (simp_all add: sample_kube_def sample_pod_def)
  from UpdateSBJStatus_follows_pod [OF this _ u] show ?thesis
    using u by (auto simp: sample_info_def)
qed



text \<open>The comparison of the old and the new status never finds them equal.\<close>

lemma status_always_written:
  "snd (snd (update_status (logged k) old t wl)) = snd wl @ [UpdateStatus t]"
  by (simp add: update_status_def DeepEqual_status_def split: prod.splits)

end
