(* ===== verification/VKStatus.thy ===== *)
theory VKStatus
  imports KubeTypes
begin

text \<open>
  The status of a pod from the status of its Slurm jobs (\<^verbatim>\<open>pkg/slurm-virtual-kubelet/status.go\<close>).
  Third-party conversions are parameters, collected in a record: \<open>AsTime\<close> and \<open>IsValid\<close> of
  \<^verbatim>\<open>timestamppb\<close> (both accept a nil timestamp) and the JSON encoders. A failed encoding is logged and
  gives the empty text.
\<close>

record status_lib =
  sl_AsTime :: "Timestamp option \<Rightarrow> go_time"
  sl_IsValid :: "Timestamp option \<Rightarrow> bool"
  sl_Marshal :: "JobInfoResponse \<Rightarrow> string result"
  sl_MarshalInfo :: "JobInfo \<Rightarrow> string result"

text \<open>The zero time of Go: the first of January of the year 1.\<close>

definition zero_time :: go_time where
  "zero_time = date_time 1 1 1 0 0 0 0"

definition logged_text :: "string result \<Rightarrow> string" where
  "logged_text r = (case r of Inl err \<Rightarrow> [] | Inr s \<Rightarrow> s)"

section \<open>Phase\<close>

fun isAllSlurmJobEnded :: "JobInfo list \<Rightarrow> bool" where
  "isAllSlurmJobEnded [] = True"
| "isAllSlurmJobEnded (info # r) =
     (if ji_Status info \<in> {UNKNOWN, PENDING, RUNNING} then False else isAllSlurmJobEnded r)"

fun ended_phase :: "JobInfo list \<Rightarrow> PodPhase \<Rightarrow> PodPhase" where
  "ended_phase [] podPhase = podPhase"
| "ended_phase (info # r) podPhase =
     ended_phase r (if ji_Status info \<in> {FAILED, CANCELLED, TIMEOUT} then PodFailed else podPhase)"

fun active_phase :: "JobInfo list \<Rightarrow> PodPhase \<Rightarrow> PodPhase" where
  "active_phase [] podPhase = podPhase"
| "active_phase (info # r) podPhase =
     (if ji_Status info = RUNNING then PodRunning
      else active_phase r (if ji_Status info = PENDING then PodPending else podPhase))"

definition slurmState2PodPhase :: "JobInfoResponse \<Rightarrow> PodPhase" where
  "slurmState2PodPhase jobInfo =
     (if isAllSlurmJobEnded (jr_Info jobInfo) then ended_phase (jr_Info jobInfo) PodSucceeded
      else active_phase (jr_Info jobInfo) PodUnknown)"

definition unknowPodStatus :: PodStatus where
  "unknowPodStatus = zero_PodStatus
     \<lparr>pt_Phase := PodUnknown,
      pt_Message := ''can not find pod relative slurm job id, mybe not handled''\<rparr>"

section \<open>Start time\<close>

fun min_start :: "status_lib \<Rightarrow> JobInfo list \<Rightarrow> Timestamp option \<Rightarrow> Timestamp option" where
  "min_start l [] minStartTime = minStartTime"
| "min_start l (info # r) minStartTime =
     (let t = ji_StartTime info;
          usable = sl_IsValid l t \<and> sl_AsTime l t \<noteq> zero_time
      in min_start l r
           (case minStartTime of
              None \<Rightarrow> if usable then t else None
            | Some m \<Rightarrow>
                if usable \<and> sl_AsTime l t < sl_AsTime l (Some m) then t else Some m))"

definition getMinStartTimte :: "status_lib \<Rightarrow> JobInfoResponse \<Rightarrow> Timestamp option" where
  "getMinStartTimte l jobInfo = min_start l (jr_Info jobInfo) None"

section \<open>Containers\<close>

definition job_detail :: "string \<Rightarrow> string" where
  "job_detail d =
     ''slurm job detail: '' @ [CHR 0xE3, CHR 0x80, CHR 0x90] @ d @ [CHR 0xE3, CHR 0x80, CHR 0x91]"

text \<open>\<^verbatim>\<open>int32(exitCode)\<close> of the first number of an exit code \<^verbatim>\<open>code:signal\<close>; 0 when it is no number.\<close>

definition exit_code :: "string \<Rightarrow> int32" where
  "exit_code s = word_of_int (fst (ParseInt 32 (Split s '':'' ! 0)))"

definition slurmState2ContainerState :: "status_lib \<Rightarrow> JobInfo option \<Rightarrow> ContainerState outcome" where
  "slurmState2ContainerState l info0 =
     (case info0 of
        None \<Rightarrow> Panic NilDereference
      | Some info \<Rightarrow>
          (let infoDetail = logged_text (sl_MarshalInfo l info);
               startTime = sl_AsTime l (ji_StartTime info)
           in
             if ji_Status info \<in> {RUNNING, COMPLETED} then Value (Running startTime)
             else if ji_Status info \<in> {FAILED, CANCELLED} then
               Value (Terminated (exit_code (GetExitCode (Some info))) (GetReason (Some info))
                        (job_detail infoDetail) startTime (sl_AsTime l (GetEndTime (Some info))))
             else Value (Waiting (GetReason (Some info)) (job_detail infoDetail))))"

definition getRelateSLurmJobInfo :: "Container \<Rightarrow> JobInfoResponse \<Rightarrow> JobInfo option" where
  "getRelateSLurmJobInfo container info = find (\<lambda>j. ji_Id j = c_Name container) (jr_Info info)"

primrec is_running :: "ContainerState \<Rightarrow> bool" where
  "is_running (Running t) = True"
| "is_running (Terminated e r m s f) = False"
| "is_running (Waiting r m) = False"

definition worker_status :: "status_lib \<Rightarrow> JobInfoResponse \<Rightarrow> Container \<Rightarrow> ContainerStatus outcome" where
  "worker_status l info container =
     (let jobInfo = getRelateSLurmJobInfo container info in
      case slurmState2ContainerState l jobInfo of
        Panic p \<Rightarrow> Panic p
      | Error e \<Rightarrow> Error e
      | Value st \<Rightarrow>
          Value \<lparr>cs_Name = c_Name container, cs_State = st, cs_Ready = is_running st,
                 cs_Image = c_Name container, cs_ContainerID = ji_Id (the jobInfo)\<rparr>)"

fun map_outcome :: "('a \<Rightarrow> 'b outcome) \<Rightarrow> 'a list \<Rightarrow> 'b list outcome" where
  "map_outcome f [] = Value []"
| "map_outcome f (x # xs) =
     (case f x of
        Panic p \<Rightarrow> Panic p
      | Error e \<Rightarrow> Error e
      | Value y \<Rightarrow>
          (case map_outcome f xs of Panic p \<Rightarrow> Panic p | Error e \<Rightarrow> Error e | Value ys \<Rightarrow> Value (y # ys)))"

definition slurmState2ContainerStatuses ::
    "status_lib \<Rightarrow> Pod \<Rightarrow> PodPhase \<Rightarrow> JobInfoResponse \<Rightarrow> ContainerStatus list outcome" where
  "slurmState2ContainerStatuses l pod phase info =
     (let podRole = map_get (om_Labels (pod_Meta pod)) LabelsRole in
      if podRole = RoleSizeCar then
        (case (ps_Containers (pod_Spec pod), jr_Info info) of
           (container # _, jobInfo # _) \<Rightarrow>
             (case slurmState2ContainerState l (Some jobInfo) of
                Panic p \<Rightarrow> Panic p
              | Error e \<Rightarrow> Error e
              | Value st \<Rightarrow>
                  Value [\<lparr>cs_Name = c_Name container, cs_State = st, cs_Ready = (phase = PodRunning),
                          cs_Image = c_Image container, cs_ContainerID = []\<rparr>])
         | _ \<Rightarrow> Panic IndexOutOfRange)
      else if podRole = RoleWorker then map_outcome (worker_status l info) (ps_Containers (pod_Spec pod))
      else Value [])"

definition slurmStateToPodConditions :: "PodPhase \<Rightarrow> PodCondition list" where
  "slurmStateToPodConditions podPhase =
     (if podPhase = PodRunning then
        [\<lparr>pd_Type = ''Ready'', pd_Status = ''True''\<rparr>, \<lparr>pd_Type = ''Initialized'', pd_Status = ''True''\<rparr>,
         \<lparr>pd_Type = ''PodScheduled'', pd_Status = ''True''\<rparr>]
      else [])"

definition convertJobInfo2PodStatus ::
    "status_lib \<Rightarrow> Pod \<Rightarrow> JobInfoResponse \<Rightarrow> PodStatus outcome" where
  "convertJobInfo2PodStatus l pod jobInfo =
     (if length (jr_Info jobInfo) = 0 then Value unknowPodStatus
      else
        let infoDetail = logged_text (sl_Marshal l jobInfo);
            startTime = (case getMinStartTimte l jobInfo of
                           None \<Rightarrow> zero_time | Some t \<Rightarrow> sl_AsTime l (Some t));
            podPhase = slurmState2PodPhase jobInfo
        in case slurmState2ContainerStatuses l pod podPhase jobInfo of
             Panic p \<Rightarrow> Panic p
           | Error e \<Rightarrow> Error e
           | Value statuses \<Rightarrow>
               Value \<lparr>pt_Phase = podPhase, pt_Conditions = slurmStateToPodConditions podPhase,
                      pt_Message = infoDetail, pt_StartTime = Some startTime,
                      pt_ContainerStatuses = statuses\<rparr>)"

definition isSlurmJobFinished :: "JobStatus \<Rightarrow> bool" where
  "isSlurmJobFinished status \<longleftrightarrow> \<not> (status = RUNNING \<or> status = PENDING)"

section \<open>The phase of a pod\<close>

abbreviation statuses :: "JobInfoResponse \<Rightarrow> JobStatus set" where
  "statuses r \<equiv> ji_Status ` set (jr_Info r)"

lemma isAllSlurmJobEnded_iff:
  "isAllSlurmJobEnded is' \<longleftrightarrow> (\<forall>i \<in> set is'. ji_Status i \<notin> {UNKNOWN, PENDING, RUNNING})"
  by (induction is') auto

lemma ended_phase_eq:
  "ended_phase is' p =
     (if \<exists>i \<in> set is'. ji_Status i \<in> {FAILED, CANCELLED, TIMEOUT} then PodFailed else p)"
  by (induction is' arbitrary: p) auto

lemma active_phase_eq:
  "active_phase is' p =
     (if \<exists>i \<in> set is'. ji_Status i = RUNNING then PodRunning
      else if \<exists>i \<in> set is'. ji_Status i = PENDING then PodPending else p)"
  by (induction is' arbitrary: p) auto

lemma phase_of_statuses:
  "slurmState2PodPhase r =
     (if statuses r \<inter> {UNKNOWN, PENDING, RUNNING} = {} then
        (if statuses r \<inter> {FAILED, CANCELLED, TIMEOUT} = {} then PodSucceeded else PodFailed)
      else if RUNNING \<in> statuses r then PodRunning
      else if PENDING \<in> statuses r then PodPending else PodUnknown)"
proof -
  have all: "isAllSlurmJobEnded (jr_Info r) \<longleftrightarrow> statuses r \<inter> {UNKNOWN, PENDING, RUNNING} = {}"
    unfolding isAllSlurmJobEnded_iff by blast
  have "(\<exists>i \<in> set (jr_Info r). ji_Status i \<in> {FAILED, CANCELLED, TIMEOUT}) \<longleftrightarrow>
      statuses r \<inter> {FAILED, CANCELLED, TIMEOUT} \<noteq> {}"
    "(\<exists>i \<in> set (jr_Info r). ji_Status i = s) \<longleftrightarrow> s \<in> statuses r" for s
    by blast+
  then show ?thesis
    unfolding slurmState2PodPhase_def all ended_phase_eq active_phase_eq by simp
qed

lemma completed_iff:
  "S \<subseteq> {COMPLETED} \<longleftrightarrow> S \<inter> {UNKNOWN, PENDING, RUNNING} = {} \<and> S \<inter> {FAILED, CANCELLED, TIMEOUT} = {}"
proof -
  have "x \<in> {COMPLETED, UNKNOWN, PENDING, RUNNING, FAILED, CANCELLED, TIMEOUT}" for x
    by (cases x) simp_all
  then show ?thesis by blast
qed

text \<open>
  C15. The phase of a pod is decided by the states of its Slurm jobs: succeeded when all are
  completed; failed when all have ended and one has failed, was cancelled or timed out; otherwise
  running when one is running, pending when none runs and one is pending, and unknown when the
  jobs that have not ended are all in a state the protocol does not know.
\<close>

theorem slurmState2PodPhase_correct:
  "(slurmState2PodPhase r = PodSucceeded \<longleftrightarrow> statuses r \<subseteq> {COMPLETED}) \<and>
   (slurmState2PodPhase r = PodFailed \<longleftrightarrow>
      statuses r \<inter> {UNKNOWN, PENDING, RUNNING} = {} \<and> statuses r \<inter> {FAILED, CANCELLED, TIMEOUT} \<noteq> {}) \<and>
   (slurmState2PodPhase r = PodRunning \<longleftrightarrow> RUNNING \<in> statuses r) \<and>
   (slurmState2PodPhase r = PodPending \<longleftrightarrow> RUNNING \<notin> statuses r \<and> PENDING \<in> statuses r) \<and>
   (slurmState2PodPhase r = PodUnknown \<longleftrightarrow> statuses r \<inter> {RUNNING, PENDING} = {} \<and> UNKNOWN \<in> statuses r)"
  unfolding completed_iff phase_of_statuses by (auto split: if_splits)


text \<open>
  The states of pod and container do not always agree: after a timeout the pod has failed while its
  container still waits, and the container of a completed job stays running.
\<close>

lemma timeout_container_waits:
  assumes "ji_Status i = TIMEOUT"
  shows "slurmState2PodPhase \<lparr>jr_Info = [i]\<rparr> = PodFailed \<and>
    (\<exists>r m. slurmState2ContainerState l (Some i) = Value (Waiting r m))"
  using assms by (simp add: phase_of_statuses slurmState2ContainerState_def Let_def)

lemma completed_container_runs:
  assumes "ji_Status i = COMPLETED"
  shows "slurmState2PodPhase \<lparr>jr_Info = [i]\<rparr> = PodSucceeded \<and>
    (\<exists>t. slurmState2ContainerState l (Some i) = Value (Running t))"
  using assms by (simp add: phase_of_statuses slurmState2ContainerState_def Let_def)

section \<open>Conversion\<close>

lemma slurmState2ContainerState_value: "\<exists>st. slurmState2ContainerState l (Some i) = Value st"
  by (simp add: slurmState2ContainerState_def Let_def)

lemma map_outcome_value:
  "(\<And>x. x \<in> set xs \<Longrightarrow> \<exists>y. f x = Value y) \<Longrightarrow>
     \<exists>ys. map_outcome f xs = Value ys \<and> list_all2 (\<lambda>x y. f x = Value y) xs ys"
proof (induction xs)
  case (Cons x xs)
  obtain y where y: "f x = Value y" using Cons.prems by auto
  obtain ys where "map_outcome f xs = Value ys" "list_all2 (\<lambda>x y. f x = Value y) xs ys"
    using Cons by auto
  then show ?case using y by simp
qed simp

lemma map_outcome_panic:
  "x \<in> set xs \<Longrightarrow> f x = Panic p \<Longrightarrow> (\<And>z. z \<in> set xs \<Longrightarrow> \<nexists>e. f z = Error e) \<Longrightarrow>
     \<exists>q. map_outcome f xs = Panic q"
proof (induction xs)
  case (Cons y ys)
  show ?case
  proof (cases "f y")
    case (Value v)
    then have "\<exists>q. map_outcome f ys = Panic q" using Cons by auto
    then show ?thesis using Value by auto
  qed (use Cons.prems(3) [of y] in auto)
qed simp

lemma worker_status_related:
  assumes "getRelateSLurmJobInfo c info = Some i"
  shows "\<exists>s. worker_status l info c = Value s \<and> cs_Name s = c_Name c \<and> cs_ContainerID s = ji_Id i \<and>
    cs_Ready s = (ji_Status i \<in> {RUNNING, COMPLETED})"
  using assms by (auto simp: worker_status_def slurmState2ContainerState_def Let_def)

lemma getRelate_Some:
  assumes "c_Name c \<in> ji_Id ` set (jr_Info info)"
  shows "\<exists>i. getRelateSLurmJobInfo c info = Some i \<and> i \<in> set (jr_Info info) \<and> ji_Id i = c_Name c"
proof (cases "getRelateSLurmJobInfo c info")
  case None
  then show ?thesis using assms by (auto simp: getRelateSLurmJobInfo_def find_None_iff)
next
  case (Some i)
  then show ?thesis by (auto simp: getRelateSLurmJobInfo_def find_Some_iff)
qed

text \<open>The pods the conversion is made for: a sizecar pod with its container, a worker pod of these jobs.\<close>

definition fits :: "Pod \<Rightarrow> JobInfoResponse \<Rightarrow> bool" where
  "fits pod info \<longleftrightarrow>
     (pod_label pod LabelsRole = Some RoleSizeCar \<and> ps_Containers (pod_Spec pod) \<noteq> []) \<or>
     (pod_label pod LabelsRole = Some RoleWorker \<and>
      (\<forall>c \<in> set (ps_Containers (pod_Spec pod)). c_Name c \<in> ji_Id ` set (jr_Info info)))"

lemma container_statuses_fit:
  assumes "fits pod info" and "jr_Info info \<noteq> []"
  shows "\<exists>ss. slurmState2ContainerStatuses l pod phase info = Value ss"
proof (cases "pod_label pod LabelsRole = Some RoleSizeCar")
  case True
  then obtain c cs where "ps_Containers (pod_Spec pod) = c # cs"
    using assms(1) by (cases "ps_Containers (pod_Spec pod)") (auto simp: fits_def)
  moreover obtain i is' where "jr_Info info = i # is'" using assms(2) by (cases "jr_Info info") auto
  ultimately show ?thesis
    using True slurmState2ContainerState_value [of l i]
    by (auto simp: slurmState2ContainerStatuses_def map_get_def)
next
  case False
  then have w: "pod_label pod LabelsRole = Some RoleWorker"
    "\<forall>c \<in> set (ps_Containers (pod_Spec pod)). c_Name c \<in> ji_Id ` set (jr_Info info)"
    using assms(1) by (auto simp: fits_def)
  have "\<exists>y. worker_status l info c = Value y" if "c \<in> set (ps_Containers (pod_Spec pod))" for c
    using getRelate_Some [of c info] w(2) that worker_status_related by blast
  then obtain ss where "map_outcome (worker_status l info) (ps_Containers (pod_Spec pod)) = Value ss"
    using map_outcome_value [of "ps_Containers (pod_Spec pod)" "worker_status l info"] by auto
  then show ?thesis using w(1) by (simp add: slurmState2ContainerStatuses_def map_get_def)
qed

lemma convertJobInfo2PodStatus_value:
  assumes "fits pod info" and "sl_Marshal l info = Inr text"
  shows "\<exists>st. convertJobInfo2PodStatus l pod info = Value st \<and>
    (if jr_Info info = [] then st = unknowPodStatus
     else pt_Phase st = slurmState2PodPhase info \<and> pt_Message st = text \<and>
          (pt_Conditions st \<noteq> [] \<longleftrightarrow> RUNNING \<in> statuses info))"
proof (cases "jr_Info info = []")
  case False
  obtain ss where "slurmState2ContainerStatuses l pod (slurmState2PodPhase info) info = Value ss"
    using container_statuses_fit [OF assms(1) False] by blast
  moreover have "slurmState2PodPhase info = PodRunning \<longleftrightarrow> RUNNING \<in> statuses info"
    by (auto simp: phase_of_statuses)
  ultimately show ?thesis
    using False assms(2)
    by (simp add: convertJobInfo2PodStatus_def Let_def logged_text_def slurmStateToPodConditions_def)
qed (simp add: convertJobInfo2PodStatus_def)

text \<open>
  The status of a sizecar pod, and of a worker pod whose containers are named after jobs of the
  message, is computed without a panic: the phase of the jobs, with the jobs themselves as the
  message, which the operator reads back. A pod without job information is reported as unknown.
\<close>

theorem convertJobInfo2PodStatus_correct:
  assumes "fits pod info" and "sl_Marshal l info = Inr text"
  shows "\<exists>st. convertJobInfo2PodStatus l pod info = Value st \<and>
    (if jr_Info info = [] then st = unknowPodStatus
     else pt_Phase st = slurmState2PodPhase info \<and> pt_Message st = text \<and>
          (pt_Conditions st \<noteq> [] \<longleftrightarrow> RUNNING \<in> statuses info))"
  using assms by (rule convertJobInfo2PodStatus_value)

definition sample_lib :: status_lib where
  "sample_lib =
     \<lparr>sl_AsTime = (\<lambda>t. case t of None \<Rightarrow> 0 | Some x \<Rightarrow> sint (ts_Seconds x) * 1000000000),
      sl_IsValid = (\<lambda>t. t \<noteq> None), sl_Marshal = (\<lambda>r. Inr ''{}''), sl_MarshalInfo = (\<lambda>i. Inr ''{}'')\<rparr>"

definition worker_pod :: "string list \<Rightarrow> Pod" where
  "worker_pod names =
     \<lparr>pod_Meta = new_meta ''job-worker'' ''default'' [LabelsRole \<mapsto> RoleWorker],
      pod_Spec = \<lparr>ps_NodeName = ''vk'', ps_Affinity = None, ps_SecurityContext = None, ps_Tolerations = [],
                  ps_Containers = map (\<lambda>n. new_container n ''useless-image'') names,
                  ps_RestartPolicy = ''Never'', ps_Volumes = []\<rparr>,
      pod_Status = zero_PodStatus\<rparr>"

theorem convertJobInfo2PodStatus_correct_witness:
  "\<exists>st. convertJobInfo2PodStatus sample_lib (worker_pod [''7''])
      \<lparr>jr_Info = [zero_JobInfo\<lparr>ji_Id := ''7'', ji_Status := RUNNING\<rparr>]\<rparr> = Value st \<and>
    pt_Phase st = PodRunning"
proof -
  let ?info = "\<lparr>jr_Info = [zero_JobInfo\<lparr>ji_Id := ''7'', ji_Status := RUNNING\<rparr>]\<rparr>"
  have "fits (worker_pod [''7'']) ?info" "sl_Marshal sample_lib ?info = Inr ''{}''"
    by (simp_all add: fits_def worker_pod_def new_meta_def new_container_def sample_lib_def)
  from convertJobInfo2PodStatus_correct [OF this] show ?thesis
    by (auto simp: phase_of_statuses)
qed

text \<open>
  A worker pod with a container whose job is missing from the answer of Slurm makes the
  virtual kubelet dereference a nil pointer.
\<close>

theorem missing_job_panics:
  assumes "pod_label pod LabelsRole = Some RoleWorker" and "jr_Info info \<noteq> []"
    and "c \<in> set (ps_Containers (pod_Spec pod))" and "c_Name c \<notin> ji_Id ` set (jr_Info info)"
  shows "\<exists>p. convertJobInfo2PodStatus l pod info = Panic p"
proof -
  have "getRelateSLurmJobInfo c info = None"
    using assms(4) by (auto simp: getRelateSLurmJobInfo_def find_None_iff image_iff)
  then have "worker_status l info c = Panic NilDereference"
    by (simp add: worker_status_def slurmState2ContainerState_def)
  moreover have "\<nexists>e. worker_status l info z = Error e" for z
    by (auto simp: worker_status_def slurmState2ContainerState_def Let_def split: splits_go)
  ultimately obtain q where "map_outcome (worker_status l info) (ps_Containers (pod_Spec pod)) = Panic q"
    using map_outcome_panic [OF assms(3)] by blast
  then show ?thesis
    using assms(1,2)
    by (simp add: convertJobInfo2PodStatus_def slurmState2ContainerStatuses_def map_get_def)
qed

theorem missing_job_panics_witness:
  "\<exists>p. convertJobInfo2PodStatus sample_lib (worker_pod [''7'', ''8''])
     \<lparr>jr_Info = [zero_JobInfo\<lparr>ji_Id := ''7''\<rparr>]\<rparr> = Panic p"
  by (rule missing_job_panics [of _ _ "new_container ''8'' ''useless-image''"])
     (simp_all add: worker_pod_def new_meta_def new_container_def zero_JobInfo_def)

text \<open>The start time is the earliest valid start of the jobs.\<close>

abbreviation usable_start :: "status_lib \<Rightarrow> JobInfo \<Rightarrow> bool" where
  "usable_start l i \<equiv>
     ji_StartTime i \<noteq> None \<and> sl_IsValid l (ji_StartTime i) \<and> sl_AsTime l (ji_StartTime i) \<noteq> zero_time"

lemma min_start_spec:
  assumes "\<not> sl_IsValid l None"
  shows "(case min_start l is' m of
      None \<Rightarrow> m = None \<and> (\<forall>i \<in> set is'. \<not> usable_start l i)
    | Some t \<Rightarrow>
        (m = Some t \<or> (\<exists>i \<in> set is'. usable_start l i \<and> ji_StartTime i = Some t)) \<and>
        (\<forall>x. m = Some x \<longrightarrow> sl_AsTime l (Some t) \<le> sl_AsTime l (Some x)) \<and>
        (\<forall>i \<in> set is'. usable_start l i \<longrightarrow> sl_AsTime l (Some t) \<le> sl_AsTime l (ji_StartTime i)))"
proof (induction is' arbitrary: m)
  case (Cons i is')
  let ?u = "sl_IsValid l (ji_StartTime i) \<and> sl_AsTime l (ji_StartTime i) \<noteq> zero_time"
  have u: "?u \<longleftrightarrow> usable_start l i" using assms by (cases "ji_StartTime i") auto
  let ?m = "case m of None \<Rightarrow> if ?u then ji_StartTime i else None
    | Some x \<Rightarrow> if ?u \<and> sl_AsTime l (ji_StartTime i) < sl_AsTime l (Some x) then ji_StartTime i else Some x"
  have "min_start l (i # is') m = min_start l is' ?m" by (simp add: Let_def)
  then show ?case
    using Cons.IH [of ?m] u
    by (cases m; cases "min_start l is' ?m"; cases "usable_start l i") (auto split: if_splits)
qed (simp split: option.splits)

text \<open>
  The start time taken for a pod is the earliest among the valid, non-zero start times of its
  jobs, and there is none exactly when no job has such a time.
\<close>

theorem getMinStartTimte_correct:
  assumes "\<not> sl_IsValid l None"
  shows "(getMinStartTimte l r = None \<longleftrightarrow> (\<forall>i \<in> set (jr_Info r). \<not> usable_start l i)) \<and>
    (\<forall>t. getMinStartTimte l r = Some t \<longrightarrow>
       (\<exists>i \<in> set (jr_Info r). usable_start l i \<and> ji_StartTime i = Some t) \<and>
       (\<forall>i \<in> set (jr_Info r). usable_start l i \<longrightarrow> sl_AsTime l (Some t) \<le> sl_AsTime l (ji_StartTime i)))"
  using min_start_spec [OF assms, where is' = "jr_Info r" and m = None]
  by (auto simp: getMinStartTimte_def split: option.splits)

theorem getMinStartTimte_correct_witness:
  "getMinStartTimte sample_lib \<lparr>jr_Info = [zero_JobInfo]\<rparr> = None"
  using getMinStartTimte_correct [of sample_lib "\<lparr>jr_Info = [zero_JobInfo]\<rparr>"]
  by (simp add: sample_lib_def zero_JobInfo_def)

end
