(* ===== verification/VKReader.thy ===== *)
theory VKReader
  imports GoIO Workload
begin

text \<open>
  The log readers of the virtual kubelet (\<^verbatim>\<open>pkg/slurm-virtual-kubelet/reader.go\<close>): byte readers on top
  of the chunk streams of the agent. The client side of a stream is what it still delivers: chunks,
  and then the error that every further receive returns (\<^const>\<open>EOF\<close> at a clean end).
\<close>

section \<open>Streams\<close>

type_synonym stream = "Chunk list \<times> go_error"

fun Recv :: "stream \<Rightarrow> Chunk result \<times> stream" where
  "Recv (c # cs, e) = (Inr c, (cs, e))"
| "Recv ([], e) = (Inl e, ([], e))"

section \<open>OpenFileReader\<close>

record OpenFileReader =
  ofr_OpenFileClient :: "stream list"
  ofr_readIndex :: nat
  ofr_buff :: string

text \<open>The loop that fills the buffer: on to the next file at the end of one that is not the last.\<close>

function read_loop :: "OpenFileReader \<Rightarrow> go_error option \<times> OpenFileReader" where
  "read_loop o' =
     (if ofr_buff o' \<noteq> [] \<or> length (ofr_OpenFileClient o') \<le> ofr_readIndex o' then (None, o')
      else
        (case Recv (ofr_OpenFileClient o' ! ofr_readIndex o') of
           (Inr chunk, s) \<Rightarrow>
             (None, o'\<lparr>ofr_OpenFileClient := (ofr_OpenFileClient o')[ofr_readIndex o' := s],
                       ofr_buff := ch_Content chunk\<rparr>)
         | (Inl err, s) \<Rightarrow>
             (if ofr_readIndex o' = length (ofr_OpenFileClient o') - 1 then (Some err, o')
              else if \<not> errors_Is err EOF then (Some err, o')
              else read_loop (o'\<lparr>ofr_readIndex := ofr_readIndex o' + 1\<rparr>))))"
  by pat_completeness auto
termination
  by (relation "measure (\<lambda>o'. length (ofr_OpenFileClient o') - ofr_readIndex o')") auto

declare read_loop.simps [simp del]

definition OpenFileReader_Read :: "nat \<Rightarrow> OpenFileReader \<Rightarrow> read_result \<times> OpenFileReader" where
  "OpenFileReader_Read n o' =
     (if length (ofr_OpenFileClient o') \<le> ofr_readIndex o'
      then (([], Some (ErrorString ''Read index exceeds OpenFileClient length'')), o')
      else
        case read_loop o' of
          (Some err, o1) \<Rightarrow> (([], Some err), o1)
        | (None, o1) \<Rightarrow>
            (let readLen = (if length (ofr_buff o1) < n then length (ofr_buff o1) else n)
             in ((take readLen (ofr_buff o1), None),
                 o1\<lparr>ofr_buff := drop readLen (ofr_buff o1)\<rparr>)))"

section \<open>TailFileReader\<close>

record TailFileReader =
  tfr_client :: stream
  tfr_buff :: string

definition TailFileReader_Read :: "nat \<Rightarrow> TailFileReader \<Rightarrow> read_result \<times> TailFileReader" where
  "TailFileReader_Read n o' =
     (let (err, o1) =
            (if length (tfr_buff o') = 0 then
               (case Recv (tfr_client o') of
                  (Inl err, s) \<Rightarrow> (Some err, o'\<lparr>tfr_client := s\<rparr>)
                | (Inr chunk, s) \<Rightarrow> (None, o'\<lparr>tfr_client := s, tfr_buff := ch_Content chunk\<rparr>))
             else (None, o'))
      in case err of
           Some e \<Rightarrow> (([], Some e), o1)
         | None \<Rightarrow>
             (let readLen = (if length (tfr_buff o1) < n then length (tfr_buff o1) else n)
              in ((take readLen (tfr_buff o1), None),
                  o1\<lparr>tfr_buff := drop readLen (tfr_buff o1)\<rparr>)))"

section \<open>The readers deliver the streams\<close>

definition stream_bytes :: "stream \<Rightarrow> string" where
  "stream_bytes s = concat (map ch_Content (fst s))"

definition stream_size :: "stream \<Rightarrow> nat" where
  "stream_size s = sum_list (map (\<lambda>c. Suc (length (ch_Content c))) (fst s))"

text \<open>What is left of a sequence of files: a file that breaks off ends the sequence.\<close>

fun pending :: "stream list \<Rightarrow> string" where
  "pending [] = []"
| "pending (s # ss) = stream_bytes s @ (if errors_Is (snd s) EOF then pending ss else [])"

definition ofr_content :: "OpenFileReader \<Rightarrow> string" where
  "ofr_content o' = ofr_buff o' @ pending (drop (ofr_readIndex o') (ofr_OpenFileClient o'))"

definition ofr_left :: "OpenFileReader \<Rightarrow> nat" where
  "ofr_left o' =
     length (ofr_buff o') +
     sum_list (map stream_size (drop (ofr_readIndex o') (ofr_OpenFileClient o')))"

lemma take_readLen:
  "take (if length b < n then length b else n) b = take n b"
  "drop (if length b < n then length b else n) b = drop n b"
  by simp_all

lemma read_loop_spec:
  "read_loop o' = (err, o1) \<Longrightarrow>
     ofr_content o1 = ofr_content o' \<and>
     (err = Some EOF \<longrightarrow> ofr_content o1 = []) \<and>
     (err = None \<longrightarrow> ofr_readIndex o' < length (ofr_OpenFileClient o') \<longrightarrow>
        (o1 = o' \<and> ofr_buff o' \<noteq> []) \<or> ofr_left o1 < ofr_left o')"
proof (induction o' rule: read_loop.induct)
  case (1 o')
  let ?i = "ofr_readIndex o'" and ?cs = "ofr_OpenFileClient o'"
  show ?case
  proof (cases "ofr_buff o' \<noteq> [] \<or> length ?cs \<le> ?i")
    case True
    then show ?thesis using 1(2) by (subst (asm) read_loop.simps) auto
  next
    case False
    then have i: "?i < length ?cs" "ofr_buff o' = []" by auto
    then have d: "drop ?i ?cs = ?cs ! ?i # drop (Suc ?i) ?cs" by (simp add: Cons_nth_drop_Suc)
    obtain chunks e where s: "?cs ! ?i = (chunks, e)" by (cases "?cs ! ?i")
    show ?thesis
    proof (cases chunks)
      case (Cons c cs)
      have d': "drop ?i (?cs[?i := (cs, e)]) = (cs, e) # drop (Suc ?i) ?cs"
        using i by (simp add: drop_update_swap d)
      have "err = None" "o1 = o'\<lparr>ofr_OpenFileClient := ?cs[?i := (cs, e)], ofr_buff := ch_Content c\<rparr>"
        using 1(2) i s Cons by (simp_all add: read_loop.simps [of o'])
      then show ?thesis
        using d d' i s Cons by (simp add: ofr_content_def ofr_left_def stream_bytes_def stream_size_def)
    next
      case Nil
      show ?thesis
      proof (cases "?i = length ?cs - 1 \<or> \<not> errors_Is e EOF")
        case True
        then have "err = Some e" "o1 = o'"
          using 1(2) i s Nil by (auto simp: read_loop.simps [of o'] split: if_splits)
        moreover have "ofr_content o' = []" if "e = EOF"
          using d s i Nil True that by (auto simp: ofr_content_def stream_bytes_def)
        ultimately show ?thesis by simp
      next
        case False
        let ?o = "o'\<lparr>ofr_readIndex := ?i + 1\<rparr>"
        have r: "read_loop ?o = (err, o1)" using 1(2) i s Nil False by (simp add: read_loop.simps [of o'])
        have same: "ofr_content ?o = ofr_content o'" "ofr_left ?o = ofr_left o'"
          using d s Nil False by (simp_all add: ofr_content_def ofr_left_def stream_bytes_def stream_size_def)
        have "ofr_readIndex ?o < length (ofr_OpenFileClient ?o)" using i False by auto
        moreover have "(Inl e, ([], e)) = Recv (?cs ! ?i)" using s Nil by simp
        ultimately show ?thesis
          using 1(1) [of "Inl e" "([], e)" e] r same i False by auto
      qed
    qed
  qed
qed


lemma OpenFileReader_Read_spec:
  assumes "OpenFileReader_Read n o' = ((b, e), o1)"
  shows "ofr_content o' = b @ ofr_content o1 \<and> length b \<le> n \<and> (e = Some EOF \<longrightarrow> ofr_content o1 = []) \<and>
    (e = None \<longrightarrow> 0 < n \<longrightarrow> ofr_left o1 < ofr_left o')"
proof (cases "length (ofr_OpenFileClient o') \<le> ofr_readIndex o'")
  case True
  then show ?thesis using assms by (auto simp: OpenFileReader_Read_def)
next
  case False
  obtain err o2 where r: "read_loop o' = (err, o2)" by (metis surj_pair)
  note spec = read_loop_spec [OF r]
  show ?thesis
  proof (cases err)
    case None
    then have "b = take n (ofr_buff o2)" "e = None" "o1 = o2\<lparr>ofr_buff := drop n (ofr_buff o2)\<rparr>"
      using assms False r by (auto simp: OpenFileReader_Read_def take_readLen Let_def)
    moreover have "ofr_left o1 \<le> ofr_left o2" "ofr_buff o2 \<noteq> [] \<Longrightarrow> 0 < n \<Longrightarrow> ofr_left o1 < ofr_left o2"
      using calculation by (auto simp: ofr_left_def)
    moreover have "ofr_content o2 = b @ ofr_content o1"
      using calculation by (simp add: ofr_content_def flip: append_assoc)
    ultimately show ?thesis
      using spec None False by auto
  next
    case (Some x)
    then show ?thesis using assms False r spec by (auto simp: OpenFileReader_Read_def)
  qed
qed

text \<open>Both readers are finite readers of what their streams hold.\<close>

interpretation ofr: finite_reader OpenFileReader_Read ofr_content "\<lambda>_. True" ofr_left
proof (unfold_locales, goal_cases)
  case (2 r n b e r') then show ?case using OpenFileReader_Read_spec by blast
next
  case (3 r n b e r') then show ?case using OpenFileReader_Read_spec by blast
next
  case (4 r n b r') then show ?case using OpenFileReader_Read_spec by blast
next
  case (5 r n b r') then show ?case using OpenFileReader_Read_spec by blast
qed simp

definition tfr_content :: "TailFileReader \<Rightarrow> string" where
  "tfr_content o' = tfr_buff o' @ stream_bytes (tfr_client o')"

definition tfr_left :: "TailFileReader \<Rightarrow> nat" where
  "tfr_left o' = length (tfr_buff o') + stream_size (tfr_client o')"

lemma TailFileReader_Read_spec:
  assumes "TailFileReader_Read n o' = ((b, e), o1)"
  shows "tfr_content o' = b @ tfr_content o1 \<and> length b \<le> n \<and> (e = Some EOF \<longrightarrow> tfr_content o1 = []) \<and>
    (e = None \<longrightarrow> 0 < n \<longrightarrow> tfr_left o1 < tfr_left o')"
proof (cases "tfr_buff o' = []")
  case True
  obtain cs x where "tfr_client o' = (cs, x)" by (metis surj_pair)
  then show ?thesis
    using assms True
    by (cases cs) (auto simp: TailFileReader_Read_def tfr_content_def tfr_left_def stream_bytes_def
        stream_size_def take_readLen Let_def)
next
  case False
  then show ?thesis
    using assms by (auto simp: TailFileReader_Read_def tfr_content_def tfr_left_def take_readLen Let_def)
qed

interpretation tfr: finite_reader TailFileReader_Read tfr_content "\<lambda>_. True" tfr_left
proof (unfold_locales, goal_cases)
  case (2 r n b e r') then show ?case using TailFileReader_Read_spec by blast
next
  case (3 r n b e r') then show ?case using TailFileReader_Read_spec by blast
next
  case (4 r n b r') then show ?case using TailFileReader_Read_spec by blast
next
  case (5 r n b r') then show ?case using TailFileReader_Read_spec by blast
qed simp

section \<open>Clean streams\<close>

definition ofr_clean :: "OpenFileReader \<Rightarrow> bool" where
  "ofr_clean o' \<longleftrightarrow>
     ofr_readIndex o' < length (ofr_OpenFileClient o') \<and> (\<forall>s \<in> set (ofr_OpenFileClient o'). snd s = EOF)"

lemma read_loop_clean:
  "read_loop o' = (err, o1) \<Longrightarrow> ofr_clean o' \<Longrightarrow> ofr_clean o1 \<and> (err = None \<or> err = Some EOF)"
proof (induction o' rule: read_loop.induct)
  case (1 o')
  let ?i = "ofr_readIndex o'" and ?cs = "ofr_OpenFileClient o'"
  obtain chunks e where s: "?cs ! ?i = (chunks, e)" by (cases "?cs ! ?i")
  have i: "?i < length ?cs" and "e = EOF"
    using 1(3) s nth_mem [of ?i ?cs] by (force simp: ofr_clean_def)+
  show ?case
  proof (cases chunks)
    case (Cons c cs)
    have "ofr_clean (o'\<lparr>ofr_OpenFileClient := ?cs[?i := (cs, e)], ofr_buff := ch_Content c\<rparr>)"
      using 1(3) \<open>e = EOF\<close> by (auto simp: ofr_clean_def dest!: set_update_subset_insert [THEN subsetD])
    then show ?thesis
      using 1(2,3) s Cons by (auto simp: read_loop.simps [of o'] split: if_splits)
  next
    case Nil
    have "(Inl e, ([], e)) = Recv (?cs ! ?i)" using s Nil by simp
    moreover have "ofr_clean (o'\<lparr>ofr_readIndex := ?i + 1\<rparr>)" if "?i \<noteq> length ?cs - 1"
      using 1(3) that by (auto simp: ofr_clean_def)
    ultimately show ?thesis
      using 1(1) [of "Inl e" "([], e)" e] 1(2,3) s Nil \<open>e = EOF\<close> i
      by (auto simp: read_loop.simps [of o'] split: if_splits)
  qed
qed

lemma OpenFileReader_Read_clean:
  assumes "ofr_clean o'" and "OpenFileReader_Read n o' = ((b, e), o1)"
  shows "ofr_clean o1 \<and> (e = None \<or> e = Some EOF)"
proof -
  obtain err o2 where r: "read_loop o' = (err, o2)" by (metis surj_pair)
  have "ofr_clean o2 \<and> (err = None \<or> err = Some EOF)" using read_loop_clean [OF r assms(1)] .
  moreover have "\<not> length (ofr_OpenFileClient o') \<le> ofr_readIndex o'" using assms(1) by (simp add: ofr_clean_def)
  ultimately show ?thesis
    using assms(2) r by (auto simp: OpenFileReader_Read_def Let_def ofr_clean_def split: option.splits)
qed

interpretation ofr_all: clean_reader OpenFileReader_Read ofr_content ofr_clean ofr_left
proof (unfold_locales, goal_cases)
  case (1 r n b e r') then show ?case using OpenFileReader_Read_clean by blast
next
  case (2 r n b e r') then show ?case using OpenFileReader_Read_spec by blast
next
  case (3 r n b e r') then show ?case using OpenFileReader_Read_spec by blast
next
  case (4 r n b r') then show ?case using OpenFileReader_Read_spec by blast
next
  case (5 r n b r') then show ?case using OpenFileReader_Read_spec by blast
next
  case (6 r n b e r') then show ?case using OpenFileReader_Read_clean by blast
qed

lemma pending_clean: "\<forall>s \<in> set ss. snd s = EOF \<Longrightarrow> pending ss = concat (map stream_bytes ss)"
  by (induction ss) simp_all

text \<open>
  Reading the logs of a job through an \<^verbatim>\<open>OpenFileReader\<close>, with non-empty buffers of any sizes,
  gives the content of all its files, one after the other, and then \<^const>\<open>EOF\<close>, after a number of
  reads bounded by the chunks and bytes of the files.
\<close>

theorem OpenFileReader_reads_all:
  assumes "files \<noteq> []" and "\<forall>s \<in> set files. snd s = EOF"
    and "sum_list (map stream_size files) < length ns" and "\<forall>n \<in> set ns. 0 < n"
  shows "\<exists>o1. reads OpenFileReader_Read ns
      \<lparr>ofr_OpenFileClient = files, ofr_readIndex = 0, ofr_buff = []\<rparr> =
    ((concat (map stream_bytes files), Some EOF), o1)"
proof -
  let ?o = "\<lparr>ofr_OpenFileClient = files, ofr_readIndex = 0, ofr_buff = []\<rparr>"
  have "ofr_clean ?o" "ofr_content ?o = concat (map stream_bytes files)"
    "ofr_left ?o = sum_list (map stream_size files)"
    using assms(1,2) by (simp_all add: ofr_clean_def ofr_content_def ofr_left_def pending_clean)
  then show ?thesis using ofr_all.reads_all [of ?o ns] assms(3,4) by simp
qed

theorem OpenFileReader_reads_all_witness:
  "\<exists>o1. reads OpenFileReader_Read (replicate 9 2)
      \<lparr>ofr_OpenFileClient = [([\<lparr>ch_Content = ''abc''\<rparr>], EOF), ([\<lparr>ch_Content = ''d''\<rparr>], EOF)],
       ofr_readIndex = 0, ofr_buff = []\<rparr> = ((''abcd'', Some EOF), o1)"
  using OpenFileReader_reads_all
      [of "[([\<lparr>ch_Content = ''abc''\<rparr>], EOF), ([\<lparr>ch_Content = ''d''\<rparr>], EOF)]" "replicate 9 2"]
  by (simp add: stream_size_def stream_bytes_def)

text \<open>A reader without files fails at once.\<close>

lemma OpenFileReader_no_files:
  "OpenFileReader_Read n \<lparr>ofr_OpenFileClient = [], ofr_readIndex = i, ofr_buff = b\<rparr> =
     (([], Some (ErrorString ''Read index exceeds OpenFileClient length'')),
      \<lparr>ofr_OpenFileClient = [], ofr_readIndex = i, ofr_buff = b\<rparr>)"
  by (simp add: OpenFileReader_Read_def)

end
