(* ===== verification/VKOptions.thy ===== *)
theory VKOptions
  imports KubeTypes GoPath
begin

text \<open>
  The options of the virtual kubelet: its flags and configuration with their defaults
  (\<^verbatim>\<open>cmd/slurm-virtual-kubelet/app/options/options.go\<close>, \<^verbatim>\<open>slurm_virtual_kubelet_defaults.go\<close>), the labels a
  kubelet may set on its node (\<^verbatim>\<open>labels/well_known_labels.go\<close>), the validation of both, and the labels
  \<^verbatim>\<open>server.go\<close> puts on the node. The checks of apimachinery (qualified names, label values, ports,
  aggregation of errors, the order of a set's listing) and the lookup of the host name are parameters,
  collected in the record \<open>options_lib\<close>. The node labels are iterated over, so they are an
  association list whose order stands for the order of the iteration.
\<close>

section \<open>Flags and configuration\<close>

record SlurmVirtualKubeletFlags =
  fl_KubeConfig :: string
  fl_NodeName :: string
  fl_NodeIP :: string
  fl_NodeLabels :: "(string \<times> string) list"
  fl_VirtualKubeletConfigFile :: string
  fl_KubeNamespace :: string
  fl_OperatingSystem :: string
  fl_Provider :: string
  fl_ProviderConfigPath :: string
  fl_AgentEndpoint :: string
  fl_SlurmPartition :: string
  fl_MetricsAddr :: string
  fl_PodSyncWorkers :: int64
  fl_InformerResyncPeriod :: duration
  fl_EnableNodeLease :: bool
  fl_TraceExporters :: "string list"
  fl_TraceSampleRate :: string
  fl_TraceTags :: "(string \<times> string) list"
  fl_StartupTimeout :: duration
  fl_Version :: string

definition zero_Flags :: SlurmVirtualKubeletFlags where
  "zero_Flags =
     \<lparr>fl_KubeConfig = [], fl_NodeName = [], fl_NodeIP = [], fl_NodeLabels = [],
      fl_VirtualKubeletConfigFile = [], fl_KubeNamespace = [], fl_OperatingSystem = [],
      fl_Provider = [], fl_ProviderConfigPath = [], fl_AgentEndpoint = [], fl_SlurmPartition = [],
      fl_MetricsAddr = [], fl_PodSyncWorkers = 0, fl_InformerResyncPeriod = 0,
      fl_EnableNodeLease = False, fl_TraceExporters = [], fl_TraceSampleRate = [], fl_TraceTags = [],
      fl_StartupTimeout = 0, fl_Version = []\<rparr>"

record SlurmVirtualKubeletConfiguration =
  cg_Pods :: string
  cg_EnableServer :: bool
  cg_StaticPodPath :: string
  cg_SyncFrequency :: duration
  cg_FileCheckFrequency :: duration
  cg_HTTPCheckFrequency :: duration
  cg_StaticPodURL :: string
  cg_StaticPodURLHeader :: "(string \<times> string list) list"
  cg_Address :: string
  cg_Port :: int32
  cg_ReadOnlyPort :: int32
  cg_VolumePluginDir :: string
  cg_ProviderID :: string
  cg_TLSCertFile :: string
  cg_TLSPrivateKeyFile :: string
  cg_TLSCipherSuites :: "string list"
  cg_TLSMinVersion :: string
  cg_RotateCertificates :: bool
  cg_ServerTLSBootstrap :: bool

definition zero_Configuration :: SlurmVirtualKubeletConfiguration where
  "zero_Configuration =
     \<lparr>cg_Pods = [], cg_EnableServer = False, cg_StaticPodPath = [], cg_SyncFrequency = 0,
      cg_FileCheckFrequency = 0, cg_HTTPCheckFrequency = 0, cg_StaticPodURL = [],
      cg_StaticPodURLHeader = [], cg_Address = [], cg_Port = 0, cg_ReadOnlyPort = 0,
      cg_VolumePluginDir = [], cg_ProviderID = [], cg_TLSCertFile = [], cg_TLSPrivateKeyFile = [],
      cg_TLSCipherSuites = [], cg_TLSMinVersion = [], cg_RotateCertificates = False,
      cg_ServerTLSBootstrap = False\<rparr>"

record SlurmVirtualKubeletServer =
  ks_Flags :: SlurmVirtualKubeletFlags
  ks_Configuration :: SlurmVirtualKubeletConfiguration

section \<open>Defaults\<close>

text \<open>The environment variables and the home directory (empty when it cannot be found).\<close>

record os_env =
  os_Env :: "string \<rightharpoonup> string"
  os_Home :: string

definition getEnvOrDefault :: "os_env \<Rightarrow> string \<Rightarrow> string \<Rightarrow> string" where
  "getEnvOrDefault env k defaultValue =
     (case os_Env env k of Some v \<Rightarrow> v | None \<Rightarrow> defaultValue)"

definition default_kubeconfig :: "os_env \<Rightarrow> string" where
  "default_kubeconfig env =
     (if map_get (os_Env env) ''KUBECONFIG'' \<noteq> [] then map_get (os_Env env) ''KUBECONFIG''
      else if os_Home env \<noteq> [] then filepath_Join [os_Home env, ''.kube'', ''config'']
      else [])"

definition setDefaultSlurmVirtualKubeletFlags ::
    "os_env \<Rightarrow> SlurmVirtualKubeletFlags \<Rightarrow> SlurmVirtualKubeletFlags" where
  "setDefaultSlurmVirtualKubeletFlags env c0 =
     (let c1 = (if fl_OperatingSystem c0 = [] then c0\<lparr>fl_OperatingSystem := ''Linux''\<rparr> else c0);
          c2 = (if fl_NodeName c1 = []
                then c1\<lparr>fl_NodeName := getEnvOrDefault env ''DEFAULT_NODE_NAME'' ''virtual-kubelet''\<rparr>
                else c1);
          c3 = (if fl_InformerResyncPeriod c2 = 0 then c2\<lparr>fl_InformerResyncPeriod := 1 * Minute\<rparr> else c2);
          c4 = (if fl_MetricsAddr c3 = [] then c3\<lparr>fl_MetricsAddr := '':10255''\<rparr> else c3);
          c5 = (if fl_PodSyncWorkers c4 = 0 then c4\<lparr>fl_PodSyncWorkers := 10\<rparr> else c4);
          c6 = (if fl_KubeNamespace c5 = [] then c5\<lparr>fl_KubeNamespace := []\<rparr> else c5);
          c7 = (if fl_KubeConfig c6 = [] then c6\<lparr>fl_KubeConfig := default_kubeconfig env\<rparr> else c6);
          c8 = (if fl_Version c7 = [] then c7\<lparr>fl_Version := ''v0.0.1''\<rparr> else c7)
      in c8)"

definition NewSlurmVirtualKubeletFlags :: "os_env \<Rightarrow> SlurmVirtualKubeletFlags" where
  "NewSlurmVirtualKubeletFlags env = setDefaultSlurmVirtualKubeletFlags env zero_Flags"

definition SetDefaults_SlurmVirtualKubeletConfiguration ::
    "SlurmVirtualKubeletConfiguration \<Rightarrow> SlurmVirtualKubeletConfiguration" where
  "SetDefaults_SlurmVirtualKubeletConfiguration c0 =
     (let c1 = (if cg_Port c0 = 0 then c0\<lparr>cg_Port := 10250\<rparr> else c0);
          c2 = (if cg_Address c1 = [] then c1\<lparr>cg_Address := ''0.0.0.0''\<rparr> else c1);
          c3 = (if cg_Pods c2 = [] then c2\<lparr>cg_Pods := ''10000''\<rparr> else c2);
          c4 = (if cg_TLSCertFile c3 = [] \<or> cg_TLSPrivateKeyFile c3 = []
                then c3\<lparr>cg_TLSCertFile := ''/var/lib/kubelet/pki/kubelet.crt'',
                        cg_TLSPrivateKeyFile := ''/var/lib/kubelet/pki/kubelet.key''\<rparr>
                else c3)
      in c4)"

section \<open>Labels\<close>

definition getLabelNamespace :: "string \<Rightarrow> string" where
  "getLabelNamespace key =
     (let parts = SplitN2 key slash in if length parts = 2 then parts ! 0 else [])"

definition kubeletLabels :: "string list" where
  "kubeletLabels =
     [''kubernetes.io/hostname'', ''topology.kubernetes.io/zone'', ''topology.kubernetes.io/region'',
      ''failure-domain.beta.kubernetes.io/zone'', ''failure-domain.beta.kubernetes.io/region'',
      ''beta.kubernetes.io/instance-type'', ''node.kubernetes.io/instance-type'', ''kubernetes.io/os'',
      ''kubernetes.io/arch'', ''beta.kubernetes.io/os'', ''beta.kubernetes.io/arch'',
      ''alpha.service-slurm-bridge-operator.kubernetes.io/exclude-balancer'',
      ''node.kubernetes.io/exclude-from-external-load-balancers'', ''kubernetes.io/role'']"

definition kubeletLabelNamespaces :: "string list" where
  "kubeletLabelNamespaces = [''kubelet.kubernetes.io'', ''node.kubernetes.io'']"

definition IsKubeletLabel :: "string \<Rightarrow> bool" where
  "IsKubeletLabel key \<longleftrightarrow>
     key \<in> set kubeletLabels \<or>
     list_ex (\<lambda>ns. getLabelNamespace key = ns \<or> HasSuffix (getLabelNamespace key) (''.'' @ ns))
       kubeletLabelNamespaces"

definition isKubernetesLabel :: "string \<Rightarrow> bool" where
  "isKubernetesLabel key \<longleftrightarrow>
     (let ns = getLabelNamespace key in
      ns = ''kubernetes.io'' \<or> HasSuffix ns ''.kubernetes.io'' \<or>
      ns = ''k8s.io'' \<or> HasSuffix ns ''.k8s.io'')"

section \<open>Validation\<close>

record options_lib =
  ol_IsQualifiedName :: "string \<Rightarrow> string list"
  ol_IsValidLabelValue :: "string \<Rightarrow> string list"
  ol_IsValidPortNum :: "int \<Rightarrow> string list"
  ol_NewAggregate :: "go_error list \<Rightarrow> go_error option"
  ol_List :: "string set \<Rightarrow> string list"
  ol_GetHostname :: "string \<Rightarrow> string result"

definition add_label_errors ::
    "string \<Rightarrow> string list \<Rightarrow> (string \<times> string list) list \<Rightarrow> (string \<times> string list) list" where
  "add_label_errors k errs m =
     (if length errs > 0
      then AList.update k ((case map_of m k of None \<Rightarrow> [] | Some es \<Rightarrow> es) @ errs) m else m)"

definition label_errors :: "options_lib \<Rightarrow> (string \<times> string) list \<Rightarrow> (string \<times> string list) list" where
  "label_errors L labels =
     fold (\<lambda>(k, v) m. add_label_errors v (ol_IsValidLabelValue L v)
                        (add_label_errors k (ol_IsQualifiedName L k) m)) labels []"

definition unknown_labels :: "(string \<times> string) list \<Rightarrow> string set" where
  "unknown_labels labels =
     set (filter (\<lambda>k. isKubernetesLabel k \<and> \<not> IsKubeletLabel k) (map fst labels))"

definition ValidateKubeletFlags :: "options_lib \<Rightarrow> SlurmVirtualKubeletFlags \<Rightarrow> go_error option" where
  "ValidateKubeletFlags L f =
     (let unknownLabels = unknown_labels (fl_NodeLabels f);
          invalidLabelErrs = label_errors L (fl_NodeLabels f)
      in if unknownLabels \<noteq> {} then
           Some (ErrorString
             (''unknown 'kubernetes.io' or 'k8s.io' labels specified with --node-labels: ['' @
              Join (ol_List L unknownLabels) '' '' @ '']'' @ [CHR 0x0A] @
              ''--node-labels in the 'kubernetes.io' namespace must begin with an allowed prefix ('' @
              Join (ol_List L (set kubeletLabelNamespaces)) '', '' @
              '') or be in the specifically allowed set ('' @
              Join (ol_List L (set kubeletLabels)) '', '' @ '')''))
         else if length invalidLabelErrs > 0 then
           Some (ErrorString
             (''invalid node labels: '' @
              Join (map (\<lambda>(k, v). [CHR 0x27] @ k @ [CHR 0x27] @ '' - '' @ Join v '', '') invalidLabelErrs) ''; ''))
         else if fl_PodSyncWorkers f = 0 then
           Some (ErrorString ''pod sync workers must be greater than 0'')
         else if fl_SlurmPartition f = [] then
           Some (ErrorString ''slurm partition can not be empty'')
         else None)"

definition config_errors :: "options_lib \<Rightarrow> SlurmVirtualKubeletConfiguration \<Rightarrow> go_error list" where
  "config_errors L kc =
     (if ol_IsValidPortNum L (sint (cg_Port kc)) \<noteq> []
      then [ErrorString (''invalid configuration: port (--port) '' @ FormatInt (sint (cg_Port kc)) @
              '' must be between 1 and 65535, inclusive'')] else []) @
     (if cg_ReadOnlyPort kc \<noteq> 0 \<and> ol_IsValidPortNum L (sint (cg_ReadOnlyPort kc)) \<noteq> []
      then [ErrorString (''invalid configuration: readOnlyPort (--read-only-port) '' @
              FormatInt (sint (cg_ReadOnlyPort kc)) @ '' must be between 0 and 65535, inclusive'')] else [])"

definition ValidateSlurmVirtualKubeletConfiguration ::
    "options_lib \<Rightarrow> SlurmVirtualKubeletConfiguration \<Rightarrow> go_error option" where
  "ValidateSlurmVirtualKubeletConfiguration L kc = ol_NewAggregate L (config_errors L kc)"

definition ValidateKubeletServer :: "options_lib \<Rightarrow> SlurmVirtualKubeletServer \<Rightarrow> go_error option" where
  "ValidateKubeletServer L s =
     (case ValidateSlurmVirtualKubeletConfiguration L (ks_Configuration s) of
        Some err \<Rightarrow> Some err
      | None \<Rightarrow> ValidateKubeletFlags L (ks_Flags s))"

section \<open>The labels of the node\<close>

definition vk_node_labels :: "string \<Rightarrow> string \<Rightarrow> (string \<times> string) list" where
  "vk_node_labels hostName part = DefaultNodeSelectors @
     [(''alpha.service-slurm-bridge-operator.kubernetes.io/exclude-balancer'', ''true''),
      (''node.kubernetes.io/exclude-from-external-load-balancers'', ''true''),
      (''kubernetes.io/role'', ''slurm-bridge''),
      (''kubernetes.io/hostname'', hostName),
      (PartitionLabel, part)]"

definition setDefaultSlurmVKFlags ::
    "options_lib \<Rightarrow> SlurmVirtualKubeletFlags \<Rightarrow> SlurmVirtualKubeletFlags result" where
  "setDefaultSlurmVKFlags L flags =
     (case ol_GetHostname L (fl_NodeName flags) of
        Inl err \<Rightarrow> Inl err
      | Inr hostName \<Rightarrow>
          Inr (flags\<lparr>fl_NodeName := hostName,
                     fl_NodeLabels :=
                       AList.updates (map fst (vk_node_labels hostName (fl_SlurmPartition flags)))
                         (map snd (vk_node_labels hostName (fl_SlurmPartition flags)))
                         (fl_NodeLabels flags)\<rparr>))"

section \<open>What validation accepts\<close>

lemma add_label_errors_empty [simp]:
  "add_label_errors k errs m = [] \<longleftrightarrow> errs = [] \<and> m = []"
  by (cases m) (auto simp: add_label_errors_def split: if_splits)

lemma label_errors_empty:
  "label_errors L labels = [] \<longleftrightarrow>
     list_all (\<lambda>(k, v). ol_IsQualifiedName L k = [] \<and> ol_IsValidLabelValue L v = []) labels"
proof -
  let ?f = "\<lambda>(k, v) m. add_label_errors v (ol_IsValidLabelValue L v)
                        (add_label_errors k (ol_IsQualifiedName L k) m)"
  have "fold ?f labels m = [] \<longleftrightarrow>
      m = [] \<and> list_all (\<lambda>(k, v). ol_IsQualifiedName L k = [] \<and> ol_IsValidLabelValue L v = []) labels" for m
    by (induction labels arbitrary: m) (auto split: prod.splits)
  then show ?thesis by (simp add: label_errors_def)
qed

lemma ValidateKubeletFlags_None:
  "ValidateKubeletFlags L f = None \<longleftrightarrow>
     unknown_labels (fl_NodeLabels f) = {} \<and> label_errors L (fl_NodeLabels f) = [] \<and>
     fl_PodSyncWorkers f \<noteq> 0 \<and> fl_SlurmPartition f \<noteq> []"
  by (auto simp: ValidateKubeletFlags_def Let_def)

lemma vk_labels_known: "unknown_labels (vk_node_labels h p) = {}"
  by (simp add: unknown_labels_def vk_node_labels_def DefaultNodeSelectors_def PartitionLabel_def
      isKubernetesLabel_def IsKubeletLabel_def kubeletLabels_def getLabelNamespace_def SplitN2_def
      HasSuffix_def Let_def suffix_def append_eq_Cons_conv Cons_eq_append_conv)

lemma updates_fresh:
  "distinct (map fst xs) \<Longrightarrow> AList.updates (map fst xs) (map snd xs) [] = xs"
proof -
  assume d: "distinct (map fst xs)"
  have "AList.updates (map fst xs) (map snd xs) ys = ys @ xs"
    if "distinct (map fst xs)" "fst ` set xs \<inter> fst ` set ys = {}" for xs ys :: "('a \<times> 'b) list"
    using that
  proof (induction xs arbitrary: ys)
    case (Cons x xs)
    then have "fst x \<notin> fst ` set ys" by auto
    then have "AList.update (fst x) (snd x) ys = ys @ [x]"
      by (induction ys) auto
    moreover have "AList.updates (map fst xs) (map snd xs) (ys @ [x]) = (ys @ [x]) @ xs"
      by (rule Cons.IH) (use Cons.prems in auto)
    ultimately show ?case by (cases x) (simp add: AList.updates_def)
  qed (simp add: AList.updates_def)
  from this [of xs "[]"] d show ?thesis by simp
qed

lemma NewSlurmVirtualKubeletFlags_fields [simp]:
  "fl_NodeLabels (NewSlurmVirtualKubeletFlags env) = []"
  "fl_PodSyncWorkers (NewSlurmVirtualKubeletFlags env) = 10"
  by (simp_all add: NewSlurmVirtualKubeletFlags_def setDefaultSlurmVirtualKubeletFlags_def
      zero_Flags_def Let_def)

lemma vk_node_labels_distinct: "distinct (map fst (vk_node_labels h p))"
  by (simp add: vk_node_labels_def DefaultNodeSelectors_def PartitionLabel_def)

lemma setDefaultSlurmVKFlags_labels:
  "setDefaultSlurmVKFlags L fl = Inr f \<Longrightarrow> fl_NodeLabels fl = [] \<Longrightarrow>
     fl_NodeLabels f = vk_node_labels (fl_NodeName f) (fl_SlurmPartition fl) \<and>
     fl_SlurmPartition f = fl_SlurmPartition fl \<and> fl_PodSyncWorkers f = fl_PodSyncWorkers fl \<and>
     fl_AgentEndpoint f = fl_AgentEndpoint fl"
  by (auto simp: setDefaultSlurmVKFlags_def updates_fresh vk_node_labels_distinct split: sum.splits)

text \<open>
  C33. A kubelet that is given a node name, a partition and an agent on its command line passes the
  validation of its flags with the labels it sets on its own node, also those in the
  \<^verbatim>\<open>kubernetes.io\<close> namespace, if the host name and the partition are valid label values; and the node
  carries the partition and the type that jobs select.
\<close>

theorem kubelet_flags_accepted:
  assumes "setDefaultSlurmVKFlags L
      (NewSlurmVirtualKubeletFlags env
         \<lparr>fl_NodeName := n, fl_SlurmPartition := p, fl_AgentEndpoint := a\<rparr>) = Inr f"
    and "p \<noteq> []"
    and "list_all (\<lambda>(k, v). ol_IsQualifiedName L k = [] \<and> ol_IsValidLabelValue L v = [])
      (vk_node_labels (fl_NodeName f) p)"
  shows "ValidateKubeletFlags L f = None \<and>
    map_of (fl_NodeLabels f) PartitionLabel = Some p \<and>
    map_of (fl_NodeLabels f) ''type'' = Some ''virtual-kubelet''"
  using setDefaultSlurmVKFlags_labels [OF assms(1)] assms(2,3) vk_labels_known
  by (simp add: ValidateKubeletFlags_None label_errors_empty)
     (simp add: vk_node_labels_def DefaultNodeSelectors_def PartitionLabel_def)

definition sample_options_lib :: options_lib where
  "sample_options_lib =
     \<lparr>ol_IsQualifiedName = (\<lambda>k. if k = [] then [''name part must be non-empty''] else []),
      ol_IsValidLabelValue = (\<lambda>v. if length v \<le> 63 then [] else [''must be no more than 63 characters'']),
      ol_IsValidPortNum = (\<lambda>n. if 1 \<le> n \<and> n \<le> 65535 then [] else [''must be between 1 and 65535'']),
      ol_NewAggregate = (\<lambda>es. case es of [] \<Rightarrow> None | e # _ \<Rightarrow> Some e),
      ol_List = (\<lambda>s. []),
      ol_GetHostname = (\<lambda>n. if n = [] then Inl (ErrorString ''empty hostname is invalid'') else Inr n)\<rparr>"

theorem kubelet_flags_accepted_witness:
  "\<exists>f. setDefaultSlurmVKFlags sample_options_lib
      (NewSlurmVirtualKubeletFlags \<lparr>os_Env = Map.empty, os_Home = ''/root''\<rparr>
         \<lparr>fl_NodeName := ''slurm-partition-debug'', fl_SlurmPartition := ''debug'',
          fl_AgentEndpoint := ''agent:9999''\<rparr>) = Inr f \<and>
     ValidateKubeletFlags sample_options_lib f = None \<and>
     map_of (fl_NodeLabels f) PartitionLabel = Some ''debug''"
proof -
  obtain f where f: "setDefaultSlurmVKFlags sample_options_lib
      (NewSlurmVirtualKubeletFlags \<lparr>os_Env = Map.empty, os_Home = ''/root''\<rparr>
         \<lparr>fl_NodeName := ''slurm-partition-debug'', fl_SlurmPartition := ''debug'',
          fl_AgentEndpoint := ''agent:9999''\<rparr>) = Inr f"
    and n: "fl_NodeName f = ''slurm-partition-debug''"
    by (simp add: setDefaultSlurmVKFlags_def sample_options_lib_def)
  have "list_all (\<lambda>(k, v). ol_IsQualifiedName sample_options_lib k = [] \<and>
      ol_IsValidLabelValue sample_options_lib v = []) (vk_node_labels (fl_NodeName f) ''debug'')"
    by (simp add: n sample_options_lib_def vk_node_labels_def DefaultNodeSelectors_def PartitionLabel_def)
  from kubelet_flags_accepted [OF f _ this] f show ?thesis by auto
qed

text \<open>
  The defaults make a configuration valid: whatever is left open, with ports in range or zero,
  the configuration after defaulting passes validation, and its TLS files are both set.
\<close>

theorem default_configuration_valid:
  assumes "\<forall>n. ol_IsValidPortNum L n = [] \<longleftrightarrow> 1 \<le> n \<and> n \<le> 65535" and "ol_NewAggregate L [] = None"
    and "0 \<le> sint (cg_Port c)" "sint (cg_Port c) \<le> 65535"
    and "0 \<le> sint (cg_ReadOnlyPort c)" "sint (cg_ReadOnlyPort c) \<le> 65535"
  shows "ValidateSlurmVirtualKubeletConfiguration L
      (SetDefaults_SlurmVirtualKubeletConfiguration c) = None \<and>
    cg_TLSCertFile (SetDefaults_SlurmVirtualKubeletConfiguration c) \<noteq> [] \<and>
    cg_TLSPrivateKeyFile (SetDefaults_SlurmVirtualKubeletConfiguration c) \<noteq> []"
proof -
  let ?c = "SetDefaults_SlurmVirtualKubeletConfiguration c"
  have nz: "1 \<le> sint w" if "w \<noteq> 0" "0 \<le> sint w" for w :: int32
    using that by (metis signed_word_eqI signed_0 int_one_le_iff_zero_less le_neq_trans)
  have port: "1 \<le> sint (cg_Port ?c) \<and> sint (cg_Port ?c) \<le> 65535"
    using assms(3,4) nz
    by (simp add: SetDefaults_SlurmVirtualKubeletConfiguration_def Let_def)
  have "cg_ReadOnlyPort ?c = cg_ReadOnlyPort c"
    by (simp add: SetDefaults_SlurmVirtualKubeletConfiguration_def Let_def)
  then have "config_errors L ?c = []"
    using assms(1,5,6) port nz [of "cg_ReadOnlyPort c"] by (auto simp: config_errors_def)
  then show ?thesis
    using assms(2)
    by (auto simp: ValidateSlurmVirtualKubeletConfiguration_def
        SetDefaults_SlurmVirtualKubeletConfiguration_def Let_def)
qed

theorem default_configuration_valid_witness:
  "ValidateSlurmVirtualKubeletConfiguration sample_options_lib
     (SetDefaults_SlurmVirtualKubeletConfiguration zero_Configuration) = None"
  using default_configuration_valid [of sample_options_lib zero_Configuration]
  by (simp add: sample_options_lib_def zero_Configuration_def)

end
