(* ===== verification/VKProvider.thy ===== *)
theory VKProvider
  imports VKStatus VKReader VKOptions
begin

text \<open>
  The provider of the virtual kubelet (\<^verbatim>\<open>pkg/slurm-virtual-kubelet/provider.go\<close>) and the node it registers
  (\<^verbatim>\<open>node.go\<close>): it turns pods into Slurm jobs and reports their state. Its environment is a record of
  functions over a state \<open>'w\<close>: the gRPC client of the agent, the Kubernetes client, the event recorder
  and the third-party conversions. The provider itself keeps the map of the pods it has submitted.
\<close>

section \<open>Environment and state\<close>

record 'w vk_env =
  vk_SubmitJob :: "SubmitJobRequest \<Rightarrow> 'w \<Rightarrow> SubmitJobResponse result \<times> 'w"
  vk_CancelJob :: "CancelJobRequest \<Rightarrow> 'w \<Rightarrow> unit result \<times> 'w"
  vk_JobInfo :: "JobInfoRequest \<Rightarrow> 'w \<Rightarrow> JobInfoResponse result \<times> 'w"
  vk_Partition :: "PartitionRequest \<Rightarrow> 'w \<Rightarrow> PartitionResponse result \<times> 'w"
  vk_Nodes :: "NodesRequest \<Rightarrow> 'w \<Rightarrow> NodesResponse result \<times> 'w"
  vk_OpenFile :: "OpenFileRequest \<Rightarrow> 'w \<Rightarrow> stream result \<times> 'w"
  vk_TailFile :: "TailFileRequest \<Rightarrow> 'w \<Rightarrow> stream result \<times> 'w"
  vk_get_pod :: "string \<Rightarrow> string \<Rightarrow> 'w \<Rightarrow> Pod result \<times> 'w"
  vk_list_pods :: "'w \<Rightarrow> Pod list result \<times> 'w"
  vk_update_pod_status :: "Pod \<Rightarrow> 'w \<Rightarrow> go_error option \<times> 'w"
  vk_event :: "string \<Rightarrow> string \<Rightarrow> string \<Rightarrow> 'w \<Rightarrow> 'w"
  vk_Unmarshal :: "string \<Rightarrow> JobInfoResponse result"
  vk_IsNotFound :: "go_error \<Rightarrow> bool"
  vk_lib :: status_lib

text \<open>
  The provider reaches the options of the kubelet through \<^verbatim>\<open>vk.KubeletServer\<close>; its own state is the map
  of the pods it knows, from the pod's identifier to the job's.
\<close>

record provider =
  pv_KubeletServer :: SlurmVirtualKubeletServer
  pv_knownPods :: "string \<rightharpoonup> string"

abbreviation pv_SlurmPartition :: "provider \<Rightarrow> string" where
  "pv_SlurmPartition s \<equiv> fl_SlurmPartition (ks_Flags (pv_KubeletServer s))"
abbreviation pv_AgentEndpoint :: "provider \<Rightarrow> string" where
  "pv_AgentEndpoint s \<equiv> fl_AgentEndpoint (ks_Flags (pv_KubeletServer s))"

definition NewSlurmVirtualKubeletProvider :: "SlurmVirtualKubeletServer \<Rightarrow> provider" where
  "NewSlurmVirtualKubeletProvider server =
     \<lparr>pv_KubeletServer = server, pv_knownPods = Map.empty\<rparr>"

abbreviation pod_UID :: "Pod \<Rightarrow> string" where
  "pod_UID p \<equiv> om_UID (pod_Meta p)"

section \<open>Creating pods\<close>

definition needReconcile :: "Pod \<Rightarrow> bool" where
  "needReconcile pod =
     (if length (om_OwnerReferences (pod_Meta pod)) \<noteq> 0 \<and>
         or_Kind (om_OwnerReferences (pod_Meta pod) ! 0) = ''DaemonSet'' then False
      else if pod_label pod LabelSlurmBridgeJobId \<noteq> None then False
      else if map_get (om_Labels (pod_Meta pod)) LabelsRole \<noteq> RoleSizeCar then False
      else True)"

definition validateCreatePod :: "Pod \<Rightarrow> go_error option" where
  "validateCreatePod pod =
     (let cs = ps_Containers (pod_Spec pod) in
      if length cs = 0 \<or> length cs > 1 then Some (ErrorString ''Pod container len must be 1'')
      else if length (c_Command (cs ! 0)) = 0 \<or> length (c_Command (cs ! 0)) > 1
      then Some (ErrorString
        (''Pod first container command's (will be submitted as sbatch script) len must be 1''))
      else None)"

text \<open>One label with a number; a text that is none is logged and leaves the field.\<close>

definition int_from_label ::
    "(string \<rightharpoonup> string) \<Rightarrow> string \<Rightarrow> (int64 \<Rightarrow> SubmitJobRequest \<Rightarrow> SubmitJobRequest) \<Rightarrow>
     SubmitJobRequest \<Rightarrow> SubmitJobRequest" where
  "int_from_label labels k set_v req =
     (case labels k of
        None \<Rightarrow> req
      | Some s \<Rightarrow> (case ParseInt64 s of Inl err \<Rightarrow> req | Inr v \<Rightarrow> set_v v req))"

definition container_user :: "Container \<Rightarrow> string" where
  "container_user c =
     (case c_SecurityContext c of
        None \<Rightarrow> []
      | Some sx \<Rightarrow> (case sx_RunAsUser sx of None \<Rightarrow> [] | Some u \<Rightarrow> FormatInt64 u))"

definition label_fields :: "(string \<rightharpoonup> string) \<Rightarrow> SubmitJobRequest \<Rightarrow> SubmitJobRequest" where
  "label_fields labels r0 =
     (let r1 = int_from_label labels LabelsResourceRequestNodes (\<lambda>v r. r\<lparr>sj_Nodes := v\<rparr>) r0;
          r2 = int_from_label labels LabelsResourceRequestCpusPerTask (\<lambda>v r. r\<lparr>sj_CpufsPerTask := v\<rparr>) r1;
          r3 = int_from_label labels LabelsResourceRequestMemPerCpu (\<lambda>v r. r\<lparr>sj_MemPerCpu := v\<rparr>) r2;
          r4 = int_from_label labels LabelsResourceRequestNTasksPerNode (\<lambda>v r. r\<lparr>sj_NtasksPerNode := v\<rparr>) r3;
          r5 = (case labels LabelsResourceRequestArray of
                  None \<Rightarrow> r4 | Some array \<Rightarrow> r4\<lparr>sj_Array := array\<rparr>);
          r6 = int_from_label labels LabelsResourceRequestNTasks (\<lambda>v r. r\<lparr>sj_Ntasks := v\<rparr>) r5
      in r6)"

definition newSubmitRequestForPod :: "provider \<Rightarrow> Pod \<Rightarrow> SubmitJobRequest outcome" where
  "newSubmitRequestForPod s pod =
     (case ps_Containers (pod_Spec pod) of
        [] \<Rightarrow> Panic IndexOutOfRange
      | c # _ \<Rightarrow>
          (case c_Command c of
             [] \<Rightarrow> Panic IndexOutOfRange
           | script # _ \<Rightarrow>
               Value (label_fields (om_Labels (pod_Meta pod))
                 (zero_SubmitJobRequest
                    \<lparr>sj_Uid := pod_UID pod, sj_Partition := pv_SlurmPartition s,
                     sj_JobName := c_Name c, sj_RunAsUser := container_user c,
                     sj_Script := script, sj_WorkingDir := c_WorkingDir c\<rparr>))))"

definition addAndUpdateSlurmJobInfo ::
    "'w vk_env \<Rightarrow> provider \<Rightarrow> Pod \<Rightarrow> string \<Rightarrow> 'w \<Rightarrow> Pod \<times> 'w" where
  "addAndUpdateSlurmJobInfo e s pod jid w =
     (if pod_label pod LabelSlurmBridgeJobId \<noteq> None then (pod, w)
      else
        let m = pod_Meta pod;
            pod' = pod\<lparr>pod_Meta :=
              m\<lparr>om_Labels := (om_Labels m)(LabelSlurmBridgeJobId \<mapsto> jid),
                om_Annotations := (om_Annotations m)(LabelAgentEndPoint \<mapsto> pv_AgentEndpoint s)\<rparr>\<rparr>
        in case vk_update_pod_status e pod' w of (_, w') \<Rightarrow> (pod', w'))"

definition CreatePod ::
    "'w vk_env \<Rightarrow> provider \<Rightarrow> Pod \<Rightarrow> 'w \<Rightarrow> unit outcome \<times> Pod \<times> provider \<times> 'w" where
  "CreatePod e s pod w =
     (if \<not> needReconcile pod then (Value (), pod, s, w)
      else
        case validateCreatePod pod of
          Some err \<Rightarrow> (Error err, pod, s, w)
        | None \<Rightarrow>
            (case newSubmitRequestForPod s pod of
               Panic p \<Rightarrow> (Panic p, pod, s, w)
             | Error err \<Rightarrow> (Error err, pod, s, w)
             | Value submitRequest \<Rightarrow>
                 (case vk_SubmitJob e submitRequest w of
                    (Inl err, w1) \<Rightarrow> (Error err, pod, s, w1)
                  | (Inr resp, w1) \<Rightarrow>
                      (let jid = FormatInt64 (GetJobId (Some resp));
                           w2 = vk_event e ''Normal'' ''SlurmBridgeJobCreated''
                                  (''SlurmBridgeJob submit to the slurm-agent '' @ pv_AgentEndpoint s @
                                   '', job id is '' @ FormatInt64 (sjr_JobId resp)) w1;
                           s' = s\<lparr>pv_knownPods := (pv_knownPods s)(pod_UID pod \<mapsto> jid)\<rparr>
                       in case addAndUpdateSlurmJobInfo e s' pod jid w2 of
                            (pod', w3) \<Rightarrow> (Value (), pod', s', w3)))))"

section \<open>Updating and deleting pods\<close>

definition UpdatePod :: "provider \<Rightarrow> Pod \<Rightarrow> provider" where
  "UpdatePod s pod =
     (case pod_label pod LabelSlurmBridgeJobId of
        None \<Rightarrow> s
      | Some jobId \<Rightarrow> s\<lparr>pv_knownPods := (pv_knownPods s)(pod_UID pod \<mapsto> jobId)\<rparr>)"

definition getSlurmJobId :: "provider \<Rightarrow> Pod \<Rightarrow> string" where
  "getSlurmJobId s pod =
     (case pod_label pod LabelSlurmBridgeJobId of
        Some jobId \<Rightarrow> jobId
      | None \<Rightarrow> (case pv_knownPods s (pod_UID pod) of None \<Rightarrow> [] | Some v \<Rightarrow> v))"

fun cancel_jobs :: "'w vk_env \<Rightarrow> string list \<Rightarrow> 'w \<Rightarrow> go_error option \<times> 'w" where
  "cancel_jobs e [] w = (None, w)"
| "cancel_jobs e (jobId # r) w =
     (case Atoi jobId of
        Inl err \<Rightarrow> cancel_jobs e r w
      | Inr n \<Rightarrow>
          (case vk_CancelJob e \<lparr>cj_JobId = n\<rparr> w of
             (Inl err, w') \<Rightarrow> (Some err, w')
           | (Inr _, w') \<Rightarrow> cancel_jobs e r w'))"

definition forget :: "provider \<Rightarrow> Pod \<Rightarrow> provider" where
  "forget s pod = s\<lparr>pv_knownPods := (pv_knownPods s)(pod_UID pod := None)\<rparr>"

definition DeletePod :: "'w vk_env \<Rightarrow> provider \<Rightarrow> Pod \<Rightarrow> 'w \<Rightarrow> go_error option \<times> provider \<times> 'w" where
  "DeletePod e s pod w =
     (case (case pod_label pod LabelSlurmBridgeJobId of
              Some jobIds \<Rightarrow> Some jobIds | None \<Rightarrow> pv_knownPods s (pod_UID pod)) of
        None \<Rightarrow> (None, forget s pod, w)
      | Some jobIds \<Rightarrow>
          (case cancel_jobs e (Split jobIds '','') w of (err, w') \<Rightarrow> (err, forget s pod, w')))"

section \<open>Reading pods\<close>

definition zero_Pod :: Pod where
  "zero_Pod =
     \<lparr>pod_Meta = new_meta [] [] Map.empty,
      pod_Spec = \<lparr>ps_NodeName = [], ps_Affinity = None, ps_SecurityContext = None,
                  ps_Tolerations = [], ps_Containers = [], ps_RestartPolicy = [], ps_Volumes = []\<rparr>,
      pod_Status = zero_PodStatus\<rparr>"

text \<open>A pod that is not found is the empty pod the client returns with the error.\<close>

definition GetPod :: "'w vk_env \<Rightarrow> provider \<Rightarrow> string \<Rightarrow> string \<Rightarrow> 'w \<Rightarrow> Pod option result \<times> 'w" where
  "GetPod e s namespace name w =
     (case vk_get_pod e namespace name w of
        (Inl err, w') \<Rightarrow>
          if \<not> vk_IsNotFound e err then (Inl err, w')
          else (Inr (if getSlurmJobId s zero_Pod \<noteq> [] then Some zero_Pod else None), w')
      | (Inr pod, w') \<Rightarrow> (Inr (if getSlurmJobId s pod \<noteq> [] then Some pod else None), w'))"

definition GetPodStatus ::
    "'w vk_env \<Rightarrow> provider \<Rightarrow> string \<Rightarrow> string \<Rightarrow> 'w \<Rightarrow> PodStatus option outcome \<times> 'w" where
  "GetPodStatus e s namespace name w =
     (case GetPod e s namespace name w of
        (Inl err, w1) \<Rightarrow> (Error err, w1)
      | (Inr None, w1) \<Rightarrow> (Value None, w1)
      | (Inr (Some pod), w1) \<Rightarrow>
          (let jobId = getSlurmJobId s pod in
           if jobId = [] then (Value None, w1)
           else
             case ParseInt64 jobId of
               Inl err \<Rightarrow> (Error err, w1)
             | Inr n \<Rightarrow>
                 (case vk_JobInfo e \<lparr>jir_JobId = n\<rparr> w1 of
                    (Inl err, w2) \<Rightarrow> (Error err, w2)
                  | (Inr jobInfo, w2) \<Rightarrow>
                      (case convertJobInfo2PodStatus (vk_lib e) pod jobInfo of
                         Panic p \<Rightarrow> (Panic p, w2)
                       | Error err \<Rightarrow> (Error err, w2)
                       | Value st \<Rightarrow> (Value (Some st), w2)))))"

text \<open>
  The loop takes the address of its variable, which with the module's language version (1.21) is one
  variable for all rounds: every element points to the last item.
\<close>

definition GetPods :: "'w vk_env \<Rightarrow> 'w \<Rightarrow> Pod list result \<times> 'w" where
  "GetPods e w =
     (case vk_list_pods e w of
        (Inl err, w') \<Rightarrow> (Inl err, w')
      | (Inr items, w') \<Rightarrow> (Inr (replicate (length items) (last items)), w'))"

section \<open>Logs\<close>

definition getJobInfo :: "'w vk_env \<Rightarrow> Pod \<Rightarrow> JobInfoResponse result" where
  "getJobInfo e pod =
     (if pt_Message (pod_Status pod) = []
      then Inl (ErrorString (''Can not found log file path for pod '' @ om_Namespace (pod_Meta pod) @ ''/'' @
                  om_Name (pod_Meta pod)))
      else vk_Unmarshal e (pt_Message (pod_Status pod)))"

datatype log_reader = FileLogs OpenFileReader | TailLogs TailFileReader

fun open_files :: "'w vk_env \<Rightarrow> string list \<Rightarrow> 'w \<Rightarrow> stream list result \<times> 'w" where
  "open_files e [] w = (Inr [], w)"
| "open_files e (path # r) w =
     (case vk_OpenFile e \<lparr>of_Path = path\<rparr> w of
        (Inl err, w') \<Rightarrow> (Inl err, w')
      | (Inr s, w') \<Rightarrow>
          (case open_files e r w' of
             (Inl err, w'') \<Rightarrow> (Inl err, w'') | (Inr ss, w'') \<Rightarrow> (Inr (s # ss), w'')))"

text \<open>The loop that picks the job compares the identifier of a job with itself.\<close>

definition log_job :: "JobInfo list \<Rightarrow> JobInfo" where
  "log_job infos =
     (case find (\<lambda>info. ji_Id info = ji_Id info) infos of None \<Rightarrow> hd infos | Some info \<Rightarrow> info)"

definition log_files :: "JobInfo \<Rightarrow> string list" where
  "log_files jobInfo =
     (if ji_StdOut jobInfo \<noteq> ji_StdErr jobInfo then [ji_StdOut jobInfo, ji_StdErr jobInfo]
      else [ji_StdOut jobInfo])"

definition GetContainerLogs ::
    "'w vk_env \<Rightarrow> provider \<Rightarrow> string \<Rightarrow> string \<Rightarrow> string \<Rightarrow> bool \<Rightarrow> 'w \<Rightarrow> log_reader result \<times> 'w" where
  "GetContainerLogs e s namespace podName containerName follow w =
     (case GetPod e s namespace podName w of
        (Inl err, w1) \<Rightarrow> (Inl err, w1)
      | (Inr None, w1) \<Rightarrow> (Inl (ErrorString (''Pod '' @ namespace @ ''/'' @ podName @ '' not found'')), w1)
      | (Inr (Some pod), w1) \<Rightarrow>
          (case getJobInfo e pod of
             Inl err \<Rightarrow> (Inl err, w1)
           | Inr jobInfos \<Rightarrow>
               if length (jr_Info jobInfos) = 0 then (Inl (ErrorString ''Invalid jobInfo''), w1)
               else
                 let jobInfo = log_job (jr_Info jobInfos) in
                 if follow \<and> \<not> isSlurmJobFinished (ji_Status jobInfo) then
                   (case vk_TailFile e \<lparr>tf_Action = Start, tf_Path = ji_StdOut jobInfo\<rparr> w1 of
                      (Inl err, w2) \<Rightarrow> (Inl err, w2)
                    | (Inr st, w2) \<Rightarrow> (Inr (TailLogs \<lparr>tfr_client = st, tfr_buff = []\<rparr>), w2))
                 else
                   (case open_files e (log_files jobInfo) w1 of
                      (Inl err, w2) \<Rightarrow> (Inl err, w2)
                    | (Inr ss, w2) \<Rightarrow>
                        (Inr (FileLogs \<lparr>ofr_OpenFileClient = ss, ofr_readIndex = 0, ofr_buff = []\<rparr>), w2))))"

section \<open>The node\<close>

definition getDefaultTaints :: "Taint list" where
  "getDefaultTaints =
     map (\<lambda>t. \<lparr>tn_Key = to_Key t, tn_Value = to_Value t, tn_Effect = to_Effect t\<rparr>) DefaultTolerations"

text \<open>The sums over the nodes of a partition; the allocated GPUs add up the allocated processors.\<close>

record node_sums =
  nu_cpu :: int64
  nu_allocpu :: int64
  nu_mem :: int64
  nu_allomem :: int64
  nu_gpu :: int64
  nu_allogpu :: int64

definition add_node :: "WNode \<Rightarrow> node_sums \<Rightarrow> node_sums" where
  "add_node n u =
     \<lparr>nu_cpu = nu_cpu u + wn_Cpus n, nu_allocpu = nu_allocpu u + wn_AlloCpus n,
      nu_mem = nu_mem u + wn_Memory n, nu_allomem = nu_allomem u + wn_AlloMemory n,
      nu_gpu = nu_gpu u + wn_Gpus n, nu_allogpu = nu_allogpu u + wn_AlloCpus n\<rparr>"

definition sum_nodes :: "WNode list \<Rightarrow> node_sums" where
  "sum_nodes ns = fold add_node ns
     \<lparr>nu_cpu = 0, nu_allocpu = 0, nu_mem = 0, nu_allomem = 0, nu_gpu = 0, nu_allogpu = 0\<rparr>"

definition capacity_of :: "node_sums \<Rightarrow> ResourceList" where
  "capacity_of u =
     (let rl = [''cpu'' \<mapsto> nu_cpu u, ''memory'' \<mapsto> nu_mem u * push_bit 10 2];
          rl = (if 0 < sint (nu_gpu u) then rl(''nvidia.com/gpu'' \<mapsto> nu_gpu u) else rl)
      in rl(''pods'' \<mapsto> nu_cpu u))"

definition GetPartitionCapacity :: "'w vk_env \<Rightarrow> string \<Rightarrow> 'w \<Rightarrow> ResourceList result \<times> 'w" where
  "GetPartitionCapacity e part w =
     (case vk_Partition e \<lparr>pq_Partition = part\<rparr> w of
        (Inl err, w1) \<Rightarrow> (Inl err, w1)
      | (Inr partitionResp, w1) \<Rightarrow>
          (case vk_Nodes e \<lparr>nq_Nodes = pr_Nodes partitionResp\<rparr> w1 of
             (Inl err, w2) \<Rightarrow> (Inl err, w2)
           | (Inr nodesResp, w2) \<Rightarrow> (Inr (capacity_of (sum_nodes (nr_Nodes nodesResp))), w2)))"

text \<open>
  The node object. The command \<^verbatim>\<open>uname\<close> and the addresses of the host are inputs: the errors of opening
  the pipe, of starting the command and of reading, and the list of interface addresses. Every call of
  the clock is a reading \<open>now i\<close>; the three identifiers are one fresh UUID.
\<close>

record uname_run =
  un_StdoutPipe :: "go_error option"
  un_Start :: "go_error option"
  un_ReadAll :: "string result"

definition getNodeKernelVersion :: "uname_run \<Rightarrow> string" where
  "getNodeKernelVersion u =
     (case un_StdoutPipe u of
        Some err \<Rightarrow> []
      | None \<Rightarrow>
          (case un_Start u of
             Some err \<Rightarrow> []
           | None \<Rightarrow> (case un_ReadAll u of Inl err \<Rightarrow> [] | Inr opBytes \<Rightarrow> opBytes)))"

text \<open>An interface address: an IP network (loopback, has an IPv4 form, printed form) or another kind.\<close>

datatype net_addr = IPNet bool bool string | OtherAddr

fun first_address :: "net_addr list \<Rightarrow> string" where
  "first_address [] = []"
| "first_address (IPNet loopback v4 ip # r) =
     (if \<not> loopback then (if v4 then ip else first_address r) else first_address r)"
| "first_address (OtherAddr # r) = first_address r"

definition getNodeAddress :: "net_addr list result \<Rightarrow> string" where
  "getNodeAddress addrs = (case addrs of Inl err \<Rightarrow> [] | Inr addrList \<Rightarrow> first_address addrList)"

definition nodeAddresses :: "net_addr list result \<Rightarrow> (string \<times> string) list" where
  "nodeAddresses addrs = [(''InternalIP'', getNodeAddress addrs)]"

record NodeCondition =
  nc_Type :: string
  nc_Status :: string
  nc_LastHeartbeatTime :: go_time
  nc_LastTransitionTime :: go_time
  nc_Reason :: string
  nc_Message :: string

definition nodeConditions :: "(nat \<Rightarrow> go_time) \<Rightarrow> NodeCondition list" where
  "nodeConditions now =
     [\<lparr>nc_Type = ''Ready'', nc_Status = ''True'', nc_LastHeartbeatTime = now 0,
       nc_LastTransitionTime = now 1, nc_Reason = ''KubeletReady'', nc_Message = ''kubelet is ready.''\<rparr>,
      \<lparr>nc_Type = ''OutOfDisk'', nc_Status = ''False'', nc_LastHeartbeatTime = now 2,
       nc_LastTransitionTime = now 3, nc_Reason = ''KubeletHasSufficientDisk'',
       nc_Message = ''kubelet has sufficient disk space available''\<rparr>,
      \<lparr>nc_Type = ''MemoryPressure'', nc_Status = ''False'', nc_LastHeartbeatTime = now 4,
       nc_LastTransitionTime = now 5, nc_Reason = ''KubeletHasSufficientMemory'',
       nc_Message = ''kubelet has sufficient memory available''\<rparr>,
      \<lparr>nc_Type = ''DiskPressure'', nc_Status = ''False'', nc_LastHeartbeatTime = now 6,
       nc_LastTransitionTime = now 7, nc_Reason = ''KubeletHasNoDiskPressure'',
       nc_Message = ''kubelet has no disk pressure''\<rparr>,
      \<lparr>nc_Type = ''NetworkUnavailable'', nc_Status = ''False'', nc_LastHeartbeatTime = now 8,
       nc_LastTransitionTime = now 9, nc_Reason = ''RouteCreated'',
       nc_Message = ''RouteController created a route''\<rparr>,
      \<lparr>nc_Type = ''PIDPressure'', nc_Status = ''False'', nc_LastHeartbeatTime = now 10,
       nc_LastTransitionTime = now 11, nc_Reason = ''KubeletHasSufficientPID'',
       nc_Message = '' kubelet has sufficient PID available''\<rparr>]"

record NodeSystemInfo =
  si_OperatingSystem :: string
  si_Architecture :: string
  si_KubeletVersion :: string
  si_MachineID :: string
  si_SystemUUID :: string
  si_BootID :: string
  si_KernelVersion :: string
  si_OSImage :: string

record KNode =
  kn_Name :: string
  kn_ResourceVersion :: string
  kn_Labels :: "(string \<times> string) list"
  kn_Taints :: "Taint list"
  kn_NodeInfo :: NodeSystemInfo
  kn_Capacity :: ResourceList
  kn_Allocatable :: ResourceList
  kn_Conditions :: "NodeCondition list"
  kn_Addresses :: "(string \<times> string) list"
  kn_KubeletPort :: int32

record node_inputs =
  ni_uuid :: string
  ni_uname :: uname_run
  ni_addrs :: "net_addr list result"
  ni_now :: "nat \<Rightarrow> go_time"

definition nodeDaemonEndpoints :: "SlurmVirtualKubeletServer \<Rightarrow> int32" where
  [simp]: "nodeDaemonEndpoints server = cg_Port (ks_Configuration server)"

definition NewNodeOrDie ::
    "'w vk_env \<Rightarrow> SlurmVirtualKubeletServer \<Rightarrow> node_inputs \<Rightarrow> 'w \<Rightarrow> KNode result \<times> 'w" where
  "NewNodeOrDie e server ni w =
     (case GetPartitionCapacity e (fl_SlurmPartition (ks_Flags server)) w of
        (Inl err, w') \<Rightarrow> (Inl err, w')
      | (Inr capacity, w') \<Rightarrow>
          (Inr \<lparr>kn_Name = fl_NodeName (ks_Flags server), kn_ResourceVersion = [],
                kn_Labels = fl_NodeLabels (ks_Flags server),
                kn_Taints = getDefaultTaints,
                kn_NodeInfo =
                  \<lparr>si_OperatingSystem = fl_OperatingSystem (ks_Flags server), si_Architecture = ''amd64'',
                   si_KubeletVersion = fl_Version (ks_Flags server), si_MachineID = ni_uuid ni,
                   si_SystemUUID = ni_uuid ni, si_BootID = ni_uuid ni,
                   si_KernelVersion = getNodeKernelVersion (ni_uname ni),
                   si_OSImage = ''CentOS Linux 7 (Core)''\<rparr>,
                kn_Capacity = capacity, kn_Allocatable = capacity,
                kn_Conditions = nodeConditions (ni_now ni), kn_Addresses = nodeAddresses (ni_addrs ni),
                kn_KubeletPort = nodeDaemonEndpoints server\<rparr>, w'))"

section \<open>A label that is never set\<close>

text \<open>
  \<^verbatim>\<open>addOrUpdateSlurmJobInfoLabels\<close>, which nothing calls: an answer that cannot be encoded sets the empty label.
  The update of the pod, with the resource version 0, is \<open>update\<close>.
\<close>

definition addOrUpdateSlurmJobInfoLabels ::
    "('w vk_env \<Rightarrow> Pod \<Rightarrow> 'w \<Rightarrow> go_error option \<times> 'w) \<Rightarrow> 'w vk_env \<Rightarrow> Pod \<Rightarrow> JobInfoResponse \<Rightarrow> 'w \<Rightarrow> Pod \<times> 'w" where
  "addOrUpdateSlurmJobInfoLabels update e pod info w =
     (let infoDetail = (case sl_Marshal (vk_lib e) info of Inl err \<Rightarrow> [] | Inr t \<Rightarrow> t);
          m = pod_Meta pod;
          pod' = pod\<lparr>pod_Meta := m\<lparr>om_Labels := (om_Labels m)(LabelLastJobInfo \<mapsto> infoDetail)\<rparr>\<rparr>
      in case update e pod' w of (_, w') \<Rightarrow> (pod', w'))"

section \<open>Node status notifications\<close>

text \<open>
  The goroutine of \<^verbatim>\<open>NotifyNodeStatus\<close>: it waits for the end of its context or for its timer. A
  \<^verbatim>\<open>time.Timer\<close> delivers one value when its minute has passed, and the loop never resets it. An event
  is what the \<^verbatim>\<open>select\<close> sees next; \<open>armed\<close> says whether the timer has its value still to deliver. The
  function returns the nodes passed on and the final state.
\<close>

datatype notify_event = ContextDone | MinutePassed node_inputs

fun notify_loop ::
    "'w vk_env \<Rightarrow> SlurmVirtualKubeletServer \<Rightarrow> bool \<Rightarrow> notify_event list \<Rightarrow> 'w \<Rightarrow> KNode list \<times> 'w" where
  "notify_loop e server armed [] w = ([], w)"
| "notify_loop e server armed (ContextDone # evs) w = ([], w)"
| "notify_loop e server armed (MinutePassed ni # evs) w =
     (if \<not> armed then notify_loop e server armed evs w
      else
        case NewNodeOrDie e server ni w of
          (Inl err, w1) \<Rightarrow> notify_loop e server False evs w1
        | (Inr n, w1) \<Rightarrow>
            (case notify_loop e server False evs w1 of (ns, w2) \<Rightarrow> (n # ns, w2)))"

definition NotifyNodeStatus ::
    "'w vk_env \<Rightarrow> SlurmVirtualKubeletServer \<Rightarrow> notify_event list \<Rightarrow> 'w \<Rightarrow> KNode list \<times> 'w" where
  "NotifyNodeStatus e server evs w = notify_loop e server True evs w"

definition Ping :: "go_error option \<Rightarrow> go_error option" where
  "Ping ctx_Err = ctx_Err"

section \<open>Operations without effect\<close>

definition RunInContainer :: "string \<Rightarrow> string \<Rightarrow> string \<Rightarrow> string list \<Rightarrow> go_error option" where
  "RunInContainer namespace podName containerName cmd = None"

definition AttachToContainer :: "string \<Rightarrow> string \<Rightarrow> string \<Rightarrow> go_error option" where
  "AttachToContainer namespace podName containerName = None"

definition GetStatsSummary :: "unit option \<times> go_error option" where
  "GetStatsSummary = (None, None)"

definition GetMetricsResource :: "unit list \<times> go_error option" where
  "GetMetricsResource = ([], None)"

definition PortForward :: "string \<Rightarrow> string \<Rightarrow> int32 \<Rightarrow> go_error option" where
  "PortForward namespace pod port = None"

end
