(* ===== verification/VKLifecycle.thy ===== *)
theory VKLifecycle
  imports VKProvider
begin

text \<open>
  What the provider promises about a pod from its creation to its deletion, about the capacity it
  reports for a partition, and about the node notifications: the lemmas on \<^verbatim>\<open>provider.go\<close> and
  \<^verbatim>\<open>node.go\<close>. The definitions are in \<open>VKProvider\<close>.
\<close>

section \<open>Creating and deleting\<close>

lemma FormatInt64_no_comma: "CHR '','' \<notin> set (FormatInt64 n)"
  by (auto dest!: FormatInt_graphic simp: is_digit_def byte_def)

lemma newSubmitRequestForPod_valid:
  "validateCreatePod pod = None \<Longrightarrow> \<exists>q. newSubmitRequestForPod s pod = Value q"
  by (auto simp: validateCreatePod_def newSubmitRequestForPod_def Let_def split: list.splits if_splits)

lemma needReconcile_label: "needReconcile pod \<Longrightarrow> pod_label pod LabelSlurmBridgeJobId = None"
  by (auto simp: needReconcile_def split: if_splits)

lemma CreatePod_submitted:
  assumes "needReconcile pod" and "validateCreatePod pod = None"
    and "newSubmitRequestForPod s pod = Value q" and "vk_SubmitJob e q w = (Inr r, w1)"
  shows "\<exists>pod' w'. CreatePod e s pod w =
      (Value (), pod', s\<lparr>pv_knownPods := (pv_knownPods s)(pod_UID pod \<mapsto> FormatInt64 (sjr_JobId r))\<rparr>, w') \<and>
    pod_label pod' LabelSlurmBridgeJobId = Some (FormatInt64 (sjr_JobId r)) \<and> pod_UID pod' = pod_UID pod \<and>
    om_Annotations (pod_Meta pod') LabelAgentEndPoint = Some (pv_AgentEndpoint s)"
  using assms needReconcile_label [OF assms(1)]
  by (auto simp: CreatePod_def addAndUpdateSlurmJobInfo_def GetJobId_def Let_def split: prod.splits)

lemma cancel_jobs_single:
  "cancel_jobs e (Split (FormatInt64 n) '','') w =
     (case vk_CancelJob e \<lparr>cj_JobId = n\<rparr> w of (r, w') \<Rightarrow> (case r of Inl err \<Rightarrow> Some err | Inr _ \<Rightarrow> None, w'))"
  using FormatInt64_no_comma [of n] by (simp add: Split_free split: prod.splits sum.splits)

text \<open>
  C6. From creation to deletion a pod stands for one Slurm job: a created pod carries the job's
  identifier (and the agent's address for the operator), creating it again submits nothing, and
  deleting it cancels exactly that job, also when the label never reached the API server and only
  the provider's own map knows the job.
\<close>

theorem pod_lifecycle:
  assumes "needReconcile pod" and "validateCreatePod pod = None"
    and "newSubmitRequestForPod s pod = Value q" and "vk_SubmitJob e q w = (Inr r, w1)"
    and "CreatePod e s pod w = (res, pod', s', w2)"
  shows "res = Value () \<and>
    getSlurmJobId s' pod = FormatInt64 (sjr_JobId r) \<and> getSlurmJobId s' pod' = FormatInt64 (sjr_JobId r) \<and>
    om_Annotations (pod_Meta pod') LabelAgentEndPoint = Some (pv_AgentEndpoint s) \<and>
    CreatePod e t pod' v = (Value (), pod', t, v) \<and>
    (p = pod \<or> p = pod' \<longrightarrow>
      DeletePod e s' p v =
        (case vk_CancelJob e \<lparr>cj_JobId = sjr_JobId r\<rparr> v of
           (c, v') \<Rightarrow> (case c of Inl err \<Rightarrow> Some err | Inr _ \<Rightarrow> None, forget s' p, v')))"
proof -
  obtain pod1 w3 where c: "CreatePod e s pod w =
      (Value (), pod1, s\<lparr>pv_knownPods := (pv_knownPods s)(pod_UID pod \<mapsto> FormatInt64 (sjr_JobId r))\<rparr>, w3)"
    and l: "pod_label pod1 LabelSlurmBridgeJobId = Some (FormatInt64 (sjr_JobId r))"
    and a: "om_Annotations (pod_Meta pod1) LabelAgentEndPoint = Some (pv_AgentEndpoint s)"
    using CreatePod_submitted [OF assms(1-4)] by blast
  have eq: "res = Value ()" "pod' = pod1"
    "s' = s\<lparr>pv_knownPods := (pv_knownPods s)(pod_UID pod \<mapsto> FormatInt64 (sjr_JobId r))\<rparr>"
    using c assms(5) by auto
  note nl = needReconcile_label [OF assms(1)]
  have again: "CreatePod e t pod' v = (Value (), pod', t, v)"
    using l eq(2) by (simp add: CreatePod_def needReconcile_def)
  have del: "DeletePod e s' p v =
        (case vk_CancelJob e \<lparr>cj_JobId = sjr_JobId r\<rparr> v of
           (c, v') \<Rightarrow> (case c of Inl err \<Rightarrow> Some err | Inr _ \<Rightarrow> None, forget s' p, v'))"
    if "p = pod \<or> p = pod'"
    using that l nl eq(2,3) by (auto simp: DeletePod_def cancel_jobs_single split: prod.splits)
  show ?thesis
    using eq l a nl again del by (simp add: getSlurmJobId_def)
qed

text \<open>
  \<^verbatim>\<open>CreatePod\<close> always returns (the containers it indexes are checked before), and when it does not
  submit a job, because the pod is not for it, is malformed or the agent refuses, the provider and
  the pod are as before.
\<close>

theorem CreatePod_failure_keeps:
  assumes "CreatePod e s pod w = (res, pod', s', w')"
  shows "returns res \<and>
    (\<not> needReconcile pod \<or> validateCreatePod pod \<noteq> None \<or> res \<noteq> Value () \<longrightarrow> pod' = pod \<and> s' = s)"
proof (cases "needReconcile pod \<and> validateCreatePod pod = None")
  case True
  then obtain q where q: "newSubmitRequestForPod s pod = Value q"
    using newSubmitRequestForPod_valid by blast
  obtain r w1 where r: "vk_SubmitJob e q w = (r, w1)" by (metis surj_pair)
  show ?thesis
  proof (cases r)
    case (Inl err)
    then show ?thesis using True q r assms by (auto simp: CreatePod_def)
  next
    case (Inr resp)
    then show ?thesis using CreatePod_submitted [of pod s q e w resp w1] True q r assms by auto
  qed
next
  case False
  then show ?thesis using assms by (auto simp: CreatePod_def split: if_splits option.splits)
qed

text \<open>
  Deleting a pod whose label lists several jobs cancels all of them, in order, and forgets the pod.
\<close>

theorem DeletePod_cancels_all:
  assumes "pod_label pod LabelSlurmBridgeJobId = Some (Join (map FormatInt64 ids) '','')" and "ids \<noteq> []"
    and "\<forall>n v. fst (vk_CancelJob e \<lparr>cj_JobId = n\<rparr> v) = Inr ()"
  shows "DeletePod e s pod w =
    (None, forget s pod, fold (\<lambda>n v. snd (vk_CancelJob e \<lparr>cj_JobId = n\<rparr> v)) ids w)"
proof -
  have "cancel_jobs e (map FormatInt64 ids) w =
      (None, fold (\<lambda>n v. snd (vk_CancelJob e \<lparr>cj_JobId = n\<rparr> v)) ids w)" for w
  proof (induction ids arbitrary: w)
    case (Cons n ids)
    obtain c v where "vk_CancelJob e \<lparr>cj_JobId = n\<rparr> w = (c, v)" by (metis surj_pair)
    moreover have "c = Inr ()" using assms(3) calculation by (metis fst_conv)
    ultimately show ?case using Cons by simp
  qed simp
  moreover have "Split (Join (map FormatInt64 ids) '','') '','' = map FormatInt64 ids"
    using assms(2) FormatInt64_no_comma by (intro Split_Join) auto
  ultimately show ?thesis using assms(1) by (simp add: DeletePod_def)
qed

section \<open>Listing pods\<close>

text \<open>
  \<^verbatim>\<open>GetPods\<close> answers with as many pods as the API server lists, but every one of them is the last
  of the list: no other pod is ever reported.
\<close>

theorem GetPods_last:
  assumes "GetPods e w = (Inr pods, w')" and "vk_list_pods e w = (Inr items, w')"
  shows "length pods = length items \<and> (p \<in> set pods \<longrightarrow> p = last items)"
  using assms by (auto simp: GetPods_def)

section \<open>Capacity\<close>

lemma fold_add_node:
  "nu_cpu (fold add_node ns u) = nu_cpu u + word_of_int (sum_list (map (sint \<circ> wn_Cpus) ns))"
  "nu_mem (fold add_node ns u) = nu_mem u + word_of_int (sum_list (map (sint \<circ> wn_Memory) ns))"
  "nu_gpu (fold add_node ns u) = nu_gpu u + word_of_int (sum_list (map (sint \<circ> wn_Gpus) ns))"
  by (induction ns arbitrary: u) (simp_all add: add_node_def)

lemma sum_nodes_fields:
  "nu_cpu (sum_nodes ns) = word_of_int (sum_list (map (sint \<circ> wn_Cpus) ns))"
  "nu_mem (sum_nodes ns) = word_of_int (sum_list (map (sint \<circ> wn_Memory) ns))"
  "nu_gpu (sum_nodes ns) = word_of_int (sum_list (map (sint \<circ> wn_Gpus) ns))"
  by (simp_all add: sum_nodes_def fold_add_node)

text \<open>
  C29. The capacity of a partition is the sum over its nodes, as long as the sums fit 64 bits: the
  processors (and as many pods), the memory counted as 2048 for each unit the nodes report, and the
  GPUs if there are any.
\<close>

theorem partition_capacity:
  assumes "vk_Partition e \<lparr>pq_Partition = part\<rparr> w = (Inr p, w1)"
    and "vk_Nodes e \<lparr>nq_Nodes = pr_Nodes p\<rparr> w1 = (Inr n, w2)"
    and "in_int64 (\<Sum>x\<leftarrow>nr_Nodes n. sint (wn_Cpus x))"
    and "in_int64 (2048 * (\<Sum>x\<leftarrow>nr_Nodes n. sint (wn_Memory x)))"
    and "in_int64 (\<Sum>x\<leftarrow>nr_Nodes n. sint (wn_Gpus x))"
  shows "\<exists>rl. GetPartitionCapacity e part w = (Inr rl, w2) \<and>
    map_option sint (rl ''cpu'') = Some (\<Sum>x\<leftarrow>nr_Nodes n. sint (wn_Cpus x)) \<and>
    rl ''pods'' = rl ''cpu'' \<and>
    map_option sint (rl ''memory'') = Some (2048 * (\<Sum>x\<leftarrow>nr_Nodes n. sint (wn_Memory x))) \<and>
    map_option sint (rl ''nvidia.com/gpu'') =
      (if 0 < (\<Sum>x\<leftarrow>nr_Nodes n. sint (wn_Gpus x)) then Some (\<Sum>x\<leftarrow>nr_Nodes n. sint (wn_Gpus x)) else None)"
proof -
  let ?c = "\<Sum>x\<leftarrow>nr_Nodes n. sint (wn_Cpus x)" and ?m = "\<Sum>x\<leftarrow>nr_Nodes n. sint (wn_Memory x)"
    and ?g = "\<Sum>x\<leftarrow>nr_Nodes n. sint (wn_Gpus x)"
  have f: "nu_cpu (sum_nodes (nr_Nodes n)) = word_of_int ?c" "nu_mem (sum_nodes (nr_Nodes n)) = word_of_int ?m"
    "nu_gpu (sum_nodes (nr_Nodes n)) = word_of_int ?g"
    by (simp_all add: sum_nodes_fields comp_def)
  show ?thesis
    using assms(1,2) sint_of_int64 [OF assms(3)] sint_of_int64 [OF assms(4)] sint_of_int64 [OF assms(5)]
    by (simp add: GetPartitionCapacity_def capacity_of_def Let_def f mult.commute)
qed

section \<open>Notifications\<close>

lemma notify_loop_unarmed: "notify_loop e server False evs w = ([], w)"
proof (induction evs)
  case (Cons x evs)
  then show ?case by (cases x) simp_all
qed simp

text \<open>
  Node status is passed on at most once: the timer of \<^verbatim>\<open>NotifyNodeStatus\<close> fires a single time,
  however long the kubelet runs, and a failure at that moment is not retried.
\<close>

theorem NotifyNodeStatus_once: "length (fst (NotifyNodeStatus e server evs w)) \<le> 1"
proof (cases evs)
  case (Cons x r)
  then show ?thesis
    by (cases x) (auto simp: NotifyNodeStatus_def notify_loop_unarmed split: prod.splits sum.splits)
qed (simp add: NotifyNodeStatus_def)

section \<open>Witnesses\<close>

text \<open>An environment over the list of cancelled jobs, whose agent gives every pod job 42.\<close>

definition sample_vk_env :: "int64 list vk_env" where
  "sample_vk_env =
     \<lparr>vk_SubmitJob = (\<lambda>q w. (Inr \<lparr>sjr_JobId = 42\<rparr>, w)),
      vk_CancelJob = (\<lambda>q w. (Inr (), w @ [cj_JobId q])),
      vk_JobInfo = (\<lambda>q w. (Inr \<lparr>jr_Info = []\<rparr>, w)),
      vk_Partition = (\<lambda>q w. (Inr \<lparr>pr_Nodes = [''n1'', ''n2'']\<rparr>, w)),
      vk_Nodes = (\<lambda>q w. (Inr \<lparr>nr_Nodes =
        map (\<lambda>_. \<lparr>wn_Cpus = 4, wn_Memory = 8000, wn_Gpus = 0, wn_GpuType = [], wn_AlloCpus = 0,
                   wn_AlloMemory = 0, wn_AlloGpus = 0\<rparr>) (nq_Nodes q)\<rparr>, w)),
      vk_OpenFile = (\<lambda>q w. (Inr ([], EOF), w)),
      vk_TailFile = (\<lambda>q w. (Inr ([], EOF), w)),
      vk_get_pod = (\<lambda>ns n w. (Inl (Status ''NotFound'' []), w)),
      vk_list_pods = (\<lambda>w. (Inr [zero_Pod, zero_Pod\<lparr>pod_Spec := (pod_Spec zero_Pod)\<lparr>ps_NodeName := ''n1''\<rparr>\<rparr>], w)),
      vk_update_pod_status = (\<lambda>p w. (None, w)),
      vk_event = (\<lambda>t r m w. w),
      vk_Unmarshal = (\<lambda>s. Inl (ErrorString s)),
      vk_IsNotFound = (\<lambda>e. True),
      vk_lib = sample_lib\<rparr>"

definition sample_provider :: provider where
  "sample_provider = NewSlurmVirtualKubeletProvider
     \<lparr>ks_Flags = zero_Flags\<lparr>fl_SlurmPartition := ''debug'', fl_AgentEndpoint := ''agent:9999''\<rparr>,
      ks_Configuration = zero_Configuration\<rparr>"

definition sample_sizecar :: Pod where
  "sample_sizecar = zero_Pod
     \<lparr>pod_Meta := (new_meta ''j-sizecar'' ''ns'' [LabelsRole \<mapsto> RoleSizeCar])\<lparr>om_UID := ''u1''\<rparr>,
      pod_Spec := (pod_Spec zero_Pod)
        \<lparr>ps_Containers := [(new_container ''j'' ''img'')\<lparr>c_Command := [''#!/bin/sh'']\<rparr>]\<rparr>\<rparr>"

lemma sample_sizecar_ready: "needReconcile sample_sizecar" "validateCreatePod sample_sizecar = None"
  by (simp_all add: needReconcile_def validateCreatePod_def sample_sizecar_def zero_Pod_def new_meta_def
      new_container_def)

theorem pod_lifecycle_witness:
  "\<exists>pod' s' w'. CreatePod sample_vk_env sample_provider sample_sizecar [] = (Value (), pod', s', w') \<and>
     DeletePod sample_vk_env s' sample_sizecar [] = (None, forget s' sample_sizecar, [42])"
proof -
  obtain q where q: "newSubmitRequestForPod sample_provider sample_sizecar = Value q"
    using newSubmitRequestForPod_valid sample_sizecar_ready(2) by blast
  obtain res pod' s' w' where c: "CreatePod sample_vk_env sample_provider sample_sizecar [] = (res, pod', s', w')"
    by (metis surj_pair)
  have sub: "vk_SubmitJob sample_vk_env q [] = (Inr \<lparr>sjr_JobId = 42\<rparr>, [])" by (simp add: sample_vk_env_def)
  from pod_lifecycle [OF sample_sizecar_ready q sub c, of sample_provider "[]" sample_sizecar] c
  show ?thesis by (simp add: sample_vk_env_def)
qed

theorem CreatePod_failure_keeps_witness:
  "\<exists>res s'. CreatePod sample_vk_env sample_provider zero_Pod [] = (res, zero_Pod, s', []) \<and>
     returns res \<and> s' = sample_provider"
proof -
  have n: "\<not> needReconcile zero_Pod"
    by (simp add: needReconcile_def zero_Pod_def new_meta_def map_get_def)
  then have "CreatePod sample_vk_env sample_provider zero_Pod [] = (Value (), zero_Pod, sample_provider, [])"
    by (simp add: CreatePod_def)
  from CreatePod_failure_keeps [OF this] this show ?thesis by simp
qed

theorem DeletePod_cancels_all_witness:
  "DeletePod sample_vk_env sample_provider
     (zero_Pod\<lparr>pod_Meta := new_meta ''p'' ''ns'' [LabelSlurmBridgeJobId \<mapsto> ''7,8'']\<rparr>) [] =
   (None, forget sample_provider
     (zero_Pod\<lparr>pod_Meta := new_meta ''p'' ''ns'' [LabelSlurmBridgeJobId \<mapsto> ''7,8'']\<rparr>), [7, 8])"
proof -
  let ?p = "zero_Pod\<lparr>pod_Meta := new_meta ''p'' ''ns'' [LabelSlurmBridgeJobId \<mapsto> ''7,8'']\<rparr>"
  have "Join (map FormatInt64 [7, 8]) '','' = ''7,8''"
    by code_simp
  then have l: "pod_label ?p LabelSlurmBridgeJobId = Some (Join (map FormatInt64 [7, 8]) '','')"
    by (simp add: new_meta_def)
  have c: "\<forall>n v. fst (vk_CancelJob sample_vk_env \<lparr>cj_JobId = n\<rparr> v) = Inr ()"
    by (simp add: sample_vk_env_def)
  show ?thesis using DeletePod_cancels_all [OF l _ c] by (simp add: sample_vk_env_def)
qed

theorem GetPods_last_witness:
  "fst (GetPods sample_vk_env []) = Inr (replicate 2
     (zero_Pod\<lparr>pod_Spec := (pod_Spec zero_Pod)\<lparr>ps_NodeName := ''n1''\<rparr>\<rparr>)) \<and>
   (\<exists>pods. GetPods sample_vk_env [] = (Inr pods, []) \<and> zero_Pod \<notin> set pods)"
proof -
  let ?z = "zero_Pod\<lparr>pod_Spec := (pod_Spec zero_Pod)\<lparr>ps_NodeName := ''n1''\<rparr>\<rparr>"
  have l: "vk_list_pods sample_vk_env [] = (Inr [zero_Pod, ?z], [])" by (simp add: sample_vk_env_def)
  then have g: "GetPods sample_vk_env [] = (Inr [?z, ?z], [])" by (simp add: GetPods_def numeral_2_eq_2)
  have "zero_Pod \<noteq> ?z" by (simp add: zero_Pod_def)
  then have "zero_Pod \<notin> set [?z, ?z]" using GetPods_last [OF g l, of zero_Pod] by auto
  then show ?thesis using g by (simp add: numeral_2_eq_2)
qed

theorem partition_capacity_witness:
  "\<exists>rl. GetPartitionCapacity sample_vk_env ''debug'' [] = (Inr rl, []) \<and>
     map_option sint (rl ''memory'') = Some 32768000"
proof -
  let ?x = "\<lparr>wn_Cpus = 4, wn_Memory = 8000, wn_Gpus = 0, wn_GpuType = [], wn_AlloCpus = 0,
     wn_AlloMemory = 0, wn_AlloGpus = 0\<rparr>"
  have p: "vk_Partition sample_vk_env \<lparr>pq_Partition = ''debug''\<rparr> [] = (Inr \<lparr>pr_Nodes = [''n1'', ''n2'']\<rparr>, [])"
    and n: "vk_Nodes sample_vk_env \<lparr>nq_Nodes = pr_Nodes \<lparr>pr_Nodes = [''n1'', ''n2'']\<rparr>\<rparr> [] =
      (Inr \<lparr>nr_Nodes = [?x, ?x]\<rparr>, [])"
    by (simp_all add: sample_vk_env_def)
  from partition_capacity [OF p n] show ?thesis by (auto simp: in_int64_def)
qed

end
