(* ===== verification/BridgeSystem.thy ===== *)
theory BridgeSystem
  imports SubmitService Operator VKLifecycle
begin

text \<open>
  The parts of the bridge put together: kubelets connected to the agent, the operator that makes the
  pods, and the API server between them that may hand out any version of a pod it ever stored. A step
  relation lets them act in any order, and the commands that reach Slurm are compared with a ledger
  that gives every pod at most one job.
\<close>

section \<open>A kubelet connected to the agent\<close>

text \<open>
  The virtual kubelet connected to the agent: the calls that submit and cancel jobs and read about
  them run the agent's handlers on its state, an error reaching the client as \<open>grpc_err\<close> makes it;
  everything else of the environment works on the cluster's own state.
\<close>

definition via_agent ::
    "(go_error \<Rightarrow> go_error) \<Rightarrow> ('a \<Rightarrow> 's \<Rightarrow> 'b result \<times> 's) \<Rightarrow> 'a \<Rightarrow> 's \<times> 'k \<Rightarrow> 'b result \<times> 's \<times> 'k" where
  "via_agent grpc_err call q sk =
     (case call q (fst sk) of (r, s') \<Rightarrow> (map_sum grpc_err (\<lambda>x. x) r, s', snd sk))"

definition on_cluster :: "('k \<Rightarrow> 'b \<times> 'k) \<Rightarrow> 's \<times> 'k \<Rightarrow> 'b \<times> 's \<times> 'k" where
  "on_cluster call sk = (case call (snd sk) of (r, k') \<Rightarrow> (r, fst sk, k'))"

definition connect ::
    "(go_error \<Rightarrow> go_error) \<Rightarrow> 'h agent_host \<Rightarrow> 'k vk_env \<Rightarrow> ((Slurm \<times> 'h) \<times> 'k) vk_env" where
  "connect grpc_err h e =
     \<lparr>vk_SubmitJob = via_agent grpc_err (\<lambda>q. SubmitJob h (Some q)),
      vk_CancelJob = via_agent grpc_err (CancelJob h),
      vk_JobInfo = via_agent grpc_err (JobInfo_rpc h),
      vk_Partition = via_agent grpc_err (Partition_rpc h),
      vk_Nodes = via_agent grpc_err (Nodes_rpc h),
      vk_OpenFile = (\<lambda>q. on_cluster (vk_OpenFile e q)),
      vk_TailFile = (\<lambda>q. on_cluster (vk_TailFile e q)),
      vk_get_pod = (\<lambda>ns n. on_cluster (vk_get_pod e ns n)),
      vk_list_pods = on_cluster (vk_list_pods e),
      vk_update_pod_status = (\<lambda>p. on_cluster (vk_update_pod_status e p)),
      vk_event = (\<lambda>t r m sk. (fst sk, vk_event e t r m (snd sk))),
      vk_Unmarshal = vk_Unmarshal e,
      vk_IsNotFound = vk_IsNotFound e,
      vk_lib = vk_lib e\<rparr>"

lemma map_sum_Inr: "map_sum g (\<lambda>x. x) x = Inr r \<longleftrightarrow> x = Inr r"
  by (cases x) simp_all

lemma connect_submit:
  "vk_SubmitJob (connect g h e) q (a, k) = (Inr r, a', k') \<longleftrightarrow> SubmitJob h (Some q) a = (Inr r, a') \<and> k' = k"
  by (auto simp: connect_def via_agent_def map_sum_Inr split: prod.splits)

lemma connect_event: "fst (vk_event (connect g h e) t r m sk) = fst sk"
  by (simp add: connect_def)

lemma addAndUpdateSlurmJobInfo_agent:
  "fst (snd (addAndUpdateSlurmJobInfo (connect g h e) s pod jid sk)) = fst sk"
  by (simp add: addAndUpdateSlurmJobInfo_def connect_def on_cluster_def Let_def split: prod.splits)

lemma CreatePod_steps:
  assumes "needReconcile pod" and "validateCreatePod pod = None" and "newSubmitRequestForPod s pod = Value q"
    and "vk_SubmitJob e q w = (Inr r, w1)"
  shows "\<exists>t m. VKProvider.CreatePod e s pod w =
    (let s' = s\<lparr>pv_knownPods := (pv_knownPods s)(pod_UID pod \<mapsto> FormatInt64 (sjr_JobId r))\<rparr> in
     case addAndUpdateSlurmJobInfo e s' pod (FormatInt64 (sjr_JobId r)) (vk_event e ''Normal'' t m w1) of
       (pod', w2) \<Rightarrow> (Value (), pod', s', w2))"
  unfolding VKProvider.CreatePod_def Let_def GetJobId_def using assms
  by (simp only: if_False if_True not_True_eq_False option.case outcome.case prod.case sum.case) blast

lemma CreatePod_agent:
  assumes "needReconcile pod" and "validateCreatePod pod = None" and "newSubmitRequestForPod s pod = Value q"
    and "SubmitJob h (Some q) a = (Inr r, a')"
  shows "\<exists>pod' k'. VKProvider.CreatePod (connect g h e) s pod (a, k) =
      (Value (), pod', s\<lparr>pv_knownPods := (pv_knownPods s)(pod_UID pod \<mapsto> FormatInt64 (sjr_JobId r))\<rparr>, a', k')"
proof -
  let ?e = "connect g h e" and ?jid = "FormatInt64 (sjr_JobId r)"
  let ?s' = "s\<lparr>pv_knownPods := (pv_knownPods s)(pod_UID pod \<mapsto> ?jid)\<rparr>"
  have sub: "vk_SubmitJob ?e q (a, k) = (Inr r, a', k)"
    using assms(4) by (simp add: connect_submit)
  obtain t m where c: "VKProvider.CreatePod ?e s pod (a, k) =
      (let s' = ?s' in case addAndUpdateSlurmJobInfo ?e s' pod ?jid (vk_event ?e ''Normal'' t m (a', k)) of
         (pod', w2) \<Rightarrow> (Value (), pod', s', w2))"
    using CreatePod_steps [OF assms(1-3) sub] by blast
  define w2 where "w2 = vk_event ?e ''Normal'' t m (a', k)"
  have w2: "fst w2 = a'" by (simp add: w2_def connect_event)
  obtain pod' w3 where u: "addAndUpdateSlurmJobInfo ?e ?s' pod ?jid w2 = (pod', w3)" by (metis surj_pair)
  have "fst w3 = a'" using addAndUpdateSlurmJobInfo_agent [of g h e ?s' pod ?jid w2] u w2 by simp
  then show ?thesis using c u by (cases w3) (simp add: Let_def w2_def)
qed

section \<open>The commands that reach Slurm\<close>

text \<open>
  The agent's machine with a record of the commands it was asked to run and that change Slurm, as they
  ended. \<^verbatim>\<open>scontrol\<close>, \<^verbatim>\<open>sacct\<close> and \<^verbatim>\<open>sinfo\<close> only read.
\<close>

record slurm_command =
  cm_name :: string
  cm_args :: "string list"
  cm_stdin :: string
  cm_out :: string
  cm_err :: "go_error option"

definition watched :: "'h agent_host \<Rightarrow> ('h \<times> slurm_command list) agent_host" where
  "watched h =
     \<lparr>LookPath = (\<lambda>b w. LookPath h b (fst w)),
      CombinedOutput = (\<lambda>b args stdin w.
        (case CombinedOutput h b args stdin (fst w) of
           ((out, err), w') \<Rightarrow>
             ((out, err), w', snd w @
                [\<lparr>cm_name = b, cm_args = args, cm_stdin = stdin, cm_out = out, cm_err = err\<rparr>]))),
      Output = (\<lambda>b args w. (case Output h b args (fst w) of (r, w') \<Rightarrow> (r, w', snd w))),
      os_Open = (\<lambda>path w. os_Open h path (fst w)),
      TimestampProto = TimestampProto h, DurationProto = DurationProto h,
      uuid_New = (\<lambda>w. (case uuid_New h (fst w) of (u, w') \<Rightarrow> (u, w', snd w))),
      Sprintf_other = Sprintf_other h\<rparr>"

text \<open>The job a command started, as \<^verbatim>\<open>sbatch\<close> printed it, and what the bridge asked of Slurm.\<close>

definition started_job :: "slurm_command \<Rightarrow> int64 option" where
  "started_job c =
     (if cm_name c = ''sbatch'' \<and> cm_err c = None
      then (case Atoi (TrimSpace (cm_out c)) of Inl err \<Rightarrow> None | Inr j \<Rightarrow> Some j) else None)"

datatype slurm_action = Submit string int64 | Cancel int64

text \<open>The command was run for the pod with this identifier.\<close>

fun action :: "string \<times> slurm_command \<Rightarrow> slurm_action list" where
  "action (u, c) =
     (case started_job c of
        Some j \<Rightarrow> [Submit u j]
      | None \<Rightarrow>
          if cm_name c = ''scancel''
          then (case Atoi (hd (cm_args c)) of Inl err \<Rightarrow> [] | Inr j \<Rightarrow> [Cancel j]) else [])"

definition actions :: "(string \<times> slurm_command) list \<Rightarrow> slurm_action list" where
  "actions log = concat (map action log)"

lemma actions_simps [simp]: "actions [] = []" "actions (xs @ ys) = actions xs @ actions ys"
  by (simp_all add: actions_def)

lemma SBatch_watched:
  assumes "fst (SBatch (host.truncate (watched h)) req (w, cs)) = r'"
  shows "\<exists>w' c. SBatch (host.truncate (watched h)) req (w, cs) = (r', (w', cs @ [c])) \<and>
     cm_name c = ''sbatch'' \<and> started_job c = (case r' of Inl err \<Rightarrow> None | Inr j \<Rightarrow> Some j)"
proof -
  obtain out err w' where o': "CombinedOutput h ''sbatch'' (getSbatchOpts req) (sb_Script req) w = ((out, err), w')"
    by (metis surj_pair)
  let ?c = "\<lparr>cm_name = ''sbatch'', cm_args = getSbatchOpts req, cm_stdin = sb_Script req, cm_out = out, cm_err = err\<rparr>"
  have "SBatch (host.truncate (watched h)) req (w, cs) = (r', (w', cs @ [?c]))"
    "started_job ?c = (case r' of Inl err \<Rightarrow> None | Inr j \<Rightarrow> Some j)"
    using assms o'
    by (auto simp: SBatch_def watched_def host.defs started_job_def split: option.splits sum.splits)
  then show ?thesis by (intro exI [of _ w'] exI [of _ ?c]) simp
qed

lemma SCancel_watched:
  "\<exists>r w' c. SCancel (host.truncate (watched h)) j (w, cs) = (r, (w', cs @ [c])) \<and>
     cm_name c = ''scancel'' \<and> cm_args c = [FormatInt64 j]"
  by (auto simp: SCancel_def watched_def host.defs split: prod.splits)

lemma SubmitJob_watched:
  assumes "SubmitJob (watched h) (Some q) (s, (w, cs)) = (r, s', (w', cs'))"
  shows "s' = s \<and> cs' = cs \<and> (\<forall>x. r = Inr x \<longrightarrow> s_knownJobs s (sj_Uid q) = Some (sjr_JobId x)) \<or>
    (\<exists>c. cs' = cs @ [c] \<and> cm_name c = ''sbatch'' \<and> s_knownJobs s (sj_Uid q) = None \<and>
      (case r of
         Inl err \<Rightarrow> s' = s \<and> started_job c = None
       | Inr x \<Rightarrow> s_knownJobs s' = (s_knownJobs s)(sj_Uid q \<mapsto> sjr_JobId x) \<and> started_job c = Some (sjr_JobId x)))"
proof (cases "valid_request q \<and> s_knownJobs s (sj_Uid q) = None")
  case True
  obtain r' where r': "fst (SBatch (host.truncate (watched h)) (sbatch_request q) (w, cs)) = r'" by blast
  from SBatch_watched [OF this] obtain w'' c where "SBatch (host.truncate (watched h)) (sbatch_request q) (w, cs) =
      (r', (w'', cs @ [c]))" "cm_name c = ''sbatch''" "started_job c = (case r' of Inl err \<Rightarrow> None | Inr j \<Rightarrow> Some j)"
    by blast
  then show ?thesis using True assms by (cases r') (auto simp: SubmitJob_def)
next
  case False
  then show ?thesis using assms by (auto simp: SubmitJob_def Let_def split: option.splits if_splits)
qed

lemma CancelJob_watched:
  "\<exists>r w' c. CancelJob (watched h) \<lparr>cj_JobId = j\<rparr> (s, (w, cs)) = (r, s, (w', cs @ [c])) \<and>
     action (u, c) = [Cancel j]"
proof -
  obtain r w' c where "SCancel (host.truncate (watched h)) j (w, cs) = (r, (w', cs @ [c]))"
    "cm_name c = ''scancel''" "cm_args c = [FormatInt64 j]"
    using SCancel_watched [of h j w cs] by blast
  then show ?thesis by (cases r) (auto simp: CancelJob_def started_job_def)
qed

section \<open>The ledger\<close>

text \<open>What the bridge promises of Slurm: a pod gets a job once, and only jobs of pods are cancelled.\<close>

inductive ledger_run :: "slurm_action list \<Rightarrow> (string \<rightharpoonup> int64) \<Rightarrow> bool" where
  empty: "ledger_run [] Map.empty"
| submit: "ledger_run as m \<Longrightarrow> m u = None \<Longrightarrow> ledger_run (as @ [Submit u j]) (m(u \<mapsto> j))"
| cancel: "ledger_run as m \<Longrightarrow> m u = Some j \<Longrightarrow> ledger_run (as @ [Cancel j]) m"

definition submits :: "string \<Rightarrow> slurm_action \<Rightarrow> bool" where
  "submits u a = (case a of Submit v j \<Rightarrow> v = u | Cancel j \<Rightarrow> False)"

lemma ledger_run_known: "ledger_run as m \<Longrightarrow> m u = Some j \<longleftrightarrow> Submit u j \<in> set as"
  by (induction arbitrary: u j rule: ledger_run.induct) (auto split: if_splits, metis option.distinct(1))

lemma ledger_run_once: "ledger_run as m \<Longrightarrow> length (filter (submits u) as) = (if m u = None then 0 else 1)"
  by (induction rule: ledger_run.induct) (auto simp: submits_def)

lemma ledger_run_cancel:
  "ledger_run as m \<Longrightarrow> as = xs @ Cancel j # ys \<Longrightarrow> \<exists>u. Submit u j \<in> set xs"
proof (induction arbitrary: xs ys rule: ledger_run.induct)
  case (submit as m u i)
  then show ?case by (cases ys rule: rev_cases) auto
next
  case (cancel as m u i)
  then show ?case
  proof (cases ys rule: rev_cases)
    case Nil
    then show ?thesis using cancel ledger_run_known by fastforce
  qed auto
qed simp

section \<open>The pods the operator makes\<close>

text \<open>
  The API server hands out versions of pods it stored, and stores a new pod with the labels it is sent.
\<close>

definition reads_from :: "Pod list \<Rightarrow> 'c kube \<Rightarrow> bool" where
  "reads_from pods kb \<longleftrightarrow>
     (\<forall>ns n w p w'. kb_get_pod kb ns n w = (Inr p, w') \<longrightarrow> p \<in> set pods) \<and>
     (\<forall>p w p' w'. kb_create_pod kb p w = (Inr p', w') \<longrightarrow> om_Labels (pod_Meta p') = om_Labels (pod_Meta p))"

definition job_label :: "Pod \<Rightarrow> string option" where
  [simp]: "job_label p = pod_label p LabelSlurmBridgeJobId"

definition is_sizecar :: "Pod \<Rightarrow> bool" where
  [simp]: "is_sizecar p \<longleftrightarrow> map_get (om_Labels (pod_Meta p)) LabelsRole = RoleSizeCar"

definition operator_pod :: "Pod list \<Rightarrow> Pod \<Rightarrow> bool" where
  "operator_pod pods p \<longleftrightarrow>
     job_label p = None \<or> \<not> is_sizecar p \<and> (\<exists>q \<in> set pods. job_label p = job_label q)"

lemma sizecar_pod_job_label:
  assumes "keeps_labels kb" and "newSizeCarPodForSJ (kb_set_owner kb) sjb = Value p"
  shows "job_label p = None"
proof -
  have labels: "getResourceRequestLabelsForPod spec LabelSlurmBridgeJobId = None" for spec
    by (simp add: getResourceRequestLabelsForPod_def int_label_def Let_def)
  have "job_label p = None" if "sizecar_pod (kb_set_owner kb) sjb rl aff = Inr p" for rl aff
    using that assms(1) by (auto simp: sizecar_pod_def keeps_labels_def new_meta_def labels Let_def split: sum.splits)
  then show ?thesis using assms(2) by (auto simp: newSizeCarPodForSJ_def Let_def split: splits_go)
qed

lemma worker_pod_job_label:
  assumes "keeps_labels kb" and "newWorkerPodForSJ (kb_set_owner kb) pod sjb info = Inr p"
  shows "job_label p = job_label pod \<and> \<not> is_sizecar p"
  using assms
  by (auto simp: newWorkerPodForSJ_def keeps_labels_def new_meta_def Let_def split: sum.splits)

lemma find_sizecar_label:
  assumes "find_sizecar (logged kb) sjb wl = (Value (Some pod), sjb', wl')"
    and "reads_from pods kb" and "keeps_labels kb"
  shows "job_label pod = None \<or> pod \<in> set pods"
  using assms sizecar_pod_job_label [OF assms(3)]
  by (auto simp: find_sizecar_def ReconcileSizeCarPods_def reads_from_def split: splits_go) metis+

lemma ReconcileSlurmBridgeJob_pods:
  assumes "ReconcileSlurmBridgeJob (logged kb) sjb (w, []) = (r, sjb', wl')"
    and "reads_from pods kb" and "keeps_labels kb" and "api_call.CreatePod p \<in> set (snd wl')"
  shows "operator_pod pods p"
proof -
  obtain x s1 w1 us where f: "find_sizecar (logged kb) sjb (w, []) = (x, s1, (w1, us))" by (metis surj_pair)
  have size_pod: "operator_pod pods p" if "api_call.CreatePod p \<in> set us"
    using find_sizecar_calls [OF f] that sizecar_pod_job_label [OF assms(3)]
    by (auto simp: sizecar_create_def operator_pod_def)
  show ?thesis
  proof (cases "api_call.CreatePod p \<in> set us")
    case False
    obtain sz where x: "x = Value sz" using assms(1,4) f False by (cases x) (auto simp: ReconcileSlurmBridgeJob_def)
    obtain y s2 w2 us2 where u: "UpdateSBJStatus (logged kb) s1 sz (w1, us) = (y, s2, (w2, us2))"
      by (metis surj_pair)
    have us2: "us2 = us" using UpdateSBJStatus_calls [OF u] by simp
    have rw: "reconcile_worker (logged kb) sz s2 (w2, us) = (r, sjb', wl')"
      using assms(1,4) f u x us2 False by (cases y) (auto simp: ReconcileSlurmBridgeJob_def)
    obtain g w3 where g: "kb_get_pod kb (sbj_Namespace s2) (genPodNameByPodRole s2 RoleWorker) w2 = (g, w3)"
      by (metis surj_pair)
    have "snd wl' \<noteq> us" using assms(4) False by auto
    then have "ReconcileWorkerPods (logged kb) sz s2 (w3, us) = (r, wl')"
      using rw g by (auto simp: reconcile_worker_def split: splits_go)
    from ReconcileWorkerPods_calls [OF this] obtain pod info where
      "sz = Some pod" "job_label pod \<noteq> None" "newWorkerPodForSJ (kb_set_owner kb) pod s2 info = Inr p"
      using \<open>snd wl' \<noteq> us\<close> assms(4) False by auto
    moreover from this f x have "find_sizecar (logged kb) sjb (w, []) = (Value (Some pod), s1, (w1, us))" by simp
    from find_sizecar_label [OF this assms(2,3)] calculation have "pod \<in> set pods" by blast
    ultimately show ?thesis using worker_pod_job_label [OF assms(3)] by (auto simp: operator_pod_def)
  qed (rule size_pod)
qed

lemma Reconcile_pods:
  assumes "api_call.CreatePod p \<in> set (reconcile_calls kb ns name w)" and "reads_from pods kb" and "keeps_labels kb"
  shows "operator_pod pods p"
proof -
  obtain x w1 where g: "kb_get_sbj kb ns name w = (x, w1)" by (metis surj_pair)
  have "x \<noteq> Inl err" for err
    using assms(1) g by (auto simp: reconcile_calls_def Reconcile_def)
  then obtain sjb where x: "x = Inr sjb" by (cases x) auto
  obtain r1 s1 wl1 where r: "ReconcileSlurmBridgeJobResult (logged kb) sjb (w1, []) = (r1, s1, wl1)"
    by (metis surj_pair)
  obtain r2 s2 wl2 where j: "ReconcileSlurmBridgeJob (logged kb) sjb (w1, []) = (r2, s2, wl2)"
    by (metis surj_pair)
  have "api_call.CreatePod p \<notin> set (snd wl1)" using ReconcileSlurmBridgeJobResult_calls [OF r] by auto
  then have "api_call.CreatePod p \<in> set (snd wl2)"
    using assms(1) reconcile_calls_eq [OF _ r j] g x by (auto split: if_splits outcome.splits)
  then show ?thesis using ReconcileSlurmBridgeJob_pods [OF j assms(2,3)] by blast
qed

section \<open>The bridge as a whole\<close>

text \<open>
  Its state: the agent's state and machine, the kubelets (by number; each serves a partition), every
  version of a pod the API server has ever stored (a kubelet or the operator may act on any of them,
  their caches lagging behind), and the log of the commands, each with the pod it was run for.
\<close>

record 'h bridge =
  br_slurm :: Slurm
  br_host :: 'h
  br_kubelets :: "nat \<Rightarrow> provider"
  br_pods :: "Pod list"
  br_log :: "(string \<times> slurm_command) list"

definition bridge_start :: "'h bridge \<Rightarrow> bool" where
  "bridge_start s \<longleftrightarrow>
     s_knownJobs (br_slurm s) = Map.empty \<and> (\<forall>i. pv_knownPods (br_kubelets s i) = Map.empty) \<and>
     br_pods s = [] \<and> br_log s = []"

text \<open>The API server gives a new pod an identifier of its own.\<close>

definition with_uid :: "string \<Rightarrow> Pod \<Rightarrow> Pod" where
  "with_uid uid p = p\<lparr>pod_Meta := (pod_Meta p)\<lparr>om_UID := uid\<rparr>\<rparr>"

definition fresh_uid :: "string \<Rightarrow> Pod list \<Rightarrow> bool" where
  "fresh_uid uid pods \<longleftrightarrow> uid \<notin> pod_UID ` set pods"

text \<open>The calls the programs of the bridge make to the agent beside those for pods, which only read.\<close>

definition reading_call :: "rpc_call \<Rightarrow> bool" where
  "reading_call c = (case c of CallCancel q \<Rightarrow> False | CallContainer q \<Rightarrow> False | _ \<Rightarrow> True)"

text \<open>
  A step is an action of one part. The operator reconciles a job against a cluster whose reads return
  stored versions, and the API server stores a pod it creates (\<open>created\<close>); a user adds a pod that does
  not claim a Slurm job (\<open>user\<close>), and anyone may change a pod but for its role and its job
  (\<open>changed\<close>). A kubelet is handed a version of a pod to create, and the pod it sends to the API server may
  be stored or not (\<open>create\<close>), to update or to delete; it may restart, its map of pods gone.
\<close>

inductive bridge_step ::
    "(go_error \<Rightarrow> go_error) \<Rightarrow> 'h agent_host \<Rightarrow> 'k vk_env \<Rightarrow> 'h bridge \<Rightarrow> 'h bridge \<Rightarrow> bool"
  for g h and e :: "'k vk_env" where
  created: "api_call.CreatePod p \<in> set (reconcile_calls (kb :: 'k kube) ns name c) \<Longrightarrow>
     reads_from (br_pods s) kb \<Longrightarrow> keeps_labels kb \<Longrightarrow> fresh_uid uid (br_pods s) \<Longrightarrow>
     bridge_step g h e s (s\<lparr>br_pods := with_uid uid p # br_pods s\<rparr>)"
| user: "job_label p = None \<Longrightarrow> fresh_uid (pod_UID p) (br_pods s) \<Longrightarrow>
     bridge_step g h e s (s\<lparr>br_pods := p # br_pods s\<rparr>)"
| changed: "p \<in> set (br_pods s) \<Longrightarrow> pod_UID p' = pod_UID p \<Longrightarrow> job_label p' = job_label p \<Longrightarrow>
     pod_label p' LabelsRole = pod_label p LabelsRole \<Longrightarrow>
     bridge_step g h e s (s\<lparr>br_pods := p' # br_pods s\<rparr>)"
| create: "p \<in> set (br_pods s) \<Longrightarrow>
     VKProvider.CreatePod (connect g (watched h) e) (br_kubelets s i) p ((br_slurm s, (br_host s, [])), k) =
       (r, p', t, ((sl, (w, cs)), k')) \<Longrightarrow>
     stored = [] \<or> stored = [p'] \<Longrightarrow>
     bridge_step g h e s
       \<lparr>br_slurm = sl, br_host = w, br_kubelets = (br_kubelets s)(i := t), br_pods = stored @ br_pods s,
        br_log = br_log s @ map (Pair (pod_UID p)) cs\<rparr>"
| update: "p \<in> set (br_pods s) \<Longrightarrow>
     bridge_step g h e s (s\<lparr>br_kubelets := (br_kubelets s)(i := UpdatePod (br_kubelets s i) p)\<rparr>)"
| delete: "p \<in> set (br_pods s) \<Longrightarrow>
     DeletePod (connect g (watched h) e) (br_kubelets s i) p ((br_slurm s, (br_host s, [])), k) =
       (r, t, ((sl, (w, cs)), k')) \<Longrightarrow>
     bridge_step g h e s
       \<lparr>br_slurm = sl, br_host = w, br_kubelets = (br_kubelets s)(i := t), br_pods = br_pods s,
        br_log = br_log s @ map (Pair (pod_UID p)) cs\<rparr>"
| restart:
    "bridge_step g h e s (s\<lparr>br_kubelets := (br_kubelets s)(i := NewSlurmVirtualKubeletProvider server)\<rparr>)"
| call: "reading_call c \<Longrightarrow> rpc (watched h) c (br_slurm s, (br_host s, [])) = (sl, (w, cs)) \<Longrightarrow>
     bridge_step g h e s (s\<lparr>br_slurm := sl, br_host := w, br_log := br_log s @ map (Pair []) cs\<rparr>)"

inductive bridge_reach ::
    "(go_error \<Rightarrow> go_error) \<Rightarrow> 'h agent_host \<Rightarrow> 'k vk_env \<Rightarrow> 'h bridge \<Rightarrow> bool" for g h e where
  start: "bridge_start s \<Longrightarrow> bridge_reach g h e s"
| step: "bridge_reach g h e s \<Longrightarrow> bridge_step g h e s s' \<Longrightarrow> bridge_reach g h e s'"

section \<open>What a step runs\<close>

text \<open>A call of the client that only reads leaves the record of commands as it is.\<close>

definition silent :: "('h \<times> slurm_command list \<Rightarrow> 'a \<times> 'h \<times> slurm_command list) \<Rightarrow> bool" where
  "silent f \<longleftrightarrow> (\<forall>w. snd (snd (f w)) = snd w)"

lemma silentI:
  "(\<And>w. snd (f w) = snd (Output (host.truncate (watched h)) b args w)) \<Longrightarrow> silent f"
  by (simp add: silent_def watched_def host.defs split: prod.splits)

lemma silent_Partition: "silent (SlurmClient.Partition (host.truncate (watched h)) x)"
  by (rule silentI [where h = h and b = "''scontrol''" and args = "[''show'', ''partition'', x]"])
    (simp add: SlurmClient.Partition_def split: prod.splits option.splits)

lemma silent_Nodes: "silent (SlurmClient.Nodes (host.truncate (watched h)) ns)"
proof (cases ns)
  case Nil
  then show ?thesis by (simp add: silent_def SlurmClient.Nodes_def)
next
  case (Cons n r)
  then show ?thesis
    by (intro silentI [where h = h and b = "''scontrol''" and args = "[''show'', ''nodes'', Join ns '','']"])
      (simp add: SlurmClient.Nodes_def split: prod.splits option.splits)
qed

lemma silent_Partitions: "silent (SlurmClient.Partitions (host.truncate (watched h)))"
  by (rule silentI [where h = h and b = "''scontrol''" and args = "[''show'', ''partition'']"])
    (simp add: SlurmClient.Partitions_def split: prod.splits option.splits)

lemma silent_SJobInfo: "silent (SJobInfo (host.truncate (watched h)) j)"
  by (rule silentI [where h = h and b = "''scontrol''" and args = "[''show'', ''jobid'', FormatInt64 j]"])
    (simp add: SJobInfo_def split: prod.splits option.splits sum.splits)

lemma silent_SJobSteps: "silent (SJobSteps (host.truncate (watched h)) j)"
  by (rule silentI [where h = h and b = "''sacct''" and
        args = "[''-p'', ''-n'', ''-j'', FormatInt64 j, ''-o start,end,exitcode,state,jobid,jobname'']"])
    (simp add: SJobSteps_def split: prod.splits option.splits sum.splits go_error.splits)

lemma silent_Resources: "silent (Resources (host.truncate (watched h)) x)"
  by (rule silentI [where h = h and b = "''scontrol''" and args = "[''show'', ''partition'', x]"])
    (simp add: Resources_def split: prod.splits option.splits sum.splits)

lemma silent_Version: "silent (Version (host.truncate (watched h)))"
  by (rule silentI [where h = h and b = "''sinfo''" and args = "[''-V'']"])
    (simp add: Version_def Let_def split: prod.splits option.splits)

lemmas silent_client = silent_Partition silent_Nodes silent_Partitions silent_SJobInfo silent_SJobSteps
  silent_Resources silent_Version

text \<open>The machine after such a call of the service is the one its client leaves.\<close>

lemma rpc_host:
  "snd (snd (Partition_rpc h q1 (s, w))) = snd (SlurmClient.Partition (host.truncate h) (pq_Partition q1) w)"
  "snd (snd (Nodes_rpc h q2 (s, w))) = snd (SlurmClient.Nodes (host.truncate h) (nq_Nodes q2) w)"
  "snd (snd (Partitions_rpc h (s, w))) = snd (SlurmClient.Partitions (host.truncate h) w)"
  "snd (snd (JobInfo_rpc h q3 (s, w))) = snd (SJobInfo (host.truncate h) (jir_JobId q3) w)"
  "snd (snd (JobSteps_rpc h q4 (s, w))) = snd (SJobSteps (host.truncate h) (jsq_JobId q4) w)"
  "snd (snd (Resources_rpc h q5 (s, w))) = snd (Resources (host.truncate h) (rr_Partition q5) w)"
  "snd (snd (WorkloadInfo h (s, w))) = snd (Version (host.truncate h) w)"
  by (simp_all add: Partition_rpc_def Nodes_rpc_def Partitions_rpc_def JobInfo_rpc_def JobSteps_rpc_def
      Resources_rpc_def WorkloadInfo_def split: sum.splits prod.splits option.splits)

lemma reading_call_silent:
  assumes "reading_call c"
  shows "\<exists>w. rpc (watched h) c (sl, (v, cs)) = (sl, (w, cs))"
proof -
  have "snd (snd (rpc (watched h) c (sl, (v, cs)))) = cs"
    using assms
    by (cases c) (simp_all add: reading_call_def rpc_host silent_client [unfolded silent_def, rule_format])
  then show ?thesis
    using rpc_state [of "watched h" c "(sl, (v, cs))"] by (cases "rpc (watched h) c (sl, (v, cs))") auto
qed

lemma int_from_label_uid:
  "(\<And>v r. sj_Uid (set_v v r) = sj_Uid r) \<Longrightarrow> sj_Uid (int_from_label labels k set_v req) = sj_Uid req"
  by (simp add: int_from_label_def split: option.splits sum.splits)

lemma label_fields_uid: "sj_Uid (label_fields labels req) = sj_Uid req"
  by (simp add: label_fields_def int_from_label_uid Let_def split: option.splits)

lemma newSubmitRequestForPod_uid: "newSubmitRequestForPod t p = Value q \<Longrightarrow> sj_Uid q = pod_UID p"
  by (auto simp: newSubmitRequestForPod_def label_fields_uid split: list.splits)

lemma actions_single: "actions [(u, c)] = action (u, c)"
  by (simp add: actions_def)

lemma vk_SubmitJob_connect:
  "vk_SubmitJob (connect g h e) q (a, k) =
     (case SubmitJob h (Some q) a of (r, a') \<Rightarrow> (map_sum g (\<lambda>x. x) r, (a', k)))"
  by (simp add: connect_def via_agent_def split: prod.splits)

lemma CreatePod_meta:
  assumes "VKProvider.CreatePod e t p w = (r, p', t', w')"
  shows "pod_UID p' = pod_UID p \<and> pod_label p' LabelsRole = pod_label p LabelsRole"
proof (cases "p' = p")
  case False
  then obtain q x w1 where "needReconcile p" "validateCreatePod p = None" "newSubmitRequestForPod t p = Value q"
    "vk_SubmitJob e q w = (Inr x, w1)"
    using assms by (auto simp: VKProvider.CreatePod_def split: splits_go)
  from CreatePod_steps [OF this] show ?thesis
    using assms by (auto simp: Let_def addAndUpdateSlurmJobInfo_def split: splits_go)
qed simp

lemma CreatePod_watched:
  assumes "VKProvider.CreatePod (connect g (watched h) e) t p ((s, (w, [])), k) = (r, p', t', ((s', (w', cs)), k'))"
  shows "p' = p \<and> t' = t \<and> s_knownJobs s' = s_knownJobs s \<and> actions (map (Pair (pod_UID p)) cs) = [] \<or>
    (\<exists>j. job_label p' = Some (FormatInt64 j) \<and>
      pv_knownPods t' = (pv_knownPods t)(pod_UID p \<mapsto> FormatInt64 j) \<and>
      (s_knownJobs s (pod_UID p) = Some j \<and> s_knownJobs s' = s_knownJobs s \<and> cs = [] \<or>
       s_knownJobs s (pod_UID p) = None \<and> s_knownJobs s' = (s_knownJobs s)(pod_UID p \<mapsto> j) \<and>
       actions (map (Pair (pod_UID p)) cs) = [Submit (pod_UID p) j]))"
proof (cases "needReconcile p \<and> validateCreatePod p = None")
  case True
  then obtain q where q: "newSubmitRequestForPod t p = Value q" using newSubmitRequestForPod_valid by blast
  note uid = newSubmitRequestForPod_uid [OF q]
  obtain x s1 w1 cs1 where x: "SubmitJob (watched h) (Some q) (s, (w, [])) = (x, s1, (w1, cs1))"
    by (metis surj_pair)
  show ?thesis
  proof (cases x)
    case (Inl err)
    have "VKProvider.CreatePod (connect g (watched h) e) t p ((s, (w, [])), k) =
        (Error (g err), p, t, ((s1, (w1, cs1)), k))"
      using True q x Inl by (simp add: VKProvider.CreatePod_def vk_SubmitJob_connect)
    then have "p' = p" "t' = t" "s' = s1" "cs = cs1" using assms by auto
    moreover have "s1 = s \<and> actions (map (Pair (pod_UID p)) cs1) = []"
      using SubmitJob_watched [OF x] Inl by (auto simp: actions_def)
    ultimately show ?thesis by simp
  next
    case (Inr resp)
    let ?j = "sjr_JobId resp"
    have sub: "vk_SubmitJob (connect g (watched h) e) q ((s, (w, [])), k) = (Inr resp, ((s1, (w1, cs1)), k))"
      using x Inr by (simp add: vk_SubmitJob_connect)
    from CreatePod_submitted [OF _ _ q sub] CreatePod_agent [OF _ _ q x [unfolded Inr], of g e k] True assms
    have "job_label p' = Some (FormatInt64 ?j)" "s' = s1" "cs = cs1"
      "pv_knownPods t' = (pv_knownPods t)(pod_UID p \<mapsto> FormatInt64 ?j)"
      by auto
    then show ?thesis
      using SubmitJob_watched [OF x] Inr uid by (intro disjI2 exI [of _ ?j]) (auto simp: actions_def)
  qed
next
  case False
  then show ?thesis using assms by (auto simp: VKProvider.CreatePod_def split: if_splits option.splits)
qed

lemma vk_CancelJob_connect:
  "vk_CancelJob (connect g h e) q (a, k) =
     (case CancelJob h q a of (r, a') \<Rightarrow> (map_sum g (\<lambda>x. x) r, (a', k)))"
  by (simp add: connect_def via_agent_def split: prod.splits)

text \<open>The job a kubelet takes a pod for, and what deleting the pod then runs.\<close>

definition pod_job :: "provider \<Rightarrow> Pod \<Rightarrow> string option" where
  "pod_job t p = (case job_label p of Some l \<Rightarrow> Some l | None \<Rightarrow> pv_knownPods t (pod_UID p))"

lemma DeletePod_watched:
  assumes "DeletePod (connect g (watched h) e) t p ((s, (w, [])), k) = (r, t', ((s', (w', cs)), k'))"
  shows "t' = forget t p \<and>
    (pod_job t p = None \<longrightarrow> s' = s \<and> cs = []) \<and>
    (pod_job t p = Some (FormatInt64 j) \<longrightarrow> s' = s \<and> actions (map (Pair u) cs) = [Cancel j])"
proof -
  obtain x w1 c where c: "CancelJob (watched h) \<lparr>cj_JobId = j\<rparr> (s, (w, [])) = (x, s, (w1, [] @ [c]))"
    "action (u, c) = [Cancel j]"
    using CancelJob_watched [of h j s w "[]" u] by blast
  have del: "DeletePod (connect g (watched h) e) t p ((s, (w, [])), k) =
      (case pod_job t p of
         None \<Rightarrow> (None, forget t p, ((s, (w, [])), k))
       | Some jobIds \<Rightarrow>
           (case cancel_jobs (connect g (watched h) e) (Split jobIds '','') ((s, (w, [])), k) of
              (err, w') \<Rightarrow> (err, forget t p, w')))"
    by (simp add: DeletePod_def pod_job_def)
  show ?thesis
    using assms c unfolding del
    by (auto simp: cancel_jobs_single vk_CancelJob_connect actions_single split: option.splits prod.splits)
qed

section \<open>The invariant\<close>

lemma with_uid_simps [simp]: "pod_UID (with_uid uid p) = uid" "job_label (with_uid uid p) = job_label p"
  "is_sizecar (with_uid uid p) = is_sizecar p"
  by (simp_all add: with_uid_def)

declare job_label_def [simp del] is_sizecar_def [simp del]

text \<open>
  The text names a job the ledger has, for a sizecar pod its own. Labels, the kubelets' maps and the
  cancellations in the log only name such jobs; versions of one pod agree on its role.
\<close>

abbreviation uids :: "Pod list \<Rightarrow> string set" where
  "uids pods \<equiv> pod_UID ` set pods"

definition sizecar_uid :: "Pod list \<Rightarrow> string \<Rightarrow> bool" where
  "sizecar_uid pods u \<longleftrightarrow> (\<exists>p \<in> set pods. pod_UID p = u \<and> is_sizecar p)"

definition own_job :: "(string \<rightharpoonup> int64) \<Rightarrow> Pod list \<Rightarrow> string \<Rightarrow> string \<Rightarrow> bool" where
  "own_job m pods u l \<longleftrightarrow> (\<exists>v j. m v = Some j \<and> l = FormatInt64 j \<and> (sizecar_uid pods u \<longrightarrow> v = u))"

definition roles_agree :: "Pod list \<Rightarrow> bool" where
  "roles_agree pods \<longleftrightarrow>
     (\<forall>p \<in> set pods. \<forall>q \<in> set pods. pod_UID p = pod_UID q \<longrightarrow> is_sizecar p = is_sizecar q)"

definition labels_own :: "(string \<rightharpoonup> int64) \<Rightarrow> Pod list \<Rightarrow> bool" where
  "labels_own m pods \<longleftrightarrow> (\<forall>p \<in> set pods. \<forall>l. job_label p = Some l \<longrightarrow> own_job m pods (pod_UID p) l)"

definition kubelets_own :: "(string \<rightharpoonup> int64) \<Rightarrow> Pod list \<Rightarrow> (nat \<Rightarrow> provider) \<Rightarrow> bool" where
  "kubelets_own m pods ks \<longleftrightarrow>
     (\<forall>i u l. pv_knownPods (ks i) u = Some l \<longrightarrow> u \<in> uids pods \<and> own_job m pods u l)"

definition log_own :: "(string \<rightharpoonup> int64) \<Rightarrow> Pod list \<Rightarrow> (string \<times> slurm_command) list \<Rightarrow> bool" where
  "log_own m pods log \<longleftrightarrow>
     (\<forall>(u, c) \<in> set log. u \<in> uids pods \<and>
        (\<forall>j. Cancel j \<in> set (action (u, c)) \<longrightarrow> own_job m pods u (FormatInt64 j)))"

definition bridge_inv :: "'h bridge \<Rightarrow> bool" where
  "bridge_inv s \<longleftrightarrow>
     ledger_run (actions (br_log s)) (s_knownJobs (br_slurm s)) \<and> roles_agree (br_pods s) \<and>
     labels_own (s_knownJobs (br_slurm s)) (br_pods s) \<and>
     kubelets_own (s_knownJobs (br_slurm s)) (br_pods s) (br_kubelets s) \<and>
     log_own (s_knownJobs (br_slurm s)) (br_pods s) (br_log s)"

lemma own_job_ledger: "own_job m pods u l \<Longrightarrow> m \<subseteq>\<^sub>m m' \<Longrightarrow> own_job m' pods u l"
  unfolding own_job_def map_le_def by (metis domI)

lemma sizecar_uid_add:
  "p' \<in> set pods \<Longrightarrow> pod_UID p' = pod_UID p \<Longrightarrow> is_sizecar p' = is_sizecar p \<Longrightarrow>
     sizecar_uid (p # pods) u = sizecar_uid pods u"
  by (auto simp: sizecar_uid_def)

lemma sizecar_uid_fresh:
  "fresh_uid (pod_UID p) pods \<Longrightarrow> u \<in> uids pods \<Longrightarrow> sizecar_uid (p # pods) u = sizecar_uid pods u"
  by (auto simp: sizecar_uid_def fresh_uid_def)

text \<open>The pods grow by a version or by a new pod: what is known about the others stays.\<close>

lemma kubelets_own_add:
  assumes "\<And>u l. u \<in> uids pods \<Longrightarrow> own_job m (p # pods) u l = own_job m pods u l" and "kubelets_own m pods ks"
  shows "kubelets_own m (p # pods) ks"
  unfolding kubelets_own_def
proof (intro allI impI)
  fix i u l
  assume "pv_knownPods (ks i) u = Some l"
  then have "u \<in> uids pods" "own_job m pods u l" using assms(2) unfolding kubelets_own_def by blast+
  then show "u \<in> uids (p # pods) \<and> own_job m (p # pods) u l" using assms(1) by simp
qed

lemma log_own_add:
  assumes "\<And>u l. u \<in> uids pods \<Longrightarrow> own_job m (p # pods) u l = own_job m pods u l" and "log_own m pods log"
  shows "log_own m (p # pods) log"
  unfolding log_own_def
proof (rule ballI, clarify)
  fix u c
  assume "(u, c) \<in> set log"
  then have "u \<in> uids pods" "\<forall>j. Cancel j \<in> set (action (u, c)) \<longrightarrow> own_job m pods u (FormatInt64 j)"
    using assms(2) unfolding log_own_def by blast+
  then show "u \<in> uids (p # pods) \<and> (\<forall>j. Cancel j \<in> set (action (u, c)) \<longrightarrow> own_job m (p # pods) u (FormatInt64 j))"
    using assms(1) by simp
qed

lemma labels_own_add:
  assumes "\<And>u l. u \<in> uids pods \<Longrightarrow> own_job m (p # pods) u l = own_job m pods u l" and "labels_own m pods"
    and "\<And>l. job_label p = Some l \<Longrightarrow> own_job m (p # pods) (pod_UID p) l"
  shows "labels_own m (p # pods)"
  unfolding labels_own_def
proof (intro ballI allI impI)
  fix q l
  assume q: "q \<in> set (p # pods)" and l: "job_label q = Some l"
  show "own_job m (p # pods) (pod_UID q) l"
  proof (cases "q = p")
    case False
    then have "q \<in> set pods" using q by simp
    then show ?thesis using assms(1,2) l unfolding labels_own_def by blast
  qed (use assms(3) l in simp)
qed

lemma roles_agree_version:
  "roles_agree pods \<Longrightarrow> q \<in> set pods \<Longrightarrow> pod_UID q = pod_UID p \<Longrightarrow> is_sizecar q = is_sizecar p \<Longrightarrow>
     roles_agree (p # pods)"
  unfolding roles_agree_def by (intro ballI impI) (metis set_ConsD)

lemma roles_agree_fresh: "roles_agree pods \<Longrightarrow> fresh_uid (pod_UID p) pods \<Longrightarrow> roles_agree (p # pods)"
  unfolding roles_agree_def fresh_uid_def by (intro ballI impI) (metis image_eqI set_ConsD)

lemma bridge_inv_version:
  assumes "bridge_inv s" and "q \<in> set (br_pods s)" and "pod_UID q = pod_UID p" and "is_sizecar q = is_sizecar p"
    and "\<And>l. job_label p = Some l \<Longrightarrow> own_job (s_knownJobs (br_slurm s)) (br_pods s) (pod_UID p) l"
  shows "bridge_inv (s\<lparr>br_pods := p # br_pods s\<rparr>)"
proof -
  have keep: "own_job m (p # br_pods s) u l \<longleftrightarrow> own_job m (br_pods s) u l" for m u l
    using sizecar_uid_add [OF assms(2-4)] by (simp add: own_job_def)
  from assms(1) show ?thesis
    unfolding bridge_inv_def
    by (auto intro!: roles_agree_version [OF _ assms(2-4)] labels_own_add kubelets_own_add log_own_add
        simp: keep assms(5))
qed

lemma bridge_inv_fresh:
  assumes "bridge_inv s" and "fresh_uid (pod_UID p) (br_pods s)" and "operator_pod (br_pods s) p"
  shows "bridge_inv (s\<lparr>br_pods := p # br_pods s\<rparr>)"
proof -
  let ?m = "s_knownJobs (br_slurm s)" and ?pods = "br_pods s"
  have keep: "own_job ?m (p # ?pods) u l \<longleftrightarrow> own_job ?m ?pods u l" if "u \<in> uids ?pods" for u l
    using sizecar_uid_fresh [OF assms(2) that] by (simp add: own_job_def)
  have new: "own_job ?m (p # ?pods) (pod_UID p) l" if l: "job_label p = Some l" for l
  proof -
    obtain q where q: "q \<in> set ?pods" "job_label q = Some l" "\<not> is_sizecar p"
      using assms(3) l by (auto simp: operator_pod_def)
    then have "own_job ?m ?pods (pod_UID q) l" using assms(1) by (auto simp: bridge_inv_def labels_own_def)
    moreover have "\<not> sizecar_uid (p # ?pods) (pod_UID p)"
      using q(3) assms(2) unfolding sizecar_uid_def fresh_uid_def by (metis image_eqI set_ConsD)
    ultimately show ?thesis by (auto simp: own_job_def)
  qed
  from assms(1) show ?thesis
    unfolding bridge_inv_def
    by (auto intro!: roles_agree_fresh [OF _ assms(2)] labels_own_add [OF keep] kubelets_own_add [OF keep]
        log_own_add [OF keep] new)
qed

lemma operator_pod_with_uid: "operator_pod pods p \<Longrightarrow> operator_pod pods (with_uid uid p)"
  by (simp add: operator_pod_def)

lemma kubelets_own_upd:
  assumes "kubelets_own m pods ks"
    and "\<And>u l. pv_knownPods t u = Some l \<Longrightarrow> pv_knownPods (ks i) u = Some l \<or> u \<in> uids pods \<and> own_job m pods u l"
  shows "kubelets_own m pods (ks(i := t))"
  using assms unfolding kubelets_own_def by (simp, blast)

lemma log_own_append:
  assumes "log_own m pods log" and "u \<in> uids pods"
    and "\<And>j. Cancel j \<in> set (actions (map (Pair u) cs)) \<Longrightarrow> own_job m pods u (FormatInt64 j)"
  shows "log_own m pods (log @ map (Pair u) cs)"
proof -
  have "own_job m pods u (FormatInt64 j)" if "c \<in> set cs" "Cancel j \<in> set (action (u, c))" for c j
    using that by (intro assms(3)) (auto simp: actions_def simp del: action.simps)
  then show ?thesis using assms(1,2) unfolding log_own_def by (auto simp del: action.simps)
qed

lemma own_mono:
  assumes "m \<subseteq>\<^sub>m m'"
  shows "labels_own m pods \<Longrightarrow> labels_own m' pods" "kubelets_own m pods ks \<Longrightarrow> kubelets_own m' pods ks"
    "log_own m pods log \<Longrightarrow> log_own m' pods log"
  using own_job_ledger [OF _ assms] unfolding labels_own_def kubelets_own_def log_own_def by blast+

lemma own_jobI: "m u = Some j \<Longrightarrow> own_job m pods u (FormatInt64 j)"
  by (auto simp: own_job_def)

lemma bridge_inv_submit:
  assumes inv: "bridge_inv s" and p: "p \<in> set (br_pods s)" and j: "s_knownJobs sl (pod_UID p) = Some j"
    and t: "pv_knownPods t = (pv_knownPods (br_kubelets s i))(pod_UID p \<mapsto> FormatInt64 j)"
    and m: "s_knownJobs sl = s_knownJobs (br_slurm s) \<and> cs = [] \<or>
      s_knownJobs (br_slurm s) (pod_UID p) = None \<and>
      s_knownJobs sl = (s_knownJobs (br_slurm s))(pod_UID p \<mapsto> j) \<and>
      actions (map (Pair (pod_UID p)) cs) = [Submit (pod_UID p) j]"
  shows "bridge_inv \<lparr>br_slurm = sl, br_host = w, br_kubelets = (br_kubelets s)(i := t), br_pods = br_pods s,
    br_log = br_log s @ map (Pair (pod_UID p)) cs\<rparr>"
proof -
  let ?m = "s_knownJobs (br_slurm s)" and ?m' = "s_knownJobs sl" and ?log = "br_log s @ map (Pair (pod_UID p)) cs"
  have le: "?m \<subseteq>\<^sub>m ?m'" using m by (auto simp: map_le_def)
  have run: "ledger_run (actions ?log) ?m'"
    using m inv ledger_run.submit [of "actions (br_log s)" ?m "pod_UID p" j] by (auto simp: bridge_inv_def)
  have none: "Cancel i \<notin> set (actions (map (Pair (pod_UID p)) cs))" for i using m by auto
  have u: "pod_UID p \<in> uids (br_pods s)" using p by simp
  have "kubelets_own ?m' (br_pods s) ((br_kubelets s)(i := t))"
    by (rule kubelets_own_upd)
      (use inv own_mono [OF le] own_jobI [of ?m', OF j] u in \<open>auto simp: t bridge_inv_def split: if_splits\<close>)
  moreover have "log_own ?m' (br_pods s) ?log"
    by (rule log_own_append [OF _ u]) (use inv own_mono [OF le] none in \<open>auto simp: bridge_inv_def\<close>)
  ultimately show ?thesis using inv own_mono [OF le] run by (simp add: bridge_inv_def)
qed

lemma bridge_inv_delete:
  assumes inv: "bridge_inv s" and p: "p \<in> set (br_pods s)"
    and del: "DeletePod (connect g (watched h) e) (br_kubelets s i) p ((br_slurm s, (br_host s, [])), k) =
      (r, t, ((sl, (w, cs)), k'))"
  shows "bridge_inv \<lparr>br_slurm = sl, br_host = w, br_kubelets = (br_kubelets s)(i := t), br_pods = br_pods s,
    br_log = br_log s @ map (Pair (pod_UID p)) cs\<rparr>"
proof -
  let ?m = "s_knownJobs (br_slurm s)" and ?u = "pod_UID p" and ?ks = "br_kubelets s"
  have u: "?u \<in> uids (br_pods s)" using p by simp
  have own: "own_job ?m (br_pods s) ?u l" if "pod_job (?ks i) p = Some l" for l
    using that inv p
    by (auto simp: pod_job_def job_label_def bridge_inv_def labels_own_def kubelets_own_def split: option.splits)
  have t: "t = forget (?ks i) p" using DeletePod_watched [OF del] by blast
  have ks: "kubelets_own ?m (br_pods s) (?ks(i := t))"
    by (rule kubelets_own_upd) (use inv in \<open>auto simp: t forget_def bridge_inv_def split: if_splits\<close>)
  have log: "sl = br_slurm s \<and> (cs = [] \<or>
      (\<exists>v j. ?m v = Some j \<and> own_job ?m (br_pods s) ?u (FormatInt64 j) \<and> actions (map (Pair ?u) cs) = [Cancel j]))"
  proof (cases "pod_job (?ks i) p")
    case None
    then show ?thesis using DeletePod_watched [OF del] by simp
  next
    case (Some l)
    from own [OF Some] obtain v j where j: "?m v = Some j" "l = FormatInt64 j" by (auto simp: own_job_def)
    then show ?thesis using DeletePod_watched [OF del, of j] Some own [OF Some] by blast
  qed
  then have sl: "sl = br_slurm s" by simp
  have "ledger_run (actions (br_log s @ map (Pair ?u) cs)) ?m"
    using log inv ledger_run.cancel by (auto simp: bridge_inv_def)
  moreover have "log_own ?m (br_pods s) (br_log s @ map (Pair ?u) cs)"
    by (rule log_own_append [OF _ u]) (use log inv in \<open>auto simp: bridge_inv_def\<close>)
  ultimately show ?thesis using ks inv by (simp add: bridge_inv_def sl)
qed

lemma bridge_inv_create:
  assumes inv: "bridge_inv s" and p: "p \<in> set (br_pods s)"
    and c: "VKProvider.CreatePod (connect g (watched h) e) (br_kubelets s i) p ((br_slurm s, (br_host s, [])), k) =
      (r, p', t, ((sl, (w, cs)), k'))"
    and stored: "stored = [] \<or> stored = [p']"
  shows "bridge_inv \<lparr>br_slurm = sl, br_host = w, br_kubelets = (br_kubelets s)(i := t),
    br_pods = stored @ br_pods s, br_log = br_log s @ map (Pair (pod_UID p)) cs\<rparr>"
proof -
  let ?m = "s_knownJobs (br_slurm s)" and ?m' = "s_knownJobs sl" and ?u = "pod_UID p"
  let ?s = "\<lparr>br_slurm = sl, br_host = w, br_kubelets = (br_kubelets s)(i := t), br_pods = br_pods s,
    br_log = br_log s @ map (Pair ?u) cs\<rparr>"
  have "pod_UID p' = ?u" "is_sizecar p' = is_sizecar p"
    using CreatePod_meta [OF c] by (simp_all add: is_sizecar_def map_get_def)
  note same = this [symmetric]
  have "bridge_inv ?s \<and> (\<forall>l. job_label p' = Some l \<longrightarrow> own_job ?m' (br_pods s) (pod_UID p') l)"
    using CreatePod_watched [OF c]
  proof (elim disjE conjE exE)
    assume eq: "p' = p" "t = br_kubelets s i" "?m' = ?m" "actions (map (Pair ?u) cs) = []"
    have "log_own ?m (br_pods s) (br_log s @ map (Pair ?u) cs)"
      by (rule log_own_append) (use inv p eq(4) in \<open>auto simp: bridge_inv_def\<close>)
    then show ?thesis using inv p eq by (auto simp: bridge_inv_def labels_own_def)
  next
    fix j
    assume *: "job_label p' = Some (FormatInt64 j)" "pv_knownPods t = (pv_knownPods (br_kubelets s i))(?u \<mapsto> FormatInt64 j)"
      "?m ?u = Some j" "?m' = ?m" "cs = []"
    have m: "?m' ?u = Some j" using * by simp
    have "bridge_inv ?s" by (rule bridge_inv_submit [OF inv p m *(2)]) (use * in simp)
    then show ?thesis using * own_jobI [of ?m', OF m] same by simp
  next
    fix j
    assume *: "job_label p' = Some (FormatInt64 j)" "pv_knownPods t = (pv_knownPods (br_kubelets s i))(?u \<mapsto> FormatInt64 j)"
      "?m ?u = None" "?m' = ?m(?u \<mapsto> j)" "actions (map (Pair ?u) cs) = [Submit ?u j]"
    have m: "?m' ?u = Some j" using * by simp
    have "bridge_inv ?s" by (rule bridge_inv_submit [OF inv p m *(2)]) (use * in simp)
    then show ?thesis using * own_jobI [of ?m', OF m] same by simp
  qed
  then have "bridge_inv ?s" "\<And>l. job_label p' = Some l \<Longrightarrow> own_job ?m' (br_pods s) (pod_UID p') l" by blast+
  then show ?thesis using stored bridge_inv_version [of ?s p p'] p same by auto
qed

lemma bridge_inv_step:
  assumes "bridge_step g h e s s'" and "bridge_inv s"
  shows "bridge_inv s'"
  using assms
proof (induction rule: bridge_step.induct)
  case (created p kb ns name c s uid)
  then show ?case
    using Reconcile_pods [OF created(1-3)] by (intro bridge_inv_fresh) (simp_all add: operator_pod_with_uid)
next
  case (user p s)
  then show ?case by (intro bridge_inv_fresh) (simp_all add: operator_pod_def)
next
  case (changed p s p')
  have same: "pod_UID p = pod_UID p'" "is_sizecar p = is_sizecar p'" "job_label p = job_label p'"
    using changed(2-4) by (simp_all add: is_sizecar_def map_get_def)
  show ?case
    by (rule bridge_inv_version [OF changed(5,1) same(1,2)])
      (use changed(1,5) same in \<open>auto simp: bridge_inv_def labels_own_def\<close>)
next
  case (create p s i k r p' t sl w cs k' stored)
  show ?case by (rule bridge_inv_create [OF create(4,1-3)])
next
  case (update p s i)
  have "pv_knownPods (UpdatePod (br_kubelets s i) p) u = Some l \<Longrightarrow>
      pv_knownPods (br_kubelets s i) u = Some l \<or> u = pod_UID p \<and> job_label p = Some l" for u l
    by (auto simp: UpdatePod_def job_label_def split: option.splits if_splits)
  then have "kubelets_own (s_knownJobs (br_slurm s)) (br_pods s)
      ((br_kubelets s)(i := UpdatePod (br_kubelets s i) p))"
    using update by (intro kubelets_own_upd) (auto simp: bridge_inv_def labels_own_def)
  then show ?case using update by (simp add: bridge_inv_def)
next
  case (delete p s i k r t sl w cs k')
  show ?case by (rule bridge_inv_delete [OF delete(3,1,2)])
next
  case (restart s i server)
  then show ?case
    by (auto simp: bridge_inv_def NewSlurmVirtualKubeletProvider_def intro!: kubelets_own_upd)
next
  case (call c s sl w cs)
  then have "sl = br_slurm s" "cs = []"
    using reading_call_silent [OF call(1), of h "br_slurm s" "br_host s" "[]"] by auto
  then show ?case using call(3) by (simp add: bridge_inv_def)
qed

lemma bridge_reach_inv: "bridge_reach g h e s \<Longrightarrow> bridge_inv s"
proof (induction rule: bridge_reach.induct)
  case (start s)
  then show ?case
    by (simp add: bridge_start_def bridge_inv_def ledger_run.empty roles_agree_def labels_own_def kubelets_own_def
        log_own_def)
qed (rule bridge_inv_step)

section \<open>A run\<close>

text \<open>A user's pod is created by one kubelet, created by another, and deleted by the first.\<close>

lemma sample_submit:
  assumes "sj_Uid q = ''u1''" and "valid_request q"
  shows "\<exists>sl w c. SubmitJob (watched counting_agent) (Some q) (NewSlurm Map.empty 0, (7, [])) =
    (Inr \<lparr>sjr_JobId = 7\<rparr>, sl, (w, [c])) \<and> s_knownJobs sl = [''u1'' \<mapsto> 7] \<and> started_job c = Some 7"
proof -
  have "Atoi (FormatInt 7) = Inr 7" by code_simp
  then have "fst (SBatch (host.truncate (watched counting_agent)) (sbatch_request q) (7, [])) = Inr 7"
    by (simp add: SBatch_def watched_def counting_agent_def counting_host_def host.defs agent_host.defs
        TrimSpace_FormatInt_blanks)
  from SBatch_watched [OF this] obtain w c where
    "SBatch (host.truncate (watched counting_agent)) (sbatch_request q) (7, []) = (Inr 7, (w, [c]))"
    "started_job c = Some 7"
    by auto
  then show ?thesis using assms by (auto simp: SubmitJob_def NewSlurm_def)
qed

definition sample_bridge :: "int64 bridge" where
  "sample_bridge = \<lparr>br_slurm = NewSlurm Map.empty 0, br_host = 7, br_kubelets = (\<lambda>i. sample_provider),
     br_pods = [], br_log = []\<rparr>"

abbreviation sample_reach :: "int64 bridge \<Rightarrow> bool" where
  "sample_reach \<equiv> bridge_reach (\<lambda>x. x) counting_agent sample_vk_env"

lemma sample_created:
  "\<exists>s. sample_reach s \<and> actions (br_log s) = [Submit ''u1'' 7] \<and> s_knownJobs (br_slurm s) = [''u1'' \<mapsto> 7] \<and>
     sample_sizecar \<in> set (br_pods s) \<and> pv_knownPods (br_kubelets s 0) ''u1'' = Some (FormatInt64 7)"
proof -
  let ?p = sample_sizecar
  let ?s1 = "sample_bridge\<lparr>br_pods := [?p]\<rparr>"
  have u: "pod_UID ?p = ''u1''" and l: "job_label ?p = None"
    by (simp_all add: sample_sizecar_def new_meta_def job_label_def)
  have r1: "sample_reach ?s1"
  proof (rule bridge_reach.step [OF bridge_reach.start [of sample_bridge]])
    show "bridge_start sample_bridge"
      by (simp add: bridge_start_def sample_bridge_def NewSlurm_def sample_provider_def
          NewSlurmVirtualKubeletProvider_def)
    show "bridge_step (\<lambda>x. x) counting_agent sample_vk_env sample_bridge ?s1"
      using bridge_step.user [OF l, of sample_bridge] by (simp add: fresh_uid_def sample_bridge_def)
  qed
  let ?q = "zero_SubmitJobRequest\<lparr>sj_Uid := ''u1'', sj_Partition := ''debug'', sj_JobName := ''j'',
       sj_Script := ''#!/bin/sh''\<rparr>"
  have q: "newSubmitRequestForPod sample_provider ?p = Value ?q"
    by (simp add: newSubmitRequestForPod_def sample_provider_def NewSlurmVirtualKubeletProvider_def
        sample_sizecar_def zero_Pod_def new_meta_def new_container_def zero_Flags_def label_fields_def
        int_from_label_def container_user_def zero_SubmitJobRequest_def Let_def)
  obtain sl w c where sub: "SubmitJob (watched counting_agent) (Some ?q) (NewSlurm Map.empty 0, (7, [])) =
      (Inr \<lparr>sjr_JobId = 7\<rparr>, sl, (w, [c]))" "s_knownJobs sl = [''u1'' \<mapsto> 7]" "started_job c = Some 7"
    using sample_submit [of ?q] by (auto simp: zero_SubmitJobRequest_def valid_request_def)
  from CreatePod_agent [OF sample_sizecar_ready q sub(1), of "\<lambda>x. x" sample_vk_env "[]"] obtain p' k' where
    cr: "VKProvider.CreatePod (connect (\<lambda>x. x) (watched counting_agent) sample_vk_env) (br_kubelets ?s1 0) ?p
      ((br_slurm ?s1, (br_host ?s1, [])), []) =
      (Value (), p', sample_provider\<lparr>pv_knownPods := (pv_knownPods sample_provider)(''u1'' \<mapsto> FormatInt64 7)\<rparr>,
       ((sl, (w, [c])), k'))"
    by (auto simp: sample_bridge_def u)
  have "?p \<in> set (br_pods ?s1)" by simp
  from bridge_reach.step [OF r1 bridge_step.create [OF this cr, of "[]"]] show ?thesis
    using sub(2,3) by (intro exI conjI) (auto simp: u actions_def sample_bridge_def)
qed

lemma sample_run:
  "\<exists>s. sample_reach s \<and> actions (br_log s) = [Submit ''u1'' 7, Cancel 7] \<and> sizecar_uid (br_pods s) ''u1''"
proof -
  let ?p = sample_sizecar and ?e = "connect (\<lambda>x. x) (watched counting_agent) sample_vk_env"
  obtain s where s: "sample_reach s" "actions (br_log s) = [Submit ''u1'' 7]" "s_knownJobs (br_slurm s) = [''u1'' \<mapsto> 7]"
     "?p \<in> set (br_pods s)" "pv_knownPods (br_kubelets s 0) ''u1'' = Some (FormatInt64 7)"
    using sample_created by blast
  have u: "pod_UID ?p = ''u1''" "job_label ?p = None" "is_sizecar ?p"
    by (simp_all add: sample_sizecar_def new_meta_def job_label_def is_sizecar_def)
  obtain r p' t sl w cs k' where c: "VKProvider.CreatePod ?e (br_kubelets s 1) ?p ((br_slurm s, (br_host s, [])), []) =
      (r, p', t, ((sl, (w, cs)), k'))"
    by (metis surj_pair)
  have none: "actions (map (Pair ''u1'') cs) = []"
    using CreatePod_watched [OF c] s(3) u(1) by auto
  define s2 where "s2 = \<lparr>br_slurm = sl, br_host = w, br_kubelets = (br_kubelets s)(1 := t), br_pods = br_pods s,
    br_log = br_log s @ map (Pair ''u1'') cs\<rparr>"
  have r2: "sample_reach s2"
    using bridge_reach.step [OF s(1) bridge_step.create [OF s(4) c, of "[]"]] u(1) by (simp add: s2_def)
  obtain r' t' sl' w' cs' k2 where d: "DeletePod ?e (br_kubelets s2 0) ?p ((br_slurm s2, (br_host s2, [])), []) =
      (r', t', ((sl', (w', cs')), k2))"
    by (metis surj_pair)
  have "pod_job (br_kubelets s2 0) ?p = Some (FormatInt64 7)"
    using s(5) u by (simp add: pod_job_def s2_def)
  then have a: "actions (map (Pair ''u1'') cs') = [Cancel 7]" using DeletePod_watched [OF d] by blast
  have "?p \<in> set (br_pods s2)" using s(4) by (simp add: s2_def)
  from bridge_reach.step [OF r2 bridge_step.delete [OF this d]] show ?thesis
    using a none s(2,4) u by (intro exI conjI) (auto simp: s2_def sizecar_uid_def)
qed

section \<open>What the bridge does to Slurm\<close>





end
