(* ===== verification/JobRequest.thy ===== *)
theory JobRequest
  imports Operator VKLifecycle SlurmServer
begin

text \<open>
  The way of a job's specification through the parts: the labels and the container of the sizecar pod
  that the operator makes (\<^verbatim>\<open>pkg/slurm-bridge-operator/pod.go\<close>), read back by the virtual kubelet
  (\<^verbatim>\<open>provider.go\<close>) into the request it submits.
\<close>

text \<open>
  The options that a job's specification asks for, as \<^verbatim>\<open>sbatch\<close> reads them: no group is passed on.
\<close>

definition job_options :: "string \<Rightarrow> SlurmBridgeJob \<Rightarrow> (string \<rightharpoonup> string)" where
  "job_options part sjb =
     (let spec = sbj_Spec sjb in
      [''--parsable'' \<mapsto> []] ++
      (\<lambda>k. if k = ''--partition'' then str_value part
          else if k = ''--uid'' then map_option FormatInt64 (sp_RunAsUser spec)
          else if k = ''--array'' then str_value (sp_Array spec)
          else if k = ''--cpus-per-task'' then int_value (sp_CpusPerTask spec)
          else if k = ''--mem-per-cpu'' then int_value (sp_MemPerCpu spec)
          else if k = ''--nodes'' then int_value (sp_Nodes spec)
          else if k = ''--ntasks'' then int_value (sp_Ntasks spec)
          else if k = ''--ntasks-per-node'' then int_value (sp_NtasksPerNode spec)
          else if k = ''--job-name'' then str_value (sbj_Name sjb)
          else if k = ''--chdir'' then str_value (sp_WorkingDir spec)
          else None))"

definition keeps_owner_labels :: "(SlurmBridgeJob \<Rightarrow> ObjectMeta \<Rightarrow> ObjectMeta result) \<Rightarrow> bool" where
  "keeps_owner_labels set_owner \<longleftrightarrow>
     (\<forall>sjb m m'. set_owner sjb m = Inr m' \<longrightarrow> om_Labels m' = om_Labels m)"

lemma newSizeCarPodForSJ_shape:
  assumes "newSizeCarPodForSJ set_owner sjb = Value pod" and "keeps_owner_labels set_owner"
  obtains rl a where "ps_Containers (pod_Spec pod) = [sizecar_container sjb rl]"
    and "om_Labels (pod_Meta pod) = (getResourceRequestLabelsForPod (sbj_Spec sjb))(LabelsRole \<mapsto> RoleSizeCar)"
    and "ps_Tolerations (pod_Spec pod) = DefaultTolerations"
    and "ps_Affinity (pod_Spec pod) = Some a" and "affinityForSj sjb rr = Inr a"
  using assms
  by (auto simp: newSizeCarPodForSJ_def sizecar_pod_def keeps_owner_labels_def affinityForSj_def
      AffinityForResources_def new_meta_def Let_def split: splits_go)

lemma int_label_apply:
  "int_label k v labels j = (if j = k \<and> 0 < sint v then Some (FormatInt64 v) else labels j)"
  by (simp add: int_label_def)

lemma resource_labels:
  "getResourceRequestLabelsForPod spec LabelsResourceRequestNodes = int_value (sp_Nodes spec)"
  "getResourceRequestLabelsForPod spec LabelsResourceRequestCpusPerTask = int_value (sp_CpusPerTask spec)"
  "getResourceRequestLabelsForPod spec LabelsResourceRequestMemPerCpu = int_value (sp_MemPerCpu spec)"
  "getResourceRequestLabelsForPod spec LabelsResourceRequestNTasksPerNode = int_value (sp_NtasksPerNode spec)"
  "getResourceRequestLabelsForPod spec LabelsResourceRequestArray = str_value (sp_Array spec)"
  "getResourceRequestLabelsForPod spec LabelsResourceRequestNTasks = int_value (sp_Ntasks spec)"
  "getResourceRequestLabelsForPod spec LabelSlurmBridgeJobId = None"
  by (simp_all add: getResourceRequestLabelsForPod_def Let_def int_label_apply int_value_def str_value_def)

lemma int_from_int_value:
  "labels k = int_value v \<Longrightarrow>
     int_from_label labels k set_v r = (if 0 < sint v then set_v v r else r)"
  by (simp add: int_from_label_def int_value_def)

text \<open>The request for a pod whose labels were made from a specification.\<close>

lemma label_fields_resource_labels:
  fixes spec :: SlurmBridgeJobSpec and role :: string
  defines "labels \<equiv> (getResourceRequestLabelsForPod spec)(LabelsRole \<mapsto> role)"
  shows "label_fields labels r =
    r\<lparr>sj_Nodes := if 0 < sint (sp_Nodes spec) then sp_Nodes spec else sj_Nodes r,
      sj_CpufsPerTask := if 0 < sint (sp_CpusPerTask spec) then sp_CpusPerTask spec else sj_CpufsPerTask r,
      sj_MemPerCpu := if 0 < sint (sp_MemPerCpu spec) then sp_MemPerCpu spec else sj_MemPerCpu r,
      sj_NtasksPerNode := if 0 < sint (sp_NtasksPerNode spec) then sp_NtasksPerNode spec else sj_NtasksPerNode r,
      sj_Array := if sp_Array spec \<noteq> [] then sp_Array spec else sj_Array r,
      sj_Ntasks := if 0 < sint (sp_Ntasks spec) then sp_Ntasks spec else sj_Ntasks r\<rparr>"
proof -
  have l: "labels LabelsResourceRequestNodes = int_value (sp_Nodes spec)"
    "labels LabelsResourceRequestCpusPerTask = int_value (sp_CpusPerTask spec)"
    "labels LabelsResourceRequestMemPerCpu = int_value (sp_MemPerCpu spec)"
    "labels LabelsResourceRequestNTasksPerNode = int_value (sp_NtasksPerNode spec)"
    "labels LabelsResourceRequestArray = str_value (sp_Array spec)"
    "labels LabelsResourceRequestNTasks = int_value (sp_Ntasks spec)"
    by (simp_all add: labels_def resource_labels)
  show ?thesis
    by (simp add: label_fields_def Let_def l(5) str_value_def
        int_from_int_value [where labels = labels and k = LabelsResourceRequestNodes, OF l(1)]
        int_from_int_value [where labels = labels and k = LabelsResourceRequestCpusPerTask, OF l(2)]
        int_from_int_value [where labels = labels and k = LabelsResourceRequestMemPerCpu, OF l(3)]
        int_from_int_value [where labels = labels and k = LabelsResourceRequestNTasksPerNode, OF l(4)]
        int_from_int_value [where labels = labels and k = LabelsResourceRequestNTasks, OF l(6)])
qed

lemma request_for_sizecar:
  assumes "newSizeCarPodForSJ set_owner sjb = Value pod" and "keeps_owner_labels set_owner"
    and "ps_Containers (pod_Spec pod') = ps_Containers (pod_Spec pod)"
    and "om_Labels (pod_Meta pod') = om_Labels (pod_Meta pod)"
  shows "\<exists>q. newSubmitRequestForPod s pod' = Value q \<and> sj_Uid q = pod_UID pod' \<and>
    sj_Partition q = pv_SlurmPartition s \<and> sj_Script q = sp_SbatchScript (sbj_Spec sjb) \<and>
    sbatch_spec (sbatch_request q) = job_options (pv_SlurmPartition s) sjb"
proof -
  obtain rl where c: "ps_Containers (pod_Spec pod) = [sizecar_container sjb rl]"
    and l: "om_Labels (pod_Meta pod) = (getResourceRequestLabelsForPod (sbj_Spec sjb))(LabelsRole \<mapsto> RoleSizeCar)"
    by (rule newSizeCarPodForSJ_shape [OF assms(1,2)])
  let ?c = "sizecar_container sjb rl" and ?spec = "sbj_Spec sjb"
  define q where "q = label_fields (om_Labels (pod_Meta pod))
    (zero_SubmitJobRequest\<lparr>sj_Uid := pod_UID pod', sj_Partition := pv_SlurmPartition s,
       sj_JobName := c_Name ?c, sj_RunAsUser := container_user ?c,
       sj_Script := sp_SbatchScript ?spec, sj_WorkingDir := c_WorkingDir ?c\<rparr>)"
  have "newSubmitRequestForPod s pod' = Value q"
    using c assms(3,4) by (simp add: newSubmitRequestForPod_def q_def sizecar_container_def)
  moreover have f: "sj_Uid q = pod_UID pod'" "sj_Partition q = pv_SlurmPartition s"
    "sj_Script q = sp_SbatchScript ?spec" "sj_JobName q = sbj_Name sjb" "sj_WorkingDir q = sp_WorkingDir ?spec"
    "sj_RunAsGroup q = []" "sj_Array q = sp_Array ?spec"
    "str_value (sj_RunAsUser q) = map_option FormatInt64 (sp_RunAsUser ?spec)"
    "int_value (sj_CpufsPerTask q) = int_value (sp_CpusPerTask ?spec)"
    "int_value (sj_MemPerCpu q) = int_value (sp_MemPerCpu ?spec)"
    "int_value (sj_Nodes q) = int_value (sp_Nodes ?spec)"
    "int_value (sj_Ntasks q) = int_value (sp_Ntasks ?spec)"
    "int_value (sj_NtasksPerNode q) = int_value (sp_NtasksPerNode ?spec)"
    by (simp_all add: q_def l label_fields_resource_labels sizecar_container_def zero_SubmitJobRequest_def
        container_user_def str_value_def int_value_def split: option.splits)
  moreover have "sbatch_spec (sbatch_request q) = job_options (pv_SlurmPartition s) sjb"
  proof
    fix k
    show "sbatch_spec (sbatch_request q) k = job_options (pv_SlurmPartition s) sjb k"
      by (cases "k = ''--gid''")
         (simp_all add: sbatch_spec_def job_options_def sbatch_request_def f Let_def map_add_def
           str_value_def [of "[]"])
  qed
  ultimately show ?thesis by blast
qed

text \<open>A job with a user, a group and nodes.\<close>

definition grouped_job :: SlurmBridgeJob where
  "grouped_job =
     \<lparr>sbj_Meta = new_meta ''job'' ''default'' Map.empty,
      sbj_Spec = sample_spec\<lparr>sp_Partition := ''debug'', sp_SbatchScript := ''#!/bin/sh'', sp_RunAsUser := Some 1000,
        sp_RunAsGroup := Some 100, sp_Nodes := 2\<rparr>,
      sbj_Status = \<lparr>bs_State = [], bs_SubjobStatus = [], bs_FetchResult = False, bs_FetchResultStatus = [],
                    bs_ClusterEndPoint = []\<rparr>\<rparr>"

lemma grouped_job_pod:
  "\<exists>pod. newSizeCarPodForSJ (\<lambda>sjb m. Inr m) grouped_job = Value pod"
proof -
  have "extractBatchResourcesFromScript ''#!/bin/sh'' = Value zero_JobResources" by code_simp
  then show ?thesis
    by (simp add: newSizeCarPodForSJ_def sizecar_pod_def grouped_job_def affinityForSj_def
        AffinityForResources_def Let_def)
qed

end
