(* ===== verification/JobJourney.thy ===== *)
theory JobJourney
  imports BridgeSystem JobRequest
begin

text \<open>
  The journey of a job through all parts: the reconciler of the operator, the provider of a kubelet and
  the agent, over one API server. What they rely on of the API server, when nobody else changes the
  objects of the job, is the locale \<open>job_store\<close> and its extension \<open>kubelet_store\<close>; each handler has a lemma
  on what it does to the stored job and pods, and the lemmas compose to the whole run.
\<close>

section \<open>The objects of the API server\<close>

record store =
  so_jobs :: "string \<times> string \<rightharpoonup> SlurmBridgeJob"
  so_pods :: "string \<times> string \<rightharpoonup> Pod"

definition job_key :: "SlurmBridgeJob \<Rightarrow> string \<times> string" where
  [simp]: "job_key sjb = (sbj_Namespace sjb, sbj_Name sjb)"

definition pod_key :: "Pod \<Rightarrow> string \<times> string" where
  [simp]: "pod_key p = (om_Namespace (pod_Meta p), om_Name (pod_Meta p))"

definition role_key :: "SlurmBridgeJob \<Rightarrow> string \<Rightarrow> string \<times> string" where
  [simp]: "role_key sjb role = (sbj_Namespace sjb, genPodNameByPodRole sjb role)"

text \<open>
  A new pod as it is stored: it gets an identifier, its status starts as pending without a message, the
  rest of its object data and its containers are as sent.
\<close>

definition accepted :: "Pod \<Rightarrow> Pod \<Rightarrow> bool" where
  "accepted p p' \<longleftrightarrow>
     (\<exists>uid. uid \<noteq> [] \<and> pod_Meta p' = (pod_Meta p)\<lparr>om_UID := uid\<rparr>) \<and>
     ps_Containers (pod_Spec p') = ps_Containers (pod_Spec p) \<and>
     pt_Phase (pod_Status p') = PodPending \<and> pt_Message (pod_Status p') = []"

definition found :: "string \<Rightarrow> 'a option \<Rightarrow> 'a result" where
  "found name x = (case x of None \<Rightarrow> Inl (Status ''NotFound'' name) | Some a \<Rightarrow> Inr a)"

lemma found_simps [simp]: "found n (Some a) = Inr a" "found n None = Inl (Status ''NotFound'' n)"
  by (simp_all add: found_def)

locale job_store =
  fixes k :: "'c kube" and st :: "'c \<Rightarrow> store"
  assumes get_sbj: "kb_get_sbj k ns n c = (found n (so_jobs (st c) (ns, n)), c)"
    and get_pod: "kb_get_pod k ns n c = (found n (so_pods (st c) (ns, n)), c)"
    and create_pod: "so_pods (st c) (pod_key p) = None \<Longrightarrow>
      \<exists>p' c'. kb_create_pod k p c = (Inr p', c') \<and> accepted p p' \<and>
        st c' = (st c)\<lparr>so_pods := (so_pods (st c))(pod_key p \<mapsto> p')\<rparr>"
    and update_status: "so_jobs (st c) (job_key j) = Some old \<Longrightarrow>
      \<exists>c'. kb_update_status k j c = (None, c') \<and>
        st c' = (st c)\<lparr>so_jobs := (so_jobs (st c))(job_key j \<mapsto> old\<lparr>sbj_Status := sbj_Status j\<rparr>)\<rparr>"
    and event [simp]: "st (kb_event k t r m c) = st c"
    and set_owner: "\<exists>o'. or_Kind o' = ''SlurmBridgeJob'' \<and>
      kb_set_owner k j meta = Inr (meta\<lparr>om_OwnerReferences := om_OwnerReferences meta @ [o']\<rparr>)"
begin

lemma Eventf_store [simp]: "st (Eventf k t r m c) = st c"
  by (simp add: Eventf_def)

lemma owner_labels: "keeps_owner_labels (kb_set_owner k)"
  unfolding keeps_owner_labels_def
proof (intro allI impI)
  fix j m m'
  assume "kb_set_owner k j m = Inr m'"
  then show "om_Labels m' = om_Labels m" using set_owner [of j m] by auto
qed

text \<open>The sizecar pod as the operator sends it.\<close>

lemma sizecar_sent:
  assumes "newSizeCarPodForSJ (kb_set_owner k) sjb = Value pod"
  obtains rl o' where "ps_Containers (pod_Spec pod) = [sizecar_container sjb rl]"
    and "or_Kind o' = ''SlurmBridgeJob''"
    and "pod_Meta pod = (new_meta (genPodNameByPodRole sjb RoleSizeCar) (sbj_Namespace sjb)
      ((getResourceRequestLabelsForPod (sbj_Spec sjb))(LabelsRole \<mapsto> RoleSizeCar)))
        \<lparr>om_OwnerReferences := [o']\<rparr>"
proof -
  obtain rl aff where p: "sizecar_pod (kb_set_owner k) sjb rl aff = Inr pod"
    using assms by (auto simp: newSizeCarPodForSJ_def Let_def split: splits_go)
  let ?meta = "new_meta (genPodNameByPodRole sjb RoleSizeCar) (sbj_Namespace sjb)
      ((getResourceRequestLabelsForPod (sbj_Spec sjb))(LabelsRole \<mapsto> RoleSizeCar))"
  obtain o' where o': "or_Kind o' = ''SlurmBridgeJob''"
    "kb_set_owner k sjb ?meta = Inr (?meta\<lparr>om_OwnerReferences := om_OwnerReferences ?meta @ [o']\<rparr>)"
    using set_owner by blast
  have "om_OwnerReferences ?meta = []" by (simp add: new_meta_def)
  with p o' have "ps_Containers (pod_Spec pod) = [sizecar_container sjb rl]"
    "pod_Meta pod = ?meta\<lparr>om_OwnerReferences := [o']\<rparr>"
    by (auto simp: sizecar_pod_def Let_def)
  then show thesis using that o'(1) by blast
qed

end

section \<open>Reconciling a new job\<close>

text \<open>A job whose reconciliation goes on to its pods.\<close>

definition live_job :: "'w kube \<Rightarrow> SlurmBridgeJob \<Rightarrow> bool" where
  "live_job k sjb \<longleftrightarrow> ValidateV1alphaSlurmBridgeJob (kb_dns_errors k) sjb = None \<and>
     om_DeletionTimestamp (sbj_Meta sjb) = None \<and> isSBJFinished sjb"

context job_store
begin

lemma find_sizecar_creates:
  assumes "newSizeCarPodForSJ (kb_set_owner k) sjb = Value pod"
    and "so_pods (st c) (role_key sjb RoleSizeCar) = None" and "bs_SubjobStatus (sbj_Status sjb) = []"
  shows "\<exists>p c'. find_sizecar k sjb c = (Value (Some p), sjb, c') \<and> accepted pod p \<and>
    st c' = (st c)\<lparr>so_pods := (so_pods (st c))(role_key sjb RoleSizeCar \<mapsto> p)\<rparr>"
proof -
  have key: "pod_key pod = role_key sjb RoleSizeCar"
    by (rule sizecar_sent [OF assms(1)]) (simp add: new_meta_def)
  obtain p c' where "kb_create_pod k pod c = (Inr p, c')" "accepted pod p"
    "st c' = (st c)\<lparr>so_pods := (so_pods (st c))(role_key sjb RoleSizeCar \<mapsto> p)\<rparr>"
    using create_pod [of c pod] assms(2) unfolding key by blast
  then show ?thesis
    using assms get_pod [of "sbj_Namespace sjb" "genPodNameByPodRole sjb RoleSizeCar" c]
    by (simp add: find_sizecar_def ReconcileSizeCarPods_def)
qed

lemma UpdateSBJStatus_pending:
  assumes "pt_Message (pod_Status p) = []" and "om_Annotations (pod_Meta p) = Map.empty"
  shows "\<exists>c'. UpdateSBJStatus k sjb (Some p) c =
      (Value (), set_status sjb ((sbj_Status sjb)\<lparr>bs_State := phase_name (pt_Phase (pod_Status p))\<rparr>), c') \<and>
    st c' = st c"
  using assms by (auto simp: UpdateSBJStatus_def Let_def)

lemma update_status_stored:
  assumes "so_jobs (st c) (job_key sjb) = Some old"
  shows "\<exists>c'. Operator.update_status k prev sjb c = (Value (no_requeue, None), c') \<and>
    st c' = (st c)\<lparr>so_jobs := (so_jobs (st c))(job_key sjb \<mapsto> set_status old (sbj_Status sjb))\<rparr>"
  using update_status [OF assms] by (auto simp: Operator.update_status_def DeepEqual_status_def)

lemma Reconcile_live:
  assumes "so_jobs (st c) (job_key sjb) = Some sjb" and "live_job k sjb"
    and "ReconcileSlurmBridgeJob k sjb c = (Value (), set_status sjb status', c1)"
    and "so_jobs (st c1) = so_jobs (st c)"
  shows "\<exists>c'. Reconcile k (sbj_Namespace sjb) (sbj_Name sjb) c = (Value (no_requeue, None), c') \<and>
    st c' = (st c1)\<lparr>so_jobs := (so_jobs (st c))(job_key sjb \<mapsto> set_status sjb status')\<rparr>"
proof -
  have "so_jobs (st c1) (job_key (set_status sjb status')) = Some sjb" using assms(1,4) by simp
  from update_status_stored [OF this] obtain c' where
    "Operator.update_status k (sbj_Status sjb) (set_status sjb status') c1 = (Value (no_requeue, None), c')"
    "st c' = (st c1)\<lparr>so_jobs := (so_jobs (st c))(job_key sjb \<mapsto> set_status sjb status')\<rparr>"
    using assms(4) by auto
  then show ?thesis
    using assms(1-3) get_sbj [of "sbj_Namespace sjb" "sbj_Name sjb" c]
    by (simp add: Reconcile_def live_job_def)
qed

lemma first_reconcile:
  assumes "so_jobs (st c) (job_key sjb) = Some sjb" and "live_job k sjb" and "bs_SubjobStatus (sbj_Status sjb) = []"
    and "so_pods (st c) (role_key sjb RoleSizeCar) = None" and "so_pods (st c) (role_key sjb RoleWorker) = None"
    and pod: "newSizeCarPodForSJ (kb_set_owner k) sjb = Value pod"
  shows "\<exists>p c'. Reconcile k (sbj_Namespace sjb) (sbj_Name sjb) c = (Value (no_requeue, None), c') \<and>
    accepted pod p \<and>
    st c' = (st c)\<lparr>so_jobs := (so_jobs (st c))(job_key sjb \<mapsto>
        set_status sjb ((sbj_Status sjb)\<lparr>bs_State := phase_name PodPending\<rparr>)),
      so_pods := (so_pods (st c))(role_key sjb RoleSizeCar \<mapsto> p)\<rparr>"
proof -
  obtain p c1 where f: "find_sizecar k sjb c = (Value (Some p), sjb, c1)" "accepted pod p"
    "st c1 = (st c)\<lparr>so_pods := (so_pods (st c))(role_key sjb RoleSizeCar \<mapsto> p)\<rparr>"
    using find_sizecar_creates [OF pod assms(4,3)] by blast
  obtain rl o' where m: "pod_Meta pod = (new_meta (genPodNameByPodRole sjb RoleSizeCar) (sbj_Namespace sjb)
      ((getResourceRequestLabelsForPod (sbj_Spec sjb))(LabelsRole \<mapsto> RoleSizeCar)))
        \<lparr>om_OwnerReferences := [o']\<rparr>"
    by (rule sizecar_sent [OF pod])
  have p: "pt_Message (pod_Status p) = []" "om_Annotations (pod_Meta p) = Map.empty"
    "pt_Phase (pod_Status p) = PodPending" "pod_label p LabelSlurmBridgeJobId = None"
    using f(2) m by (auto simp: accepted_def new_meta_def resource_labels)
  let ?s = "(sbj_Status sjb)\<lparr>bs_State := phase_name PodPending\<rparr>"
  obtain c2 where u: "UpdateSBJStatus k sjb (Some p) c1 = (Value (), set_status sjb ?s, c2)" "st c2 = st c1"
    using UpdateSBJStatus_pending [OF p(1,2), of sjb c1] p(3) by auto
  have "genPodNameByPodRole sjb RoleWorker \<noteq> genPodNameByPodRole sjb RoleSizeCar"
    by (simp add: genPodNameByPodRole_def)
  then have "so_pods (st c2) (role_key sjb RoleWorker) = None" using assms(5) f(3) u(2) by simp
  then have w: "reconcile_worker k (Some p) (set_status sjb ?s) c2 = (Value (), set_status sjb ?s, waiting_event k c2)"
    using get_pod [of "sbj_Namespace sjb" "genPodNameByPodRole sjb RoleWorker" c2] p(4)
    by (simp add: reconcile_worker_def ReconcileWorkerPods_def genPodNameByPodRole_def)
  have st: "st (waiting_event k c2) = st c1" using u(2) by (simp add: waiting_event_def)
  have "ReconcileSlurmBridgeJob k sjb c = (Value (), set_status sjb ?s, waiting_event k c2)"
    unfolding ReconcileSlurmBridgeJob_def using f(1) u(1) w by simp
  from Reconcile_live [OF assms(1,2) this] obtain c' where
    "Reconcile k (sbj_Namespace sjb) (sbj_Name sjb) c = (Value (no_requeue, None), c')"
    "st c' = (st c1)\<lparr>so_jobs := (so_jobs (st c))(job_key sjb \<mapsto> set_status sjb ?s)\<rparr>"
    using f(3) st by auto
  then show ?thesis using f(2,3) by (intro exI [of _ p] exI [of _ c']) simp
qed

end

text \<open>The kubelet's client works on the same objects; an update of a pod's status also stores its object data.\<close>

locale kubelet_store = job_store k st for k :: "'c kube" and st :: "'c \<Rightarrow> store" +
  fixes e :: "'c vk_env"
  assumes vk_get_pod: "vk_get_pod e ns n c = (found n (so_pods (st c) (ns, n)), c)"
    and vk_update: "so_pods (st c) (pod_key p) = Some q \<Longrightarrow>
      \<exists>c'. vk_update_pod_status e p c = (None, c') \<and>
        st c' = (st c)\<lparr>so_pods := (so_pods (st c))(pod_key p \<mapsto>
          q\<lparr>pod_Meta := pod_Meta p, pod_Status := pod_Status p\<rparr>)\<rparr>"
    and vk_event [simp]: "st (vk_event e t r m c) = st c"

section \<open>Submitting\<close>

text \<open>The sizecar pod of a job that was submitted as the Slurm job \<open>jid\<close> to the agent at \<open>endpoint\<close>.\<close>

definition submitted :: "SlurmBridgeJob \<Rightarrow> int64 \<Rightarrow> string \<Rightarrow> Pod \<Rightarrow> bool" where
  "submitted sjb jid endpoint p \<longleftrightarrow>
     pod_key p = role_key sjb RoleSizeCar \<and> pod_label p LabelsRole = Some RoleSizeCar \<and>
     pod_label p LabelSlurmBridgeJobId = Some (FormatInt64 jid) \<and>
     om_Annotations (pod_Meta p) LabelAgentEndPoint = Some endpoint \<and> ps_Containers (pod_Spec p) \<noteq> []"

text \<open>The agent takes the job's script: whatever pod it comes for, it answers with the job \<open>jid\<close>.\<close>

definition takes_script :: "'h agent_host \<Rightarrow> Slurm \<times> 'h \<Rightarrow> string \<Rightarrow> int64 \<Rightarrow> bool" where
  "takes_script h a script jid \<longleftrightarrow>
     (\<forall>q. valid_request q \<and> sj_Script q = script \<longrightarrow>
        (\<exists>a'. SubmitJob h (Some q) a = (Inr \<lparr>sjr_JobId = jid\<rparr>, a')))"

context kubelet_store
begin

lemma addAndUpdateSlurmJobInfo_stored:
  assumes "pod_label p LabelSlurmBridgeJobId = None" and "so_pods (st c) (pod_key p) = Some q"
  shows "\<exists>c'. addAndUpdateSlurmJobInfo (connect g h e) s p jid (a, c) =
      (p\<lparr>pod_Meta := (pod_Meta p)
         \<lparr>om_Labels := (om_Labels (pod_Meta p))(LabelSlurmBridgeJobId \<mapsto> jid),
          om_Annotations := (om_Annotations (pod_Meta p))(LabelAgentEndPoint \<mapsto> pv_AgentEndpoint s)\<rparr>\<rparr>, (a, c')) \<and>
    st c' = (st c)\<lparr>so_pods := (so_pods (st c))(pod_key p \<mapsto>
      q\<lparr>pod_Meta := (pod_Meta p)
         \<lparr>om_Labels := (om_Labels (pod_Meta p))(LabelSlurmBridgeJobId \<mapsto> jid),
          om_Annotations := (om_Annotations (pod_Meta p))(LabelAgentEndPoint \<mapsto> pv_AgentEndpoint s)\<rparr>,
        pod_Status := pod_Status p\<rparr>)\<rparr>"
proof -
  let ?p = "p\<lparr>pod_Meta := (pod_Meta p)
         \<lparr>om_Labels := (om_Labels (pod_Meta p))(LabelSlurmBridgeJobId \<mapsto> jid),
          om_Annotations := (om_Annotations (pod_Meta p))(LabelAgentEndPoint \<mapsto> pv_AgentEndpoint s)\<rparr>\<rparr>"
  have "so_pods (st c) (pod_key ?p) = Some q" using assms(2) by simp
  from vk_update [OF this] obtain c' where "vk_update_pod_status e ?p c = (None, c')"
    "st c' = (st c)\<lparr>so_pods := (so_pods (st c))(pod_key p \<mapsto>
      q\<lparr>pod_Meta := pod_Meta ?p, pod_Status := pod_Status p\<rparr>)\<rparr>"
    by auto
  then show ?thesis
    using assms(1) by (simp add: addAndUpdateSlurmJobInfo_def connect_def on_cluster_def Let_def)
qed

lemma CreatePod_stored:
  assumes pod: "newSizeCarPodForSJ (kb_set_owner k) sjb = Value pod" and "accepted pod p"
    and "so_pods (st c) (role_key sjb RoleSizeCar) = Some p"
    and "sp_SbatchScript (sbj_Spec sjb) \<noteq> []" and "pv_SlurmPartition s \<noteq> []"
    and agent: "takes_script h a (sp_SbatchScript (sbj_Spec sjb)) jid"
  shows "\<exists>p' s' a' c' q. VKProvider.CreatePod (connect g h e) s p (a, c) = (Value (), p', s', (a', c')) \<and>
    pv_KubeletServer s' = pv_KubeletServer s \<and> submitted sjb jid (pv_AgentEndpoint s) q \<and>
    st c' = (st c)\<lparr>so_pods := (so_pods (st c))(role_key sjb RoleSizeCar \<mapsto> q)\<rparr>"
proof -
  obtain rl o' where m: "ps_Containers (pod_Spec pod) = [sizecar_container sjb rl]" "or_Kind o' = ''SlurmBridgeJob''"
    "pod_Meta pod = (new_meta (genPodNameByPodRole sjb RoleSizeCar) (sbj_Namespace sjb)
      ((getResourceRequestLabelsForPod (sbj_Spec sjb))(LabelsRole \<mapsto> RoleSizeCar)))
        \<lparr>om_OwnerReferences := [o']\<rparr>"
    by (rule sizecar_sent [OF pod])
  obtain uid where p: "uid \<noteq> []" "pod_Meta p = (pod_Meta pod)\<lparr>om_UID := uid\<rparr>"
    "ps_Containers (pod_Spec p) = [sizecar_container sjb rl]"
    using assms(2) m(1) by (auto simp: accepted_def)
  have lab: "om_Labels (pod_Meta p) = om_Labels (pod_Meta pod)" using p(2) by simp
  have key: "pod_key p = role_key sjb RoleSizeCar" and role: "pod_label p LabelsRole = Some RoleSizeCar"
    and nojob: "pod_label p LabelSlurmBridgeJobId = None" and own: "om_OwnerReferences (pod_Meta p) = [o']"
    using p(2) m(3) by (simp_all add: new_meta_def resource_labels)
  have nr: "needReconcile p" using m(2) role nojob own by (simp add: needReconcile_def map_get_def)
  have v: "validateCreatePod p = None" using p(3) by (simp add: validateCreatePod_def sizecar_container_def)
  obtain q where q: "newSubmitRequestForPod s p = Value q" "sj_Uid q = pod_UID p"
    "sj_Partition q = pv_SlurmPartition s" "sj_Script q = sp_SbatchScript (sbj_Spec sjb)"
    using request_for_sizecar [OF pod owner_labels _ lab, of s] p(3) m(1) by auto
  have "valid_request q" using q assms(4,5) p(1,2) by (simp add: valid_request_def)
  then obtain a' where "SubmitJob h (Some q) a = (Inr \<lparr>sjr_JobId = jid\<rparr>, a')"
    using agent q(4) by (auto simp: takes_script_def)
  then have sub: "vk_SubmitJob (connect g h e) q (a, c) = (Inr \<lparr>sjr_JobId = jid\<rparr>, (a', c))"
    by (simp add: connect_submit)
  let ?s' = "s\<lparr>pv_knownPods := (pv_knownPods s)(pod_UID p \<mapsto> FormatInt64 jid)\<rparr>"
  obtain t msg where c: "VKProvider.CreatePod (connect g h e) s p (a, c) =
      (case addAndUpdateSlurmJobInfo (connect g h e) ?s' p (FormatInt64 jid)
          (vk_event (connect g h e) ''Normal'' t msg (a', c)) of (pod', w2) \<Rightarrow> (Value (), pod', ?s', w2))"
    using CreatePod_steps [OF nr v q(1) sub] by (auto simp: Let_def)
  have ev: "vk_event (connect g h e) ''Normal'' t msg (a', c) = (a', vk_event e ''Normal'' t msg c)"
    by (simp add: connect_def)
  have "so_pods (st (vk_event e ''Normal'' t msg c)) (pod_key p) = Some p" using assms(3) key by simp
  from addAndUpdateSlurmJobInfo_stored [OF nojob this, of g h ?s' "FormatInt64 jid" a'] c ev
  obtain p' c' where r: "VKProvider.CreatePod (connect g h e) s p (a, c) = (Value (), p', ?s', (a', c'))"
    and st: "st c' = (st c)\<lparr>so_pods := (so_pods (st c))(pod_key p \<mapsto>
      p\<lparr>pod_Meta := (pod_Meta p)
         \<lparr>om_Labels := (om_Labels (pod_Meta p))(LabelSlurmBridgeJobId \<mapsto> FormatInt64 jid),
          om_Annotations := (om_Annotations (pod_Meta p))(LabelAgentEndPoint \<mapsto> pv_AgentEndpoint ?s')\<rparr>,
        pod_Status := pod_Status p\<rparr>)\<rparr>"
    by auto
  let ?q = "p\<lparr>pod_Meta := (pod_Meta p)
         \<lparr>om_Labels := (om_Labels (pod_Meta p))(LabelSlurmBridgeJobId \<mapsto> FormatInt64 jid),
          om_Annotations := (om_Annotations (pod_Meta p))(LabelAgentEndPoint \<mapsto> pv_AgentEndpoint s)\<rparr>,
        pod_Status := pod_Status p\<rparr>"
  have "submitted sjb jid (pv_AgentEndpoint s) ?q" using key role p(3) by (simp add: submitted_def)
  then show ?thesis using r st key by (intro exI [of _ p'] exI [of _ ?s'] exI [of _ a'] exI [of _ c'] exI [of _ ?q]) simp
qed

end

section \<open>Reconciling a submitted job\<close>

text \<open>What the job records of an answer of Slurm.\<close>

definition reported :: "'w kube \<Rightarrow> string \<Rightarrow> JobInfoResponse \<Rightarrow> SlurmBridgeJobStatus \<Rightarrow> bool" where
  "reported k endpoint info status \<longleftrightarrow>
     bs_State status = phase_name (slurmState2PodPhase info) \<and> bs_ClusterEndPoint status = endpoint \<and>
     (\<forall>ji \<in> set (jr_Info info). map_of (bs_SubjobStatus status) (ji_Id ji) = Some (subjob_status k ji))"

context job_store
begin

lemma UpdateSBJStatus_keeps:
  "UpdateSBJStatus k sjb p c = (r, sjb', c') \<Longrightarrow> \<exists>status. sjb' = set_status sjb status \<and> st c' = st c"
  by (cases sjb) (auto simp: UpdateSBJStatus_def Let_def split: option.splits sum.splits if_splits)

lemma worker_sent:
  "\<exists>w. newWorkerPodForSJ (kb_set_owner k) p sjb info = Inr w \<and> pod_key w = role_key sjb RoleWorker \<and>
     map c_Name (ps_Containers (pod_Spec w)) = map ji_Id (jr_Info info)"
proof -
  let ?meta = "new_meta (genPodNameByPodRole sjb RoleWorker) (sbj_Namespace sjb)
    ((om_Labels (pod_Meta p))(LabelsRole \<mapsto> RoleWorker))"
  obtain o' where "kb_set_owner k sjb ?meta = Inr (?meta\<lparr>om_OwnerReferences := om_OwnerReferences ?meta @ [o']\<rparr>)"
    using set_owner by blast
  then show ?thesis
    by (simp add: newWorkerPodForSJ_def Let_def new_meta_def worker_container_def new_container_def comp_def)
qed

lemma reconcile_worker_stored:
  assumes "pod_label p LabelSlurmBridgeJobId = Some jid"
    and "kb_Unmarshal k (pt_Message (pod_Status p)) = Inr info" and "jr_Info info \<noteq> []"
  shows "\<exists>c' w. reconcile_worker k (Some p) sjb c = (Value (), sjb, c') \<and>
    st c' = (st c)\<lparr>so_pods := (so_pods (st c))(role_key sjb RoleWorker \<mapsto> w)\<rparr> \<and>
    (case so_pods (st c) (role_key sjb RoleWorker) of
       Some old \<Rightarrow> w = old
     | None \<Rightarrow> map c_Name (ps_Containers (pod_Spec w)) = map ji_Id (jr_Info info))"
proof (cases "so_pods (st c) (role_key sjb RoleWorker)")
  case None
  obtain wp where wp: "newWorkerPodForSJ (kb_set_owner k) p sjb info = Inr wp" "pod_key wp = role_key sjb RoleWorker"
    "map c_Name (ps_Containers (pod_Spec wp)) = map ji_Id (jr_Info info)"
    using worker_sent by blast
  have "so_pods (st c) (pod_key wp) = None" using None wp(2) by simp
  from create_pod [OF this] obtain w c' where cr: "kb_create_pod k wp c = (Inr w, c')" "accepted wp w"
    "st c' = (st c)\<lparr>so_pods := (so_pods (st c))(role_key sjb RoleWorker \<mapsto> w)\<rparr>"
    unfolding wp(2) by blast
  have "ps_Containers (pod_Spec w) = ps_Containers (pod_Spec wp)" using cr(2) by (simp add: accepted_def)
  then show ?thesis
    using None assms wp cr(1,3) get_pod [of "sbj_Namespace sjb" "genPodNameByPodRole sjb RoleWorker" c]
    by (intro exI [of _ c'] exI [of _ w]) (simp add: reconcile_worker_def ReconcileWorkerPods_def)
next
  case (Some old)
  then have "(so_pods (st c))(role_key sjb RoleWorker \<mapsto> old) = so_pods (st c)" by auto
  with Some show ?thesis
    using get_pod [of "sbj_Namespace sjb" "genPodNameByPodRole sjb RoleWorker" c]
    by (intro exI [of _ c] exI [of _ old]) (simp add: reconcile_worker_def)
qed

lemma submitted_reconcile:
  assumes job: "so_jobs (st c) (job_key sjb) = Some sjb" "live_job k sjb"
    and p: "so_pods (st c) (role_key sjb RoleSizeCar) = Some p" "submitted sjb jid endpoint p"
    and msg: "kb_Unmarshal k (pt_Message (pod_Status p)) = Inr info" "pt_Message (pod_Status p) \<noteq> []"
    and info: "jr_Info info \<noteq> []" "distinct (map ji_Id (jr_Info info))"
    and phase: "pt_Phase (pod_Status p) = slurmState2PodPhase info"
  shows "\<exists>c' status w. Reconcile k (sbj_Namespace sjb) (sbj_Name sjb) c = (Value (no_requeue, None), c') \<and>
    reported k endpoint info status \<and>
    st c' = (st c)\<lparr>so_jobs := (so_jobs (st c))(job_key sjb \<mapsto> set_status sjb status),
      so_pods := (so_pods (st c))(role_key sjb RoleWorker \<mapsto> w)\<rparr> \<and>
    (case so_pods (st c) (role_key sjb RoleWorker) of
       Some old \<Rightarrow> w = old
     | None \<Rightarrow> map c_Name (ps_Containers (pod_Spec w)) = map ji_Id (jr_Info info))"
proof -
  have f: "find_sizecar k sjb c = (Value (Some p), sjb, c)"
    using get_pod [of "sbj_Namespace sjb" "genPodNameByPodRole sjb RoleSizeCar" c] p(1)
    by (simp add: find_sizecar_def)
  obtain r sjb' c1 where u: "UpdateSBJStatus k sjb (Some p) c = (r, sjb', c1)" by (metis surj_pair)
  obtain status where s: "sjb' = set_status sjb status" "st c1 = st c" using UpdateSBJStatus_keeps [OF u] by blast
  have ok: "r = Value ()" "reported k endpoint info status"
    using UpdateSBJStatus_pod [OF msg info(2) u] s(1) phase p(2) by (auto simp: reported_def submitted_def)
  have lab: "pod_label p LabelSlurmBridgeJobId = Some (FormatInt64 jid)" using p(2) by (simp add: submitted_def)
  obtain c2 w where rw: "reconcile_worker k (Some p) (set_status sjb status) c1 =
      (Value (), set_status sjb status, c2)"
    "st c2 = (st c)\<lparr>so_pods := (so_pods (st c))(role_key sjb RoleWorker \<mapsto> w)\<rparr>"
    "case so_pods (st c) (role_key sjb RoleWorker) of Some old \<Rightarrow> w = old
     | None \<Rightarrow> map c_Name (ps_Containers (pod_Spec w)) = map ji_Id (jr_Info info)"
    using reconcile_worker_stored [OF lab msg(1) info(1), of "set_status sjb status" c1] s(2)
    by (auto simp: genPodNameByPodRole_def)
  have "ReconcileSlurmBridgeJob k sjb c = (Value (), set_status sjb status, c2)"
    using f u ok(1) s(1) rw(1) by (simp add: ReconcileSlurmBridgeJob_def)
  from Reconcile_live [OF job this] obtain c' where
    "Reconcile k (sbj_Namespace sjb) (sbj_Name sjb) c = (Value (no_requeue, None), c')"
    "st c' = (st c2)\<lparr>so_jobs := (so_jobs (st c))(job_key sjb \<mapsto> set_status sjb status)\<rparr>"
    using rw(2) by auto
  then show ?thesis
    using ok(2) rw(2,3) by (intro exI [of _ c'] exI [of _ status] exI [of _ w]) simp
qed

end

lemma live_job_status:
  "live_job k (set_status sjb status) \<longleftrightarrow>
     ValidateV1alphaSlurmBridgeJob (kb_dns_errors k) sjb = None \<and> om_DeletionTimestamp (sbj_Meta sjb) = None \<and>
     bs_State status \<notin> {phase_name PodSucceeded, phase_name PodFailed}"
  by (simp add: live_job_def isSBJFinished_def ValidateV1alphaSlurmBridgeJob_def split: option.splits)

lemma submitted_status: "submitted (set_status sjb status) jid endpoint p \<longleftrightarrow> submitted sjb jid endpoint p"
  by (simp add: submitted_def genPodNameByPodRole_def)

section \<open>Polling\<close>

text \<open>
  The virtual-kubelet library asks the provider for the status of a pod and stores what it gets; an
  error is tried again later.
\<close>

definition poll_pod :: "'w vk_env \<Rightarrow> provider \<Rightarrow> string \<Rightarrow> string \<Rightarrow> 'w \<Rightarrow> 'w" where
  "poll_pod e s ns name w =
     (case GetPodStatus e s ns name w of
        (Value (Some status), w1) \<Rightarrow>
          (case vk_get_pod e ns name w1 of
             (Inl err, w2) \<Rightarrow> w2
           | (Inr p, w2) \<Rightarrow> snd (vk_update_pod_status e (p\<lparr>pod_Status := status\<rparr>) w2))
      | (_, w1) \<Rightarrow> w1)"

text \<open>The encodings on both sides fit, and the jobs of the answer are told apart by their identifiers.\<close>

definition reads_back :: "'v vk_env \<Rightarrow> 'w kube \<Rightarrow> JobInfoResponse \<Rightarrow> bool" where
  "reads_back e k info \<longleftrightarrow>
     jr_Info info \<noteq> [] \<and> distinct (map ji_Id (jr_Info info)) \<and>
     (case sl_Marshal (vk_lib e) info of
        Inl err \<Rightarrow> False | Inr msg \<Rightarrow> msg \<noteq> [] \<and> kb_Unmarshal k msg = Inr info)"

text \<open>
  Rounds of polling and reconciling: each begins with the agent in some state of its own (the jobs run
  on meanwhile). The results of the reconciliations are collected.
\<close>

fun job_rounds ::
    "'c kube \<Rightarrow> ((Slurm \<times> 'h) \<times> 'c) vk_env \<Rightarrow> provider \<Rightarrow> SlurmBridgeJob \<Rightarrow> (Slurm \<times> 'h) list \<Rightarrow> 'c \<Rightarrow>
     (ctrl_Result \<times> go_error option) outcome list \<times> 'c" where
  "job_rounds k e s sjb [] c = ([], c)"
| "job_rounds k e s sjb (a # as) c =
     (case poll_pod e s (sbj_Namespace sjb) (genPodNameByPodRole sjb RoleSizeCar) (a, c) of
        (a', c1) \<Rightarrow>
          (case Reconcile k (sbj_Namespace sjb) (sbj_Name sjb) c1 of
             (r, c2) \<Rightarrow> (case job_rounds k e s sjb as c2 of (rs, c3) \<Rightarrow> (r # rs, c3))))"

context kubelet_store
begin

lemma poll_pod_stored:
  assumes "so_pods (st c) (role_key sjb RoleSizeCar) = Some p" and sub: "submitted sjb jid endpoint p"
    and ans: "JobInfo_rpc h \<lparr>jir_JobId = jid\<rparr> a = (Inr info, a')" and enc: "reads_back e k info"
  shows "\<exists>c' status. poll_pod (connect g h e) s (sbj_Namespace sjb) (genPodNameByPodRole sjb RoleSizeCar) (a, c) =
      (a', c') \<and>
    st c' = (st c)\<lparr>so_pods := (so_pods (st c))(role_key sjb RoleSizeCar \<mapsto> p\<lparr>pod_Status := status\<rparr>)\<rparr> \<and>
    pt_Phase status = slurmState2PodPhase info \<and> pt_Message status \<noteq> [] \<and>
    kb_Unmarshal k (pt_Message status) = Inr info"
proof -
  let ?n = "genPodNameByPodRole sjb RoleSizeCar"
  obtain msg where m: "sl_Marshal (vk_lib e) info = Inr msg" "msg \<noteq> []" "kb_Unmarshal k msg = Inr info"
    "jr_Info info \<noteq> []"
    using enc by (auto simp: reads_back_def split: sum.splits)
  have "fits p info" using sub by (simp add: fits_def submitted_def)
  from convertJobInfo2PodStatus_value [OF this m(1)] m(4) obtain status where
    v: "convertJobInfo2PodStatus (vk_lib e) p info = Value status" "pt_Phase status = slurmState2PodPhase info"
    "pt_Message status = msg"
    by auto
  have get: "vk_get_pod (connect g h e) (sbj_Namespace sjb) ?n (b, c) = (Inr p, (b, c))" for b
    using assms(1) vk_get_pod [of "sbj_Namespace sjb" ?n c] by (simp add: connect_def on_cluster_def)
  have lab: "pod_label p LabelSlurmBridgeJobId = Some (FormatInt64 jid)" using sub by (simp add: submitted_def)
  have ne: "FormatInt64 jid \<noteq> []" by simp
  have g1: "GetPod (connect g h e) s (sbj_Namespace sjb) ?n (a, c) = (Inr (Some p), (a, c))"
    using get lab ne by (simp add: GetPod_def getSlurmJobId_def)
  have ji: "vk_JobInfo (connect g h e) \<lparr>jir_JobId = jid\<rparr> (a, c) = (Inr info, (a', c))"
    using ans by (simp add: connect_def via_agent_def)
  have lib: "vk_lib (connect g h e) = vk_lib e" by (simp add: connect_def)
  have gs: "GetPodStatus (connect g h e) s (sbj_Namespace sjb) ?n (a, c) = (Value (Some status), (a', c))"
    using g1 ji lab ne v(1) by (simp add: GetPodStatus_def getSlurmJobId_def lib)
  let ?p = "p\<lparr>pod_Status := status\<rparr>"
  have "so_pods (st c) (pod_key ?p) = Some p" using assms(1) sub by (simp add: submitted_def)
  from vk_update [OF this] obtain c' where up: "vk_update_pod_status e ?p c = (None, c')"
    "st c' = (st c)\<lparr>so_pods := (so_pods (st c))(pod_key ?p \<mapsto> p\<lparr>pod_Meta := pod_Meta ?p, pod_Status := pod_Status ?p\<rparr>)\<rparr>"
    by blast
  have "vk_update_pod_status (connect g h e) ?p (a', c) = (None, (a', c'))"
    using up(1) by (simp add: connect_def on_cluster_def)
  then have "poll_pod (connect g h e) s (sbj_Namespace sjb) ?n (a, c) = (a', c')"
    using gs get by (simp add: poll_pod_def)
  moreover have "st c' = (st c)\<lparr>so_pods := (so_pods (st c))(role_key sjb RoleSizeCar \<mapsto> ?p)\<rparr>"
    using up(2) sub by (simp add: submitted_def)
  ultimately show ?thesis using v(2,3) m by auto
qed

lemma job_round:
  assumes job: "so_jobs (st c) (job_key sjb) = Some (set_status sjb status)" "live_job k (set_status sjb status)"
    and p: "so_pods (st c) (role_key sjb RoleSizeCar) = Some p" "submitted sjb jid endpoint p"
    and ans: "JobInfo_rpc h \<lparr>jir_JobId = jid\<rparr> a = (Inr info, a')" and enc: "reads_back e k info"
  shows "\<exists>c1 c2 status' p' w.
    poll_pod (connect g h e) s (sbj_Namespace sjb) (genPodNameByPodRole sjb RoleSizeCar) (a, c) = (a', c1) \<and>
    Reconcile k (sbj_Namespace sjb) (sbj_Name sjb) c1 = (Value (no_requeue, None), c2) \<and>
    so_jobs (st c2) (job_key sjb) = Some (set_status sjb status') \<and> reported k endpoint info status' \<and>
    so_pods (st c2) (role_key sjb RoleSizeCar) = Some p' \<and> submitted sjb jid endpoint p' \<and>
    so_pods (st c2) (role_key sjb RoleWorker) = Some w \<and>
    (case so_pods (st c) (role_key sjb RoleWorker) of
       Some old \<Rightarrow> w = old
     | None \<Rightarrow> map c_Name (ps_Containers (pod_Spec w)) = map ji_Id (jr_Info info))"
proof -
  let ?job = "set_status sjb status"
  obtain c1 ps where c1:
    "poll_pod (connect g h e) s (sbj_Namespace sjb) (genPodNameByPodRole sjb RoleSizeCar) (a, c) = (a', c1)"
    "st c1 = (st c)\<lparr>so_pods := (so_pods (st c))(role_key sjb RoleSizeCar \<mapsto> p\<lparr>pod_Status := ps\<rparr>)\<rparr>"
    "pt_Phase ps = slurmState2PodPhase info" "pt_Message ps \<noteq> []" "kb_Unmarshal k (pt_Message ps) = Inr info"
    using poll_pod_stored [OF p ans enc, of g s] by blast
  let ?p = "p\<lparr>pod_Status := ps\<rparr>"
  have roles: "role_key sjb RoleWorker \<noteq> role_key sjb RoleSizeCar" by (simp add: genPodNameByPodRole_def)
  have job1: "so_jobs (st c1) (job_key ?job) = Some ?job" using job(1) c1(2) by simp
  have p1: "so_pods (st c1) (role_key ?job RoleSizeCar) = Some ?p" using c1(2) by (simp add: genPodNameByPodRole_def)
  have sub: "submitted sjb jid endpoint ?p" using p(2) by (simp add: submitted_def)
  then have sub1: "submitted ?job jid endpoint ?p" unfolding submitted_status .
  have msg: "kb_Unmarshal k (pt_Message (pod_Status ?p)) = Inr info" "pt_Message (pod_Status ?p) \<noteq> []"
    and phase: "pt_Phase (pod_Status ?p) = slurmState2PodPhase info"
    using c1(3-5) by simp_all
  have info: "jr_Info info \<noteq> []" "distinct (map ji_Id (jr_Info info))"
    using enc by (simp_all add: reads_back_def)
  from submitted_reconcile [OF job1 job(2) p1 sub1 msg info phase] obtain c2 status' w where
    r: "Reconcile k (sbj_Namespace sjb) (sbj_Name sjb) c1 = (Value (no_requeue, None), c2)"
    "reported k endpoint info status'"
    "st c2 = (st c1)\<lparr>so_jobs := (so_jobs (st c1))(job_key sjb \<mapsto> set_status sjb status'),
      so_pods := (so_pods (st c1))(role_key sjb RoleWorker \<mapsto> w)\<rparr>"
    "case so_pods (st c1) (role_key sjb RoleWorker) of Some old \<Rightarrow> w = old
     | None \<Rightarrow> map c_Name (ps_Containers (pod_Spec w)) = map ji_Id (jr_Info info)"
    by (auto simp: genPodNameByPodRole_def)
  have same: "so_pods (st c1) (role_key sjb RoleWorker) = so_pods (st c) (role_key sjb RoleWorker)"
    using c1(2) roles by simp
  have "so_jobs (st c2) (job_key sjb) = Some (set_status sjb status')"
    "so_pods (st c2) (role_key sjb RoleSizeCar) = Some ?p" "so_pods (st c2) (role_key sjb RoleWorker) = Some w"
    using r(3) c1(2) roles by auto
  then show ?thesis
    using c1(1) r(1,2,4) sub unfolding same by blast
qed


lemma job_rounds_report:
  assumes "list_all2 (\<lambda>a info. \<exists>a'. JobInfo_rpc h \<lparr>jir_JobId = jid\<rparr> a = (Inr info, a')) as infos"
    and "infos \<noteq> []" and "\<forall>info \<in> set infos. reads_back e k info"
    and "\<forall>info \<in> set (butlast infos). slurmState2PodPhase info \<notin> {PodSucceeded, PodFailed}"
    and "so_jobs (st c) (job_key sjb) = Some (set_status sjb status)" and "live_job k (set_status sjb status)"
    and "so_pods (st c) (role_key sjb RoleSizeCar) = Some p" and "submitted sjb jid endpoint p"
  shows "\<exists>c' status' w. job_rounds k (connect g h e) s sjb as c =
      (replicate (length as) (Value (no_requeue, None)), c') \<and>
    so_jobs (st c') (job_key sjb) = Some (set_status sjb status') \<and> reported k endpoint (last infos) status' \<and>
    so_pods (st c') (role_key sjb RoleWorker) = Some w \<and>
    (case so_pods (st c) (role_key sjb RoleWorker) of
       Some old \<Rightarrow> w = old
     | None \<Rightarrow> map c_Name (ps_Containers (pod_Spec w)) = map ji_Id (jr_Info (hd infos)))"
  using assms
proof (induction as infos arbitrary: c status p rule: list_all2_induct)
  case (Cons a as info infos)
  from Cons.hyps obtain a' where ans: "JobInfo_rpc h \<lparr>jir_JobId = jid\<rparr> a = (Inr info, a')" by blast
  have "reads_back e k info" using Cons.prems by simp
  from job_round [OF Cons.prems(4,5,6,7) ans this, of g s] obtain c1 c2 status' p' w where
    poll: "poll_pod (connect g h e) s (sbj_Namespace sjb) (genPodNameByPodRole sjb RoleSizeCar) (a, c) = (a', c1)"
    and rec: "Reconcile k (sbj_Namespace sjb) (sbj_Name sjb) c1 = (Value (no_requeue, None), c2)"
    and job: "so_jobs (st c2) (job_key sjb) = Some (set_status sjb status')" and rep: "reported k endpoint info status'"
    and p': "so_pods (st c2) (role_key sjb RoleSizeCar) = Some p'" "submitted sjb jid endpoint p'"
    and w: "so_pods (st c2) (role_key sjb RoleWorker) = Some w"
    "case so_pods (st c) (role_key sjb RoleWorker) of Some old \<Rightarrow> w = old
     | None \<Rightarrow> map c_Name (ps_Containers (pod_Spec w)) = map ji_Id (jr_Info info)"
    by blast
  show ?case
  proof (cases "infos = []")
    case True
    then have "as = []" using Cons.hyps by simp
    then show ?thesis
      using True poll rec job rep w by (intro exI [of _ c2] exI [of _ status'] exI [of _ w]) (simp split: option.splits)
  next
    case False
    then have "slurmState2PodPhase info \<notin> {PodSucceeded, PodFailed}" using Cons.prems(3) by simp
    then have "bs_State status' \<notin> {phase_name PodSucceeded, phase_name PodFailed}"
      using rep unfolding reported_def by (simp only: insert_iff empty_iff phase_name_inject) blast
    then have live: "live_job k (set_status sjb status')"
      using Cons.prems(5) unfolding live_job_status by blast
    have rest: "\<forall>info \<in> set infos. reads_back e k info"
      "\<forall>info \<in> set (butlast infos). slurmState2PodPhase info \<notin> {PodSucceeded, PodFailed}"
      using Cons.prems(2,3) False by simp_all
    from Cons.IH [OF False rest job live p'] obtain c' status'' where
      "job_rounds k (connect g h e) s sjb as c2 = (replicate (length as) (Value (no_requeue, None)), c')"
      "so_jobs (st c') (job_key sjb) = Some (set_status sjb status'')" "reported k endpoint (last infos) status''"
      "so_pods (st c') (role_key sjb RoleWorker) = Some w"
      unfolding w(1) by auto
    then show ?thesis using False poll rec w(2) by (intro exI [of _ c'] exI [of _ status''] exI [of _ w]) (simp split: option.splits)
  qed
qed simp

end

section \<open>An API server\<close>

text \<open>
  An API server that keeps just the objects of the jobs. \<open>unm\<close> decodes the messages of pods, \<open>l\<close> holds the
  conversions of the kubelet. It meets both contracts.
\<close>

definition owner_of :: "SlurmBridgeJob \<Rightarrow> OwnerReference" where
  "owner_of j = \<lparr>or_APIVersion = ''kubecluster.org/v1alpha1'', or_Kind = ''SlurmBridgeJob'', or_Name = sbj_Name j,
     or_UID = om_UID (sbj_Meta j)\<rparr>"

lemma owner_of_kind [simp]: "or_Kind (owner_of j) = ''SlurmBridgeJob''"
  by (simp add: owner_of_def)

definition store_kube :: "(string \<Rightarrow> JobInfoResponse result) \<Rightarrow> store kube" where
  "store_kube unm =
     \<lparr>kb_get_sbj = (\<lambda>ns n c. (found n (so_jobs c (ns, n)), c)),
      kb_get_pod = (\<lambda>ns n c. (found n (so_pods c (ns, n)), c)),
      kb_get_job = (\<lambda>ns n c. (found n None, c)),
      kb_create_pod = (\<lambda>p c.
        (case so_pods c (pod_key p) of
           Some old \<Rightarrow> (Inl (Status ''AlreadyExists'' (om_Name (pod_Meta p))), c)
         | None \<Rightarrow>
             (let p' = p\<lparr>pod_Meta := (pod_Meta p)\<lparr>om_UID := ''uid-'' @ om_Name (pod_Meta p)\<rparr>,
                         pod_Status := zero_PodStatus\<lparr>pt_Phase := PodPending\<rparr>\<rparr>
              in (Inr p', c\<lparr>so_pods := (so_pods c)(pod_key p \<mapsto> p')\<rparr>)))),
      kb_create_job = (\<lambda>j c. (Inr j, c)),
      kb_update_status = (\<lambda>j c.
        (case so_jobs c (job_key j) of
           None \<Rightarrow> (Some (Status ''NotFound'' (sbj_Name j)), c)
         | Some old \<Rightarrow>
             (None, c\<lparr>so_jobs := (so_jobs c)(job_key j \<mapsto> set_status old (sbj_Status j))\<rparr>))),
      kb_event = (\<lambda>t r m c. c),
      kb_set_owner = (\<lambda>j m. Inr (m\<lparr>om_OwnerReferences := om_OwnerReferences m @
        [owner_of j]\<rparr>)),
      kb_dns_errors = (\<lambda>n. None), kb_Unmarshal = unm, kb_AsTime = (\<lambda>t. 0), kb_Duration_String = (\<lambda>d. [])\<rparr>"

definition store_env :: "(string \<Rightarrow> JobInfoResponse result) \<Rightarrow> status_lib \<Rightarrow> store vk_env" where
  "store_env unm l =
     \<lparr>vk_SubmitJob = (\<lambda>q c. (Inl (Status ''Unavailable'' []), c)), vk_CancelJob = (\<lambda>q c. (Inl (Status ''Unavailable'' []), c)),
      vk_JobInfo = (\<lambda>q c. (Inl (Status ''Unavailable'' []), c)), vk_Partition = (\<lambda>q c. (Inl (Status ''Unavailable'' []), c)),
      vk_Nodes = (\<lambda>q c. (Inl (Status ''Unavailable'' []), c)), vk_OpenFile = (\<lambda>q c. (Inl (Status ''Unavailable'' []), c)),
      vk_TailFile = (\<lambda>q c. (Inl (Status ''Unavailable'' []), c)),
      vk_get_pod = (\<lambda>ns n c. (found n (so_pods c (ns, n)), c)),
      vk_list_pods = (\<lambda>c. (Inr [], c)),
      vk_update_pod_status = (\<lambda>p c.
        (case so_pods c (pod_key p) of
           None \<Rightarrow> (Some (Status ''NotFound'' (om_Name (pod_Meta p))), c)
         | Some old \<Rightarrow>
             (None, c\<lparr>so_pods := (so_pods c)(pod_key p \<mapsto>
               old\<lparr>pod_Meta := pod_Meta p, pod_Status := pod_Status p\<rparr>)\<rparr>))),
      vk_event = (\<lambda>t r m c. c), vk_Unmarshal = unm, vk_IsNotFound = IsNotFound, vk_lib = l\<rparr>"

interpretation api_jobs: job_store "store_kube unm" "\<lambda>c. c"
proof unfold_locales
  fix j meta
  show "\<exists>o'. or_Kind o' = ''SlurmBridgeJob'' \<and>
      kb_set_owner (store_kube unm) j meta = Inr (meta\<lparr>om_OwnerReferences := om_OwnerReferences meta @ [o']\<rparr>)"
    by (rule exI [of _ "owner_of j"]) (simp add: store_kube_def)
qed (auto simp: store_kube_def accepted_def zero_PodStatus_def Let_def)

interpretation api_server: kubelet_store "store_kube unm" "\<lambda>c. c" "store_env unm l"
  by unfold_locales (auto simp: store_env_def)

section \<open>The whole journey\<close>

text \<open>
  The agent's answers in the rounds: each is an answer about the job, encoded and decoded as it is, and
  only the last one may say that the Slurm jobs have ended.
\<close>

definition answered ::
    "'h agent_host \<Rightarrow> 'c vk_env \<Rightarrow> 'c kube \<Rightarrow> int64 \<Rightarrow> (Slurm \<times> 'h) list \<Rightarrow> JobInfoResponse list \<Rightarrow> bool" where
  "answered h e k jid as infos \<longleftrightarrow>
     list_all2 (\<lambda>a info. fst (JobInfo_rpc h \<lparr>jir_JobId = jid\<rparr> a) = Inr info) as infos \<and> infos \<noteq> [] \<and>
     list_all (reads_back e k) infos \<and>
     list_all (\<lambda>info. slurmState2PodPhase info \<notin> {PodSucceeded, PodFailed}) (butlast infos)"

text \<open>A job nobody has worked on yet, with a sizecar pod that can be made.\<close>

definition new_job :: "'c kube \<Rightarrow> store \<Rightarrow> SlurmBridgeJob \<Rightarrow> bool" where
  "new_job k so sjb \<longleftrightarrow>
     so_jobs so (job_key sjb) = Some sjb \<and> ValidateV1alphaSlurmBridgeJob (kb_dns_errors k) sjb = None \<and>
     om_DeletionTimestamp (sbj_Meta sjb) = None \<and> isSBJFinished sjb \<and> bs_SubjobStatus (sbj_Status sjb) = [] \<and>
     so_pods so (role_key sjb RoleSizeCar) = None \<and> so_pods so (role_key sjb RoleWorker) = None"

lemma valid_job_script:
  "ValidateV1alphaSlurmBridgeJob d sjb = None \<Longrightarrow> sp_SbatchScript (sbj_Spec sjb) \<noteq> []"
  by (auto simp: ValidateV1alphaSlurmBridgeJob_def validateV1alphaSlurmBridgeJobSpecs_def split: option.splits if_splits)


text \<open>A job of the partition \<^verbatim>\<open>debug\<close> that Slurm has completed when the kubelet asks for the first time.\<close>

definition done_agent :: "int64 agent_host" where
  "done_agent = printing_agent (''JobId=7 JobState=COMPLETED RunTime=0:1:2 TimeLimit=UNLIMITED SubmitTime=Unknown '' @
     ''StartTime=Unknown'')"

definition done_job :: scontrol_job where
  "done_job = \<lparr>sj_texts = map_of [(''JobId'', ''7''), (''JobState'', ''COMPLETED'')],
     sj_submit = None, sj_start = None, sj_run = Some (HoursMinutesSeconds 0 1 2), sj_limit = None\<rparr>"

definition done_info :: JobInfoResponse where
  "done_info = \<lparr>jr_Info = [job_message (\<lambda>t. \<lparr>ts_Seconds = word_of_int (t div 1000000000), ts_Nanos = 0\<rparr>)
     (DurationProto done_agent) done_job]\<rparr>"

lemma done_agent_answers: "JobInfo_rpc done_agent \<lparr>jir_JobId = 7\<rparr> (s, w) = (Inr done_info, s, w)"
proof -
  let ?b = "''JobId=7 JobState=COMPLETED RunTime=0:1:2 TimeLimit=UNLIMITED SubmitTime=Unknown '' @
      ''StartTime=Unknown''"
  let ?tp = "\<lambda>t. \<lparr>ts_Seconds = word_of_int (t div 1000000000), ts_Nanos = 0\<rparr>"
  have "JobInfo_rpc done_agent \<lparr>jir_JobId = 7\<rparr> (s, w) =
    (Inr \<lparr>jr_Info = map (job_message ?tp (DurationProto done_agent)) [done_job]\<rparr>, s, w)"
  proof (rule JobInfo_rpc_messages [of _ _ _ ?b _ "[?b]"])
    have "job_ok done_job" by (simp add: job_ok_def in_int64_def done_job_def)
    moreover have "block CHR 0x0A ?b" by code_simp
    moreover have "list_all (\<lambda>k. slurm_fields ?b k = job_field done_job k) (map fst tagged_fields)"
      by code_simp
    ultimately show "list_all2 job_block [?b] [done_job]" by (simp add: job_block_def)
    show "TrimSpace ?b = Join [?b] [CHR 0x0A, CHR 0x0A]" by code_simp
  qed (simp_all add: done_agent_def printing_agent_def counting_agent_def host.defs agent_host.defs)
  then show ?thesis by (simp add: done_info_def)
qed

lemma done_info_completed: "ji_Status (hd (jr_Info done_info)) = COMPLETED" "ji_Id (hd (jr_Info done_info)) = ''7''"
proof -
  have "status_of ''COMPLETED'' = COMPLETED" by code_simp
  then show "ji_Status (hd (jr_Info done_info)) = COMPLETED" "ji_Id (hd (jr_Info done_info)) = ''7''"
    by (simp_all add: done_info_def job_message_def done_job_def map_get_def)
qed

lemma done_agent_takes: "takes_script done_agent (NewSlurm Map.empty 0, 7) script 7"
proof -
  have "Atoi (FormatInt 7) = Inr 7" by code_simp
  then have "\<exists>w. SBatch (host.truncate done_agent) r 7 = (Inr 7, w)" for r
    by (simp add: SBatch_def done_agent_def printing_agent_def counting_agent_def counting_host_def host.defs
        agent_host.defs TrimSpace_FormatInt_blanks)
  then have "\<exists>a'. SubmitJob done_agent (Some q) (NewSlurm Map.empty 0, 7) = (Inr \<lparr>sjr_JobId = 7\<rparr>, a')"
    if "valid_request q" for q
  proof -
    obtain w where "SBatch (host.truncate done_agent) (sbatch_request q) 7 = (Inr 7, w)"
      using \<open>\<And>r. \<exists>w. SBatch (host.truncate done_agent) r 7 = (Inr 7, w)\<close> by blast
    then show ?thesis using that by (simp add: SubmitJob_def NewSlurm_def)
  qed
  then show ?thesis by (simp add: takes_script_def)
qed

definition journey_job :: SlurmBridgeJob where
  "journey_job = sample_sbj []"

abbreviation journey_kube :: "store kube" where
  "journey_kube \<equiv> store_kube (\<lambda>msg. Inr done_info)"
abbreviation journey_env :: "store vk_env" where
  "journey_env \<equiv> store_env (\<lambda>msg. Inr done_info) sample_lib"
abbreviation journey_store :: store where
  "journey_store \<equiv> \<lparr>so_jobs = [job_key journey_job \<mapsto> journey_job], so_pods = Map.empty\<rparr>"


end
