(* ===== verification/TailWatch.thy ===== *)
theory TailWatch
  imports GoPath GoTime "HOL-Library.Multiset"
begin

text \<open>
  How the tailing library notices changes (\<^verbatim>\<open>pkg/tail/watch\<close>): the notification channels, the
  polling watcher, the inotify watcher and the tracker that shares one \<^verbatim>\<open>fsnotify.Watcher\<close> between
  all tails by counting references. What \<^verbatim>\<open>os.Stat\<close> and \<^verbatim>\<open>fsnotify\<close> answer is an argument. The
  lemmas show that the counts are right under any interleaving, which changes the watchers
  report, and that two tails of one file share a channel that the first to stop closes.
\<close>

section \<open>Notification channels\<close>

text \<open>Each channel holds at most one notification.\<close>

record FileChanges =
  fc_Modified :: bool
  fc_Truncated :: bool
  fc_Deleted :: bool

definition NewFileChanges :: FileChanges where
  "NewFileChanges = \<lparr>fc_Modified = False, fc_Truncated = False, fc_Deleted = False\<rparr>"

text \<open>\<^verbatim>\<open>sendOnlyIfEmpty\<close>: a full channel stays as it is.\<close>

definition sendOnlyIfEmpty :: "bool \<Rightarrow> bool" where
  "sendOnlyIfEmpty ch = (if ch then ch else True)"

definition NotifyModified :: "FileChanges \<Rightarrow> FileChanges" where
  "NotifyModified fc = fc\<lparr>fc_Modified := sendOnlyIfEmpty (fc_Modified fc)\<rparr>"
definition NotifyTruncated :: "FileChanges \<Rightarrow> FileChanges" where
  "NotifyTruncated fc = fc\<lparr>fc_Truncated := sendOnlyIfEmpty (fc_Truncated fc)\<rparr>"
definition NotifyDeleted :: "FileChanges \<Rightarrow> FileChanges" where
  "NotifyDeleted fc = fc\<lparr>fc_Deleted := sendOnlyIfEmpty (fc_Deleted fc)\<rparr>"

lemma notify_simps [simp]:
  "NotifyModified fc = fc\<lparr>fc_Modified := True\<rparr>"
  "NotifyTruncated fc = fc\<lparr>fc_Truncated := True\<rparr>"
  "NotifyDeleted fc = fc\<lparr>fc_Deleted := True\<rparr>"
  by (simp_all add: NotifyModified_def NotifyTruncated_def NotifyDeleted_def sendOnlyIfEmpty_def)

section \<open>Looking at the file\<close>

text \<open>The answer of \<^verbatim>\<open>os.Stat\<close>: the inode (what \<^verbatim>\<open>os.SameFile\<close> compares), size and time of change.\<close>

record file_info =
  fi_inode :: nat
  fi_Size :: int
  fi_ModTime :: go_time

datatype stat_error = NotExist go_error | StatFailed go_error

type_synonym stat_answer = "stat_error + file_info"

primrec stat_go_error :: "stat_error \<Rightarrow> go_error" where
  "stat_go_error (NotExist e) = e"
| "stat_go_error (StatFailed e) = e"

definition ErrDying :: go_error where
  "ErrDying = Sentinel ''tomb.ErrDying''"

text \<open>The goroutine of a watcher goes on, has returned, or has ended the process.\<close>

datatype 'a watch_end = Watching 'a | Watch_returned | Watch_fatal

section \<open>Polling\<close>

text \<open>
  The answers while the watcher polls for the file: what \<^verbatim>\<open>Stat\<close> says and whether the tomb is dying
  when it then waits. \<^const>\<open>None\<close> as the result: still polling.
\<close>

fun polling_BlockUntilExists :: "(stat_answer \<times> bool) list \<Rightarrow> go_error option option" where
  "polling_BlockUntilExists [] = None"
| "polling_BlockUntilExists ((Inr fi, d) # r) = Some None"
| "polling_BlockUntilExists ((Inl (StatFailed e), d) # r) = Some (Some e)"
| "polling_BlockUntilExists ((Inl (NotExist e), d) # r) =
     (if d then Some (Some ErrDying) else polling_BlockUntilExists r)"

text \<open>The state of the polling goroutine; the zero time is 1 January of year 1.\<close>

record poll_state =
  ps_prevSize :: int
  ps_prevModTime :: go_time
  ps_changes :: FileChanges

definition zero_time :: go_time where
  "zero_time = - 62135596800 * 1000000000"

definition polling_start :: "int \<Rightarrow> poll_state" where
  "polling_start pos = \<lparr>ps_prevSize = pos, ps_prevModTime = zero_time, ps_changes = NewFileChanges\<rparr>"

text \<open>One round: the tomb is asked first, then the file (on a system other than Windows).\<close>

definition poll_round ::
    "file_info \<Rightarrow> bool \<Rightarrow> stat_answer \<Rightarrow> poll_state \<Rightarrow> FileChanges \<times> poll_state watch_end" where
  "poll_round origFi dying answer st =
     (if dying then (ps_changes st, Watch_returned)
      else
        case answer of
          Inl (NotExist e) \<Rightarrow> (NotifyDeleted (ps_changes st), Watch_returned)
        | Inl (StatFailed e) \<Rightarrow> (ps_changes st, Watch_fatal)
        | Inr fi \<Rightarrow>
            if fi_inode origFi \<noteq> fi_inode fi then (NotifyDeleted (ps_changes st), Watch_returned)
            else
              let prevSize = ps_prevSize st; sz = fi_Size fi in
              if prevSize > 0 \<and> prevSize > sz then
                (let fc = NotifyTruncated (ps_changes st)
                 in (fc, Watching (st\<lparr>ps_prevSize := sz, ps_changes := fc\<rparr>)))
              else if prevSize > 0 \<and> prevSize < sz then
                (let fc = NotifyModified (ps_changes st)
                 in (fc, Watching (st\<lparr>ps_prevSize := sz, ps_changes := fc\<rparr>)))
              else
                if fi_ModTime fi \<noteq> ps_prevModTime st then
                  (let fc = NotifyModified (ps_changes st)
                   in (fc, Watching (st\<lparr>ps_prevSize := sz, ps_prevModTime := fi_ModTime fi, ps_changes := fc\<rparr>)))
                else (ps_changes st, Watching (st\<lparr>ps_prevSize := sz\<rparr>)))"

text \<open>The watcher is started with the first answer of \<^verbatim>\<open>Stat\<close>; its error is returned.\<close>

definition polling_ChangeEvents :: "stat_answer \<Rightarrow> int \<Rightarrow> (file_info \<times> poll_state) result" where
  "polling_ChangeEvents answer pos =
     (case answer of Inl e \<Rightarrow> Inl (stat_go_error e) | Inr fi \<Rightarrow> Inr (fi, polling_start pos))"

section \<open>The tracker\<close>

type_synonym fs_op = "32 word"

abbreviation Op_Create :: fs_op where "Op_Create \<equiv> 1"
abbreviation Op_Write :: fs_op where "Op_Write \<equiv> 2"
abbreviation Op_Remove :: fs_op where "Op_Remove \<equiv> 4"
abbreviation Op_Rename :: fs_op where "Op_Rename \<equiv> 8"
abbreviation Op_Chmod :: fs_op where "Op_Chmod \<equiv> 16"

record fs_event =
  ev_Name :: string
  ev_Op :: fs_op

record watchInfo =
  wi_op :: fs_op
  wi_fname :: string

definition isCreate :: "watchInfo \<Rightarrow> bool" where
  "isCreate w \<longleftrightarrow> wi_op w = Op_Create"

text \<open>
  The maps of the tracker; a channel is its number, \<open>it_closed\<close> the channels that are closed and
  \<open>it_watched\<close> what the shared \<^verbatim>\<open>fsnotify.Watcher\<close> was asked to watch.
\<close>

record InotifyTracker =
  it_chans :: "string \<rightharpoonup> nat"
  it_done :: "string \<rightharpoonup> nat"
  it_watchNums :: "string \<rightharpoonup> int"
  it_nextChan :: nat
  it_closed :: "nat list"
  it_watched :: "string list"

definition goRun :: InotifyTracker where
  "goRun = \<lparr>it_chans = Map.empty, it_done = Map.empty, it_watchNums = Map.empty, it_nextChan = 0,
     it_closed = [], it_watched = []\<rparr>"

definition watchNum :: "InotifyTracker \<Rightarrow> string \<Rightarrow> int" where
  "watchNum s f = (case it_watchNums s f of None \<Rightarrow> 0 | Some n \<Rightarrow> n)"

definition watch_target :: "watchInfo \<Rightarrow> string" where
  "watch_target w = (if isCreate w then filepath_Dir (wi_fname w) else wi_fname w)"

definition make_chan :: "string \<Rightarrow> InotifyTracker \<Rightarrow> InotifyTracker" where
  "make_chan f s =
     (case it_chans s f of
        Some c \<Rightarrow> s
      | None \<Rightarrow> s\<lparr>it_chans := (it_chans s)(f \<mapsto> it_nextChan s), it_nextChan := Suc (it_nextChan s)\<rparr>)"

definition make_done :: "string \<Rightarrow> InotifyTracker \<Rightarrow> InotifyTracker" where
  "make_done f s =
     (case it_done s f of
        Some c \<Rightarrow> s
      | None \<Rightarrow> s\<lparr>it_done := (it_done s)(f \<mapsto> it_nextChan s), it_nextChan := Suc (it_nextChan s)\<rparr>)"

text \<open>\<open>add\<close> is the answer of \<^verbatim>\<open>watcher.Add\<close>.\<close>

definition addWatch ::
    "(string \<Rightarrow> go_error option) \<Rightarrow> watchInfo \<Rightarrow> InotifyTracker \<Rightarrow> go_error option \<times> InotifyTracker" where
  "addWatch add w s =
     (let s1 = make_done (wi_fname w) (make_chan (wi_fname w) s);
          fname = watch_target w;
          (err, s2) =
            (if watchNum s1 fname = 0
             then (case add fname of
                     Some e \<Rightarrow> (Some e, s1)
                   | None \<Rightarrow> (None, s1\<lparr>it_watched := fname # it_watched s1\<rparr>))
             else (None, s1))
      in if err = None then (None, s2\<lparr>it_watchNums := (it_watchNums s2)(fname \<mapsto> watchNum s2 fname + 1)\<rparr>)
         else (err, s2))"

definition close_chan :: "string \<Rightarrow> InotifyTracker \<Rightarrow> InotifyTracker" where
  "close_chan f s =
     (case it_chans s f of
        None \<Rightarrow> s
      | Some c \<Rightarrow> s\<lparr>it_chans := (it_chans s)(f := None), it_closed := c # it_closed s\<rparr>)"

text \<open>\<open>rm\<close> is the answer of \<^verbatim>\<open>watcher.Remove\<close>.\<close>

definition removeWatch ::
    "(string \<Rightarrow> go_error option) \<Rightarrow> watchInfo \<Rightarrow> InotifyTracker \<Rightarrow> go_error option \<times> InotifyTracker" where
  "removeWatch rm w s =
     (let s1 = close_chan (wi_fname w) s;
          fname = watch_target w;
          n = watchNum s1 fname - 1
      in if n = 0 then
           (rm fname, s1\<lparr>it_watchNums := (it_watchNums s1)(fname := None),
                         it_watched := removeAll fname (it_watched s1)\<rparr>)
         else (None, s1\<lparr>it_watchNums := (it_watchNums s1)(fname \<mapsto> n)\<rparr>))"

text \<open>The first half of \<^verbatim>\<open>remove\<close>, under the lock: the done channel is closed.\<close>

definition close_done :: "string \<Rightarrow> InotifyTracker \<Rightarrow> InotifyTracker" where
  "close_done f s =
     (case it_done s f of
        None \<Rightarrow> s
      | Some d \<Rightarrow> s\<lparr>it_done := (it_done s)(f := None), it_closed := d # it_closed s\<rparr>)"

definition clean_info :: "fs_op \<Rightarrow> string \<Rightarrow> watchInfo" where
  "clean_info op fname = \<lparr>wi_op = op, wi_fname = filepath_Clean fname\<rparr>"

definition Watch :: "(string \<Rightarrow> go_error option) \<Rightarrow> string \<Rightarrow> InotifyTracker \<Rightarrow> go_error option \<times> InotifyTracker" where
  "Watch add fname = addWatch add (clean_info 0 fname)"

definition WatchCreate :: "(string \<Rightarrow> go_error option) \<Rightarrow> string \<Rightarrow> InotifyTracker \<Rightarrow> go_error option \<times> InotifyTracker" where
  "WatchCreate add fname = addWatch add (clean_info Op_Create fname)"

definition remove_info :: "(string \<Rightarrow> go_error option) \<Rightarrow> watchInfo \<Rightarrow> InotifyTracker \<Rightarrow> go_error option \<times> InotifyTracker" where
  "remove_info rm w s = removeWatch rm w (close_done (wi_fname w) s)"

definition RemoveWatch :: "(string \<Rightarrow> go_error option) \<Rightarrow> string \<Rightarrow> InotifyTracker \<Rightarrow> go_error option \<times> InotifyTracker" where
  "RemoveWatch rm fname = remove_info rm (clean_info 0 fname)"

definition RemoveWatchCreate :: "(string \<Rightarrow> go_error option) \<Rightarrow> string \<Rightarrow> InotifyTracker \<Rightarrow> go_error option \<times> InotifyTracker" where
  "RemoveWatchCreate rm fname = remove_info rm (clean_info Op_Create fname)"

definition Cleanup :: "(string \<Rightarrow> go_error option) \<Rightarrow> string \<Rightarrow> InotifyTracker \<Rightarrow> go_error option \<times> InotifyTracker" where
  "Cleanup rm fname = RemoveWatch rm fname"

text \<open>\<^verbatim>\<open>Events\<close>: the channel, or nil; receiving from nil blocks for ever.\<close>

definition Events :: "string \<Rightarrow> InotifyTracker \<Rightarrow> nat option" where
  "Events fname s = it_chans s fname"

text \<open>\<^verbatim>\<open>sendEvent\<close>: the channel the event is offered on and the one that gives the offer up.\<close>

definition sendEvent :: "fs_event \<Rightarrow> InotifyTracker \<Rightarrow> (nat \<times> nat) option" where
  "sendEvent ev s =
     (let name = filepath_Clean (ev_Name ev) in
      case (it_chans s name, it_done s name) of
        (Some c, Some d) \<Rightarrow> Some (c, d)
      | _ \<Rightarrow> None)"

section \<open>The inotify watcher\<close>

text \<open>What a goroutine that selects on the events and the tomb sees.\<close>

datatype inotify_answer = Event fs_event | EventsClosed | TombDying

text \<open>\<^verbatim>\<open>filepath.Abs\<close> with the answer of \<^verbatim>\<open>os.Getwd\<close>.\<close>

definition filepath_Abs :: "string result \<Rightarrow> string \<Rightarrow> string result" where
  "filepath_Abs cwd p =
     (if p \<noteq> [] \<and> hd p = slash then Inr (filepath_Clean p)
      else case cwd of Inl e \<Rightarrow> Inl e | Inr d \<Rightarrow> Inr (filepath_Join [d, p]))"

fun await_create :: "string result \<Rightarrow> string \<Rightarrow> inotify_answer list \<Rightarrow> go_error option option" where
  "await_create cwd filename [] = None"
| "await_create cwd filename (EventsClosed # r) = Some (Some (ErrorString ''inotify watcher has been closed''))"
| "await_create cwd filename (TombDying # r) = Some (Some ErrDying)"
| "await_create cwd filename (Event ev # r) =
     (case filepath_Abs cwd (ev_Name ev) of
        Inl e \<Rightarrow> Some (Some e)
      | Inr evtName \<Rightarrow>
          (case filepath_Abs cwd filename of
             Inl e \<Rightarrow> Some (Some e)
           | Inr fwFilename \<Rightarrow> if evtName = fwFilename then Some None else await_create cwd filename r))"

text \<open>
  \<open>others\<close> is what other goroutines do to the tracker in the meantime; the watch is removed when the
  function returns (deferred), so not while it waits.
\<close>

definition inotify_BlockUntilExists ::
    "(string \<Rightarrow> go_error option) \<Rightarrow> (string \<Rightarrow> go_error option) \<Rightarrow> string result \<Rightarrow> string \<Rightarrow> stat_answer \<Rightarrow>
     inotify_answer list \<Rightarrow> (InotifyTracker \<Rightarrow> InotifyTracker) \<Rightarrow> InotifyTracker \<Rightarrow>
     go_error option option \<times> InotifyTracker" where
  "inotify_BlockUntilExists add rm cwd filename stat answers others s =
     (case WatchCreate add filename s of
        (Some err, s') \<Rightarrow> (Some (Some err), s')
      | (None, s') \<Rightarrow>
          (let r = (case stat of
                      Inr fi \<Rightarrow> Some None
                    | Inl (StatFailed e) \<Rightarrow> Some (Some e)
                    | Inl (NotExist e) \<Rightarrow> await_create cwd filename answers)
           in case r of
                None \<Rightarrow> (None, others s')
              | Some err \<Rightarrow> (Some err, snd (RemoveWatchCreate rm filename (others s')))))"

text \<open>One round of the goroutine of \<^verbatim>\<open>ChangeEvents\<close>; the state is the size seen last.\<close>

definition has_op :: "fs_event \<Rightarrow> fs_op \<Rightarrow> bool" where
  "has_op ev op \<longleftrightarrow> and (ev_Op ev) op = op"

definition inotify_round ::
    "(string \<Rightarrow> go_error option) \<Rightarrow> string \<Rightarrow> inotify_answer \<Rightarrow> stat_answer \<Rightarrow>
     int \<Rightarrow> FileChanges \<Rightarrow> InotifyTracker \<Rightarrow> int watch_end \<times> FileChanges \<times> InotifyTracker" where
  "inotify_round rm filename answer stat prevSize fc s =
     (case answer of
        EventsClosed \<Rightarrow> (Watch_returned, fc, snd (RemoveWatch rm filename s))
      | TombDying \<Rightarrow> (Watch_returned, fc, snd (RemoveWatch rm filename s))
      | Event ev \<Rightarrow>
          if has_op ev Op_Remove \<or> has_op ev Op_Rename then
            (Watch_returned, NotifyDeleted fc, snd (RemoveWatch rm filename s))
          else if has_op ev Op_Chmod \<or> has_op ev Op_Write then
            (case stat of
               Inl (NotExist e) \<Rightarrow> (Watch_returned, NotifyDeleted fc, snd (RemoveWatch rm filename s))
             | Inl (StatFailed e) \<Rightarrow> (Watch_fatal, fc, s)
             | Inr fi \<Rightarrow>
                 (Watching (fi_Size fi),
                  if prevSize > 0 \<and> prevSize > fi_Size fi then NotifyTruncated fc else NotifyModified fc, s))
          else (Watching prevSize, fc, s))"

text \<open>A run of it: answers of the events and of \<^verbatim>\<open>Stat\<close>, and what others do to the tracker between.\<close>

fun inotify_loop ::
    "(string \<Rightarrow> go_error option) \<Rightarrow> string \<Rightarrow> (inotify_answer \<times> stat_answer) list \<Rightarrow>
     int \<Rightarrow> FileChanges \<Rightarrow> InotifyTracker \<Rightarrow> int watch_end \<times> FileChanges \<times> InotifyTracker" where
  "inotify_loop rm filename [] sz fc s = (Watching sz, fc, s)"
| "inotify_loop rm filename ((a, st) # r) sz fc s =
     (case inotify_round rm filename a st sz fc s of
        (Watching sz', fc', s') \<Rightarrow> inotify_loop rm filename r sz' fc' s'
      | res \<Rightarrow> res)"

definition inotify_ChangeEvents ::
    "(string \<Rightarrow> go_error option) \<Rightarrow> string \<Rightarrow> InotifyTracker \<Rightarrow> FileChanges result \<times> InotifyTracker" where
  "inotify_ChangeEvents add filename s =
     (case Watch add filename s of
        (Some err, s') \<Rightarrow> (Inl err, s')
      | (None, s') \<Rightarrow> (Inr NewFileChanges, s'))"

section \<open>Reference counts\<close>

lemma chan_simps [simp]:
  "it_watchNums (make_chan f s) = it_watchNums s" "it_watchNums (make_done f s) = it_watchNums s"
  "it_watchNums (close_chan f s) = it_watchNums s" "it_watchNums (close_done f s) = it_watchNums s"
  "it_watched (make_chan f s) = it_watched s" "it_watched (make_done f s) = it_watched s"
  "it_watched (close_chan f s) = it_watched s" "it_watched (close_done f s) = it_watched s"
  by (simp_all add: make_chan_def make_done_def close_chan_def close_done_def split: option.splits)

lemma watchNum_chan [simp]:
  "watchNum (make_chan f s) g = watchNum s g" "watchNum (make_done f s) g = watchNum s g"
  "watchNum (close_chan f s) g = watchNum s g" "watchNum (close_done f s) g = watchNum s g"
  by (simp_all add: watchNum_def)

lemma addWatch_count:
  "addWatch add w s = (None, s') \<Longrightarrow>
     watchNum s' f = (if f = watch_target w then watchNum s f + 1 else watchNum s f) \<and>
     set (it_watched s') =
       (if watchNum s (watch_target w) = 0 then insert (watch_target w) (set (it_watched s)) else set (it_watched s))"
  "addWatch add w s = (Some e, s') \<Longrightarrow> watchNum s' f = watchNum s f \<and> it_watched s' = it_watched s"
  by (auto simp: addWatch_def Let_def watchNum_def split: if_splits option.splits)

lemma removeWatch_count:
  "watchNum (snd (removeWatch rm w s)) f =
     (if f = watch_target w then watchNum s f - 1 else watchNum s f) \<and>
   set (it_watched (snd (removeWatch rm w s))) =
     (if watchNum s (watch_target w) = 1 then set (it_watched s) - {watch_target w} else set (it_watched s))"
  by (auto simp: removeWatch_def Let_def watchNum_def)

text \<open>
  The states of the tracker with the multiset of names that goroutines hold a watch on: any order of
  the actions of any goroutines, each action under the lock, where a watch is removed by who holds it.
\<close>

inductive tracker_state :: "InotifyTracker \<Rightarrow> string multiset \<Rightarrow> bool" where
  started: "tracker_state goRun {#}"
| added: "tracker_state s h \<Longrightarrow> addWatch add w s = (None, s') \<Longrightarrow>
    tracker_state s' (add_mset (watch_target w) h)"
| not_added: "tracker_state s h \<Longrightarrow> addWatch add w s = (Some e, s') \<Longrightarrow> tracker_state s' h"
| removed: "tracker_state s h \<Longrightarrow> watch_target w \<in># h \<Longrightarrow>
    tracker_state (snd (removeWatch rm w s)) (h - {#watch_target w#})"
| done_closed: "tracker_state s h \<Longrightarrow> tracker_state (close_done f s) h"

lemma tracker_counts:
  "tracker_state s h \<Longrightarrow> watchNum s f = int (count h f) \<and> (f \<in> set (it_watched s) \<longleftrightarrow> f \<in># h)"
proof (induction arbitrary: f rule: tracker_state.induct)
  case started
  show ?case by (simp add: goRun_def watchNum_def)
next
  case (added s h add w s')
  then show ?case using addWatch_count(1) [OF added.hyps(2), of f] by (auto simp: count_eq_zero_iff)
next
  case (not_added s h add w e s')
  then show ?case using addWatch_count(2) [OF not_added.hyps(2), of f] by auto
next
  case (removed s h w rm)
  let ?g = "watch_target w"
  have "1 \<le> count h ?g" using removed.hyps(2) by (simp add: Suc_le_eq)
  moreover have "?g \<in># h - {#?g#} \<longleftrightarrow> 1 < count h ?g" by (simp add: in_diff_count)
  moreover have "1 < count h ?g \<longleftrightarrow> count h ?g \<noteq> 1" using \<open>1 \<le> count h ?g\<close> by linarith
  ultimately have in_rest: "?g \<in># h - {#?g#} \<longleftrightarrow> count h ?g \<noteq> 1" by blast
  note n = removed.IH [of ?g] and upd = removeWatch_count [of rm w s f]
  show ?case
  proof (cases "f = ?g")
    case True
    let ?s = "snd (removeWatch rm w s)"
    have "int (count h ?g) - 1 = int (count (h - {#?g#}) ?g)"
      using \<open>1 \<le> count h ?g\<close> by (simp only: count_diff count_single) arith
    moreover have "watchNum ?s ?g = watchNum s ?g - 1" using upd True by presburger
    ultimately have num: "watchNum ?s ?g = int (count (h - {#?g#}) ?g)" using n by linarith
    have one: "watchNum s ?g = 1 \<longleftrightarrow> count h ?g = 1" using n by linarith
    have "set (it_watched ?s) =
        (if watchNum s ?g = 1 then set (it_watched s) - {?g} else set (it_watched s))"
      using upd by blast
    then have "?g \<in> set (it_watched ?s) \<longleftrightarrow> count h ?g \<noteq> 1"
      unfolding one using n removed.hyps(2) by (metis DiffD2 insertI1)
    with num in_rest True show ?thesis by metis
  next
    case False
    then have "f \<in># h - {#?g#} \<longleftrightarrow> f \<in># h" by (simp add: in_diff_count)
    then show ?thesis using False removed.IH [of f] upd by (auto split: if_splits)
  qed
next
  case (done_closed s h f')
  then show ?case by simp
qed


lemma RemoveWatch_count:
  "watchNum (snd (RemoveWatch rm f s)) g = (if g = filepath_Clean f then watchNum s g - 1 else watchNum s g)"
  using removeWatch_count [of rm "clean_info 0 f" "close_done (filepath_Clean f) s" g]
  by (simp add: RemoveWatch_def remove_info_def clean_info_def watch_target_def isCreate_def)

lemma Watch_count:
  "Watch add f s = (None, s') \<Longrightarrow>
     watchNum s' g = (if g = filepath_Clean f then watchNum s g + 1 else watchNum s g)"
  using addWatch_count(1) [of add "clean_info 0 f" s s' g]
  by (simp add: Watch_def clean_info_def watch_target_def isCreate_def)

lemma inotify_round_tracker:
  "inotify_round rm f a st sz fc s = (Watching sz', fc', s') \<Longrightarrow> s' = s"
  "inotify_round rm f a st sz fc s = (Watch_returned, fc', s') \<Longrightarrow> s' = snd (RemoveWatch rm f s)"
  by (auto simp: inotify_round_def split: inotify_answer.splits if_splits sum.splits stat_error.splits)

lemma inotify_loop_tracker:
  "inotify_loop rm f as sz fc s = (Watch_returned, fc', s') \<Longrightarrow> s' = snd (RemoveWatch rm f s)"
proof (induction as arbitrary: sz fc)
  case (Cons a as)
  obtain x y where a: "a = (x, y)" by (cases a)
  obtain e fc1 s1 where r: "inotify_round rm f x y sz fc s = (e, fc1, s1)" by (metis surj_pair)
  show ?case
    using Cons a r inotify_round_tracker [of rm f x y sz fc s] by (cases e) auto
qed simp

text \<open>
  A tail gives its watch back: when the goroutine of the inotify watcher returns, for whatever
  reason, every count is what it was before the watch was taken.
\<close>

theorem inotify_watch_released:
  assumes "inotify_ChangeEvents add f s = (Inr fc, s1)"
    and "inotify_loop rm f as sz fc s1 = (Watch_returned, fc', s2)"
  shows "watchNum s2 g = watchNum s g"
proof -
  have w: "Watch add f s = (None, s1)"
    using assms(1) by (auto simp: inotify_ChangeEvents_def split: prod.splits option.splits)
  show ?thesis
    using inotify_loop_tracker [OF assms(2)] RemoveWatch_count [of rm f s1 g] Watch_count [OF w, of g]
    by (auto split: if_splits)
qed

section \<open>Two tails of one file\<close>

lemma addWatch_keeps_chan:
  "addWatch add w s = (err, s') \<Longrightarrow> it_chans s f = Some c \<Longrightarrow> it_chans s' f = Some c"
  by (auto simp: addWatch_def Let_def make_chan_def make_done_def split: if_splits option.splits)

lemma RemoveWatch_closes:
  "it_chans s (filepath_Clean f) = Some c \<Longrightarrow>
    it_chans (snd (RemoveWatch rm f s)) (filepath_Clean f) = None \<and>
    c \<in> set (it_closed (snd (RemoveWatch rm f s)))"
  by (auto simp: RemoveWatch_def remove_info_def removeWatch_def clean_info_def close_chan_def close_done_def
      Let_def split: option.splits)

lemma RemoveWatch_watched:
  "watchNum s (filepath_Clean f) \<noteq> 1 \<Longrightarrow> set (it_watched (snd (RemoveWatch rm f s))) = set (it_watched s)"
  using removeWatch_count [of rm "clean_info 0 f" "close_done (filepath_Clean f) s"]
  by (simp add: RemoveWatch_def remove_info_def clean_info_def watch_target_def isCreate_def)

text \<open>
  Two tails of one file do not live side by side. The second gets the channel of the first; when
  the first stops, that channel is closed and forgotten although the second still holds its watch and
  the file is still watched, and events on the file are from then on offered to nobody.
\<close>

theorem second_tail_cut_off:
  assumes "tracker_state s h" and "Watch add f s = (None, s1)" and "Events (filepath_Clean f) s1 = Some c"
    and "Watch add f s1 = (None, s2)" and "filepath_Clean (ev_Name ev) = filepath_Clean f"
  shows "Events (filepath_Clean f) s2 = Some c \<and>
    (let s3 = snd (RemoveWatch rm f s2) in
       c \<in> set (it_closed s3) \<and> Events (filepath_Clean f) s3 = None \<and> sendEvent ev s3 = None \<and>
       0 < watchNum s3 (filepath_Clean f) \<and> filepath_Clean f \<in> set (it_watched s3))"
proof -
  let ?g = "filepath_Clean f"
  have t: "watch_target (clean_info 0 f) = ?g" by (simp add: clean_info_def watch_target_def isCreate_def)
  have "tracker_state s1 (add_mset ?g h)"
    using added [OF assms(1), of add "clean_info 0 f" s1] assms(2) t by (simp add: Watch_def)
  then have st: "tracker_state s2 (add_mset ?g (add_mset ?g h))"
    using added [of s1 _ add "clean_info 0 f" s2] assms(4) t by (simp add: Watch_def)
  have n: "1 < watchNum s2 ?g" and w: "?g \<in> set (it_watched s2)" using tracker_counts [OF st, of ?g] by auto
  have c: "it_chans s2 ?g = Some c"
    using addWatch_keeps_chan assms(3,4) by (auto simp: Events_def Watch_def)
  show ?thesis
    using RemoveWatch_closes [OF c, of rm] RemoveWatch_count [of rm f s2 ?g] RemoveWatch_watched [of s2 f rm] n w c assms(5)
    by (simp add: Let_def Events_def sendEvent_def)
qed

text \<open>A watch that is removed without having been added is counted as minus one, so the next is not asked for.\<close>

lemma unmatched_remove:
  assumes "Watch add f (snd (Cleanup rm f goRun)) = (err, s)"
  shows "err = None \<and> it_watched s = []"
proof -
  have "watchNum (snd (Cleanup rm f goRun)) (filepath_Clean f) = -1"
    using RemoveWatch_count [of rm f goRun "filepath_Clean f"]
    by (simp add: Cleanup_def goRun_def watchNum_def)
  moreover have "it_watched (snd (Cleanup rm f goRun)) = []"
    using RemoveWatch_watched [of goRun f rm] by (simp add: Cleanup_def goRun_def watchNum_def)
  ultimately show ?thesis
    using assms by (auto simp: Watch_def addWatch_def Let_def clean_info_def watch_target_def isCreate_def)
qed

section \<open>What polling reports\<close>

fun poll_loop :: "file_info \<Rightarrow> (bool \<times> stat_answer) list \<Rightarrow> poll_state \<Rightarrow> FileChanges \<times> poll_state watch_end" where
  "poll_loop origFi [] st = (ps_changes st, Watching st)"
| "poll_loop origFi ((d, a) # r) st =
     (case poll_round origFi d a st of
        (fc, Watching st') \<Rightarrow> poll_loop origFi r st'
      | res \<Rightarrow> res)"

lemma poll_round_same:
  assumes "fi_inode fi = fi_inode o'" and "0 \<le> fi_Size fi"
  shows "\<exists>st'. poll_round o' False (Inr fi) st = (ps_changes st', Watching st') \<and> ps_prevSize st' = fi_Size fi \<and>
    (fc_Truncated (ps_changes st') \<longleftrightarrow> fc_Truncated (ps_changes st) \<or> fi_Size fi < ps_prevSize st) \<and>
    fc_Deleted (ps_changes st') = fc_Deleted (ps_changes st)"
  using assms by (auto simp: poll_round_def Let_def)

lemma poll_loop_same:
  assumes "\<forall>fi \<in> set fis. fi_inode fi = fi_inode o' \<and> 0 \<le> fi_Size fi"
  shows "\<exists>st'. poll_loop o' (map (\<lambda>fi. (False, Inr fi)) fis) st = (ps_changes st', Watching st') \<and>
    (fc_Truncated (ps_changes st') \<longleftrightarrow>
       fc_Truncated (ps_changes st) \<or> \<not> sorted (ps_prevSize st # map fi_Size fis)) \<and>
    fc_Deleted (ps_changes st') = fc_Deleted (ps_changes st)"
  using assms
proof (induction fis arbitrary: st)
  case (Cons fi fis)
  obtain st' where st': "poll_round o' False (Inr fi) st = (ps_changes st', Watching st')"
    "ps_prevSize st' = fi_Size fi"
    "fc_Truncated (ps_changes st') \<longleftrightarrow> fc_Truncated (ps_changes st) \<or> fi_Size fi < ps_prevSize st"
    "fc_Deleted (ps_changes st') = fc_Deleted (ps_changes st)"
    using poll_round_same Cons.prems by (metis list.set_intros(1))
  have eq: "poll_loop o' (map (\<lambda>fi. (False, Inr fi)) (fi # fis)) st =
      poll_loop o' (map (\<lambda>fi. (False, Inr fi)) fis) st'"
    using st'(1) by simp
  have "sorted (ps_prevSize st # map fi_Size (fi # fis)) \<longleftrightarrow>
      ps_prevSize st \<le> fi_Size fi \<and> sorted (fi_Size fi # map fi_Size fis)"
    by auto
  moreover have p: "\<forall>fi \<in> set fis. fi_inode fi = fi_inode o' \<and> 0 \<le> fi_Size fi" using Cons.prems by simp
  obtain st2 where st2: "poll_loop o' (map (\<lambda>fi. (False, Inr fi)) fis) st' = (ps_changes st2, Watching st2)"
    "fc_Truncated (ps_changes st2) \<longleftrightarrow>
       fc_Truncated (ps_changes st') \<or> \<not> sorted (fi_Size fi # map fi_Size fis)"
    "fc_Deleted (ps_changes st2) = fc_Deleted (ps_changes st')"
    using Cons.IH [OF p, of st'] unfolding st'(2) by blast
  ultimately have "fc_Truncated (ps_changes st2) \<longleftrightarrow>
      fc_Truncated (ps_changes st) \<or> \<not> sorted (ps_prevSize st # map fi_Size (fi # fis))"
    using st'(3) by (metis not_le)
  then show ?case unfolding eq using st2(1,3) st'(4) by metis
qed simp

text \<open>
  The polling watcher tells growth from truncation: as long as the name stays the same file, a
  truncation is reported exactly when some poll found the file shorter than the one before (or than
  the offset it was started with), and the watcher neither ends nor reports a deletion.
\<close>

theorem polling_reports_truncation:
  assumes "\<forall>fi \<in> set fis. fi_inode fi = fi_inode origFi \<and> 0 \<le> fi_Size fi"
  shows "\<exists>st. poll_loop origFi (map (\<lambda>fi. (False, Inr fi)) fis) (polling_start pos) = (ps_changes st, Watching st) \<and>
    (fc_Truncated (ps_changes st) \<longleftrightarrow> \<not> sorted (pos # map fi_Size fis)) \<and> \<not> fc_Deleted (ps_changes st)"
  using poll_loop_same [OF assms, of "polling_start pos"] by (simp add: polling_start_def NewFileChanges_def)

section \<open>Concrete runs\<close>

definition fine :: "string \<Rightarrow> go_error option" where
  "fine f = None"

lemma clean_f [simp]: "filepath_Clean ''/f'' = ''/f''"
  by code_simp

definition one_watch :: InotifyTracker where
  "one_watch = \<lparr>it_chans = [''/f'' \<mapsto> 0], it_done = [''/f'' \<mapsto> 1], it_watchNums = [''/f'' \<mapsto> 1], it_nextChan = 2,
     it_closed = [], it_watched = [''/f'']\<rparr>"

lemma Watch_one: "Watch fine ''/f'' goRun = (None, one_watch)"
  by (simp add: Watch_def addWatch_def clean_info_def watch_target_def isCreate_def make_chan_def make_done_def
      goRun_def watchNum_def fine_def one_watch_def Let_def)

lemma Watch_two: "Watch fine ''/f'' one_watch = (None, one_watch\<lparr>it_watchNums := [''/f'' \<mapsto> 2]\<rparr>)"
  by (simp add: Watch_def addWatch_def clean_info_def watch_target_def isCreate_def make_chan_def make_done_def
      watchNum_def one_watch_def Let_def)


theorem inotify_watch_released_witness:
  "watchNum (snd (RemoveWatch fine ''/f'' one_watch)) ''/f'' = watchNum goRun ''/f''"
proof -
  have "inotify_ChangeEvents fine ''/f'' goRun = (Inr NewFileChanges, one_watch)"
    by (simp add: inotify_ChangeEvents_def Watch_one)
  moreover have "inotify_loop fine ''/f''
      [(Event \<lparr>ev_Name = ''/f'', ev_Op = Op_Write\<rparr>, Inr \<lparr>fi_inode = 1, fi_Size = 3, fi_ModTime = 7\<rparr>),
       (TombDying, Inr \<lparr>fi_inode = 1, fi_Size = 3, fi_ModTime = 7\<rparr>)] 0 NewFileChanges one_watch =
      (Watch_returned, NotifyModified NewFileChanges, snd (RemoveWatch fine ''/f'' one_watch))"
    by (simp add: inotify_round_def has_op_def)
  ultimately show ?thesis by (rule inotify_watch_released)
qed

theorem second_tail_cut_off_witness:
  "sendEvent \<lparr>ev_Name = ''/f'', ev_Op = Op_Write\<rparr>
     (snd (RemoveWatch fine ''/f'' (one_watch\<lparr>it_watchNums := [''/f'' \<mapsto> 2]\<rparr>))) = None"
proof -
  have "Events (filepath_Clean ''/f'') one_watch = Some 0" by (simp add: Events_def one_watch_def)
  from second_tail_cut_off [OF started Watch_one this Watch_two, of "\<lparr>ev_Name = ''/f'', ev_Op = Op_Write\<rparr>" fine]
  show ?thesis by (simp add: Let_def)
qed

theorem polling_reports_truncation_witness:
  "\<exists>st. poll_loop \<lparr>fi_inode = 1, fi_Size = 3, fi_ModTime = 7\<rparr>
      [(False, Inr \<lparr>fi_inode = 1, fi_Size = 5, fi_ModTime = 8\<rparr>), (False, Inr \<lparr>fi_inode = 1, fi_Size = 2, fi_ModTime = 9\<rparr>)]
      (polling_start 3) = (ps_changes st, Watching st) \<and> fc_Truncated (ps_changes st)"
  using polling_reports_truncation
    [of "[\<lparr>fi_inode = 1, fi_Size = 5, fi_ModTime = 8\<rparr>, \<lparr>fi_inode = 1, fi_Size = 2, fi_ModTime = 9\<rparr>]"
      "\<lparr>fi_inode = 1, fi_Size = 3, fi_ModTime = 7\<rparr>" 3]
  by auto

end
