(* ===== verification/TrackerLoop.thy ===== *)
theory TrackerLoop
  imports TailWatch
begin

text \<open>
  The goroutine of the inotify tracker and the goroutines that call it (\<^verbatim>\<open>pkg/tail/watch/inotify_tracker.go\<close>).
  They meet on unbuffered channels: a caller offers its request on \<^verbatim>\<open>watch\<close> or \<^verbatim>\<open>remove\<close> and then receives
  from \<^verbatim>\<open>error\<close>, a channel all callers share; the goroutine selects among requests and events, answers a
  request before it selects again, and offers an event to its reader until it is taken or the done channel of the
  file is closed. One label is one rendezvous or one section under the lock. The lemmas show that what the callers
  see is the tracker of \<^verbatim>\<open>TailWatch\<close>, one operation after the other, and when they are not served.
\<close>

section \<open>Goroutines\<close>

datatype request = AddRequest watchInfo | RemoveRequest watchInfo

text \<open>A call: \<^verbatim>\<open>remove\<close> first closes the done channel; then both offer, receive and return.\<close>

datatype call_state =
    Closing watchInfo
  | Offering request
  | Awaiting request
  | Returned request "go_error option"

datatype loop_state = Selecting | Answering "go_error option" | Sending nat nat | LoopEnded

text \<open>
  The log is not in the code: the sections under the lock that changed the maps, the last one first, with the call
  and the answer of the \<^verbatim>\<open>fsnotify\<close> watcher.
\<close>

datatype tracker_action = Handled nat request "go_error option" | DoneClosed string

record tracker_sys =
  ts_tracker :: InotifyTracker
  ts_loop :: loop_state
  ts_calls :: "nat \<rightharpoonup> call_state"
  ts_log :: "tracker_action list"

definition started_tracker :: tracker_sys where
  "started_tracker = \<lparr>ts_tracker = goRun, ts_loop = Selecting, ts_calls = Map.empty, ts_log = []\<rparr>"

text \<open>What the goroutine does for a request; \<open>e\<close> is the answer of the \<^verbatim>\<open>fsnotify\<close> watcher.\<close>

fun handle_request :: "go_error option \<Rightarrow> request \<Rightarrow> InotifyTracker \<Rightarrow> go_error option \<times> InotifyTracker" where
  "handle_request e (AddRequest w) s = addWatch (\<lambda>_. e) w s"
| "handle_request e (RemoveRequest w) s = removeWatch (\<lambda>_. e) w s"

section \<open>Steps\<close>

text \<open>
  A new call (of \<^verbatim>\<open>Watch\<close>, \<^verbatim>\<open>WatchCreate\<close>, \<^verbatim>\<open>RemoveWatch\<close> or \<^verbatim>\<open>RemoveWatchCreate\<close>), the closing of the done channel, the
  rendezvous of a request and of an answer, an event from \<^verbatim>\<open>fsnotify\<close>, its end by a receiver or by the done
  channel, an error of the watcher, which is logged, and the end of the watcher.
\<close>

datatype tracker_label =
    CallWatch nat fs_op string
  | CallRemove nat fs_op string
  | CloseDone nat
  | Accept nat "go_error option"
  | Answer nat
  | FsEvent fs_event
  | Received
  | GaveUp
  | WatcherError
  | WatcherClosed

fun tracker_step :: "tracker_label \<Rightarrow> tracker_sys \<Rightarrow> tracker_sys option" where
  "tracker_step (CallWatch i op fname) s =
     (if ts_calls s i = None
      then Some (s\<lparr>ts_calls := (ts_calls s)(i \<mapsto> Offering (AddRequest (clean_info op fname)))\<rparr>) else None)"
| "tracker_step (CallRemove i op fname) s =
     (if ts_calls s i = None then Some (s\<lparr>ts_calls := (ts_calls s)(i \<mapsto> Closing (clean_info op fname))\<rparr>) else None)"
| "tracker_step (CloseDone i) s =
     (case ts_calls s i of
        Some (Closing w) \<Rightarrow>
          Some (s\<lparr>ts_tracker := close_done (wi_fname w) (ts_tracker s),
                  ts_calls := (ts_calls s)(i \<mapsto> Offering (RemoveRequest w)),
                  ts_log := DoneClosed (wi_fname w) # ts_log s\<rparr>)
      | _ \<Rightarrow> None)"
| "tracker_step (Accept i e) s =
     (case (ts_loop s, ts_calls s i) of
        (Selecting, Some (Offering r)) \<Rightarrow>
          (case handle_request e r (ts_tracker s) of
             (err, t) \<Rightarrow>
               Some (s\<lparr>ts_tracker := t, ts_loop := Answering err, ts_calls := (ts_calls s)(i \<mapsto> Awaiting r),
                       ts_log := Handled i r e # ts_log s\<rparr>))
      | _ \<Rightarrow> None)"
| "tracker_step (Answer i) s =
     (case (ts_loop s, ts_calls s i) of
        (Answering err, Some (Awaiting r)) \<Rightarrow>
          Some (s\<lparr>ts_loop := Selecting, ts_calls := (ts_calls s)(i \<mapsto> Returned r err)\<rparr>)
      | _ \<Rightarrow> None)"
| "tracker_step (FsEvent ev) s =
     (if ts_loop s = Selecting
      then Some (case sendEvent ev (ts_tracker s) of
                   None \<Rightarrow> s
                 | Some (c, d) \<Rightarrow> s\<lparr>ts_loop := Sending c d\<rparr>)
      else None)"
| "tracker_step Received s =
     (case ts_loop s of
        Sending c d \<Rightarrow> (if c \<in> set (it_closed (ts_tracker s)) then None else Some (s\<lparr>ts_loop := Selecting\<rparr>))
      | _ \<Rightarrow> None)"
| "tracker_step GaveUp s =
     (case ts_loop s of
        Sending c d \<Rightarrow> (if d \<in> set (it_closed (ts_tracker s)) then Some (s\<lparr>ts_loop := Selecting\<rparr>) else None)
      | _ \<Rightarrow> None)"
| "tracker_step WatcherError s = (if ts_loop s = Selecting then Some s else None)"
| "tracker_step WatcherClosed s = (if ts_loop s = Selecting then Some (s\<lparr>ts_loop := LoopEnded\<rparr>) else None)"

fun tracker_run :: "tracker_label list \<Rightarrow> tracker_sys \<Rightarrow> tracker_sys option" where
  "tracker_run [] s = Some s"
| "tracker_run (l # ls) s = (case tracker_step l s of None \<Rightarrow> None | Some s' \<Rightarrow> tracker_run ls s')"

lemma tracker_run_append:
  "tracker_run (ls @ ls') s = (case tracker_run ls s of None \<Rightarrow> None | Some s' \<Rightarrow> tracker_run ls' s')"
  by (induction ls arbitrary: s) (auto split: option.splits)

section \<open>One operation after the other\<close>

text \<open>The operations of a log, the first one first, on one tracker: what each call is answered.\<close>

fun replay :: "tracker_action list \<Rightarrow> InotifyTracker \<Rightarrow> (nat \<times> request \<times> go_error option) list \<times> InotifyTracker" where
  "replay [] t = ([], t)"
| "replay (DoneClosed f # r) t = replay r (close_done f t)"
| "replay (Handled i q e # r) t =
     (case handle_request e q t of (err, t') \<Rightarrow> (case replay r t' of (as, t'') \<Rightarrow> ((i, q, err) # as, t'')))"

lemma replay_append:
  "replay (xs @ ys) t =
     (case replay xs t of (as, t') \<Rightarrow> (case replay ys t' of (bs, t'') \<Rightarrow> (as @ bs, t'')))"
  by (induction xs t rule: replay.induct) (auto split: prod.splits)

definition answered_by :: "tracker_sys \<Rightarrow> (nat \<times> request \<times> go_error option) list" where
  "answered_by s = fst (replay (rev (ts_log s)) goRun)"

definition replayed :: "tracker_sys \<Rightarrow> InotifyTracker" where
  "replayed s = snd (replay (rev (ts_log s)) goRun)"

text \<open>
  What the log says about a call in some state: a request that was not accepted is not in it; while one call
  awaits, the goroutine is answering with what the log has for it; what was returned is what the log has.
\<close>

fun call_ok :: "loop_state \<Rightarrow> (nat \<times> request \<times> go_error option) list \<Rightarrow> nat \<Rightarrow> call_state option \<Rightarrow> bool" where
  "call_ok l as i (Some (Awaiting r)) \<longleftrightarrow> (\<exists>err. l = Answering err \<and> (i, r, err) \<in> set as)"
| "call_ok l as i (Some (Returned r e)) \<longleftrightarrow> (i, r, e) \<in> set as"
| "call_ok l as i c \<longleftrightarrow> i \<notin> fst ` set as"

definition is_awaiting :: "tracker_sys \<Rightarrow> nat \<Rightarrow> bool" where
  "is_awaiting s i \<longleftrightarrow> (\<exists>r. ts_calls s i = Some (Awaiting r))"

definition tracker_inv :: "tracker_sys \<Rightarrow> bool" where
  "tracker_inv s \<longleftrightarrow>
     replayed s = ts_tracker s \<and> distinct (map fst (answered_by s)) \<and>
     (\<forall>i. call_ok (ts_loop s) (answered_by s) i (ts_calls s i)) \<and>
     (\<forall>err. ts_loop s = Answering err \<longrightarrow> (\<exists>!i. is_awaiting s i))"

lemma answered_by_cong [simp]:
  "answered_by (s\<lparr>ts_calls := c\<rparr>) = answered_by s" "answered_by (s\<lparr>ts_loop := l\<rparr>) = answered_by s"
  "answered_by (s\<lparr>ts_tracker := t\<rparr>) = answered_by s"
  "replayed (s\<lparr>ts_calls := c\<rparr>) = replayed s" "replayed (s\<lparr>ts_loop := l\<rparr>) = replayed s"
  "replayed (s\<lparr>ts_tracker := t\<rparr>) = replayed s"
  by (simp_all add: answered_by_def replayed_def)

lemma log_DoneClosed [simp]:
  "answered_by (s\<lparr>ts_log := DoneClosed f # ts_log s\<rparr>) = answered_by s"
  "replayed (s\<lparr>ts_log := DoneClosed f # ts_log s\<rparr>) = close_done f (replayed s)"
  by (simp_all add: answered_by_def replayed_def replay_append split: prod.splits)

lemma log_Handled:
  assumes "handle_request e r (replayed s) = (err, t)"
  shows "answered_by (s\<lparr>ts_log := Handled i r e # ts_log s\<rparr>) = answered_by s @ [(i, r, err)]"
    and "replayed (s\<lparr>ts_log := Handled i r e # ts_log s\<rparr>) = t"
  using assms by (auto simp: answered_by_def replayed_def replay_append split: prod.splits)

lemma started_inv: "tracker_inv started_tracker"
  by (simp add: tracker_inv_def started_tracker_def answered_by_def replayed_def)

lemma not_awaiting: "tracker_inv s \<Longrightarrow> ts_loop s = Selecting \<Longrightarrow> \<not> is_awaiting s i"
  by (auto simp: tracker_inv_def is_awaiting_def dest!: spec [where x = i])

text \<open>A step that leaves the log and the other calls.\<close>

lemma call_ok_other:
  "call_ok l as i c \<Longrightarrow> (\<And>r. c \<noteq> Some (Awaiting r)) \<Longrightarrow> call_ok l' as i c"
  by (cases "(l, as, i, c)" rule: call_ok.cases) auto

lemma accept_inv:
  assumes inv: "tracker_inv s" and sel: "ts_loop s = Selecting" and off: "ts_calls s i = Some (Offering r)"
    and h: "handle_request e r (ts_tracker s) = (err, t)"
  shows "tracker_inv (s\<lparr>ts_tracker := t, ts_loop := Answering err, ts_calls := (ts_calls s)(i \<mapsto> Awaiting r),
     ts_log := Handled i r e # ts_log s\<rparr>)"
proof -
  have ok: "call_ok Selecting (answered_by s) j (ts_calls s j)" for j
    using inv sel by (simp add: tracker_inv_def)
  have rep: "replayed s = ts_tracker s" using inv by (simp add: tracker_inv_def)
  have new: "i \<notin> fst ` set (answered_by s)" using ok [of i] off by simp
  note app = log_Handled [of e r s err t i, unfolded rep, OF h]
  have "call_ok (Answering err) (answered_by s @ [(i, r, err)]) j (((ts_calls s)(i \<mapsto> Awaiting r)) j)" for j
  proof (cases "j = i")
    case False
    then show ?thesis
      using ok [of j] not_awaiting [OF inv sel, of j]
      by (cases "(Selecting, answered_by s, j, ts_calls s j)" rule: call_ok.cases) (auto simp: is_awaiting_def)
  qed simp
  moreover have "\<exists>!j. \<exists>q. ((ts_calls s)(i \<mapsto> Awaiting r)) j = Some (Awaiting q)"
    using not_awaiting [OF inv sel] by (auto simp: is_awaiting_def)
  ultimately show ?thesis
    using inv app new rep by (simp add: tracker_inv_def is_awaiting_def answered_by_def replayed_def)
qed

lemma answer_inv:
  assumes inv: "tracker_inv s" and ans: "ts_loop s = Answering err" and aw: "ts_calls s i = Some (Awaiting r)"
  shows "tracker_inv (s\<lparr>ts_loop := Selecting, ts_calls := (ts_calls s)(i \<mapsto> Returned r err)\<rparr>)"
proof -
  have one: "j = i" if "ts_calls s j = Some (Awaiting q)" for j q
    using inv ans aw that by (auto simp: tracker_inv_def is_awaiting_def)
  have ok: "call_ok (Answering err) (answered_by s) j (ts_calls s j)" for j
    using inv ans by (simp add: tracker_inv_def)
  have "call_ok Selecting (answered_by s) j (((ts_calls s)(i \<mapsto> Returned r err)) j)" for j
  proof (cases "j = i")
    case True
    then show ?thesis using ok [of i] aw by simp
  next
    case False
    then show ?thesis using call_ok_other [OF ok [of j]] one [of j] by auto
  qed
  then show ?thesis using inv by (simp add: tracker_inv_def)
qed

lemma call_inv:
  assumes inv: "tracker_inv s" and old: "ts_calls s i = None \<or> (\<exists>w. ts_calls s i = Some (Closing w))"
    and new: "(\<exists>w. c = Closing w) \<or> (\<exists>r. c = Offering r)"
  shows "tracker_inv (s\<lparr>ts_calls := (ts_calls s)(i \<mapsto> c)\<rparr>)"
proof -
  have "call_ok (ts_loop s) (answered_by s) j (((ts_calls s)(i \<mapsto> c)) j)" for j
    using inv old new by (auto simp: tracker_inv_def dest!: spec [where x = j])
  moreover have "is_awaiting (s\<lparr>ts_calls := (ts_calls s)(i \<mapsto> c)\<rparr>) j \<longleftrightarrow> is_awaiting s j" for j
    using old new by (auto simp: is_awaiting_def)
  ultimately show ?thesis using inv by (simp add: tracker_inv_def)
qed

lemma loop_inv:
  assumes inv: "tracker_inv s" and "\<And>err. ts_loop s \<noteq> Answering err" and "\<And>err. l \<noteq> Answering err"
  shows "tracker_inv (s\<lparr>ts_loop := l\<rparr>)"
proof -
  have ok: "call_ok (ts_loop s) (answered_by s) j (ts_calls s j)" for j using inv by (simp add: tracker_inv_def)
  have "ts_calls s j \<noteq> Some (Awaiting r)" for j r using ok [of j] assms(2) by auto
  then have "call_ok l (answered_by s) j (ts_calls s j)" for j using call_ok_other [OF ok [of j]] by blast
  then show ?thesis using inv assms(3) by (simp add: tracker_inv_def)
qed

lemma done_inv:
  assumes inv: "tracker_inv s"
  shows "tracker_inv (s\<lparr>ts_tracker := close_done f (ts_tracker s), ts_log := DoneClosed f # ts_log s\<rparr>)"
  using inv by (cases "replay (rev (ts_log s)) goRun")
    (simp add: tracker_inv_def is_awaiting_def answered_by_def replayed_def replay_append)

lemma tracker_step_inv:
  assumes "tracker_inv s" and "tracker_step l s = Some s'"
  shows "tracker_inv s'"
proof (cases l)
  case (CloseDone i)
  then obtain w where w: "ts_calls s i = Some (Closing w)"
    and s': "s' = s\<lparr>ts_tracker := close_done (wi_fname w) (ts_tracker s),
      ts_calls := (ts_calls s)(i \<mapsto> Offering (RemoveRequest w)), ts_log := DoneClosed (wi_fname w) # ts_log s\<rparr>"
    using assms(2) by (auto split: option.splits call_state.splits)
  have "tracker_inv (s\<lparr>ts_calls := (ts_calls s)(i \<mapsto> Offering (RemoveRequest w))\<rparr>)"
    using call_inv [OF assms(1)] w by blast
  from done_inv [OF this, of "wi_fname w"]
  have "tracker_inv (s\<lparr>ts_calls := (ts_calls s)(i \<mapsto> Offering (RemoveRequest w)),
      ts_tracker := close_done (wi_fname w) (ts_tracker s), ts_log := DoneClosed (wi_fname w) # ts_log s\<rparr>)" by simp
  moreover have "s' = s\<lparr>ts_calls := (ts_calls s)(i \<mapsto> Offering (RemoveRequest w)),
      ts_tracker := close_done (wi_fname w) (ts_tracker s), ts_log := DoneClosed (wi_fname w) # ts_log s\<rparr>"
    by (simp add: s')
  ultimately show ?thesis by simp
next
  case (Accept i e)
  then show ?thesis
    using assms accept_inv [OF assms(1)] by (auto split: loop_state.splits option.splits call_state.splits prod.splits)
next
  case (Answer i)
  then show ?thesis
    using assms answer_inv [OF assms(1)] by (auto split: loop_state.splits option.splits call_state.splits)
qed (use assms call_inv [OF assms(1)] loop_inv [OF assms(1)] in
  \<open>auto split: if_splits loop_state.splits option.splits prod.splits\<close>)

lemma tracker_run_inv: "tracker_inv s \<Longrightarrow> tracker_run ls s = Some s' \<Longrightarrow> tracker_inv s'"
  by (induction ls arbitrary: s) (auto split: option.splits dest: tracker_step_inv)

text \<open>
  C19. The goroutine serves its callers one after the other, although they share one channel for the answers: in
  every run of any number of calls, events and closings in any order, there is an order of the operations that
  gives, run on one tracker, the maps of the tracker; in it every call stands at most once, and what a call has
  returned is the answer to its own request in this order; and at most one caller waits for an answer at a time.
\<close>

theorem tracker_serialises:
  assumes "tracker_run ls started_tracker = Some s"
  shows "snd (replay (rev (ts_log s)) goRun) = ts_tracker s \<and> distinct (map fst (answered_by s)) \<and>
     (\<forall>i r e. ts_calls s i = Some (Returned r e) \<longrightarrow> (i, r, e) \<in> set (answered_by s)) \<and>
     (\<forall>i j q r. ts_calls s i = Some (Awaiting q) \<and> ts_calls s j = Some (Awaiting r) \<longrightarrow> i = j)"
proof -
  have inv: "tracker_inv s" using tracker_run_inv [OF started_inv assms] .
  then have ok: "call_ok (ts_loop s) (answered_by s) i (ts_calls s i)" for i by (simp add: tracker_inv_def)
  have "(i, r, e) \<in> set (answered_by s)" if "ts_calls s i = Some (Returned r e)" for i r e
    using ok [of i] that by simp
  moreover have "i = j" if "ts_calls s i = Some (Awaiting q)" "ts_calls s j = Some (Awaiting r)" for i j q r
    using ok [of i] that inv by (auto simp: tracker_inv_def is_awaiting_def)
  ultimately show ?thesis using inv by (auto simp: tracker_inv_def replayed_def)
qed

text \<open>Two callers; the second one is accepted when the first has its answer.\<close>

theorem tracker_serialises_witness:
  "\<exists>s. tracker_run [CallWatch 1 0 ''/a'', CallWatch 2 0 ''/b'', Accept 2 (Some ErrDying), Answer 2, Accept 1 None, Answer 1]
       started_tracker = Some s \<and>
     ts_calls s 1 = Some (Returned (AddRequest (clean_info 0 ''/a'')) None) \<and>
     (2, AddRequest (clean_info 0 ''/b''), Some ErrDying) \<in> set (answered_by s)"
proof -
  let ?ls = "[CallWatch 1 0 ''/a'', CallWatch 2 0 ''/b'', Accept 2 (Some ErrDying), Answer 2, Accept 1 None, Answer 1]"
  have "case tracker_run ?ls started_tracker of None \<Rightarrow> False | Some s \<Rightarrow>
      ts_calls s 1 = Some (Returned (AddRequest (clean_info 0 ''/a'')) None) \<and>
      ts_calls s 2 = Some (Returned (AddRequest (clean_info 0 ''/b'')) (Some ErrDying))"
    by code_simp
  then obtain s where run: "tracker_run ?ls started_tracker = Some s"
    and calls: "ts_calls s 1 = Some (Returned (AddRequest (clean_info 0 ''/a'')) None)"
      "ts_calls s 2 = Some (Returned (AddRequest (clean_info 0 ''/b'')) (Some ErrDying))"
    by (auto split: option.splits)
  have "(2, AddRequest (clean_info 0 ''/b''), Some ErrDying) \<in> set (answered_by s)"
    using tracker_serialises [OF run] calls(2) by blast
  then show ?thesis using run calls(1) by blast
qed

section \<open>Channels\<close>

text \<open>
  The open channels of the tracker: their numbers are below the next one, no number is used twice, and none is
  closed; what the goroutine sends on is one of them.
\<close>

definition chans_inv :: "InotifyTracker \<Rightarrow> bool" where
  "chans_inv t \<longleftrightarrow>
     (\<forall>f c. it_chans t f = Some c \<longrightarrow> c < it_nextChan t \<and> c \<notin> set (it_closed t)) \<and>
     (\<forall>f c. it_done t f = Some c \<longrightarrow> c < it_nextChan t \<and> c \<notin> set (it_closed t)) \<and>
     (\<forall>c \<in> set (it_closed t). c < it_nextChan t) \<and>
     (\<forall>f g c. it_chans t f = Some c \<longrightarrow> it_chans t g = Some c \<longrightarrow> f = g) \<and>
     (\<forall>f g c. it_done t f = Some c \<longrightarrow> it_done t g = Some c \<longrightarrow> f = g) \<and>
     (\<forall>f g c. it_chans t f = Some c \<longrightarrow> it_done t g \<noteq> Some c)"

lemma make_chan_inv: "chans_inv t \<Longrightarrow> chans_inv (make_chan f t)"
proof (cases "it_chans t f")
  case None
  assume "chans_inv t"
  then show ?thesis
    using None unfolding chans_inv_def make_chan_def
    by (intro conjI allI impI) (auto simp: less_Suc_eq split: if_splits dest: less_irrefl [THEN notE, rotated])
qed (simp add: make_chan_def)

lemma make_done_inv: "chans_inv t \<Longrightarrow> chans_inv (make_done f t)"
proof (cases "it_done t f")
  case None
  assume "chans_inv t"
  then show ?thesis
    using None unfolding chans_inv_def make_done_def
    by (intro conjI allI impI) (auto simp: less_Suc_eq split: if_splits dest: less_irrefl [THEN notE, rotated])
qed (simp add: make_done_def)

lemma close_chan_inv: "chans_inv t \<Longrightarrow> chans_inv (close_chan f t)"
  unfolding chans_inv_def close_chan_def
  by (cases "it_chans t f") (auto split: if_splits)

lemma close_done_inv: "chans_inv t \<Longrightarrow> chans_inv (close_done f t)"
  unfolding chans_inv_def close_done_def
  by (cases "it_done t f") (auto split: if_splits)

lemmas make_inv = make_chan_inv make_done_inv
lemmas close_inv = close_chan_inv close_done_inv

lemma chans_inv_cong [simp]:
  "chans_inv (t\<lparr>it_watched := x\<rparr>) = chans_inv t" "chans_inv (t\<lparr>it_watchNums := n\<rparr>) = chans_inv t"
  by (simp_all add: chans_inv_def)

lemma handle_chans: "handle_request e r t = (err, t') \<Longrightarrow> chans_inv t \<Longrightarrow> chans_inv t'"
  by (cases r) (auto simp: addWatch_def removeWatch_def Let_def make_inv close_inv split: if_splits option.splits prod.splits)

definition sending_inv :: "tracker_sys \<Rightarrow> bool" where
  "sending_inv s \<longleftrightarrow> chans_inv (ts_tracker s) \<and>
     (\<forall>c d. ts_loop s = Sending c d \<longrightarrow> (\<exists>f. it_chans (ts_tracker s) f = Some c))"

lemma close_done_chans [simp]: "it_chans (close_done f t) = it_chans t"
  by (simp add: close_done_def split: option.splits)

lemma sending_step: "tracker_step l s = Some s' \<Longrightarrow> sending_inv s \<Longrightarrow> sending_inv s'"
  by (cases l)
     (auto simp: sending_inv_def close_inv handle_chans sendEvent_def Let_def
       split: if_splits option.splits loop_state.splits call_state.splits prod.splits)

lemma sending_run: "tracker_run ls s = Some s' \<Longrightarrow> sending_inv s \<Longrightarrow> sending_inv s'"
  by (induction ls arbitrary: s) (auto split: option.splits dest: sending_step)

lemma started_sending: "sending_inv started_tracker"
  by (simp add: sending_inv_def started_tracker_def goRun_def chans_inv_def)

lemma sending_open:
  assumes "tracker_run ls started_tracker = Some s" and "ts_loop s = Sending c d"
  shows "c \<notin> set (it_closed (ts_tracker s))"
  using sending_run [OF assms(1) started_sending] assms(2) by (fastforce simp: sending_inv_def chans_inv_def)

section \<open>Who is served\<close>

lemma serve_selecting:
  assumes "ts_loop s = Selecting" and "ts_calls s i = Some c" and "\<And>r a. c \<noteq> Returned r a" and "\<And>r. c \<noteq> Awaiting r"
  shows "\<exists>ls s' r a. tracker_run ls s = Some s' \<and> ts_calls s' i = Some (Returned r a) \<and> Received \<notin> set ls"
proof -
  have offered: "\<exists>s' a. tracker_run [Accept i None, Answer i] s = Some s' \<and> ts_calls s' i = Some (Returned r a)"
    if "ts_loop s = Selecting" "ts_calls s i = Some (Offering r)" for s :: tracker_sys and r
    using that by (cases "handle_request None r (ts_tracker s)") simp
  show ?thesis
  proof (cases c)
    case (Closing w)
    let ?s = "s\<lparr>ts_tracker := close_done (wi_fname w) (ts_tracker s),
      ts_calls := (ts_calls s)(i \<mapsto> Offering (RemoveRequest w)), ts_log := DoneClosed (wi_fname w) # ts_log s\<rparr>"
    obtain s' a where "tracker_run [Accept i None, Answer i] ?s = Some s'"
      "ts_calls s' i = Some (Returned (RemoveRequest w) a)"
      using offered [of ?s "RemoveRequest w"] assms(1) by auto
    then show ?thesis
      using Closing assms(2) by (intro exI [of _ "[CloseDone i, Accept i None, Answer i]"] exI [of _ s']) auto
  next
    case (Offering r)
    then obtain s' a where "tracker_run [Accept i None, Answer i] s = Some s'" "ts_calls s' i = Some (Returned r a)"
      using offered [of s r] assms(1,2) by auto
    then show ?thesis by (intro exI [of _ "[Accept i None, Answer i]"] exI [of _ s']) auto
  qed (use assms(3,4) in auto)
qed

text \<open>The goroutine gets back to its \<^verbatim>\<open>select\<close>, with a receiver of its event when it is sending one.\<close>

lemma back_to_select:
  assumes run: "tracker_run ls started_tracker = Some s" and live: "ts_loop s \<noteq> LoopEnded"
  shows "\<exists>ls1 s1. tracker_run ls1 s = Some s1 \<and> ts_loop s1 = Selecting \<and>
     (Received \<in> set ls1 \<longrightarrow> (\<exists>c d. ts_loop s = Sending c d \<and> d \<notin> set (it_closed (ts_tracker s)))) \<and>
     (\<forall>j. ts_calls s1 j = ts_calls s j \<or> (\<exists>r a. ts_calls s1 j = Some (Returned r a)))"
proof (cases "ts_loop s")
  case Selecting
  then show ?thesis by (intro exI [of _ "[]"] exI [of _ s]) simp
next
  case (Answering err)
  then obtain j r where "ts_calls s j = Some (Awaiting r)"
    using tracker_run_inv [OF started_inv run] by (auto simp: tracker_inv_def is_awaiting_def)
  then show ?thesis
    using Answering
    by (intro exI [of _ "[Answer j]"] exI [of _ "s\<lparr>ts_loop := Selecting, ts_calls := (ts_calls s)(j \<mapsto> Returned r err)\<rparr>"]) simp
next
  case (Sending c d)
  then have "c \<notin> set (it_closed (ts_tracker s))" using sending_open [OF run] by simp
  then show ?thesis
    using Sending
    by (intro exI [of _ "[if d \<in> set (it_closed (ts_tracker s)) then GaveUp else Received]"]
        exI [of _ "s\<lparr>ts_loop := Selecting\<rparr>"]) simp
qed (use live in simp)



section \<open>A watch that failed\<close>

lemma blocked_step:
  assumes "tracker_step l s = Some s'" and "ts_loop s = Sending c d" and "d \<notin> set (it_closed (ts_tracker s))"
    and "l \<noteq> Received" and "\<And>j. l \<noteq> CloseDone j"
  shows "ts_loop s' = Sending c d \<and> ts_tracker s' = ts_tracker s \<and>
     (\<forall>j q. ts_calls s j = Some q \<longrightarrow> ts_calls s' j = Some q)"
  using assms by (cases l) (auto split: if_splits option.splits)

lemma blocked_run:
  assumes "tracker_run ls s = Some s'" and "ts_loop s = Sending c d" and "d \<notin> set (it_closed (ts_tracker s))"
    and "Received \<notin> set ls" and "\<And>j. CloseDone j \<notin> set ls"
  shows "ts_loop s' = Sending c d \<and> (\<forall>j q. ts_calls s j = Some q \<longrightarrow> ts_calls s' j = Some q)"
  using assms
proof (induction ls arbitrary: s)
  case (Cons l ls)
  obtain s1 where s1: "tracker_step l s = Some s1" "tracker_run ls s1 = Some s'"
    using Cons.prems(1) by (auto split: option.splits)
  have "ts_loop s1 = Sending c d \<and> ts_tracker s1 = ts_tracker s \<and> (\<forall>j q. ts_calls s j = Some q \<longrightarrow> ts_calls s1 j = Some q)"
    using blocked_step [OF s1(1) Cons.prems(2,3)] Cons.prems(4,5) by (metis list.set_intros(1))
  then show ?case using Cons.IH [OF s1(2)] Cons.prems(3-5) by auto
qed simp

text \<open>A watch that \<^verbatim>\<open>fsnotify\<close> refuses leaves both channels of the file behind.\<close>

lemma failed_addWatch:
  assumes "watchNum t (watch_target w) = 0"
  shows "\<exists>t' c d. addWatch (\<lambda>_. Some e) w t = (Some e, t') \<and> it_chans t' (wi_fname w) = Some c \<and> it_done t' (wi_fname w) = Some d"
  using assms
  by (cases "it_chans t (wi_fname w)"; cases "it_done t (wi_fname w)")
     (auto simp: addWatch_def Let_def make_chan_def make_done_def watchNum_def)

text \<open>
  C21. A watch that fails can stop the tracker of the whole process. When \<^verbatim>\<open>fsnotify\<close> refuses to watch a file,
  the caller gets the error, but the channels of the file stay in the maps without a reader; an event for the file
  (the directory may be watched for another one) is then offered on them, and until somebody takes it or
  removes a watch, nothing is accepted any more: the requests of all other callers stay unanswered.
\<close>

theorem failed_watch_blocks:
  assumes run: "tracker_run ls started_tracker = Some s" and sel: "ts_loop s = Selecting"
    and call: "ts_calls s i = Some (Offering (AddRequest (clean_info 0 fname)))"
    and free: "watchNum (ts_tracker s) (filepath_Clean fname) = 0"
    and event: "filepath_Clean (ev_Name ev) = filepath_Clean fname"
    and after: "tracker_run ([Accept i (Some e), Answer i, FsEvent ev] @ ls') s = Some s'"
    and quiet: "Received \<notin> set ls'" "\<And>j. CloseDone j \<notin> set ls'"
  shows "ts_calls s' i = Some (Returned (AddRequest (clean_info 0 fname)) (Some e)) \<and>
     (\<exists>c d. ts_loop s' = Sending c d) \<and>
     (\<forall>j r. j \<noteq> i \<longrightarrow> ts_calls s j = Some (Offering r) \<longrightarrow> ts_calls s' j = Some (Offering r))"
proof -
  let ?w = "clean_info 0 fname"
  have w: "watch_target ?w = filepath_Clean fname" "wi_fname ?w = filepath_Clean fname"
    by (simp_all add: clean_info_def watch_target_def isCreate_def)
  obtain t c d where t: "addWatch (\<lambda>_. Some e) ?w (ts_tracker s) = (Some e, t)"
    "it_chans t (filepath_Clean fname) = Some c" "it_done t (filepath_Clean fname) = Some d"
    using failed_addWatch [of "ts_tracker s" ?w e] free w by auto
  let ?s1 = "s\<lparr>ts_tracker := t, ts_loop := Sending c d, ts_log := Handled i (AddRequest ?w) (Some e) # ts_log s,
    ts_calls := (ts_calls s)(i \<mapsto> Returned (AddRequest ?w) (Some e))\<rparr>"
  have run1: "tracker_run [Accept i (Some e), Answer i, FsEvent ev] s = Some ?s1"
    using sel call t event by (simp add: sendEvent_def)
  then have "tracker_run ls' ?s1 = Some s'" using after by (simp only: tracker_run_append option.case)
  moreover have "chans_inv t"
    using sending_run [OF run started_sending] handle_chans [of "Some e" "AddRequest ?w" "ts_tracker s"] t(1)
    by (simp add: sending_inv_def)
  then have "d \<notin> set (it_closed t)" using t(3) by (auto simp: chans_inv_def)
  ultimately show ?thesis using blocked_run [of ls' ?s1 s' c d] quiet by auto
qed

text \<open>One tail waits for \<^verbatim>\<open>/d/g\<close>; the file of the second is gone when it is to be watched; the third never gets through.\<close>

theorem failed_watch_blocks_witness:
  "\<exists>s s'. tracker_run [CallWatch 1 Op_Create ''/d/g'', Accept 1 None, Answer 1, CallWatch 2 0 ''/d/f'', CallWatch 3 0 ''/d/h'']
      started_tracker = Some s \<and>
     tracker_run ([Accept 2 (Some ErrDying), Answer 2, FsEvent \<lparr>ev_Name = ''/d/f'', ev_Op = Op_Write\<rparr>] @ []) s = Some s' \<and>
     ts_calls s' 3 = Some (Offering (AddRequest (clean_info 0 ''/d/h'')))"
proof -
  let ?ls = "[CallWatch 1 Op_Create ''/d/g'', Accept 1 None, Answer 1, CallWatch 2 0 ''/d/f'', CallWatch 3 0 ''/d/h'']"
  let ?ev = "\<lparr>ev_Name = ''/d/f'', ev_Op = Op_Write\<rparr>"
  have "case tracker_run ?ls started_tracker of None \<Rightarrow> False | Some s \<Rightarrow>
      ts_loop s = Selecting \<and> ts_calls s 2 = Some (Offering (AddRequest (clean_info 0 ''/d/f''))) \<and>
      ts_calls s 3 = Some (Offering (AddRequest (clean_info 0 ''/d/h''))) \<and>
      watchNum (ts_tracker s) (filepath_Clean ''/d/f'') = 0 \<and>
      tracker_run ([Accept 2 (Some ErrDying), Answer 2, FsEvent ?ev] @ []) s \<noteq> None"
    by code_simp
  then obtain s s' where run: "tracker_run ?ls started_tracker = Some s" and loop: "ts_loop s = Selecting"
    and two: "ts_calls s 2 = Some (Offering (AddRequest (clean_info 0 ''/d/f'')))"
    and three: "ts_calls s 3 = Some (Offering (AddRequest (clean_info 0 ''/d/h'')))"
    and free: "watchNum (ts_tracker s) (filepath_Clean ''/d/f'') = 0"
    and after: "tracker_run ([Accept 2 (Some ErrDying), Answer 2, FsEvent ?ev] @ []) s = Some s'"
    by (auto split: option.splits)
  have "ts_calls s' 3 = Some (Offering (AddRequest (clean_info 0 ''/d/h'')))"
    using failed_watch_blocks [OF run loop two free _ after] three by simp
  then show ?thesis using run after by blast
qed

end
