(* ===== verification/LeakyBucket.thy ===== *)
theory LeakyBucket
  imports Complex_Main GoTime
begin

text \<open>
  The rate limiter of the tailing library (\<^verbatim>\<open>pkg/tail/ratelimiter\<close>): a leaky bucket and the store
  of buckets in memory. The fill is a \<^verbatim>\<open>float64\<close>: a rational, an infinity or not a number; the
  result of an operation is the exact one, rounded. Rounding is a parameter \<open>fl\<close>; that it
  is monotone and keeps integers of up to 53 bits is what IEEE 754 says of it.
\<close>

section \<open>Floating point numbers\<close>

datatype float64 = Fin rat | PInf | NInf | NaN

definition of_int64 :: "(rat \<Rightarrow> rat) \<Rightarrow> int \<Rightarrow> float64" where
  "of_int64 fl n = Fin (fl (of_int n))"

fun fneg :: "float64 \<Rightarrow> float64" where
  "fneg (Fin x) = Fin (- x)"
| "fneg PInf = NInf"
| "fneg NInf = PInf"
| "fneg NaN = NaN"

fun fadd :: "(rat \<Rightarrow> rat) \<Rightarrow> float64 \<Rightarrow> float64 \<Rightarrow> float64" where
  "fadd fl (Fin x) (Fin y) = Fin (fl (x + y))"
| "fadd fl NaN y = NaN"
| "fadd fl x NaN = NaN"
| "fadd fl PInf NInf = NaN"
| "fadd fl NInf PInf = NaN"
| "fadd fl PInf y = PInf"
| "fadd fl NInf y = NInf"
| "fadd fl x PInf = PInf"
| "fadd fl x NInf = NInf"

definition fsub :: "(rat \<Rightarrow> rat) \<Rightarrow> float64 \<Rightarrow> float64 \<Rightarrow> float64" where
  "fsub fl x y = fadd fl x (fneg y)"

definition infinity_of :: "rat \<Rightarrow> float64" where
  "infinity_of x = (if x > 0 then PInf else if x < 0 then NInf else NaN)"

text \<open>Division of the numbers the code divides, which come from integers and are finite.\<close>

fun fdiv :: "(rat \<Rightarrow> rat) \<Rightarrow> float64 \<Rightarrow> float64 \<Rightarrow> float64" where
  "fdiv fl (Fin x) (Fin y) = (if y = 0 then infinity_of x else Fin (fl (x / y)))"
| "fdiv fl _ _ = NaN"

text \<open>Multiplication by a finite number.\<close>

fun fmul :: "(rat \<Rightarrow> rat) \<Rightarrow> float64 \<Rightarrow> float64 \<Rightarrow> float64" where
  "fmul fl (Fin x) (Fin y) = Fin (fl (x * y))"
| "fmul fl PInf (Fin y) = infinity_of y"
| "fmul fl NInf (Fin y) = infinity_of (- y)"
| "fmul fl _ _ = NaN"

fun fless :: "float64 \<Rightarrow> float64 \<Rightarrow> bool" where
  "fless (Fin x) (Fin y) \<longleftrightarrow> x < y"
| "fless NaN _ \<longleftrightarrow> False"
| "fless _ NaN \<longleftrightarrow> False"
| "fless x y \<longleftrightarrow> x \<noteq> y \<and> (x = NInf \<or> y = PInf)"

text \<open>
  \<^verbatim>\<open>time.Duration(f)\<close> truncates; what is out of range gives the smallest integer, as the
  conversion instruction of amd64 does (the language leaves it open).
\<close>

fun duration_of_float :: "float64 \<Rightarrow> duration" where
  "duration_of_float (Fin x) =
     (let n = (if x < 0 then \<lceil>x\<rceil> else \<lfloor>x\<rfloor>) in
      if in_int64 n then word_of_int n else word_of_int (- (2 ^ 63)))"
| "duration_of_float _ = word_of_int (- (2 ^ 63))"

text \<open>\<^verbatim>\<open>Time.Sub\<close> saturates; \<^verbatim>\<open>Time.Unix\<close> counts whole seconds.\<close>

definition Sub :: "go_time \<Rightarrow> go_time \<Rightarrow> duration" where
  "Sub a b = word_of_int (max (- (2 ^ 63)) (min (2 ^ 63 - 1) (a - b)))"

definition Unix :: "go_time \<Rightarrow> int" where
  "Unix t = t div 1000000000"

section \<open>The bucket\<close>

type_synonym uint16 = "16 word"

record LeakyBucket =
  lb_Size :: uint16
  lb_Fill :: float64
  lb_LeakInterval :: duration
  lb_Lastupdate :: go_time

definition NewLeakyBucket :: "go_time \<Rightarrow> uint16 \<Rightarrow> duration \<Rightarrow> LeakyBucket" where
  "NewLeakyBucket now sz leakInterval =
     \<lparr>lb_Size = sz, lb_Fill = Fin 0, lb_LeakInterval = leakInterval, lb_Lastupdate = now\<rparr>"

text \<open>The clock \<^verbatim>\<open>Now\<close> of the bucket is read once by each operation; \<open>now\<close> is its answer.\<close>

definition updateFill :: "(rat \<Rightarrow> rat) \<Rightarrow> go_time \<Rightarrow> LeakyBucket \<Rightarrow> LeakyBucket" where
  "updateFill fl now b =
     (let fill =
        (if fless (Fin 0) (lb_Fill b) then
           (let elapsed = Sub now (lb_Lastupdate b);
                f = fsub fl (lb_Fill b)
                      (fdiv fl (of_int64 fl (sint elapsed)) (of_int64 fl (sint (lb_LeakInterval b))))
            in if fless f (Fin 0) then Fin 0 else f)
         else lb_Fill b)
      in b\<lparr>lb_Fill := fill, lb_Lastupdate := now\<rparr>)"

definition Pour :: "(rat \<Rightarrow> rat) \<Rightarrow> go_time \<Rightarrow> uint16 \<Rightarrow> LeakyBucket \<Rightarrow> bool \<times> LeakyBucket" where
  "Pour fl now amount b0 =
     (let b = updateFill fl now b0;
          newfill = fadd fl (lb_Fill b) (of_int64 fl (uint amount))
      in if fless (of_int64 fl (uint (lb_Size b))) newfill then (False, b)
         else (True, b\<lparr>lb_Fill := newfill\<rparr>))"

definition DrainedAt :: "(rat \<Rightarrow> rat) \<Rightarrow> LeakyBucket \<Rightarrow> go_time" where
  "DrainedAt fl b =
     lb_Lastupdate b + sint (duration_of_float (fmul fl (lb_Fill b) (of_int64 fl (sint (lb_LeakInterval b)))))"

definition TimeToDrain :: "(rat \<Rightarrow> rat) \<Rightarrow> go_time \<Rightarrow> LeakyBucket \<Rightarrow> duration" where
  "TimeToDrain fl now b = Sub (DrainedAt fl b) now"

definition TimeSinceLastUpdate :: "go_time \<Rightarrow> LeakyBucket \<Rightarrow> duration" where
  "TimeSinceLastUpdate now b = Sub now (lb_Lastupdate b)"

text \<open>The serialised bucket has no clock; the clock is not part of the model's bucket either.\<close>

record LeakyBucketSer =
  ls_Size :: uint16
  ls_Fill :: float64
  ls_LeakInterval :: duration
  ls_Lastupdate :: go_time

definition Serialise :: "LeakyBucket \<Rightarrow> LeakyBucketSer" where
  "Serialise b = \<lparr>ls_Size = lb_Size b, ls_Fill = lb_Fill b, ls_LeakInterval = lb_LeakInterval b,
     ls_Lastupdate = lb_Lastupdate b\<rparr>"

definition DeSerialise :: "LeakyBucketSer \<Rightarrow> LeakyBucket" where
  "DeSerialise s = \<lparr>lb_Size = ls_Size s, lb_Fill = ls_Fill s, lb_LeakInterval = ls_LeakInterval s,
     lb_Lastupdate = ls_Lastupdate s\<rparr>"

section \<open>The store\<close>

abbreviation GC_SIZE :: nat where "GC_SIZE \<equiv> 100"
abbreviation GC_PERIOD :: int where "GC_PERIOD \<equiv> 60 * 1000000000"

record Memory =
  me_store :: "(string \<times> LeakyBucket) list"
  me_lastGCCollected :: go_time

text \<open>The Go map is an association list without duplicate keys, so that its size can be computed.\<close>

definition NewMemory :: "go_time \<Rightarrow> Memory" where
  "NewMemory now = \<lparr>me_store = [], me_lastGCCollected = now\<rparr>"

definition GetBucketFor :: "string \<Rightarrow> Memory \<Rightarrow> LeakyBucket result" where
  "GetBucketFor key m =
     (case map_of (me_store m) key of None \<Rightarrow> Inl (ErrorString ''miss'') | Some b \<Rightarrow> Inr b)"

definition GarbageCollect :: "(rat \<Rightarrow> rat) \<Rightarrow> go_time \<Rightarrow> Memory \<Rightarrow> Memory" where
  "GarbageCollect fl now m =
     (if Unix now \<ge> Unix (me_lastGCCollected m + GC_PERIOD)
      then \<lparr>me_store = filter (\<lambda>(k, b). \<not> Unix (DrainedAt fl b) < Unix now) (me_store m),
            me_lastGCCollected = now\<rparr>
      else m)"

definition SetBucketFor :: "(rat \<Rightarrow> rat) \<Rightarrow> go_time \<Rightarrow> string \<Rightarrow> LeakyBucket \<Rightarrow> Memory \<Rightarrow> Memory" where
  "SetBucketFor fl now key bucket m0 =
     (let m = (if length (me_store m0) > GC_SIZE then GarbageCollect fl now m0 else m0)
      in m\<lparr>me_store := (key, bucket) # filter (\<lambda>(k, b). k \<noteq> key) (me_store m)\<rparr>)"

section \<open>Properties\<close>

declare of_int_sint [simp del] of_int_uint [simp del]

text \<open>What IEEE 754 promises of rounding.\<close>

definition float_rounding :: "(rat \<Rightarrow> rat) \<Rightarrow> bool" where
  "float_rounding fl \<longleftrightarrow> mono fl \<and> (\<forall>n. \<bar>n\<bar> \<le> 2 ^ 53 \<longrightarrow> fl (of_int n) = of_int n)"

lemma round_exact: "float_rounding fl \<Longrightarrow> \<bar>n\<bar> \<le> 2 ^ 53 \<Longrightarrow> fl (of_int n) = of_int n"
  by (simp add: float_rounding_def)

lemma round_bounds:
  assumes "float_rounding fl" and "of_int m \<le> x" and "x \<le> of_int n"
    and "\<bar>m\<bar> \<le> 2 ^ 53" and "\<bar>n\<bar> \<le> 2 ^ 53"
  shows "of_int m \<le> fl x" and "fl x \<le> of_int n"
proof -
  have "fl (of_int m) \<le> fl x" "fl x \<le> fl (of_int n)"
    using assms by (auto simp: float_rounding_def dest: monoD)
  then show "of_int m \<le> fl x" and "fl x \<le> of_int n"
    using assms round_exact by metis+
qed

lemma round_nonneg: "float_rounding fl \<Longrightarrow> 0 \<le> x \<Longrightarrow> 0 \<le> fl x"
proof -
  assume fl: "float_rounding fl" and "0 \<le> x"
  then have "fl 0 \<le> fl x" by (auto simp: float_rounding_def dest: monoD)
  then show "0 \<le> fl x" using round_exact [OF fl, of 0] by simp
qed

lemma uint16_bound: "uint (w :: uint16) < 2 ^ 16"
  using uint_lt2p [of w] by simp

text \<open>The fill is a number between nothing and the size.\<close>

definition bucket_ok :: "LeakyBucket \<Rightarrow> bool" where
  "bucket_ok b \<longleftrightarrow>
     (case lb_Fill b of Fin x \<Rightarrow> 0 \<le> x \<and> x \<le> of_int (uint (lb_Size b)) | _ \<Rightarrow> False)"

lemma NewLeakyBucket_ok: "bucket_ok (NewLeakyBucket now sz iv)"
  by (simp add: bucket_ok_def NewLeakyBucket_def)

lemma round_upper: "float_rounding fl \<Longrightarrow> x \<le> of_int n \<Longrightarrow> \<bar>n\<bar> \<le> 2 ^ 53 \<Longrightarrow> fl x \<le> of_int n"
  using round_exact [of fl n] by (auto simp: float_rounding_def dest: monoD)

lemma round_lower: "float_rounding fl \<Longrightarrow> of_int n \<le> x \<Longrightarrow> \<bar>n\<bar> \<le> 2 ^ 53 \<Longrightarrow> of_int n \<le> fl x"
  using round_exact [of fl n] by (auto simp: float_rounding_def dest: monoD)

lemma round_uint16 [simp]: "float_rounding fl \<Longrightarrow> fl (of_int (uint (w :: uint16))) = of_int (uint w)"
  using uint16_bound [of w] by (intro round_exact) auto

lemma Sub_nonneg: "b \<le> a \<Longrightarrow> 0 \<le> sint (Sub a b)"
proof -
  assume "b \<le> a"
  moreover have "in_int64 (max (- (2 ^ 63)) (min (2 ^ 63 - 1) (a - b)))" by (auto simp: in_int64_def)
  ultimately show ?thesis unfolding Sub_def by (subst sint_of_int64) auto
qed

lemma updateFill_ok:
  assumes fl: "float_rounding fl" and "bucket_ok b" and "0 < sint (lb_LeakInterval b)"
    and "lb_Lastupdate b \<le> now"
  shows "bucket_ok (updateFill fl now b)"
proof -
  obtain x where x: "lb_Fill b = Fin x" "0 \<le> x" "x \<le> of_int (uint (lb_Size b))"
    using assms(2) by (auto simp: bucket_ok_def split: float64.splits)
  let ?e = "of_int (sint (Sub now (lb_Lastupdate b))) :: rat"
  let ?i = "of_int (sint (lb_LeakInterval b)) :: rat"
  have "1 \<le> fl ?i" using round_lower [OF fl, of 1 ?i] assms(3) by simp
  moreover have "0 \<le> fl ?e" using round_lower [OF fl, of 0 ?e] Sub_nonneg [OF assms(4)] by simp
  ultimately have "0 \<le> fl (fl ?e / fl ?i)"
    using round_lower [OF fl, of 0 "fl ?e / fl ?i"] by simp
  then have "fl (x - fl (fl ?e / fl ?i)) \<le> of_int (uint (lb_Size b))"
    using x uint16_bound [of "lb_Size b"] by (intro round_upper [OF fl]) auto
  with x \<open>1 \<le> fl ?i\<close> show ?thesis
    by (auto simp: bucket_ok_def updateFill_def Let_def of_int64_def fsub_def)
qed

text \<open>
  The bucket never overflows: pouring keeps the fill a number between zero and the size, whatever
  the amount and however rounding goes, as long as the clock does not run backwards.
\<close>

theorem Pour_invariant:
  assumes "float_rounding fl" and "bucket_ok b" and "0 < sint (lb_LeakInterval b)"
    and "lb_Lastupdate b \<le> now"
  shows "bucket_ok (snd (Pour fl now amount b))"
proof -
  let ?b = "updateFill fl now b"
  have "bucket_ok ?b" by (rule updateFill_ok [OF assms])
  then obtain x where x: "lb_Fill ?b = Fin x" "0 \<le> x" by (auto simp: bucket_ok_def split: float64.splits)
  then have "0 \<le> fl (x + of_int (uint amount))"
    using round_lower [OF assms(1), of 0 "x + of_int (uint amount)"] by simp
  with x \<open>bucket_ok ?b\<close> show ?thesis
    using assms(1) by (auto simp: Pour_def Let_def of_int64_def bucket_ok_def)
qed

text \<open>A burst: amounts poured one after the other at one instant; the answers.\<close>

fun burst :: "(rat \<Rightarrow> rat) \<Rightarrow> go_time \<Rightarrow> uint16 list \<Rightarrow> LeakyBucket \<Rightarrow> bool list" where
  "burst fl now [] b = []"
| "burst fl now (a # as) b = (case Pour fl now a b of (ok, b') \<Rightarrow> ok # burst fl now as b')"

text \<open>What a burst should do: accept an amount exactly when it still fits.\<close>

fun burst_spec :: "int \<Rightarrow> int \<Rightarrow> uint16 list \<Rightarrow> bool list" where
  "burst_spec sz used [] = []"
| "burst_spec sz used (a # as) =
     (if used + uint a \<le> sz then True # burst_spec sz (used + uint a) as
      else False # burst_spec sz used as)"

lemma Sub_self [simp]: "Sub t t = 0"
  by (simp add: Sub_def)

lemma Pour_instant:
  assumes "float_rounding fl" and "lb_Fill b = Fin (of_int used)" and "0 \<le> used"
    and "used \<le> uint (lb_Size b)" and "0 < sint (lb_LeakInterval b)" and "lb_Lastupdate b = now"
  shows "Pour fl now a b =
    (if used + uint a \<le> uint (lb_Size b) then (True, b\<lparr>lb_Fill := Fin (of_int (used + uint a))\<rparr>)
     else (False, b))"
proof -
  have sm: "used < 2 ^ 16" using assms(4) uint16_bound [of "lb_Size b"] by linarith
  have "1 \<le> fl (of_int (sint (lb_LeakInterval b)))"
    using round_lower [OF assms(1), of 1 "of_int (sint (lb_LeakInterval b))"] assms(5) by simp
  then have u: "updateFill fl now b = b"
    using assms sm round_exact [OF assms(1), of used] round_exact [OF assms(1), of 0]
    by (auto simp: updateFill_def Let_def of_int64_def fsub_def)
  have "fl (of_int used + of_int (uint a)) = of_int (used + uint a)"
    using round_exact [OF assms(1), of "used + uint a"] sm uint16_bound [of a] assms(3) by simp
  with u assms show ?thesis
    by (simp add: Pour_def Let_def of_int64_def not_le flip: of_int_add)
qed

lemma burst_eq:
  assumes "float_rounding fl" and "lb_Fill b = Fin (of_int used)" and "0 \<le> used"
    and "used \<le> uint (lb_Size b)" and "0 < sint (lb_LeakInterval b)" and "lb_Lastupdate b = now"
  shows "burst fl now as b = burst_spec (uint (lb_Size b)) used as"
  using assms(2-)
proof (induction as arbitrary: used b)
  case (Cons a as)
  show ?case
    using Cons.IH [of "b\<lparr>lb_Fill := Fin (of_int (used + uint a))\<rparr>" "used + uint a"]
      Cons.IH [of b used] Cons.prems Pour_instant [OF assms(1) Cons.prems, of a]
    by (auto simp: uint_nonnegative)
qed simp

text \<open>
  C40. A burst on a new bucket is answered as the arithmetic of integers says: an amount is accepted
  exactly when what was accepted before leaves room for it, and floating point loses nothing.
\<close>

theorem burst_limit:
  assumes "float_rounding fl" and "0 < sint iv"
  shows "burst fl now as (NewLeakyBucket now sz iv) = burst_spec (uint sz) 0 as"
  using burst_eq [OF assms(1), of "NewLeakyBucket now sz iv" 0 now as] assms(2)
  by (simp add: NewLeakyBucket_def)

declare of_int_sint [simp] of_int_uint [simp]

lemma id_rounding: "float_rounding id"
  by (simp add: float_rounding_def mono_def)

theorem burst_limit_witness:
  "burst id 5 [3, 4, 2, 1] (NewLeakyBucket 5 6 1000) = [True, False, True, True]"
proof -
  have "0 < sint (1000 :: duration)" by simp
  from burst_limit [OF id_rounding this, of 5 "[3, 4, 2, 1]" 6] show ?thesis by simp
qed

theorem Pour_invariant_witness:
  "bucket_ok (snd (Pour id 9 3 (NewLeakyBucket 5 6 1000)))"
  by (rule Pour_invariant [OF id_rounding NewLeakyBucket_ok]) (simp_all add: NewLeakyBucket_def)

text \<open>Storing and loading.\<close>

lemma DeSerialise_Serialise: "DeSerialise (Serialise b) = b"
  by (simp add: Serialise_def DeSerialise_def)

lemma map_of_filter_key: "map_of (filter (\<lambda>(k, b). k \<noteq> key) xs) k' = (if k' = key then None else map_of xs k')"
  by (induction xs) auto

lemma map_of_filter_distinct:
  "distinct (map fst xs) \<Longrightarrow>
    map_of (filter P xs) k = (case map_of xs k of None \<Rightarrow> None | Some b \<Rightarrow> if P (k, b) then Some b else None)"
proof (induction xs)
  case (Cons x xs)
  have "k \<notin> fst ` set xs \<Longrightarrow> map_of (filter P xs) k = None"
    by (auto simp: map_of_eq_None_iff)
  with Cons show ?case by (cases x) (auto split: option.splits simp: map_of_eq_None_iff)
qed simp

lemma SetBucketFor_distinct:
  "distinct (map fst (me_store m)) \<Longrightarrow> distinct (map fst (me_store (SetBucketFor fl now k b m)))"
  by (auto simp: SetBucketFor_def GarbageCollect_def Let_def distinct_map_filter)

text \<open>
  The store gives back the bucket stored last under a key; a bucket under another key is
  unchanged or, when the store is crowded, gone because it had drained.
\<close>

theorem GetBucketFor_SetBucketFor:
  assumes "distinct (map fst (me_store m))"
  shows "GetBucketFor k (SetBucketFor fl now key b m) =
    (if k = key then Inr b
     else case GetBucketFor k m of
       Inl e \<Rightarrow> Inl e
     | Inr b' \<Rightarrow>
         if length (me_store m) > GC_SIZE \<and> Unix now \<ge> Unix (me_lastGCCollected m + GC_PERIOD) \<and>
            Unix (DrainedAt fl b') < Unix now
         then Inl (ErrorString ''miss'') else Inr b')"
  using assms
  by (auto simp: GetBucketFor_def SetBucketFor_def GarbageCollect_def Let_def map_of_filter_key
      map_of_filter_distinct split: option.splits)

theorem GetBucketFor_SetBucketFor_witness:
  "GetBucketFor ''a'' (SetBucketFor id 0 ''a'' (NewLeakyBucket 0 6 1000) (NewMemory 0)) =
     Inr (NewLeakyBucket 0 6 1000)"
proof -
  have "distinct (map fst (me_store (NewMemory 0)))" by (simp add: NewMemory_def)
  from GetBucketFor_SetBucketFor [OF this] show ?thesis by simp
qed

end
