(* ===== verification/TailLib.thy ===== *)
theory TailLib
  imports TailWatch LeakyBucket TailReader
begin

text \<open>
  The file tailing library (\<^verbatim>\<open>pkg/tail/tail.go\<close>, \<^verbatim>\<open>pkg/tail/util/util.go\<close>): the loop that reads a file line
  by line and waits for changes at its end. An open file is an inode and a position; the buffered
  reader of \<^verbatim>\<open>bufio\<close> is its unread bytes. One round of the loop runs in an environment that says
  what the file system, the watcher and the tomb (the third-party package that stops goroutines)
  answer during the round; a run is a sequence of rounds. The lemmas show that a file that only
  grows is delivered line by line, nothing lost and nothing twice.
\<close>

section \<open>The buffered reader\<close>

abbreviation newline :: char where
  "newline \<equiv> CHR 0x0A"

record bufio =
  bf_buf :: string
  bf_pos :: nat

text \<open>
  \<^verbatim>\<open>ReadString('\n')\<close> with a buffer of \<open>cap\<close> bytes on a file with the given content: bytes up to the
  delimiter, or what is there and the end of the file. A full buffer is set aside, an empty one filled.
\<close>

function ReadString :: "nat \<Rightarrow> string \<Rightarrow> bufio \<Rightarrow> string \<Rightarrow> (string \<times> go_error option) \<times> bufio" where
  "ReadString cap content b acc =
     (if newline \<in> set (bf_buf b) then
        ((acc @ takeWhile (\<lambda>c. c \<noteq> newline) (bf_buf b) @ [newline], None),
         b\<lparr>bf_buf := tl (dropWhile (\<lambda>c. c \<noteq> newline) (bf_buf b))\<rparr>)
      else if cap \<le> length (bf_buf b) \<and> bf_buf b \<noteq> [] then
        ReadString cap content (b\<lparr>bf_buf := []\<rparr>) (acc @ bf_buf b)
      else
        (let chunk = take (cap - length (bf_buf b)) (drop (bf_pos b) content) in
         if chunk = [] then ((acc @ bf_buf b, Some EOF), b\<lparr>bf_buf := []\<rparr>)
         else ReadString cap content
                \<lparr>bf_buf = bf_buf b @ chunk, bf_pos = bf_pos b + length chunk\<rparr> acc))"
  by pat_completeness auto
termination
  by (relation "measures [\<lambda>(cap, content, b, acc). length content - bf_pos b, \<lambda>(cap, content, b, acc). length (bf_buf b)]")
     auto

declare ReadString.simps [simp del]

section \<open>Lines\<close>

definition TrimRight_newline :: "string \<Rightarrow> string" where
  "TrimRight_newline s = rev (dropWhile (\<lambda>c. c = newline) (rev s))"

text \<open>The loop of \<^verbatim>\<open>PartitionString\<close> from position \<open>start\<close>; the chunk size is positive.\<close>

function partition_from :: "string \<Rightarrow> nat \<Rightarrow> nat \<Rightarrow> string list" where
  "partition_from s n start =
     (let stop = min (start + n) (length s) in
      take (stop - start) (drop start s) #
        (if stop = length s \<or> n = 0 then [] else partition_from s n stop))"
  by pat_completeness auto
termination
  by (relation "measure (\<lambda>(s, n, start). length s - start)") auto

declare partition_from.simps [simp del]

definition PartitionString :: "string \<Rightarrow> nat \<Rightarrow> string list option" where
  "PartitionString s chunkSize = (if chunkSize = 0 then None else Some (partition_from s chunkSize 0))"

section \<open>Configuration and state\<close>

record tail_Config =
  tc_Location :: "(int \<times> nat) option"
  tc_ReOpen :: bool
  tc_MustExist :: bool
  tc_Pipe :: bool
  tc_RateLimiter :: "LeakyBucket option"
  tc_Follow :: bool
  tc_MaxLineSize :: nat

text \<open>
  The file that is open (its inode), the reader on it, whether changes are being watched, and the
  rate limiter of the configuration with its fill.
\<close>

record Tail =
  tl_file :: nat
  tl_reader :: bufio
  tl_changes :: bool
  tl_RateLimiter :: "LeakyBucket option"

definition buffer_size :: "tail_Config \<Rightarrow> nat" where
  "buffer_size cfg = (if tc_MaxLineSize cfg > 0 then max 16 (tc_MaxLineSize cfg + 2) else 4096)"

definition openReader :: "nat \<Rightarrow> Tail \<Rightarrow> Tail" where
  "openReader inode t = t\<lparr>tl_file := inode, tl_reader := \<lparr>bf_buf = [], bf_pos = 0\<rparr>\<rparr>"

section \<open>One round\<close>

datatype file_change = Modified | Deleted | TruncatedFile | DyingSignal

text \<open>
  An attempt to open the file: it succeeds, the file is missing and the watcher blocks until it
  exists or fails, or opening fails for another reason.
\<close>

datatype open_attempt = OpenedFile nat | MissingFile "go_error option" | OpenError go_error

definition ErrStop :: go_error where
  "ErrStop = Sentinel ''tail.ErrStop''"
definition errStopAtEOF :: go_error where
  "errStopAtEOF = Sentinel ''tail.errStopAtEOF''"

record tail_env =
  te_content :: "nat \<Rightarrow> string"
  te_attempts :: "open_attempt list"
  te_TellError :: "go_error option"
  te_ReadError :: "go_error option"
  te_SeekError :: "go_error option"
  te_PosError :: "go_error option"
  te_ChangeEventsError :: "go_error option"
  te_change :: file_change
  te_Now :: go_time
  te_rounding :: "rat \<Rightarrow> rat"
  te_CooloffDying :: bool
  te_Dying :: "go_error option"
  te_ErrorText :: "go_error \<Rightarrow> string"

text \<open>Opening the file again; \<^const>\<open>None\<close> when it is still waiting for the file.\<close>

fun tail_reopen :: "string \<Rightarrow> tail_env \<Rightarrow> open_attempt list \<Rightarrow> nat result option" where
  "tail_reopen name env [] = None"
| "tail_reopen name env (OpenedFile inode # r) = Some (Inr inode)"
| "tail_reopen name env (MissingFile None # r) = tail_reopen name env r"
| "tail_reopen name env (MissingFile (Some err) # r) =
     (if errors_Is err ErrDying then Some (Inl err)
      else Some (Inl (ErrorString (''Failed to detect creation of '' @ name @ '': '' @ te_ErrorText env err))))"
| "tail_reopen name env (OpenError err # r) =
     Some (Inl (ErrorString (''Unable to open file '' @ name @ '': '' @ te_ErrorText env err)))"

text \<open>\<^verbatim>\<open>Tell\<close>: the position of the file less what the reader has buffered.\<close>

definition Tell :: "tail_env \<Rightarrow> Tail \<Rightarrow> nat result" where
  "Tell env t =
     (case te_TellError env of
        Some err \<Rightarrow> Inl err
      | None \<Rightarrow> Inr (bf_pos (tl_reader t) - length (bf_buf (tl_reader t))))"

definition readLine :: "tail_Config \<Rightarrow> tail_env \<Rightarrow> Tail \<Rightarrow> (string \<times> go_error option) \<times> Tail" where
  "readLine cfg env t =
     (case te_ReadError env of
        Some err \<Rightarrow> (([], Some err), t)
      | None \<Rightarrow>
          (case ReadString (buffer_size cfg) (te_content env (tl_file t)) (tl_reader t) [] of
             ((line, Some err), b) \<Rightarrow> ((line, Some err), t\<lparr>tl_reader := b\<rparr>)
           | ((line, None), b) \<Rightarrow> ((TrimRight_newline line, None), t\<lparr>tl_reader := b\<rparr>)))"

text \<open>The lines sent for one line of the file, and whether the rate limit allows to go on.\<close>

definition sendLine :: "tail_Config \<Rightarrow> tail_env \<Rightarrow> string \<Rightarrow> Tail \<Rightarrow> (string list \<times> bool) \<times> Tail" where
  "sendLine cfg env line t =
     (let ls = (if tc_MaxLineSize cfg > 0 \<and> length line > tc_MaxLineSize cfg
                then (case PartitionString line (tc_MaxLineSize cfg) of None \<Rightarrow> [] | Some ls \<Rightarrow> ls)
                else [line])
      in case tl_RateLimiter t of
           None \<Rightarrow> ((ls, True), t)
         | Some bucket \<Rightarrow>
             (case Pour (te_rounding env) (te_Now env) (word_of_nat (length ls)) bucket of
                (ok, bucket') \<Rightarrow> ((ls, ok), t\<lparr>tl_RateLimiter := Some bucket'\<rparr>)))"

definition seekTo :: "string \<Rightarrow> tail_env \<Rightarrow> nat \<Rightarrow> Tail \<Rightarrow> Tail result" where
  "seekTo name env pos t =
     (case te_SeekError env of
        Some err \<Rightarrow> Inl (ErrorString (''Seek error on '' @ name @ '': '' @ te_ErrorText env err))
      | None \<Rightarrow> Inr (t\<lparr>tl_reader := \<lparr>bf_buf = [], bf_pos = pos\<rparr>\<rparr>))"

definition seekEnd :: "string \<Rightarrow> tail_env \<Rightarrow> Tail \<Rightarrow> Tail result" where
  "seekEnd name env t = seekTo name env (length (te_content env (tl_file t))) t"

definition reopen_reader :: "string \<Rightarrow> tail_env \<Rightarrow> Tail \<Rightarrow> Tail result option" where
  "reopen_reader name env t =
     (case tail_reopen name env (te_attempts env) of
        None \<Rightarrow> None
      | Some (Inl err) \<Rightarrow> Some (Inl err)
      | Some (Inr inode) \<Rightarrow> Some (Inr (openReader inode t)))"

definition waitForChanges :: "string \<Rightarrow> tail_Config \<Rightarrow> tail_env \<Rightarrow> Tail \<Rightarrow> Tail result option" where
  "waitForChanges name cfg env t0 =
     (case (if tl_changes t0 then None
           else case te_PosError env of Some err \<Rightarrow> Some err | None \<Rightarrow> te_ChangeEventsError env) of
        Some err \<Rightarrow> Some (Inl err)
      | None \<Rightarrow>
          (let t = t0\<lparr>tl_changes := True\<rparr> in
           case te_change env of
             Modified \<Rightarrow> Some (Inr t)
           | Deleted \<Rightarrow>
               (if tc_ReOpen cfg then reopen_reader name env (t\<lparr>tl_changes := False\<rparr>)
                else Some (Inl ErrStop))
           | TruncatedFile \<Rightarrow> reopen_reader name env t
           | DyingSignal \<Rightarrow> Some (Inl ErrStop)))"

text \<open>
  What a round ends with: the loop goes on, the goroutine returns (with the reason it kills the tomb
  with, if any), or it is still waiting for the file to appear.
\<close>

datatype round_end = Continue Tail | Return "go_error option" | Waiting

text \<open>The lines a round sends: the text and, for the notice of the rate limit, its error.\<close>

type_synonym tail_lines = "(string \<times> go_error option) list"

definition cooloff_message :: string where
  "cooloff_message = ''Too much log activity; waiting a second before resuming tailing''"

definition end_of_round :: "tail_env \<Rightarrow> Tail \<Rightarrow> round_end" where
  "end_of_round env t =
     (case te_Dying env of
        None \<Rightarrow> Continue t
      | Some reason \<Rightarrow> if reason = errStopAtEOF then Continue t else Return None)"

definition line_read :: "string \<Rightarrow> tail_Config \<Rightarrow> tail_env \<Rightarrow> string \<Rightarrow> Tail \<Rightarrow> tail_lines \<times> round_end" where
  "line_read name cfg env line t0 =
     (case sendLine cfg env line t0 of
        ((ls, ok), t) \<Rightarrow>
          (let sent = map (\<lambda>l. (l, None)) ls in
           if ok then (sent, end_of_round env t)
           else
             let sent' = sent @ [(cooloff_message, Some (ErrorString cooloff_message))] in
             if te_CooloffDying env then (sent', Return None)
             else
               case seekEnd name env t of
                 Inl err \<Rightarrow> (sent', Return (Some err))
               | Inr t' \<Rightarrow> (sent', end_of_round env t')))"

definition end_reached ::
    "string \<Rightarrow> tail_Config \<Rightarrow> tail_env \<Rightarrow> nat \<Rightarrow> string \<Rightarrow> Tail \<Rightarrow> tail_lines \<times> round_end" where
  "end_reached name cfg env offset line t =
     (if \<not> tc_Follow cfg then
        (if line \<noteq> [] then map (\<lambda>l. (l, None)) (fst (fst (sendLine cfg env line t))) else [], Return None)
      else
        case (if line \<noteq> [] then seekTo name env offset t else Inr t) of
          Inl err \<Rightarrow> ([], Return (Some err))
        | Inr t' \<Rightarrow>
            (case waitForChanges name cfg env t' of
               None \<Rightarrow> ([], Waiting)
             | Some (Inl err) \<Rightarrow> ([], Return (if err \<noteq> ErrStop then Some err else None))
             | Some (Inr t'') \<Rightarrow> ([], end_of_round env t'')))"

definition tail_round :: "string \<Rightarrow> tail_Config \<Rightarrow> tail_env \<Rightarrow> Tail \<Rightarrow> tail_lines \<times> round_end" where
  "tail_round name cfg env t =
     (case (if tc_Pipe cfg then Inr 0 else Tell env t) of
        Inl err \<Rightarrow> ([], Return (Some err))
      | Inr offset \<Rightarrow>
          (case readLine cfg env t of
             ((line, err), t') \<Rightarrow>
               (case err of
                  None \<Rightarrow> line_read name cfg env line t'
                | Some e \<Rightarrow>
                    if e = EOF then end_reached name cfg env offset line t'
                    else ([], Return (Some (ErrorString
                           (''Error reading '' @ name @ '': '' @ te_ErrorText env e)))))))"

section \<open>The run\<close>

fun tail_loop_run :: "string \<Rightarrow> tail_Config \<Rightarrow> tail_env list \<Rightarrow> Tail \<Rightarrow> tail_lines \<times> round_end" where
  "tail_loop_run name cfg [] t = ([], Continue t)"
| "tail_loop_run name cfg (env # envs) t =
     (case tail_round name cfg env t of
        (ls, Continue t') \<Rightarrow> (case tail_loop_run name cfg envs t' of (ls', e) \<Rightarrow> (ls @ ls', e))
      | (ls, Return k) \<Rightarrow> (ls, Return k)
      | (ls, Waiting) \<Rightarrow> (ls, Waiting))"

text \<open>
  \<^verbatim>\<open>tailFileSync\<close>: the first opening (unless the file had to exist and is open already, as \<open>opened\<close>),
  the seek to the configured location (the position the seek ends at, or its error), and the loop. The
  first environment answers for the opening.
\<close>

definition tailFileSync ::
    "string \<Rightarrow> tail_Config \<Rightarrow> nat option \<Rightarrow> nat result \<Rightarrow> tail_env \<Rightarrow> tail_env list \<Rightarrow> tail_lines \<times> round_end" where
  "tailFileSync name cfg opened seek env0 envs =
     (case (if tc_MustExist cfg then (case opened of None \<Rightarrow> None | Some i \<Rightarrow> Some (Inr i))
            else tail_reopen name env0 (te_attempts env0)) of
        None \<Rightarrow> ([], Waiting)
      | Some (Inl err) \<Rightarrow> ([], Return (if errors_Is err ErrDying then None else Some err))
      | Some (Inr inode) \<Rightarrow>
          (let t0 = openReader inode \<lparr>tl_file = inode, tl_reader = \<lparr>bf_buf = [], bf_pos = 0\<rparr>, tl_changes = False,
                 tl_RateLimiter = tc_RateLimiter cfg\<rparr> in
           case tc_Location cfg of
             None \<Rightarrow> tail_loop_run name cfg envs t0
           | Some loc \<Rightarrow>
               (case seek of
                  Inl err \<Rightarrow> ([], Return (Some (ErrorString (''Seek error on '' @ name @ '': '' @ te_ErrorText env0 err))))
                | Inr pos \<Rightarrow> tail_loop_run name cfg envs (t0\<lparr>tl_reader := \<lparr>bf_buf = [], bf_pos = pos\<rparr>\<rparr>))))"

text \<open>\<^verbatim>\<open>TailFile\<close>: the process exits for an impossible configuration (\<^const>\<open>None\<close>); the file may have to exist.\<close>

definition tail_TailFile :: "tail_Config \<Rightarrow> nat result \<Rightarrow> nat option result option" where
  "tail_TailFile cfg opened =
     (if tc_ReOpen cfg \<and> \<not> tc_Follow cfg then None
      else if tc_MustExist cfg then
        (case opened of Inl err \<Rightarrow> Some (Inl err) | Inr inode \<Rightarrow> Some (Inr (Some inode)))
      else Some (Inr None))"

section \<open>Splitting long lines\<close>

lemma partition_from_concat:
  "0 < n \<Longrightarrow> start \<le> length s \<Longrightarrow> concat (partition_from s n start) = drop start s"
proof (induction s n start rule: partition_from.induct)
  case (1 s n start)
  let ?e = "min (start + n) (length s)"
  show ?case
  proof (cases "?e = length s")
    case True
    then show ?thesis by (simp add: partition_from.simps [of s n start] Let_def)
  next
    case False
    then have e: "?e = start + n" by linarith
    then have "concat (partition_from s n (start + n)) = drop (start + n) s"
      using 1 False by simp
    then show ?thesis
      using False e "1.prems"(1)
      by (simp add: partition_from.simps [of s n start] Let_def)
         (metis add.commute append_take_drop_id drop_drop)
  qed
qed

lemma partition_from_bound: "p \<in> set (partition_from s n start) \<Longrightarrow> length p \<le> n"
proof (induction s n start rule: partition_from.induct)
  case (1 s n start)
  then show ?case
    by (subst (asm) partition_from.simps) (auto simp: Let_def split: if_splits)
qed

text \<open>
  A long line is sent in pieces: put together they are the line, none is longer than the limit.
\<close>

theorem PartitionString_pieces:
  assumes "PartitionString s n = Some ps"
  shows "concat ps = s \<and> (\<forall>p \<in> set ps. length p \<le> n)"
  using assms partition_from_concat [of n 0 s] partition_from_bound [of _ s n 0]
  by (auto simp: PartitionString_def split: if_splits)

theorem PartitionString_pieces_witness:
  "concat [''ab'', ''cd'', ''e''] = ''abcde'' \<and> (\<forall>p \<in> set [''ab'', ''cd'', ''e'']. length p \<le> 2)"
proof -
  have "PartitionString ''abcde'' 2 = Some [''ab'', ''cd'', ''e'']"
    by (simp add: PartitionString_def partition_from.simps)
  from PartitionString_pieces [OF this] show ?thesis .
qed

section \<open>Reading\<close>

text \<open>What is still to be read: the buffered bytes and the rest of the file.\<close>

definition unread :: "string \<Rightarrow> bufio \<Rightarrow> string" where
  "unread content b = bf_buf b @ drop (bf_pos b) content"

lemma while_free:
  "d \<notin> set x \<Longrightarrow> takeWhile (\<lambda>c. c \<noteq> d) (x @ y) = x @ takeWhile (\<lambda>c. c \<noteq> d) y"
  "d \<notin> set x \<Longrightarrow> dropWhile (\<lambda>c. c \<noteq> d) (x @ y) = dropWhile (\<lambda>c. c \<noteq> d) y"
  by (induction x) auto

lemma take_drop_length: "take n xs @ drop (length (take n xs)) xs = xs"
  by (cases "n \<le> length xs") auto

lemma ReadString_spec:
  assumes "0 < cap" and "bf_pos b \<le> length content"
    and "ReadString cap content b acc = ((line, err), b')"
  shows "bf_pos b' \<le> length content \<and>
    (if newline \<in> set (unread content b)
     then err = None \<and> line = acc @ takeWhile (\<lambda>c. c \<noteq> newline) (unread content b) @ [newline] \<and>
          unread content b' = tl (dropWhile (\<lambda>c. c \<noteq> newline) (unread content b))
     else err = Some EOF \<and> line = acc @ unread content b \<and> unread content b' = [])"
  using assms
proof (induction cap content b acc rule: ReadString.induct)
  case (1 cap content b acc)
  let ?chunk = "take (cap - length (bf_buf b)) (drop (bf_pos b) content)"
  consider (hit) "newline \<in> set (bf_buf b)"
    | (full) "newline \<notin> set (bf_buf b)" "cap \<le> length (bf_buf b)" "bf_buf b \<noteq> []"
    | (eof) "newline \<notin> set (bf_buf b)" "\<not> (cap \<le> length (bf_buf b) \<and> bf_buf b \<noteq> [])" "?chunk = []"
    | (fill) "newline \<notin> set (bf_buf b)" "\<not> (cap \<le> length (bf_buf b) \<and> bf_buf b \<noteq> [])" "?chunk \<noteq> []"
    by blast
  then show ?case
  proof cases
    case hit
    then show ?thesis
      using "1.prems"
      by (auto simp: ReadString.simps [of cap content b acc] unread_def takeWhile_append1 dropWhile_append1
          dropWhile_eq_Nil_conv)
  next
    case full
    then have "ReadString cap content (b\<lparr>bf_buf := []\<rparr>) (acc @ bf_buf b) = ((line, err), b')"
      using "1.prems"(3) by (simp add: ReadString.simps [of cap content b acc])
    from "1.IH"(1) [OF full(1) _ _ _ this] full "1.prems" show ?thesis
      by (auto simp: unread_def while_free)
  next
    case eof
    then have "drop (bf_pos b) content = []" using "1.prems"(1) by auto
    then show ?thesis
      using eof "1.prems" by (auto simp: ReadString.simps [of cap content b acc] unread_def Let_def)
  next
    case fill
    let ?b = "\<lparr>bf_buf = bf_buf b @ ?chunk, bf_pos = bf_pos b + length ?chunk\<rparr>"
    have r: "ReadString cap content ?b acc = ((line, err), b')"
      using "1.prems"(3) fill by (simp add: ReadString.simps [of cap content b acc] Let_def)
    have u: "unread content ?b = unread content b"
      using take_drop_length [of "cap - length (bf_buf b)" "drop (bf_pos b) content"]
      by (simp add: unread_def add.commute)
    have p: "bf_pos ?b \<le> length content" using "1.prems"(2) by simp
    from "1.IH"(2) [OF fill(1,2) refl fill(3) "1.prems"(1) p r] show ?thesis unfolding u .
  qed
qed

section \<open>Rounds on a file that only grows\<close>

text \<open>The reader stands at offset \<open>off\<close> of the content \<open>c\<close>; there is no rate limit.\<close>

definition synced :: "string \<Rightarrow> nat \<Rightarrow> Tail \<Rightarrow> bool" where
  "synced c off t \<longleftrightarrow>
     bf_pos (tl_reader t) \<le> length c \<and> off \<le> length c \<and> unread c (tl_reader t) = drop off c \<and>
     tl_RateLimiter t = None"

lemma synced_offset:
  assumes "synced c off t"
  shows "bf_pos (tl_reader t) - length (bf_buf (tl_reader t)) = off"
proof -
  have "length (bf_buf (tl_reader t)) + (length c - bf_pos (tl_reader t)) = length c - off"
    using assms by (metis synced_def unread_def length_append length_drop)
  moreover have "bf_pos (tl_reader t) \<le> length c" and "off \<le> length c"
    using assms by (simp_all add: synced_def)
  ultimately show ?thesis by arith
qed

lemma synced_grow: "synced c off t \<Longrightarrow> synced (c @ x) off t"
  by (simp add: synced_def unread_def)

lemma synced_start:
  "off \<le> length c \<Longrightarrow> tl_RateLimiter t = None \<Longrightarrow> synced c off (t\<lparr>tl_reader := \<lparr>bf_buf = [], bf_pos = off\<rparr>\<rparr>)"
  by (simp add: synced_def unread_def)

text \<open>The configuration of the agent's reader: following, no limits; and an environment without errors.\<close>

definition plain_follow :: "tail_Config \<Rightarrow> bool" where
  "plain_follow cfg \<longleftrightarrow> tc_Follow cfg \<and> \<not> tc_Pipe cfg \<and> tc_MaxLineSize cfg = 0"

definition quiet :: "tail_env \<Rightarrow> bool" where
  "quiet env \<longleftrightarrow> te_TellError env = None \<and> te_ReadError env = None \<and> te_SeekError env = None \<and>
     te_PosError env = None \<and> te_ChangeEventsError env = None \<and> te_change env \<in> {Modified, DyingSignal}"

lemma TrimRight_newline_line: "newline \<notin> set l \<Longrightarrow> TrimRight_newline (l @ [newline]) = l"
  by (cases l rule: rev_cases) (auto simp: TrimRight_newline_def)

lemma split_at_newline:
  "newline \<in> set u \<Longrightarrow>
    u = takeWhile (\<lambda>c. c \<noteq> newline) u @ newline # tl (dropWhile (\<lambda>c. c \<noteq> newline) u)"
  by (induction u) auto

lemma readLine_synced:
  assumes "plain_follow cfg" and "quiet env" and "te_content env (tl_file t) = c" and "synced c off t"
  obtains t' where "tl_file t' = tl_file t" and "tl_changes t' = tl_changes t"
    and "if newline \<in> set (drop off c)
      then readLine cfg env t = ((takeWhile (\<lambda>c. c \<noteq> newline) (drop off c), None), t') \<and>
        synced c (off + length (takeWhile (\<lambda>c. c \<noteq> newline) (drop off c)) + 1) t'
      else readLine cfg env t = ((drop off c, Some EOF), t') \<and> synced c (length c) t'"
proof -
  obtain line err b where r: "ReadString 4096 c (tl_reader t) [] = ((line, err), b)" by (metis surj_pair)
  let ?u = "drop off c" and ?t = "t\<lparr>tl_reader := b\<rparr>"
  let ?l = "takeWhile (\<lambda>c. c \<noteq> newline) ?u"
  have s: "bf_pos b \<le> length c"
    "if newline \<in> set ?u then err = None \<and> line = ?l @ [newline] \<and> unread c b = tl (dropWhile (\<lambda>c. c \<noteq> newline) ?u)
     else err = Some EOF \<and> line = ?u \<and> unread c b = []"
    using ReadString_spec [OF _ _ r] assms(4) by (auto simp: synced_def)
  have rl: "readLine cfg env t = (case err of Some e \<Rightarrow> ((line, Some e), ?t) | None \<Rightarrow> ((TrimRight_newline line, None), ?t))"
    using assms(1-3) r by (simp add: readLine_def plain_follow_def quiet_def buffer_size_def split: option.splits)
  show ?thesis
  proof (rule that [of ?t])
    show "if newline \<in> set ?u
      then readLine cfg env t = ((?l, None), ?t) \<and> synced c (off + length ?l + 1) ?t
      else readLine cfg env t = ((?u, Some EOF), ?t) \<and> synced c (length c) ?t"
    proof (cases "newline \<in> set ?u")
      case True
      have u: "?u = ?l @ newline # tl (dropWhile (\<lambda>c. c \<noteq> newline) ?u)" by (rule split_at_newline [OF True])
      have "unread c b = drop (Suc (length ?l)) ?u"
        using s(2) True by (subst u) simp
      moreover have "length ?u = length ?l + Suc (length (tl (dropWhile (\<lambda>c. c \<noteq> newline) ?u)))"
        by (subst u) simp
      moreover have "newline \<notin> set ?l" by (auto dest: set_takeWhileD)
      ultimately show ?thesis
        using True s rl assms(4)
        by (simp add: TrimRight_newline_line synced_def add.commute)
    next
      case False
      then show ?thesis using s rl assms(4) by (simp add: synced_def)
    qed
  qed simp_all
qed

lemma round_line:
  assumes "plain_follow cfg" and "quiet env" and "te_content env (tl_file t) = c" and "synced c off t"
    and "newline \<in> set (drop off c)"
  obtains t' where "tl_file t' = tl_file t"
    and "tail_round name cfg env t = ([(takeWhile (\<lambda>c. c \<noteq> newline) (drop off c), None)], end_of_round env t')"
    and "synced c (off + length (takeWhile (\<lambda>c. c \<noteq> newline) (drop off c)) + 1) t'"
proof -
  obtain t' where t': "tl_file t' = tl_file t"
    "readLine cfg env t = ((takeWhile (\<lambda>c. c \<noteq> newline) (drop off c), None), t')"
    "synced c (off + length (takeWhile (\<lambda>c. c \<noteq> newline) (drop off c)) + 1) t'"
    using readLine_synced [OF assms(1-4)] assms(5) by metis
  then have "tl_RateLimiter t' = None" by (simp add: synced_def)
  then show ?thesis
    using t' that [of t'] assms(1,2)
    by (simp add: tail_round_def Tell_def line_read_def sendLine_def Let_def plain_follow_def quiet_def)
qed

lemma round_at_end:
  assumes "plain_follow cfg" and "quiet env" and "te_content env (tl_file t) = c" and "synced c off t"
    and "newline \<notin> set (drop off c)"
  shows "(te_change env = DyingSignal \<longrightarrow> tail_round name cfg env t = ([], Return None)) \<and>
    (te_change env = Modified \<longrightarrow>
      (\<exists>t'. tl_file t' = tl_file t \<and> tail_round name cfg env t = ([], end_of_round env t') \<and> synced c off t'))"
proof -
  obtain t' where t': "tl_file t' = tl_file t" "readLine cfg env t = ((drop off c, Some EOF), t')"
    "synced c (length c) t'"
    using readLine_synced [OF assms(1-4)] assms(5) by metis
  define t2 where "t2 = (if drop off c \<noteq> [] then t'\<lparr>tl_reader := \<lparr>bf_buf = [], bf_pos = off\<rparr>\<rparr> else t')"
  have t2: "tl_file t2 = tl_file t" "synced c off t2"
    using t' assms(4) synced_start [of off c t'] by (auto simp: t2_def synced_def)
  have "tail_round name cfg env t =
      (case waitForChanges name cfg env t2 of
         None \<Rightarrow> ([], Waiting)
       | Some (Inl err) \<Rightarrow> ([], Return (if err \<noteq> ErrStop then Some err else None))
       | Some (Inr t'') \<Rightarrow> ([], end_of_round env t''))"
    using t'(2) assms(1,2) synced_offset [OF assms(4)]
    by (simp add: tail_round_def Tell_def end_reached_def seekTo_def plain_follow_def quiet_def t2_def)
  moreover have "waitForChanges name cfg env t2 =
      (if te_change env = Modified then Some (Inr (t2\<lparr>tl_changes := True\<rparr>)) else Some (Inl ErrStop))"
    using assms(2) by (auto simp: waitForChanges_def quiet_def Let_def)
  ultimately show ?thesis
    using t2 assms(2) exI [of _ "t2\<lparr>tl_changes := True\<rparr>"] by (auto simp: synced_def quiet_def)
qed

section \<open>Properties\<close>

text \<open>The text that lines stand for.\<close>

definition line_text :: "tail_lines \<Rightarrow> string" where
  "line_text ls = concat (map (\<lambda>l. fst l @ [newline]) ls)"

fun grows :: "nat \<Rightarrow> string \<Rightarrow> tail_env list \<Rightarrow> bool" where
  "grows i c [] = True"
| "grows i c (env # envs) \<longleftrightarrow> quiet env \<and> prefix c (te_content env i) \<and> grows i (te_content env i) envs"

fun final_content :: "nat \<Rightarrow> string \<Rightarrow> tail_env list \<Rightarrow> string" where
  "final_content i c [] = c"
| "final_content i c (env # envs) = final_content i (te_content env i) envs"

lemma grows_prefix: "grows i c envs \<Longrightarrow> prefix c (final_content i c envs)"
proof (induction envs arbitrary: c)
  case (Cons env envs)
  then show ?case using prefix_order.trans [of c "te_content env i"] by auto
qed simp

lemma delivers_prefix:
  assumes "plain_follow cfg" and "synced c off t" and "grows (tl_file t) c envs"
    and "tail_loop_run name cfg envs t = (ls, e)"
  shows "prefix (take off c @ line_text ls) (final_content (tl_file t) c envs) \<and> (\<forall>l \<in> set ls. snd l = None)"
  using assms(2-)
proof (induction envs arbitrary: c off t ls e)
  case Nil
  then show ?case by (auto simp: line_text_def intro: take_is_prefix)
next
  case (Cons env envs)
  let ?i = "tl_file t"
  define d where "d = te_content env ?i"
  have q: "quiet env" "prefix c d" "grows ?i d envs" using Cons.prems(2) by (auto simp: d_def)
  have sd: "synced d off t" using Cons.prems(1) q(2) synced_grow by (auto simp: prefix_def)
  have td: "take off d = take off c" using q(2) Cons.prems(1) by (auto simp: prefix_def synced_def)
  have fin: "prefix d (final_content ?i d envs)" using grows_prefix q(3) by blast
  show ?case
  proof (cases "newline \<in> set (drop off d)")
    case True
    let ?l = "takeWhile (\<lambda>c. c \<noteq> newline) (drop off d)"
    obtain t' where t': "tl_file t' = ?i"
      "tail_round name cfg env t = ([(?l, None)], end_of_round env t')" "synced d (off + length ?l + 1) t'"
      using round_line [OF assms(1) q(1) d_def [symmetric] sd True] by metis
    have "take (Suc (length ?l)) (drop off d) = ?l @ [newline]"
      by (subst split_at_newline [OF True]) simp
    then have tx: "take (off + length ?l + 1) d = take off d @ ?l @ [newline]"
      using take_add [of off "Suc (length ?l)" d] by simp
    show ?thesis
    proof (cases "end_of_round env t'")
      case (Continue t'')
      then have "t'' = t'" by (auto simp: end_of_round_def split: option.splits if_splits)
      obtain ls' e' where r: "tail_loop_run name cfg envs t' = (ls', e')" by (metis surj_pair)
      have "ls = (?l, None) # ls'" using Cons.prems(3) t'(2) Continue r \<open>t'' = t'\<close> by simp
      moreover have "prefix (take (off + length ?l + 1) d @ line_text ls') (final_content ?i d envs) \<and>
          (\<forall>l \<in> set ls'. snd l = None)"
        using Cons.IH [OF t'(3) _ r] t'(1) q(3) by simp
      ultimately show ?thesis using tx td by (simp add: line_text_def d_def)
    next
      case (Return k)
      then have "ls = [(?l, None)]" using Cons.prems(3) t'(2) by simp
      moreover have "prefix (take off d @ ?l @ [newline]) d" using tx take_is_prefix by metis
      ultimately show ?thesis using fin prefix_order.trans td by (auto simp: line_text_def d_def)
    qed (auto simp: end_of_round_def split: option.splits if_splits)
  next
    case False
    note at_end = round_at_end [OF assms(1) q(1) d_def [symmetric] sd False, of name]
    have pd: "prefix (take off d) (final_content ?i d envs)"
      using fin prefix_order.trans take_is_prefix by blast
    show ?thesis
    proof (cases "te_change env = Modified")
      case True
      then obtain t' where t': "tl_file t' = ?i" "tail_round name cfg env t = ([], end_of_round env t')"
        "synced d off t'" using at_end by blast
      show ?thesis
      proof (cases "end_of_round env t'")
        case (Continue t'')
        then have "t'' = t'" by (auto simp: end_of_round_def split: option.splits if_splits)
        then have "tail_loop_run name cfg envs t' = (ls, e)"
          using Cons.prems(3) t'(2) Continue by (auto split: prod.splits)
        then show ?thesis using Cons.IH [OF t'(3)] t'(1) q(3) td by (simp add: d_def)
      next
        case (Return k)
        then have "ls = []" using Cons.prems(3) t'(2) by simp
        then show ?thesis using pd td by (simp add: line_text_def d_def)
      qed (auto simp: end_of_round_def split: option.splits if_splits)
    next
      case False
      then have "ls = []" using at_end q(1) Cons.prems(3) by (auto simp: quiet_def)
      then show ?thesis using pd td by (simp add: line_text_def d_def)
    qed
  qed
qed

text \<open>
  C17. While the file only grows, every line that is sent is the next line of the file: the lines, each
  with its newline, are a prefix of what the file holds in the end, and none carries an error. Half a
  line is never sent, whatever is appended between the rounds.
\<close>

theorem tail_delivers_prefix:
  assumes "plain_follow cfg" and "synced c off t" and "grows (tl_file t) c envs"
    and "tail_loop_run name cfg envs t = (ls, e)"
  shows "prefix (take off c @ line_text ls) (final_content (tl_file t) c envs) \<and> (\<forall>l \<in> set ls. snd l = None)"
  using assms by (rule delivers_prefix)

lemma after_newline_shorter:
  "newline \<in> set u \<Longrightarrow> length (tl (dropWhile (\<lambda>c. c \<noteq> newline) u)) < length u"
  by (induction u) auto

function complete_lines :: "string \<Rightarrow> string list" where
  "complete_lines u =
     (if newline \<in> set u
      then takeWhile (\<lambda>c. c \<noteq> newline) u # complete_lines (tl (dropWhile (\<lambda>c. c \<noteq> newline) u))
      else [])"
  by pat_completeness auto

termination
  by (relation "measure length") (auto simp: after_newline_shorter simp del: length_tl)

declare complete_lines.simps [simp del]

lemma complete_lines_none: "newline \<notin> set u \<Longrightarrow> complete_lines u = []"
  by (simp add: complete_lines.simps)

lemma complete_lines_text:
  "u \<noteq> [] \<Longrightarrow> last u = newline \<Longrightarrow> concat (map (\<lambda>l. l @ [newline]) (complete_lines u)) = u"
proof (induction u rule: complete_lines.induct)
  case (1 u)
  let ?v = "tl (dropWhile (\<lambda>c. c \<noteq> newline) u)"
  have m: "newline \<in> set u" using "1.prems" last_in_set by metis
  note u = split_at_newline [OF m]
  have "?v \<noteq> [] \<Longrightarrow> last ?v = newline" using "1.prems"(2) by (subst (asm) u) simp
  then have "concat (map (\<lambda>l. l @ [newline]) (complete_lines ?v)) = ?v"
    using "1.IH" [OF m] by (cases "?v = []") (simp_all add: complete_lines_none)
  then show ?case using m u by (simp add: complete_lines.simps [of u])
qed

lemma count_newlines:
  "newline \<in> set u \<Longrightarrow>
    count_list u newline = Suc (count_list (tl (dropWhile (\<lambda>c. c \<noteq> newline) u)) newline)"
  by (induction u) auto

text \<open>A round while \<^verbatim>\<open>StopAtEOF\<close> is in force on a file that stays as it is.\<close>

definition stopping :: "nat \<Rightarrow> string \<Rightarrow> tail_env \<Rightarrow> bool" where
  "stopping i c env \<longleftrightarrow> quiet env \<and> te_content env i = c \<and> te_Dying env = Some errStopAtEOF \<and>
     te_change env = DyingSignal"

lemma stop_delivers_rest:
  assumes "plain_follow cfg" and "synced c off t" and "\<forall>env \<in> set envs. stopping (tl_file t) c env"
    and "count_list (drop off c) newline < length envs"
  shows "tail_loop_run name cfg envs t = (map (\<lambda>l. (l, None)) (complete_lines (drop off c)), Return None)"
  using assms(2-)
proof (induction envs arbitrary: off t)
  case (Cons env envs)
  have q: "quiet env" "te_content env (tl_file t) = c" "te_Dying env = Some errStopAtEOF" "te_change env = DyingSignal"
    using Cons.prems(2) by (auto simp: stopping_def)
  show ?case
  proof (cases "newline \<in> set (drop off c)")
    case True
    let ?l = "takeWhile (\<lambda>c. c \<noteq> newline) (drop off c)"
    obtain t' where t': "tl_file t' = tl_file t"
      "tail_round name cfg env t = ([(?l, None)], end_of_round env t')" "synced c (off + length ?l + 1) t'"
      using round_line [OF assms(1) q(1,2) Cons.prems(1) True] by metis
    have "end_of_round env t' = Continue t'" using q(3) by (simp add: end_of_round_def)
    moreover have "drop (Suc (length ?l)) (drop off c) = tl (dropWhile (\<lambda>c. c \<noteq> newline) (drop off c))"
      by (subst split_at_newline [OF True]) simp
    then have d: "drop (off + length ?l + 1) c = tl (dropWhile (\<lambda>c. c \<noteq> newline) (drop off c))"
      by (simp add: add.commute)
    moreover have "tail_loop_run name cfg envs t' =
        (map (\<lambda>l. (l, None)) (complete_lines (drop (off + length ?l + 1) c)), Return None)"
      using Cons.IH [OF t'(3)] Cons.prems(2,3) t'(1) d count_newlines [OF True] by simp
    ultimately show ?thesis
      using t'(2) True by (simp add: complete_lines.simps [of "drop off c"])
  next
    case False
    then show ?thesis
      using round_at_end [OF assms(1) q(1,2) Cons.prems(1) False, of name] q(4)
      by (simp add: complete_lines_none)
  qed
qed simp

text \<open>Rounds in which the file is written and nobody stops the tail.\<close>

lemma growing_run:
  assumes "plain_follow cfg" and "synced c off t" and "grows (tl_file t) c envs"
    and "\<forall>env \<in> set envs. te_Dying env = None \<and> te_change env = Modified"
  shows "\<exists>ls t' off'. tail_loop_run name cfg envs t = (ls, Continue t') \<and> tl_file t' = tl_file t \<and>
    synced (final_content (tl_file t) c envs) off' t' \<and> (\<forall>l \<in> set ls. snd l = None) \<and>
    take off' (final_content (tl_file t) c envs) = take off c @ line_text ls"
  using assms(2-)
proof (induction envs arbitrary: c off t)
  case Nil
  then show ?case by (intro exI [of _ "[]"] exI [of _ t] exI [of _ off]) (simp add: line_text_def)
next
  case (Cons env envs)
  let ?i = "tl_file t"
  define d where "d = te_content env ?i"
  have q: "quiet env" "prefix c d" "grows ?i d envs" using Cons.prems(2) by (auto simp: d_def)
  have sd: "synced d off t" using Cons.prems(1) q(2) synced_grow by (auto simp: prefix_def)
  have td: "take off d = take off c" using q(2) Cons.prems(1) by (auto simp: prefix_def synced_def)
  have go: "end_of_round env t' = Continue t'" for t' using Cons.prems(3) by (simp add: end_of_round_def)
  have rest: "\<forall>env \<in> set envs. te_Dying env = None \<and> te_change env = Modified" using Cons.prems(3) by simp
  show ?case
  proof (cases "newline \<in> set (drop off d)")
    case True
    let ?l = "takeWhile (\<lambda>c. c \<noteq> newline) (drop off d)"
    obtain t' where t': "tl_file t' = ?i"
      "tail_round name cfg env t = ([(?l, None)], end_of_round env t')" "synced d (off + length ?l + 1) t'"
      using round_line [OF assms(1) q(1) d_def [symmetric] sd True] by metis
    have "take (Suc (length ?l)) (drop off d) = ?l @ [newline]"
      by (subst split_at_newline [OF True]) simp
    then have tx: "take (off + length ?l + 1) d = take off c @ ?l @ [newline]"
      using take_add [of off "Suc (length ?l)" d] td by simp
    obtain ls u off' where u: "tail_loop_run name cfg envs t' = (ls, Continue u)" "tl_file u = tl_file t'"
      "synced (final_content ?i d envs) off' u" "\<forall>l \<in> set ls. snd l = None"
      "take off' (final_content ?i d envs) = take (off + length ?l + 1) d @ line_text ls"
      using Cons.IH [OF t'(3)] q(3) rest unfolding t'(1) by blast
    have "tail_loop_run name cfg (env # envs) t = ((?l, None) # ls, Continue u)"
      using t'(2) go u(1) by simp
    then show ?thesis
      using u tx t'(1) by (intro exI [of _ "(?l, None) # ls"] exI [of _ u] exI [of _ off'])
        (simp add: line_text_def d_def)
  next
    case False
    obtain t' where t': "tl_file t' = ?i" "tail_round name cfg env t = ([], end_of_round env t')" "synced d off t'"
      using round_at_end [OF assms(1) q(1) d_def [symmetric] sd False, of name] Cons.prems(3) by auto
    obtain ls u off' where u: "tail_loop_run name cfg envs t' = (ls, Continue u)" "tl_file u = tl_file t'"
      "synced (final_content ?i d envs) off' u" "\<forall>l \<in> set ls. snd l = None"
      "take off' (final_content ?i d envs) = take off d @ line_text ls"
      using Cons.IH [OF t'(3)] q(3) rest unfolding t'(1) by blast
    have "tail_loop_run name cfg (env # envs) t = (ls, Continue u)" using t'(2) go u(1) by simp
    then show ?thesis
      using u td t'(1) by (intro exI [of _ ls] exI [of _ u] exI [of _ off']) (simp add: d_def)
  qed
qed

lemma tail_loop_run_append:
  "tail_loop_run name cfg envs t = (ls, Continue t') \<Longrightarrow>
     tail_loop_run name cfg (envs @ envs') t =
       (case tail_loop_run name cfg envs' t' of (ls', e) \<Rightarrow> (ls @ ls', e))"
proof (induction envs arbitrary: t ls)
  case (Cons env envs)
  then show ?case by (auto split: prod.splits round_end.splits)
qed (auto split: prod.splits)

text \<open>The lines as the goroutine of the reader above receives them.\<close>

definition received :: "tail_lines \<Rightarrow> tail_line list" where
  "received ls = map (\<lambda>(l, err). case err of None \<Rightarrow> TextLine l | Some e \<Rightarrow> ErrLine e) ls @ [Closed]"

lemma readTail_lines:
  "\<not> tr_isClosed tr \<Longrightarrow>
    fold readTail (map TextLine ls) tr = tr\<lparr>tr_buff := tr_buff tr @ concat (map (\<lambda>l. l @ [newline]) ls)\<rparr>"
  by (induction ls arbitrary: tr) auto

text \<open>The configuration of \<^verbatim>\<open>NewReader\<close> in \<^verbatim>\<open>pkg/common/tail\<close>.\<close>

definition reader_config :: tail_Config where
  "reader_config = \<lparr>tc_Location = None, tc_ReOpen = True, tc_MustExist = False, tc_Pipe = False,
     tc_RateLimiter = None, tc_Follow = True, tc_MaxLineSize = 0\<rparr>"

lemma reader_config_simps [simp]:
  "plain_follow reader_config" "\<not> tc_MustExist reader_config" "tc_Location reader_config = None"
  "tc_RateLimiter reader_config = None"
  by (simp_all add: plain_follow_def reader_config_def)

lemma tail_reopen_waits:
  "tail_reopen name env (replicate k (MissingFile None) @ OpenedFile i # r) = Some (Inr i)"
  by (induction k) auto

text \<open>
  The lines of a complete run: the file appears after \<open>k\<close> waits, grows in the rounds \<open>g\<close>, and is then
  read to its end in the rounds \<open>es\<close>.
\<close>

lemma whole_file_lines:
  assumes "te_attempts env0 = replicate k (MissingFile None) @ OpenedFile i # r"
    and "grows i [] g" and "\<forall>env \<in> set g. te_Dying env = None \<and> te_change env = Modified"
    and "final_content i [] g = c" and "\<forall>env \<in> set es. stopping i c env"
    and "count_list c newline < length es" and "c = [] \<or> last c = newline"
  shows "\<exists>ls. tailFileSync name reader_config None seek env0 (g @ es) = (map (\<lambda>l. (l, None)) ls, Return None) \<and>
    concat (map (\<lambda>l. l @ [newline]) ls) = c"
proof -
  let ?t = "openReader i \<lparr>tl_file = i, tl_reader = \<lparr>bf_buf = [], bf_pos = 0\<rparr>, tl_changes = False, tl_RateLimiter = None\<rparr>"
  have "synced [] 0 ?t" "tl_file ?t = i" by (simp_all add: synced_def unread_def openReader_def)
  then obtain ls t' off where u: "tail_loop_run name reader_config g ?t = (ls, Continue t')" "tl_file t' = i"
    "synced c off t'" "\<forall>l \<in> set ls. snd l = None" "take off c = line_text ls"
    using growing_run [of reader_config "[]" 0 ?t g name] assms(2-4) by auto
  have "length (drop off c) \<le> length c" by simp
  have "count_list (drop off c) newline \<le> count_list c newline"
    using count_list_append [of "take off c" "drop off c" newline] by simp
  then have "tail_loop_run name reader_config es t' = (map (\<lambda>l. (l, None)) (complete_lines (drop off c)), Return None)"
    using stop_delivers_rest [OF _ u(3), of reader_config es name] u(2) assms(5,6) by simp
  then have "tail_loop_run name reader_config (g @ es) ?t =
      (ls @ map (\<lambda>l. (l, None)) (complete_lines (drop off c)), Return None)"
    using tail_loop_run_append [OF u(1), of es] by simp
  moreover have "ls = map (\<lambda>l. (l, None)) (map fst ls)"
    using u(4) by (induction ls) auto
  ultimately have "tail_loop_run name reader_config (g @ es) ?t =
      (map (\<lambda>l. (l, None)) (map fst ls @ complete_lines (drop off c)), Return None)"
    by simp
  moreover have "tailFileSync name reader_config None seek env0 (g @ es) = tail_loop_run name reader_config (g @ es) ?t"
    using assms(1) tail_reopen_waits by (simp add: tailFileSync_def Let_def)
  moreover have "concat (map (\<lambda>l. l @ [newline]) (complete_lines (drop off c))) = drop off c"
    using assms(7) complete_lines_text [of "drop off c"] by (cases "drop off c = []") (auto simp: complete_lines_none)
  then have "concat (map (\<lambda>l. l @ [newline]) (map fst ls @ complete_lines (drop off c))) = c"
    using u(5) [symmetric] by (simp add: line_text_def comp_def)
  ultimately show ?thesis by metis
qed

text \<open>
  The reader of the agent gets the whole file. The file may appear late (after \<open>k\<close> waits) and is
  written in any portions while it is tailed (the rounds \<open>g\<close>); when nothing is appended any more and the
  tail is told to stop at the end, its run ends without an error and the reader has every byte of
  the file in its buffer, once and in order, and is closed. Needed is one round per line and one more.
\<close>

theorem tailed_file_is_file:
  assumes "te_attempts env0 = replicate k (MissingFile None) @ OpenedFile i # r"
    and "grows i [] g" and "\<forall>env \<in> set g. te_Dying env = None \<and> te_change env = Modified"
    and "final_content i [] g = c" and "\<forall>env \<in> set es. stopping i c env"
    and "count_list c newline < length es" and "c = [] \<or> last c = newline"
    and "tailFileSync name reader_config None seek env0 (g @ es) = (ls, e)"
  shows "e = Return None \<and> fold readTail (received ls) new_reader = \<lparr>tr_isClosed = True, tr_buff = c\<rparr>"
proof -
  obtain ts where "ls = map (\<lambda>l. (l, None)) ts" "e = Return None" "concat (map (\<lambda>l. l @ [newline]) ts) = c"
    using whole_file_lines [OF assms(1-7), of name seek] assms(8) by auto
  then show ?thesis
    using readTail_lines [of new_reader ts] by (simp add: received_def comp_def new_reader_def)
qed

text \<open>Concrete runs.\<close>

definition still_env :: "string \<Rightarrow> file_change \<Rightarrow> go_error option \<Rightarrow> tail_env" where
  "still_env c ch dying = \<lparr>te_content = (\<lambda>_. c), te_attempts = [MissingFile None, OpenedFile 1], te_TellError = None, te_ReadError = None,
     te_SeekError = None, te_PosError = None, te_ChangeEventsError = None, te_change = ch, te_Now = 0,
     te_rounding = id, te_CooloffDying = False, te_Dying = dying, te_ErrorText = (\<lambda>_. [])\<rparr>"

definition two_lines :: string where
  "two_lines = ''a'' @ newline # ''bc'' @ [newline]"

theorem tailed_file_is_file_witness:
  "fold readTail (received (fst (tailFileSync ''f'' reader_config None (Inr 0)
      (still_env [] DyingSignal None)
      ([still_env ''a'' Modified None, still_env two_lines Modified None] @
       replicate 3 (still_env two_lines DyingSignal (Some errStopAtEOF)))))) new_reader =
    \<lparr>tr_isClosed = True, tr_buff = two_lines\<rparr>"
proof -
  let ?g = "[still_env ''a'' Modified None, still_env two_lines Modified None]"
  let ?es = "replicate 3 (still_env two_lines DyingSignal (Some errStopAtEOF))"
  obtain ls e where r: "tailFileSync ''f'' reader_config None (Inr 0) (still_env [] DyingSignal None) (?g @ ?es) = (ls, e)"
    by (metis surj_pair)
  have "te_attempts (still_env [] DyingSignal None) = replicate 1 (MissingFile None) @ OpenedFile 1 # []"
    "grows 1 [] ?g" "\<forall>env \<in> set ?g. te_Dying env = None \<and> te_change env = Modified"
    "final_content 1 [] ?g = two_lines" "\<forall>env \<in> set ?es. stopping 1 two_lines env"
    "count_list two_lines newline < length ?es" "two_lines = [] \<or> last two_lines = newline"
    by (simp_all add: stopping_def still_env_def quiet_def two_lines_def)
  from tailed_file_is_file [OF this r] show ?thesis unfolding r by simp
qed

theorem tail_delivers_prefix_witness:
  "prefix (line_text (fst (tail_loop_run ''f'' reader_config
      [still_env ''a'' Modified None, still_env two_lines Modified None]
      \<lparr>tl_file = 1, tl_reader = \<lparr>bf_buf = [], bf_pos = 0\<rparr>, tl_changes = False, tl_RateLimiter = None\<rparr>))) two_lines"
proof -
  let ?es = "[still_env ''a'' Modified None, still_env two_lines Modified None]"
  let ?t = "\<lparr>tl_file = 1, tl_reader = \<lparr>bf_buf = [], bf_pos = 0\<rparr>, tl_changes = False, tl_RateLimiter = None\<rparr>"
  obtain ls e where r: "tail_loop_run ''f'' reader_config ?es ?t = (ls, e)" by (metis surj_pair)
  have "plain_follow reader_config" "synced ''a'' 0 ?t" "grows (tl_file ?t) ''a'' ?es"
    by (simp_all add: synced_def unread_def still_env_def quiet_def two_lines_def)
  from tail_delivers_prefix [OF this r] show ?thesis
    unfolding r by (simp add: still_env_def)
qed

end
