(* ===== verification/GoFlag.thy ===== *)
theory GoFlag
  imports GoTime
begin

text \<open>
  Go's \<^verbatim>\<open>flag\<close> package as the commands use it: a command line is parsed against the table of its flags,
  the raw text of each flag that is set is kept once it has been accepted, and the values are read off it.
  The conversions of integers and durations are parameters.
\<close>

section \<open>Arguments\<close>

text \<open>
  An argument is no flag (parsing stops), the terminator \<^verbatim>\<open>--\<close>, or one or two minuses, a name, and a
  value after \<^verbatim>\<open>=\<close>.
\<close>

datatype flag_arg = NotFlag | Terminator | BadSyntax | FlagArg string "string option"

definition split_flag :: "string \<Rightarrow> flag_arg" where
  "split_flag s =
     (if length s < 2 \<or> hd s \<noteq> CHR ''-'' then NotFlag
      else if s = ''--'' then Terminator
      else
        let name = drop (if s ! 1 = CHR ''-'' then 2 else 1) s;
            before = takeWhile (\<lambda>c. c \<noteq> CHR ''='') name
        in if length name = 0 \<or> hd name = CHR ''-'' \<or> hd name = CHR ''='' then BadSyntax
           else FlagArg before (if before = name then None else Some (drop (Suc (length before)) name)))"

section \<open>Values\<close>

datatype flag_kind = StringFlag | BoolFlag | IntFlag | DurationFlag

record go_flag_lib =
  gf_Int :: "string \<Rightarrow> int64 result"
  gf_Duration :: "string \<Rightarrow> duration result"
  gf_text :: "go_error \<Rightarrow> string"

text \<open>\<^verbatim>\<open>strconv.ParseBool\<close>.\<close>

definition ParseBool :: "string \<Rightarrow> bool result" where
  "ParseBool s =
     (if s \<in> {''1'', ''t'', ''T'', ''true'', ''TRUE'', ''True''} then Inr True
      else if s \<in> {''0'', ''f'', ''F'', ''false'', ''FALSE'', ''False''} then Inr False
      else Inl (NumError ''ParseBool'' s ErrSyntax))"

text \<open>The error of setting a flag of a kind to a text, if any.\<close>

definition set_error :: "go_flag_lib \<Rightarrow> flag_kind \<Rightarrow> string \<Rightarrow> go_error option" where
  "set_error L k s =
     (case k of
        StringFlag \<Rightarrow> None
      | BoolFlag \<Rightarrow> (case ParseBool s of Inl e \<Rightarrow> Some e | Inr _ \<Rightarrow> None)
      | IntFlag \<Rightarrow> (case gf_Int L s of Inl e \<Rightarrow> Some e | Inr _ \<Rightarrow> None)
      | DurationFlag \<Rightarrow> (case gf_Duration L s of Inl e \<Rightarrow> Some e | Inr _ \<Rightarrow> None))"

section \<open>Parsing\<close>

text \<open>A command line is read, asks for help (exit status 0), or has an error (exit status 2).\<close>

datatype flags = Parsed "string \<rightharpoonup> string" "string list" | HelpRequested | FlagError string

definition set_flag :: "go_flag_lib \<Rightarrow> string \<Rightarrow> flag_kind \<Rightarrow> string \<Rightarrow> (string \<rightharpoonup> string) \<Rightarrow> (string \<rightharpoonup> string) + string" where
  "set_flag L name k v m =
     (case set_error L k v of
        None \<Rightarrow> Inl (m(name \<mapsto> v))
      | Some e \<Rightarrow>
          Inr (if k = BoolFlag
               then ''invalid boolean value '' @ go_quote v @ '' for -'' @ name @ '': '' @ gf_text L e
               else ''invalid value '' @ go_quote v @ '' for flag -'' @ name @ '': '' @ gf_text L e))"

fun parse_flags :: "go_flag_lib \<Rightarrow> (string \<times> flag_kind) list \<Rightarrow> string list \<Rightarrow> (string \<rightharpoonup> string) \<Rightarrow> flags" where
  "parse_flags L fs [] m = Parsed m []"
| "parse_flags L fs (s # args) m =
     (case split_flag s of
        NotFlag \<Rightarrow> Parsed m (s # args)
      | Terminator \<Rightarrow> Parsed m args
      | BadSyntax \<Rightarrow> FlagError (''bad flag syntax: '' @ s)
      | FlagArg name v \<Rightarrow>
          (case map_of fs name of
             None \<Rightarrow>
               if name = ''help'' \<or> name = ''h'' then HelpRequested
               else FlagError (''flag provided but not defined: -'' @ name)
           | Some k \<Rightarrow>
               (case v of
                  Some x \<Rightarrow>
                    (case set_flag L name k x m of Inr e \<Rightarrow> FlagError e | Inl m' \<Rightarrow> parse_flags L fs args m')
                | None \<Rightarrow>
                    if k = BoolFlag then
                      (case set_flag L name k ''true'' m of
                         Inr e \<Rightarrow> FlagError e | Inl m' \<Rightarrow> parse_flags L fs args m')
                    else
                      (case args of
                         [] \<Rightarrow> FlagError (''flag needs an argument: -'' @ name)
                       | x # rest \<Rightarrow>
                           (case set_flag L name k x m of
                              Inr e \<Rightarrow> FlagError e | Inl m' \<Rightarrow> parse_flags L fs rest m')))))"

section \<open>Reading the values\<close>

definition flag_string :: "(string \<rightharpoonup> string) \<Rightarrow> string \<Rightarrow> string \<Rightarrow> string" where
  "flag_string m name dflt = (case m name of None \<Rightarrow> dflt | Some v \<Rightarrow> v)"

definition flag_bool :: "(string \<rightharpoonup> string) \<Rightarrow> string \<Rightarrow> bool \<Rightarrow> bool" where
  "flag_bool m name dflt =
     (case m name of None \<Rightarrow> dflt | Some v \<Rightarrow> (case ParseBool v of Inl e \<Rightarrow> dflt | Inr b \<Rightarrow> b))"

definition flag_int :: "go_flag_lib \<Rightarrow> (string \<rightharpoonup> string) \<Rightarrow> string \<Rightarrow> int64 \<Rightarrow> int64" where
  "flag_int L m name dflt =
     (case m name of None \<Rightarrow> dflt | Some v \<Rightarrow> (case gf_Int L v of Inl e \<Rightarrow> dflt | Inr n \<Rightarrow> n))"

definition flag_duration :: "go_flag_lib \<Rightarrow> (string \<rightharpoonup> string) \<Rightarrow> string \<Rightarrow> duration \<Rightarrow> duration" where
  "flag_duration L m name dflt =
     (case m name of None \<Rightarrow> dflt | Some v \<Rightarrow> (case gf_Duration L v of Inl e \<Rightarrow> dflt | Inr d \<Rightarrow> d))"

section \<open>What is accepted\<close>

text \<open>Every text that is kept was accepted for its flag, so that reading it never falls back to the default.\<close>

definition accepted :: "go_flag_lib \<Rightarrow> (string \<times> flag_kind) list \<Rightarrow> (string \<rightharpoonup> string) \<Rightarrow> bool" where
  "accepted L fs m \<longleftrightarrow> (\<forall>name v. m name = Some v \<longrightarrow> (\<exists>k. map_of fs name = Some k \<and> set_error L k v = None))"

lemma set_flag_accepted:
  "set_flag L name k v m = Inl m' \<Longrightarrow> map_of fs name = Some k \<Longrightarrow> accepted L fs m \<Longrightarrow> accepted L fs m'"
  by (auto simp: set_flag_def accepted_def split: option.splits if_splits)

lemma parse_flags_accepted:
  "parse_flags L fs args m = Parsed m' rest \<Longrightarrow> accepted L fs m \<Longrightarrow> accepted L fs m'"
proof (induction L fs args m arbitrary: m' rule: parse_flags.induct)
  case (2 L fs s args m)
  show ?case
  proof (cases "split_flag s")
    case (FlagArg name v)
    then obtain k where k: "map_of fs name = Some k"
      using 2(4) by (auto split: option.splits if_splits)
    then show ?thesis
      using 2 FlagArg set_flag_accepted [OF _ k]
      by (auto split: option.splits if_splits sum.splits list.splits)
  qed (use 2 in auto)
qed auto

lemma accepted_empty: "accepted L fs Map.empty"
  by (simp add: accepted_def)

lemma set_string_flag [simp]: "set_flag L name StringFlag v m = Inl (m(name \<mapsto> v))"
  by (simp add: set_flag_def set_error_def)

text \<open>Conversions for concrete command lines.\<close>

definition sample_go_flags :: go_flag_lib where
  "sample_go_flags = \<lparr>gf_Int = Atoi, gf_Duration = (\<lambda>s. Inl (NumError ''ParseDuration'' s ErrSyntax)), gf_text = (\<lambda>_. [])\<rparr>"

end
