(* ===== verification/TailControl.thy ===== *)
theory TailControl
  imports TailLib GoFlag
begin

text \<open>
  Around the tailing loop (\<^verbatim>\<open>pkg/tail/tail.go\<close>): the values it sends, its watchers, stopping and closing a tail,
  and the command \<^verbatim>\<open>gotail\<close> (\<^verbatim>\<open>pkg/tail/cmd/gotail\<close>). The tomb is a third-party package: killing it and waiting
  for it are functions on a state \<open>'w\<close>.
\<close>

section \<open>Lines and watchers\<close>

record Line =
  ln_Text :: string
  ln_Time :: go_time
  ln_Err :: "go_error option"

definition NewLine :: "string \<Rightarrow> go_time \<Rightarrow> Line" where
  "NewLine t now = \<lparr>ln_Text = t, ln_Time = now, ln_Err = None\<rparr>"

type_synonym SeekInfo = "int \<times> nat"

text \<open>What follows the file: the name it watches and the size seen last.\<close>

datatype file_watcher = PollingFileWatcher string int | InotifyFileWatcher string int

definition NewPollingFileWatcher :: "string \<Rightarrow> file_watcher" where
  "NewPollingFileWatcher filename = PollingFileWatcher filename 0"

definition NewInotifyFileWatcher :: "string \<Rightarrow> file_watcher" where
  "NewInotifyFileWatcher filename = InotifyFileWatcher (filepath_Clean filename) 0"

definition tail_watcher :: "bool \<Rightarrow> string \<Rightarrow> file_watcher" where
  "tail_watcher poll filename = (if poll then NewPollingFileWatcher filename else NewInotifyFileWatcher filename)"

section \<open>Stopping and closing\<close>

record 'w tomb =
  tm_Kill :: "go_error option \<Rightarrow> 'w \<Rightarrow> 'w"
  tm_Wait :: "'w \<Rightarrow> go_error option \<times> 'w"

definition tail_Stop :: "'w tomb \<Rightarrow> 'w \<Rightarrow> go_error option \<times> 'w" where
  "tail_Stop T w = tm_Wait T (tm_Kill T None w)"

definition tail_StopAtEOF :: "'w tomb \<Rightarrow> 'w \<Rightarrow> go_error option \<times> 'w" where
  "tail_StopAtEOF T w = tm_Wait T (tm_Kill T (Some errStopAtEOF) w)"

text \<open>\<^verbatim>\<open>Close\<close> of the reader of \<^verbatim>\<open>pkg/common/tail\<close>: the reason of the stop is dropped.\<close>

definition Reader_Close :: "'w tomb \<Rightarrow> 'w \<Rightarrow> go_error option \<times> 'w" where
  "Reader_Close T w = (case tail_StopAtEOF T w of (_, w') \<Rightarrow> (None, w'))"

text \<open>The open file of a tail, the files it has closed, and how often its channel was closed.\<close>

record tail_files =
  tf_file :: "nat option"
  tf_closed :: "nat list"
  tf_Lines_closed :: nat

definition closeFile :: "tail_files \<Rightarrow> tail_files" where
  "closeFile t =
     (case tf_file t of None \<Rightarrow> t | Some f \<Rightarrow> t\<lparr>tf_closed := f # tf_closed t, tf_file := None\<rparr>)"

definition tail_close :: "tail_files \<Rightarrow> tail_files" where
  "tail_close t = closeFile (t\<lparr>tf_Lines_closed := Suc (tf_Lines_closed t)\<rparr>)"

text \<open>Opening again closes the file that is open; the answers of \<^verbatim>\<open>OpenFile\<close> are those of \<^const>\<open>tail_reopen\<close>.\<close>

definition reopen_files :: "string \<Rightarrow> tail_env \<Rightarrow> open_attempt list \<Rightarrow> tail_files \<Rightarrow> tail_files" where
  "reopen_files name env as t =
     (case tail_reopen name env as of
        Some (Inr inode) \<Rightarrow> (closeFile t)\<lparr>tf_file := Some inode\<rparr>
      | _ \<Rightarrow> closeFile t)"

text \<open>
  No file is leaked: every file that was opened by a sequence of reopenings is closed once when the goroutine
  of the tail has closed, and its channel is closed once.
\<close>

fun reopened :: "string \<Rightarrow> tail_env \<Rightarrow> open_attempt list list \<Rightarrow> tail_files \<Rightarrow> tail_files" where
  "reopened name env [] t = t"
| "reopened name env (as # r) t = reopened name env r (reopen_files name env as t)"

definition opened_files :: "string \<Rightarrow> tail_env \<Rightarrow> open_attempt list list \<Rightarrow> nat list" where
  "opened_files name env ass =
     concat (map (\<lambda>as. case tail_reopen name env as of Some (Inr inode) \<Rightarrow> [inode] | _ \<Rightarrow> []) ass)"

definition held_files :: "tail_files \<Rightarrow> nat multiset" where
  "held_files t = mset (tf_closed t) + (case tf_file t of None \<Rightarrow> {#} | Some f \<Rightarrow> {#f#})"

lemma held_closeFile [simp]: "held_files (closeFile t) = held_files t" "tf_file (closeFile t) = None"
  by (simp_all add: held_files_def closeFile_def split: option.splits)

lemma held_reopen:
  "held_files (reopen_files name env as t) =
     held_files t + (case tail_reopen name env as of Some (Inr inode) \<Rightarrow> {#inode#} | _ \<Rightarrow> {#})"
proof -
  have "held_files ((closeFile t)\<lparr>tf_file := Some f\<rparr>) = held_files t + {#f#}" for f
    using held_closeFile(1) [of t] by (simp add: held_files_def)
  then show ?thesis by (simp add: reopen_files_def split: option.splits sum.splits)
qed

lemma reopened_held: "held_files (reopened name env ass t) = held_files t + mset (opened_files name env ass)"
  by (induction ass arbitrary: t) (auto simp: held_reopen opened_files_def split: option.splits sum.splits)

lemma reopened_Lines [simp]: "tf_Lines_closed (reopened name env ass t) = tf_Lines_closed t"
  by (induction ass arbitrary: t) (simp_all add: reopen_files_def closeFile_def split: option.splits sum.splits)

lemma no_file_leaked:
  "mset (tf_closed (tail_close (reopened name env ass \<lparr>tf_file = None, tf_closed = [], tf_Lines_closed = 0\<rparr>))) =
     mset (opened_files name env ass) \<and>
   tf_file (tail_close (reopened name env ass \<lparr>tf_file = None, tf_closed = [], tf_Lines_closed = 0\<rparr>)) = None \<and>
   tf_Lines_closed (tail_close (reopened name env ass \<lparr>tf_file = None, tf_closed = [], tf_Lines_closed = 0\<rparr>)) = 1"
proof -
  let ?t = "reopened name env ass \<lparr>tf_file = None, tf_closed = [], tf_Lines_closed = 0\<rparr>"
  have "held_files (tail_close ?t) = held_files ?t" by (simp add: tail_close_def) (simp add: held_files_def)
  also have "\<dots> = mset (opened_files name env ass)" by (simp add: reopened_held) (simp add: held_files_def)
  finally have "held_files (tail_close ?t) = mset (opened_files name env ass)" .
  moreover have none: "tf_file (tail_close ?t) = None" by (simp add: tail_close_def)
  moreover have "tf_Lines_closed (tail_close ?t) = 1"
    by (simp add: tail_close_def closeFile_def split: option.splits)
  ultimately show ?thesis by (simp add: held_files_def)
qed

section \<open>The command gotail\<close>

definition gotail_flags :: "(string \<times> flag_kind) list" where
  "gotail_flags = [(''n'', IntFlag), (''max'', IntFlag), (''f'', BoolFlag), (''F'', BoolFlag), (''p'', BoolFlag)]"

text \<open>The configuration and \<open>n\<close>; whether the file is polled is the middle component.\<close>

definition args2config :: "go_flag_lib \<Rightarrow> (string \<rightharpoonup> string) \<Rightarrow> tail_Config \<times> bool \<times> int64" where
  "args2config G m =
     (let reOpen = flag_bool m ''F'' False
      in (\<lparr>tc_Location = None, tc_ReOpen = reOpen, tc_MustExist = False, tc_Pipe = False, tc_RateLimiter = None,
           tc_Follow = (if reOpen then True else flag_bool m ''f'' False),
           tc_MaxLineSize = nat (sint (flag_int G m ''max'' 0))\<rparr>,
          flag_bool m ''p'' False, flag_int G m ''n'' 0))"

definition NFlag :: "(string \<rightharpoonup> string) \<Rightarrow> nat" where
  "NFlag m = length (filter (\<lambda>(n, k). m n \<noteq> None) gotail_flags)"

datatype gotail_exit = GotailUsage nat | NeedFiles | Tailing "(string \<times> tail_Config \<times> bool) list"

definition gotail_main :: "go_flag_lib \<Rightarrow> string list \<Rightarrow> gotail_exit" where
  "gotail_main G argv =
     (case parse_flags G gotail_flags argv Map.empty of
        HelpRequested \<Rightarrow> GotailUsage 0
      | FlagError msg \<Rightarrow> GotailUsage 2
      | Parsed m args \<Rightarrow>
          (case args2config G m of
             (config, poll, n) \<Rightarrow>
               (if NFlag m < 1 then NeedFiles
                else
                  let config' = (if n \<noteq> 0 then config\<lparr>tc_Location := Some (sint (- n), 2)\<rparr> else config)
                  in Tailing (map (\<lambda>f. (f, config', poll)) args))))"

text \<open>What the goroutine of one file prints: the error of the start, or the lines and the reason of the end.\<close>

definition gotail_tailFile ::
    "(go_error \<Rightarrow> string) \<Rightarrow> (tail_lines \<times> go_error option) result \<Rightarrow> string list" where
  "gotail_tailFile error_text t =
     (case t of
        Inl err \<Rightarrow> [error_text err]
      | Inr (ls, reason) \<Rightarrow> map fst ls @ (case reason of None \<Rightarrow> [] | Some err \<Rightarrow> [error_text err]))"

text \<open>A file without a flag is refused, and a flag without a file is not.\<close>

lemma gotail_needs_a_flag:
  "gotail_main G [''log''] = NeedFiles"
  "gotail_main G [''-f''] = Tailing []"
  by (simp_all add: gotail_main_def split_flag_def args2config_def NFlag_def gotail_flags_def set_flag_def set_error_def
      ParseBool_def Let_def)

text \<open>A tail that reopens files follows them, so \<^const>\<open>tail_TailFile\<close> never refuses the configuration.\<close>

lemma gotail_config_possible:
  assumes "gotail_main G argv = Tailing ts" and "(f, config, poll) \<in> set ts"
  shows "tail_TailFile config opened \<noteq> None"
  using assms
  by (auto simp: gotail_main_def args2config_def tail_TailFile_def Let_def split: flags.splits if_splits sum.splits)

end
