(* ===== verification/FsWatcher.thy ===== *)
theory FsWatcher
  imports TailWatch
begin

text \<open>
  The callback interface to \<^verbatim>\<open>fsnotify\<close> (\<^verbatim>\<open>pkg/filesystem/watcher.go\<close>): a watcher has to be initialised before it
  is used, and its goroutine hands every event and every error to the handlers, in the order of the \<^verbatim>\<open>select\<close>.
  The state \<open>'s\<close> is that of the handlers.
\<close>

record 's fsnotifyWatcher =
  fw_watcher :: "(string \<Rightarrow> go_error option) option"
  fw_eventHandler :: "(fs_event \<Rightarrow> 's \<Rightarrow> 's) option"
  fw_errorHandler :: "(go_error \<Rightarrow> 's \<Rightarrow> 's) option"

definition NewFsnotifyWatcher :: "'s fsnotifyWatcher" where
  "NewFsnotifyWatcher = \<lparr>fw_watcher = None, fw_eventHandler = None, fw_errorHandler = None\<rparr>"

text \<open>A nil watcher is dereferenced.\<close>

definition AddWatch :: "'s fsnotifyWatcher \<Rightarrow> string \<Rightarrow> unit outcome" where
  "AddWatch w path =
     (case fw_watcher w of
        None \<Rightarrow> Panic NilDereference
      | Some add \<Rightarrow> (case add path of Some err \<Rightarrow> Error err | None \<Rightarrow> Value ()))"

definition watcher_Init ::
    "(string \<Rightarrow> go_error option) result \<Rightarrow> (fs_event \<Rightarrow> 's \<Rightarrow> 's) option \<Rightarrow> (go_error \<Rightarrow> 's \<Rightarrow> 's) option \<Rightarrow>
     's fsnotifyWatcher \<Rightarrow> go_error option \<times> 's fsnotifyWatcher" where
  "watcher_Init NewWatcher eventHandler errorHandler w =
     (case NewWatcher of
        Inl err \<Rightarrow> (Some err, w\<lparr>fw_watcher := None\<rparr>)
      | Inr watcher \<Rightarrow>
          (None, w\<lparr>fw_watcher := Some watcher, fw_eventHandler := eventHandler, fw_errorHandler := errorHandler\<rparr>))"

datatype watcher_item = WatcherEvent fs_event | WatcherErr go_error

fun watcher_Run :: "'s fsnotifyWatcher \<Rightarrow> watcher_item list \<Rightarrow> 's \<Rightarrow> 's" where
  "watcher_Run w [] s = s"
| "watcher_Run w (WatcherEvent ev # r) s =
     watcher_Run w r (case fw_eventHandler w of None \<Rightarrow> s | Some h \<Rightarrow> h ev s)"
| "watcher_Run w (WatcherErr err # r) s =
     watcher_Run w r (case fw_errorHandler w of None \<Rightarrow> s | Some h \<Rightarrow> h err s)"

lemma AddWatch_before_Init: "\<not> returns (AddWatch NewFsnotifyWatcher path)"
  by (simp add: AddWatch_def NewFsnotifyWatcher_def)

text \<open>Handlers that keep what they are given see all events and all errors, each in order.\<close>

definition watcher_events :: "watcher_item list \<Rightarrow> fs_event list" where
  "watcher_events its = concat (map (\<lambda>it. case it of WatcherEvent ev \<Rightarrow> [ev] | WatcherErr e \<Rightarrow> []) its)"

definition watcher_errors :: "watcher_item list \<Rightarrow> go_error list" where
  "watcher_errors its = concat (map (\<lambda>it. case it of WatcherEvent ev \<Rightarrow> [] | WatcherErr e \<Rightarrow> [e]) its)"

lemma handlers_see_all:
  assumes "watcher_Init (Inr add) (Some (\<lambda>ev (es, errs). (es @ [ev], errs))) (Some (\<lambda>e (es, errs). (es, errs @ [e]))) w0 = (None, w)"
  shows "watcher_Run w its (es, errs) = (es @ watcher_events its, errs @ watcher_errors its)"
proof (induction its arbitrary: es errs)
  case (Cons it its)
  then show ?case
    using assms by (cases it) (auto simp: watcher_Init_def watcher_events_def watcher_errors_def)
qed (simp add: watcher_events_def watcher_errors_def)

end
