(* ===== verification/WinFile.thy ===== *)
theory WinFile
  imports Prelude
begin

text \<open>
  Opening a file on Windows (\<^verbatim>\<open>pkg/tail/winfile/winfile.go\<close>), so that others may rename or delete it while it is
  tailed: the flags of \<^verbatim>\<open>os.OpenFile\<close> become the access, the sharing and the creation mode of the system call
  \<^verbatim>\<open>CreateFile\<close>. The call is a parameter; a handle is a number.
\<close>

unbundle bit_operations_syntax

type_synonym uint32 = "32 word"
type_synonym uint64 = "64 word"

section \<open>Constants of the system\<close>

abbreviation O_RDONLY :: int64 where "O_RDONLY \<equiv> 0"
abbreviation O_WRONLY :: int64 where "O_WRONLY \<equiv> 1"
abbreviation O_RDWR :: int64 where "O_RDWR \<equiv> 2"
abbreviation O_CREAT :: int64 where "O_CREAT \<equiv> 0x40"
abbreviation O_EXCL :: int64 where "O_EXCL \<equiv> 0x80"
abbreviation O_TRUNC :: int64 where "O_TRUNC \<equiv> 0x200"
abbreviation O_APPEND :: int64 where "O_APPEND \<equiv> 0x400"
abbreviation O_CLOEXEC :: int64 where "O_CLOEXEC \<equiv> 0x80000"

abbreviation GENERIC_READ :: uint32 where "GENERIC_READ \<equiv> 0x80000000"
abbreviation GENERIC_WRITE :: uint32 where "GENERIC_WRITE \<equiv> 0x40000000"
abbreviation FILE_APPEND_DATA :: uint32 where "FILE_APPEND_DATA \<equiv> 4"
abbreviation FILE_SHARE_READ :: uint32 where "FILE_SHARE_READ \<equiv> 1"
abbreviation FILE_SHARE_WRITE :: uint32 where "FILE_SHARE_WRITE \<equiv> 2"
abbreviation FILE_SHARE_DELETE :: uint32 where "FILE_SHARE_DELETE \<equiv> 4"
abbreviation FILE_ATTRIBUTE_NORMAL :: uint32 where "FILE_ATTRIBUTE_NORMAL \<equiv> 0x80"

abbreviation CREATE_NEW :: uint32 where "CREATE_NEW \<equiv> 1"
abbreviation CREATE_ALWAYS :: uint32 where "CREATE_ALWAYS \<equiv> 2"
abbreviation OPEN_EXISTING :: uint32 where "OPEN_EXISTING \<equiv> 3"
abbreviation OPEN_ALWAYS :: uint32 where "OPEN_ALWAYS \<equiv> 4"
abbreviation TRUNCATE_EXISTING :: uint32 where "TRUNCATE_EXISTING \<equiv> 5"

section \<open>The call\<close>

record SecurityAttributes =
  sa_Length :: uint32
  sa_InheritHandle :: uint32

definition makeInheritSa :: SecurityAttributes where
  "makeInheritSa = \<lparr>sa_Length = 24, sa_InheritHandle = 1\<rparr>"

record create_file =
  cf_path :: string
  cf_access :: uint32
  cf_sharemode :: uint32
  cf_sa :: "SecurityAttributes option"
  cf_createmode :: uint32
  cf_attrs :: uint32

definition InvalidHandle :: uint64 where "InvalidHandle = - 1"

definition ERROR_FILE_NOT_FOUND :: go_error where "ERROR_FILE_NOT_FOUND = Sentinel ''syscall.ERROR_FILE_NOT_FOUND''"

text \<open>A path with a NUL byte has no UTF-16 form.\<close>

definition UTF16PtrFromString :: "string \<Rightarrow> string result" where
  "UTF16PtrFromString s = (if CHR 0x00 \<in> set s then Inl (Sentinel ''syscall.EINVAL'') else Inr s)"

definition win_access :: "int64 \<Rightarrow> uint32" where
  "win_access mode =
     (let rw = mode AND (O_RDONLY OR O_WRONLY OR O_RDWR);
          a = (if rw = O_RDONLY then GENERIC_READ else if rw = O_WRONLY then GENERIC_WRITE
               else if rw = O_RDWR then GENERIC_READ OR GENERIC_WRITE else 0);
          a1 = (if mode AND O_CREAT \<noteq> 0 then a OR GENERIC_WRITE else a)
      in if mode AND O_APPEND \<noteq> 0 then (a1 AND NOT GENERIC_WRITE) OR FILE_APPEND_DATA else a1)"

definition win_createmode :: "int64 \<Rightarrow> uint32" where
  "win_createmode mode =
     (if mode AND (O_CREAT OR O_EXCL) = O_CREAT OR O_EXCL then CREATE_NEW
      else if mode AND (O_CREAT OR O_TRUNC) = O_CREAT OR O_TRUNC then CREATE_ALWAYS
      else if mode AND O_CREAT = O_CREAT then OPEN_ALWAYS
      else if mode AND O_TRUNC = O_TRUNC then TRUNCATE_EXISTING
      else OPEN_EXISTING)"

definition win_Open ::
    "(create_file \<Rightarrow> uint64 \<times> go_error option) \<Rightarrow> string \<Rightarrow> int64 \<Rightarrow> uint32 \<Rightarrow> uint64 \<times> go_error option" where
  "win_Open CreateFile path mode perm =
     (if length path = 0 then (InvalidHandle, Some ERROR_FILE_NOT_FOUND)
      else case UTF16PtrFromString path of
        Inl err \<Rightarrow> (InvalidHandle, Some err)
      | Inr pathp \<Rightarrow>
          CreateFile
            \<lparr>cf_path = pathp, cf_access = win_access mode,
             cf_sharemode = FILE_SHARE_READ OR FILE_SHARE_WRITE OR FILE_SHARE_DELETE,
             cf_sa = (if mode AND O_CLOEXEC = 0 then Some makeInheritSa else None),
             cf_createmode = win_createmode mode, cf_attrs = FILE_ATTRIBUTE_NORMAL\<rparr>)"

text \<open>The permission bits of \<^verbatim>\<open>os.FileMode\<close> and its bits 23, 22 and 20.\<close>

definition syscallMode :: "uint32 \<Rightarrow> uint32" where
  "syscallMode i =
     (let o1 = i AND 0x1FF;
          o2 = (if i AND 0x800000 \<noteq> 0 then o1 OR 0x800 else o1);
          o3 = (if i AND 0x400000 \<noteq> 0 then o2 OR 0x400 else o2)
      in if i AND 0x100000 \<noteq> 0 then o3 OR 0x200 else o3)"

text \<open>An open file is its handle and its name.\<close>

definition win_OpenFile ::
    "(create_file \<Rightarrow> uint64 \<times> go_error option) \<Rightarrow> string \<Rightarrow> int64 \<Rightarrow> uint32 \<Rightarrow> (uint64 \<times> string) result" where
  "win_OpenFile CreateFile name flag perm =
     (case win_Open CreateFile name (flag OR O_CLOEXEC) (syscallMode perm) of
        (r, Some e) \<Rightarrow> Inl e
      | (r, None) \<Rightarrow> Inr (r, name))"

text \<open>\<^verbatim>\<open>tail_windows.go\<close>.\<close>

definition tail_OpenFile_windows :: "(create_file \<Rightarrow> uint64 \<times> go_error option) \<Rightarrow> string \<Rightarrow> (uint64 \<times> string) result" where
  "tail_OpenFile_windows CreateFile name = win_OpenFile CreateFile name O_RDONLY 0"

section \<open>What is asked of the system\<close>

text \<open>
  A tailed file is opened for reading and left to everybody else: others may read, write, rename and delete it;
  it has to exist, and children of the process do not inherit it.
\<close>

lemma tailed_file_shared:
  assumes "name \<noteq> []" and "CHR 0x00 \<notin> set name"
  shows "tail_OpenFile_windows CreateFile name =
     (case CreateFile \<lparr>cf_path = name, cf_access = GENERIC_READ, cf_sharemode = 7, cf_sa = None,
        cf_createmode = OPEN_EXISTING, cf_attrs = FILE_ATTRIBUTE_NORMAL\<rparr> of
        (r, Some e) \<Rightarrow> Inl e | (r, None) \<Rightarrow> Inr (r, name))"
  using assms
  by (simp add: tail_OpenFile_windows_def win_OpenFile_def win_Open_def UTF16PtrFromString_def win_access_def
      win_createmode_def Let_def)

text \<open>Appending never allows to overwrite, whatever the other flags are.\<close>

lemma append_only:
  assumes "mode AND O_APPEND \<noteq> 0"
  shows "win_access mode AND GENERIC_WRITE = 0 \<and> win_access mode AND FILE_APPEND_DATA = FILE_APPEND_DATA"
proof -
  have "((a AND NOT GENERIC_WRITE) OR FILE_APPEND_DATA) AND GENERIC_WRITE = 0" for a :: uint32
    by (simp add: bit.conj_disj_distrib2 and.assoc)
  moreover have "((a AND NOT GENERIC_WRITE) OR FILE_APPEND_DATA) AND FILE_APPEND_DATA = FILE_APPEND_DATA" for a :: uint32
    by (simp add: bit.conj_disj_distrib2)
  ultimately show ?thesis using assms by (simp add: win_access_def Let_def)
qed

text \<open>A file is only emptied or made anew when the flags ask for it.\<close>

lemma plain_open_keeps: "mode AND (O_CREAT OR O_TRUNC) = 0 \<Longrightarrow> win_createmode mode = OPEN_EXISTING"
proof -
  assume none: "mode AND (O_CREAT OR O_TRUNC) = 0"
  have c: "mode AND O_CREAT = 0" and t: "mode AND O_TRUNC = 0"
    using arg_cong [OF none, of "\<lambda>w. w AND O_CREAT"] arg_cong [OF none, of "\<lambda>w. w AND O_TRUNC"]
    by (simp_all add: and.assoc)
  have "mode AND (O_CREAT OR x) \<noteq> O_CREAT OR x" for x :: int64
  proof
    assume "mode AND (O_CREAT OR x) = O_CREAT OR x"
    from arg_cong [OF this, of "\<lambda>w. w AND O_CREAT"] have "(mode AND O_CREAT) AND (O_CREAT OR x) = (O_CREAT OR x) AND O_CREAT"
      by (simp only: and.assoc and.commute and.left_commute)
    then show False using c by (simp add: bit.conj_disj_distrib2)
  qed
  from this [of O_EXCL] this [of O_TRUNC] show ?thesis using c t by (simp add: win_createmode_def)
qed

end
