(* ===== verification/FileSystem.thy ===== *)
theory FileSystem
  imports GoPath
begin

text \<open>
  The file system interface of the kubelet (\<^verbatim>\<open>pkg/filesystem\<close>) and its implementation \<^verbatim>\<open>DefaultFs\<close> on the
  operating system. The interface is a record of operations on a state; \<^verbatim>\<open>os\<close> is a tree of
  nodes by path, with the faults that its calls run into as a list that is used up call by call.
  The locale \<open>filesystem\<close> states what the users of the interface rely on.
\<close>

section \<open>The interface\<close>

text \<open>What \<^verbatim>\<open>os.FileInfo\<close> says of the mode; an open file is the name of its node.\<close>

record FileMode =
  fm_IsRegular :: bool
  fm_IsDir :: bool
  fm_String :: string

type_synonym File = string

record 's Filesystem =
  fs_Stat :: "string \<Rightarrow> 's \<Rightarrow> FileMode result \<times> 's"
  fs_Create :: "string \<Rightarrow> 's \<Rightarrow> File result \<times> 's"
  fs_Rename :: "string \<Rightarrow> string \<Rightarrow> 's \<Rightarrow> go_error option \<times> 's"
  fs_MkdirAll :: "string \<Rightarrow> 's \<Rightarrow> go_error option \<times> 's"
  fs_RemoveAll :: "string \<Rightarrow> 's \<Rightarrow> go_error option \<times> 's"
  fs_Remove :: "string \<Rightarrow> 's \<Rightarrow> go_error option \<times> 's"
  fs_ReadFile :: "string \<Rightarrow> 's \<Rightarrow> string result \<times> 's"
  fs_TempDir :: "string \<Rightarrow> string \<Rightarrow> 's \<Rightarrow> string result \<times> 's"
  fs_TempFile :: "string \<Rightarrow> string \<Rightarrow> 's \<Rightarrow> File result \<times> 's"
  file_Name :: "File \<Rightarrow> string"
  file_Write :: "File \<Rightarrow> string \<Rightarrow> 's \<Rightarrow> go_error option \<times> 's"
  file_Sync :: "File \<Rightarrow> 's \<Rightarrow> go_error option \<times> 's"
  file_Close :: "File \<Rightarrow> 's \<Rightarrow> go_error option \<times> 's"

definition ErrNotExist :: go_error where
  "ErrNotExist = Sentinel ''file does not exist''"

definition os_IsNotExist :: "go_error \<Rightarrow> bool" where
  "os_IsNotExist err = errors_Is err ErrNotExist"

section \<open>The operating system\<close>

datatype os_node = RegularFile string | Directory | OtherNode

text \<open>
  A fault is the error a call returns, with the number of bytes a failing write has written;
  \<open>os_random\<close> are the random names that temporary files get.
\<close>

record os =
  os_nodes :: "string \<rightharpoonup> os_node"
  os_faults :: "(go_error \<times> nat) option list"
  os_random :: "string list"
  os_mode :: "string \<Rightarrow> string"

definition next_fault :: "os \<Rightarrow> (go_error \<times> nat) option \<times> os" where
  "next_fault s = (case os_faults s of [] \<Rightarrow> (None, s) | f # fs \<Rightarrow> (f, s\<lparr>os_faults := fs\<rparr>))"

definition set_node :: "string \<Rightarrow> os_node option \<Rightarrow> os \<Rightarrow> os" where
  "set_node p n s = s\<lparr>os_nodes := (os_nodes s)(p := n)\<rparr>"

definition path_error :: "string \<Rightarrow> string \<Rightarrow> go_error \<Rightarrow> go_error" where
  "path_error op p e = Wrap (op @ '' '' @ p) e"

definition os_Stat :: "string \<Rightarrow> os \<Rightarrow> FileMode result \<times> os" where
  "os_Stat p s0 =
     (case next_fault s0 of
        (Some (e, _), s) \<Rightarrow> (Inl e, s)
      | (None, s) \<Rightarrow>
          (case os_nodes s p of
             None \<Rightarrow> (Inl (path_error ''stat'' p ErrNotExist), s)
           | Some n \<Rightarrow>
               (Inr \<lparr>fm_IsRegular = (case n of RegularFile _ \<Rightarrow> True | _ \<Rightarrow> False),
                     fm_IsDir = (n = Directory), fm_String = os_mode s p\<rparr>, s)))"

definition parent_is_dir :: "string \<Rightarrow> os \<Rightarrow> bool" where
  "parent_is_dir p s \<longleftrightarrow> os_nodes s (filepath_Dir p) = Some Directory"

definition os_Create :: "string \<Rightarrow> os \<Rightarrow> File result \<times> os" where
  "os_Create p s0 =
     (case next_fault s0 of
        (Some (e, _), s) \<Rightarrow> (Inl e, s)
      | (None, s) \<Rightarrow>
          (if \<not> parent_is_dir p s then (Inl (path_error ''open'' p ErrNotExist), s)
           else case os_nodes s p of
             Some Directory \<Rightarrow> (Inl (path_error ''open'' p (Sentinel ''is a directory'')), s)
           | _ \<Rightarrow> (Inr p, set_node p (Some (RegularFile [])) s)))"

text \<open>
  \<^verbatim>\<open>os.Rename\<close> moves a node over another; it does not replace a directory by anything.
  A directory takes what is below it along.
\<close>

definition below :: "string \<Rightarrow> string \<Rightarrow> bool" where
  "below d p \<longleftrightarrow> prefix (d @ [slash]) p"

definition move_node :: "string \<Rightarrow> string \<Rightarrow> (string \<rightharpoonup> os_node) \<Rightarrow> (string \<rightharpoonup> os_node)" where
  "move_node old new m = (\<lambda>p.
     if p = new then m old
     else if p = old then None
     else if below new p \<and> m old = Some Directory then m (old @ drop (length new) p)
     else if below old p \<and> m old = Some Directory then None
     else m p)"

definition os_Rename :: "string \<Rightarrow> string \<Rightarrow> os \<Rightarrow> go_error option \<times> os" where
  "os_Rename old new s0 =
     (case next_fault s0 of
        (Some (e, _), s) \<Rightarrow> (Some e, s)
      | (None, s) \<Rightarrow>
          (case os_nodes s old of
             None \<Rightarrow> (Some (path_error ''rename'' old ErrNotExist), s)
           | Some n \<Rightarrow>
               (if old = new then (None, s)
                else if os_nodes s new = Some Directory then
                  (Some (path_error ''rename'' new (Sentinel ''file exists'')), s)
                else if n = Directory \<and> os_nodes s new \<noteq> None then
                  (Some (path_error ''rename'' new (Sentinel ''not a directory'')), s)
                else if \<not> parent_is_dir new s then (Some (path_error ''rename'' new ErrNotExist), s)
                else if n = Directory \<and> below old new then
                  (Some (path_error ''rename'' new (Sentinel ''invalid argument'')), s)
                else (None, s\<lparr>os_nodes := move_node old new (os_nodes s)\<rparr>))))"

text \<open>\<^verbatim>\<open>os.MkdirAll\<close> goes through the prefixes of the path that end before a separator, from the root.\<close>

fun make_dirs :: "string list \<Rightarrow> os \<Rightarrow> go_error option \<times> os" where
  "make_dirs [] s = (None, s)"
| "make_dirs (p # ps) s =
     (case os_nodes s p of
        None \<Rightarrow> make_dirs ps (set_node p (Some Directory) s)
      | Some Directory \<Rightarrow> make_dirs ps s
      | Some _ \<Rightarrow> (Some (path_error ''mkdir'' p (Sentinel ''not a directory'')), s))"

definition ancestors :: "string \<Rightarrow> string list" where
  "ancestors p = map (\<lambda>i. take i p) (filter (\<lambda>i. p ! i = slash) [1..<length p]) @ [p]"

definition os_MkdirAll :: "string \<Rightarrow> os \<Rightarrow> go_error option \<times> os" where
  "os_MkdirAll p s0 =
     (case next_fault s0 of
        (Some (e, _), s) \<Rightarrow> (Some e, s)
      | (None, s) \<Rightarrow> make_dirs (ancestors p) s)"

text \<open>Only files are removed one by one; a directory, even an empty one, is refused here.\<close>

definition os_Remove :: "string \<Rightarrow> os \<Rightarrow> go_error option \<times> os" where
  "os_Remove p s0 =
     (case next_fault s0 of
        (Some (e, _), s) \<Rightarrow> (Some e, s)
      | (None, s) \<Rightarrow>
          (case os_nodes s p of
             None \<Rightarrow> (Some (path_error ''remove'' p ErrNotExist), s)
           | Some Directory \<Rightarrow> (Some (path_error ''remove'' p (Sentinel ''directory not empty'')), s)
           | Some _ \<Rightarrow> (None, set_node p None s)))"

definition os_RemoveAll :: "string \<Rightarrow> os \<Rightarrow> go_error option \<times> os" where
  "os_RemoveAll p s0 =
     (case next_fault s0 of
        (Some (e, _), s) \<Rightarrow> (Some e, s)
      | (None, s) \<Rightarrow> (None, s\<lparr>os_nodes := (\<lambda>q. if q = p \<or> below p q then None else os_nodes s q)\<rparr>))"

definition os_ReadFile :: "string \<Rightarrow> os \<Rightarrow> string result \<times> os" where
  "os_ReadFile p s0 =
     (case next_fault s0 of
        (Some (e, _), s) \<Rightarrow> (Inl e, s)
      | (None, s) \<Rightarrow>
          (case os_nodes s p of
             Some (RegularFile c) \<Rightarrow> (Inr c, s)
           | Some _ \<Rightarrow> (Inl (path_error ''read'' p (Sentinel ''is a directory'')), s)
           | None \<Rightarrow> (Inl (path_error ''open'' p ErrNotExist), s)))"

text \<open>
  \<^verbatim>\<open>os.CreateTemp\<close> and \<^verbatim>\<open>os.MkdirTemp\<close>: the random part is put at the last \<^verbatim>\<open>*\<close> of the pattern, or at its
  end; names that exist are skipped. A pattern with a separator is an error.
\<close>

definition temp_name :: "string \<Rightarrow> string \<Rightarrow> string \<Rightarrow> string" where
  "temp_name dir pattern r =
     (let name = (if CHR ''*'' \<in> set pattern
                  then rev (tl (dropWhile (\<lambda>c. c \<noteq> CHR ''*'') (rev pattern))) @ r @
                       rev (takeWhile (\<lambda>c. c \<noteq> CHR ''*'') (rev pattern))
                  else pattern @ r)
      in if dir \<noteq> [] \<and> last dir = slash then dir @ name else dir @ slash # name)"

fun fresh_temp :: "string \<Rightarrow> string \<Rightarrow> string list \<Rightarrow> (string \<rightharpoonup> os_node) \<Rightarrow> (string \<times> string list) option" where
  "fresh_temp dir pattern [] m = None"
| "fresh_temp dir pattern (r # rs) m =
     (if m (temp_name dir pattern r) = None then Some (temp_name dir pattern r, rs)
      else fresh_temp dir pattern rs m)"

definition os_temp :: "os_node \<Rightarrow> string \<Rightarrow> string \<Rightarrow> os \<Rightarrow> string result \<times> os" where
  "os_temp node dir pattern s0 =
     (case next_fault s0 of
        (Some (e, _), s) \<Rightarrow> (Inl e, s)
      | (None, s) \<Rightarrow>
          (if slash \<in> set pattern then
             (Inl (path_error ''createtemp'' pattern (Sentinel ''pattern contains path separator'')), s)
           else if os_nodes s dir \<noteq> Some Directory then (Inl (path_error ''open'' dir ErrNotExist), s)
           else case fresh_temp dir pattern (os_random s) (os_nodes s) of
             None \<Rightarrow> (Inl (path_error ''createtemp'' dir (Sentinel ''file exists'')), s\<lparr>os_random := []\<rparr>)
           | Some (p, rs) \<Rightarrow> (Inr p, set_node p (Some node) (s\<lparr>os_random := rs\<rparr>))))"

definition os_CreateTemp :: "string \<Rightarrow> string \<Rightarrow> os \<Rightarrow> File result \<times> os" where
  "os_CreateTemp = os_temp (RegularFile [])"
definition os_MkdirTemp :: "string \<Rightarrow> string \<Rightarrow> os \<Rightarrow> string result \<times> os" where
  "os_MkdirTemp = os_temp Directory"

text \<open>Writing through a file that was opened empty and not renamed since.\<close>

definition os_Write :: "File \<Rightarrow> string \<Rightarrow> os \<Rightarrow> go_error option \<times> os" where
  "os_Write f d s0 =
     (case next_fault s0 of
        (fault, s) \<Rightarrow>
          (case os_nodes s f of
             Some (RegularFile c) \<Rightarrow>
               (case fault of
                  None \<Rightarrow> (None, set_node f (Some (RegularFile (c @ d))) s)
                | Some (e, n) \<Rightarrow> (Some e, set_node f (Some (RegularFile (c @ take n d))) s))
           | _ \<Rightarrow> (map_option fst fault, s)))"

definition os_handle_call :: "File \<Rightarrow> os \<Rightarrow> go_error option \<times> os" where
  "os_handle_call f s0 = (case next_fault s0 of (fault, s) \<Rightarrow> (map_option fst fault, s))"

section \<open>DefaultFs\<close>

definition fs_prefix :: "string \<Rightarrow> string \<Rightarrow> string" where
  "fs_prefix root path = (if length root = 0 then path else filepath_Join [root, path])"

definition DefaultFs_Rename :: "string \<Rightarrow> string \<Rightarrow> string \<Rightarrow> os \<Rightarrow> go_error option \<times> os" where
  "DefaultFs_Rename root old new =
     os_Rename (if \<not> HasPrefix old root then fs_prefix root old else old)
               (if \<not> HasPrefix new root then fs_prefix root new else new)"

text \<open>The operations take the path below the root; an open file is its name.\<close>

definition DefaultFs_Stat :: "string \<Rightarrow> string \<Rightarrow> os \<Rightarrow> FileMode result \<times> os" where
  [simp]: "DefaultFs_Stat root name = os_Stat (fs_prefix root name)"

definition DefaultFs_Create :: "string \<Rightarrow> string \<Rightarrow> os \<Rightarrow> File result \<times> os" where
  [simp]: "DefaultFs_Create root name = os_Create (fs_prefix root name)"

definition DefaultFs_MkdirAll :: "string \<Rightarrow> string \<Rightarrow> os \<Rightarrow> go_error option \<times> os" where
  [simp]: "DefaultFs_MkdirAll root path = os_MkdirAll (fs_prefix root path)"

definition DefaultFs_RemoveAll :: "string \<Rightarrow> string \<Rightarrow> os \<Rightarrow> go_error option \<times> os" where
  [simp]: "DefaultFs_RemoveAll root path = os_RemoveAll (fs_prefix root path)"

definition DefaultFs_Remove :: "string \<Rightarrow> string \<Rightarrow> os \<Rightarrow> go_error option \<times> os" where
  [simp]: "DefaultFs_Remove root name = os_Remove (fs_prefix root name)"

definition DefaultFs_ReadFile :: "string \<Rightarrow> string \<Rightarrow> os \<Rightarrow> string result \<times> os" where
  [simp]: "DefaultFs_ReadFile root filename = os_ReadFile (fs_prefix root filename)"

definition DefaultFs_TempDir :: "string \<Rightarrow> string \<Rightarrow> string \<Rightarrow> os \<Rightarrow> string result \<times> os" where
  [simp]: "DefaultFs_TempDir root dir = os_MkdirTemp (fs_prefix root dir)"

definition DefaultFs_TempFile :: "string \<Rightarrow> string \<Rightarrow> string \<Rightarrow> os \<Rightarrow> File result \<times> os" where
  [simp]: "DefaultFs_TempFile root dir = os_CreateTemp (fs_prefix root dir)"

definition defaultFile_Name :: "File \<Rightarrow> string" where
  [simp]: "defaultFile_Name f = f"

definition defaultFile_Write :: "File \<Rightarrow> string \<Rightarrow> os \<Rightarrow> go_error option \<times> os" where
  [simp]: "defaultFile_Write f = os_Write f"

definition defaultFile_Sync :: "File \<Rightarrow> os \<Rightarrow> go_error option \<times> os" where
  [simp]: "defaultFile_Sync f = os_handle_call f"

definition defaultFile_Close :: "File \<Rightarrow> os \<Rightarrow> go_error option \<times> os" where
  [simp]: "defaultFile_Close f = os_handle_call f"

definition DefaultFs :: "string \<Rightarrow> os Filesystem" where
  "DefaultFs root = \<lparr>
     fs_Stat = DefaultFs_Stat root, fs_Create = DefaultFs_Create root, fs_Rename = DefaultFs_Rename root,
     fs_MkdirAll = DefaultFs_MkdirAll root, fs_RemoveAll = DefaultFs_RemoveAll root, fs_Remove = DefaultFs_Remove root,
     fs_ReadFile = DefaultFs_ReadFile root, fs_TempDir = DefaultFs_TempDir root, fs_TempFile = DefaultFs_TempFile root,
     file_Name = defaultFile_Name, file_Write = defaultFile_Write, file_Sync = defaultFile_Sync,
     file_Close = defaultFile_Close\<rparr>"

text \<open>\<^verbatim>\<open>NewTempFs\<close>: below a new directory in the directory for temporary files; an error leaves the empty root.\<close>

definition NewTempFs :: "string \<Rightarrow> os \<Rightarrow> os Filesystem \<times> os" where
  "NewTempFs tempDir s =
     (case os_MkdirTemp tempDir ''tmpfs'' s of
        (Inl err, s') \<Rightarrow> (DefaultFs [], s')
      | (Inr path, s') \<Rightarrow> (DefaultFs path, s'))"

section \<open>What the users of the interface rely on\<close>

text \<open>
  A view of the files and their content. A call that fails changes nothing, except that a
  failing write leaves some prefix of what was to be written.
\<close>

locale filesystem =
  fixes fs :: "'s Filesystem" and view :: "'s \<Rightarrow> string \<rightharpoonup> string"
  assumes Name: "file_Name fs f = f"
    and TempFile_ok: "fs_TempFile fs dir pat s = (Inr f, s') \<Longrightarrow> view s f = None \<and> view s' = (view s)(f \<mapsto> [])"
    and TempFile_err: "fs_TempFile fs dir pat s = (Inl e, s') \<Longrightarrow> view s' = view s"
    and Write_ok: "view s f = Some c \<Longrightarrow> file_Write fs f d s = (None, s') \<Longrightarrow> view s' = (view s)(f \<mapsto> c @ d)"
    and Write_err: "view s f = Some c \<Longrightarrow> file_Write fs f d s = (Some e, s') \<Longrightarrow>
      \<exists>n. view s' = (view s)(f \<mapsto> c @ take n d)"
    and Sync: "view (snd (file_Sync fs f s)) = view s"
    and Close: "view (snd (file_Close fs f s)) = view s"
    and Remove_ok: "fs_Remove fs p s = (None, s') \<Longrightarrow> view s' = (view s)(p := None)"
    and Remove_err: "fs_Remove fs p s = (Some e, s') \<Longrightarrow> view s' = view s"
    and Rename_ok: "view s a = Some c \<Longrightarrow> fs_Rename fs a b s = (None, s') \<Longrightarrow> view s' = (view s)(a := None, b \<mapsto> c)"
    and Rename_err: "fs_Rename fs a b s = (Some e, s') \<Longrightarrow> view s' = view s"

definition os_view :: "os \<Rightarrow> string \<rightharpoonup> string" where
  "os_view s p = (case os_nodes s p of Some (RegularFile c) \<Rightarrow> Some c | _ \<Rightarrow> None)"

lemma next_fault_view [simp]:
  "os_nodes (snd (next_fault s)) = os_nodes s"
  by (simp add: next_fault_def split: list.splits)

lemma next_fault_nodes: "next_fault s = (f, s') \<Longrightarrow> os_nodes s' = os_nodes s"
  using next_fault_view [of s] by simp

lemma os_view_cong: "os_nodes s' = os_nodes s \<Longrightarrow> os_view s' = os_view s"
  by (auto simp: os_view_def fun_eq_iff)

lemma os_view_set [simp]:
  "os_view (set_node p (Some (RegularFile c)) s) = (os_view s)(p \<mapsto> c)"
  "os_view (set_node p None s) = (os_view s)(p := None)"
  "os_view (s\<lparr>os_random := rs\<rparr>) = os_view s"
  by (auto simp: os_view_def set_node_def fun_eq_iff)

lemma fresh_temp_fresh: "fresh_temp dir pat rs m = Some (p, rs') \<Longrightarrow> m p = None"
  by (induction rs) (auto split: if_splits)

lemma move_file_view:
  "os_nodes s a = Some (RegularFile c) \<Longrightarrow> os_nodes s b \<noteq> Some Directory \<Longrightarrow>
     os_view (s\<lparr>os_nodes := move_node a b (os_nodes s)\<rparr>) = (os_view s)(a := None, b \<mapsto> c)"
  by (auto simp: os_view_def move_node_def fun_eq_iff)

lemma os_view_Some: "os_view s p = Some c \<longleftrightarrow> os_nodes s p = Some (RegularFile c)"
  by (auto simp: os_view_def split: option.splits os_node.splits)

lemma os_Write_view:
  assumes "os_view s f = Some c" and "os_Write f d s = (err, s')"
  shows "\<exists>n. os_view s' = (os_view s)(f \<mapsto> c @ take n d) \<and> (err = None \<longrightarrow> length d \<le> n)"
proof -
  obtain fault s1 where nf: "next_fault s = (fault, s1)" by (metis surj_pair)
  then have n: "os_nodes s1 = os_nodes s" and v: "os_view s1 = os_view s"
    by (auto dest: next_fault_nodes intro: os_view_cong)
  show ?thesis
  proof (cases fault)
    case None
    then show ?thesis
      using assms nf n v by (auto simp: os_Write_def os_view_Some intro!: exI [of _ "length d"])
  next
    case (Some en)
    then show ?thesis
      using assms nf n v by (auto simp: os_Write_def os_view_Some split: prod.splits)
  qed
qed

lemma next_fault_os_view: "next_fault s = (f, s') \<Longrightarrow> os_view s' = os_view s"
  by (rule os_view_cong) (rule next_fault_nodes)

lemma os_Rename_view:
  assumes "os_view s a = Some c" and "os_Rename a b s = (None, s')"
  shows "os_view s' = (os_view s)(a := None, b \<mapsto> c)"
proof -
  obtain fault s1 where nf: "next_fault s = (fault, s1)" by (metis surj_pair)
  then have n: "os_nodes s1 = os_nodes s" and v: "os_view s1 = os_view s"
    by (auto dest: next_fault_nodes intro: os_view_cong)
  have a: "os_nodes s1 a = Some (RegularFile c)" using assms(1) n by (simp add: os_view_Some)
  show ?thesis
  proof (cases "a = b")
    case True
    then show ?thesis
      using assms nf a v by (auto simp: os_Rename_def fun_eq_iff split: option.splits)
  next
    case False
    then have "s' = s1\<lparr>os_nodes := move_node a b (os_nodes s1)\<rparr> \<and> os_nodes s1 b \<noteq> Some Directory"
      using assms(2) nf a by (auto simp: os_Rename_def split: option.splits if_splits prod.splits)
    then show ?thesis using move_file_view [OF a] v by simp
  qed
qed

interpretation dfs: filesystem "DefaultFs []" os_view
proof unfold_locales
  fix f dir pat p a b d c e and s s' :: os
  show "file_Name (DefaultFs []) f = f" by (simp add: DefaultFs_def)
  show "fs_TempFile (DefaultFs []) dir pat s = (Inr f, s') \<Longrightarrow>
      os_view s f = None \<and> os_view s' = (os_view s)(f \<mapsto> [])"
    by (auto simp: DefaultFs_def fs_prefix_def os_CreateTemp_def os_temp_def os_view_def
        dest!: next_fault_nodes fresh_temp_fresh split: prod.splits option.splits if_splits)
  show "fs_TempFile (DefaultFs []) dir pat s = (Inl e, s') \<Longrightarrow> os_view s' = os_view s"
    by (auto simp: DefaultFs_def fs_prefix_def os_CreateTemp_def os_temp_def
        dest!: next_fault_nodes intro: os_view_cong split: prod.splits option.splits if_splits)
  show "os_view s f = Some c \<Longrightarrow> file_Write (DefaultFs []) f d s = (None, s') \<Longrightarrow> os_view s' = (os_view s)(f \<mapsto> c @ d)"
    using os_Write_view [of s f c d None s'] by (auto simp: DefaultFs_def)
  show "os_view s f = Some c \<Longrightarrow> file_Write (DefaultFs []) f d s = (Some e, s') \<Longrightarrow>
      \<exists>n. os_view s' = (os_view s)(f \<mapsto> c @ take n d)"
    using os_Write_view [of s f c d "Some e" s'] by (auto simp: DefaultFs_def)
  show "os_view (snd (file_Sync (DefaultFs []) f s)) = os_view s"
    by (auto simp: DefaultFs_def os_handle_call_def intro: os_view_cong dest!: next_fault_nodes split: prod.splits)
  show "os_view (snd (file_Close (DefaultFs []) f s)) = os_view s"
    by (auto simp: DefaultFs_def os_handle_call_def intro: os_view_cong dest!: next_fault_nodes split: prod.splits)
  show "fs_Remove (DefaultFs []) p s = (None, s') \<Longrightarrow> os_view s' = (os_view s)(p := None)"
    by (auto simp: DefaultFs_def fs_prefix_def os_Remove_def dest: next_fault_os_view
        split: prod.splits option.splits os_node.splits)
  show "fs_Remove (DefaultFs []) p s = (Some e, s') \<Longrightarrow> os_view s' = os_view s"
    by (auto simp: DefaultFs_def fs_prefix_def os_Remove_def intro: os_view_cong dest!: next_fault_nodes
        split: prod.splits option.splits os_node.splits)
  show "os_view s a = Some c \<Longrightarrow> fs_Rename (DefaultFs []) a b s = (None, s') \<Longrightarrow>
      os_view s' = (os_view s)(a := None, b \<mapsto> c)"
    using os_Rename_view [of s a c b s']
    by (simp add: DefaultFs_def DefaultFs_Rename_def fs_prefix_def HasPrefix_def)
  show "fs_Rename (DefaultFs []) a b s = (Some e, s') \<Longrightarrow> os_view s' = os_view s"
    by (auto simp: DefaultFs_def DefaultFs_Rename_def fs_prefix_def HasPrefix_def os_Rename_def
        intro: os_view_cong dest!: next_fault_nodes split: prod.splits option.splits if_splits)
qed

end
