(* ===== verification/ResultFetcher.thy ===== *)
theory ResultFetcher
  imports SlurmServer VKReader FileSystem GoFlag
begin

text \<open>
  The result fetcher (\<^verbatim>\<open>cmd/result-fetcher/result-fetcher.go\<close>): the program that the result job of the
  operator runs to copy the output of a Slurm job from the agent into the result volume. It runs on the
  operating system of \<open>FileSystem\<close>; dialling the agent and its \<^verbatim>\<open>OpenFile\<close> call are parameters, as the
  stream the client receives. The program ends with a fatal error (its message) or
  with the path of the file.
\<close>

record fetcher_args =
  fa_from :: string
  fa_to :: string
  fa_endpoint :: string
  fa_sock :: string

text \<open>The values of the flags that are not given.\<close>

definition default_args :: fetcher_args where
  "default_args = \<lparr>fa_from = [], fa_to = [], fa_endpoint = '':9999'', fa_sock = []\<rparr>"

datatype fetcher_exit = Fatal string | Collected string | UsageExit nat

record fetcher_net =
  fn_Dial :: "string \<Rightarrow> go_error option"
  fn_OpenFile :: "string \<Rightarrow> OpenFileRequest \<Rightarrow> stream result"
  fn_text :: "go_error \<Rightarrow> string"

definition agent_addr :: "fetcher_args \<Rightarrow> string" where
  "agent_addr args =
     (let addr = fa_sock args in
      if length addr = 0 then fa_endpoint args else ''unix://'' @ fa_sock args)"

text \<open>The loop that receives chunks and writes them; \<^const>\<open>None\<close>: the end of the file was reached.\<close>

fun receive_loop :: "fetcher_net \<Rightarrow> File \<Rightarrow> Chunk list \<Rightarrow> go_error \<Rightarrow> os \<Rightarrow> string option \<times> os" where
  "receive_loop net toFile [] e s =
     (if e = EOF then (None, s) else (Some (''err while receiving file '' @ fn_text net e), s))"
| "receive_loop net toFile (chunk # cs) e s0 =
     (case os_Write toFile (ch_Content chunk) s0 of
        (Some err, s) \<Rightarrow> (Some (''can't write to file err: '' @ fn_text net err), s)
      | (None, s) \<Rightarrow> receive_loop net toFile cs e s)"

definition target_path :: "fetcher_args \<Rightarrow> string" where
  "target_path args = filepath_Join [fa_to args, filepath_Base (fa_from args)]"

definition fetcher_main :: "fetcher_net \<Rightarrow> fetcher_args \<Rightarrow> os \<Rightarrow> fetcher_exit \<times> os" where
  "fetcher_main net args s0 =
     (if fa_from args = [] then (Fatal ''from can't be empty'', s0)
      else if fa_to args = [] then (Fatal ''to can't be empty'', s0)
      else if fa_sock args = [] \<and> fa_endpoint args = [] then (Fatal ''slurm agent endpoint can't be empty'', s0)
      else case fn_Dial net (agent_addr args) of
        Some err \<Rightarrow> (Fatal (''can't connect to '' @ fa_sock args @ '' '' @ fn_text net err), s0)
      | None \<Rightarrow>
          (case fn_OpenFile net (agent_addr args) \<lparr>of_Path = fa_from args\<rparr> of
             Inl err \<Rightarrow> (Fatal (''can't open file err: '' @ fn_text net err), s0)
           | Inr (chunks, e) \<Rightarrow>
               (case os_MkdirAll (fa_to args) s0 of
                  (Some err, s) \<Rightarrow> (Fatal (''can't create dir on mounted volume err: '' @ fn_text net err), s)
                | (None, s) \<Rightarrow>
                    (case os_Create (target_path args) s of
                       (Inl err, s) \<Rightarrow>
                         (Fatal (''can't not create file with results on mounted volume err: '' @ fn_text net err), s)
                     | (Inr toFile, s) \<Rightarrow>
                         (case receive_loop net toFile chunks e s of
                            (Some msg, s) \<Rightarrow> (Fatal msg, s)
                          | (None, s) \<Rightarrow> (Collected (target_path args), snd (os_handle_call toFile s)))))))"

section \<open>The command line\<close>

text \<open>The flags of the fetcher, and the program: an error of the flags ends it with status 2.\<close>

definition fetcher_flags :: "(string \<times> flag_kind) list" where
  "fetcher_flags =
     [(''from'', StringFlag), (''to'', StringFlag), (''endpoint'', StringFlag), (''sock'', StringFlag)]"

definition args_of_flags :: "(string \<rightharpoonup> string) \<Rightarrow> fetcher_args" where
  "args_of_flags m =
     \<lparr>fa_from = flag_string m ''from'' (fa_from default_args), fa_to = flag_string m ''to'' (fa_to default_args),
      fa_endpoint = flag_string m ''endpoint'' (fa_endpoint default_args),
      fa_sock = flag_string m ''sock'' (fa_sock default_args)\<rparr>"

definition fetcher_program :: "go_flag_lib \<Rightarrow> fetcher_net \<Rightarrow> string list \<Rightarrow> os \<Rightarrow> fetcher_exit \<times> os" where
  "fetcher_program L net argv s =
     (case parse_flags L fetcher_flags argv Map.empty of
        HelpRequested \<Rightarrow> (UsageExit 0, s)
      | FlagError msg \<Rightarrow> (UsageExit 2, s)
      | Parsed m _ \<Rightarrow> fetcher_main net (args_of_flags m) s)"

section \<open>What is collected\<close>

lemma receive_loop_view:
  assumes "os_view s f = Some c" and "receive_loop net f cs e s = (r, s')"
  shows "(r = None \<longrightarrow> e = EOF \<and> os_view s' = (os_view s)(f \<mapsto> c @ bytes_of cs)) \<and>
    (\<forall>q. q \<noteq> f \<longrightarrow> os_view s' q = os_view s q)"
  using assms
proof (induction cs arbitrary: s c)
  case Nil
  then show ?case by (auto simp: fun_eq_iff split: if_splits)
next
  case (Cons x cs)
  obtain err s1 where w: "os_Write f (ch_Content x) s = (err, s1)" by (metis surj_pair)
  obtain n where n: "os_view s1 = (os_view s)(f \<mapsto> c @ take n (ch_Content x))"
    "err = None \<Longrightarrow> length (ch_Content x) \<le> n"
    using os_Write_view [OF Cons.prems(1) w] by blast
  show ?case
  proof (cases err)
    case None
    then have "os_view s1 f = Some (c @ ch_Content x)" using n by simp
    moreover have "receive_loop net f cs e s1 = (r, s')" using Cons.prems(2) w None by simp
    ultimately show ?thesis using Cons.IH [of s1 "c @ ch_Content x"] n None by auto
  next
    case (Some a)
    then show ?thesis using Cons.prems(2) w n by auto
  qed
qed

lemma make_dirs_view: "make_dirs ps s = (r, s') \<Longrightarrow> os_view s' = os_view s"
proof (induction ps arbitrary: s)
  case (Cons p ps)
  have "os_nodes s p = None \<Longrightarrow> os_view (set_node p (Some Directory) s) = os_view s"
    by (auto simp: os_view_def set_node_def fun_eq_iff)
  then show ?case using Cons by (auto split: option.splits os_node.splits)
qed simp

lemma os_MkdirAll_view: "os_MkdirAll p s = (r, s') \<Longrightarrow> os_view s' = os_view s"
  using make_dirs_view next_fault_os_view
  by (fastforce simp: os_MkdirAll_def split: prod.splits option.splits)

lemma os_Create_view:
  "os_Create p s = (Inr f, s') \<Longrightarrow> f = p \<and> os_view s' = (os_view s)(p \<mapsto> [])"
  by (auto simp: os_Create_def dest: next_fault_os_view split: prod.splits option.splits if_splits os_node.splits)

lemma os_Create_failed: "os_Create p s = (Inl e, s') \<Longrightarrow> os_view s' = os_view s"
  by (auto simp: os_Create_def dest: next_fault_os_view split: prod.splits option.splits if_splits os_node.splits)

lemma os_handle_view: "os_view (snd (os_handle_call f s)) = os_view s"
  by (auto simp: os_handle_call_def dest: next_fault_os_view split: prod.splits)

lemma fetcher_main_collects:
  assumes "fetcher_main net args s = (r, s')"
  shows "(\<forall>q. q \<noteq> target_path args \<longrightarrow> os_view s' q = os_view s q) \<and>
    (\<forall>p. r = Collected p \<longrightarrow> p = target_path args \<and>
      (\<exists>cs. fn_OpenFile net (agent_addr args) \<lparr>of_Path = fa_from args\<rparr> = Inr (cs, EOF) \<and>
        os_view s' p = Some (bytes_of cs)))"
proof (cases "fa_from args = [] \<or> fa_to args = [] \<or> (fa_sock args = [] \<and> fa_endpoint args = []) \<or>
    fn_Dial net (agent_addr args) \<noteq> None")
  case True
  then show ?thesis using assms by (auto simp: fetcher_main_def split: if_splits)
next
  case False
  let ?p = "target_path args"
  show ?thesis
  proof (cases "fn_OpenFile net (agent_addr args) \<lparr>of_Path = fa_from args\<rparr>")
    case (Inl err)
    then show ?thesis using assms False by (auto simp: fetcher_main_def split: if_splits)
  next
    case (Inr st)
    obtain cs e where st: "st = (cs, e)" by (cases st)
    obtain me s1 where m: "os_MkdirAll (fa_to args) s = (me, s1)" by (metis surj_pair)
    obtain cr s2 where c: "os_Create ?p s1 = (cr, s2)" by (metis surj_pair)
    have v1: "os_view s1 = os_view s" by (rule os_MkdirAll_view [OF m])
    show ?thesis
    proof (cases "me = None \<and> (\<exists>f. cr = Inr f)")
      case True
      then obtain f where f: "me = None" "cr = Inr f" by blast
      then have c2: "f = ?p" "os_view s2 = (os_view s)(?p \<mapsto> [])" using os_Create_view c v1 by auto
      obtain lr s3 where l: "receive_loop net ?p cs e s2 = (lr, s3)" by (metis surj_pair)
      have v2: "os_view s2 ?p = Some []" using c2 by simp
      note rl = receive_loop_view [OF v2 l]
      have main: "fetcher_main net args s = (case lr of
          Some msg \<Rightarrow> (Fatal msg, s3) | None \<Rightarrow> (Collected ?p, snd (os_handle_call ?p s3)))"
        using False Inr st m c f c2(1) l by (auto simp: fetcher_main_def split: option.splits)
      show ?thesis
      proof (cases lr)
        case None
        then have "r = Collected ?p" "os_view s' = os_view s3" using assms main os_handle_view by auto
        then show ?thesis using rl None Inr st c2 by (auto simp: fun_eq_iff)
      next
        case (Some msg)
        then show ?thesis using assms main rl c2 by auto
      qed
    next
      case nofile: False
      then have "(\<exists>msg. r = Fatal msg) \<and> (s' = s1 \<or> s' = s2 \<and> (\<exists>e. cr = Inl e))"
        using assms False Inr st m c by (cases cr; cases me) (auto simp: fetcher_main_def split: if_splits)
      then show ?thesis using v1 os_Create_failed c by auto
    qed
  qed
qed

text \<open>
  What the fetcher collects is the file of the agent: when it ends by reporting a path, that file,
  in the target directory under the name of the source, holds exactly what the agent's \<^verbatim>\<open>OpenFile\<close>
  streams of the file it read; however the run ends, no other file of the volume is touched.
\<close>

theorem collected_is_job_output:
  assumes "fetcher_main net args s = (r, s')"
    and "os_Open h (fa_from args) w = Opened (file_reads content)"
    and "\<forall>cs. OpenFile h \<lparr>of_Path = fa_from args\<rparr> (\<lambda>cs x. None) w = Some (cs, None) \<longrightarrow>
      fn_OpenFile net (agent_addr args) \<lparr>of_Path = fa_from args\<rparr> = Inr (cs, EOF)"
  shows "(\<forall>q. q \<noteq> target_path args \<longrightarrow> os_view s' q = os_view s q) \<and>
    (\<forall>p. r = Collected p \<longrightarrow> p = target_path args \<and> os_view s' p = Some content)"
proof -
  obtain cs where "fn_OpenFile net (agent_addr args) \<lparr>of_Path = fa_from args\<rparr> = Inr (cs, EOF)"
    "bytes_of cs = content"
    using OpenFile_stream [OF assms(2)] assms(3) by metis
  then show ?thesis using fetcher_main_collects [OF assms(1)] by auto
qed

text \<open>It does collect: without faults every chunk is written.\<close>

lemma receive_loop_ends:
  "os_faults s = [] \<Longrightarrow> fst (receive_loop net f cs EOF s) = None"
proof (induction cs arbitrary: s)
  case (Cons x cs)
  have "next_fault s = (None, s)" using Cons.prems by (simp add: next_fault_def)
  then have "os_Write f (ch_Content x) s = (None, snd (os_Write f (ch_Content x) s))"
    "os_faults (snd (os_Write f (ch_Content x) s)) = []"
    using Cons.prems by (auto simp: os_Write_def set_node_def split: option.splits os_node.splits)
  then show ?case using Cons.IH by (auto split: prod.splits)
qed simp

text \<open>
  The fetcher reports success when nothing fails: the agent is reached and streams the file, the
  target directory can be made and the target is not a directory.
\<close>

lemma fetcher_collects:
  assumes "fa_from args \<noteq> []" and "fa_to args \<noteq> []" and "fa_sock args \<noteq> [] \<or> fa_endpoint args \<noteq> []"
    and "fn_Dial net (agent_addr args) = None"
    and "fn_OpenFile net (agent_addr args) \<lparr>of_Path = fa_from args\<rparr> = Inr (cs, EOF)"
    and "os_MkdirAll (fa_to args) s = (None, s1)" and "os_faults s1 = []"
    and "parent_is_dir (target_path args) s1" and "os_nodes s1 (target_path args) \<noteq> Some Directory"
  shows "fst (fetcher_main net args s) = Collected (target_path args)"
proof -
  let ?p = "target_path args" and ?s = "set_node (target_path args) (Some (RegularFile [])) s1"
  have "os_Create ?p s1 = (Inr ?p, ?s)"
    using assms(7-9) by (auto simp: os_Create_def next_fault_def split: option.splits os_node.splits)
  moreover have "fst (receive_loop net ?p cs EOF ?s) = None"
    using assms(7) by (intro receive_loop_ends) (simp add: set_node_def)
  ultimately show ?thesis
    using assms(1-6) by (cases "receive_loop net ?p cs EOF ?s") (auto simp: fetcher_main_def)
qed

text \<open>A concrete run against an agent that has the file.\<close>

definition fetch_args :: fetcher_args where
  "fetch_args = default_args\<lparr>fa_from := ''/o/j.out'', fa_to := ''/r''\<rparr>"

definition fetch_host :: "64 word agent_host" where
  "fetch_host = counting_agent\<lparr>os_Open := (\<lambda>p w. Opened (file_reads ''hello''))\<rparr>"

definition fetch_net :: fetcher_net where
  "fetch_net = \<lparr>fn_Dial = (\<lambda>_. None),
     fn_OpenFile = (\<lambda>_ q. case OpenFile fetch_host q (\<lambda>cs x. None) 1 of
       Some (cs, None) \<Rightarrow> Inr (cs, EOF) | Some (cs, Some e) \<Rightarrow> Inr (cs, e) | None \<Rightarrow> Inl (Sentinel ''none'')),
     fn_text = (\<lambda>_. [])\<rparr>"

definition volume_os :: os where
  "volume_os = \<lparr>os_nodes = [''/'' \<mapsto> Directory, ''/r'' \<mapsto> Directory], os_faults = [], os_random = [], os_mode = (\<lambda>_. [])\<rparr>"

lemma fetch_target: "target_path fetch_args = ''/r/j.out''"
  by code_simp

lemma fetch_mkdir: "os_MkdirAll ''/r'' volume_os = (None, volume_os)"
proof -
  have "ancestors ''/r'' = [''/r'']" by code_simp
  then show ?thesis by (simp add: os_MkdirAll_def next_fault_def volume_os_def)
qed

lemma fetch_parent: "parent_is_dir ''/r/j.out'' volume_os"
proof -
  have "filepath_Dir ''/r/j.out'' = ''/r''" by code_simp
  then show ?thesis by (simp add: parent_is_dir_def volume_os_def)
qed

lemma fetch_stream:
  obtains cs where "OpenFile fetch_host \<lparr>of_Path = p\<rparr> (\<lambda>cs x. None) 1 = Some (cs, None)"
  using OpenFile_stream [of fetch_host p 1 "''hello''"] by (auto simp: fetch_host_def)

lemma fetch_collects:
  "fst (fetcher_main fetch_net fetch_args volume_os) = Collected ''/r/j.out''"
proof -
  obtain cs where cs: "OpenFile fetch_host \<lparr>of_Path = fa_from fetch_args\<rparr> (\<lambda>cs x. None) 1 = Some (cs, None)"
    by (rule fetch_stream)
  have "fa_to fetch_args = ''/r''" by (simp add: fetch_args_def)
  then have m: "os_MkdirAll (fa_to fetch_args) volume_os = (None, volume_os)" using fetch_mkdir by simp
  have target: "parent_is_dir (target_path fetch_args) volume_os"
    "os_nodes volume_os (target_path fetch_args) \<noteq> Some Directory"
    unfolding fetch_target by (rule fetch_parent) (simp add: volume_os_def)
  have "fst (fetcher_main fetch_net fetch_args volume_os) = Collected (target_path fetch_args)"
    by (rule fetcher_collects [OF _ _ _ _ _ m _ target])
       (use cs in \<open>simp_all add: fetch_args_def default_args_def fetch_net_def volume_os_def\<close>)
  then show ?thesis by (simp add: fetch_target)
qed

theorem collected_is_job_output_witness:
  "os_view (snd (fetcher_main fetch_net fetch_args volume_os)) ''/r/j.out'' = Some ''hello''"
proof -
  have 1: "os_Open fetch_host (fa_from fetch_args) 1 = Opened (file_reads ''hello'')" by (simp add: fetch_host_def)
  have 2: "\<forall>cs. OpenFile fetch_host \<lparr>of_Path = fa_from fetch_args\<rparr> (\<lambda>cs x. None) 1 = Some (cs, None) \<longrightarrow>
      fn_OpenFile fetch_net (agent_addr fetch_args) \<lparr>of_Path = fa_from fetch_args\<rparr> = Inr (cs, EOF)"
    by (auto simp: fetch_net_def)
  show ?thesis
    using collected_is_job_output [OF prod.collapse [symmetric] 1 2, of volume_os] fetch_target fetch_collects by auto
qed

end
