(* ===== verification/ResultPipeline.thy ===== *)
theory ResultPipeline
  imports ResultFetcher Operator
begin

text \<open>
  The way of a result: the operator's status of a Slurm job, the container it makes of it
  (\<^verbatim>\<open>pkg/slurm-bridge-operator/result.go\<close>), the shell that runs the container's command, the flags of the
  fetcher and the file it leaves in the result volume. The shell is a parameter, of which only the
  splitting of plain words is used.
\<close>

section \<open>The command of a container\<close>

text \<open>Characters that mean nothing to the shell.\<close>

definition plain_char :: "char \<Rightarrow> bool" where
  "plain_char c \<longleftrightarrow> c \<in> set (''abcdefghijklmnopqrstuvwxyzABCDEFGHIJKLMNOPQRSTUVWXYZ'' @ ''0123456789/._-:,+@'')"

definition plain_word :: "string \<Rightarrow> bool" where
  "plain_word w \<longleftrightarrow> w \<noteq> [] \<and> list_all plain_char w"

definition spaced :: "string list \<Rightarrow> string" where
  "spaced ws = concat (map (\<lambda>w. w @ '' '') ws)"

text \<open>What \<^verbatim>\<open>sh -c\<close> makes of a text: the words of the command it runs.\<close>

definition splits_plain :: "(string \<Rightarrow> string list) \<Rightarrow> bool" where
  "splits_plain sh \<longleftrightarrow> (\<forall>ws. list_all plain_word ws \<longrightarrow> sh (spaced ws) = ws)"

definition fetch_words :: "SlurmBridgeJob \<Rightarrow> SlurmSubjobStatus \<Rightarrow> string list" where
  "fetch_words sjb u =
     [''/result-fetcher'', ''--from'', ub_StdOut u, ''--to'', ''/result/'' @ sbj_Name sjb, ''--endpoint'',
      bs_ClusterEndPoint (sbj_Status sjb)]"

lemma result_container_command:
  "c_Command (result_container sjb volume u) = [''sh'', ''-c'', spaced (fetch_words sjb u)]"
  by (simp add: result_container_def spaced_def fetch_words_def new_container_def)

lemma plain_word_append: "plain_word v \<Longrightarrow> list_all plain_char w \<Longrightarrow> plain_word (v @ w)"
  by (simp add: plain_word_def)

lemma plain_constants:
  "plain_word ''/result-fetcher''" "plain_word ''--from''" "plain_word ''--to''" "plain_word ''--endpoint''"
  "plain_word ''/result/''"
  by code_simp+

lemma fetch_words_plain:
  assumes "plain_word (ub_StdOut u)" and "plain_word (sbj_Name sjb)" and "plain_word (bs_ClusterEndPoint (sbj_Status sjb))"
  shows "list_all plain_word (fetch_words sjb u)"
  using assms plain_constants plain_word_append [OF plain_constants(5), of "sbj_Name sjb"]
  by (simp add: fetch_words_def plain_word_def [of "sbj_Name sjb"])

section \<open>The flags of the fetcher\<close>

lemma split_flag_constants:
  "split_flag ''--from'' = FlagArg ''from'' None" "split_flag ''--to'' = FlagArg ''to'' None"
  "split_flag ''--endpoint'' = FlagArg ''endpoint'' None"
  by code_simp+

lemma fetcher_program_flags:
  "fetcher_program L net [''--from'', f, ''--to'', t, ''--endpoint'', e] s =
     fetcher_main net \<lparr>fa_from = f, fa_to = t, fa_endpoint = e, fa_sock = []\<rparr> s"
  by (simp add: fetcher_program_def split_flag_constants fetcher_flags_def args_of_flags_def
      default_args_def flag_string_def)

text \<open>
  A job without an output file or without the address of its agent is not fetched: the shell drops the
  empty word, and the next flag is taken for the value, or a value is missing.
\<close>

lemma fetcher_program_no_file:
  "fetcher_program L net [''--from'', ''--to'', ''/result/'' @ name, ''--endpoint'', e] s =
     (Fatal ''to can't be empty'', s)"
proof -
  have "split_flag (''/result/'' @ name) = NotFlag" by (simp add: split_flag_def)
  then show ?thesis
    by (simp add: fetcher_program_def split_flag_constants fetcher_flags_def args_of_flags_def
        default_args_def flag_string_def fetcher_main_def)
qed

lemma fetcher_program_no_endpoint:
  "fetcher_program L net [''--from'', f, ''--to'', t, ''--endpoint''] s = (UsageExit 2, s)"
  by (simp add: fetcher_program_def split_flag_constants fetcher_flags_def)

section \<open>From the pod of a job to the file in the volume\<close>

lemma newJobForSJResult_container:
  assumes "newJobForSJResult sjb = Value job" and "map_of (bs_SubjobStatus (sbj_Status sjb)) i = Some u"
  shows "\<exists>volume. result_container sjb volume u \<in> set (ps_Containers (bj_Spec job))"
proof -
  have u: "u \<in> snd ` set (bs_SubjobStatus (sbj_Status sjb))"
    using map_of_SomeD [OF assms(2)] by force
  obtain volume where v: "sp_Result (sbj_Spec sjb) = Some volume"
    using assms(1) by (cases "sp_Result (sbj_Spec sjb)") (auto simp: newJobForSJResult_def split: outcome.splits)
  have "ps_Containers (bj_Spec job) = map (result_container sjb volume \<circ> snd) (bs_SubjobStatus (sbj_Status sjb))"
    using assms(1) v u
    by (cases "bs_SubjobStatus (sbj_Status sjb)") (auto simp: newJobForSJResult_def getJobResultContainers_def)
  then show ?thesis using u by (intro exI [of _ volume]) auto
qed

text \<open>
  C10. The result of a Slurm job reaches the volume. For a job of the message of a sizecar pod that was
  submitted through the agent at \<open>ep\<close>, the operator's result job has a container whose command the
  shell splits into the fetcher and its flags; when the fetcher, run with them against the agent that
  stores the output, reports the file, the volume holds under \<^verbatim>\<open>/result/\<close>, the job's name and the base
  name of the output exactly the bytes the agent reads, and no other file is touched. What is fetched is the
  standard error of the job.
\<close>

theorem result_reaches_volume:
  assumes "UpdateSBJStatus k sjb (Some pod) w = (r, sjb', w')"
    and "kb_Unmarshal k (pt_Message (pod_Status pod)) = Inr info" and "pt_Message (pod_Status pod) \<noteq> []"
    and "distinct (map ji_Id (jr_Info info))" and "ji \<in> set (jr_Info info)"
    and "om_Annotations (pod_Meta pod) LabelAgentEndPoint = Some ep"
    and "newJobForSJResult sjb' = Value job"
    and "splits_plain sh" and "plain_word (ji_StdErr ji)" and "plain_word (sbj_Name sjb)" and "plain_word ep"
    and "os_Open h (ji_StdErr ji) hw = Opened (file_reads content)"
    and "\<forall>cs. OpenFile h \<lparr>of_Path = ji_StdErr ji\<rparr> (\<lambda>cs x. None) hw = Some (cs, None) \<longrightarrow>
      fn_OpenFile net ep \<lparr>of_Path = ji_StdErr ji\<rparr> = Inr (cs, EOF)"
  shows "\<exists>c \<in> set (ps_Containers (bj_Spec job)). \<exists>command argv.
    c_Command c = [''sh'', ''-c'', command] \<and> sh command = ''/result-fetcher'' # argv \<and>
    (\<forall>s x s' p. fetcher_program L net argv s = (x, s') \<longrightarrow>
       (let file = filepath_Join [''/result/'' @ sbj_Name sjb, filepath_Base (ji_StdErr ji)] in
        (p \<noteq> file \<longrightarrow> os_view s' p = os_view s p) \<and>
        (x = Collected p \<longrightarrow> p = file \<and> os_view s' p = Some content)))"
proof -
  let ?u = "subjob_status k ji"
  have sub: "map_of (bs_SubjobStatus (sbj_Status sjb')) (ji_Id ji) = Some ?u"
    and ep: "bs_ClusterEndPoint (sbj_Status sjb') = ep"
    using UpdateSBJStatus_pod [OF assms(2-4,1)] assms(5,6) by auto
  have name: "sbj_Name sjb' = sbj_Name sjb"
    using assms(1) by (auto simp: UpdateSBJStatus_def Let_def split: splits_go)
  have out: "ub_StdOut ?u = ji_StdErr ji" by (simp add: subjob_status_def)
  obtain volume where c: "result_container sjb' volume ?u \<in> set (ps_Containers (bj_Spec job))"
    using newJobForSJResult_container [OF assms(7) sub] by blast
  let ?argv = "[''--from'', ji_StdErr ji, ''--to'', ''/result/'' @ sbj_Name sjb, ''--endpoint'', ep]"
  let ?args = "\<lparr>fa_from = ji_StdErr ji, fa_to = ''/result/'' @ sbj_Name sjb, fa_endpoint = ep, fa_sock = []\<rparr>"
  have words: "fetch_words sjb' ?u = ''/result-fetcher'' # ?argv" by (simp add: fetch_words_def out name ep)
  have "list_all plain_word (fetch_words sjb' ?u)"
    using assms(9-11) by (intro fetch_words_plain) (simp_all add: out name ep)
  then have sh: "sh (spaced (fetch_words sjb' ?u)) = ''/result-fetcher'' # ?argv"
    using assms(8) unfolding splits_plain_def words by blast
  obtain cs where cs: "fn_OpenFile net ep \<lparr>of_Path = ji_StdErr ji\<rparr> = Inr (cs, EOF)" "bytes_of cs = content"
    using OpenFile_stream [OF assms(12)] assms(13) by metis
  have "(p \<noteq> target_path ?args \<longrightarrow> os_view s' p = os_view s p) \<and>
      (x = Collected p \<longrightarrow> p = target_path ?args \<and> os_view s' p = Some content)"
    if "fetcher_program L net ?argv s = (x, s')" for s x s' p
  proof -
    have "fetcher_main net ?args s = (x, s')" using that by (simp only: fetcher_program_flags)
    from fetcher_main_collects [OF this] show ?thesis using cs by (auto simp: agent_addr_def)
  qed
  then show ?thesis
    using c sh result_container_command [of sjb' volume ?u]
    by (intro bexI [OF _ c] exI conjI) (auto simp: target_path_def Let_def)
qed

text \<open>A shell for plain words, and a job whose results go to the volume.\<close>

definition word_shell :: "string \<Rightarrow> string list" where
  "word_shell s = Fields s"

lemma plain_char_graphic: "plain_char c \<Longrightarrow> graphic c"
proof -
  have "list_all graphic (''abcdefghijklmnopqrstuvwxyzABCDEFGHIJKLMNOPQRSTUVWXYZ'' @ ''0123456789/._-:,+@'')"
    by code_simp
  then show "plain_char c \<Longrightarrow> graphic c" unfolding plain_char_def list_all_iff by blast
qed

lemma Fields_spaced: "list_all plain_word ws \<Longrightarrow> Fields (spaced ws) = ws"
proof (induction ws)
  case (Cons w ws)
  have "\<forall>c \<in> set w. graphic c" using Cons.prems plain_char_graphic by (auto simp: plain_word_def list_all_iff)
  moreover have "w \<noteq> []" using Cons.prems by (simp add: plain_word_def)
  ultimately show ?case using Cons by (simp add: spaced_def Fields_word)
qed (simp add: spaced_def Fields_def fields_aux.simps)

lemma word_shell_splits: "splits_plain word_shell"
  by (simp add: splits_plain_def word_shell_def Fields_spaced)

definition stored_job :: SlurmBridgeJob where
  "stored_job = (sample_sbj ''Running'')\<lparr>sbj_Spec := (sbj_Spec (sample_sbj []))\<lparr>sp_Result := Some ''v''\<rparr>\<rparr>"

definition annotated_pod :: Pod where
  "annotated_pod = (sample_pod PodSucceeded ''m'')\<lparr>pod_Meta :=
     (pod_Meta (sample_pod PodSucceeded ''m''))\<lparr>om_Annotations := [LabelAgentEndPoint \<mapsto> ''10.0.0.1:9999'']\<rparr>\<rparr>"

theorem result_reaches_volume_witness:
  "\<exists>sjb' w' job c command argv.
     UpdateSBJStatus (sample_kube stored_job [] \<lparr>jr_Info = [sample_info]\<rparr>) stored_job (Some annotated_pod) () =
       (Value (), sjb', w') \<and>
     newJobForSJResult sjb' = Value job \<and> c \<in> set (ps_Containers (bj_Spec job)) \<and>
     c_Command c = [''sh'', ''-c'', command] \<and> word_shell command = ''/result-fetcher'' # argv \<and>
     os_view (snd (fetcher_program sample_go_flags fetch_net argv volume_os)) ''/other'' = None"
proof -
  let ?k = "sample_kube stored_job [] \<lparr>jr_Info = [sample_info]\<rparr>"
  obtain r sjb' w' where u: "UpdateSBJStatus ?k stored_job (Some annotated_pod) () = (r, sjb', w')"
    by (metis surj_pair)
  have m: "kb_Unmarshal ?k (pt_Message (pod_Status annotated_pod)) = Inr \<lparr>jr_Info = [sample_info]\<rparr>"
    "pt_Message (pod_Status annotated_pod) \<noteq> []"
    by (simp_all add: sample_kube_def annotated_pod_def sample_pod_def)
  have d: "distinct (map ji_Id (jr_Info \<lparr>jr_Info = [sample_info]\<rparr>))" "sample_info \<in> set (jr_Info \<lparr>jr_Info = [sample_info]\<rparr>)"
    by simp_all
  have a: "om_Annotations (pod_Meta annotated_pod) LabelAgentEndPoint = Some ''10.0.0.1:9999''"
    by (simp add: annotated_pod_def)
  have r: "r = Value ()"
    using UpdateSBJStatus_pod [OF m d(1) u] by auto
  have "sp_Result (sbj_Spec sjb') = Some ''v''"
    using u m by (auto simp: UpdateSBJStatus_def Let_def stored_job_def split: splits_go)
  then have "\<exists>job. newJobForSJResult sjb' = Value job"
    by (cases "bs_SubjobStatus (sbj_Status sjb')") (simp_all add: newJobForSJResult_def getJobResultContainers_def)
  then obtain job where j: "newJobForSJResult sjb' = Value job" by blast
  have e: "ji_StdErr sample_info = ''/err''" "sbj_Name stored_job = ''job''"
    by (simp_all add: sample_info_def stored_job_def sample_sbj_def new_meta_def)
  have p: "plain_word (ji_StdErr sample_info)" "plain_word (sbj_Name stored_job)" "plain_word ''10.0.0.1:9999''"
    unfolding e by code_simp+
  have o': "os_Open fetch_host (ji_StdErr sample_info) 1 = Opened (file_reads ''hello'')" by (simp add: fetch_host_def)
  have n: "\<forall>cs. OpenFile fetch_host \<lparr>of_Path = ji_StdErr sample_info\<rparr> (\<lambda>cs x. None) 1 = Some (cs, None) \<longrightarrow>
      fn_OpenFile fetch_net ''10.0.0.1:9999'' \<lparr>of_Path = ji_StdErr sample_info\<rparr> = Inr (cs, EOF)"
    by (auto simp: fetch_net_def)
  have other: "''/other'' \<noteq> filepath_Join [''/result/'' @ sbj_Name stored_job, filepath_Base (ji_StdErr sample_info)]"
    unfolding e by code_simp
  note reaches = result_reaches_volume [OF u m d a j word_shell_splits p o' n]
  obtain c command argv where c: "c \<in> set (ps_Containers (bj_Spec job))" "c_Command c = [''sh'', ''-c'', command]"
    "word_shell command = ''/result-fetcher'' # argv" and
    run: "\<forall>s x s' p. fetcher_program sample_go_flags fetch_net argv s = (x, s') \<longrightarrow>
       (let file = filepath_Join [''/result/'' @ sbj_Name stored_job, filepath_Base (ji_StdErr sample_info)] in
        (p \<noteq> file \<longrightarrow> os_view s' p = os_view s p) \<and>
        (x = Collected p \<longrightarrow> p = file \<and> os_view s' p = Some ''hello''))"
    by (rule bexE [OF reaches], elim exE conjE) (rule that)
  note run [rule_format, OF prod.collapse [symmetric], unfolded Let_def, THEN conjunct1, rule_format, OF other]
  note c and this [of volume_os]
  moreover have "os_view volume_os ''/other'' = None" by (simp add: volume_os_def os_view_def)
  ultimately show ?thesis using u r j by (intro exI conjI) auto
qed

end
