(* ===== verification/FlagValues.thy ===== *)
theory FlagValues
  imports GoStrings
begin

text \<open>
  Values of command-line flags (\<^verbatim>\<open>pkg/common/flag/flags.go\<close>): an address, an address with an optional
  port, and a range of ports. A value is a pointer to a string; \<^const>\<open>None\<close> is nil, and setting
  the flag returns the pointer, with the string it points to, or panics. Parsing an
  address, a port and a range is done by apimachinery and is a parameter.
\<close>

record flag_lib =
  fv_ParseIPSloppy :: "string \<Rightarrow> bool"
  fv_ParsePort :: "string \<Rightarrow> bool"
  fv_ParsePortRange :: "string \<Rightarrow> go_error option"
  fv_Quote :: "string \<Rightarrow> string"
  fv_text :: "go_error \<Rightarrow> string"

type_synonym flag_value = "string option"

section \<open>Host and port\<close>

text \<open>\<^verbatim>\<open>net.SplitHostPort\<close>: host:port or [host]:port.\<close>

definition AddrError :: "string \<Rightarrow> string \<Rightarrow> go_error" where
  "AddrError hostport why = ErrorString (''address '' @ hostport @ '': '' @ why)"

text \<open>Where the last colon is: what is before it and after it.\<close>

definition last_colon :: "string \<Rightarrow> (string \<times> string) option" where
  "last_colon s =
     (if CHR '':'' \<in> set s
      then Some (rev (tl (dropWhile (\<lambda>c. c \<noteq> CHR '':'') (rev s))), rev (takeWhile (\<lambda>c. c \<noteq> CHR '':'') (rev s)))
      else None)"

definition SplitHostPort :: "string \<Rightarrow> (string \<times> string) result" where
  "SplitHostPort hostport =
     (case last_colon hostport of
        None \<Rightarrow> Inl (AddrError hostport ''missing port in address'')
      | Some (before, port) \<Rightarrow>
          (if hd hostport = CHR ''['' then
             (if CHR '']'' \<notin> set hostport then Inl (AddrError hostport ''missing ']' in address'')
              else
                let host = takeWhile (\<lambda>c. c \<noteq> CHR '']'') (tl hostport);
                    rest = tl (dropWhile (\<lambda>c. c \<noteq> CHR '']'') hostport)
                in if rest = [] then Inl (AddrError hostport ''missing port in address'')
                   else if length rest \<noteq> length port + 1 then
                     (if hd rest = CHR '':'' then Inl (AddrError hostport ''too many colons in address'')
                      else Inl (AddrError hostport ''missing port in address''))
                   else if CHR ''['' \<in> set (tl hostport) then Inl (AddrError hostport ''unexpected '[' in address'')
                   else if CHR '']'' \<in> set rest then Inl (AddrError hostport ''unexpected ']' in address'')
                   else Inr (host, port))
           else
             (if CHR '':'' \<in> set before then Inl (AddrError hostport ''too many colons in address'')
              else if CHR ''['' \<in> set hostport then Inl (AddrError hostport ''unexpected '[' in address'')
              else if CHR '']'' \<in> set hostport then Inl (AddrError hostport ''unexpected ']' in address'')
              else Inr (before, port))))"

section \<open>Setting\<close>

text \<open>The outcome is the new pointer; the string behind the old one is the last component.\<close>

definition IPVar_Set :: "flag_lib \<Rightarrow> string \<Rightarrow> flag_value \<Rightarrow> flag_value outcome" where
  "IPVar_Set F s v =
     (if length s = 0 then Value None
      else if \<not> fv_ParseIPSloppy F s then Error (ErrorString (fv_Quote F s @ '' is not a valid IP address''))
      else case v of None \<Rightarrow> Panic (PanicMessage ''the string pointer passed into IPVar should not be nil'')
           | Some _ \<Rightarrow> Value (Some s))"

definition IPPortVar_Set :: "flag_lib \<Rightarrow> string \<Rightarrow> flag_value \<Rightarrow> flag_value outcome" where
  "IPPortVar_Set F s v =
     (if length s = 0 then Value None
      else case v of
        None \<Rightarrow> Panic (PanicMessage ''the string pointer passed into IPPortVar should not be nil'')
      | Some _ \<Rightarrow>
          (if fv_ParseIPSloppy F s then Value (Some s)
           else case SplitHostPort s of
             Inl err \<Rightarrow> Error (ErrorString (fv_Quote F s @ '' is not in a valid format (ip or ip:port): '' @ fv_text F err))
           | Inr (host, port) \<Rightarrow>
               (if \<not> fv_ParseIPSloppy F host then Error (ErrorString (fv_Quote F host @ '' is not a valid IP address''))
                else if \<not> fv_ParsePort F port then Error (ErrorString (fv_Quote F port @ '' is not a valid number''))
                else Value (Some s))))"

definition PortRangeVar_Set :: "flag_lib \<Rightarrow> string \<Rightarrow> flag_value \<Rightarrow> flag_value outcome" where
  "PortRangeVar_Set F s v =
     (case fv_ParsePortRange F s of
        Some err \<Rightarrow> Error (ErrorString (fv_Quote F s @ '' is not a valid port range: '' @ fv_text F err))
      | None \<Rightarrow>
          (case v of
             None \<Rightarrow> Panic (PanicMessage ''the string pointer passed into PortRangeVar should not be nil'')
           | Some _ \<Rightarrow> Value (Some s)))"

definition IPVar_String :: "flag_value \<Rightarrow> string" where
  "IPVar_String v = (case v of None \<Rightarrow> [] | Some s \<Rightarrow> s)"

definition IPPortVar_String :: "flag_value \<Rightarrow> string" where
  "IPPortVar_String v = (case v of None \<Rightarrow> [] | Some s \<Rightarrow> s)"

definition PortRangeVar_String :: "flag_value \<Rightarrow> string" where
  "PortRangeVar_String v = (case v of None \<Rightarrow> [] | Some s \<Rightarrow> s)"

definition IPVar_Type :: string where "IPVar_Type = ''ip''"
definition IPPortVar_Type :: string where "IPPortVar_Type = ''ipport''"
definition PortRangeVar_Type :: string where "PortRangeVar_Type = ''port-range''"

section \<open>Properties\<close>

lemma last_colon_host_port:
  assumes "CHR '':'' \<notin> set port"
  shows "last_colon (host @ CHR '':'' # port) = Some (host, port)"
proof -
  have "dropWhile (\<lambda>c. c \<noteq> CHR '':'') (rev port @ CHR '':'' # rev host) = CHR '':'' # rev host"
    using assms by (subst dropWhile_append2) auto
  moreover have "takeWhile (\<lambda>c. c \<noteq> CHR '':'') (rev port @ CHR '':'' # rev host) = rev port"
    using assms by (subst takeWhile_append2) auto
  ultimately show ?thesis by (simp add: last_colon_def)
qed

lemma SplitHostPort_plain:
  assumes "CHR '':'' \<notin> set host \<union> set port" and "set (host @ port) \<inter> {CHR ''['', CHR '']''} = {}"
  shows "SplitHostPort (host @ CHR '':'' # port) = Inr (host, port)"
proof -
  have "hd (host @ CHR '':'' # port) \<noteq> CHR ''[''" using assms(2) by (cases host) auto
  then show ?thesis using assms last_colon_host_port [of port host] by (auto simp: SplitHostPort_def)
qed

lemma SplitHostPort_bracketed:
  assumes "CHR '':'' \<notin> set port" and "set (host @ port) \<inter> {CHR ''['', CHR '']''} = {}"
  shows "SplitHostPort (CHR ''['' # host @ CHR '']'' # CHR '':'' # port) = Inr (host, port)"
proof -
  have l: "last_colon (CHR ''['' # host @ CHR '']'' # CHR '':'' # port) = Some (CHR ''['' # host @ [CHR '']''], port)"
    using last_colon_host_port [OF assms(1), of "CHR ''['' # host @ [CHR '']'']"] by simp
  have t: "takeWhile (\<lambda>c. c \<noteq> CHR '']'') (host @ CHR '']'' # CHR '':'' # port) = host"
    "dropWhile (\<lambda>c. c \<noteq> CHR '']'') (host @ CHR '']'' # CHR '':'' # port) = CHR '']'' # CHR '':'' # port"
    using assms(2) by (subst takeWhile_append2 dropWhile_append2; auto)+
  show ?thesis using assms(2) by (auto simp: SplitHostPort_def l t Let_def)
qed

text \<open>
  A flag takes an address with a port in both notations and gives back what it was set to: an IPv4
  address and an IPv6 address in brackets, provided the address and the port are valid ones.
\<close>

theorem IPPortVar_roundtrip:
  assumes "fv_ParseIPSloppy F host" and "fv_ParsePort F port" and "CHR '':'' \<notin> set port"
    and "set (host @ port) \<inter> {CHR ''['', CHR '']''} = {}"
    and "s = (if CHR '':'' \<in> set host then CHR ''['' # host @ CHR '']'' # CHR '':'' # port else host @ CHR '':'' # port)"
  shows "\<exists>v'. IPPortVar_Set F s (Some old) = Value v' \<and> IPPortVar_String v' = s"
proof -
  have "SplitHostPort s = Inr (host, port)"
    using assms(3-5) SplitHostPort_plain [of host port] SplitHostPort_bracketed [of port host] by auto
  moreover have "s \<noteq> []" using assms(5) by auto
  ultimately show ?thesis using assms(1,2) by (simp add: IPPortVar_Set_def IPPortVar_String_def)
qed

definition sample_flag_lib :: flag_lib where
  "sample_flag_lib = \<lparr>fv_ParseIPSloppy = (\<lambda>s. s \<in> {''::1'', ''10.0.0.1''}), fv_ParsePort = (\<lambda>s. s = ''80''),
     fv_ParsePortRange = (\<lambda>s. None), fv_Quote = (\<lambda>s. s), fv_text = (\<lambda>_. [])\<rparr>"

theorem IPPortVar_roundtrip_witness:
  "\<exists>v'. IPPortVar_Set sample_flag_lib ''[::1]:80'' (Some []) = Value v' \<and> IPPortVar_String v' = ''[::1]:80''"
  by (rule IPPortVar_roundtrip [of sample_flag_lib "''::1''" "''80''"]) (simp_all add: sample_flag_lib_def)

text \<open>An empty value makes the pointer nil, so that setting the flag once more panics.\<close>

lemma IPVar_empty_then_panic:
  "IPVar_Set F [] (Some old) = Value None \<and> (s \<noteq> [] \<longrightarrow> fv_ParseIPSloppy F s \<longrightarrow> \<not> returns (IPVar_Set F s None))"
  by (simp add: IPVar_Set_def)

text \<open>Whatever a flag is set to, its value is the text or, after an empty one, the empty text.\<close>

lemma Set_String:
  "IPVar_Set F s v = Value v' \<Longrightarrow> IPVar_String v' = s"
  "IPPortVar_Set F s v = Value v' \<Longrightarrow> IPPortVar_String v' = s"
  "PortRangeVar_Set F s v = Value v' \<Longrightarrow> PortRangeVar_String v' = s"
  by (auto simp: IPVar_Set_def IPPortVar_Set_def PortRangeVar_Set_def IPVar_String_def IPPortVar_String_def
      PortRangeVar_String_def split: if_splits option.splits sum.splits prod.splits)

end
