(* ===== verification/KubeletFlags.thy ===== *)
theory KubeletFlags
  imports VKOptions FlagValues GoFlag
begin

text \<open>
  The command line of the virtual kubelet (\<^verbatim>\<open>AddFlags\<close> and \<^verbatim>\<open>AddKubeletConfigFlags\<close> of \<^verbatim>\<open>options.go\<close>,
  \<^verbatim>\<open>newFlagSetWithGlobals\<close>, \<^verbatim>\<open>newFakeFlagSet\<close> and \<^verbatim>\<open>kubeletConfigFlagPrecedence\<close> of \<^verbatim>\<open>server.go\<close>): a table
  of flags, each with what setting it does. Cutting the arguments into flags and values is done by
  \<^verbatim>\<open>pflag\<close>, so a command line is a list of tokens here; the flags of the libraries and the conversions
  of numbers, durations and headers are parameters.
\<close>

section \<open>Flags and what they set\<close>

datatype flag_token = FlagToken string string | BadToken go_error

record kflag_lib =
  kf_Int32 :: "string \<Rightarrow> int32 result"
  kf_Duration :: "string \<Rightarrow> duration result"
  kf_header_Set :: "bool \<Rightarrow> string \<Rightarrow> (string \<times> string list) list \<Rightarrow> (string \<times> string list) list result"
  kf_values :: flag_lib
  kf_global :: "string list"
  kf_global_Set :: "string \<Rightarrow> string \<Rightarrow> go_error option"
  kf_error :: "string \<Rightarrow> string \<Rightarrow> go_error \<Rightarrow> go_error"

text \<open>
  What a parse writes to: the flags and the configuration, whether the header flag was set before, and
  whether the pointer of the address flag still points to the address.
\<close>

record flag_targets =
  ft_Flags :: SlurmVirtualKubeletFlags
  ft_Config :: SlurmVirtualKubeletConfiguration
  ft_header_set :: bool
  ft_address :: bool
  ft_help :: bool

definition fresh_targets :: "SlurmVirtualKubeletFlags \<Rightarrow> SlurmVirtualKubeletConfiguration \<Rightarrow> flag_targets" where
  "fresh_targets f kc =
     \<lparr>ft_Flags = f, ft_Config = kc, ft_header_set = False, ft_address = True, ft_help = False\<rparr>"

lemma fresh_targets_sel [simp]:
  "ft_Flags (fresh_targets f kc) = f" "ft_Config (fresh_targets f kc) = kc" "\<not> ft_help (fresh_targets f kc)"
  by (simp_all add: fresh_targets_def)

type_synonym setter = "string \<Rightarrow> flag_targets \<Rightarrow> flag_targets outcome"

definition set_text :: "(string \<Rightarrow> SlurmVirtualKubeletFlags \<Rightarrow> SlurmVirtualKubeletFlags) \<Rightarrow> setter" where
  "set_text upd v p = Value (p\<lparr>ft_Flags := upd v (ft_Flags p)\<rparr>)"

definition set_config ::
    "(string \<Rightarrow> 'a result) \<Rightarrow> ('a \<Rightarrow> SlurmVirtualKubeletConfiguration \<Rightarrow> SlurmVirtualKubeletConfiguration) \<Rightarrow> setter" where
  "set_config conv upd v p =
     (case conv v of Inl e \<Rightarrow> Error e | Inr x \<Rightarrow> Value (p\<lparr>ft_Config := upd x (ft_Config p)\<rparr>))"

definition set_header :: "kflag_lib \<Rightarrow> setter" where
  "set_header K v p =
     (case kf_header_Set K (ft_header_set p) v (cg_StaticPodURLHeader (ft_Config p)) of
        Inl e \<Rightarrow> Error e
      | Inr h \<Rightarrow> Value (p\<lparr>ft_Config := (ft_Config p)\<lparr>cg_StaticPodURLHeader := h\<rparr>, ft_header_set := True\<rparr>))"

definition set_address :: "kflag_lib \<Rightarrow> setter" where
  "set_address K v p =
     (case IPVar_Set (kf_values K) v (if ft_address p then Some (cg_Address (ft_Config p)) else None) of
        Error e \<Rightarrow> Error e
      | Panic q \<Rightarrow> Panic q
      | Value None \<Rightarrow> Value (p\<lparr>ft_address := False\<rparr>)
      | Value (Some a) \<Rightarrow> Value (p\<lparr>ft_Config := (ft_Config p)\<lparr>cg_Address := a\<rparr>\<rparr>))"

definition set_help :: setter where
  "set_help v p = (case ParseBool v of Inl e \<Rightarrow> Error e | Inr b \<Rightarrow> Value (p\<lparr>ft_help := b\<rparr>))"

definition AddFlags :: "(string \<times> setter) list" where
  "AddFlags =
     [(''config'', set_text (\<lambda>v f. f\<lparr>fl_VirtualKubeletConfigFile := v\<rparr>)),
      (''kubeconfig'', set_text (\<lambda>v f. f\<lparr>fl_KubeConfig := v\<rparr>)),
      (''nodename'', set_text (\<lambda>v f. f\<lparr>fl_NodeName := v\<rparr>)),
      (''node-ip'', set_text (\<lambda>v f. f\<lparr>fl_NodeIP := v\<rparr>)),
      (''endpoint'', set_text (\<lambda>v f. f\<lparr>fl_AgentEndpoint := v\<rparr>)),
      (''partition'', set_text (\<lambda>v f. f\<lparr>fl_SlurmPartition := v\<rparr>))]"

definition AddKubeletConfigFlags :: "kflag_lib \<Rightarrow> (string \<times> setter) list" where
  "AddKubeletConfigFlags K =
     [(''enable-server'', set_config ParseBool (\<lambda>b c. c\<lparr>cg_EnableServer := b\<rparr>)),
      (''pod-manifest-path'', set_config Inr (\<lambda>v c. c\<lparr>cg_StaticPodPath := v\<rparr>)),
      (''sync-frequency'', set_config (kf_Duration K) (\<lambda>d c. c\<lparr>cg_SyncFrequency := d\<rparr>)),
      (''file-check-frequency'', set_config (kf_Duration K) (\<lambda>d c. c\<lparr>cg_FileCheckFrequency := d\<rparr>)),
      (''http-check-frequency'', set_config (kf_Duration K) (\<lambda>d c. c\<lparr>cg_HTTPCheckFrequency := d\<rparr>)),
      (''manifest-url'', set_config Inr (\<lambda>v c. c\<lparr>cg_StaticPodURL := v\<rparr>)),
      (''manifest-url-header'', set_header K),
      (''port'', set_config (kf_Int32 K) (\<lambda>n c. c\<lparr>cg_Port := n\<rparr>)),
      (''read-only-port'', set_config (kf_Int32 K) (\<lambda>n c. c\<lparr>cg_ReadOnlyPort := n\<rparr>)),
      (''address'', set_address K)]"

text \<open>The flags of the libraries write outside the model and may refuse a value; a fake flag takes any.\<close>

definition AddGlobalFlags :: "kflag_lib \<Rightarrow> (string \<times> setter) list" where
  "AddGlobalFlags K =
     map (\<lambda>n. (n, \<lambda>v p. case kf_global_Set K n v of Some e \<Rightarrow> Error e | None \<Rightarrow> Value p)) (kf_global K)"

definition newFakeFlagSet :: "(string \<times> setter) list \<Rightarrow> (string \<times> setter) list" where
  "newFakeFlagSet fs = map (\<lambda>(n, _). (n, \<lambda>v p. Value p)) fs"

section \<open>Parsing\<close>

definition ErrHelp :: go_error where
  "ErrHelp = Sentinel ''pflag: help requested''"

fun parse_tokens :: "kflag_lib \<Rightarrow> (string \<times> setter) list \<Rightarrow> flag_token list \<Rightarrow> flag_targets \<Rightarrow> flag_targets outcome" where
  "parse_tokens K fs [] p = Value p"
| "parse_tokens K fs (BadToken e # ts) p = Error e"
| "parse_tokens K fs (FlagToken n v # ts) p =
     (case map_of fs n of
        None \<Rightarrow> Error (if n = ''help'' then ErrHelp else ErrorString (''unknown flag: --'' @ n))
      | Some set_v \<Rightarrow>
          (case set_v v p of
             Error e \<Rightarrow> Error (kf_error K n v e)
           | Panic q \<Rightarrow> Panic q
           | Value p' \<Rightarrow> parse_tokens K fs ts p'))"

text \<open>The set the command parses first, and the one that parses the flags over a configuration file.\<close>

definition cleanFlagSet :: "kflag_lib \<Rightarrow> (string \<times> setter) list" where
  "cleanFlagSet K = AddFlags @ AddKubeletConfigFlags K @ AddGlobalFlags K @ [(''help'', set_help)]"

definition precedenceFlagSet :: "kflag_lib \<Rightarrow> (string \<times> setter) list" where
  "precedenceFlagSet K = newFakeFlagSet (AddGlobalFlags K) @ AddFlags @ AddKubeletConfigFlags K"

text \<open>
  The second set exits the process when it cannot parse (\<^verbatim>\<open>pflag.ExitOnError\<close>): then the result is
  \<^const>\<open>None\<close>, and the error branch of the caller is never taken.
\<close>

definition kubeletConfigFlagPrecedence ::
    "kflag_lib \<Rightarrow> os_env \<Rightarrow> SlurmVirtualKubeletConfiguration \<Rightarrow> flag_token list \<Rightarrow>
     SlurmVirtualKubeletConfiguration outcome option" where
  "kubeletConfigFlagPrecedence K env kc ts =
     (case parse_tokens K (precedenceFlagSet K) ts (fresh_targets (NewSlurmVirtualKubeletFlags env) kc) of
        Error e \<Rightarrow> None
      | Panic q \<Rightarrow> Some (Panic q)
      | Value p \<Rightarrow> Some (Value (ft_Config p)))"

section \<open>The command line wins over the file\<close>

text \<open>The flags of a command line that set something: an empty address leaves the address as it is.\<close>

fun given :: "flag_token list \<Rightarrow> string set" where
  "given [] = {}"
| "given (BadToken e # ts) = given ts"
| "given (FlagToken n v # ts) = (if n = ''address'' \<and> v = [] then {} else {n}) \<union> given ts"

lemma given_append [simp]: "given (ts @ us) = given ts \<union> given us"
  by (induction ts rule: given.induct) auto

definition pick :: "string set \<Rightarrow> string \<Rightarrow> 'a \<Rightarrow> 'a \<Rightarrow> 'a" where
  "pick G n a b = (if n \<in> G then a else b)"

lemma pick_simps [simp]:
  "pick {} n a b = b"
  "pick (insert n G) n a b = a"
  "m \<noteq> n \<Longrightarrow> pick (insert m G) n a b = pick G n a b"
  by (simp_all add: pick_def)

definition flags_over ::
    "string set \<Rightarrow> SlurmVirtualKubeletConfiguration \<Rightarrow> SlurmVirtualKubeletConfiguration \<Rightarrow>
     SlurmVirtualKubeletConfiguration" where
  "flags_over G kc1 kc =
     kc\<lparr>cg_EnableServer := pick G ''enable-server'' (cg_EnableServer kc1) (cg_EnableServer kc),
        cg_StaticPodPath := pick G ''pod-manifest-path'' (cg_StaticPodPath kc1) (cg_StaticPodPath kc),
        cg_SyncFrequency := pick G ''sync-frequency'' (cg_SyncFrequency kc1) (cg_SyncFrequency kc),
        cg_FileCheckFrequency := pick G ''file-check-frequency'' (cg_FileCheckFrequency kc1) (cg_FileCheckFrequency kc),
        cg_HTTPCheckFrequency := pick G ''http-check-frequency'' (cg_HTTPCheckFrequency kc1) (cg_HTTPCheckFrequency kc),
        cg_StaticPodURL := pick G ''manifest-url'' (cg_StaticPodURL kc1) (cg_StaticPodURL kc),
        cg_StaticPodURLHeader := pick G ''manifest-url-header'' (cg_StaticPodURLHeader kc1) (cg_StaticPodURLHeader kc),
        cg_Port := pick G ''port'' (cg_Port kc1) (cg_Port kc),
        cg_ReadOnlyPort := pick G ''read-only-port'' (cg_ReadOnlyPort kc1) (cg_ReadOnlyPort kc),
        cg_Address := pick G ''address'' (cg_Address kc1) (cg_Address kc)\<rparr>"

text \<open>The first value of the header flag replaces what the configuration has.\<close>

definition header_starts_anew :: "kflag_lib \<Rightarrow> bool" where
  "header_starts_anew K \<longleftrightarrow> (\<forall>v h h'. kf_header_Set K False v h = kf_header_Set K False v h')"

text \<open>No library registers one of the kubelet's own flags.\<close>

definition own_flags :: "string list" where
  "own_flags = [''config'', ''kubeconfig'', ''nodename'', ''node-ip'', ''endpoint'', ''partition'',
     ''enable-server'', ''pod-manifest-path'', ''sync-frequency'', ''file-check-frequency'', ''http-check-frequency'',
     ''manifest-url'', ''manifest-url-header'', ''port'', ''read-only-port'', ''address'', ''help'']"

definition flags_apart :: "kflag_lib \<Rightarrow> bool" where
  "flags_apart K \<longleftrightarrow> set own_flags \<inter> set (kf_global K) = {}"

lemma own_flags_map:
  "map fst AddFlags @ map fst (AddKubeletConfigFlags K) @ [''help''] = own_flags"
  by (simp add: AddFlags_def AddKubeletConfigFlags_def own_flags_def)

lemma map_of_global: "n \<notin> set (kf_global K) \<Longrightarrow> map_of (AddGlobalFlags K) n = None"
  by (auto simp: AddGlobalFlags_def map_of_eq_None_iff)

lemma map_of_fake: "n \<notin> set (kf_global K) \<Longrightarrow> map_of (newFakeFlagSet (AddGlobalFlags K)) n = None"
  by (auto simp: AddGlobalFlags_def newFakeFlagSet_def map_of_eq_None_iff)

text \<open>Two parses of one command line side by side: the second starts from another configuration.\<close>

definition same_parse ::
    "SlurmVirtualKubeletConfiguration \<Rightarrow> string set \<Rightarrow> flag_targets \<Rightarrow> flag_targets \<Rightarrow> bool" where
  "same_parse kc G p q \<longleftrightarrow>
     ft_header_set q = ft_header_set p \<and> ft_address q = ft_address p \<and>
     (ft_header_set p \<longleftrightarrow> ''manifest-url-header'' \<in> G) \<and>
     ft_Config q = flags_over G (ft_Config p) kc"

lemma same_parse_start: "same_parse kc {} (fresh_targets f kc0) (fresh_targets f' kc)"
  by (simp add: same_parse_def fresh_targets_def flags_over_def)


definition config_flags :: "string list" where
  "config_flags = [''enable-server'', ''pod-manifest-path'', ''sync-frequency'', ''file-check-frequency'',
     ''http-check-frequency'', ''manifest-url'', ''manifest-url-header'', ''port'', ''read-only-port'', ''address'']"

lemma flags_over_other: "n \<notin> set config_flags \<Longrightarrow> flags_over (insert n G) kc1 kc = flags_over G kc1 kc"
  by (simp add: flags_over_def config_flags_def)

lemma same_parse_other:
  assumes "same_parse kc G p q" and "n \<notin> set config_flags" and "ft_header_set p' = ft_header_set p"
    "ft_header_set q' = ft_header_set q" "ft_address p' = ft_address p" "ft_address q' = ft_address q"
    "ft_Config p' = ft_Config p" "ft_Config q' = ft_Config q"
  shows "same_parse kc (insert n G) p' q'"
  using assms flags_over_other [OF assms(2)] by (auto simp: same_parse_def config_flags_def)

text \<open>What one flag does on both sides.\<close>

definition parses_alike :: "string \<Rightarrow> setter \<Rightarrow> bool" where
  "parses_alike n set_v \<longleftrightarrow>
     (\<forall>kc G v p p' q. set_v v p = Value p' \<longrightarrow> same_parse kc G p q \<longrightarrow>
        (\<exists>q'. set_v v q = Value q' \<and> same_parse kc (given [FlagToken n v] \<union> G) p' q'))"

lemma text_alike: "n \<notin> set config_flags \<Longrightarrow> parses_alike n (set_text upd)"
  by (auto simp: parses_alike_def set_text_def config_flags_def intro: same_parse_other)

lemma config_alike:
  assumes "\<And>x c1 G kc. flags_over (insert n G) (upd x c1) kc = upd x (flags_over G c1 kc)"
    and "n \<noteq> ''manifest-url-header''" and "n \<noteq> ''address''"
  shows "parses_alike n (set_config conv upd)"
  using assms(2,3) by (auto simp: parses_alike_def set_config_def same_parse_def assms(1) split: sum.splits)

lemma header_alike: "header_starts_anew K \<Longrightarrow> parses_alike ''manifest-url-header'' (set_header K)"
  unfolding parses_alike_def
proof (intro allI impI)
  fix kc G v p p' q
  assume h: "header_starts_anew K" and s: "set_header K v p = Value p'" and r: "same_parse kc G p q"
  obtain hd' where hd: "kf_header_Set K (ft_header_set p) v (cg_StaticPodURLHeader (ft_Config p)) = Inr hd'"
    and p': "p' = p\<lparr>ft_Config := (ft_Config p)\<lparr>cg_StaticPodURLHeader := hd'\<rparr>, ft_header_set := True\<rparr>"
    using s by (auto simp: set_header_def split: sum.splits)
  have "kf_header_Set K (ft_header_set q) v (cg_StaticPodURLHeader (ft_Config q)) = Inr hd'"
  proof (cases "ft_header_set p")
    case True
    then have "cg_StaticPodURLHeader (ft_Config q) = cg_StaticPodURLHeader (ft_Config p)"
      using r by (simp add: same_parse_def flags_over_def pick_def)
    then show ?thesis using True r hd by (simp add: same_parse_def)
  next
    case False
    then show ?thesis using r hd h unfolding same_parse_def header_starts_anew_def by metis
  qed
  then show "\<exists>q'. set_header K v q = Value q' \<and> same_parse kc (given [FlagToken ''manifest-url-header'' v] \<union> G) p' q'"
    using r by (auto simp: p' set_header_def same_parse_def flags_over_def)
qed

lemma address_alike: "parses_alike ''address'' (set_address K)"
  unfolding parses_alike_def
proof (intro allI impI)
  fix kc G v p p' q
  assume s: "set_address K v p = Value p'" and r: "same_parse kc G p q"
  show "\<exists>q'. set_address K v q = Value q' \<and> same_parse kc (given [FlagToken ''address'' v] \<union> G) p' q'"
  proof (cases "v = []")
    case True
    then show ?thesis using s r by (simp add: set_address_def IPVar_Set_def same_parse_def) (use r in \<open>auto simp: same_parse_def\<close>)
  next
    case False
    then have "ft_address p" "fv_ParseIPSloppy (kf_values K) v"
      and "p' = p\<lparr>ft_Config := (ft_Config p)\<lparr>cg_Address := v\<rparr>\<rparr>"
      using s by (simp_all add: set_address_def IPVar_Set_def split: if_splits)
    then show ?thesis using r False by (simp add: set_address_def IPVar_Set_def same_parse_def flags_over_def)
  qed
qed

definition config_table :: "kflag_lib \<Rightarrow> (string \<times> setter) list" where
  "config_table K = AddFlags @ AddKubeletConfigFlags K"

lemma config_table_alike: "header_starts_anew K \<Longrightarrow> list_all (\<lambda>(n, set_v). parses_alike n set_v) (config_table K)"
  unfolding config_table_def AddFlags_def AddKubeletConfigFlags_def
  by (simp add: header_alike address_alike, (intro conjI)?)
     (rule text_alike, simp add: config_flags_def | rule config_alike, simp add: flags_over_def, simp, simp)+

lemma own_flag_alike:
  assumes "header_starts_anew K" and "n \<in> set own_flags" and "n \<noteq> ''help''" and "n \<notin> set (kf_global K)"
  shows "\<exists>set_v. map_of (cleanFlagSet K) n = Some set_v \<and> map_of (precedenceFlagSet K) n = Some set_v \<and>
    parses_alike n set_v"
proof -
  have "set own_flags = insert ''help'' (fst ` set (config_table K))"
    unfolding own_flags_map [of K, symmetric] config_table_def by auto
  then have "n \<in> fst ` set (config_table K)" using assms(2,3) by blast
  then obtain set_v where m: "map_of (config_table K) n = Some set_v" by (metis map_of_eq_None_iff not_Some_eq)
  then have "parses_alike n set_v"
    using config_table_alike [OF assms(1)] by (auto simp: list_all_iff dest!: map_of_SomeD)
  moreover have "cleanFlagSet K = config_table K @ AddGlobalFlags K @ [(''help'', set_help)]"
    "precedenceFlagSet K = newFakeFlagSet (AddGlobalFlags K) @ config_table K"
    by (simp_all add: cleanFlagSet_def precedenceFlagSet_def config_table_def)
  ultimately show ?thesis
    using m map_of_fake [OF assms(4)] by (auto simp: map_add_def split: option.splits)
qed

lemma config_flags_own: "set config_flags \<subseteq> set own_flags"
  by (simp add: config_flags_def own_flags_def)

lemma map_of_const_map: "map_of (map (\<lambda>x. (x, f x)) xs) n = (if n \<in> set xs then Some (f n) else None)"
  by (induction xs) auto

lemma other_flag_alike:
  assumes "n \<notin> set own_flags" and "map_of (cleanFlagSet K) n = Some set_v"
    and "set_v v p = Value p'" and "same_parse kc G p q"
  shows "p' = p \<and> same_parse kc (insert n G) p q \<and> map_of (precedenceFlagSet K) n = Some (\<lambda>v p. Value p)"
proof -
  have o': "set own_flags = insert ''help'' (fst ` set (config_table K))"
    unfolding own_flags_map [of K, symmetric] config_table_def by auto
  then have c: "map_of (config_table K) n = None" and "n \<noteq> ''help''"
    using assms(1) by (auto simp: map_of_eq_None_iff)
  then have g: "map_of (AddGlobalFlags K) n = Some set_v"
    using assms(2) by (auto simp: cleanFlagSet_def config_table_def map_add_def split: option.splits)
  then have n: "n \<in> set (kf_global K)"
    and "set_v = (\<lambda>v p. case kf_global_Set K n v of Some e \<Rightarrow> Error e | None \<Rightarrow> Value p)"
    by (simp_all add: AddGlobalFlags_def map_of_const_map split: if_splits)
  then have "p' = p" using assms(3) by (simp split: option.splits)
  moreover have "map_of (newFakeFlagSet (AddGlobalFlags K)) n = Some (\<lambda>v p. Value p)"
    using n by (simp add: newFakeFlagSet_def AddGlobalFlags_def comp_def map_of_const_map)
  then have "map_of (precedenceFlagSet K) n = Some (\<lambda>v p. Value p)"
    using c by (auto simp: precedenceFlagSet_def config_table_def map_add_def split: option.splits)
  moreover have "same_parse kc (insert n G) p q"
    using assms(1,4) config_flags_own by (intro same_parse_other [OF assms(4)]) auto
  ultimately show ?thesis by simp
qed

lemma precedence_parse:
  assumes "header_starts_anew K" and "flags_apart K"
  shows "parse_tokens K (cleanFlagSet K) ts p = Value p' \<Longrightarrow> ''help'' \<notin> given ts \<Longrightarrow> same_parse kc G p q \<Longrightarrow>
    \<exists>q'. parse_tokens K (precedenceFlagSet K) ts q = Value q' \<and> same_parse kc (given ts \<union> G) p' q'"
proof (induction ts arbitrary: p q G rule: given.induct)
  case (3 n v ts)
  obtain set_v p1 where m: "map_of (cleanFlagSet K) n = Some set_v" and s: "set_v v p = Value p1"
    and r: "parse_tokens K (cleanFlagSet K) ts p1 = Value p'"
    using 3(2) by (auto split: option.splits outcome.splits)
  have h: "n \<noteq> ''help''" "''help'' \<notin> given ts" using 3(3) by (auto split: if_splits)
  have "\<exists>set_v' q1. map_of (precedenceFlagSet K) n = Some set_v' \<and> set_v' v q = Value q1 \<and>
      same_parse kc (given [FlagToken n v] \<union> G) p1 q1"
  proof (cases "n \<in> set own_flags")
    case True
    then have "n \<notin> set (kf_global K)" using assms(2) by (auto simp: flags_apart_def)
    from own_flag_alike [OF assms(1) True h(1) this] m obtain "map_of (precedenceFlagSet K) n = Some set_v"
      "parses_alike n set_v" by auto
    then show ?thesis using s 3(4) unfolding parses_alike_def by blast
  next
    case False
    then have "n \<noteq> ''address''" by (auto simp: own_flags_def)
    then show ?thesis using other_flag_alike [OF False m s 3(4)] 3(4) by auto
  qed
  then obtain set_v' q1 where q1: "map_of (precedenceFlagSet K) n = Some set_v'" "set_v' v q = Value q1"
    "same_parse kc (given [FlagToken n v] \<union> G) p1 q1" by blast
  from 3(1) [OF r h(2) q1(3)] obtain q' where "parse_tokens K (precedenceFlagSet K) ts q1 = Value q'"
    "same_parse kc (given ts \<union> (given [FlagToken n v] \<union> G)) p' q'" by blast
  then show ?case using q1(1,2) by (auto simp: Un_assoc Un_left_commute)
qed auto

lemma command_line_wins:
  assumes "header_starts_anew K" and "flags_apart K" and "''help'' \<notin> given ts"
    and "parse_tokens K (cleanFlagSet K) ts (fresh_targets f kc0) = Value p"
  shows "kubeletConfigFlagPrecedence K env kc ts = Some (Value (flags_over (given ts) (ft_Config p) kc))"
proof -
  obtain q where "parse_tokens K (precedenceFlagSet K) ts (fresh_targets (NewSlurmVirtualKubeletFlags env) kc) = Value q"
    and "same_parse kc (given ts \<union> {}) p q"
    using precedence_parse [OF assms(1,2,4,3) same_parse_start] by blast
  then show ?thesis by (simp add: kubeletConfigFlagPrecedence_def same_parse_def)
qed

section \<open>What no flag sets\<close>

text \<open>The fields of the flags that only their defaults fill.\<close>

definition flagless :: "SlurmVirtualKubeletFlags \<Rightarrow> SlurmVirtualKubeletFlags" where
  "flagless f = f\<lparr>fl_VirtualKubeletConfigFile := [], fl_KubeConfig := [], fl_NodeName := [], fl_NodeIP := [],
     fl_AgentEndpoint := [], fl_SlurmPartition := []\<rparr>"

definition keeps_flagless :: "setter \<Rightarrow> bool" where
  "keeps_flagless set_v \<longleftrightarrow> (\<forall>v p p'. set_v v p = Value p' \<longrightarrow> flagless (ft_Flags p') = flagless (ft_Flags p))"

lemma text_flagless: "(\<And>v f. flagless (upd v f) = flagless f) \<Longrightarrow> keeps_flagless (set_text upd)"
  by (simp add: keeps_flagless_def set_text_def)

lemma config_flagless: "keeps_flagless (set_config conv upd)"
  by (auto simp: keeps_flagless_def set_config_def split: sum.splits)

lemma other_flagless: "keeps_flagless (set_header K)" "keeps_flagless (set_address K)" "keeps_flagless set_help"
  by (auto simp: keeps_flagless_def set_header_def set_address_def set_help_def
      split: sum.splits outcome.splits option.splits)

lemma table_keeps_flagless: "list_all (\<lambda>(n, set_v). keeps_flagless set_v) (cleanFlagSet K)"
proof -
  have "list_all (\<lambda>(n, set_v). keeps_flagless set_v) (AddGlobalFlags K)"
    by (auto simp: AddGlobalFlags_def list_all_iff keeps_flagless_def split: option.splits)
  then show ?thesis
    by (simp add: cleanFlagSet_def AddFlags_def AddKubeletConfigFlags_def text_flagless config_flagless
        other_flagless flagless_def)
qed

lemma parse_tokens_flagless:
  "parse_tokens K (cleanFlagSet K) ts p = Value p' \<Longrightarrow> flagless (ft_Flags p') = flagless (ft_Flags p)"
proof (induction ts arbitrary: p rule: given.induct)
  case (3 n v ts)
  then obtain set_v p1 where m: "map_of (cleanFlagSet K) n = Some set_v" and s: "set_v v p = Value p1"
    and r: "parse_tokens K (cleanFlagSet K) ts p1 = Value p'"
    by (auto split: option.splits outcome.splits)
  have "keeps_flagless set_v"
    using table_keeps_flagless [of K] map_of_SomeD [OF m] by (auto simp: list_all_iff)
  then show ?case using 3(1) [OF r] s by (simp add: keeps_flagless_def)
qed auto

end
