(* ===== verification/FileUtils.thy ===== *)
theory FileUtils
  imports FileSystem
begin

text \<open>
  File utilities of the kubelet (\<^verbatim>\<open>pkg/slurm-virtual-kubelet/util/files/files.go\<close>): existence, creation,
  and the replacement of a file or a directory through a temporary one. The operations work on any
  \<open>Filesystem\<close>; what they keep of the files is proved in the locale and holds for \<open>DefaultFs\<close>.
  \<open>err_text\<close> is the text of an error under \<^verbatim>\<open>%v\<close>.
\<close>

section \<open>Files\<close>

abbreviation tmpTag :: string where
  "tmpTag \<equiv> ''tmp_''"

definition FileExists :: "'s Filesystem \<Rightarrow> string \<Rightarrow> 's \<Rightarrow> (bool \<times> go_error option) \<times> 's" where
  "FileExists fs path s0 =
     (case fs_Stat fs path s0 of
        (Inr info, s) \<Rightarrow>
          (if fm_IsRegular info then ((True, None), s)
           else ((False, Some (ErrorString (''expected regular file at '' @ go_quote path @ '', but mode is '' @
                   go_quote (fm_String info)))), s))
      | (Inl err, s) \<Rightarrow> ((False, if os_IsNotExist err then None else Some err), s))"

definition EnsureFile :: "'s Filesystem \<Rightarrow> string \<Rightarrow> 's \<Rightarrow> go_error option \<times> 's" where
  "EnsureFile fs path s0 =
     (case FileExists fs path s0 of
        ((ok, err), s) \<Rightarrow>
          (if ok \<or> err \<noteq> None then (err, s)
           else case fs_MkdirAll fs (filepath_Dir path) s of
             (Some err, s) \<Rightarrow> (Some err, s)
           | (None, s) \<Rightarrow>
               (case fs_Create fs path s of
                  (Inl err, s) \<Rightarrow> (Some err, s)
                | (Inr f, s) \<Rightarrow> file_Close fs f s)))"

text \<open>The deferred function closes the file and, after any error, removes it.\<close>

definition finish_tmp ::
    "(go_error \<Rightarrow> string) \<Rightarrow> 's Filesystem \<Rightarrow> File \<Rightarrow> string \<Rightarrow> go_error option \<Rightarrow> 's \<Rightarrow> (string \<times> go_error option) \<times> 's" where
  "finish_tmp err_text fs tmpFile tmpPath retErr s0 =
     (case file_Close fs tmpFile s0 of
        (cerr, s) \<Rightarrow>
          (case (if retErr = None then cerr else retErr) of
             None \<Rightarrow> ((tmpPath, None), s)
           | Some e \<Rightarrow>
               (case fs_Remove fs tmpPath s of
                  (None, s) \<Rightarrow> (([], Some e), s)
                | (Some err, s) \<Rightarrow>
                    (([], Some (ErrorString (''attempted to remove temporary file '' @ go_quote tmpPath @
                       '' after error '' @ err_text e @ '', but failed due to error: '' @ err_text err))), s))))"

definition WriteTmpFile ::
    "(go_error \<Rightarrow> string) \<Rightarrow> 's Filesystem \<Rightarrow> string \<Rightarrow> string \<Rightarrow> 's \<Rightarrow> (string \<times> go_error option) \<times> 's" where
  "WriteTmpFile err_text fs path data s0 =
     (case fs_TempFile fs (filepath_Dir path) (tmpTag @ filepath_Base path) s0 of
        (Inl err, s) \<Rightarrow> (([], Some err), s)
      | (Inr tmpFile, s) \<Rightarrow>
          (let tmpPath = file_Name fs tmpFile in
           case file_Write fs tmpFile data s of
             (Some err, s) \<Rightarrow> finish_tmp err_text fs tmpFile tmpPath (Some err) s
           | (None, s) \<Rightarrow>
               (case file_Sync fs tmpFile s of
                  (err, s) \<Rightarrow> finish_tmp err_text fs tmpFile tmpPath err s)))"

definition ReplaceFile ::
    "(go_error \<Rightarrow> string) \<Rightarrow> 's Filesystem \<Rightarrow> string \<Rightarrow> string \<Rightarrow> 's \<Rightarrow> go_error option \<times> 's" where
  "ReplaceFile err_text fs path data s0 =
     (case WriteTmpFile err_text fs path data s0 of
        ((tmpPath, Some err), s) \<Rightarrow> (Some err, s)
      | ((tmpPath, None), s) \<Rightarrow> fs_Rename fs tmpPath path s)"

section \<open>Directories\<close>

definition DirExists :: "'s Filesystem \<Rightarrow> string \<Rightarrow> 's \<Rightarrow> (bool \<times> go_error option) \<times> 's" where
  "DirExists fs path s0 =
     (case fs_Stat fs path s0 of
        (Inr info, s) \<Rightarrow>
          (if fm_IsDir info then ((True, None), s)
           else ((False, Some (ErrorString (''expected dir at '' @ go_quote path @ '', but mode is '' @
                   go_quote (fm_String info)))), s))
      | (Inl err, s) \<Rightarrow> ((False, if os_IsNotExist err then None else Some err), s))"

definition EnsureDir :: "'s Filesystem \<Rightarrow> string \<Rightarrow> 's \<Rightarrow> go_error option \<times> 's" where
  "EnsureDir fs path s0 =
     (case DirExists fs path s0 of
        ((ok, err), s) \<Rightarrow> if ok \<or> err \<noteq> None then (err, s) else fs_MkdirAll fs path s)"

text \<open>The map of the files is a list in the order the iteration takes.\<close>

definition file_key_error :: "string \<Rightarrow> go_error option" where
  "file_key_error name =
     (if name = [] then
        Some (ErrorString (''invalid file key: must not be empty: '' @ go_quote name))
      else if name \<noteq> filepath_Base name then
        Some (ErrorString (''invalid file key '' @ go_quote name @ '', only base names are allowed''))
      else if name = ''.'' \<or> name = ''..'' then
        Some (ErrorString (''invalid file key, may not be '' @ [CHR 0x27] @ ''.'' @ [CHR 0x27] @ '' or '' @
                [CHR 0x27] @ ''..'' @ [CHR 0x27]))
      else if length name > 255 then
        Some (ErrorString (''invalid file key '' @ go_quote name @ '', must be less than 255 characters''))
      else None)"

fun first_key_error :: "(string \<times> string) list \<Rightarrow> go_error option" where
  "first_key_error [] = None"
| "first_key_error ((name, data) # r) =
     (case file_key_error name of Some err \<Rightarrow> Some err | None \<Rightarrow> first_key_error r)"

text \<open>Writing the files; the opened ones, last first, are closed when the function returns.\<close>

fun write_files ::
    "'s Filesystem \<Rightarrow> string \<Rightarrow> (string \<times> string) list \<Rightarrow> File list \<Rightarrow> 's \<Rightarrow> (go_error option \<times> File list) \<times> 's" where
  "write_files fs tmpPath [] opened s = ((None, opened), s)"
| "write_files fs tmpPath ((name, data) # r) opened s0 =
     (case fs_Create fs (filepath_Join [tmpPath, name]) s0 of
        (Inl err, s) \<Rightarrow> ((Some err, opened), s)
      | (Inr f, s) \<Rightarrow>
          (case file_Write fs f data s of
             (Some err, s) \<Rightarrow> ((Some err, f # opened), s)
           | (None, s) \<Rightarrow>
               (case file_Sync fs f s of
                  (Some err, s) \<Rightarrow> ((Some err, f # opened), s)
                | (None, s) \<Rightarrow> write_files fs tmpPath r (f # opened) s)))"

fun close_files :: "'s Filesystem \<Rightarrow> File list \<Rightarrow> go_error option \<Rightarrow> 's \<Rightarrow> go_error option \<times> 's" where
  "close_files fs [] retErr s = (retErr, s)"
| "close_files fs (f # r) retErr s0 =
     (case file_Close fs f s0 of
        (err, s) \<Rightarrow> close_files fs r (if retErr = None then err else retErr) s)"

definition WriteTempDir ::
    "(go_error \<Rightarrow> string) \<Rightarrow> 's Filesystem \<Rightarrow> string \<Rightarrow> (string \<times> string) list \<Rightarrow> 's \<Rightarrow>
     (string \<times> go_error option) \<times> 's" where
  "WriteTempDir err_text fs path files s0 =
     (case first_key_error files of
        Some err \<Rightarrow> (([], Some err), s0)
      | None \<Rightarrow>
          (case fs_TempDir fs (filepath_Dir path) (tmpTag @ filepath_Base path) s0 of
             (Inl err, s) \<Rightarrow> (([], Some err), s)
           | (Inr tmpPath, s) \<Rightarrow>
               (case write_files fs tmpPath files [] s of
                  ((retErr, opened), s) \<Rightarrow>
                    (case close_files fs opened retErr s of
                       (None, s) \<Rightarrow> ((tmpPath, None), s)
                     | (Some e, s) \<Rightarrow>
                         (case fs_RemoveAll fs tmpPath s of
                            (None, s) \<Rightarrow> ((tmpPath, Some e), s)
                          | (Some err, s) \<Rightarrow>
                              ((tmpPath, Some (ErrorString (''attempted to remove temporary directory '' @
                                 go_quote tmpPath @ '' after error '' @ err_text e @
                                 '', but failed due to error: '' @ err_text err))), s))))))"

definition ReplaceDir ::
    "(go_error \<Rightarrow> string) \<Rightarrow> 's Filesystem \<Rightarrow> string \<Rightarrow> (string \<times> string) list \<Rightarrow> 's \<Rightarrow> go_error option \<times> 's" where
  "ReplaceDir err_text fs path files s0 =
     (case WriteTempDir err_text fs path files s0 of
        ((tmpPath, Some err), s) \<Rightarrow> (Some err, s)
      | ((tmpPath, None), s) \<Rightarrow> fs_Rename fs tmpPath path s)"

section \<open>A file is replaced as a whole\<close>

context filesystem
begin

lemma finish_tmp_view:
  assumes "finish_tmp T fs f f retErr s = ((p, err), s')"
  shows "case err of
      None \<Rightarrow> retErr = None \<and> p = f \<and> view s' = view s
    | Some _ \<Rightarrow> view s' = view s \<or> view s' = (view s)(f := None)"
proof -
  obtain cerr s1 where c: "file_Close fs f s = (cerr, s1)" by (metis surj_pair)
  then have v: "view s1 = view s" using Close [of f s] by simp
  show ?thesis
  proof (cases "if retErr = None then cerr else retErr")
    case None
    then show ?thesis using assms c v by (auto simp: finish_tmp_def split: if_splits)
  next
    case (Some e)
    obtain rerr s2 where r: "fs_Remove fs f s1 = (rerr, s2)" by (metis surj_pair)
    have "view s2 = view s1 \<or> view s2 = (view s1)(f := None)"
      using r Remove_ok [of f s1 s2] Remove_err [of f s1 _ s2] by (cases rerr) auto
    moreover have "s' = s2 \<and> err \<noteq> None"
      using assms c r Some by (auto simp: finish_tmp_def split: option.splits)
    ultimately show ?thesis using v by auto
  qed
qed

text \<open>What a temporary file is: new, and on success with all the data.\<close>

lemma WriteTmpFile_view:
  assumes "WriteTmpFile T fs path data s = ((p, err), s')"
  shows "case err of
      None \<Rightarrow> view s p = None \<and> view s' = (view s)(p \<mapsto> data)
    | Some _ \<Rightarrow> \<exists>t. \<forall>q. q \<noteq> t \<or> view s q \<noteq> None \<longrightarrow> view s' q = view s q"
proof -
  obtain r s1 where t: "fs_TempFile fs (filepath_Dir path) (tmpTag @ filepath_Base path) s = (r, s1)"
    by (metis surj_pair)
  show ?thesis
  proof (cases r)
    case (Inl e)
    have "err = Some e" "s' = s1" using assms t Inl by (simp_all add: WriteTmpFile_def)
    moreover have "view s1 = view s" using TempFile_err t Inl by blast
    ultimately show ?thesis by simp
  next
    case (Inr f)
    have f: "view s f = None" "view s1 = (view s)(f \<mapsto> [])" using TempFile_ok t Inr by blast+
    obtain werr s2 where w: "file_Write fs f data s1 = (werr, s2)" by (metis surj_pair)
    have "view s1 f = Some []" using f by simp
    then obtain n where v2: "view s2 = (view s1)(f \<mapsto> take n data)" "werr = None \<Longrightarrow> take n data = data"
      using w Write_ok [of s1 f "[]" data s2] Write_err [of s1 f "[]" data _ s2]
      by (cases werr) (force intro: that [of "length data"])+
    obtain serr s3 where sy: "file_Sync fs f s2 = (serr, s3)" by (metis surj_pair)
    then have v3: "view s3 = view s2" using Sync [of f s2] by simp
    obtain e0 s0 where fin: "finish_tmp T fs f f e0 s0 = ((p, err), s')" "view s0 = view s2"
      "e0 = None \<Longrightarrow> werr = None"
      using assms t Inr w sy v3 Name by (cases werr) (auto simp: WriteTmpFile_def Let_def)
    show ?thesis
    proof (cases err)
      case None
      then show ?thesis using finish_tmp_view [OF fin(1)] fin(2,3) v2 f by simp
    next
      case (Some e)
      then show ?thesis using finish_tmp_view [OF fin(1)] fin(2) v2(1) f
        by (auto intro!: exI [of _ f])
    qed
  qed
qed

lemma ReplaceFile_all_or_nothing:
  assumes "ReplaceFile T fs path data s = (err, s')"
  shows "(err = None \<longrightarrow> view s' path = Some data \<and> (\<forall>q. q \<noteq> path \<longrightarrow> view s' q = view s q)) \<and>
    (err \<noteq> None \<longrightarrow> (\<exists>t. \<forall>q. q \<noteq> t \<or> view s q \<noteq> None \<longrightarrow> view s' q = view s q))"
proof -
  obtain p werr s1 where w: "WriteTmpFile T fs path data s = ((p, werr), s1)" by (metis surj_pair)
  show ?thesis
  proof (cases werr)
    case (Some e)
    then show ?thesis using assms w WriteTmpFile_view [OF w] by (auto simp: ReplaceFile_def)
  next
    case None
    then have v: "view s p = None" "view s1 = (view s)(p \<mapsto> data)" using WriteTmpFile_view [OF w] by auto
    have r: "fs_Rename fs p path s1 = (err, s')" using assms w None by (simp add: ReplaceFile_def)
    show ?thesis
    proof (cases err)
      case None
      then have "view s' = (view s1)(p := None, path \<mapsto> data)" using Rename_ok [of s1 p data path s'] r v by simp
      then show ?thesis using None v by (auto simp: fun_eq_iff)
    next
      case (Some e)
      then have "view s' = view s1" using Rename_err r by blast
      then show ?thesis using Some v by (auto intro!: exI [of _ p])
    qed
  qed
qed

end

section \<open>Properties\<close>

text \<open>
  C22. Replacing a file is all or nothing, whatever call to the operating system fails: on success the
  file has exactly the new content and every other file is as before; on an error every file that
  existed is untouched, also the one to be replaced, and at most one new temporary file is left.
\<close>

theorem ReplaceFile_atomic:
  assumes "ReplaceFile T (DefaultFs []) path data s = (err, s')"
  shows "(err = None \<longrightarrow> os_view s' path = Some data \<and> (\<forall>q. q \<noteq> path \<longrightarrow> os_view s' q = os_view s q)) \<and>
    (err \<noteq> None \<longrightarrow> (\<exists>t. \<forall>q. q \<noteq> t \<or> os_view s q \<noteq> None \<longrightarrow> os_view s' q = os_view s q))"
  using assms by (rule dfs.ReplaceFile_all_or_nothing)

text \<open>A directory stays a directory while the temporary one is filled.\<close>

lemma set_node_dir:
  "os_nodes s q = Some Directory \<Longrightarrow> q \<noteq> p \<Longrightarrow> os_nodes (set_node p n s) q = Some Directory"
  by (simp add: set_node_def)

lemma os_Create_dir:
  "os_Create p s = (r, s') \<Longrightarrow> os_nodes s q = Some Directory \<Longrightarrow> os_nodes s' q = Some Directory"
  by (cases "q = p") (auto simp: os_Create_def set_node_dir dest!: next_fault_nodes
      split: prod.splits option.splits os_node.splits if_splits)

lemma os_Write_dir:
  "os_Write f d s = (r, s') \<Longrightarrow> os_nodes s q = Some Directory \<Longrightarrow> os_nodes s' q = Some Directory"
  by (cases "q = f") (auto simp: os_Write_def set_node_dir dest!: next_fault_nodes
      split: prod.splits option.splits os_node.splits)

lemma os_handle_dir: "os_handle_call f s = (r, s') \<Longrightarrow> os_nodes s' = os_nodes s"
  by (auto simp: os_handle_call_def dest!: next_fault_nodes split: prod.splits)

lemma write_files_dir:
  "write_files (DefaultFs []) d files opened s = (r, s') \<Longrightarrow> os_nodes s q = Some Directory \<Longrightarrow>
     os_nodes s' q = Some Directory"
proof (induction "DefaultFs []" d files opened s rule: write_files.induct)
  case (2 d name data r' opened s0)
  obtain cr s1 where c: "os_Create (filepath_Join [d, name]) s0 = (cr, s1)" by (metis surj_pair)
  show ?case
  proof (cases cr)
    case (Inl e)
    then show ?thesis using 2(2,3) c os_Create_dir by (auto simp: DefaultFs_def fs_prefix_def)
  next
    case (Inr f)
    obtain we s2 where w: "os_Write f data s1 = (we, s2)" by (metis surj_pair)
    obtain se s3 where y: "os_handle_call f s2 = (se, s3)" by (metis surj_pair)
    have d3: "os_nodes s3 q = Some Directory" and d2: "os_nodes s2 q = Some Directory"
      using os_Create_dir [OF c 2(3)] os_Write_dir [OF w] os_handle_dir [OF y] by auto
    show ?thesis
    proof (cases "we = None \<and> se = None")
      case True
      then have "write_files (DefaultFs []) d r' (f # opened) s3 = (r, s')"
        using 2(2) c Inr w y by (simp add: DefaultFs_def fs_prefix_def)
      then show ?thesis
        using 2(1) c Inr w y True d3 by (simp add: DefaultFs_def fs_prefix_def)
    next
      case False
      then show ?thesis
        using 2(2) c Inr w y d2 d3 by (auto simp: DefaultFs_def fs_prefix_def split: option.splits)
    qed
  qed
qed simp

lemma close_files_dir:
  "close_files (DefaultFs []) fs e s = (r, s') \<Longrightarrow> os_nodes s' = os_nodes s"
proof (induction fs arbitrary: e s)
  case (Cons f fs)
  then show ?case
    by (auto simp: DefaultFs_def dest: os_handle_dir split: prod.splits)
qed simp

lemma WriteTempDir_dir:
  assumes "WriteTempDir T (DefaultFs []) path files s = ((p, None), s')" and "os_nodes s q = Some Directory"
  shows "os_nodes s' q = Some Directory \<and> p \<noteq> q"
proof -
  obtain tr s1 where t: "os_MkdirTemp (filepath_Dir path) (tmpTag @ filepath_Base path) s = (tr, s1)"
    by (metis surj_pair)
  then obtain d where d: "tr = Inr d"
    using assms(1) by (cases tr) (auto simp: WriteTempDir_def DefaultFs_def fs_prefix_def split: option.splits)
  have "os_nodes s d = None" and d1: "os_nodes s1 q = Some Directory"
    using t d assms(2) by (auto simp: os_MkdirTemp_def os_temp_def set_node_def
      dest!: next_fault_nodes fresh_temp_fresh split: prod.splits option.splits if_splits)
  obtain we opened s2 where w: "write_files (DefaultFs []) d files [] s1 = ((we, opened), s2)" by (metis surj_pair)
  obtain ce s3 where c: "close_files (DefaultFs []) opened we s2 = (ce, s3)" by (metis surj_pair)
  have "fs_TempDir (DefaultFs []) dir pat s = os_MkdirTemp dir pat s" for dir pat
    by (simp add: DefaultFs_def fs_prefix_def)
  then have "ce = None \<and> p = d \<and> s' = s3"
    using assms(1) t d w c
    by (cases ce) (auto simp: WriteTempDir_def split: option.splits prod.splits)
  then show ?thesis
    using write_files_dir [OF w d1] close_files_dir [OF c] \<open>os_nodes s d = None\<close> assms(2) by auto
qed

text \<open>
  \<^verbatim>\<open>ReplaceDir\<close> cannot replace anything: when the directory exists, it ends with an error, because
  the rename of the temporary directory over it is refused.
\<close>

theorem ReplaceDir_existing_fails:
  assumes "os_nodes s path = Some Directory" and "ReplaceDir T (DefaultFs []) path files s = (err, s')"
  shows "err \<noteq> None"
proof -
  obtain p we s1 where w: "WriteTempDir T (DefaultFs []) path files s = ((p, we), s1)" by (metis surj_pair)
  show ?thesis
  proof (cases we)
    case None
    have "os_nodes s1 path = Some Directory" "p \<noteq> path"
      using WriteTempDir_dir [OF w [unfolded None] assms(1)] by auto
    then show ?thesis
      using assms(2) w None
      by (auto simp: ReplaceDir_def DefaultFs_def DefaultFs_Rename_def fs_prefix_def HasPrefix_def os_Rename_def
          dest!: next_fault_nodes split: prod.splits option.splits if_splits)
  next
    case (Some e)
    then show ?thesis using assms(2) w by (auto simp: ReplaceDir_def)
  qed
qed

text \<open>Concrete runs: a file is replaced, with a fault when it is synced, and a directory is not.\<close>

definition sample_os :: "(go_error \<times> nat) option list \<Rightarrow> os" where
  "sample_os faults = \<lparr>os_nodes = [''/'' \<mapsto> Directory, ''/d'' \<mapsto> Directory, ''/d/f'' \<mapsto> RegularFile ''old''],
     os_faults = faults, os_random = [''1''], os_mode = (\<lambda>_. ''drwxr-xr-x'')\<rparr>"

definition no_text :: "go_error \<Rightarrow> string" where
  "no_text e = []"

lemma sample_replaced: "fst (ReplaceFile no_text (DefaultFs []) ''/d/f'' ''new'' (sample_os [])) = None"
  by code_simp

lemma sample_synced: "fst (ReplaceFile no_text (DefaultFs []) ''/d/f'' ''new''
    (sample_os [None, None, Some (Sentinel ''EIO'', 0)])) = Some (Sentinel ''EIO'')"
  by code_simp

theorem ReplaceFile_atomic_witness:
  "os_view (snd (ReplaceFile no_text (DefaultFs []) ''/d/f'' ''new'' (sample_os []))) ''/d/f'' = Some ''new'' \<and>
   os_view (snd (ReplaceFile no_text (DefaultFs []) ''/d/f'' ''new''
     (sample_os [None, None, Some (Sentinel ''EIO'', 0)]))) ''/d/f'' = Some ''old''"
proof -
  have "os_view (sample_os fs) ''/d/f'' = Some ''old''" for fs by (simp add: os_view_def sample_os_def)
  moreover have "os_view (snd (ReplaceFile no_text (DefaultFs []) ''/d/f'' ''new'' (sample_os []))) ''/d/f'' = Some ''new''"
    using ReplaceFile_atomic [OF prod.collapse [symmetric], of no_text "''/d/f''" "''new''" "sample_os []"]
    unfolding sample_replaced by blast
  moreover obtain t where "\<forall>q. q \<noteq> t \<or> os_view (sample_os [None, None, Some (Sentinel ''EIO'', 0)]) q \<noteq> None \<longrightarrow>
      os_view (snd (ReplaceFile no_text (DefaultFs []) ''/d/f'' ''new''
        (sample_os [None, None, Some (Sentinel ''EIO'', 0)]))) q =
      os_view (sample_os [None, None, Some (Sentinel ''EIO'', 0)]) q"
    using ReplaceFile_atomic [OF prod.collapse [symmetric],
        of no_text "''/d/f''" "''new''" "sample_os [None, None, Some (Sentinel ''EIO'', 0)]"]
    unfolding sample_synced by blast
  ultimately show ?thesis by (metis option.distinct(1))
qed

theorem ReplaceDir_existing_fails_witness:
  "fst (ReplaceDir no_text (DefaultFs []) ''/d'' [(''a'', ''x'')] (sample_os [])) \<noteq> None"
proof -
  have "os_nodes (sample_os []) ''/d'' = Some Directory" by (simp add: sample_os_def)
  from ReplaceDir_existing_fails [OF this prod.collapse [symmetric]] show ?thesis .
qed

end
