(* ===== verification/KubeletProcess.thy ===== *)
theory KubeletProcess
  imports KubeletFlags FileUtils
begin

text \<open>
  The process of the virtual kubelet: the command (\<^verbatim>\<open>cmd/slurm-virtual-kubelet/app/server.go\<close>), the loading
  of its configuration file (\<^verbatim>\<open>configfiles.go\<close>, \<^verbatim>\<open>codec.go\<close>), tracing (\<^verbatim>\<open>tracing.go\<close>), and the
  construction and serving of the kubelet (\<^verbatim>\<open>virtual-kubelet.go\<close>). Cutting arguments, decoding, client
  construction, TLS and listening belong to other packages and are parameters, collected in
  \<open>process_lib\<close>. What the goroutines of a started kubelet do is in the theories of the provider;
  here a start ends with what it serves or with the exit of the process.
\<close>

section \<open>Parameters\<close>

record process_lib =
  pl_options :: options_lib
  pl_flags :: kflag_lib
  pl_Tokens :: "string list \<Rightarrow> flag_token list"
  pl_TokensAgain :: "string list \<Rightarrow> flag_token list"
  pl_Args :: "string list \<Rightarrow> string list"
  pl_version_requested :: "string list \<Rightarrow> bool"
  pl_NewSchemeAndCodecs :: "go_error option"
  pl_NewLenientSchemeAndCodecs :: "go_error option"
  pl_Decode :: "string \<Rightarrow> SlurmVirtualKubeletConfiguration option result"
  pl_LenientDecode :: "string \<Rightarrow> SlurmVirtualKubeletConfiguration option result"
  pl_IsStrictDecodingError :: "go_error \<Rightarrow> bool"
  pl_kind :: "string \<Rightarrow> string"
  pl_Getwd :: "string result"
  pl_BuildConfigFromFlags :: "string \<Rightarrow> string result"
  pl_InClusterConfig :: "string result"
  pl_MASTER_URI :: string
  pl_NewForConfig :: "string \<Rightarrow> string result"
  pl_Exist :: "string \<Rightarrow> os \<Rightarrow> bool"
  pl_Dial :: "string \<Rightarrow> go_error option"
  pl_ParseIPSloppy :: "string \<Rightarrow> string"
  pl_JoinHostPort :: "string \<Rightarrow> string \<Rightarrow> string"
  pl_cert_pem :: string
  pl_key_pem :: string
  pl_LoadX509KeyPair :: "string option \<Rightarrow> string option \<Rightarrow> go_error option"
  pl_text :: "go_error \<Rightarrow> string"

section \<open>The configuration file\<close>

definition filepath_IsAbs :: "string \<Rightarrow> bool" where
  "filepath_IsAbs p \<longleftrightarrow> HasPrefix p [slash]"

definition Abs_path :: "string result \<Rightarrow> string \<Rightarrow> string result" where
  "Abs_path wd p =
     (if filepath_IsAbs p then Inr (filepath_Clean p)
      else case wd of Inl e \<Rightarrow> Inl e | Inr d \<Rightarrow> Inr (filepath_Join [d, p]))"

definition resolveRelativePath :: "string \<Rightarrow> string \<Rightarrow> string" where
  "resolveRelativePath root path =
     (if length path > 0 \<and> \<not> filepath_IsAbs path then filepath_Join [root, path] else path)"

text \<open>The paths that \<^verbatim>\<open>SlurmVirtualKubeletConfigurationPathRefs\<close> lists, each replaced by what \<open>f\<close> makes of it.\<close>

definition update_path_refs ::
    "(string \<Rightarrow> string) \<Rightarrow> SlurmVirtualKubeletConfiguration \<Rightarrow> SlurmVirtualKubeletConfiguration" where
  "update_path_refs f kc =
     kc\<lparr>cg_StaticPodPath := f (cg_StaticPodPath kc), cg_TLSCertFile := f (cg_TLSCertFile kc),
        cg_TLSPrivateKeyFile := f (cg_TLSPrivateKeyFile kc), cg_VolumePluginDir := f (cg_VolumePluginDir kc)\<rparr>"

definition resolveRelativePaths ::
    "string \<Rightarrow> SlurmVirtualKubeletConfiguration \<Rightarrow> SlurmVirtualKubeletConfiguration" where
  "resolveRelativePaths root = update_path_refs (resolveRelativePath root)"

text \<open>A decoded object of another kind is \<^const>\<open>None\<close>; \<open>pl_kind\<close> is the text of the kind that was found.\<close>

definition DecodeKubeletConfiguration :: "process_lib \<Rightarrow> string \<Rightarrow> SlurmVirtualKubeletConfiguration result" where
  "DecodeKubeletConfiguration P data =
     (let cast = (\<lambda>obj. case obj of
                    Some kc \<Rightarrow> Inr kc
                  | None \<Rightarrow> Inl (ErrorString (''failed to cast object to KubeletConfiguration, unexpected type: '' @ pl_kind P data)))
      in case pl_Decode P data of
           Inr obj \<Rightarrow> cast obj
         | Inl err \<Rightarrow>
             (if \<not> pl_IsStrictDecodingError P err then Inl (Wrap ''failed to decode'' err)
              else case pl_NewLenientSchemeAndCodecs P of
                Some lenientErr \<Rightarrow> Inl lenientErr
              | None \<Rightarrow>
                  (case pl_LenientDecode P data of
                     Inl lenientErr \<Rightarrow> Inl (ErrorString (''failed lenient decoding: '' @ pl_text P err))
                   | Inr obj \<Rightarrow> cast obj)))"

definition Load :: "process_lib \<Rightarrow> 's Filesystem \<Rightarrow> string \<Rightarrow> 's \<Rightarrow> SlurmVirtualKubeletConfiguration result \<times> 's" where
  "Load P fs kubeletFile s0 =
     (case fs_ReadFile fs kubeletFile s0 of
        (Inl err, s) \<Rightarrow>
          (Inl (ErrorString (''failed to read kubelet config file '' @ go_quote kubeletFile @ '', error: '' @ pl_text P err)), s)
      | (Inr data, s) \<Rightarrow>
          (if length data = 0 then
             (Inl (ErrorString (''kubelet config file '' @ go_quote kubeletFile @ '' was empty'')), s)
           else case DecodeKubeletConfiguration P data of
             Inl err \<Rightarrow> (Inl err, s)
           | Inr kc \<Rightarrow> (Inr (resolveRelativePaths (filepath_Dir kubeletFile) kc), s)))"

definition load_error :: "process_lib \<Rightarrow> string \<Rightarrow> go_error \<Rightarrow> go_error" where
  "load_error P name err =
     ErrorString (''failed to load Kubelet config file '' @ name @ '', error '' @ pl_text P err)"

definition loadConfigFile :: "process_lib \<Rightarrow> string \<Rightarrow> os \<Rightarrow> SlurmVirtualKubeletConfiguration result \<times> os" where
  "loadConfigFile P name s0 =
     (case Abs_path (pl_Getwd P) name of
        Inl err \<Rightarrow> (Inl (load_error P name err), s0)
      | Inr kubeletConfigFile \<Rightarrow>
          (case pl_NewSchemeAndCodecs P of
             Some err \<Rightarrow> (Inl (load_error P name err), s0)
           | None \<Rightarrow>
               (case Load P (DefaultFs []) kubeletConfigFile s0 of
                  (Inl err, s) \<Rightarrow> (Inl (load_error P name err), s)
                | (Inr kc, s) \<Rightarrow> (Inr kc, s))))"

section \<open>Tracing\<close>

text \<open>
  \<open>exporters\<close> are the registered ones with the answer of their initialisation; the configured tags are
  listed in the order the loop meets them. The result is the
  error and the tags; the sampling rate that is applied is \<open>sampler_of\<close>.
\<close>

datatype sampler = AlwaysSample | NeverSample | ProbabilitySampler int

definition reservedTagNames :: "string list" where
  "reservedTagNames = [''operatingSystem'', ''provider'', ''nodeName'']"

definition GetTracingExporter :: "(string \<rightharpoonup> go_error option) \<Rightarrow> string \<Rightarrow> go_error option" where
  "GetTracingExporter exporters name =
     (case exporters name of
        None \<Rightarrow> Some (ErrorString (''tracing exporter '' @ go_quote name @ '' not found''))
      | Some err \<Rightarrow> err)"

fun setup_exporters :: "(string \<rightharpoonup> go_error option) \<Rightarrow> string list \<Rightarrow> go_error option" where
  "setup_exporters exporters [] = None"
| "setup_exporters exporters (e # es) =
     (if e = ''zpages'' then setup_exporters exporters es
      else case GetTracingExporter exporters e of
        Some err \<Rightarrow> Some err
      | None \<Rightarrow> setup_exporters exporters es)"

text \<open>The sampler of a rate: the error (nil when an error is wrapped that is nil) or the sampler, if any.\<close>

definition sampler_of :: "string \<Rightarrow> go_error option + sampler option" where
  "sampler_of rate_text =
     (let l = ToLower rate_text in
      if l = [] then Inr None
      else if l = ''always'' then Inr (Some AlwaysSample)
      else if l = ''never'' then Inr (Some NeverSample)
      else case Atoi rate_text of
        Inl err \<Rightarrow> Inl (errors_Wrap (Some err) ''unsupported trace sample rate'')
      | Inr rate \<Rightarrow>
          (if sint rate < 0 \<or> sint rate > 100
           then Inl (errors_Wrap None ''trace sample rate must be between 0 and 100'')
           else Inr (Some (ProbabilitySampler (sint rate)))))"

definition SetupTracing ::
    "(string \<rightharpoonup> go_error option) \<Rightarrow> SlurmVirtualKubeletFlags \<Rightarrow>
     (go_error option \<times> sampler option) \<times> (string \<rightharpoonup> string)" where
  "SetupTracing exporters f =
     (case List.find (\<lambda>k. k \<in> set reservedTagNames) (map fst (fl_TraceTags f)) of
        Some k \<Rightarrow>
          ((Some (ErrorString (''invalid trace tag '' @ go_quote k @ '', must not use a reserved tag key'')), None), map_of (fl_TraceTags f))
      | None \<Rightarrow>
          (let tags = (map_of (fl_TraceTags f))(''operatingSystem'' \<mapsto> fl_OperatingSystem f, ''provider'' \<mapsto> fl_Provider f,
                            ''nodeName'' \<mapsto> fl_NodeName f)
           in case setup_exporters exporters (fl_TraceExporters f) of
                Some err \<Rightarrow> ((Some err, None), tags)
              | None \<Rightarrow>
                  (if length (fl_TraceExporters f) > 0 then
                     (case sampler_of (fl_TraceSampleRate f) of
                        Inl err \<Rightarrow> ((err, None), tags)
                      | Inr smp \<Rightarrow> ((None, smp), tags))
                   else ((None, None), tags))))"

section \<open>The kubelet\<close>

record vk_client =
  cl_Config :: string

definition stat_exists :: "string \<Rightarrow> os \<Rightarrow> go_error option \<times> os" where
  "stat_exists p s0 =
     (case os_Stat p s0 of (Inr _, s) \<Rightarrow> (None, s) | (Inl err, s) \<Rightarrow> (Some err, s))"

text \<open>A client configuration is its host; only that is changed here.\<close>

definition newClient :: "process_lib \<Rightarrow> string \<Rightarrow> os \<Rightarrow> string result \<times> os" where
  "newClient P configPath s0 =
     (case stat_exists configPath s0 of
        (err, s) \<Rightarrow>
          (let cfg = (if \<not> (case err of None \<Rightarrow> False | Some e \<Rightarrow> os_IsNotExist e)
                      then (case pl_BuildConfigFromFlags P configPath of
                              Inl e \<Rightarrow> Inl (Wrap ''error building client config'' e) | Inr c \<Rightarrow> Inr c)
                      else (case pl_InClusterConfig P of
                              Inl e \<Rightarrow> Inl (Wrap ''error building in cluster config'' e) | Inr c \<Rightarrow> Inr c))
           in (case cfg of
                 Inl e \<Rightarrow> Inl e
               | Inr host \<Rightarrow> pl_NewForConfig P (if pl_MASTER_URI P \<noteq> [] then pl_MASTER_URI P else host)), s))"

record SlurmVirtualKubelet =
  vk_KubeletServer :: SlurmVirtualKubeletServer
  vk_nodeRef :: "string \<times> string \<times> string"
  vk_Client :: string
  vk_agent_addr :: string

datatype 'a start = Started 'a | StartError go_error | ProcessExit

definition dial_addr :: "string \<Rightarrow> string" where
  "dial_addr endpoint = (if HasSuffix endpoint ''sock'' then ''unix://'' @ endpoint else endpoint)"

definition NewSlurmVirtualKubelet ::
    "process_lib \<Rightarrow> SlurmVirtualKubeletServer option \<Rightarrow> string \<Rightarrow> SlurmVirtualKubelet start" where
  "NewSlurmVirtualKubelet P kubeletServer client =
     (case kubeletServer of
        None \<Rightarrow> StartError (ErrorString ''kubelet server can not be empty'')
      | Some ks \<Rightarrow>
          (if length (fl_AgentEndpoint (ks_Flags ks)) = 0 then
             StartError (ErrorString ''slurm-agent agent endpoint can not be empty'')
           else
             let addr = dial_addr (fl_AgentEndpoint (ks_Flags ks)) in
             case pl_Dial P addr of
               Some err \<Rightarrow> ProcessExit
             | None \<Rightarrow>
                 Started \<lparr>vk_KubeletServer = ks,
                   vk_nodeRef = (''Node'', fl_NodeName (ks_Flags ks), fl_NodeName (ks_Flags ks)),
                   vk_Client = client, vk_agent_addr = addr\<rparr>))"

definition NewMainSlurmVirtualKubelet ::
    "process_lib \<Rightarrow> SlurmVirtualKubeletServer \<Rightarrow> os \<Rightarrow> SlurmVirtualKubelet start \<times> os" where
  "NewMainSlurmVirtualKubelet P ks s0 =
     (case newClient P (fl_KubeConfig (ks_Flags ks)) s0 of
        (Inl err, s) \<Rightarrow> (StartError err, s)
      | (Inr client, s) \<Rightarrow> (NewSlurmVirtualKubelet P (Some ks) client, s))"

section \<open>Serving\<close>

definition file_of :: "os \<Rightarrow> string \<Rightarrow> string option" where
  "file_of s p = (case os_nodes s p of Some (RegularFile c) \<Rightarrow> Some c | _ \<Rightarrow> None)"

definition loadTLSConfig :: "process_lib \<Rightarrow> string \<Rightarrow> string \<Rightarrow> os \<Rightarrow> go_error option" where
  "loadTLSConfig P certPath keyPath s =
     errors_Wrap (pl_LoadX509KeyPair P (file_of s certPath) (file_of s keyPath)) ''error loading tls certs''"

datatype serving = ServingTLS string | ServingPlain string | ServeExit

definition ListenAndServe :: "process_lib \<Rightarrow> SlurmVirtualKubeletConfiguration \<Rightarrow> os \<Rightarrow> serving" where
  "ListenAndServe P kc s =
     (let addr = pl_JoinHostPort P (pl_ParseIPSloppy P (cg_Address kc)) (dec (uint (word_of_int (sint (cg_Port kc)) :: 64 word))) in
      if cg_TLSCertFile kc \<noteq> [] \<and> cg_TLSPrivateKeyFile kc \<noteq> [] then
        (case loadTLSConfig P (cg_TLSCertFile kc) (cg_TLSPrivateKeyFile kc) s of
           Some err \<Rightarrow> ServeExit
         | None \<Rightarrow> ServingTLS addr)
      else ServingPlain addr)"

text \<open>Writing a generated file: an error of \<^verbatim>\<open>os.Create\<close> is ignored, and writing to nil does nothing.\<close>

definition write_pem :: "string \<Rightarrow> string \<Rightarrow> os \<Rightarrow> os" where
  "write_pem p data s0 =
     (case os_Create p s0 of
        (Inl err, s) \<Rightarrow> s
      | (Inr f, s) \<Rightarrow> snd (os_handle_call f (snd (os_Write f data s))))"

definition tryPrepareTlsCerts :: "process_lib \<Rightarrow> SlurmVirtualKubeletConfiguration \<Rightarrow> os \<Rightarrow> os" where
  "tryPrepareTlsCerts P kc s =
     write_pem (cg_TLSPrivateKeyFile kc) (pl_key_pem P) (write_pem (cg_TLSCertFile kc) (pl_cert_pem P) s)"

definition prepare_tls :: "process_lib \<Rightarrow> SlurmVirtualKubeletConfiguration \<Rightarrow> os \<Rightarrow> os" where
  "prepare_tls P kc s =
     (if \<not> pl_Exist P (cg_TLSCertFile kc) s \<and> \<not> pl_Exist P (cg_TLSPrivateKeyFile kc) s
      then tryPrepareTlsCerts P kc s else s)"

definition startVirtualKubelet :: "process_lib \<Rightarrow> SlurmVirtualKubelet \<Rightarrow> os \<Rightarrow> serving \<times> os" where
  "startVirtualKubelet P vk s0 =
     (let kc = ks_Configuration (vk_KubeletServer vk); s = prepare_tls P kc s0 in (ListenAndServe P kc s, s))"

section \<open>The command\<close>

datatype command_end = Helped | VersionPrinted | CommandError go_error | CommandExit | CommandPanic panic | Running SlurmVirtualKubelet serving

definition RunVirtualKubelet :: "process_lib \<Rightarrow> SlurmVirtualKubeletServer \<Rightarrow> os \<Rightarrow> command_end \<times> os" where
  "RunVirtualKubelet P ks s0 =
     (case NewMainSlurmVirtualKubelet P ks s0 of
        (StartError err, s) \<Rightarrow> (CommandError err, s)
      | (ProcessExit, s) \<Rightarrow> (CommandExit, s)
      | (Started vk, s) \<Rightarrow> (case startVirtualKubelet P vk s of (srv, s) \<Rightarrow> (Running vk srv, s)))"

text \<open>\<^verbatim>\<open>run\<close> and \<^verbatim>\<open>Run\<close>, up to the wait for the signal that ends the process.\<close>

definition run_kubelet :: "process_lib \<Rightarrow> SlurmVirtualKubeletServer \<Rightarrow> os \<Rightarrow> command_end \<times> os" where
  "run_kubelet P ks s =
     (case ValidateKubeletServer (pl_options P) ks of
        Some err \<Rightarrow> (CommandError err, s)
      | None \<Rightarrow> RunVirtualKubelet P ks s)"

definition Run :: "process_lib \<Rightarrow> SlurmVirtualKubeletServer \<Rightarrow> os \<Rightarrow> command_end \<times> os" where
  "Run P ks s0 =
     (case run_kubelet P ks s0 of
        (CommandError err, s) \<Rightarrow> (CommandError (Wrap ''failed to run Kubelet'' err), s)
      | r \<Rightarrow> r)"

text \<open>
  The configuration the command goes on with: the file, with the flags parsed over it again; it is
  \<^const>\<open>None\<close> when that parse ends the process.
\<close>

definition effective_config ::
    "process_lib \<Rightarrow> os_env \<Rightarrow> string list \<Rightarrow> SlurmVirtualKubeletFlags \<Rightarrow> SlurmVirtualKubeletConfiguration \<Rightarrow> os \<Rightarrow>
     SlurmVirtualKubeletConfiguration outcome option \<times> os" where
  "effective_config P env args flags kc0 s0 =
     (let file = fl_VirtualKubeletConfigFile flags in
      if length file > 0 then
        (case loadConfigFile P file s0 of
           (Inl err, s) \<Rightarrow>
             (Some (Error (Wrap (''failed to load kubelet config file, path: '' @ file @ '', error'') err)), s)
         | (Inr kc, s) \<Rightarrow>
             (case kubeletConfigFlagPrecedence (pl_flags P) env kc (pl_TokensAgain P args) of
                Some (Error err) \<Rightarrow> (Some (Error (Wrap ''failed to precedence kubeletConfigFlag'' err)), s)
              | r \<Rightarrow> (r, s)))
      else (Some (Value kc0), s0))"

text \<open>The help flag is registered as a Boolean, so reading it has no error.\<close>

definition GetBool_help :: "flag_targets \<Rightarrow> bool result" where
  "GetBool_help t = Inr (ft_help t)"

definition RunE ::
    "process_lib \<Rightarrow> os_env \<Rightarrow> SlurmVirtualKubeletFlags \<Rightarrow> SlurmVirtualKubeletConfiguration \<Rightarrow> string list \<Rightarrow> os \<Rightarrow>
     command_end \<times> os" where
  "RunE P env flags0 kc0 args s0 =
     (case parse_tokens (pl_flags P) (cleanFlagSet (pl_flags P)) (pl_Tokens P args) (fresh_targets flags0 kc0) of
        Panic q \<Rightarrow> (CommandPanic q, s0)
      | Error err \<Rightarrow> (CommandError (Wrap ''failed to parse kubelet flag'' err), s0)
      | Value t \<Rightarrow>
          (if length (pl_Args P args) > 0 then
             (CommandError (ErrorString (''unknown command '' @ pl_Args P args ! 0)), s0)
           else case GetBool_help t of
             Inl err \<Rightarrow>
               (CommandError (ErrorString (CHR 0x22 # ''help'' @ CHR 0x22 # '' flag is non-bool, programmer error, please correct'')), s0)
           | Inr True \<Rightarrow> (Helped, s0)
           | Inr False \<Rightarrow>
               (if pl_version_requested P args then (VersionPrinted, s0)
                else case setDefaultSlurmVKFlags (pl_options P) (ft_Flags t) of
                  Inl err \<Rightarrow> (CommandError err, s0)
                | Inr flags \<Rightarrow>
                    (case ValidateKubeletFlags (pl_options P) flags of
                       Some err \<Rightarrow> (CommandError (Wrap ''failed to validate kubelet flags'' err), s0)
                     | None \<Rightarrow>
                         (case effective_config P env args flags (ft_Config t) s0 of
                            (None, s) \<Rightarrow> (CommandExit, s)
                          | (Some (Error err), s) \<Rightarrow> (CommandError err, s)
                          | (Some (Panic q), s) \<Rightarrow> (CommandPanic q, s)
                          | (Some (Value kc), s) \<Rightarrow> Run P \<lparr>ks_Flags = flags, ks_Configuration = kc\<rparr> s)))))"

definition NewSlurmVirtualKubeltCommand :: "process_lib \<Rightarrow> os_env \<Rightarrow> string list \<Rightarrow> os \<Rightarrow> command_end \<times> os" where
  "NewSlurmVirtualKubeltCommand P env args s =
     RunE P env (NewSlurmVirtualKubeletFlags env) (SetDefaults_SlurmVirtualKubeletConfiguration zero_Configuration) args s"

section \<open>Paths of the configuration\<close>

lemma Clean_abs: "filepath_IsAbs p \<Longrightarrow> filepath_IsAbs (filepath_Clean p)"
  by (cases p) (auto simp: filepath_IsAbs_def HasPrefix_def filepath_Clean_def)

lemma Join_abs: "filepath_IsAbs root \<Longrightarrow> filepath_IsAbs (filepath_Join [root, p])"
  by (cases root) (auto simp: filepath_IsAbs_def HasPrefix_def filepath_Join_def intro!: Clean_abs [unfolded filepath_IsAbs_def HasPrefix_def])

lemma Dir_abs: "filepath_IsAbs p \<Longrightarrow> filepath_IsAbs (filepath_Dir p)"
proof -
  assume "filepath_IsAbs p"
  then obtain q where p: "p = slash # q" by (auto simp: filepath_IsAbs_def HasPrefix_def prefix_def)
  have "dropWhile (\<lambda>c. c \<noteq> slash) (rev q @ [slash]) = (dropWhile (\<lambda>c. c \<noteq> slash) (rev q)) @ [slash]"
    by (induction q rule: rev_induct) auto
  then have "rev (dropWhile (\<lambda>c. c \<noteq> slash) (rev p)) = slash # rev (dropWhile (\<lambda>c. c \<noteq> slash) (rev q))"
    using p by simp
  then show ?thesis
    unfolding filepath_Dir_def by (intro Clean_abs) (simp add: filepath_IsAbs_def HasPrefix_def)
qed

definition path_refs :: "SlurmVirtualKubeletConfiguration \<Rightarrow> string list" where
  "path_refs kc = [cg_StaticPodPath kc, cg_TLSCertFile kc, cg_TLSPrivateKeyFile kc, cg_VolumePluginDir kc]"

lemma resolved_abs: "filepath_IsAbs root \<Longrightarrow> resolveRelativePath root p = [] \<or> filepath_IsAbs (resolveRelativePath root p)"
  by (simp add: resolveRelativePath_def Join_abs)

text \<open>
  A configuration that is loaded from a file has no relative path left: each of its paths is empty
  or absolute, whatever working directory the process has and whatever the file holds; everything
  else is as it was decoded.
\<close>

theorem loaded_paths_absolute:
  assumes "loadConfigFile P name s = (Inr kc, s')" and "\<forall>d. pl_Getwd P = Inr d \<longrightarrow> filepath_IsAbs d"
  shows "(\<forall>p \<in> set (path_refs kc). p = [] \<or> filepath_IsAbs p) \<and>
    (\<exists>data kc0. DecodeKubeletConfiguration P data = Inr kc0 \<and> update_path_refs (\<lambda>p. []) kc = update_path_refs (\<lambda>p. []) kc0)"
proof -
  obtain kf where f: "Abs_path (pl_Getwd P) name = Inr kf"
    and l: "Load P (DefaultFs []) kf s = (Inr kc, s')"
    using assms(1) by (auto simp: loadConfigFile_def split: sum.splits option.splits prod.splits)
  have "filepath_IsAbs kf"
    using f assms(2) by (auto simp: Abs_path_def Clean_abs Join_abs split: if_splits sum.splits)
  then have d: "filepath_IsAbs (filepath_Dir kf)" by (rule Dir_abs)
  obtain data kc0 where "DecodeKubeletConfiguration P data = Inr kc0"
    and kc: "kc = resolveRelativePaths (filepath_Dir kf) kc0"
    using l by (auto simp: Load_def split: prod.splits sum.splits if_splits)
  then show ?thesis
    using resolved_abs [OF d] by (auto simp: path_refs_def resolveRelativePaths_def update_path_refs_def)
qed

section \<open>A running kubelet\<close>

lemma setDefault_labels:
  assumes "setDefaultSlurmVKFlags L f0 = Inr f"
  shows "map_of (fl_NodeLabels f) PartitionLabel = Some (fl_SlurmPartition f)"
proof -
  let ?ls = "vk_node_labels (fl_NodeName f) (fl_SlurmPartition f0)"
  have p: "fl_SlurmPartition f = fl_SlurmPartition f0"
    and l: "fl_NodeLabels f = AList.updates (map fst ?ls) (map snd ?ls) (fl_NodeLabels f0)"
    using assms by (auto simp: setDefaultSlurmVKFlags_def split: sum.splits)
  show ?thesis
    unfolding l p by (simp add: update_conv' vk_node_labels_def DefaultNodeSelectors_def PartitionLabel_def)
qed

lemma Run_running:
  assumes "Run P ks s = (Running vk srv, s')"
  shows "ValidateKubeletServer (pl_options P) ks = None \<and> vk_KubeletServer vk = ks \<and>
    fl_AgentEndpoint (ks_Flags ks) \<noteq> [] \<and> pl_Dial P (vk_agent_addr vk) = None \<and>
    vk_agent_addr vk = dial_addr (fl_AgentEndpoint (ks_Flags ks)) \<and>
    snd (snd (vk_nodeRef vk)) = fl_NodeName (ks_Flags ks)"
proof -
  have r: "RunVirtualKubelet P ks s = (Running vk srv, s') \<and> ValidateKubeletServer (pl_options P) ks = None"
    using assms by (auto simp: Run_def run_kubelet_def split: prod.splits command_end.splits option.splits)
  then obtain client where "NewSlurmVirtualKubelet P (Some ks) client = Started vk"
    by (auto simp: RunVirtualKubelet_def NewMainSlurmVirtualKubelet_def split: prod.splits start.splits sum.splits)
  with r show ?thesis
    by (auto simp: NewSlurmVirtualKubelet_def Let_def split: if_splits option.splits)
qed

text \<open>
  What a running kubelet was started from: the parse of its command line, the flags completed with
  defaults, and the configuration.
\<close>

lemma Command_running:
  assumes "NewSlurmVirtualKubeltCommand P env args s = (Running vk srv, s')"
  obtains t flags kc s1 where
    "parse_tokens (pl_flags P) (cleanFlagSet (pl_flags P)) (pl_Tokens P args)
       (fresh_targets (NewSlurmVirtualKubeletFlags env) (SetDefaults_SlurmVirtualKubeletConfiguration zero_Configuration)) = Value t"
    "\<not> ft_help t" "setDefaultSlurmVKFlags (pl_options P) (ft_Flags t) = Inr flags"
    "ValidateKubeletFlags (pl_options P) flags = None"
    "effective_config P env args flags (ft_Config t) s = (Some (Value kc), s1)"
    "Run P \<lparr>ks_Flags = flags, ks_Configuration = kc\<rparr> s1 = (Running vk srv, s')"
proof -
  let ?p = "parse_tokens (pl_flags P) (cleanFlagSet (pl_flags P)) (pl_Tokens P args)
       (fresh_targets (NewSlurmVirtualKubeletFlags env) (SetDefaults_SlurmVirtualKubeletConfiguration zero_Configuration))"
  have r: "RunE P env (NewSlurmVirtualKubeletFlags env) (SetDefaults_SlurmVirtualKubeletConfiguration zero_Configuration) args s
      = (Running vk srv, s')"
    using assms by (simp add: NewSlurmVirtualKubeltCommand_def)
  then obtain t where t: "?p = Value t"
    by (cases ?p) (simp_all add: RunE_def)
  have h: "\<not> ft_help t" using r t by (auto simp: RunE_def GetBool_help_def split: if_splits)
  obtain flags where d: "setDefaultSlurmVKFlags (pl_options P) (ft_Flags t) = Inr flags"
    using r t h by (cases "setDefaultSlurmVKFlags (pl_options P) (ft_Flags t)")
      (simp_all add: RunE_def GetBool_help_def split: if_splits)
  have v: "ValidateKubeletFlags (pl_options P) flags = None"
    using r t h d by (cases "ValidateKubeletFlags (pl_options P) flags")
      (simp_all add: RunE_def GetBool_help_def split: if_splits)
  obtain c s1 where c: "effective_config P env args flags (ft_Config t) s = (c, s1)" by (metis surj_pair)
  then obtain kc where "c = Some (Value kc)" "Run P \<lparr>ks_Flags = flags, ks_Configuration = kc\<rparr> s1 = (Running vk srv, s')"
    using r t h d v
    by (cases c) (auto simp: RunE_def GetBool_help_def split: if_splits outcome.splits)
  with that t h d v c show ?thesis by blast
qed

lemma Command_runs:
  assumes "parse_tokens (pl_flags P) (cleanFlagSet (pl_flags P)) (pl_Tokens P args)
       (fresh_targets (NewSlurmVirtualKubeletFlags env) (SetDefaults_SlurmVirtualKubeletConfiguration zero_Configuration)) = Value t"
    and "\<not> ft_help t" "pl_Args P args = []" "\<not> pl_version_requested P args"
    and "setDefaultSlurmVKFlags (pl_options P) (ft_Flags t) = Inr flags"
    and "effective_config P env args flags (ft_Config t) s = (Some (Value kc), s1)"
    and "ValidateKubeletFlags (pl_options P) flags = None"
    and "ValidateSlurmVirtualKubeletConfiguration (pl_options P) kc = None"
    and "newClient P (fl_KubeConfig flags) s1 = (Inr c, s2)" and "fl_AgentEndpoint flags \<noteq> []"
    and "pl_Dial P (dial_addr (fl_AgentEndpoint flags)) = None"
  shows "\<exists>vk srv s'. NewSlurmVirtualKubeltCommand P env args s = (Running vk srv, s') \<and>
    vk_KubeletServer vk = \<lparr>ks_Flags = flags, ks_Configuration = kc\<rparr>"
proof -
  let ?ks = "\<lparr>ks_Flags = flags, ks_Configuration = kc\<rparr>"
  have run: "NewSlurmVirtualKubeltCommand P env args s = Run P ?ks s1"
    using assms(1-7) by (simp add: NewSlurmVirtualKubeltCommand_def RunE_def GetBool_help_def)
  obtain vk where vk: "NewSlurmVirtualKubelet P (Some ?ks) c = Started vk" "vk_KubeletServer vk = ?ks"
    using assms(10,11) by (simp add: NewSlurmVirtualKubelet_def)
  obtain srv s' where "startVirtualKubelet P vk s2 = (srv, s')" by (metis surj_pair)
  then have "Run P ?ks s1 = (Running vk srv, s')"
    using assms(7-9) vk(1) by (simp add: Run_def run_kubelet_def RunVirtualKubelet_def NewMainSlurmVirtualKubelet_def
        ValidateKubeletServer_def)
  then show ?thesis using run vk(2) by simp
qed


text \<open>
  C38. The command line wins over the configuration file: a kubelet that runs with a file has the file's
  configuration, with exactly the fields replaced whose flags are on the command line, by the values
  the command line gave; parsing the flags a second time neither fails nor ends the process. It relies
  on both flag sets cutting the command line alike and on no library taking one of the kubelet's flags.
\<close>

theorem flags_win_over_file:
  assumes "NewSlurmVirtualKubeltCommand P env args s = (Running vk srv, s')"
    and "fl_VirtualKubeletConfigFile (ks_Flags (vk_KubeletServer vk)) = file" and "file \<noteq> []"
    and "pl_TokensAgain P args = pl_Tokens P args" and "''help'' \<notin> given (pl_Tokens P args)"
    and "header_starts_anew (pl_flags P)" and "flags_apart (pl_flags P)"
  shows "\<exists>t kc. parse_tokens (pl_flags P) (cleanFlagSet (pl_flags P)) (pl_Tokens P args)
        (fresh_targets (NewSlurmVirtualKubeletFlags env) (SetDefaults_SlurmVirtualKubeletConfiguration zero_Configuration)) = Value t \<and>
      fst (loadConfigFile P file s) = Inr kc \<and>
      ks_Configuration (vk_KubeletServer vk) = flags_over (given (pl_Tokens P args)) (ft_Config t) kc"
proof -
  obtain t flags kc s1 where t: "parse_tokens (pl_flags P) (cleanFlagSet (pl_flags P)) (pl_Tokens P args)
       (fresh_targets (NewSlurmVirtualKubeletFlags env) (SetDefaults_SlurmVirtualKubeletConfiguration zero_Configuration)) = Value t"
    and "\<not> ft_help t" "setDefaultSlurmVKFlags (pl_options P) (ft_Flags t) = Inr flags"
      "ValidateKubeletFlags (pl_options P) flags = None"
    and c: "effective_config P env args flags (ft_Config t) s = (Some (Value kc), s1)"
    and r: "Run P \<lparr>ks_Flags = flags, ks_Configuration = kc\<rparr> s1 = (Running vk srv, s')"
    by (rule Command_running [OF assms(1)])
  have k: "vk_KubeletServer vk = \<lparr>ks_Flags = flags, ks_Configuration = kc\<rparr>" using Run_running [OF r] by simp
  obtain l s2 where l: "loadConfigFile P file s = (l, s2)" by (metis surj_pair)
  then obtain kc0 where "l = Inr kc0"
    using c assms(2,3) k by (cases l) (auto simp: effective_config_def)
  then show ?thesis
    using c assms(2,3,4) k l t command_line_wins [OF assms(6,7,5) t]
    by (auto simp: effective_config_def)
qed

section \<open>Certificates\<close>

text \<open>What the kubelet relies on: existence is what the system says, and a key pair needs both files.\<close>

definition tls_contract :: "process_lib \<Rightarrow> bool" where
  "tls_contract P \<longleftrightarrow>
     (\<forall>p s. pl_Exist P p s \<longleftrightarrow> os_nodes s p \<noteq> None) \<and>
     (\<forall>c k. c = None \<or> k = None \<longrightarrow> pl_LoadX509KeyPair P c k \<noteq> None) \<and>
     pl_LoadX509KeyPair P (Some (pl_cert_pem P)) (Some (pl_key_pem P)) = None"

lemma write_pem_fine:
  assumes "os_faults s = []" and "parent_is_dir p s" and "os_nodes s p = None"
  shows "os_nodes (write_pem p d s) = (os_nodes s)(p \<mapsto> RegularFile d) \<and> os_faults (write_pem p d s) = []"
proof -
  have "next_fault s = (None, s)" using assms(1) by (simp add: next_fault_def)
  moreover have "next_fault (set_node p n s) = (None, set_node p n s)" for n
    using assms(1) by (simp add: next_fault_def set_node_def)
  ultimately show ?thesis
    using assms by (simp add: write_pem_def os_Create_def os_Write_def os_handle_call_def set_node_def)
qed

text \<open>
  A kubelet without certificates makes its own and serves with them: neither file exists, both can
  be created (their directories are there), and no call fails.
\<close>

theorem missing_certificates_made:
  assumes "tls_contract P" and "os_faults s = []"
    and "cg_TLSCertFile kc \<noteq> []" "cg_TLSPrivateKeyFile kc \<noteq> []" "cg_TLSCertFile kc \<noteq> cg_TLSPrivateKeyFile kc"
    and "os_nodes s (cg_TLSCertFile kc) = None" "os_nodes s (cg_TLSPrivateKeyFile kc) = None"
    and "parent_is_dir (cg_TLSCertFile kc) s" "parent_is_dir (cg_TLSPrivateKeyFile kc) s"
    and "ks_Configuration (vk_KubeletServer vk) = kc"
  shows "\<exists>addr. fst (startVirtualKubelet P vk s) = ServingTLS addr"
proof -
  let ?c = "cg_TLSCertFile kc" and ?k = "cg_TLSPrivateKeyFile kc"
  let ?s1 = "write_pem ?c (pl_cert_pem P) s"
  have w1: "os_nodes ?s1 = (os_nodes s)(?c \<mapsto> RegularFile (pl_cert_pem P))" "os_faults ?s1 = []"
    using write_pem_fine assms(2,6,8) by auto
  have "parent_is_dir ?k ?s1" using assms(6,9) w1 by (auto simp: parent_is_dir_def)
  then have w2: "os_nodes (write_pem ?k (pl_key_pem P) ?s1) = (os_nodes ?s1)(?k \<mapsto> RegularFile (pl_key_pem P))"
    using write_pem_fine [of ?s1 ?k] w1 assms(5,7) by auto
  then show ?thesis
    using assms(1,3-7,10) w1
    by (simp add: startVirtualKubelet_def prepare_tls_def tryPrepareTlsCerts_def tls_contract_def
        ListenAndServe_def loadTLSConfig_def file_of_def errors_Wrap_def Let_def)
qed

text \<open>
  A kubelet that has lost one of the two files does not make new ones: only one of the certificate
  and the key exists, and the process exits.
\<close>

theorem half_certificates_exit:
  assumes "tls_contract P" and "cg_TLSCertFile kc \<noteq> []" "cg_TLSPrivateKeyFile kc \<noteq> []"
    and "(os_nodes s (cg_TLSCertFile kc) = None) \<noteq> (os_nodes s (cg_TLSPrivateKeyFile kc) = None)"
    and "ks_Configuration (vk_KubeletServer vk) = kc"
  shows "startVirtualKubelet P vk s = (ServeExit, s)"
proof -
  have "prepare_tls P kc s = s" using assms(1,4) by (auto simp: prepare_tls_def tls_contract_def)
  moreover have "pl_LoadX509KeyPair P (file_of s (cg_TLSCertFile kc)) (file_of s (cg_TLSPrivateKeyFile kc)) \<noteq> None"
  proof -
    have "file_of s (cg_TLSCertFile kc) = None \<or> file_of s (cg_TLSPrivateKeyFile kc) = None"
      using assms(4) by (auto simp: file_of_def)
    then show ?thesis using assms(1) unfolding tls_contract_def by blast
  qed
  ultimately show ?thesis
    using assms(2,3,5) by (auto simp: startVirtualKubelet_def ListenAndServe_def loadTLSConfig_def errors_Wrap_def Let_def)
qed

text \<open>An unusable sampling rate is not an error: wrapping the nil error gives nil, and nothing is sampled.\<close>

lemma trace_rate_out_of_range:
  "sampler_of ''150'' = Inl None"
  by code_simp

section \<open>A concrete process\<close>

definition sample_kflags :: kflag_lib where
  "sample_kflags =
     \<lparr>kf_Int32 = (\<lambda>s. if s = ''10300'' then Inr 10300 else Inl (NumError ''ParseInt'' s ErrSyntax)),
      kf_Duration = (\<lambda>s. Inl (NumError ''ParseDuration'' s ErrSyntax)), kf_header_Set = (\<lambda>b v h. Inr []),
      kf_values = sample_flag_lib, kf_global = [''v''], kf_global_Set = (\<lambda>n v. None), kf_error = (\<lambda>n v e. e)\<rparr>"

definition sample_tokens :: "flag_token list" where
  "sample_tokens = [FlagToken ''nodename'' ''node'', FlagToken ''partition'' ''debug'', FlagToken ''v'' ''5'',
     FlagToken ''endpoint'' ''/run/agent.sock'', FlagToken ''config'' ''k.yaml'', FlagToken ''port'' ''10300'']"

definition sample_process :: process_lib where
  "sample_process =
     \<lparr>pl_options = sample_options_lib,
      pl_flags = sample_kflags, pl_Tokens = (\<lambda>_. sample_tokens), pl_TokensAgain = (\<lambda>_. sample_tokens),
      pl_Args = (\<lambda>_. []), pl_version_requested = (\<lambda>_. False), pl_NewSchemeAndCodecs = None, pl_NewLenientSchemeAndCodecs = None,
      pl_Decode = (\<lambda>d. Inr (Some (SetDefaults_SlurmVirtualKubeletConfiguration
        (zero_Configuration\<lparr>cg_StaticPodPath := d, cg_TLSCertFile := ''/c'', cg_TLSPrivateKeyFile := ''/k''\<rparr>)))),
      pl_LenientDecode = (\<lambda>_. Inr None), pl_IsStrictDecodingError = (\<lambda>_. False), pl_kind = (\<lambda>_. []),
      pl_Getwd = Inr ''/etc'', pl_BuildConfigFromFlags = (\<lambda>_. Inr ''api''), pl_InClusterConfig = Inr ''api'',
      pl_MASTER_URI = [], pl_NewForConfig = Inr, pl_Exist = (\<lambda>p s. os_nodes s p \<noteq> None),
      pl_Dial = (\<lambda>_. None), pl_ParseIPSloppy = (\<lambda>a. a), pl_JoinHostPort = (\<lambda>h p. h @ '':'' @ p),
      pl_cert_pem = ''CERT'', pl_key_pem = ''KEY'',
      pl_LoadX509KeyPair = (\<lambda>c k. if c = Some ''CERT'' \<and> k = Some ''KEY'' then None else Some (Sentinel ''pem'')),
      pl_text = (\<lambda>_. [])\<rparr>"

definition kubelet_os :: os where
  "kubelet_os = \<lparr>os_nodes = [''/'' \<mapsto> Directory, ''/etc'' \<mapsto> Directory, ''/etc/k.yaml'' \<mapsto> RegularFile ''pods''],
     os_faults = [], os_random = [], os_mode = (\<lambda>_. [])\<rparr>"

definition sample_kc :: SlurmVirtualKubeletConfiguration where
  "sample_kc = SetDefaults_SlurmVirtualKubeletConfiguration
     (zero_Configuration\<lparr>cg_StaticPodPath := ''/etc/pods'', cg_TLSCertFile := ''/c'', cg_TLSPrivateKeyFile := ''/k''\<rparr>)"

lemma sample_load: "loadConfigFile sample_process ''k.yaml'' kubelet_os = (Inr sample_kc, kubelet_os)"
proof -
  have "filepath_Join [''/etc'', ''k.yaml''] = ''/etc/k.yaml''" "filepath_Dir ''/etc/k.yaml'' = ''/etc''"
    "filepath_Join [''/etc'', ''pods''] = ''/etc/pods''"
    by code_simp+
  then show ?thesis
    by (simp add: loadConfigFile_def Abs_path_def filepath_IsAbs_def HasPrefix_def Load_def DefaultFs_def fs_prefix_def
        os_ReadFile_def next_fault_def kubelet_os_def sample_process_def DecodeKubeletConfiguration_def
        resolveRelativePaths_def update_path_refs_def resolveRelativePath_def sample_kc_def
        SetDefaults_SlurmVirtualKubeletConfiguration_def zero_Configuration_def Let_def)
qed

theorem loaded_paths_absolute_witness:
  "list_all (\<lambda>p. p = [] \<or> filepath_IsAbs p) (path_refs sample_kc)"
proof -
  have "\<forall>d. pl_Getwd sample_process = Inr d \<longrightarrow> filepath_IsAbs d"
    by (simp add: sample_process_def filepath_IsAbs_def HasPrefix_def)
  from loaded_paths_absolute [OF sample_load this] show ?thesis by (simp add: list_all_iff)
qed

lemma tls_contract_sample: "tls_contract sample_process"
  by (auto simp: tls_contract_def sample_process_def)

definition sample_vk :: SlurmVirtualKubelet where
  "sample_vk = \<lparr>vk_KubeletServer = \<lparr>ks_Flags = zero_Flags, ks_Configuration = sample_kc\<rparr>,
     vk_nodeRef = ([], [], []), vk_Client = [], vk_agent_addr = []\<rparr>"

lemma sample_kc_files: "cg_TLSCertFile sample_kc = ''/c''" "cg_TLSPrivateKeyFile sample_kc = ''/k''"
  by (simp_all add: sample_kc_def SetDefaults_SlurmVirtualKubeletConfiguration_def zero_Configuration_def Let_def)

lemma kubelet_os_facts:
  "os_faults kubelet_os = []" "os_nodes kubelet_os ''/c'' = None" "os_nodes kubelet_os ''/k'' = None"
  "parent_is_dir ''/c'' kubelet_os" "parent_is_dir ''/k'' kubelet_os"
proof -
  have "filepath_Dir ''/c'' = ''/''" "filepath_Dir ''/k'' = ''/''" by code_simp+
  then show "os_faults kubelet_os = []" "os_nodes kubelet_os ''/c'' = None" "os_nodes kubelet_os ''/k'' = None"
    "parent_is_dir ''/c'' kubelet_os" "parent_is_dir ''/k'' kubelet_os"
    by (simp_all add: parent_is_dir_def kubelet_os_def)
qed

theorem missing_certificates_made_witness:
  "\<exists>addr. fst (startVirtualKubelet sample_process sample_vk kubelet_os) = ServingTLS addr"
  by (rule missing_certificates_made [OF tls_contract_sample kubelet_os_facts(1), of sample_kc])
     (simp_all add: sample_kc_files kubelet_os_facts, simp add: sample_vk_def)

theorem half_certificates_exit_witness:
  "fst (startVirtualKubelet sample_process sample_vk (set_node ''/c'' (Some (RegularFile ''CERT'')) kubelet_os)) = ServeExit"
proof -
  let ?s = "set_node ''/c'' (Some (RegularFile ''CERT'')) kubelet_os"
  have "os_nodes ?s ''/c'' \<noteq> None" "os_nodes ?s ''/k'' = None"
    by (simp_all add: set_node_def kubelet_os_def)
  then have "(os_nodes ?s (cg_TLSCertFile sample_kc) = None) \<noteq> (os_nodes ?s (cg_TLSPrivateKeyFile sample_kc) = None)"
    unfolding sample_kc_files by simp
  moreover have "ks_Configuration (vk_KubeletServer sample_vk) = sample_kc" by (simp add: sample_vk_def)
  ultimately show ?thesis
    using half_certificates_exit [OF tls_contract_sample, of sample_kc ?s sample_vk] by (simp add: sample_kc_files)
qed

definition sample_env :: os_env where
  "sample_env = \<lparr>os_Env = Map.empty, os_Home = ''/root''\<rparr>"

definition sample_given :: SlurmVirtualKubeletFlags where
  "sample_given = (NewSlurmVirtualKubeletFlags sample_env)\<lparr>fl_NodeName := ''node'', fl_SlurmPartition := ''debug'',
     fl_AgentEndpoint := ''/run/agent.sock'', fl_VirtualKubeletConfigFile := ''k.yaml''\<rparr>"

definition sample_flags :: SlurmVirtualKubeletFlags where
  "sample_flags = sample_given\<lparr>fl_NodeLabels := vk_node_labels ''node'' ''debug''\<rparr>"

lemma sample_defaulted: "setDefaultSlurmVKFlags sample_options_lib sample_given = Inr sample_flags"
  by (simp add: setDefaultSlurmVKFlags_def sample_options_lib_def sample_given_def sample_flags_def
      updates_fresh vk_node_labels_distinct)

lemma sample_flags_valid: "ValidateKubeletFlags sample_options_lib sample_flags = None"
  by (simp add: ValidateKubeletFlags_None sample_flags_def vk_labels_known label_errors_empty)
     (simp add: sample_given_def vk_node_labels_def DefaultNodeSelectors_def PartitionLabel_def sample_options_lib_def)

lemma sample_kc_valid: "ValidateSlurmVirtualKubeletConfiguration sample_options_lib sample_kc = None"
  by (simp add: ValidateSlurmVirtualKubeletConfiguration_def config_errors_def sample_options_lib_def sample_kc_def
      SetDefaults_SlurmVirtualKubeletConfiguration_def zero_Configuration_def Let_def)

lemma sample_client: "\<exists>c. newClient sample_process k kubelet_os = (Inr c, kubelet_os)"
proof -
  have "\<exists>r. os_Stat k kubelet_os = (r, kubelet_os)"
    by (auto simp: os_Stat_def next_fault_def kubelet_os_def split: option.splits)
  then obtain r where "os_Stat k kubelet_os = (r, kubelet_os)" by blast
  then show ?thesis
    by (cases r) (simp_all add: newClient_def stat_exists_def sample_process_def Let_def)
qed

lemma sample_kflags_sel:
  "kf_Int32 sample_kflags ''10300'' = Inr 10300" "kf_global sample_kflags = [''v'']"
  "kf_global_Set sample_kflags n v = None"
  by (simp_all add: sample_kflags_def)

lemma sample_parse:
  "parse_tokens sample_kflags (cleanFlagSet sample_kflags) sample_tokens
     (fresh_targets (NewSlurmVirtualKubeletFlags sample_env) kc) =
   Value (fresh_targets sample_given (kc\<lparr>cg_Port := 10300\<rparr>))"
  by (simp add: sample_tokens_def cleanFlagSet_def AddFlags_def AddKubeletConfigFlags_def AddGlobalFlags_def
      set_text_def set_config_def fresh_targets_def sample_given_def sample_kflags_sel)

lemma sample_flags_over: "header_starts_anew sample_kflags" "flags_apart sample_kflags" "''help'' \<notin> given sample_tokens"
  by (simp_all add: header_starts_anew_def flags_apart_def own_flags_def sample_kflags_def sample_tokens_def)

definition sample_final :: SlurmVirtualKubeletConfiguration where
  "sample_final = sample_kc\<lparr>cg_Port := 10300\<rparr>"

lemma sample_precedence: "kubeletConfigFlagPrecedence sample_kflags sample_env sample_kc sample_tokens = Some (Value sample_final)"
  unfolding command_line_wins [OF sample_flags_over sample_parse [of zero_Configuration]] sample_final_def
  by (simp add: flags_over_def pick_def sample_tokens_def)

lemma sample_final_valid: "ValidateSlurmVirtualKubeletConfiguration sample_options_lib sample_final = None"
  by (simp add: ValidateSlurmVirtualKubeletConfiguration_def config_errors_def sample_options_lib_def sample_kc_def
      sample_final_def SetDefaults_SlurmVirtualKubeletConfiguration_def zero_Configuration_def Let_def)

lemma sample_runs:
  "\<exists>vk srv s'. NewSlurmVirtualKubeltCommand sample_process sample_env [] kubelet_os = (Running vk srv, s') \<and>
     vk_KubeletServer vk = \<lparr>ks_Flags = sample_flags, ks_Configuration = sample_final\<rparr>"
proof -
  have opts: "pl_options sample_process = sample_options_lib" "pl_Args sample_process [] = []"
    "pl_flags sample_process = sample_kflags" "pl_Tokens sample_process [] = sample_tokens"
    "pl_TokensAgain sample_process [] = sample_tokens" "\<not> pl_version_requested sample_process []"
    "pl_Dial sample_process a = None" for a
    by (simp_all add: sample_process_def)
  have f: "fl_VirtualKubeletConfigFile sample_flags = ''k.yaml''" "fl_AgentEndpoint sample_flags \<noteq> []"
    by (simp_all add: sample_flags_def sample_given_def)
  then have e: "effective_config sample_process sample_env [] sample_flags kc kubelet_os =
      (Some (Value sample_final), kubelet_os)" for kc
    by (simp add: effective_config_def sample_load opts sample_precedence)
  obtain c where c: "newClient sample_process (fl_KubeConfig sample_flags) kubelet_os = (Inr c, kubelet_os)"
    using sample_client by blast
  let ?kc = "SetDefaults_SlurmVirtualKubeletConfiguration zero_Configuration"
  have p: "parse_tokens (pl_flags sample_process) (cleanFlagSet (pl_flags sample_process)) (pl_Tokens sample_process [])
      (fresh_targets (NewSlurmVirtualKubeletFlags sample_env) ?kc) =
      Value (fresh_targets sample_given (?kc\<lparr>cg_Port := 10300\<rparr>))"
    by (simp add: opts sample_parse)
  show ?thesis
    by (rule Command_runs [OF p _ _ _ _ e _ _ c])
       (simp_all add: opts sample_parse sample_defaulted sample_flags_valid sample_final_valid f)
qed

theorem flags_win_over_file_witness:
  "\<exists>vk srv s'. NewSlurmVirtualKubeltCommand sample_process sample_env [] kubelet_os = (Running vk srv, s') \<and>
     cg_Port (ks_Configuration (vk_KubeletServer vk)) = 10300 \<and>
     cg_StaticPodPath (ks_Configuration (vk_KubeletServer vk)) = ''/etc/pods''"
proof -
  obtain vk srv s' where r: "NewSlurmVirtualKubeltCommand sample_process sample_env [] kubelet_os = (Running vk srv, s')"
    and k: "vk_KubeletServer vk = \<lparr>ks_Flags = sample_flags, ks_Configuration = sample_final\<rparr>"
    using sample_runs by blast
  have p: "pl_flags sample_process = sample_kflags" "pl_Tokens sample_process [] = sample_tokens"
    "pl_TokensAgain sample_process [] = sample_tokens"
    by (simp_all add: sample_process_def)
  have f: "fl_VirtualKubeletConfigFile (ks_Flags (vk_KubeletServer vk)) = ''k.yaml''"
    by (simp add: k sample_flags_def sample_given_def)
  have "pl_TokensAgain sample_process [] = pl_Tokens sample_process []" "''help'' \<notin> given (pl_Tokens sample_process [])"
    "header_starts_anew (pl_flags sample_process)" "flags_apart (pl_flags sample_process)"
    unfolding p using sample_flags_over by simp_all
  from flags_win_over_file [OF r f _ this] have "ks_Configuration (vk_KubeletServer vk) =
      flags_over (given sample_tokens) ((SetDefaults_SlurmVirtualKubeletConfiguration zero_Configuration)\<lparr>cg_Port := 10300\<rparr>) sample_kc"
    by (auto simp: p sample_parse sample_load)
  moreover have "cg_StaticPodPath sample_kc = ''/etc/pods''"
    by (simp add: sample_kc_def SetDefaults_SlurmVirtualKubeletConfiguration_def zero_Configuration_def Let_def)
  ultimately show ?thesis
    using r by (intro exI conjI) (auto simp: flags_over_def pick_def sample_tokens_def)
qed


end
