(* ===== verification/KubeletRun.thy ===== *)
theory KubeletRun
  imports KubeletProcess VKLifecycle
begin

text \<open>
  What a started kubelet runs (\<^verbatim>\<open>Run\<close> of \<^verbatim>\<open>virtual-kubelet.go\<close>, with \<^verbatim>\<open>waitFor\<close>, \<^verbatim>\<open>BirthCry\<close> and the handler of
  failed status updates) and the resource manager it hands to its provider (\<^verbatim>\<open>manager/resource.go\<close>).
  The informers and the two controllers belong to client-go and to the virtual-kubelet library: they are
  parameters, and of their goroutines it matters what happens first. A run is the list of the steps it
  made and how it ended.
\<close>

section \<open>The resource manager\<close>

text \<open>An object of the kinds the kubelet only passes on is a string.\<close>

record 'w ResourceManager =
  rm_podLister :: "'w \<Rightarrow> Pod list result"
  rm_secretLister :: "string \<Rightarrow> string \<Rightarrow> 'w \<Rightarrow> string result"
  rm_configMapLister :: "string \<Rightarrow> string \<Rightarrow> 'w \<Rightarrow> string result"
  rm_serviceLister :: "'w \<Rightarrow> string list result"

definition NewResourceManager ::
    "('w \<Rightarrow> Pod list result) \<Rightarrow> (string \<Rightarrow> string \<Rightarrow> 'w \<Rightarrow> string result) \<Rightarrow>
     (string \<Rightarrow> string \<Rightarrow> 'w \<Rightarrow> string result) \<Rightarrow> ('w \<Rightarrow> string list result) \<Rightarrow> 'w ResourceManager result" where
  "NewResourceManager pods secrets configMaps services =
     Inr \<lparr>rm_podLister = pods, rm_secretLister = secrets, rm_configMapLister = configMaps,
          rm_serviceLister = services\<rparr>"

definition rm_GetPods :: "'w ResourceManager \<Rightarrow> 'w \<Rightarrow> Pod list" where
  "rm_GetPods rm w = (case rm_podLister rm w of Inr l \<Rightarrow> l | Inl err \<Rightarrow> [])"

definition rm_GetConfigMap :: "'w ResourceManager \<Rightarrow> string \<Rightarrow> string \<Rightarrow> 'w \<Rightarrow> string result" where
  "rm_GetConfigMap rm name namespace w = rm_configMapLister rm namespace name w"

definition rm_GetSecret :: "'w ResourceManager \<Rightarrow> string \<Rightarrow> string \<Rightarrow> 'w \<Rightarrow> string result" where
  "rm_GetSecret rm name namespace w = rm_secretLister rm namespace name w"

definition rm_ListServices :: "'w ResourceManager \<Rightarrow> 'w \<Rightarrow> string list result" where
  "rm_ListServices rm w = rm_serviceLister rm w"

section \<open>Parameters\<close>

text \<open>
  What a controller's goroutine does first: it closes its channel \<^verbatim>\<open>Ready\<close>, returns from \<^verbatim>\<open>Run\<close>, or
  does neither ever.
\<close>

datatype run_outcome = ReadyClosed | RunReturned "go_error option" | NeverReady

record 'w run_lib =
  ru_env :: "'w vk_env"
  ru_listers :: "'w ResourceManager"
  ru_exporters :: "string \<rightharpoonup> go_error option"
  ru_selector :: "string \<Rightarrow> string \<Rightarrow> string"
  ru_inputs :: node_inputs
  ru_NewPodController :: "'w \<Rightarrow> go_error option"
  ru_pods_ready_at :: "'w \<Rightarrow> duration option"
  ru_NewNodeController :: "KNode \<Rightarrow> 'w \<Rightarrow> go_error option"
  ru_node_Run :: "KNode \<Rightarrow> 'w \<Rightarrow> run_outcome \<times> 'w"
  ru_pod_Run :: "int64 \<Rightarrow> 'w \<Rightarrow> run_outcome \<times> 'w"
  ru_Create_node :: "KNode \<Rightarrow> 'w \<Rightarrow> go_error option \<times> 'w"
  ru_Canceled :: "go_error \<Rightarrow> bool"

section \<open>The parts of a run\<close>

text \<open>The event that a kubelet has started: the object it is about, its type, reason and message.\<close>

definition BirthCry :: "SlurmVirtualKubelet \<Rightarrow> (string \<times> string \<times> string) \<times> string \<times> string \<times> string" where
  "BirthCry vk = (vk_nodeRef vk, ''Normal'', ''Starting'', ''Starting kubelet.'')"

text \<open>
  \<open>ready_at\<close> is when the channel closes, if ever, counted from the call; at the very moment of the
  timeout the timeout is taken.
\<close>

definition waitFor :: "duration \<Rightarrow> duration option \<Rightarrow> go_error option" where
  "waitFor time ready_at =
     (let late = Some (Wrap ''Error while starting up VK'' (Sentinel ''context deadline exceeded'')) in
      case ready_at of
        None \<Rightarrow> late
      | Some d \<Rightarrow> (if sint d < sint time then None else late))"

definition node_status_error_handler ::
    "'w run_lib \<Rightarrow> KNode \<Rightarrow> go_error \<Rightarrow> 'w \<Rightarrow> go_error option \<times> 'w" where
  "node_status_error_handler L pNode err w =
     (if \<not> vk_IsNotFound (ru_env L) err then (Some err, w)
      else ru_Create_node L (pNode\<lparr>kn_ResourceVersion := []\<rparr>) w)"

datatype run_step =
    StartPodInformer string string duration
  | StartOtherInformers duration
  | WaitReady duration
  | RunNode KNode
  | RunPods int64

datatype run_end = Up | ExitOne | Fatal go_error | Blocked

definition run_pods ::
    "'w run_lib \<Rightarrow> SlurmVirtualKubeletFlags \<Rightarrow> run_step list \<Rightarrow> 'w \<Rightarrow> run_end \<times> run_step list \<times> 'w" where
  "run_pods L f steps w0 =
     (let steps = steps @ [RunPods (fl_PodSyncWorkers f)] in
      case ru_pod_Run L (fl_PodSyncWorkers f) w0 of
        (ReadyClosed, w) \<Rightarrow> (Up, steps, w)
      | (NeverReady, w) \<Rightarrow> (Blocked, steps, w)
      | (RunReturned err, w) \<Rightarrow>
          (case err of
             None \<Rightarrow> (Blocked, steps, w)
           | Some e \<Rightarrow> (if \<not> ru_Canceled L e then (Fatal e, steps, w) else (Blocked, steps, w))))"

definition run_node ::
    "'w run_lib \<Rightarrow> SlurmVirtualKubeletFlags \<Rightarrow> KNode \<Rightarrow> run_step list \<Rightarrow> 'w \<Rightarrow> run_end \<times> run_step list \<times> 'w" where
  "run_node L f pNode steps w0 =
     (case ru_NewNodeController L pNode w0 of
        Some err \<Rightarrow> (Fatal err, steps, w0)
      | None \<Rightarrow>
          (let steps = steps @ [RunNode pNode] in
           case ru_node_Run L pNode w0 of
             (RunReturned (Some err), w) \<Rightarrow> (Fatal err, steps, w)
           | (RunReturned None, w) \<Rightarrow> (Blocked, steps, w)
           | (NeverReady, w) \<Rightarrow> (Blocked, steps, w)
           | (ReadyClosed, w) \<Rightarrow> run_pods L f steps w))"

definition vk_Run :: "'w run_lib \<Rightarrow> SlurmVirtualKubelet \<Rightarrow> 'w \<Rightarrow> run_end \<times> run_step list \<times> 'w" where
  "vk_Run L vk w0 =
     (let ks = vk_KubeletServer vk;
          f = ks_Flags ks;
          started = [StartPodInformer (fl_KubeNamespace f) (ru_selector L ''spec.nodeName'' (fl_NodeName f))
                       (fl_InformerResyncPeriod f),
                     StartOtherInformers (fl_InformerResyncPeriod f)];
          ls = ru_listers L
      in case NewResourceManager (rm_podLister ls) (rm_secretLister ls) (rm_configMapLister ls) (rm_serviceLister ls) of
           Inl err \<Rightarrow> (ExitOne, started, w0)
         | Inr rm \<Rightarrow>
             (case fst (SetupTracing (ru_exporters L) f) of
                (Some err, _) \<Rightarrow> (ExitOne, started, w0)
              | (None, _) \<Rightarrow>
                  (case NewNodeOrDie (ru_env L) ks (ru_inputs L) w0 of
                     (Inl err, w) \<Rightarrow> (Fatal err, started, w)
                   | (Inr pNode, w) \<Rightarrow>
                       (case ru_NewPodController L w of
                          Some err \<Rightarrow> (ExitOne, started, w)
                        | None \<Rightarrow>
                            if sint (fl_StartupTimeout f) > 0 then
                              (let steps = started @ [WaitReady (fl_StartupTimeout f)] in
                               case waitFor (fl_StartupTimeout f) (ru_pods_ready_at L w) of
                                 Some err \<Rightarrow> (Fatal err, steps, w)
                               | None \<Rightarrow> run_node L f pNode steps w)
                            else run_node L f pNode started w))))"

section \<open>Coming up\<close>

text \<open>The controllers of the library do their part: they are made, and get ready once they run.\<close>

definition controllers_work :: "'w run_lib \<Rightarrow> bool" where
  "controllers_work L \<longleftrightarrow>
     (\<forall>w. ru_NewPodController L w = None) \<and> (\<forall>n w. ru_NewNodeController L n w = None) \<and>
     (\<forall>n w. fst (ru_node_Run L n w) = ReadyClosed) \<and> (\<forall>k w. fst (ru_pod_Run L k w) = ReadyClosed)"

lemma run_node_up:
  "controllers_work L \<Longrightarrow> \<exists>w'. \<forall>steps. run_node L f n steps w = (Up, steps @ [RunNode n, RunPods (fl_PodSyncWorkers f)], w')"
proof -
  assume c: "controllers_work L"
  obtain w1 where 1: "ru_node_Run L n w = (ReadyClosed, w1)"
    using c unfolding controllers_work_def by (metis prod.collapse)
  obtain w2 where 2: "ru_pod_Run L (fl_PodSyncWorkers f) w1 = (ReadyClosed, w2)"
    using c unfolding controllers_work_def by (metis prod.collapse)
  have "ru_NewNodeController L n w = None" using c by (simp add: controllers_work_def)
  then show ?thesis using 1 2 by (simp add: run_node_def run_pods_def Let_def)
qed

lemma default_flagless:
  "fl_StartupTimeout (flagless (NewSlurmVirtualKubeletFlags env)) = 0"
  "fl_TraceExporters (flagless (NewSlurmVirtualKubeletFlags env)) = []"
  "fl_TraceTags (flagless (NewSlurmVirtualKubeletFlags env)) = []"
  "fl_PodSyncWorkers (flagless (NewSlurmVirtualKubeletFlags env)) = 10"
  "fl_InformerResyncPeriod (flagless (NewSlurmVirtualKubeletFlags env)) = Minute"
  "fl_KubeNamespace (flagless (NewSlurmVirtualKubeletFlags env)) = []"
  by (simp_all add: flagless_def NewSlurmVirtualKubeletFlags_def setDefaultSlurmVirtualKubeletFlags_def
      zero_Flags_def Let_def)

lemma setDefault_flagless:
  assumes "setDefaultSlurmVKFlags L f0 = Inr f"
  shows "fl_StartupTimeout f = fl_StartupTimeout (flagless f0)" "fl_TraceExporters f = fl_TraceExporters (flagless f0)"
    "fl_TraceTags f = fl_TraceTags (flagless f0)" "fl_PodSyncWorkers f = fl_PodSyncWorkers (flagless f0)"
    "fl_InformerResyncPeriod f = fl_InformerResyncPeriod (flagless f0)"
    "fl_KubeNamespace f = fl_KubeNamespace (flagless f0)"
  using assms by (auto simp: setDefaultSlurmVKFlags_def flagless_def split: sum.splits)

text \<open>A kubelet made by the command has the defaults in every field that no flag sets.\<close>

lemma Running_flags:
  assumes "NewSlurmVirtualKubeltCommand P env args s = (Running vk srv, s')"
  shows "fl_StartupTimeout (ks_Flags (vk_KubeletServer vk)) = 0"
    "fl_TraceExporters (ks_Flags (vk_KubeletServer vk)) = []" "fl_TraceTags (ks_Flags (vk_KubeletServer vk)) = []"
    "fl_PodSyncWorkers (ks_Flags (vk_KubeletServer vk)) = 10"
    "fl_InformerResyncPeriod (ks_Flags (vk_KubeletServer vk)) = Minute"
    "fl_KubeNamespace (ks_Flags (vk_KubeletServer vk)) = []"
proof -
  let ?kc = "SetDefaults_SlurmVirtualKubeletConfiguration zero_Configuration"
  obtain t flags kc s1 where t: "parse_tokens (pl_flags P) (cleanFlagSet (pl_flags P)) (pl_Tokens P args)
       (fresh_targets (NewSlurmVirtualKubeletFlags env) ?kc) = Value t"
    and "\<not> ft_help t" and d: "setDefaultSlurmVKFlags (pl_options P) (ft_Flags t) = Inr flags"
    and "ValidateKubeletFlags (pl_options P) flags = None"
    and "effective_config P env args flags (ft_Config t) s = (Some (Value kc), s1)"
    and r: "Run P \<lparr>ks_Flags = flags, ks_Configuration = kc\<rparr> s1 = (Running vk srv, s')"
    by (rule Command_running [OF assms])
  have k: "ks_Flags (vk_KubeletServer vk) = flags" using Run_running [OF r] by simp
  have u: "flagless (ft_Flags t) = flagless (NewSlurmVirtualKubeletFlags env)"
    using parse_tokens_flagless [OF t] by simp
  show "fl_StartupTimeout (ks_Flags (vk_KubeletServer vk)) = 0"
    "fl_TraceExporters (ks_Flags (vk_KubeletServer vk)) = []" "fl_TraceTags (ks_Flags (vk_KubeletServer vk)) = []"
    "fl_PodSyncWorkers (ks_Flags (vk_KubeletServer vk)) = 10"
    "fl_InformerResyncPeriod (ks_Flags (vk_KubeletServer vk)) = Minute"
    "fl_KubeNamespace (ks_Flags (vk_KubeletServer vk)) = []"
    unfolding k setDefault_flagless [OF d] u by (rule default_flagless)+
qed

lemma Running_node_labels:
  assumes "NewSlurmVirtualKubeltCommand P env args s = (Running vk srv, s')" and "f = ks_Flags (vk_KubeletServer vk)"
  shows "fl_NodeLabels f = vk_node_labels (fl_NodeName f) (fl_SlurmPartition f)"
proof -
  let ?kc = "SetDefaults_SlurmVirtualKubeletConfiguration zero_Configuration"
  obtain t flags kc s1 where t: "parse_tokens (pl_flags P) (cleanFlagSet (pl_flags P)) (pl_Tokens P args)
       (fresh_targets (NewSlurmVirtualKubeletFlags env) ?kc) = Value t"
    and "\<not> ft_help t" and d: "setDefaultSlurmVKFlags (pl_options P) (ft_Flags t) = Inr flags"
    and "ValidateKubeletFlags (pl_options P) flags = None"
    and "effective_config P env args flags (ft_Config t) s = (Some (Value kc), s1)"
    and r: "Run P \<lparr>ks_Flags = flags, ks_Configuration = kc\<rparr> s1 = (Running vk srv, s')"
    by (rule Command_running [OF assms(1)])
  have "fl_NodeLabels (ft_Flags t) = []"
    using parse_tokens_flagless [OF t, THEN arg_cong, of fl_NodeLabels] by (simp add: flagless_def)
  then show ?thesis
    using setDefaultSlurmVKFlags_labels [OF d] Run_running [OF r] assms(2) by simp
qed

lemma SetupTracing_plain:
  "fl_TraceExporters f = [] \<Longrightarrow> fl_TraceTags f = [] \<Longrightarrow> fst (SetupTracing ex f) = (None, None)"
  by (simp add: SetupTracing_def Let_def)

lemma comes_up:
  assumes "NewSlurmVirtualKubeltCommand P env args s = (Running vk srv, s')" and "controllers_work L"
    and "f = ks_Flags (vk_KubeletServer vk)"
  shows "case GetPartitionCapacity (ru_env L) (fl_SlurmPartition f) w of
      (Inl err, w1) \<Rightarrow> fst (vk_Run L vk w) = Fatal err
    | (Inr capacity, w1) \<Rightarrow>
        \<exists>n w'. vk_Run L vk w =
            (Up, [StartPodInformer [] (ru_selector L ''spec.nodeName'' (fl_NodeName f)) Minute,
                  StartOtherInformers Minute, RunNode n, RunPods 10], w') \<and>
          kn_Name n = fl_NodeName f \<and> kn_Capacity n = capacity \<and>
          map_of (kn_Labels n) PartitionLabel = Some (fl_SlurmPartition f)"
proof -
  note flags = Running_flags [OF assms(1), folded assms(3)]
  have l: "map_of (fl_NodeLabels f) PartitionLabel = Some (fl_SlurmPartition f)"
    using Running_node_labels [OF assms(1,3)]
    by (simp add: vk_node_labels_def DefaultNodeSelectors_def PartitionLabel_def)
  obtain c w1 where c: "GetPartitionCapacity (ru_env L) (fl_SlurmPartition f) w = (c, w1)" by (metis surj_pair)
  show ?thesis
  proof (cases c)
    case (Inl err)
    then show ?thesis using c flags assms(3) by (simp add: vk_Run_def NewResourceManager_def SetupTracing_plain NewNodeOrDie_def Let_def)
  next
    case (Inr capacity)
    let ?ks = "vk_KubeletServer vk"
    obtain n where n: "NewNodeOrDie (ru_env L) ?ks (ru_inputs L) w = (Inr n, w1)"
      and k: "kn_Name n = fl_NodeName f" "kn_Capacity n = capacity" "kn_Labels n = fl_NodeLabels f"
      using Inr c assms(3) by (simp add: NewNodeOrDie_def)
    obtain w' where w': "\<forall>steps. run_node L f n steps w1 = (Up, steps @ [RunNode n, RunPods (fl_PodSyncWorkers f)], w')"
      using run_node_up [OF assms(2)] by blast
    have "ru_NewPodController L w1 = None" using assms(2) by (simp add: controllers_work_def)
    then show ?thesis
      using Inr c n k l w' flags by (simp add: vk_Run_def NewResourceManager_def SetupTracing_plain Let_def assms(3) [symmetric])
  qed
qed



text \<open>The node that is registered is the one built from the kubelet's flags and the agent's answer.\<close>

lemma run_pods_steps: "run_pods L f steps w = (e, steps', w') \<Longrightarrow> steps' = steps @ [RunPods (fl_PodSyncWorkers f)]"
  by (auto simp: run_pods_def Let_def split: prod.splits run_outcome.splits option.splits if_splits)

lemma run_node_steps:
  "run_node L f n steps w = (e, steps', w') \<Longrightarrow> RunNode m \<in> set steps' \<Longrightarrow> RunNode m \<in> set steps \<or> m = n"
  by (auto simp: run_node_def Let_def dest!: run_pods_steps split: prod.splits run_outcome.splits option.splits)

lemma vk_Run_node:
  "vk_Run L vk w = (e, steps, w') \<Longrightarrow> RunNode n \<in> set steps \<Longrightarrow>
     \<exists>w1. NewNodeOrDie (ru_env L) (vk_KubeletServer vk) (ru_inputs L) w = (Inr n, w1)"
  by (auto simp: vk_Run_def NewResourceManager_def Let_def dest!: run_node_steps
      split: prod.splits option.splits sum.splits if_splits)

text \<open>
  A start-up timeout can never be met: the wait comes before the controller runs, and a controller
  that does not run never gets ready, so that the kubelet ends.
\<close>

lemma startup_timeout_fatal:
  assumes "0 < sint (fl_StartupTimeout (ks_Flags (vk_KubeletServer vk)))" and "\<And>w. ru_pods_ready_at L w = None"
  shows "fst (vk_Run L vk w) \<noteq> Up"
  using assms by (auto simp: vk_Run_def NewResourceManager_def waitFor_def Let_def split: prod.splits option.splits sum.splits)

text \<open>
  A node that is gone is registered again as it was, whatever version the API server had given it; any
  other error of a status update is returned.
\<close>

lemma node_registered_again:
  "vk_IsNotFound (ru_env L) err \<Longrightarrow>
     node_status_error_handler L (n\<lparr>kn_ResourceVersion := v\<rparr>) err w = ru_Create_node L (n\<lparr>kn_ResourceVersion := []\<rparr>) w"
  "\<not> vk_IsNotFound (ru_env L) err \<Longrightarrow> node_status_error_handler L n err w = (Some err, w)"
  by (simp_all add: node_status_error_handler_def)

lemma GetPods_unreachable: "rm_podLister rm w = Inl err \<Longrightarrow> rm_GetPods rm w = []"
  by (simp add: rm_GetPods_def)

section \<open>A concrete run\<close>

definition sample_node_inputs :: node_inputs where
  "sample_node_inputs =
     \<lparr>ni_uuid = ''u'', ni_uname = \<lparr>un_StdoutPipe = None, un_Start = None, un_ReadAll = Inr ''Linux''\<rparr>,
      ni_addrs = Inr [IPNet True True ''127.0.0.1'', IPNet False True ''10.0.0.7''], ni_now = (\<lambda>i. 0)\<rparr>"

definition sample_run_lib :: "int64 list run_lib" where
  "sample_run_lib =
     \<lparr>ru_env = sample_vk_env,
      ru_listers = \<lparr>rm_podLister = (\<lambda>w. Inr []), rm_secretLister = (\<lambda>ns n w. Inl (Sentinel ''none'')),
        rm_configMapLister = (\<lambda>ns n w. Inl (Sentinel ''none'')), rm_serviceLister = (\<lambda>w. Inr [])\<rparr>,
      ru_exporters = Map.empty, ru_selector = (\<lambda>k v. k @ ''='' @ v), ru_inputs = sample_node_inputs,
      ru_NewPodController = (\<lambda>w. None), ru_pods_ready_at = (\<lambda>w. None), ru_NewNodeController = (\<lambda>n w. None),
      ru_node_Run = (\<lambda>n w. (ReadyClosed, w)), ru_pod_Run = (\<lambda>k w. (ReadyClosed, w)),
      ru_Create_node = (\<lambda>n w. (None, w)), ru_Canceled = (\<lambda>e. False)\<rparr>"

lemma sample_controllers: "controllers_work sample_run_lib"
  by (simp add: controllers_work_def sample_run_lib_def)

lemma sample_run_up:
  assumes "NewSlurmVirtualKubeltCommand P env args s = (Running vk srv, s')"
    and "fl_SlurmPartition (ks_Flags (vk_KubeletServer vk)) = ''debug''"
  shows "\<exists>steps n w'. vk_Run sample_run_lib vk [] = (Up, steps, w') \<and> RunNode n \<in> set steps"
proof -
  have e: "ru_env sample_run_lib = sample_vk_env" by (simp add: sample_run_lib_def)
  obtain c w1 where "GetPartitionCapacity sample_vk_env ''debug'' [] = (Inr c, w1)"
    by (simp add: GetPartitionCapacity_def sample_vk_env_def)
  then obtain n x w' where "vk_Run sample_run_lib vk [] = (Up, [StartPodInformer [] x Minute, StartOtherInformers Minute,
      RunNode n, RunPods 10], w')"
    using comes_up [OF assms(1) sample_controllers refl, of "[]"] by (auto simp: assms(2) e)
  then show ?thesis by (intro exI) auto
qed

lemma sample_up:
  "\<exists>vk srv s'. NewSlurmVirtualKubeltCommand sample_process sample_env [] kubelet_os = (Running vk srv, s') \<and>
     fl_SlurmPartition (ks_Flags (vk_KubeletServer vk)) = ''debug'' \<and>
     (\<exists>steps n w'. vk_Run sample_run_lib vk [] = (Up, steps, w') \<and> RunNode n \<in> set steps)"
proof -
  obtain vk srv s' where r: "NewSlurmVirtualKubeltCommand sample_process sample_env [] kubelet_os = (Running vk srv, s')"
    and k: "vk_KubeletServer vk = \<lparr>ks_Flags = sample_flags, ks_Configuration = sample_final\<rparr>"
    using sample_runs by blast
  have f: "fl_SlurmPartition (ks_Flags (vk_KubeletServer vk)) = ''debug''"
    by (simp add: k sample_flags_def sample_given_def)
  show ?thesis using r f sample_run_up [OF r f] by blast
qed


end
