(* ===== verification/Configurator.thy ===== *)
theory Configurator
  imports VKProvider
begin

text \<open>
  The configurator (\<^verbatim>\<open>pkg/configurator/configurator.go\<close>, \<^verbatim>\<open>label.go\<close>): it watches the partitions of the
  Slurm cluster and runs one virtual kubelet, as a pod, for each of them. The agent and the API server
  are a record of functions over a state \<open>'w\<close>.
\<close>

section \<open>The pod of a kubelet\<close>

datatype env_value = EnvValue string | EnvFieldRef string

record kubelet_pod =
  kp_Name :: string
  kp_Namespace :: string
  kp_ServiceAccountName :: string
  kp_RestartPolicy :: string
  kp_ContainerName :: string
  kp_Image :: string
  kp_ImagePullPolicy :: string
  kp_Args :: "string list"
  kp_Ports :: "(string \<times> int32) list"
  kp_Env :: "(string \<times> env_value) list"
  kp_VolumeMounts :: "(string \<times> string) list"
  kp_HostPathVolumes :: "(string \<times> string \<times> string) list"

record SlurmBridgeConfigurator =
  cf_SlurmAgentEndpoint :: string
  cf_VKNodeNamespace :: string
  cf_VKServiceAccount :: string
  cf_VKKubeletImage :: string
  cf_ResultImage :: string

text \<open>Construction from the environment; without an image the process ends (\<^const>\<open>None\<close>).\<close>

definition NewConfiguratorOrDie :: "(string \<rightharpoonup> string) \<Rightarrow> string \<Rightarrow> SlurmBridgeConfigurator option" where
  "NewConfiguratorOrDie env addr =
     (let namespace = map_get env ''NAMESPACE'';
          namespace = (if length namespace = 0 then ''default'' else namespace);
          r = \<lparr>cf_SlurmAgentEndpoint = addr, cf_VKNodeNamespace = namespace,
               cf_VKServiceAccount = map_get env ''SERVICE_ACCOUNT'',
               cf_VKKubeletImage = map_get env ''KUBELET_IMAGE'',
               cf_ResultImage = map_get env ''RESULTS_IMAGE''\<rparr>
      in if length (cf_VKKubeletImage r) = 0 then None else Some r)"

definition partitionNodeName :: "string \<Rightarrow> string" where
  "partitionNodeName part = ''slurm-partition-'' @ part"

definition virtualKubeletPodTemplate :: "SlurmBridgeConfigurator \<Rightarrow> string \<Rightarrow> kubelet_pod" where
  "virtualKubeletPodTemplate c partitionName =
     \<lparr>kp_Name = partitionNodeName partitionName, kp_Namespace = cf_VKNodeNamespace c,
      kp_ServiceAccountName = cf_VKServiceAccount c, kp_RestartPolicy = ''Always'',
      kp_ContainerName = ''slurm-agent-virtual-kubelet'', kp_Image = cf_VKKubeletImage c,
      kp_ImagePullPolicy = ''Always'',
      kp_Args = [''--nodename'', partitionNodeName partitionName,
                 ''--partition'', partitionName,
                 ''--endpoint'', cf_SlurmAgentEndpoint c],
      kp_Ports = [(''metrics'', 10255)],
      kp_Env = [(''VK_HOST_NAME'', EnvFieldRef ''spec.nodeName''),
                (''VK_POD_NAME'', EnvFieldRef ''metadata.name''),
                (''VKUBELET_POD_IP'', EnvFieldRef ''status.podIP''),
                (''PARTITION'', EnvValue partitionName),
                (''AGNET_ENDPOINT'', EnvValue (cf_SlurmAgentEndpoint c)),
                (''APISERVER_CERT_LOCATION'', EnvValue ''/kubelet.crt''),
                (''APISERVER_KEY_LOCATION'', EnvValue ''/kubelet.key'')],
      kp_VolumeMounts = [(''kubelet-crt'', ''/var/lib/kubelet/pki/kubelet.crt''),
                         (''kubelet-key'', ''/var/lib/kubelet/pki/kubelet.key'')],
      kp_HostPathVolumes = [(''kubelet-crt'', ''/var/lib/kubelet/pki/kubelet.crt'', ''File''),
                            (''kubelet-key'', ''/var/lib/kubelet/pki/kubelet.key'', ''File'')]\<rparr>"

section \<open>Comparing partitions and nodes\<close>

definition VKNodeLabel :: string where
  "VKNodeLabel = ''type=slurm-agent-virtual-kubelet''"

fun partitionNames :: "KNode list \<Rightarrow> string list" where
  "partitionNames [] = []"
| "partitionNames (n # r) =
     (case map_of (kn_Labels n) ''kubecluster.org/partition'' of
        Some l \<Rightarrow> l # partitionNames r | None \<Rightarrow> partitionNames r)"

fun contains_elem :: "string list \<Rightarrow> string \<Rightarrow> bool" where
  "contains_elem [] e = False"
| "contains_elem (e1 # r) e = (if e = e1 then True else contains_elem r e)"

fun notIn :: "string list \<Rightarrow> string list \<Rightarrow> string list" where
  "notIn [] s2 = []"
| "notIn (e1 # r) s2 = (if contains_elem s2 e1 then notIn r s2 else e1 # notIn r s2)"

section \<open>Reconciling\<close>

record 'w cf_env =
  ce_list_nodes :: "string \<Rightarrow> 'w \<Rightarrow> KNode list result \<times> 'w"
  ce_get_pod :: "string \<Rightarrow> string \<Rightarrow> 'w \<Rightarrow> go_error option \<times> 'w"
  ce_create_pod :: "kubelet_pod \<Rightarrow> 'w \<Rightarrow> go_error option \<times> 'w"
  ce_delete_pod :: "string \<Rightarrow> string \<Rightarrow> 'w \<Rightarrow> go_error option \<times> 'w"
  ce_Partitions :: "'w \<Rightarrow> PartitionsResponse result \<times> 'w"
  ce_error_text :: "go_error \<Rightarrow> string"

fun ReconcileCreateNodeForPartition ::
    "'w cf_env \<Rightarrow> SlurmBridgeConfigurator \<Rightarrow> string list \<Rightarrow> 'w \<Rightarrow> go_error option \<times> 'w" where
  "ReconcileCreateNodeForPartition e c [] w = (None, w)"
| "ReconcileCreateNodeForPartition e c (p # r) w =
     (case ce_get_pod e (cf_VKNodeNamespace c) (partitionNodeName p) w of
        (None, w1) \<Rightarrow> ReconcileCreateNodeForPartition e c r w1
      | (Some err, w1) \<Rightarrow>
          if \<not> IsNotFound err then (Some err, w1)
          else
            (case ce_create_pod e (virtualKubeletPodTemplate c p) w1 of
               (Some err, w2) \<Rightarrow> (Some (Wrap (''could not create pod for '' @ p @ '' partition'') err), w2)
             | (None, w2) \<Rightarrow> ReconcileCreateNodeForPartition e c r w2))"

fun ReconcileDeleteControllingPod ::
    "'w cf_env \<Rightarrow> SlurmBridgeConfigurator \<Rightarrow> string list \<Rightarrow> 'w \<Rightarrow> go_error option \<times> 'w" where
  "ReconcileDeleteControllingPod e c [] w = (None, w)"
| "ReconcileDeleteControllingPod e c (n # r) w =
     (case ce_delete_pod e (cf_VKNodeNamespace c) (partitionNodeName n) w of
        (Some err, w1) \<Rightarrow> (Some (Wrap (''could not delete pod '' @ partitionNodeName n) err), w1)
      | (None, w1) \<Rightarrow> ReconcileDeleteControllingPod e c r w1)"

definition Reconcile_partitions ::
    "'w cf_env \<Rightarrow> SlurmBridgeConfigurator \<Rightarrow> PartitionsResponse \<Rightarrow> 'w \<Rightarrow> go_error option \<times> 'w" where
  "Reconcile_partitions e c partitionsResp w =
     (case ce_list_nodes e VKNodeLabel w of
        (Inl err, w1) \<Rightarrow> (Some (ErrorString (''Can't get virtual nodes '' @ ce_error_text e err)), w1)
      | (Inr nodes, w1) \<Rightarrow>
          (let nNames = partitionNames nodes;
               partitionToCreate = notIn (psr_Partition partitionsResp) nNames
           in case ReconcileCreateNodeForPartition e c partitionToCreate w1 of
                (Some err, w2) \<Rightarrow> (Some (ErrorString (''Can't create partitions  '' @ ce_error_text e err)), w2)
              | (None, w2) \<Rightarrow>
                  (let nodesToDelete = notIn nNames (psr_Partition partitionsResp)
                   in case ReconcileDeleteControllingPod e c nodesToDelete w2 of
                        (Some err, w3) \<Rightarrow>
                          (Some (ErrorString (''Can't delete controlling pod '' @ ce_error_text e err)), w3)
                      | (None, w3) \<Rightarrow> (None, w3))))"

text \<open>
  The loop of the configurator, on the events its \<^verbatim>\<open>select\<close> takes: the end of the context and the ticks.
  An error is logged and the loop goes on.
\<close>

datatype watch_event = WatchDone | Tick

fun WatchPartitions ::
    "'w cf_env \<Rightarrow> SlurmBridgeConfigurator \<Rightarrow> watch_event list \<Rightarrow> 'w \<Rightarrow> 'w" where
  "WatchPartitions e c [] w = w"
| "WatchPartitions e c (WatchDone # evs) w = w"
| "WatchPartitions e c (Tick # evs) w =
     (case ce_Partitions e w of
        (Inl err, w1) \<Rightarrow> WatchPartitions e c evs w1
      | (Inr partitionsResp, w1) \<Rightarrow>
          (case Reconcile_partitions e c partitionsResp w1 of (err, w2) \<Rightarrow> WatchPartitions e c evs w2))"

section \<open>Lists of names\<close>

lemma contains_elem_iff [simp]: "contains_elem xs x \<longleftrightarrow> x \<in> set xs"
  by (induction xs) auto

lemma notIn_filter: "notIn xs ys = filter (\<lambda>x. x \<notin> set ys) xs"
  by (induction xs) auto

lemma partitionNames_filter:
  "partitionNames ns = List.map_filter (\<lambda>n. map_of (kn_Labels n) ''kubecluster.org/partition'') ns"
  by (induction ns) (auto simp: List.map_filter_simps split: option.splits)

lemma partitionNodeName_inject [simp]: "partitionNodeName p = partitionNodeName q \<longleftrightarrow> p = q"
  by (simp add: partitionNodeName_def)

section \<open>The contract with the API server\<close>

text \<open>
  What the configurator relies on for the pods of its namespace: \<open>pods w\<close> are the names of the pods
  that exist in a state; a missing pod is reported as not found, one that is created exists, and one
  that is deleted does not.
\<close>

locale pod_api =
  fixes e :: "'w cf_env" and ns :: string and pods :: "'w \<Rightarrow> string set"
  assumes get_present: "n \<in> pods w \<Longrightarrow> ce_get_pod e ns n w = (None, w)"
    and get_missing: "n \<notin> pods w \<Longrightarrow> \<exists>err. ce_get_pod e ns n w = (Some err, w) \<and> IsNotFound err"
    and create_missing: "kp_Namespace p = ns \<Longrightarrow> kp_Name p \<notin> pods w \<Longrightarrow>
      \<exists>w'. ce_create_pod e p w = (None, w') \<and> pods w' = insert (kp_Name p) (pods w)"
    and delete_present: "n \<in> pods w \<Longrightarrow> \<exists>w'. ce_delete_pod e ns n w = (None, w') \<and> pods w' = pods w - {n}"
begin

lemma create_pods:
  assumes "cf_VKNodeNamespace c = ns"
  shows "\<exists>w'. ReconcileCreateNodeForPartition e c ps w = (None, w') \<and>
    pods w' = pods w \<union> partitionNodeName ` set ps"
proof (induction ps arbitrary: w)
  case (Cons p ps)
  show ?case
  proof (cases "partitionNodeName p \<in> pods w")
    case True
    then show ?thesis using Cons.IH [of w] get_present assms by auto
  next
    case False
    then obtain err where g: "ce_get_pod e ns (partitionNodeName p) w = (Some err, w)" "IsNotFound err"
      using get_missing by blast
    obtain w1 where cr: "ce_create_pod e (virtualKubeletPodTemplate c p) w = (None, w1)"
      "pods w1 = insert (partitionNodeName p) (pods w)"
      using create_missing [of "virtualKubeletPodTemplate c p" w] False assms
      by (auto simp: virtualKubeletPodTemplate_def)
    then show ?thesis using Cons.IH [of w1] g assms by auto
  qed
qed simp

lemma delete_pods:
  assumes "cf_VKNodeNamespace c = ns" and "distinct ps" and "partitionNodeName ` set ps \<subseteq> pods w"
  shows "\<exists>w'. ReconcileDeleteControllingPod e c ps w = (None, w') \<and>
    pods w' = pods w - partitionNodeName ` set ps"
  using assms(2,3)
proof (induction ps arbitrary: w)
  case (Cons p ps)
  have "partitionNodeName p \<in> pods w" using Cons.prems(2) by simp
  then obtain w1 where d: "ce_delete_pod e ns (partitionNodeName p) w = (None, w1)"
    "pods w1 = pods w - {partitionNodeName p}"
    using delete_present by blast
  have "partitionNodeName ` set ps \<subseteq> pods w1" using Cons.prems d(2) by auto
  then show ?case using Cons.IH [of w1] Cons.prems(1) d assms(1) by auto
qed simp

lemma reconcile_pods:
  assumes "cf_VKNodeNamespace c = ns" and "ce_list_nodes e VKNodeLabel w = (Inr nodes, w)"
    and "distinct (partitionNames nodes)"
    and "partitionNodeName ` (set (partitionNames nodes) - set parts) \<subseteq> pods w"
  shows "\<exists>w'. Reconcile_partitions e c \<lparr>psr_Partition = parts\<rparr> w = (None, w') \<and>
    pods w' = (pods w \<union> partitionNodeName ` (set parts - set (partitionNames nodes))) -
      partitionNodeName ` (set (partitionNames nodes) - set parts)"
proof -
  obtain w1 where c1: "ReconcileCreateNodeForPartition e c (notIn parts (partitionNames nodes)) w = (None, w1)"
    "pods w1 = pods w \<union> partitionNodeName ` set (notIn parts (partitionNames nodes))"
    using create_pods [OF assms(1), of "notIn parts (partitionNames nodes)" w] by auto
  have "partitionNodeName ` set (notIn (partitionNames nodes) parts) \<subseteq> pods w1"
    using assms(4) c1(2) by (auto simp: notIn_filter)
  moreover have "distinct (notIn (partitionNames nodes) parts)"
    using assms(3) by (simp add: notIn_filter)
  ultimately obtain w2 where
    "ReconcileDeleteControllingPod e c (notIn (partitionNames nodes) parts) w1 = (None, w2)"
    "pods w2 = pods w1 - partitionNodeName ` set (notIn (partitionNames nodes) parts)"
    using delete_pods [OF assms(1), of "notIn (partitionNames nodes) parts" w1] by auto
  moreover have "set (notIn xs ys) = set xs - set ys" for xs ys by (auto simp: notIn_filter)
  ultimately show ?thesis using assms(2) c1 by (simp add: Reconcile_partitions_def)
qed

end

text \<open>
  A cluster that keeps the nodes and the names of the pods in the configurator's namespace, selecting
  nodes by one label; it meets the contract.
\<close>

definition selector_matches :: "string \<Rightarrow> (string \<times> string) list \<Rightarrow> bool" where
  "selector_matches sel labels \<longleftrightarrow>
     (case SplitN2 sel (CHR ''='') of [k, v] \<Rightarrow> map_of labels k = Some v | _ \<Rightarrow> False)"

record cluster =
  cl_nodes :: "KNode list"
  cl_pods :: "string set"
  cl_partitions :: "string list"

definition cluster_env :: "string \<Rightarrow> cluster cf_env" where
  "cluster_env ns =
     \<lparr>ce_list_nodes = (\<lambda>sel w. (Inr (filter (\<lambda>n. selector_matches sel (kn_Labels n)) (cl_nodes w)), w)),
      ce_get_pod = (\<lambda>m n w. (if m = ns \<and> n \<in> cl_pods w then None else Some (Status ''NotFound'' n), w)),
      ce_create_pod = (\<lambda>p w.
        if kp_Namespace p \<noteq> ns then (Some (Status ''Forbidden'' (kp_Namespace p)), w)
        else if kp_Name p \<in> cl_pods w then (Some (Status ''AlreadyExists'' (kp_Name p)), w)
        else (None, w\<lparr>cl_pods := insert (kp_Name p) (cl_pods w)\<rparr>)),
      ce_delete_pod = (\<lambda>m n w.
        if m = ns \<and> n \<in> cl_pods w then (None, w\<lparr>cl_pods := cl_pods w - {n}\<rparr>)
        else (Some (Status ''NotFound'' n), w)),
      ce_Partitions = (\<lambda>w. (Inr \<lparr>psr_Partition = cl_partitions w\<rparr>, w)),
      ce_error_text = (\<lambda>err. [])\<rparr>"

interpretation cluster_api: pod_api "cluster_env ns" ns cl_pods
  by unfold_locales (auto simp: cluster_env_def)

section \<open>Properties\<close>


definition sample_configurator :: SlurmBridgeConfigurator where
  "sample_configurator =
     \<lparr>cf_SlurmAgentEndpoint = ''agent:9999'', cf_VKNodeNamespace = ''default'', cf_VKServiceAccount = ''sa'',
      cf_VKKubeletImage = ''vk:latest'', cf_ResultImage = []\<rparr>"

definition labelled_node :: "(string \<times> string) list \<Rightarrow> KNode" where
  "labelled_node labels =
     \<lparr>kn_Name = ''n'', kn_ResourceVersion = [], kn_Labels = labels, kn_Taints = getDefaultTaints,
      kn_NodeInfo = \<lparr>si_OperatingSystem = [], si_Architecture = [], si_KubeletVersion = [],
        si_MachineID = [], si_SystemUUID = [], si_BootID = [], si_KernelVersion = [], si_OSImage = []\<rparr>,
      kn_Capacity = Map.empty, kn_Allocatable = Map.empty, kn_Conditions = [], kn_Addresses = [],
      kn_KubeletPort = 10250\<rparr>"


text \<open>
  The kubelets label their nodes with the type \<^verbatim>\<open>virtual-kubelet\<close>, and the configurator looks for
  another type: if all nodes that carry a partition were registered by a kubelet of this
  repository, a reconciliation sees none of them, so it creates missing pods but never deletes the
  pod of a partition that is gone.
\<close>

theorem stale_partitions_kept:
  assumes "pod_api e (cf_VKNodeNamespace c) pods"
    and "ce_list_nodes e VKNodeLabel w =
      (Inr (filter (\<lambda>n. selector_matches VKNodeLabel (kn_Labels n)) nodes), w)"
    and "\<forall>n \<in> set nodes. map_of (kn_Labels n) PartitionLabel = None \<or> (\<exists>h p. kn_Labels n = vk_node_labels h p)"
  shows "\<exists>w'. Reconcile_partitions e c \<lparr>psr_Partition = parts\<rparr> w = (None, w') \<and>
    pods w' = pods w \<union> partitionNodeName ` set parts"
proof -
  let ?ns = "filter (\<lambda>n. selector_matches VKNodeLabel (kn_Labels n)) nodes"
  have "\<not> selector_matches VKNodeLabel (vk_node_labels h p)" for h p
    by (simp add: selector_matches_def VKNodeLabel_def SplitN2_def vk_node_labels_def DefaultNodeSelectors_def)
  then have "map_of (kn_Labels n) ''kubecluster.org/partition'' = None" if "n \<in> set ?ns" for n
    using assms(3) that by (auto simp: PartitionLabel_def)
  then have "partitionNames ?ns = []"
    by (simp add: partitionNames_filter List.map_filter_def filter_empty_conv)
  then show ?thesis
    using pod_api.reconcile_pods [OF assms(1) refl assms(2), of parts] by simp
qed

theorem stale_partitions_kept_witness:
  "\<exists>w'. Reconcile_partitions (cluster_env ''default'') sample_configurator \<lparr>psr_Partition = []\<rparr>
      \<lparr>cl_nodes = [labelled_node (vk_node_labels ''h'' ''old'')],
       cl_pods = {''slurm-partition-old''}, cl_partitions = []\<rparr> = (None, w') \<and>
    cl_pods w' = {''slurm-partition-old''}"
proof -
  let ?w = "\<lparr>cl_nodes = [labelled_node (vk_node_labels ''h'' ''old'')],
     cl_pods = {''slurm-partition-old''}, cl_partitions = []\<rparr>"
  have l: "ce_list_nodes (cluster_env ''default'') VKNodeLabel ?w =
      (Inr (filter (\<lambda>n. selector_matches VKNodeLabel (kn_Labels n)) (cl_nodes ?w)), ?w)"
    by (simp add: cluster_env_def)
  have api: "pod_api (cluster_env ''default'') (cf_VKNodeNamespace sample_configurator) cl_pods"
    by (simp add: sample_configurator_def cluster_api.pod_api_axioms)
  from stale_partitions_kept [OF api l, of "[]"] show ?thesis by (auto simp: labelled_node_def)
qed

end
