(* ===== verification/AgentProcess.thy ===== *)
theory AgentProcess
  imports SubmitService FileSystem
begin

text \<open>
  The process of the agent (\<^verbatim>\<open>cmd/slurm-agent/slurm-agent.go\<close>): its configuration file, the directory of
  its socket, and the service it starts. Decoding YAML, asking whether a path exists (\<^verbatim>\<open>fileutil.Exist\<close>),
  listening and the user id are parameters; a start ends with a fatal error or with the
  service and the sockets it listens on.
\<close>

record agent_lib =
  al_Decode :: "string \<Rightarrow> Config \<times> go_error option"
  al_Exist :: "string \<Rightarrow> os \<Rightarrow> bool"
  al_Listen :: "string \<Rightarrow> go_error option"
  al_text :: "go_error \<Rightarrow> string"
  al_euid :: int64

definition agent_config :: "agent_lib \<Rightarrow> string \<Rightarrow> os \<Rightarrow> (Config \<times> go_error option) \<times> os" where
  "agent_config A path s0 =
     (if path = [] then ((Map.empty, None), s0)
      else case os_ReadFile path s0 of
        (Inl err, s) \<Rightarrow> ((Map.empty, errors_Wrap (Some err) ''could not open config file''), s)
      | (Inr data, s) \<Rightarrow>
          (case al_Decode A data of
             (c, err) \<Rightarrow> ((c, errors_Wrap err ''could not decode config''), s)))"

definition prepareSocketDir :: "agent_lib \<Rightarrow> string \<Rightarrow> os \<Rightarrow> go_error option \<times> os" where
  "prepareSocketDir A sock s0 =
     (case (if \<not> al_Exist A (filepath_Dir sock) s0 then os_MkdirAll (filepath_Dir sock) s0 else (None, s0)) of
        (Some err, s) \<Rightarrow> (Some err, s)
      | (None, s) \<Rightarrow> if al_Exist A sock s then os_RemoveAll sock s else (None, s))"

datatype agent_end = AgentFatal string | AgentServing Slurm "string list"

definition newSlurmClient :: "agent_lib \<Rightarrow> 'w agent_host \<Rightarrow> Config \<Rightarrow> 'w \<Rightarrow> Slurm + string" where
  "newSlurmClient A h cfg w =
     (case NewClient (host.truncate h) w of
        Inl err \<Rightarrow> Inr (''Could not create slurm-agent client: '' @ al_text A err)
      | Inr _ \<Rightarrow> Inl (NewSlurm cfg (al_euid A)))"

text \<open>The address of the second server, or the message the process ends with.\<close>

definition newHttpServer :: "agent_lib \<Rightarrow> string + string" where
  [simp]: "newHttpServer A =
     (case al_Listen A '':9999'' of
        Some err \<Rightarrow> Inl (''Could not listen http: '' @ al_text A err)
      | None \<Rightarrow> Inr '':9999'')"

text \<open>\<^verbatim>\<open>main\<close> with the values of its flags; failing to listen for HTTP ends the process as well.\<close>

definition agent_main ::
    "agent_lib \<Rightarrow> 'w agent_host \<Rightarrow> string \<Rightarrow> string \<Rightarrow> bool \<Rightarrow> 'w \<Rightarrow> os \<Rightarrow> agent_end \<times> os" where
  "agent_main A h configPath sock enableHttp w s0 =
     (case agent_config A configPath s0 of
        ((_, Some err), s) \<Rightarrow> (AgentFatal (al_text A err), s)
      | ((cfg, None), s) \<Rightarrow>
          (case prepareSocketDir A sock s of
             (Some err, s) \<Rightarrow> (AgentFatal (al_text A err), s)
           | (None, s) \<Rightarrow>
               (case al_Listen A sock of
                  Some err \<Rightarrow> (AgentFatal (''Could not listen unix: '' @ al_text A err), s)
                | None \<Rightarrow>
                    (case newSlurmClient A h cfg w of
                       Inr msg \<Rightarrow> (AgentFatal msg, s)
                     | Inl srv \<Rightarrow>
                         (if enableHttp then
                            (case newHttpServer A of
                               Inl msg \<Rightarrow> (AgentFatal msg, s)
                             | Inr addr \<Rightarrow> (AgentServing srv [sock, addr], s))
                          else (AgentServing srv [sock], s))))))"

section \<open>The socket\<close>

lemma make_dirs_last: "make_dirs (ps @ [p]) s = (None, s') \<Longrightarrow> os_nodes s' p = Some Directory"
  by (induction ps arbitrary: s) (auto simp: set_node_def split: option.splits os_node.splits)

lemma os_MkdirAll_made: "os_MkdirAll p s = (None, s') \<Longrightarrow> os_nodes s' p = Some Directory"
  by (auto simp: os_MkdirAll_def ancestors_def dest: make_dirs_last split: prod.splits option.splits)

lemma os_RemoveAll_gone:
  "os_RemoveAll p s = (None, s') \<Longrightarrow> os_nodes s' q = (if q = p \<or> below p q then None else os_nodes s q)"
  by (auto simp: os_RemoveAll_def dest!: next_fault_nodes split: prod.splits option.splits)

text \<open>
  The agent can listen: when its socket directory is prepared, the directory is there and nothing is
  in the place of the socket, also after a crash that left the old socket behind.
\<close>

theorem socket_prepared:
  assumes "\<forall>p s. al_Exist A p s \<longleftrightarrow> os_nodes s p \<noteq> None"
    and "prepareSocketDir A sock s = (None, s')"
    and "os_nodes s (filepath_Dir sock) \<in> {None, Some Directory}"
    and "filepath_Dir sock \<noteq> sock" and "\<not> below sock (filepath_Dir sock)"
  shows "os_nodes s' sock = None \<and> parent_is_dir sock s'"
proof -
  obtain s1 where s1: "os_nodes s1 (filepath_Dir sock) = Some Directory"
    "(if al_Exist A sock s1 then os_RemoveAll sock s1 else (None, s1)) = (None, s')"
    using assms(1-3) by (auto simp: prepareSocketDir_def dest: os_MkdirAll_made split: prod.splits option.splits if_splits)
  show ?thesis
  proof (cases "al_Exist A sock s1")
    case True
    then show ?thesis using s1 os_RemoveAll_gone [of sock s1 s'] assms(4,5) by (simp add: parent_is_dir_def)
  next
    case False
    then show ?thesis using s1 assms(1) by (auto simp: parent_is_dir_def)
  qed
qed

section \<open>A restart\<close>

text \<open>
  An agent that is started again has forgotten the jobs it submitted: it remembers them only in memory,
  so the first valid request for a pod after the start runs \<^verbatim>\<open>sbatch\<close>, also if the pod already has a job.
\<close>

theorem restarted_agent_resubmits:
  assumes "agent_main A h configPath sock enableHttp w s = (AgentServing srv addrs, s')"
    and "valid_request q" and "SBatch (host.truncate h) (sbatch_request q) w1 = (Inr jid, w2)"
  shows "fst (SubmitJob h (Some q) (srv, w1)) = Inr \<lparr>sjr_JobId = jid\<rparr> \<and>
    snd (snd (SubmitJob h (Some q) (srv, w1))) = w2"
proof -
  have "\<exists>cfg. srv = NewSlurm cfg (al_euid A)"
    using assms(1)
    by (auto simp: agent_main_def newSlurmClient_def split: prod.splits option.splits sum.splits if_splits)
  then have "s_knownJobs srv (sj_Uid q) = None" by (auto simp: NewSlurm_def)
  then show ?thesis using assms(2,3) by (simp add: SubmitJob_def)
qed

text \<open>Concrete starts.\<close>

definition sample_agent :: agent_lib where
  "sample_agent = \<lparr>al_Decode = (\<lambda>_. (Map.empty, None)), al_Exist = (\<lambda>p s. os_nodes s p \<noteq> None),
     al_Listen = (\<lambda>_. None), al_text = (\<lambda>_. []), al_euid = 0\<rparr>"

definition stale_os :: os where
  "stale_os = \<lparr>os_nodes = [''/r'' \<mapsto> Directory, ''/r/s'' \<mapsto> OtherNode], os_faults = [], os_random = [], os_mode = (\<lambda>_. [])\<rparr>"

lemma stale_dir: "filepath_Dir ''/r/s'' = ''/r''"
  by code_simp

lemma stale_prepared:
  "\<exists>s'. prepareSocketDir sample_agent ''/r/s'' stale_os = (None, s')"
  by (simp add: prepareSocketDir_def stale_dir sample_agent_def stale_os_def os_RemoveAll_def next_fault_def)

theorem socket_prepared_witness:
  "os_nodes (snd (prepareSocketDir sample_agent ''/r/s'' stale_os)) ''/r/s'' = None"
proof -
  obtain s' where s': "prepareSocketDir sample_agent ''/r/s'' stale_os = (None, s')"
    using stale_prepared by blast
  have "os_nodes s' ''/r/s'' = None \<and> parent_is_dir ''/r/s'' s'"
    by (rule socket_prepared [OF _ s'])
       (simp_all add: sample_agent_def stale_dir stale_os_def below_def)
  then show ?thesis using s' by simp
qed

theorem restarted_agent_resubmits_witness:
  "\<exists>srv addrs s'. agent_main sample_agent counting_agent [] ''/r/s'' True 3 stale_os = (AgentServing srv addrs, s') \<and>
     fst (SubmitJob counting_agent (Some (sample_request ''p1'')) (srv, 7)) = Inr \<lparr>sjr_JobId = 7\<rparr>"
proof -
  obtain s1 where s1: "prepareSocketDir sample_agent ''/r/s'' stale_os = (None, s1)"
    using stale_prepared by blast
  have "NewClient (host.truncate counting_agent) w = Inr ()" for w
    by (simp add: NewClient_def counting_host_def)
  then have run: "agent_main sample_agent counting_agent [] ''/r/s'' True 3 stale_os =
      (AgentServing (NewSlurm Map.empty 0) [''/r/s'', '':9999''], s1)"
    using s1 by (simp add: agent_main_def agent_config_def newSlurmClient_def sample_agent_def)
  have "valid_request (sample_request ''p1'')"
    by (simp add: valid_request_def sample_request_def zero_SubmitJobRequest_def)
  from restarted_agent_resubmits [OF run this, of 7 7 8] run show ?thesis by simp
qed

end
