(* ===== verification/Commands.thy ===== *)
theory Commands
  imports KubeletRun Configurator AgentProcess Operator GoFlag
begin

text \<open>
  The commands: the operator (\<^verbatim>\<open>cmd/bridge-operator\<close>, with \<^verbatim>\<open>SetupWithManager\<close> of
  \<^verbatim>\<open>slurmbridgejob_controller.go\<close>), the configurator (\<^verbatim>\<open>cmd/configurator\<close>) and the agent
  (\<^verbatim>\<open>cmd/slurm-agent\<close>), from their command lines to what they run. The managers of controller-runtime, with
  their health checks, and the flags of its logger are parameters. A command line that
  is not understood ends the program with the status of the \<^verbatim>\<open>flag\<close> package.
\<close>

datatype 'a program = Usage nat | Exited | Crashed panic | Serving 'a

definition with_flags ::
    "go_flag_lib \<Rightarrow> (string \<times> flag_kind) list \<Rightarrow> string list \<Rightarrow> ((string \<rightharpoonup> string) \<Rightarrow> 'a program) \<Rightarrow> 'a program" where
  "with_flags G fs argv main =
     (case parse_flags G fs argv Map.empty of
        HelpRequested \<Rightarrow> Usage 0
      | FlagError msg \<Rightarrow> Usage 2
      | Parsed m _ \<Rightarrow> main m)"

record manager_lib =
  ml_NewManager :: "string \<Rightarrow> string \<Rightarrow> bool \<Rightarrow> go_error option"
  ml_AddHealthzCheck :: "go_error option"
  ml_AddReadyzCheck :: "go_error option"
  ml_Start :: "go_error option"
  ml_Dial :: "string \<Rightarrow> go_error option"
  ml_zap :: "(string \<times> flag_kind) list"

section \<open>The configurator\<close>

record configurator_args =
  ca_metricsAddr :: string
  ca_probeAddr :: string
  ca_controllerThreads :: int64
  ca_updateInterval :: duration
  ca_agentHttpEndpoint :: string
  ca_agentSock :: string

definition configurator_flags :: "manager_lib \<Rightarrow> (string \<times> flag_kind) list" where
  "configurator_flags M =
     [(''metrics-bind-address'', StringFlag), (''health-probe-bind-address'', StringFlag),
      (''slurm-bridge-operator-threads'', IntFlag), (''update-interval'', DurationFlag),
      (''endpoint'', StringFlag), (''sock'', StringFlag)] @ ml_zap M"

definition configurator_args :: "go_flag_lib \<Rightarrow> (string \<rightharpoonup> string) \<Rightarrow> configurator_args" where
  "configurator_args G m =
     \<lparr>ca_metricsAddr = flag_string m ''metrics-bind-address'' '':8080'',
      ca_probeAddr = flag_string m ''health-probe-bind-address'' '':8081'',
      ca_controllerThreads = flag_int G m ''slurm-bridge-operator-threads'' 1,
      ca_updateInterval = flag_duration G m ''update-interval'' (30 * Second),
      ca_agentHttpEndpoint = flag_string m ''endpoint'' '':9999'',
      ca_agentSock = flag_string m ''sock'' []\<rparr>"

text \<open>\<^const>\<open>False\<close>: the process ends.\<close>

definition newCtrlManagerOrDie :: "manager_lib \<Rightarrow> string \<Rightarrow> string \<Rightarrow> bool" where
  "newCtrlManagerOrDie M metricsAddr probeAddr =
     (case ml_NewManager M metricsAddr probeAddr False of
        Some err \<Rightarrow> False
      | None \<Rightarrow>
          (case ml_AddHealthzCheck M of
             Some err \<Rightarrow> False
           | None \<Rightarrow> (case ml_AddReadyzCheck M of Some err \<Rightarrow> False | None \<Rightarrow> True)))"

definition configurator_addr :: "configurator_args \<Rightarrow> string" where
  "configurator_addr a =
     (let addr = ca_agentSock a in
      if length addr = 0 then ca_agentHttpEndpoint a else ''unix://'' @ ca_agentSock a)"

text \<open>
  The manager runs beside the rest, and its failure ends the process. The ticker of the loop
  that watches the partitions panics when its interval is not positive.
\<close>

definition configurator_main ::
    "manager_lib \<Rightarrow> (string \<rightharpoonup> string) \<Rightarrow> configurator_args \<Rightarrow> SlurmBridgeConfigurator program" where
  "configurator_main M env a =
     (if \<not> newCtrlManagerOrDie M (ca_metricsAddr a) (ca_probeAddr a) then Exited
      else case ml_Start M of
        Some err \<Rightarrow> Exited
      | None \<Rightarrow>
          (case ml_Dial M (configurator_addr a) of
             Some err \<Rightarrow> Exited
           | None \<Rightarrow>
               (case NewConfiguratorOrDie env (configurator_addr a) of
                  None \<Rightarrow> Exited
                | Some cf \<Rightarrow>
                    if sint (ca_updateInterval a) \<le> 0
                    then Crashed (PanicMessage ''non-positive interval for NewTicker'')
                    else Serving cf)))"

definition configurator_program ::
    "go_flag_lib \<Rightarrow> manager_lib \<Rightarrow> (string \<rightharpoonup> string) \<Rightarrow> string list \<Rightarrow> SlurmBridgeConfigurator program" where
  "configurator_program G M env argv =
     with_flags G (configurator_flags M) argv (\<lambda>m. configurator_main M env (configurator_args G m))"

section \<open>The agent\<close>

definition agent_flags :: "(string \<times> flag_kind) list" where
  "agent_flags = [(''config'', StringFlag), (''socket'', StringFlag), (''enableHttp'', BoolFlag)]"

definition agent_program ::
    "go_flag_lib \<Rightarrow> agent_lib \<Rightarrow> 'w agent_host \<Rightarrow> string list \<Rightarrow> 'w \<Rightarrow> os \<Rightarrow> (agent_end \<times> os) program" where
  "agent_program G A h argv w s =
     with_flags G agent_flags argv
       (\<lambda>m. Serving (agent_main A h (flag_string m ''config'' [])
          (flag_string m ''socket'' ''/var/run/slurm-bridge-operator/slurm-agent-agent.sock'')
          (flag_bool m ''enableHttp'' True) w s))"

text \<open>
  How a serving agent ends, on the events of its goroutines: a signal, and the returns of \<^verbatim>\<open>Serve\<close> on
  the socket and on HTTP, with their errors. The state says whether the signal was taken and whether the
  socket is served no more. The result is \<^const>\<open>None\<close> while it runs, \<^const>\<open>True\<close> for a regular end and
  \<^const>\<open>False\<close> for a fatal one.
\<close>

datatype agent_event = Signal string | SocketServed "go_error option" | HttpServed "go_error option"

definition ErrServerClosed :: go_error where
  "ErrServerClosed = Sentinel ''http: Server closed''"

definition serve_failed :: "go_error option \<Rightarrow> bool" where
  "serve_failed err = (case err of None \<Rightarrow> False | Some e \<Rightarrow> e \<noteq> ErrServerClosed)"

fun agent_serving :: "bool \<Rightarrow> bool \<Rightarrow> agent_event list \<Rightarrow> bool option" where
  "agent_serving stopped served [] = (if stopped \<and> served then Some True else None)"
| "agent_serving stopped served (Signal x # evs) =
     (if stopped \<and> served then Some True
      else if x \<in> {''SIGINT'', ''SIGTERM'', ''SIGQUIT''} then agent_serving True served evs
      else agent_serving stopped served evs)"
| "agent_serving stopped served (SocketServed err # evs) =
     (if stopped \<and> served then Some True
      else if serve_failed err then Some False
      else agent_serving stopped True evs)"
| "agent_serving stopped served (HttpServed err # evs) =
     (if stopped \<and> served then Some True
      else if serve_failed err then Some False
      else agent_serving stopped served evs)"

section \<open>The operator\<close>

record operator_args =
  oa_metricsAddr :: string
  oa_enableLeaderElection :: bool
  oa_probeAddr :: string
  oa_controllerThreads :: int64

definition operator_flags :: "manager_lib \<Rightarrow> (string \<times> flag_kind) list" where
  "operator_flags M =
     [(''metrics-bind-address'', StringFlag), (''health-probe-bind-address'', StringFlag),
      (''leader-elect'', BoolFlag), (''slurm-bridge-operator-threads'', IntFlag)] @ ml_zap M"

definition operator_args :: "go_flag_lib \<Rightarrow> (string \<rightharpoonup> string) \<Rightarrow> operator_args" where
  "operator_args G m =
     \<lparr>oa_metricsAddr = flag_string m ''metrics-bind-address'' '':8080'',
      oa_enableLeaderElection = flag_bool m ''leader-elect'' False,
      oa_probeAddr = flag_string m ''health-probe-bind-address'' '':8081'',
      oa_controllerThreads = flag_int G m ''slurm-bridge-operator-threads'' 1\<rparr>"

text \<open>
  What the controller watches, and the library that does: making a controller, watching a kind of object,
  and the namespace and name of the job that controls an object.
\<close>

datatype watch = WatchJobs | WatchOwnedPods

record ctrl_lib =
  ct_New :: "int64 \<Rightarrow> go_error option"
  ct_Watch :: "watch \<Rightarrow> go_error option"
  ct_controller :: "ObjectMeta \<Rightarrow> (string \<times> string) option"

definition SetupWithManager :: "ctrl_lib \<Rightarrow> int64 \<Rightarrow> watch list result" where
  "SetupWithManager C controllerThreads =
     (case ct_New C controllerThreads of
        Some err \<Rightarrow> Inl err
      | None \<Rightarrow>
          (case ct_Watch C WatchJobs of
             Some err \<Rightarrow> Inl err
           | None \<Rightarrow>
               (case ct_Watch C WatchOwnedPods of
                  Some err \<Rightarrow> Inl err
                | None \<Rightarrow> Inr [WatchJobs, WatchOwnedPods])))"

datatype api_object = JobObject SlurmBridgeJob | PodObject Pod | BatchObject BatchJob

text \<open>The requests that the creation of an object brings about; the predicate lets every one through.\<close>

fun watch_requests :: "ctrl_lib \<Rightarrow> api_object \<Rightarrow> watch \<Rightarrow> (string \<times> string) list" where
  "watch_requests C (JobObject sjb) WatchJobs =
     (if fst (onOwnerCreateFunc sjb) then [(sbj_Namespace sjb, sbj_Name sjb)] else [])"
| "watch_requests C (PodObject pod) WatchOwnedPods =
     (case ct_controller C (pod_Meta pod) of None \<Rightarrow> [] | Some r \<Rightarrow> [r])"
| "watch_requests C e w = []"

definition operator_main :: "manager_lib \<Rightarrow> ctrl_lib \<Rightarrow> operator_args \<Rightarrow> watch list program" where
  "operator_main M C a =
     (case ml_NewManager M (oa_metricsAddr a) (oa_probeAddr a) (oa_enableLeaderElection a) of
        Some err \<Rightarrow> Exited
      | None \<Rightarrow>
          (case SetupWithManager C (oa_controllerThreads a) of
             Inl err \<Rightarrow> Exited
           | Inr watches \<Rightarrow>
               (case ml_AddHealthzCheck M of
                  Some err \<Rightarrow> Exited
                | None \<Rightarrow>
                    (case ml_AddReadyzCheck M of
                       Some err \<Rightarrow> Exited
                     | None \<Rightarrow> (case ml_Start M of Some err \<Rightarrow> Exited | None \<Rightarrow> Serving watches)))))"

definition operator_program :: "go_flag_lib \<Rightarrow> manager_lib \<Rightarrow> ctrl_lib \<Rightarrow> string list \<Rightarrow> watch list program" where
  "operator_program G M C argv = with_flags G (operator_flags M) argv (\<lambda>m. operator_main M C (operator_args G m))"

text \<open>
  A running operator is woken by its jobs and by the pods that a job controls, and by nothing else: in
  particular not by the batch job that fetches the results, although the status of the job follows it.
\<close>

lemma operator_woken_by:
  assumes "operator_program G M C argv = Serving watches"
  shows "concat (map (watch_requests C (JobObject sjb)) watches) = [(sbj_Namespace sjb, sbj_Name sjb)]"
    "concat (map (watch_requests C (PodObject pod)) watches) =
      (case ct_controller C (pod_Meta pod) of None \<Rightarrow> [] | Some r \<Rightarrow> [r])"
    "concat (map (watch_requests C (BatchObject job)) watches) = []"
proof -
  have "watches = [WatchJobs, WatchOwnedPods]"
    using assms by (auto simp: operator_program_def with_flags_def operator_main_def SetupWithManager_def
        split: flags.splits option.splits sum.splits)
  then show "concat (map (watch_requests C (JobObject sjb)) watches) = [(sbj_Namespace sjb, sbj_Name sjb)]"
    "concat (map (watch_requests C (PodObject pod)) watches) =
      (case ct_controller C (pod_Meta pod) of None \<Rightarrow> [] | Some r \<Rightarrow> [r])"
    "concat (map (watch_requests C (BatchObject job)) watches) = []"
    by (simp_all add: onOwnerCreateFunc_def Let_def)
qed

text \<open>An agent ends regularly only after one of its three signals.\<close>

lemma agent_serving_True:
  "agent_serving stopped served evs = Some True \<Longrightarrow>
     stopped \<or> (\<exists>x \<in> {''SIGINT'', ''SIGTERM'', ''SIGQUIT''}. Signal x \<in> set evs)"
proof (induction stopped served evs rule: agent_serving.induct)
  case (2 stopped served x evs)
  then show ?case by (cases "x \<in> {''SIGINT'', ''SIGTERM'', ''SIGQUIT''}") (auto split: if_splits)
qed (auto split: if_splits)

section \<open>From the configurator to the kubelet\<close>

text \<open>How \<^verbatim>\<open>pflag\<close> cuts a command line of flags that take a value, each followed by its value.\<close>

definition cuts_pairs :: "process_lib \<Rightarrow> bool" where
  "cuts_pairs P \<longleftrightarrow>
     (\<forall>ps. set (map fst ps) \<subseteq> set (map fst AddFlags) \<longrightarrow>
        pl_Tokens P (concat (map (\<lambda>(n, v). [''--'' @ n, v]) ps)) = map (\<lambda>(n, v). FlagToken n v) ps)"

definition kubelet_pairs :: "SlurmBridgeConfigurator \<Rightarrow> string \<Rightarrow> (string \<times> string) list" where
  "kubelet_pairs cf p =
     [(''nodename'', partitionNodeName p), (''partition'', p), (''endpoint'', cf_SlurmAgentEndpoint cf)]"

lemma kubelet_tokens:
  "cuts_pairs P \<Longrightarrow> pl_Tokens P (kp_Args (virtualKubeletPodTemplate cf p)) =
     [FlagToken ''nodename'' (partitionNodeName p), FlagToken ''partition'' p,
      FlagToken ''endpoint'' (cf_SlurmAgentEndpoint cf)]"
proof -
  assume "cuts_pairs P"
  moreover have "set (map fst (kubelet_pairs cf p)) \<subseteq> set (map fst AddFlags)"
    by (simp add: kubelet_pairs_def AddFlags_def)
  moreover have "kp_Args (virtualKubeletPodTemplate cf p) =
      concat (map (\<lambda>(n, v). [''--'' @ n, v]) (kubelet_pairs cf p))"
    by (simp add: virtualKubeletPodTemplate_def kubelet_pairs_def)
  ultimately have "pl_Tokens P (kp_Args (virtualKubeletPodTemplate cf p)) =
      map (\<lambda>(n, v). FlagToken n v) (kubelet_pairs cf p)"
    unfolding cuts_pairs_def by metis
  then show ?thesis by (simp add: kubelet_pairs_def)
qed

lemma kubelet_args_parsed:
  "parse_tokens K (cleanFlagSet K)
     [FlagToken ''nodename'' h, FlagToken ''partition'' p, FlagToken ''endpoint'' a] (fresh_targets f kc) =
   Value (fresh_targets (f\<lparr>fl_NodeName := h, fl_SlurmPartition := p, fl_AgentEndpoint := a\<rparr>) kc)"
  by (simp add: cleanFlagSet_def AddFlags_def set_text_def fresh_targets_def)

lemma configurator_serving:
  assumes "configurator_program G M env argv = Serving cf"
  shows "\<exists>m rest. parse_flags G (configurator_flags M) argv Map.empty = Parsed m rest \<and>
    cf_SlurmAgentEndpoint cf = configurator_addr (configurator_args G m) \<and>
    cf_VKKubeletImage cf \<noteq> [] \<and> 0 < sint (ca_updateInterval (configurator_args G m))"
  using assms
  by (auto simp: configurator_program_def with_flags_def configurator_main_def NewConfiguratorOrDie_def Let_def
      split: flags.splits option.splits if_splits)


text \<open>
  An agent that is reached through its socket is not reached by the kubelets: the configurator hands
  them the address with its scheme, and the kubelet puts the scheme before it once more.
\<close>

lemma socket_prefixed_twice:
  assumes "ca_agentSock a \<noteq> []" and "HasSuffix (ca_agentSock a) ''sock''"
  shows "dial_addr (configurator_addr a) = ''unix://unix://'' @ ca_agentSock a"
proof -
  have "HasSuffix (''unix://'' @ ca_agentSock a) ''sock''"
    using assms(2) unfolding HasSuffix_def by (rule suffix_appendI)
  then show ?thesis using assms(1) by (simp add: dial_addr_def configurator_addr_def Let_def)
qed

section \<open>A concrete cluster\<close>

definition sample_manager :: manager_lib where
  "sample_manager =
     \<lparr>ml_NewManager = (\<lambda>m p l. None), ml_AddHealthzCheck = None, ml_AddReadyzCheck = None, ml_Start = None,
      ml_Dial = (\<lambda>a. None), ml_zap = [(''zap-devel'', BoolFlag)]\<rparr>"

definition configurator_env :: "string \<rightharpoonup> string" where
  "configurator_env = [''KUBELET_IMAGE'' \<mapsto> ''vk:latest'', ''SERVICE_ACCOUNT'' \<mapsto> ''sa'']"

lemma sample_configurator_runs:
  "configurator_program sample_go_flags sample_manager configurator_env [''--endpoint'', ''agent:9999''] =
     Serving sample_configurator"
proof -
  have "parse_flags sample_go_flags (configurator_flags sample_manager) [''--endpoint'', ''agent:9999''] Map.empty =
      Parsed [''endpoint'' \<mapsto> ''agent:9999''] []"
    by (simp add: split_flag_def configurator_flags_def Let_def)
  then show ?thesis
    by (simp add: configurator_program_def with_flags_def configurator_main_def newCtrlManagerOrDie_def
        sample_manager_def configurator_args_def configurator_addr_def flag_string_def flag_duration_def
        NewConfiguratorOrDie_def configurator_env_def map_get_def sample_configurator_def Let_def)
qed

fun cut_tokens :: "string list \<Rightarrow> flag_token list" where
  "cut_tokens (a # v # r) = FlagToken (drop 2 a) v # cut_tokens r"
| "cut_tokens _ = []"

definition cutting_process :: process_lib where
  "cutting_process = sample_process\<lparr>pl_Tokens := cut_tokens\<rparr>"

lemma cutting_process_sel:
  "pl_options cutting_process = sample_options_lib" "pl_Args cutting_process a = []"
  "pl_flags cutting_process = sample_kflags" "\<not> pl_version_requested cutting_process a"
  "pl_Dial cutting_process d = None" "newClient cutting_process = newClient sample_process"
proof -
  have "newClient (P\<lparr>pl_Tokens := x\<rparr>) = newClient P" for P :: process_lib and x
    by (simp add: newClient_def fun_eq_iff Let_def split: prod.splits sum.splits)
  then show "newClient cutting_process = newClient sample_process" by (simp add: cutting_process_def)
qed (simp_all add: cutting_process_def sample_process_def)

lemma cutting_process_cuts: "cuts_pairs cutting_process"
proof -
  have "cut_tokens (concat (map (\<lambda>(n, v). [''--'' @ n, v]) ps)) = map (\<lambda>(n, v). FlagToken n v) ps" for ps
    by (induction ps) auto
  then show ?thesis by (simp add: cuts_pairs_def cutting_process_def)
qed

lemma sample_kubelet_runs:
  "\<exists>vk srv s'. NewSlurmVirtualKubeltCommand cutting_process sample_env
     (kp_Args (virtualKubeletPodTemplate sample_configurator ''debug'')) kubelet_os = (Running vk srv, s') \<and>
     fl_SlurmPartition (ks_Flags (vk_KubeletServer vk)) = ''debug''"
proof -
  let ?h = "partitionNodeName ''debug''" and ?a = "cf_SlurmAgentEndpoint sample_configurator"
  let ?args = "kp_Args (virtualKubeletPodTemplate sample_configurator ''debug'')"
  let ?given = "(NewSlurmVirtualKubeletFlags sample_env)\<lparr>fl_NodeName := ?h, fl_SlurmPartition := ''debug'',
      fl_AgentEndpoint := ?a\<rparr>"
  let ?kc = "SetDefaults_SlurmVirtualKubeletConfiguration zero_Configuration"
  let ?f = "?given\<lparr>fl_NodeLabels := vk_node_labels ?h ''debug''\<rparr>"
  have p: "parse_tokens (pl_flags cutting_process) (cleanFlagSet (pl_flags cutting_process))
      (pl_Tokens cutting_process ?args) (fresh_targets (NewSlurmVirtualKubeletFlags sample_env) ?kc) =
      Value (fresh_targets ?given ?kc)"
    unfolding kubelet_tokens [OF cutting_process_cuts] by (rule kubelet_args_parsed)
  have h: "?h \<noteq> []" "?a \<noteq> []" by (simp_all add: partitionNodeName_def sample_configurator_def)
  have d: "setDefaultSlurmVKFlags (pl_options cutting_process) (ft_Flags (fresh_targets ?given ?kc)) = Inr ?f"
    using h by (simp add: setDefaultSlurmVKFlags_def cutting_process_sel sample_options_lib_def
        updates_fresh vk_node_labels_distinct)
  have v: "ValidateKubeletFlags (pl_options cutting_process) ?f = None"
    by (simp add: ValidateKubeletFlags_None vk_labels_known label_errors_empty cutting_process_sel)
       (simp add: vk_node_labels_def DefaultNodeSelectors_def PartitionLabel_def sample_options_lib_def partitionNodeName_def)
  have "fl_VirtualKubeletConfigFile ?f = []"
    by (simp add: NewSlurmVirtualKubeletFlags_def setDefaultSlurmVirtualKubeletFlags_def zero_Flags_def Let_def)
  then have e: "effective_config cutting_process sample_env ?args ?f (ft_Config (fresh_targets ?given ?kc)) kubelet_os =
      (Some (Value ?kc), kubelet_os)"
    by (simp add: effective_config_def)
  have c: "ValidateSlurmVirtualKubeletConfiguration (pl_options cutting_process) ?kc = None"
    by (simp add: ValidateSlurmVirtualKubeletConfiguration_def config_errors_def sample_options_lib_def
        cutting_process_sel SetDefaults_SlurmVirtualKubeletConfiguration_def zero_Configuration_def Let_def)
  obtain cl where "newClient cutting_process (fl_KubeConfig ?f) kubelet_os = (Inr cl, kubelet_os)"
    using sample_client unfolding cutting_process_sel by blast
  note r = Command_runs [OF p _ _ _ d e v c this]
  have "\<exists>vk srv s'. NewSlurmVirtualKubeltCommand cutting_process sample_env ?args kubelet_os = (Running vk srv, s') \<and>
      vk_KubeletServer vk = \<lparr>ks_Flags = ?f, ks_Configuration = ?kc\<rparr>"
    by (rule r) (simp_all add: cutting_process_sel h)
  then show ?thesis by fastforce
qed


end
