(* ===== verification/KubeletTracing.thy ===== *)
theory KubeletTracing
  imports KubeletProcess
begin

text \<open>
  The trace exporters of the virtual kubelet (\<^verbatim>\<open>tracing_register*.go\<close>, \<^verbatim>\<open>tracing.go\<close>): their registry, what the
  Jaeger and the OpenCensus exporter are made of from the environment of the process, and the debug server. An
  unset variable is the empty text. Connecting an exporter is done by its library and is a parameter.
\<close>

section \<open>Exporters\<close>

record TracingExporterOptions =
  xo_Tags :: "(string \<times> string) list"
  xo_ServiceName :: string

record jaeger_Options =
  jo_Endpoint :: string
  jo_AgentEndpoint :: string
  jo_Username :: string
  jo_Password :: string
  jo_ServiceName :: string
  jo_Tags :: "(string \<times> string) list"

datatype ocagent_option = WithServiceName string | WithAddress string | WithInsecure

datatype exporter = Jaeger jaeger_Options | OCAgent "ocagent_option list"

record exporter_lib =
  xl_Getenv :: "string \<Rightarrow> string"
  xl_NewExporter :: "exporter \<Rightarrow> go_error option"

definition connect_exporter :: "exporter_lib \<Rightarrow> exporter \<Rightarrow> exporter result" where
  "connect_exporter X e = (case xl_NewExporter X e of Some err \<Rightarrow> Inl err | None \<Rightarrow> Inr e)"

definition NewJaegerExporter :: "exporter_lib \<Rightarrow> TracingExporterOptions \<Rightarrow> exporter result" where
  "NewJaegerExporter X opts =
     (let jOpts = \<lparr>jo_Endpoint = xl_Getenv X ''JAEGER_ENDPOINT'', jo_AgentEndpoint = xl_Getenv X ''JAEGER_AGENT_ENDPOINT'',
                   jo_Username = xl_Getenv X ''JAEGER_USER'', jo_Password = xl_Getenv X ''JAEGER_PASSWORD'',
                   jo_ServiceName = xo_ServiceName opts, jo_Tags = []\<rparr>
      in if jo_Endpoint jOpts = [] \<and> jo_AgentEndpoint jOpts = []
         then Inl (ErrorString ''Must specify either JAEGER_ENDPOINT or JAEGER_AGENT_ENDPOINT'')
         else connect_exporter X (Jaeger (jOpts\<lparr>jo_Tags := xo_Tags opts\<rparr>)))"

text \<open>The switch on \<^verbatim>\<open>OCAGENT_INSECURE\<close>: whether the connection is insecure.\<close>

definition ocagent_insecure :: "string \<Rightarrow> bool result" where
  "ocagent_insecure v =
     (if v \<in> {''0'', ''no'', ''n'', ''off'', []} then Inr False
      else if v \<in> {''1'', ''yes'', ''y'', ''on''} then Inr True
      else Inl (ErrorString ''invalid value for OCAGENT_INSECURE''))"

definition NewOCAgentExporter :: "exporter_lib \<Rightarrow> TracingExporterOptions \<Rightarrow> exporter result" where
  "NewOCAgentExporter X opts =
     (let endpoint = xl_Getenv X ''OCAGENT_ENDPOINT'' in
      if endpoint = [] then Inl (ErrorString ''must set endpoint address in OCAGENT_ENDPOINT'')
      else case ocagent_insecure (xl_Getenv X ''OCAGENT_INSECURE'') of
        Inl err \<Rightarrow> Inl err
      | Inr insecure \<Rightarrow>
          connect_exporter X (OCAgent ([WithServiceName (xo_ServiceName opts), WithAddress endpoint] @
            (if insecure then [WithInsecure] else []))))"

section \<open>The registry\<close>

text \<open>A map in the order of an iteration.\<close>

type_synonym registry = "(string \<times> (TracingExporterOptions \<Rightarrow> exporter result)) list"

definition RegisterTracingExporter :: "string \<Rightarrow> (TracingExporterOptions \<Rightarrow> exporter result) \<Rightarrow> registry \<Rightarrow> registry" where
  "RegisterTracingExporter name f m = AList.update name f m"

definition registry_GetTracingExporter :: "registry \<Rightarrow> string \<Rightarrow> TracingExporterOptions \<Rightarrow> exporter result" where
  "registry_GetTracingExporter m name opts =
     (case map_of m name of
        None \<Rightarrow> Inl (ErrorString (''tracing exporter '' @ go_quote name @ '' not found''))
      | Some f \<Rightarrow> f opts)"

definition AvailableTraceExporters :: "registry \<Rightarrow> string list" where
  "AvailableTraceExporters m = map fst m"

text \<open>What the \<^verbatim>\<open>init\<close> functions of the two files register; build tags may leave either out.\<close>

definition init_jaeger :: "exporter_lib \<Rightarrow> registry \<Rightarrow> registry" where
  "init_jaeger X = RegisterTracingExporter ''jaeger'' (NewJaegerExporter X)"

definition init_ocagent :: "exporter_lib \<Rightarrow> registry \<Rightarrow> registry" where
  "init_ocagent X = RegisterTracingExporter ''ocagent'' (NewOCAgentExporter X)"

definition default_registry :: "exporter_lib \<Rightarrow> registry" where
  "default_registry X = init_ocagent X (init_jaeger X [])"

lemma available_exporters:
  "set (AvailableTraceExporters (RegisterTracingExporter name f m)) = insert name (set (AvailableTraceExporters m))"
  "AvailableTraceExporters (default_registry X) = [''jaeger'', ''ocagent'']"
  by (auto simp: AvailableTraceExporters_def RegisterTracingExporter_def dom_update [unfolded dom_map_of_conv_image_fst]
      default_registry_def init_jaeger_def init_ocagent_def)

text \<open>The last registration under a name is the one that is used.\<close>

lemma registered_exporter:
  "registry_GetTracingExporter (RegisterTracingExporter name f m) name' opts =
     (if name' = name then f opts else registry_GetTracingExporter m name' opts)"
  by (simp add: registry_GetTracingExporter_def RegisterTracingExporter_def update_conv)

section \<open>The debug server\<close>

text \<open>
  What \<^verbatim>\<open>setupZpages\<close> logs and the address it serves \<^verbatim>\<open>/debug\<close> on, if any: a missing port is logged, and the
  empty address listened on all the same.
\<close>

definition setupZpages :: "(string \<Rightarrow> string) \<Rightarrow> (string \<Rightarrow> go_error option) \<Rightarrow> string list \<times> string option" where
  "setupZpages Getenv Listen =
     (let p = Getenv ''ZPAGES_PORT'';
          logged = (if p = [] then [''Missing ZPAGES_PORT env var, cannot setup zpages endpoint''] else [])
      in case Listen p of
           Some err \<Rightarrow> (logged @ [''Cannot bind to ZPAGES PORT, cannot setup listener''], None)
         | None \<Rightarrow> (logged, Some p))"

lemma zpages_without_port: "setupZpages (\<lambda>_. []) (\<lambda>_. None) =
    ([''Missing ZPAGES_PORT env var, cannot setup zpages endpoint''], Some [])"
  by (simp add: setupZpages_def Let_def)

section \<open>A kubelet with exporters\<close>

text \<open>The registry as the answers that \<^const>\<open>SetupTracing\<close> is given, for the options it passes on.\<close>

definition exporter_answers :: "registry \<Rightarrow> TracingExporterOptions \<Rightarrow> string \<rightharpoonup> go_error option" where
  "exporter_answers m opts name =
     map_option (\<lambda>f. case f opts of Inl err \<Rightarrow> Some err | Inr _ \<Rightarrow> None) (map_of m name)"

lemma exporter_answers_agree:
  "GetTracingExporter (exporter_answers m opts) name =
     (case registry_GetTracingExporter m name opts of Inl err \<Rightarrow> Some err | Inr _ \<Rightarrow> None)"
  by (simp add: GetTracingExporter_def exporter_answers_def registry_GetTracingExporter_def split: option.splits)

text \<open>
  A kubelet with the two exporters of the repository gets its tracing set up exactly when the environment names an
  endpoint for each exporter that is asked for, and the value of \<^verbatim>\<open>OCAGENT_INSECURE\<close> is a known one.
\<close>

definition exporter_configured :: "exporter_lib \<Rightarrow> string \<Rightarrow> bool" where
  "exporter_configured X name \<longleftrightarrow>
     name = ''zpages'' \<or>
     name = ''jaeger'' \<and> (xl_Getenv X ''JAEGER_ENDPOINT'' \<noteq> [] \<or> xl_Getenv X ''JAEGER_AGENT_ENDPOINT'' \<noteq> []) \<or>
     name = ''ocagent'' \<and> xl_Getenv X ''OCAGENT_ENDPOINT'' \<noteq> [] \<and>
       (\<exists>b. ocagent_insecure (xl_Getenv X ''OCAGENT_INSECURE'') = Inr b)"

lemma default_registry_lookup:
  "registry_GetTracingExporter (default_registry X) ''jaeger'' opts = NewJaegerExporter X opts"
  "registry_GetTracingExporter (default_registry X) ''ocagent'' opts = NewOCAgentExporter X opts"
  "name \<noteq> ''jaeger'' \<Longrightarrow> name \<noteq> ''ocagent'' \<Longrightarrow> \<exists>e. registry_GetTracingExporter (default_registry X) name opts = Inl e"
  by (simp_all add: default_registry_def init_jaeger_def init_ocagent_def registered_exporter)
     (simp add: registry_GetTracingExporter_def)

lemma jaeger_made:
  assumes "\<And>e. xl_NewExporter X e = None"
  shows "(\<exists>e. NewJaegerExporter X opts = Inr e) \<longleftrightarrow>
    xl_Getenv X ''JAEGER_ENDPOINT'' \<noteq> [] \<or> xl_Getenv X ''JAEGER_AGENT_ENDPOINT'' \<noteq> []"
  using assms by (simp add: NewJaegerExporter_def connect_exporter_def Let_def)

lemma ocagent_made:
  assumes "\<And>e. xl_NewExporter X e = None"
  shows "(\<exists>e. NewOCAgentExporter X opts = Inr e) \<longleftrightarrow>
    xl_Getenv X ''OCAGENT_ENDPOINT'' \<noteq> [] \<and> (\<exists>b. ocagent_insecure (xl_Getenv X ''OCAGENT_INSECURE'') = Inr b)"
  using assms by (cases "ocagent_insecure (xl_Getenv X ''OCAGENT_INSECURE'')")
    (simp_all add: NewOCAgentExporter_def connect_exporter_def Let_def)

lemma default_exporter:
  assumes lib: "\<And>e. xl_NewExporter X e = None" and "name \<noteq> ''zpages''"
  shows "GetTracingExporter (exporter_answers (default_registry X) opts) name = None \<longleftrightarrow> exporter_configured X name"
proof -
  have "GetTracingExporter (exporter_answers (default_registry X) opts) name = None \<longleftrightarrow>
      (\<exists>e. registry_GetTracingExporter (default_registry X) name opts = Inr e)"
    by (simp add: exporter_answers_agree split: sum.splits)
  moreover have ?thesis if "name = ''jaeger''"
    using calculation jaeger_made [OF lib] that by (simp add: default_registry_lookup exporter_configured_def)
  moreover have ?thesis if "name = ''ocagent''"
    using calculation(1) ocagent_made [OF lib] that by (simp add: default_registry_lookup exporter_configured_def)
  moreover have ?thesis if "name \<noteq> ''jaeger''" "name \<noteq> ''ocagent''"
    using calculation(1) default_registry_lookup(3) [OF that, of X opts] that assms(2)
    by (auto simp: exporter_configured_def)
  ultimately show ?thesis by blast
qed

lemma setup_default_exporters:
  assumes "\<And>e. xl_NewExporter X e = None"
  shows "setup_exporters (exporter_answers (default_registry X) opts) es = None \<longleftrightarrow> (\<forall>e \<in> set es. exporter_configured X e)"
proof (induction es)
  case (Cons e es)
  show ?case
  proof (cases "e = ''zpages''")
    case True
    have "exporter_configured X ''zpages''" unfolding exporter_configured_def by blast
    then show ?thesis using Cons True by simp
  next
    case False
    show ?thesis
      using default_exporter [OF assms False, of opts] Cons False
      by (cases "GetTracingExporter (exporter_answers (default_registry X) opts) e") simp_all
  qed
qed simp

end
