(* ===== verification/KubeletConfigIO.thy ===== *)
theory KubeletConfigIO
  imports KubeletProcess
begin

text \<open>
  The rest of the configuration of the virtual kubelet: a new one with its defaults (\<^verbatim>\<open>options.go\<close>), the
  loader of a file (\<^verbatim>\<open>configfiles.go\<close>), writing a configuration as YAML (\<^verbatim>\<open>util/codec/codec.go\<close>), the
  check that the process may run (\<^verbatim>\<open>server_others.go\<close>), and the package \<^verbatim>\<open>pkg/slurm-virtual-kubelet/codec\<close>, a
  copy of \<^verbatim>\<open>util/codec\<close> that nothing imports. Serialisers are parameters.
\<close>

section \<open>Configurations\<close>

definition NewSlurmVirtualKubeletConfiguration :: "process_lib \<Rightarrow> SlurmVirtualKubeletConfiguration result" where
  "NewSlurmVirtualKubeletConfiguration P =
     (case pl_NewSchemeAndCodecs P of
        Some err \<Rightarrow> Inl err
      | None \<Rightarrow> Inr (SetDefaults_SlurmVirtualKubeletConfiguration zero_Configuration))"

record 's fsLoader =
  ld_fs :: "'s Filesystem"
  ld_kubeletFile :: string

definition NewFsLoader :: "process_lib \<Rightarrow> 's Filesystem \<Rightarrow> string \<Rightarrow> 's fsLoader result" where
  "NewFsLoader P fs kubeletFile =
     (case pl_NewSchemeAndCodecs P of
        Some err \<Rightarrow> Inl err
      | None \<Rightarrow> Inr \<lparr>ld_fs = fs, ld_kubeletFile = kubeletFile\<rparr>)"

text \<open>The loading of a file is that of a new loader on the file system of the process.\<close>

lemma loadConfigFile_loader:
  assumes "Abs_path (pl_Getwd P) name = Inr p"
  shows "loadConfigFile P name s =
    (case NewFsLoader P (DefaultFs []) p of
       Inl err \<Rightarrow> (Inl (load_error P name err), s)
     | Inr l \<Rightarrow>
         (case Load P (ld_fs l) (ld_kubeletFile l) s of
            (Inl err, s') \<Rightarrow> (Inl (load_error P name err), s')
          | (Inr kc, s') \<Rightarrow> (Inr kc, s')))"
  using assms by (simp add: loadConfigFile_def NewFsLoader_def split: option.splits)

section \<open>Encoding\<close>

text \<open>
  The library: the media types there are serialisers for, and the encoder of one for a version; the text of a
  configuration in a version, or an error.
\<close>

record codec_lib =
  kl_SupportedMediaTypes :: "string list"
  kl_EncoderForVersion :: "string \<Rightarrow> string \<times> string \<Rightarrow> SlurmVirtualKubeletConfiguration \<Rightarrow> string result"

definition NewKubeletconfigYAMLEncoder ::
    "process_lib \<Rightarrow> codec_lib \<Rightarrow> string \<times> string \<Rightarrow> (SlurmVirtualKubeletConfiguration \<Rightarrow> string result) result" where
  "NewKubeletconfigYAMLEncoder P K targetVersion =
     (case pl_NewSchemeAndCodecs P of
        Some err \<Rightarrow> Inl err
      | None \<Rightarrow>
          (let mediaType = ''application/yaml'' in
           if mediaType \<notin> set (kl_SupportedMediaTypes K)
           then Inl (ErrorString (''unsupported media type '' @ go_quote mediaType))
           else Inr (kl_EncoderForVersion K mediaType targetVersion)))"

definition EncodeKubeletConfig ::
    "process_lib \<Rightarrow> codec_lib \<Rightarrow> SlurmVirtualKubeletConfiguration \<Rightarrow> string \<times> string \<Rightarrow> string result" where
  "EncodeKubeletConfig P K internal targetVersion =
     (case NewKubeletconfigYAMLEncoder P K targetVersion of
        Inl err \<Rightarrow> Inl err
      | Inr encoder \<Rightarrow> (case encoder internal of Inl err \<Rightarrow> Inl err | Inr data \<Rightarrow> Inr data))"

text \<open>
  A configuration that was written to a file and is read back is the one that was written, with its relative paths
  taken from the directory of the file; this uses that decoding undoes encoding.
\<close>

lemma encoded_file_loads:
  assumes "EncodeKubeletConfig P K kc gv = Inr data" and "data \<noteq> []"
    and "\<And>d. kl_EncoderForVersion K ''application/yaml'' gv kc = Inr d \<Longrightarrow> pl_Decode P d = Inr (Some kc)"
    and "fs_ReadFile fs p s = (Inr data, s')"
  shows "Load P fs p s = (Inr (resolveRelativePaths (filepath_Dir p) kc), s')"
proof -
  have "kl_EncoderForVersion K ''application/yaml'' gv kc = Inr data"
    using assms(1)
    by (simp add: EncodeKubeletConfig_def NewKubeletconfigYAMLEncoder_def Let_def split: option.splits if_splits sum.splits)
  then have "DecodeKubeletConfiguration P data = Inr kc"
    using assms(3) by (simp add: DecodeKubeletConfiguration_def)
  then show ?thesis using assms(2,4) by (simp add: Load_def)
qed

section \<open>The copied package\<close>

definition copied_NewKubeletconfigYAMLEncoder ::
    "process_lib \<Rightarrow> codec_lib \<Rightarrow> string \<times> string \<Rightarrow> (SlurmVirtualKubeletConfiguration \<Rightarrow> string result) result" where
  "copied_NewKubeletconfigYAMLEncoder P K targetVersion =
     (case pl_NewSchemeAndCodecs P of
        Some err \<Rightarrow> Inl err
      | None \<Rightarrow>
          (let mediaType = ''application/yaml'' in
           if mediaType \<in> set (kl_SupportedMediaTypes K) then Inr (kl_EncoderForVersion K mediaType targetVersion)
           else Inl (ErrorString (''unsupported media type '' @ go_quote mediaType))))"

definition copied_EncodeKubeletConfig ::
    "process_lib \<Rightarrow> codec_lib \<Rightarrow> SlurmVirtualKubeletConfiguration \<Rightarrow> string \<times> string \<Rightarrow> string result" where
  "copied_EncodeKubeletConfig P K internal targetVersion =
     (case copied_NewKubeletconfigYAMLEncoder P K targetVersion of Inl err \<Rightarrow> Inl err | Inr encoder \<Rightarrow> encoder internal)"

text \<open>The object a decoder gave, cast to a configuration.\<close>

definition copied_cast :: "process_lib \<Rightarrow> string \<Rightarrow> SlurmVirtualKubeletConfiguration option \<Rightarrow> SlurmVirtualKubeletConfiguration result" where
  "copied_cast P data obj =
     (case obj of
        None \<Rightarrow> Inl (ErrorString (''failed to cast object to KubeletConfiguration, unexpected type: '' @ pl_kind P data))
      | Some internalKC \<Rightarrow> Inr internalKC)"

definition copied_DecodeKubeletConfiguration :: "process_lib \<Rightarrow> string \<Rightarrow> SlurmVirtualKubeletConfiguration result" where
  "copied_DecodeKubeletConfiguration P data =
     (case pl_Decode P data of
        Inr obj \<Rightarrow> copied_cast P data obj
      | Inl err \<Rightarrow>
          (if pl_IsStrictDecodingError P err then
             (case pl_NewLenientSchemeAndCodecs P of
                Some lenientErr \<Rightarrow> Inl lenientErr
              | None \<Rightarrow>
                  (case pl_LenientDecode P data of
                     Inr obj \<Rightarrow> copied_cast P data obj
                   | Inl lenientErr \<Rightarrow> Inl (ErrorString (''failed lenient decoding: '' @ pl_text P err))))
           else Inl (Wrap ''failed to decode'' err)))"

lemma copied_package_agrees:
  "copied_EncodeKubeletConfig P K kc gv = EncodeKubeletConfig P K kc gv"
  "copied_DecodeKubeletConfiguration P data = DecodeKubeletConfiguration P data"
  by (auto simp: copied_EncodeKubeletConfig_def EncodeKubeletConfig_def copied_NewKubeletconfigYAMLEncoder_def
      NewKubeletconfigYAMLEncoder_def copied_DecodeKubeletConfiguration_def DecodeKubeletConfiguration_def
      copied_cast_def Let_def split: option.splits sum.splits)

section \<open>Permissions\<close>

definition checkPermissions :: "int64 \<Rightarrow> go_error option" where
  "checkPermissions uid =
     (if uid \<noteq> 0 then Some (ErrorString (''kubelet needs to run as uid `0`. It is being run as '' @ FormatInt64 uid)) else None)"

end
