(* ===== verification/GlobalFlags.thy ===== *)
theory GlobalFlags
  imports GoStrings
begin

text \<open>
  The global flags of the kubelet (\<^verbatim>\<open>globalflags.go\<close>, \<^verbatim>\<open>globalflags_linux.go\<close>): flags that the libraries of the
  process registered with Go's \<^verbatim>\<open>flag\<close> package under some name are put into the kubelet's own flag set under the
  name with dashes, most of them deprecated. A flag set is a list of flags by name; the flags of the
  version and of logging come from apimachinery and are a parameter.
\<close>

record pflag =
  pf_Name :: string
  pf_Usage :: string
  pf_Deprecated :: string

type_synonym flag_set = "(string \<times> pflag) list"

text \<open>\<^verbatim>\<open>AddFlag\<close> panics when the name is taken; \<^verbatim>\<open>AddFlagSet\<close> only adds what is not there.\<close>

definition AddFlag :: "pflag \<Rightarrow> flag_set \<Rightarrow> flag_set outcome" where
  "AddFlag f fs =
     (if pf_Name f \<in> fst ` set fs then Panic (PanicMessage (''flag redefined: '' @ pf_Name f))
      else Value (fs @ [(pf_Name f, f)]))"

fun AddFlagSet :: "flag_set \<Rightarrow> flag_set \<Rightarrow> flag_set" where
  "AddFlagSet [] fs = fs"
| "AddFlagSet ((n, f) # r) fs = AddFlagSet r (if n \<in> fst ` set fs then fs else fs @ [(n, f)])"

text \<open>\<^verbatim>\<open>strings.Replace\<close> of one byte by another.\<close>

definition normalize :: "string \<Rightarrow> string" where
  "normalize s = map (\<lambda>c. if c = CHR ''_'' then CHR ''-'' else c) s"

text \<open>The flags registered globally, by name: their usage.\<close>

definition register :: "(string \<rightharpoonup> string) \<Rightarrow> string \<Rightarrow> flag_set \<Rightarrow> flag_set outcome" where
  "register global globalName fs =
     (case global globalName of
        Some usage \<Rightarrow> AddFlag \<lparr>pf_Name = normalize globalName, pf_Usage = usage, pf_Deprecated = []\<rparr> fs
      | None \<Rightarrow> Panic (PanicMessage (''failed to find flag in global flagset (flag): '' @ globalName)))"

definition set_deprecated :: "string \<Rightarrow> string \<Rightarrow> flag_set \<Rightarrow> flag_set" where
  "set_deprecated name d fs = map (\<lambda>(n, f). (n, if n = name then f\<lparr>pf_Deprecated := d\<rparr> else f)) fs"

definition registerDeprecated :: "(string \<rightharpoonup> string) \<Rightarrow> string \<Rightarrow> string \<Rightarrow> flag_set \<Rightarrow> flag_set outcome" where
  "registerDeprecated global globalName d fs =
     (case register global globalName fs of
        Panic p \<Rightarrow> Panic p
      | Error err \<Rightarrow> Error err
      | Value fs' \<Rightarrow> Value (set_deprecated (normalize globalName) d fs'))"

definition addCredentialProviderFlags :: "flag_set \<Rightarrow> flag_set" where
  "addCredentialProviderFlags fs = AddFlagSet [] fs"

definition cadvisor_deprecated :: string where
  "cadvisor_deprecated = ''This is a cadvisor flag that was mistakenly registered with the Kubelet. Due to legacy concerns, it will follow the standard CLI deprecation timeline before being removed.''"

definition cadvisor_flags :: "string list" where
  "cadvisor_flags =
     [''application_metrics_count_limit'', ''boot_id_file'', ''container_hints'', ''containerd'', ''enable_load_reader'',
      ''event_storage_age_limit'', ''event_storage_event_limit'', ''global_housekeeping_interval'', ''log_cadvisor_usage'',
      ''machine_id_file'', ''storage_driver_user'', ''storage_driver_password'', ''storage_driver_host'',
      ''storage_driver_db'', ''storage_driver_table'', ''storage_driver_secure'', ''storage_driver_buffer_duration'',
      ''containerd-namespace'']"

fun register_all :: "(string \<rightharpoonup> string) \<Rightarrow> string \<Rightarrow> string list \<Rightarrow> flag_set \<Rightarrow> flag_set outcome" where
  "register_all global d [] fs = Value fs"
| "register_all global d (n # r) fs =
     (case registerDeprecated global n d fs of
        Panic p \<Rightarrow> Panic p
      | Error err \<Rightarrow> Error err
      | Value fs' \<Rightarrow> register_all global d r fs')"

definition addCadvisorFlags :: "(string \<rightharpoonup> string) \<Rightarrow> flag_set \<Rightarrow> flag_set outcome" where
  "addCadvisorFlags global fs =
     (case register global ''housekeeping_interval'' [] of
        Panic p \<Rightarrow> Panic p
      | Error err \<Rightarrow> Error err
      | Value l \<Rightarrow>
          (case register_all global cadvisor_deprecated cadvisor_flags l of
             Panic p \<Rightarrow> Panic p
           | Error err \<Rightarrow> Error err
           | Value l' \<Rightarrow> Value (AddFlagSet l' fs)))"

text \<open>Elsewhere than on Linux there are none.\<close>

definition addCadvisorFlags_other :: "flag_set \<Rightarrow> flag_set outcome" where
  "addCadvisorFlags_other fs = Value fs"

definition options_AddGlobalFlags ::
    "(string \<rightharpoonup> string) \<Rightarrow> (flag_set \<Rightarrow> flag_set) \<Rightarrow> (flag_set \<Rightarrow> flag_set) \<Rightarrow> flag_set \<Rightarrow> flag_set outcome" where
  "options_AddGlobalFlags global verflag_AddFlags logs_AddFlags fs =
     (case addCadvisorFlags global fs of
        Panic p \<Rightarrow> Panic p
      | Error err \<Rightarrow> Error err
      | Value fs' \<Rightarrow> Value (logs_AddFlags (verflag_AddFlags (addCredentialProviderFlags fs'))))"

section \<open>What is registered\<close>

lemma AddFlagSet_names: "fst ` set (AddFlagSet l fs) = fst ` set l \<union> fst ` set fs"
  by (induction l fs rule: AddFlagSet.induct) auto

lemma set_deprecated_names [simp]: "map fst (set_deprecated n d fs) = map fst fs"
  by (induction fs) (auto simp: set_deprecated_def)

lemma register_value:
  assumes "global n = Some u" and "normalize n \<notin> fst ` set fs"
  shows "register global n fs = Value (fs @ [(normalize n, \<lparr>pf_Name = normalize n, pf_Usage = u, pf_Deprecated = []\<rparr>)])"
  using assms by (simp add: register_def AddFlag_def)

lemma set_deprecated_absent: "n \<notin> fst ` set fs \<Longrightarrow> set_deprecated n d fs = fs"
  by (induction fs) (auto simp: set_deprecated_def)

lemma registerDeprecated_value:
  assumes "global n = Some u" and "normalize n \<notin> fst ` set fs"
  shows "registerDeprecated global n d fs =
     Value (fs @ [(normalize n, \<lparr>pf_Name = normalize n, pf_Usage = u, pf_Deprecated = d\<rparr>)])"
proof -
  have "set_deprecated (normalize n) d (fs @ [(normalize n, f)]) = fs @ [(normalize n, f\<lparr>pf_Deprecated := d\<rparr>)]" for f
    using set_deprecated_absent [OF assms(2), of d] by (simp add: set_deprecated_def)
  then show ?thesis using register_value [of global n u fs] assms by (simp add: registerDeprecated_def)
qed

definition deprecated_flag :: "(string \<rightharpoonup> string) \<Rightarrow> string \<Rightarrow> string \<Rightarrow> string \<times> pflag" where
  "deprecated_flag global d n = (normalize n, \<lparr>pf_Name = normalize n, pf_Usage = the (global n), pf_Deprecated = d\<rparr>)"

lemma register_all_value:
  assumes "set ns \<subseteq> dom global" and "distinct (map fst fs @ map normalize ns)"
  shows "register_all global d ns fs = Value (fs @ map (deprecated_flag global d) ns)"
  using assms
proof (induction ns arbitrary: fs)
  case (Cons n ns)
  then obtain u where u: "global n = Some u" by auto
  have "normalize n \<notin> fst ` set fs" using Cons.prems(2) by auto
  then show ?case
    using Cons.IH [of "fs @ [deprecated_flag global d n]"] Cons.prems u
    by (auto simp: registerDeprecated_value deprecated_flag_def)
qed simp

text \<open>A flag that no library registered ends the process with a panic.\<close>

lemma register_all_missing: "\<not> set ns \<subseteq> dom global \<Longrightarrow> \<exists>p. register_all global d ns fs = Panic p"
proof (induction ns arbitrary: fs)
  case (Cons n ns)
  show ?case
  proof (cases "global n")
    case None
    then show ?thesis by (simp add: registerDeprecated_def register_def)
  next
    case (Some u)
    then show ?thesis
      using Cons by (cases "registerDeprecated global n d fs") (auto simp: registerDeprecated_def register_def AddFlag_def split: if_splits)
  qed
qed simp

text \<open>
  The kubelet gets the flags of cadvisor exactly when all of them are registered in the process: then each
  is in its flag set under the name with dashes, next to what was there; otherwise it panics at start.
\<close>

lemma cadvisor_names: "distinct (map normalize (''housekeeping_interval'' # cadvisor_flags))"
  by code_simp

lemma addCadvisorFlags_iff:
  "(\<exists>fs'. addCadvisorFlags global fs = Value fs' \<and>
      fst ` set fs' = normalize ` set (''housekeeping_interval'' # cadvisor_flags) \<union> fst ` set fs) \<longleftrightarrow>
   set (''housekeeping_interval'' # cadvisor_flags) \<subseteq> dom global"
proof (cases "global ''housekeeping_interval''")
  case None
  then show ?thesis by (auto simp: addCadvisorFlags_def register_def)
next
  case (Some u)
  let ?h = "(normalize ''housekeeping_interval'', \<lparr>pf_Name = normalize ''housekeeping_interval'', pf_Usage = u, pf_Deprecated = []\<rparr>)"
  have reg: "register global ''housekeeping_interval'' [] = Value [?h]"
    using register_value [of global "''housekeeping_interval''" u "[]"] Some by simp
  show ?thesis
  proof (cases "set cadvisor_flags \<subseteq> dom global")
    case True
    have "register_all global cadvisor_deprecated cadvisor_flags [?h] =
        Value ([?h] @ map (deprecated_flag global cadvisor_deprecated) cadvisor_flags)"
      using register_all_value [OF True, of "[?h]"] cadvisor_names by simp
    then have "addCadvisorFlags global fs =
        Value (AddFlagSet (?h # map (deprecated_flag global cadvisor_deprecated) cadvisor_flags) fs)"
      by (simp add: addCadvisorFlags_def reg)
    moreover have "fst ` set (map (deprecated_flag global cadvisor_deprecated) cadvisor_flags) = normalize ` set cadvisor_flags"
      by (auto simp: deprecated_flag_def image_iff)
    ultimately show ?thesis using True Some by (simp only: AddFlagSet_names) (auto simp: AddFlagSet_names)
  next
    case False
    then show ?thesis
      using register_all_missing [OF False, of cadvisor_deprecated "[?h]"] by (auto simp: addCadvisorFlags_def reg)
  qed
qed

end
