(* ===== verification/DeepCopy.thy ===== *)
theory DeepCopy
  imports VKOptions
begin

text \<open>
  The deep copies of the API types (\<^verbatim>\<open>apis/kubecluster.org/v1alpha1/zz_generated.deepcopy.go\<close>). The
  reconciler works on such a copy of the job it reads from a cache that others share, and keeps another
  copy of its status, so it matters what a copy shares with its original. Memory is a list of
  cells, an address its position; allocation appends. A struct is its fields that are no pointers, as in the
  records of the other theories (where the fields that are pointers here hold the values, and are not used
  here), with its pointers: nil maps and slices are nil pointers. Object metadata and volumes
  are copied by the library and are values.
\<close>

section \<open>Memory\<close>

type_synonym addr = nat

record SubjobMem =
  um_fields :: SlurmSubjobStatus
  um_SubmitTime :: "addr option"
  um_StartTime :: "addr option"

record SpecMem =
  pm_fields :: SlurmBridgeJobSpec
  pm_RunAsUser :: "addr option"
  pm_RunAsGroup :: "addr option"
  pm_Result :: "addr option"

record StatusMem =
  tm_fields :: SlurmBridgeJobStatus
  tm_SubjobStatus :: "addr option"

record JobMem =
  jm_TypeMeta :: "string \<times> string"
  jm_Meta :: ObjectMeta
  jm_Spec :: SpecMem
  jm_Status :: StatusMem

record JobListMem =
  lm_TypeMeta :: "string \<times> string"
  lm_ListMeta :: string
  lm_Items :: "addr option"

record ConfigMem =
  cm_TypeMeta :: "string \<times> string"
  cm_ListMeta :: string
  cm_fields :: SlurmVirtualKubeletConfiguration
  cm_StaticPodURLHeader :: "addr option"
  cm_TLSCipherSuites :: "addr option"

datatype cell =
    IntCell int64
  | TimeCell go_time
  | ResultCell string
  | StringsCell "string list"
  | SubjobCell SubjobMem
  | SubjobMapCell "(string \<times> addr option) list"
  | HeaderCell "(string \<times> addr option) list"
  | ItemsCell "JobMem list"
  | ResourcesCell JobResources
  | SpecCell SpecMem
  | StatusCell StatusMem
  | JobCell JobMem
  | JobListCell JobListMem
  | ConfigCell ConfigMem

type_synonym memory = "cell list"

section \<open>Copying\<close>

text \<open>
  A nil pointer is copied to nil; otherwise what it points to is copied to a new cell. With the copy of
  the cell's contents as \<open>f\<close> this is each method \<^verbatim>\<open>DeepCopy\<close>, and the copying of each pointer field.
\<close>

definition DeepCopy :: "(cell \<Rightarrow> memory \<Rightarrow> cell \<times> memory) \<Rightarrow> addr option \<Rightarrow> memory \<Rightarrow> addr option \<times> memory" where
  "DeepCopy f in0 h =
     (case in0 of
        None \<Rightarrow> (None, h)
      | Some a \<Rightarrow> (case f (h ! a) h of (c, h1) \<Rightarrow> (Some (length h1), h1 @ [c])))"

definition copy_plain :: "cell \<Rightarrow> memory \<Rightarrow> cell \<times> memory" where
  "copy_plain c h = (c, h)"

fun copy_entries ::
    "(cell \<Rightarrow> memory \<Rightarrow> cell \<times> memory) \<Rightarrow> (string \<times> addr option) list \<Rightarrow> memory \<Rightarrow>
     (string \<times> addr option) list \<times> memory" where
  "copy_entries f [] h = ([], h)"
| "copy_entries f ((k, val) # r) h =
     (case DeepCopy f val h of
        (outVal, h1) \<Rightarrow> (case copy_entries f r h1 of (out, h2) \<Rightarrow> ((k, outVal) # out, h2)))"

definition SlurmSubjobStatus_DeepCopyInto :: "SubjobMem \<Rightarrow> memory \<Rightarrow> SubjobMem \<times> memory" where
  "SlurmSubjobStatus_DeepCopyInto in0 h =
     (case DeepCopy copy_plain (um_SubmitTime in0) h of
        (t1, h1) \<Rightarrow>
          (case DeepCopy copy_plain (um_StartTime in0) h1 of
             (t2, h2) \<Rightarrow> (in0\<lparr>um_SubmitTime := t1, um_StartTime := t2\<rparr>, h2)))"

fun copy_subjob :: "cell \<Rightarrow> memory \<Rightarrow> cell \<times> memory" where
  "copy_subjob (SubjobCell s) h = (case SlurmSubjobStatus_DeepCopyInto s h of (s', h') \<Rightarrow> (SubjobCell s', h'))"
| "copy_subjob c h = (c, h)"

fun copy_subjob_map :: "cell \<Rightarrow> memory \<Rightarrow> cell \<times> memory" where
  "copy_subjob_map (SubjobMapCell m) h = (case copy_entries copy_subjob m h of (m', h') \<Rightarrow> (SubjobMapCell m', h'))"
| "copy_subjob_map c h = (c, h)"

definition SlurmBridgeJobStatus_DeepCopyInto :: "StatusMem \<Rightarrow> memory \<Rightarrow> StatusMem \<times> memory" where
  "SlurmBridgeJobStatus_DeepCopyInto in0 h =
     (case DeepCopy copy_subjob_map (tm_SubjobStatus in0) h of
        (m, h1) \<Rightarrow> (in0\<lparr>tm_SubjobStatus := m\<rparr>, h1))"

definition SlurmBridgeJobSpec_DeepCopyInto :: "SpecMem \<Rightarrow> memory \<Rightarrow> SpecMem \<times> memory" where
  "SlurmBridgeJobSpec_DeepCopyInto in0 h =
     (case DeepCopy copy_plain (pm_RunAsUser in0) h of
        (u, h1) \<Rightarrow>
          (case DeepCopy copy_plain (pm_RunAsGroup in0) h1 of
             (g, h2) \<Rightarrow>
               (case DeepCopy copy_plain (pm_Result in0) h2 of
                  (r, h3) \<Rightarrow> (in0\<lparr>pm_RunAsUser := u, pm_RunAsGroup := g, pm_Result := r\<rparr>, h3))))"

definition SlurmBridgeJob_DeepCopyInto :: "JobMem \<Rightarrow> memory \<Rightarrow> JobMem \<times> memory" where
  "SlurmBridgeJob_DeepCopyInto in0 h =
     (case SlurmBridgeJobSpec_DeepCopyInto (jm_Spec in0) h of
        (spec, h1) \<Rightarrow>
          (case SlurmBridgeJobStatus_DeepCopyInto (jm_Status in0) h1 of
             (status, h2) \<Rightarrow> (in0\<lparr>jm_Spec := spec, jm_Status := status\<rparr>, h2)))"

fun copy_jobs :: "JobMem list \<Rightarrow> memory \<Rightarrow> JobMem list \<times> memory" where
  "copy_jobs [] h = ([], h)"
| "copy_jobs (j # r) h =
     (case SlurmBridgeJob_DeepCopyInto j h of
        (j', h1) \<Rightarrow> (case copy_jobs r h1 of (r', h2) \<Rightarrow> (j' # r', h2)))"

fun copy_items :: "cell \<Rightarrow> memory \<Rightarrow> cell \<times> memory" where
  "copy_items (ItemsCell js) h = (case copy_jobs js h of (js', h') \<Rightarrow> (ItemsCell js', h'))"
| "copy_items c h = (c, h)"

definition SlurmBridgeJobList_DeepCopyInto :: "JobListMem \<Rightarrow> memory \<Rightarrow> JobListMem \<times> memory" where
  "SlurmBridgeJobList_DeepCopyInto in0 h =
     (case DeepCopy copy_items (lm_Items in0) h of (items, h1) \<Rightarrow> (in0\<lparr>lm_Items := items\<rparr>, h1))"

fun copy_header :: "cell \<Rightarrow> memory \<Rightarrow> cell \<times> memory" where
  "copy_header (HeaderCell m) h = (case copy_entries copy_plain m h of (m', h') \<Rightarrow> (HeaderCell m', h'))"
| "copy_header c h = (c, h)"

definition SlurmVirtualKubeletConfiguration_DeepCopyInto :: "ConfigMem \<Rightarrow> memory \<Rightarrow> ConfigMem \<times> memory" where
  "SlurmVirtualKubeletConfiguration_DeepCopyInto in0 h =
     (case DeepCopy copy_header (cm_StaticPodURLHeader in0) h of
        (hd', h1) \<Rightarrow>
          (case DeepCopy copy_plain (cm_TLSCipherSuites in0) h1 of
             (cs, h2) \<Rightarrow> (in0\<lparr>cm_StaticPodURLHeader := hd', cm_TLSCipherSuites := cs\<rparr>, h2)))"

text \<open>The contents of a cell by its type.\<close>

fun DeepCopyInto :: "cell \<Rightarrow> memory \<Rightarrow> cell \<times> memory" where
  "DeepCopyInto (SpecCell s) h = (case SlurmBridgeJobSpec_DeepCopyInto s h of (s', h') \<Rightarrow> (SpecCell s', h'))"
| "DeepCopyInto (StatusCell s) h = (case SlurmBridgeJobStatus_DeepCopyInto s h of (s', h') \<Rightarrow> (StatusCell s', h'))"
| "DeepCopyInto (JobCell j) h = (case SlurmBridgeJob_DeepCopyInto j h of (j', h') \<Rightarrow> (JobCell j', h'))"
| "DeepCopyInto (JobListCell l) h = (case SlurmBridgeJobList_DeepCopyInto l h of (l', h') \<Rightarrow> (JobListCell l', h'))"
| "DeepCopyInto (ConfigCell c) h =
     (case SlurmVirtualKubeletConfiguration_DeepCopyInto c h of (c', h') \<Rightarrow> (ConfigCell c', h'))"
| "DeepCopyInto (SubjobCell s) h = (case SlurmSubjobStatus_DeepCopyInto s h of (s', h') \<Rightarrow> (SubjobCell s', h'))"
| "DeepCopyInto c h = (c, h)"

text \<open>The methods of the types. \<^verbatim>\<open>DeepCopyObject\<close> gives an object or the nil interface.\<close>

definition JobResult_DeepCopy :: "addr option \<Rightarrow> memory \<Rightarrow> addr option \<times> memory" where
  "JobResult_DeepCopy = DeepCopy DeepCopyInto"

definition Resources_DeepCopy :: "addr option \<Rightarrow> memory \<Rightarrow> addr option \<times> memory" where
  "Resources_DeepCopy = DeepCopy DeepCopyInto"

definition SlurmBridgeJob_DeepCopy :: "addr option \<Rightarrow> memory \<Rightarrow> addr option \<times> memory" where
  "SlurmBridgeJob_DeepCopy = DeepCopy DeepCopyInto"

definition SlurmBridgeJobList_DeepCopy :: "addr option \<Rightarrow> memory \<Rightarrow> addr option \<times> memory" where
  "SlurmBridgeJobList_DeepCopy = DeepCopy DeepCopyInto"

definition SlurmBridgeJobSpec_DeepCopy :: "addr option \<Rightarrow> memory \<Rightarrow> addr option \<times> memory" where
  "SlurmBridgeJobSpec_DeepCopy = DeepCopy DeepCopyInto"

definition SlurmBridgeJobStatus_DeepCopy :: "addr option \<Rightarrow> memory \<Rightarrow> addr option \<times> memory" where
  "SlurmBridgeJobStatus_DeepCopy = DeepCopy DeepCopyInto"

definition SlurmSubjobStatus_DeepCopy :: "addr option \<Rightarrow> memory \<Rightarrow> addr option \<times> memory" where
  "SlurmSubjobStatus_DeepCopy = DeepCopy DeepCopyInto"

definition SlurmVirtualKubeletConfiguration_DeepCopy :: "addr option \<Rightarrow> memory \<Rightarrow> addr option \<times> memory" where
  "SlurmVirtualKubeletConfiguration_DeepCopy = DeepCopy DeepCopyInto"

definition SlurmBridgeJob_DeepCopyObject :: "addr option \<Rightarrow> memory \<Rightarrow> addr option \<times> memory" where
  "SlurmBridgeJob_DeepCopyObject p h =
     (case SlurmBridgeJob_DeepCopy p h of (Some c, h') \<Rightarrow> (Some c, h') | (None, h') \<Rightarrow> (None, h'))"

definition SlurmBridgeJobList_DeepCopyObject :: "addr option \<Rightarrow> memory \<Rightarrow> addr option \<times> memory" where
  "SlurmBridgeJobList_DeepCopyObject p h =
     (case SlurmBridgeJobList_DeepCopy p h of (Some c, h') \<Rightarrow> (Some c, h') | (None, h') \<Rightarrow> (None, h'))"

definition SlurmVirtualKubeletConfiguration_DeepCopyObject :: "addr option \<Rightarrow> memory \<Rightarrow> addr option \<times> memory" where
  "SlurmVirtualKubeletConfiguration_DeepCopyObject p h =
     (case SlurmVirtualKubeletConfiguration_DeepCopy p h of (Some c, h') \<Rightarrow> (Some c, h') | (None, h') \<Rightarrow> (None, h'))"

lemmas api_copies =
  JobResult_DeepCopy_def Resources_DeepCopy_def SlurmBridgeJob_DeepCopy_def SlurmBridgeJobList_DeepCopy_def
  SlurmBridgeJobSpec_DeepCopy_def SlurmBridgeJobStatus_DeepCopy_def SlurmSubjobStatus_DeepCopy_def
  SlurmVirtualKubeletConfiguration_DeepCopy_def

lemma DeepCopyObject_copies:
  "SlurmBridgeJob_DeepCopyObject p h = DeepCopy DeepCopyInto p h"
  "SlurmBridgeJobList_DeepCopyObject p h = DeepCopy DeepCopyInto p h"
  "SlurmVirtualKubeletConfiguration_DeepCopyObject p h = DeepCopy DeepCopyInto p h"
  by (simp_all add: SlurmBridgeJob_DeepCopyObject_def SlurmBridgeJobList_DeepCopyObject_def
      SlurmVirtualKubeletConfiguration_DeepCopyObject_def api_copies split: prod.splits option.splits)

section \<open>Values and what they reach\<close>

text \<open>
  Every pointer has the kind of cell it points to. The value of an object, as a deep comparison sees it,
  is its fields without the pointers and the values behind its pointers, to a depth \<open>n\<close> (no object of these
  types is deeper than four).
\<close>

datatype kind =
    IntK | TimeK | ResultK | StringsK | SubjobK | SubjobMapK | HeaderK | ItemsK | ResourcesK | SpecK
  | StatusK | JobK | JobListK | ConfigK

fun kind_of :: "cell \<Rightarrow> kind" where
  "kind_of (IntCell x) = IntK"
| "kind_of (TimeCell t) = TimeK"
| "kind_of (ResultCell r) = ResultK"
| "kind_of (StringsCell s) = StringsK"
| "kind_of (SubjobCell s) = SubjobK"
| "kind_of (SubjobMapCell m) = SubjobMapK"
| "kind_of (HeaderCell m) = HeaderK"
| "kind_of (ItemsCell js) = ItemsK"
| "kind_of (ResourcesCell r) = ResourcesK"
| "kind_of (SpecCell s) = SpecK"
| "kind_of (StatusCell s) = StatusK"
| "kind_of (JobCell j) = JobK"
| "kind_of (JobListCell l) = JobListK"
| "kind_of (ConfigCell c) = ConfigK"

type_synonym pointers = "(kind \<times> addr option) list"

definition spec_ptrs :: "SpecMem \<Rightarrow> pointers" where
  "spec_ptrs s = [(IntK, pm_RunAsUser s), (IntK, pm_RunAsGroup s), (ResultK, pm_Result s)]"

definition status_ptrs :: "StatusMem \<Rightarrow> pointers" where
  "status_ptrs s = [(SubjobMapK, tm_SubjobStatus s)]"

definition job_ptrs :: "JobMem \<Rightarrow> pointers" where
  "job_ptrs j = spec_ptrs (jm_Spec j) @ status_ptrs (jm_Status j)"

fun cell_ptrs :: "cell \<Rightarrow> pointers" where
  "cell_ptrs (SubjobCell s) = [(TimeK, um_SubmitTime s), (TimeK, um_StartTime s)]"
| "cell_ptrs (SubjobMapCell m) = map (\<lambda>(k, p). (SubjobK, p)) m"
| "cell_ptrs (HeaderCell m) = map (\<lambda>(k, p). (StringsK, p)) m"
| "cell_ptrs (ItemsCell js) = concat (map job_ptrs js)"
| "cell_ptrs (SpecCell s) = spec_ptrs s"
| "cell_ptrs (StatusCell s) = status_ptrs s"
| "cell_ptrs (JobCell j) = job_ptrs j"
| "cell_ptrs (JobListCell l) = [(ItemsK, lm_Items l)]"
| "cell_ptrs (ConfigCell c) = [(HeaderK, cm_StaticPodURLHeader c), (StringsK, cm_TLSCipherSuites c)]"
| "cell_ptrs c = []"

definition strip_spec :: "SpecMem \<Rightarrow> SpecMem" where
  "strip_spec s = s\<lparr>pm_RunAsUser := None, pm_RunAsGroup := None, pm_Result := None\<rparr>"

definition strip_status :: "StatusMem \<Rightarrow> StatusMem" where
  "strip_status s = s\<lparr>tm_SubjobStatus := None\<rparr>"

definition strip_job :: "JobMem \<Rightarrow> JobMem" where
  "strip_job j = j\<lparr>jm_Spec := strip_spec (jm_Spec j), jm_Status := strip_status (jm_Status j)\<rparr>"

fun strip :: "cell \<Rightarrow> cell" where
  "strip (SubjobCell s) = SubjobCell (s\<lparr>um_SubmitTime := None, um_StartTime := None\<rparr>)"
| "strip (SubjobMapCell m) = SubjobMapCell (map (\<lambda>(k, p). (k, None)) m)"
| "strip (HeaderCell m) = HeaderCell (map (\<lambda>(k, p). (k, None)) m)"
| "strip (ItemsCell js) = ItemsCell (map strip_job js)"
| "strip (SpecCell s) = SpecCell (strip_spec s)"
| "strip (StatusCell s) = StatusCell (strip_status s)"
| "strip (JobCell j) = JobCell (strip_job j)"
| "strip (JobListCell l) = JobListCell (l\<lparr>lm_Items := None\<rparr>)"
| "strip (ConfigCell c) = ConfigCell (c\<lparr>cm_StaticPodURLHeader := None, cm_TLSCipherSuites := None\<rparr>)"
| "strip c = c"

datatype deep = Deep cell "deep option list"

fun ptr_values :: "nat \<Rightarrow> memory \<Rightarrow> pointers \<Rightarrow> deep option list" where
  "ptr_values 0 h ps = []"
| "ptr_values (Suc n) h ps =
     map (\<lambda>(k, p). map_option (\<lambda>a. Deep (strip (h ! a)) (ptr_values n h (cell_ptrs (h ! a)))) p) ps"

text \<open>Pointers that lead to cells of their kinds, and the addresses they lead to.\<close>

fun ptrs_valid :: "nat \<Rightarrow> memory \<Rightarrow> pointers \<Rightarrow> bool" where
  "ptrs_valid 0 h ps = True"
| "ptrs_valid (Suc n) h ps =
     list_all (\<lambda>(k, p). case p of None \<Rightarrow> True
       | Some a \<Rightarrow> a < length h \<and> kind_of (h ! a) = k \<and> ptrs_valid n h (cell_ptrs (h ! a))) ps"

fun ptr_reach :: "nat \<Rightarrow> memory \<Rightarrow> pointers \<Rightarrow> addr set" where
  "ptr_reach 0 h ps = {}"
| "ptr_reach (Suc n) h ps =
     (\<Union>(k, p) \<in> set ps. case p of None \<Rightarrow> {}
        | Some a \<Rightarrow> insert a (ptr_reach n h (cell_ptrs (h ! a))))"

lemma ptrs_append [simp]:
  "ptr_values n h (ps @ qs) = ptr_values n h ps @ ptr_values n h qs"
  "ptrs_valid n h (ps @ qs) \<longleftrightarrow> ptrs_valid n h ps \<and> ptrs_valid n h qs"
  "ptr_reach n h (ps @ qs) = ptr_reach n h ps \<union> ptr_reach n h qs"
  by (cases n; simp)+

lemma ptrs_Nil [simp]: "ptr_values n h [] = []" "ptrs_valid n h []" "ptr_reach n h [] = {}"
  by (cases n; simp)+

lemma ptrs_None [simp]: "ptrs_valid n h [(k, None)]" "ptr_reach n h [(k, None)] = {}"
  by (cases n; simp)+

text \<open>What is allocated later does not matter to pointers that are valid now.\<close>

lemma ptrs_frame:
  "ptrs_valid n h ps \<Longrightarrow> ptrs_valid n (h @ cs) ps \<and> ptr_values n (h @ cs) ps = ptr_values n h ps \<and>
     ptr_reach n (h @ cs) ps = ptr_reach n h ps \<and> ptr_reach n h ps \<subseteq> {..<length h}"
proof (induction n arbitrary: ps)
  case (Suc n)
  show ?case using Suc.prems
  proof (induction ps)
    case (Cons q ps)
    obtain k p where q: "q = (k, p)" by (cases q)
    show ?case
    proof (cases p)
      case (Some a)
      then have "ptrs_valid n h (cell_ptrs (h ! a))" "a < length h" using Cons.prems q by auto
      then show ?thesis using Suc.IH [of "cell_ptrs (h ! a)"] Cons q Some by (auto simp: nth_append)
    qed (use Cons q in auto)
  qed simp
qed simp

text \<open>A write to an address that pointers do not lead to does not change their values.\<close>

lemma ptrs_update:
  "x \<notin> ptr_reach n h ps \<Longrightarrow> ptr_values n (h[x := c]) ps = ptr_values n h ps"
proof (induction n arbitrary: ps)
  case (Suc n)
  show ?case using Suc.prems
  proof (induction ps)
    case (Cons q ps)
    then show ?case
      using Suc.IH by (cases q; cases "snd q") (auto simp: nth_list_update)
  qed simp
qed simp

section \<open>A copy is equal and shares nothing\<close>

definition copied :: "memory \<Rightarrow> pointers \<Rightarrow> pointers \<Rightarrow> memory \<Rightarrow> bool" where
  "copied h ps ps' h' \<longleftrightarrow>
     (\<exists>cs. h' = h @ cs) \<and>
     (\<forall>n. ptrs_valid n h ps \<longrightarrow> ptrs_valid n h' ps' \<and> ptr_values n h' ps' = ptr_values n h ps \<and>
        ptr_reach n h' ps' \<subseteq> {length h..<length h'})"

lemma copied_Nil [intro, simp]: "copied h [] [] h"
  by (auto simp: copied_def)

lemma copied_extends: "copied h ps ps' h' \<Longrightarrow> \<exists>cs. h' = h @ cs"
  by (simp add: copied_def)

lemma copied_append:
  assumes "copied h ps ps' h1" and "copied h1 qs qs' h2"
  shows "copied h (ps @ qs) (ps' @ qs') h2"
proof -
  obtain cs1 cs2 where h: "h1 = h @ cs1" "h2 = h1 @ cs2" using assms by (auto simp: copied_def)
  have "ptrs_valid n h2 (ps' @ qs') \<and> ptr_values n h2 (ps' @ qs') = ptr_values n h (ps @ qs) \<and>
      ptr_reach n h2 (ps' @ qs') \<subseteq> {length h..<length h2}" if v: "ptrs_valid n h (ps @ qs)" for n
  proof -
    have p: "ptrs_valid n h1 ps'" "ptr_values n h1 ps' = ptr_values n h ps" "ptr_reach n h1 ps' \<subseteq> {length h..<length h1}"
      using assms(1) v by (auto simp: copied_def)
    have q0: "ptrs_valid n h1 qs" "ptr_values n h1 qs = ptr_values n h qs"
      using ptrs_frame [of n h qs cs1] v h(1) by auto
    have q: "ptrs_valid n h2 qs'" "ptr_values n h2 qs' = ptr_values n h1 qs"
      "ptr_reach n h2 qs' \<subseteq> {length h1..<length h2}"
      using assms(2) q0(1) by (auto simp: copied_def)
    have "ptrs_valid n h2 ps'" "ptr_values n h2 ps' = ptr_values n h1 ps'" "ptr_reach n h2 ps' = ptr_reach n h1 ps'"
      using ptrs_frame [OF p(1), of cs2] h(2) by auto
    then show ?thesis using p q q0(2) h by auto
  qed
  then show ?thesis using h by (simp add: copied_def)
qed

text \<open>What copies the contents of the cells of a kind.\<close>

definition copier :: "kind \<Rightarrow> (cell \<Rightarrow> memory \<Rightarrow> cell \<times> memory) \<Rightarrow> bool" where
  "copier k f \<longleftrightarrow>
     (\<forall>c h. \<exists>c' cs. f c h = (c', h @ cs)) \<and>
     (\<forall>c h c' h'. kind_of c = k \<and> f c h = (c', h') \<longrightarrow>
        kind_of c' = k \<and> strip c' = strip c \<and> copied h (cell_ptrs c) (cell_ptrs c') h')"

lemma copied_ptr:
  assumes "copier k f" and "DeepCopy f p h = (p', h')"
  shows "copied h [(k, p)] [(k, p')] h'"
proof (cases p)
  case (Some a)
  obtain c cs where f: "f (h ! a) h = (c, h @ cs)" using assms(1) unfolding copier_def by blast
  let ?h1 = "h @ cs"
  have r: "p' = Some (length ?h1)" "h' = ?h1 @ [c]" using assms(2) Some f by (auto simp: DeepCopy_def)
  have "ptrs_valid n h' [(k, p')] \<and> ptr_values n h' [(k, p')] = ptr_values n h [(k, p)] \<and>
      ptr_reach n h' [(k, p')] \<subseteq> {length h..<length h'}" if v: "ptrs_valid n h [(k, p)]" for n
  proof (cases n)
    case (Suc m)
    then have a: "a < length h" "kind_of (h ! a) = k" "ptrs_valid m h (cell_ptrs (h ! a))"
      using v Some by auto
    have c: "kind_of c = k" "strip c = strip (h ! a)" "copied h (cell_ptrs (h ! a)) (cell_ptrs c) ?h1"
      using assms(1) a(2) f unfolding copier_def by blast+
    have m: "ptrs_valid m ?h1 (cell_ptrs c)" "ptr_values m ?h1 (cell_ptrs c) = ptr_values m h (cell_ptrs (h ! a))"
      "ptr_reach m ?h1 (cell_ptrs c) \<subseteq> {length h..<length ?h1}"
      using c(3) a(3) by (auto simp: copied_def)
    have nth: "h' ! length ?h1 = c" using r(2) by simp
    have l: "length ?h1 < length h'" using r(2) by simp
    show ?thesis
      using ptrs_frame [OF m(1), of "[c]"] m c(1,2) r(1) l Suc Some a nth
      unfolding r(2) [symmetric] by auto
  qed simp
  then show ?thesis using r(2) by (simp add: copied_def)
qed (use assms(2) in \<open>auto simp: DeepCopy_def copied_def split: nat.splits intro: exI [of _ "[]"]\<close>)

section \<open>Each type\<close>

lemma copied_trans_ptr:
  assumes "copied h ps ps' h1" and "copier k f" and "DeepCopy f p h1 = (p', h2)"
  shows "copied h (ps @ [(k, p)]) (ps' @ [(k, p')]) h2"
  using copied_append [OF assms(1) copied_ptr [OF assms(2,3)]] .

lemma plain_kinds: "kind_of c \<in> {IntK, TimeK, ResultK, StringsK, ResourcesK} \<Longrightarrow> cell_ptrs c = []"
  by (cases c) simp_all

lemma copier_plain: "k \<in> {IntK, TimeK, ResultK, StringsK, ResourcesK} \<Longrightarrow> copier k copy_plain"
  unfolding copier_def copy_plain_def
proof (intro conjI allI impI)
  fix c :: cell and h :: memory
  show "\<exists>c' cs. (c, h) = (c', h @ cs)" by simp
next
  fix c c' :: cell and h h' :: memory
  assume k: "k \<in> {IntK, TimeK, ResultK, StringsK, ResourcesK}" and kc: "kind_of c = k \<and> (c, h) = (c', h')"
  from kc have c: "c' = c" "h' = h" "kind_of c = k" by auto
  then show "kind_of c' = k" "strip c' = strip c" by simp_all
  have "cell_ptrs c = []" using k c(3) plain_kinds by blast
  then show "copied h (cell_ptrs c) (cell_ptrs c') h'" using c by simp
qed

text \<open>A copier from what it does to the cells of its kind; on others it does nothing.\<close>

lemma copierI:
  assumes "\<And>c h. kind_of c \<noteq> k \<Longrightarrow> f c h = (c, h)"
    and "\<And>c h c' h'. kind_of c = k \<Longrightarrow> f c h = (c', h') \<Longrightarrow>
      kind_of c' = k \<and> strip c' = strip c \<and> copied h (cell_ptrs c) (cell_ptrs c') h'"
  shows "copier k f"
  unfolding copier_def
proof (intro conjI allI impI)
  fix c h
  obtain c' h' where f: "f c h = (c', h')" by (metis surj_pair)
  show "\<exists>c' cs. f c h = (c', h @ cs)"
  proof (cases "kind_of c = k")
    case True
    from assms(2) [OF True f] show ?thesis using f by (auto simp: copied_def)
  qed (use assms(1) in simp)
qed (use assms(2) in blast)+

lemma Subjob_copied:
  assumes "SlurmSubjobStatus_DeepCopyInto s h = (s', h')"
  shows "copied h (cell_ptrs (SubjobCell s)) (cell_ptrs (SubjobCell s')) h' \<and> strip (SubjobCell s') = strip (SubjobCell s)"
proof -
  obtain t1 h1 where t1: "DeepCopy copy_plain (um_SubmitTime s) h = (t1, h1)" by (metis surj_pair)
  obtain t2 h2 where t2: "DeepCopy copy_plain (um_StartTime s) h1 = (t2, h2)" by (metis surj_pair)
  have p: "copier TimeK copy_plain" by (simp add: copier_plain)
  have "s' = s\<lparr>um_SubmitTime := t1, um_StartTime := t2\<rparr>" "h' = h2"
    using assms t1 t2 by (simp_all add: SlurmSubjobStatus_DeepCopyInto_def)
  then show ?thesis using copied_trans_ptr [OF copied_ptr [OF p t1] p t2] by simp
qed

lemma copier_subjob: "copier SubjobK copy_subjob"
proof (rule copierI)
  fix c h assume "kind_of c \<noteq> SubjobK"
  then show "copy_subjob c h = (c, h)" by (cases c) simp_all
next
  fix c h c' h' assume "kind_of c = SubjobK" "copy_subjob c h = (c', h')"
  then show "kind_of c' = SubjobK \<and> strip c' = strip c \<and> copied h (cell_ptrs c) (cell_ptrs c') h'"
    using Subjob_copied by (cases c) (auto split: prod.splits)
qed

lemma entries_copied:
  assumes "copier k f" and "copy_entries f m h = (m', h')"
  shows "copied h (map (\<lambda>(x, p). (k, p)) m) (map (\<lambda>(x, p). (k, p)) m') h' \<and>
    map (\<lambda>(x, p). (x, None)) m' = map (\<lambda>(x, p). (x, None :: addr option)) m"
  using assms(2)
proof (induction m arbitrary: h m' h')
  case (Cons e m)
  obtain x p where e: "e = (x, p)" by (cases e)
  obtain p' h1 where p': "DeepCopy f p h = (p', h1)" by (metis surj_pair)
  obtain r h2 where r: "copy_entries f m h1 = (r, h2)" by (metis surj_pair)
  have m': "m' = (x, p') # r" "h' = h2" using Cons.prems e p' r by simp_all
  have "copied h ([(k, p)] @ map (\<lambda>(x, p). (k, p)) m) ([(k, p')] @ map (\<lambda>(x, p). (k, p)) r) h2"
    using copied_append [OF copied_ptr [OF assms(1) p']] Cons.IH [OF r] by blast
  then show ?case using Cons.IH [OF r] m' e by simp
qed simp

lemma copier_subjob_map: "copier SubjobMapK copy_subjob_map"
proof (rule copierI)
  fix c h assume "kind_of c \<noteq> SubjobMapK"
  then show "copy_subjob_map c h = (c, h)" by (cases c) simp_all
next
  fix c h c' h' assume "kind_of c = SubjobMapK" "copy_subjob_map c h = (c', h')"
  then show "kind_of c' = SubjobMapK \<and> strip c' = strip c \<and> copied h (cell_ptrs c) (cell_ptrs c') h'"
    using entries_copied [OF copier_subjob] by (cases c) (auto split: prod.splits)
qed

lemma copier_header: "copier HeaderK copy_header"
proof (rule copierI)
  fix c h assume "kind_of c \<noteq> HeaderK"
  then show "copy_header c h = (c, h)" by (cases c) simp_all
next
  fix c h c' h' assume "kind_of c = HeaderK" "copy_header c h = (c', h')"
  then show "kind_of c' = HeaderK \<and> strip c' = strip c \<and> copied h (cell_ptrs c) (cell_ptrs c') h'"
    using entries_copied [OF copier_plain, of StringsK] by (cases c) (auto split: prod.splits)
qed

lemma Spec_copied:
  assumes "SlurmBridgeJobSpec_DeepCopyInto s h = (s', h')"
  shows "copied h (spec_ptrs s) (spec_ptrs s') h' \<and> strip_spec s' = strip_spec s"
proof -
  obtain u h1 where u: "DeepCopy copy_plain (pm_RunAsUser s) h = (u, h1)" by (metis surj_pair)
  obtain g h2 where g: "DeepCopy copy_plain (pm_RunAsGroup s) h1 = (g, h2)" by (metis surj_pair)
  obtain r h3 where r: "DeepCopy copy_plain (pm_Result s) h2 = (r, h3)" by (metis surj_pair)
  have p: "copier IntK copy_plain" "copier ResultK copy_plain" by (simp_all add: copier_plain)
  have "s' = s\<lparr>pm_RunAsUser := u, pm_RunAsGroup := g, pm_Result := r\<rparr>" "h' = h3"
    using assms u g r by (simp_all add: SlurmBridgeJobSpec_DeepCopyInto_def)
  then show ?thesis
    using copied_trans_ptr [OF copied_trans_ptr [OF copied_ptr [OF p(1) u] p(1) g] p(2) r]
    by (simp add: spec_ptrs_def strip_spec_def)
qed

lemma Status_copied:
  assumes "SlurmBridgeJobStatus_DeepCopyInto s h = (s', h')"
  shows "copied h (status_ptrs s) (status_ptrs s') h' \<and> strip_status s' = strip_status s"
proof -
  obtain m h1 where m: "DeepCopy copy_subjob_map (tm_SubjobStatus s) h = (m, h1)" by (metis surj_pair)
  then show ?thesis
    using assms copied_ptr [OF copier_subjob_map m]
    by (auto simp: SlurmBridgeJobStatus_DeepCopyInto_def status_ptrs_def strip_status_def)
qed

lemma Job_copied:
  assumes "SlurmBridgeJob_DeepCopyInto j h = (j', h')"
  shows "copied h (job_ptrs j) (job_ptrs j') h' \<and> strip_job j' = strip_job j"
proof -
  obtain s h1 where s: "SlurmBridgeJobSpec_DeepCopyInto (jm_Spec j) h = (s, h1)" by (metis surj_pair)
  obtain t h2 where t: "SlurmBridgeJobStatus_DeepCopyInto (jm_Status j) h1 = (t, h2)" by (metis surj_pair)
  have "j' = j\<lparr>jm_Spec := s, jm_Status := t\<rparr>" "h' = h2"
    using assms s t by (simp_all add: SlurmBridgeJob_DeepCopyInto_def)
  then show ?thesis
    using Spec_copied [OF s] Status_copied [OF t]
      copied_append [OF conjunct1 [OF Spec_copied [OF s]] conjunct1 [OF Status_copied [OF t]]]
    by (simp add: job_ptrs_def strip_job_def)
qed

lemma jobs_copied:
  "copy_jobs js h = (js', h') \<Longrightarrow>
     copied h (concat (map job_ptrs js)) (concat (map job_ptrs js')) h' \<and> map strip_job js' = map strip_job js"
proof (induction js arbitrary: h js' h')
  case (Cons j js)
  obtain j' h1 where j: "SlurmBridgeJob_DeepCopyInto j h = (j', h1)" by (metis surj_pair)
  obtain r h2 where r: "copy_jobs js h1 = (r, h2)" by (metis surj_pair)
  then show ?case using Cons.prems j Job_copied [OF j] Cons.IH [OF r] copied_append by auto
qed simp

lemma copier_items: "copier ItemsK copy_items"
proof (rule copierI)
  fix c h assume "kind_of c \<noteq> ItemsK"
  then show "copy_items c h = (c, h)" by (cases c) simp_all
next
  fix c h c' h' assume "kind_of c = ItemsK" "copy_items c h = (c', h')"
  then show "kind_of c' = ItemsK \<and> strip c' = strip c \<and> copied h (cell_ptrs c) (cell_ptrs c') h'"
    using jobs_copied by (cases c) (auto split: prod.splits)
qed

lemma JobList_copied:
  assumes "SlurmBridgeJobList_DeepCopyInto l h = (l', h')"
  shows "copied h (cell_ptrs (JobListCell l)) (cell_ptrs (JobListCell l')) h' \<and>
    strip (JobListCell l') = strip (JobListCell l)"
proof -
  obtain m h1 where m: "DeepCopy copy_items (lm_Items l) h = (m, h1)" by (metis surj_pair)
  then show ?thesis
    using assms copied_ptr [OF copier_items m] by (auto simp: SlurmBridgeJobList_DeepCopyInto_def)
qed

lemma Config_copied:
  assumes "SlurmVirtualKubeletConfiguration_DeepCopyInto c h = (c', h')"
  shows "copied h (cell_ptrs (ConfigCell c)) (cell_ptrs (ConfigCell c')) h' \<and>
    strip (ConfigCell c') = strip (ConfigCell c)"
proof -
  obtain m h1 where m: "DeepCopy copy_header (cm_StaticPodURLHeader c) h = (m, h1)" by (metis surj_pair)
  obtain t h2 where t: "DeepCopy copy_plain (cm_TLSCipherSuites c) h1 = (t, h2)" by (metis surj_pair)
  have p: "copier StringsK copy_plain" by (simp add: copier_plain)
  have "c' = c\<lparr>cm_StaticPodURLHeader := m, cm_TLSCipherSuites := t\<rparr>" "h' = h2"
    using assms m t by (simp_all add: SlurmVirtualKubeletConfiguration_DeepCopyInto_def)
  then show ?thesis using copied_trans_ptr [OF copied_ptr [OF copier_header m] p t] by simp
qed

text \<open>The types with a method \<^verbatim>\<open>DeepCopy\<close> of their own.\<close>

definition api_kind :: "kind \<Rightarrow> bool" where
  "api_kind k \<longleftrightarrow> k \<in> {ResultK, ResourcesK, SubjobK, SpecK, StatusK, JobK, JobListK, ConfigK}"

lemma copier_api: "api_kind k \<Longrightarrow> copier k DeepCopyInto"
  unfolding copier_def
proof (intro conjI allI impI)
  have one: "strip c' = strip c \<and> kind_of c' = kind_of c \<and> (api_kind (kind_of c) \<longrightarrow> copied h (cell_ptrs c) (cell_ptrs c') h') \<and>
      (\<exists>cs. h' = h @ cs)"
    if "DeepCopyInto c h = (c', h')" for c c' h h'
    using that
    by (cases c)
       (auto split: prod.splits simp: api_kind_def intro: copied_extends
         dest!: Spec_copied Status_copied Job_copied JobList_copied Config_copied Subjob_copied)
  fix c h
  obtain c' h' where "DeepCopyInto c h = (c', h')" by (metis surj_pair)
  then show "\<exists>c' cs. DeepCopyInto c h = (c', h @ cs)" using one by blast
  fix c' h' assume "api_kind k" "kind_of c = k \<and> DeepCopyInto c h = (c', h')"
  then show "kind_of c' = k" "strip c' = strip c" "copied h (cell_ptrs c) (cell_ptrs c') h'" using one by blast+
qed

section \<open>Properties\<close>


text \<open>A job with a user and one Slurm job in its status.\<close>

definition job_memory :: memory where
  "job_memory =
     [TimeCell 5,
      SubjobCell \<lparr>um_fields = \<lparr>ub_ID = ''7'', ub_UserID = [], ub_ArrayJobID = [], ub_Name = ''job'', ub_ExitCode = [],
        ub_State = ''RUNNING'', ub_SubmitTime = None, ub_StartTime = None, ub_RunTime = [], ub_TimeLimit = [],
        ub_WorkDir = [], ub_StdOut = [], ub_StdErr = [], ub_Partition = [], ub_NodeList = [], ub_BatchHost = [],
        ub_NumNodes = []\<rparr>, um_SubmitTime = Some 0, um_StartTime = None\<rparr>,
      SubjobMapCell [(''7'', Some 1)],
      IntCell 1000,
      JobCell \<lparr>jm_TypeMeta = ([], []), jm_Meta = new_meta ''job'' ''default'' Map.empty,
        jm_Spec = \<lparr>pm_fields = \<lparr>sp_Partition = ''debug'', sp_SbatchScript = ''#!/bin/sh'', sp_RunAsUser = None,
            sp_RunAsGroup = None, sp_Array = [], sp_CpusPerTask = 0, sp_Ntasks = 0, sp_NtasksPerNode = 0,
            sp_Nodes = 0, sp_WorkingDir = [], sp_MemPerCpu = 0, sp_Gres = [], sp_Licenses = [], sp_Result = None\<rparr>,
          pm_RunAsUser = Some 3, pm_RunAsGroup = None, pm_Result = None\<rparr>,
        jm_Status = \<lparr>tm_fields = \<lparr>bs_State = ''Running'', bs_SubjobStatus = [], bs_FetchResult = False,
            bs_FetchResultStatus = [], bs_ClusterEndPoint = []\<rparr>, tm_SubjobStatus = Some 2\<rparr>\<rparr>]"


end
