(* ===== verification/Clientset.thy ===== *)
theory Clientset
  imports KubeTypes
begin

text \<open>
  The client of the \<^verbatim>\<open>SlurmBridgeJob\<close> resource (\<^verbatim>\<open>pkg/client/clientset\<close>): the typed client, whose methods
  build one request each, how a client is made from a configuration, and the fake client for tests, whose
  methods make one action each. The REST client of \<^verbatim>\<open>client-go\<close> that carries a request out, and the
  object tracker that reacts to actions, are parameters over a state \<open>'w\<close>.
\<close>

section \<open>Group and version\<close>

record GroupVersion =
  gv_Group :: string
  gv_Version :: string

definition GroupName :: string where "GroupName = ''kubecluster.org''"

text \<open>\<^verbatim>\<open>runtime.APIVersionInternal\<close> of apimachinery is \<^verbatim>\<open>__internal\<close>.\<close>

definition SchemeGroupVersion :: GroupVersion where
  "SchemeGroupVersion = \<lparr>gv_Group = GroupName, gv_Version = ''__internal''\<rparr>"

definition api_GroupVersion :: GroupVersion where
  "api_GroupVersion = \<lparr>gv_Group = ''kubecluster.org'', gv_Version = ''v1alpha1''\<rparr>"

record GroupVersionResource =
  gvr_GroupVersion :: GroupVersion
  gvr_Resource :: string

definition WithResource :: "GroupVersion \<Rightarrow> string \<Rightarrow> GroupVersionResource" where
  "WithResource gv r = \<lparr>gvr_GroupVersion = gv, gvr_Resource = r\<rparr>"

text \<open>A resource with its group.\<close>

definition Resource :: "string \<Rightarrow> string \<times> string" where
  "Resource resource = (gv_Group api_GroupVersion, gvr_Resource (WithResource api_GroupVersion resource))"

section \<open>Requests\<close>

record ListOptions =
  lo_LabelSelector :: string
  lo_FieldSelector :: string
  lo_Watch :: bool
  lo_TimeoutSeconds :: "int64 option"

text \<open>The other options are only passed on; they are texts.\<close>

datatype rest_params = NoParams | TextParams string | ListParams ListOptions

datatype rest_body = NoBody | JobBody SlurmBridgeJob | OptionsBody string | DataBody string

datatype rest_verb = GetVerb | PostVerb | PutVerb | DeleteVerb | PatchVerb string

record rest_request =
  rq_Verb :: rest_verb
  rq_Namespace :: string
  rq_Resource :: string
  rq_Name :: "string option"
  rq_SubResource :: "string list"
  rq_Params :: rest_params
  rq_Timeout :: duration
  rq_Body :: rest_body

text \<open>The start of a request; the calls that follow set its parts.\<close>

definition new_request :: "rest_verb \<Rightarrow> rest_request" where
  "new_request verb =
     \<lparr>rq_Verb = verb, rq_Namespace = [], rq_Resource = [], rq_Name = None, rq_SubResource = [],
      rq_Params = NoParams, rq_Timeout = 0, rq_Body = NoBody\<rparr>"

text \<open>
  A REST client: the group and version its paths are made of, and what carrying a request out gives: the object
  decoded into a new job, into a new list, just the error, or a watch (its name).
\<close>

record 'w rest_client =
  re_GroupVersion :: GroupVersion
  re_Job :: "rest_request \<Rightarrow> 'w \<Rightarrow> (SlurmBridgeJob \<times> go_error option) \<times> 'w"
  re_List :: "rest_request \<Rightarrow> 'w \<Rightarrow> (SlurmBridgeJob list \<times> go_error option) \<times> 'w"
  re_Error :: "rest_request \<Rightarrow> 'w \<Rightarrow> go_error option \<times> 'w"
  re_Watch :: "rest_request \<Rightarrow> 'w \<Rightarrow> string result \<times> 'w"

record 'w slurmBridgeJobs =
  js_client :: "'w rest_client option"
  js_ns :: string

record 'w KubeclusterV1alpha1Client =
  kc_restClient :: "'w rest_client"

definition RESTClient :: "'w KubeclusterV1alpha1Client option \<Rightarrow> 'w rest_client option" where
  "RESTClient c = (case c of None \<Rightarrow> None | Some k \<Rightarrow> Some (kc_restClient k))"

text \<open>A nil client gives a typed client around nil, whose methods panic.\<close>

definition newSlurmBridgeJobs :: "'w KubeclusterV1alpha1Client option \<Rightarrow> string \<Rightarrow> 'w slurmBridgeJobs" where
  "newSlurmBridgeJobs c namespace = \<lparr>js_client = RESTClient c, js_ns = namespace\<rparr>"

definition SlurmBridgeJobs :: "'w KubeclusterV1alpha1Client option \<Rightarrow> string \<Rightarrow> 'w slurmBridgeJobs" where
  "SlurmBridgeJobs c namespace = newSlurmBridgeJobs c namespace"

definition on_client :: "'w slurmBridgeJobs \<Rightarrow> ('w rest_client \<Rightarrow> 'w \<Rightarrow> 'a \<times> 'w) \<Rightarrow> 'w \<Rightarrow> 'a outcome \<times> 'w" where
  "on_client c call w =
     (case js_client c of
        None \<Rightarrow> (Panic NilDereference, w)
      | Some k \<Rightarrow> (case call k w of (r, w') \<Rightarrow> (Value r, w')))"

text \<open>\<^verbatim>\<open>time.Duration(*opts.TimeoutSeconds) * time.Second\<close>, which wraps around in 64 bits.\<close>

definition list_timeout :: "ListOptions \<Rightarrow> duration" where
  "list_timeout opts = (case lo_TimeoutSeconds opts of None \<Rightarrow> 0 | Some s \<Rightarrow> s * Second)"

definition get_request :: "string \<Rightarrow> string \<Rightarrow> string \<Rightarrow> rest_request" where
  "get_request ns name options =
     (new_request GetVerb)\<lparr>rq_Namespace := ns, rq_Resource := ''slurmbridgejobs'', rq_Name := Some name,
       rq_Params := TextParams options\<rparr>"

definition Jobs_Get :: "'w slurmBridgeJobs \<Rightarrow> string \<Rightarrow> string \<Rightarrow> 'w \<Rightarrow> (SlurmBridgeJob \<times> go_error option) outcome \<times> 'w" where
  "Jobs_Get c name options w = on_client c (\<lambda>k. re_Job k (get_request (js_ns c) name options)) w"

definition list_request :: "string \<Rightarrow> ListOptions \<Rightarrow> rest_request" where
  "list_request ns opts =
     (new_request GetVerb)\<lparr>rq_Namespace := ns, rq_Resource := ''slurmbridgejobs'',
       rq_Params := ListParams opts, rq_Timeout := list_timeout opts\<rparr>"

definition Jobs_List :: "'w slurmBridgeJobs \<Rightarrow> ListOptions \<Rightarrow> 'w \<Rightarrow> (SlurmBridgeJob list \<times> go_error option) outcome \<times> 'w" where
  "Jobs_List c opts w = on_client c (\<lambda>k. re_List k (list_request (js_ns c) opts)) w"

definition Jobs_Watch :: "'w slurmBridgeJobs \<Rightarrow> ListOptions \<Rightarrow> 'w \<Rightarrow> string result outcome \<times> 'w" where
  "Jobs_Watch c opts w =
     on_client c (\<lambda>k. re_Watch k ((new_request GetVerb)\<lparr>rq_Namespace := js_ns c, rq_Resource := ''slurmbridgejobs'',
          rq_Params := ListParams (opts\<lparr>lo_Watch := True\<rparr>), rq_Timeout := list_timeout opts\<rparr>)) w"

definition create_request :: "string \<Rightarrow> SlurmBridgeJob \<Rightarrow> string \<Rightarrow> rest_request" where
  "create_request ns job opts =
     (new_request PostVerb)\<lparr>rq_Namespace := ns, rq_Resource := ''slurmbridgejobs'',
       rq_Params := TextParams opts, rq_Body := JobBody job\<rparr>"

definition Jobs_Create ::
    "'w slurmBridgeJobs \<Rightarrow> SlurmBridgeJob \<Rightarrow> string \<Rightarrow> 'w \<Rightarrow> (SlurmBridgeJob \<times> go_error option) outcome \<times> 'w" where
  "Jobs_Create c job opts w = on_client c (\<lambda>k. re_Job k (create_request (js_ns c) job opts)) w"

definition update_request :: "string \<Rightarrow> SlurmBridgeJob \<Rightarrow> string \<Rightarrow> rest_request" where
  "update_request ns job opts =
     (new_request PutVerb)\<lparr>rq_Namespace := ns, rq_Resource := ''slurmbridgejobs'',
       rq_Name := Some (sbj_Name job), rq_Params := TextParams opts, rq_Body := JobBody job\<rparr>"

definition Jobs_Update ::
    "'w slurmBridgeJobs \<Rightarrow> SlurmBridgeJob \<Rightarrow> string \<Rightarrow> 'w \<Rightarrow> (SlurmBridgeJob \<times> go_error option) outcome \<times> 'w" where
  "Jobs_Update c job opts w = on_client c (\<lambda>k. re_Job k (update_request (js_ns c) job opts)) w"

definition Jobs_UpdateStatus ::
    "'w slurmBridgeJobs \<Rightarrow> SlurmBridgeJob \<Rightarrow> string \<Rightarrow> 'w \<Rightarrow> (SlurmBridgeJob \<times> go_error option) outcome \<times> 'w" where
  "Jobs_UpdateStatus c job opts w =
     on_client c (\<lambda>k. re_Job k ((new_request PutVerb)\<lparr>rq_Namespace := js_ns c, rq_Resource := ''slurmbridgejobs'',
          rq_Name := Some (sbj_Name job), rq_SubResource := [''status''], rq_Params := TextParams opts,
          rq_Body := JobBody job\<rparr>)) w"

definition Jobs_Delete :: "'w slurmBridgeJobs \<Rightarrow> string \<Rightarrow> string \<Rightarrow> 'w \<Rightarrow> go_error option outcome \<times> 'w" where
  "Jobs_Delete c name opts w =
     on_client c (\<lambda>k. re_Error k ((new_request DeleteVerb)\<lparr>rq_Namespace := js_ns c, rq_Resource := ''slurmbridgejobs'',
          rq_Name := Some name, rq_Body := OptionsBody opts\<rparr>)) w"

definition Jobs_DeleteCollection ::
    "'w slurmBridgeJobs \<Rightarrow> string \<Rightarrow> ListOptions \<Rightarrow> 'w \<Rightarrow> go_error option outcome \<times> 'w" where
  "Jobs_DeleteCollection c opts listOpts w =
     on_client c (\<lambda>k. re_Error k ((new_request DeleteVerb)\<lparr>rq_Namespace := js_ns c, rq_Resource := ''slurmbridgejobs'',
          rq_Params := ListParams listOpts, rq_Timeout := list_timeout listOpts,
          rq_Body := OptionsBody opts\<rparr>)) w"

definition Jobs_Patch ::
    "'w slurmBridgeJobs \<Rightarrow> string \<Rightarrow> string \<Rightarrow> string \<Rightarrow> string \<Rightarrow> string list \<Rightarrow> 'w \<Rightarrow>
     (SlurmBridgeJob \<times> go_error option) outcome \<times> 'w" where
  "Jobs_Patch c name pt data opts subresources w =
     on_client c (\<lambda>k. re_Job k ((new_request (PatchVerb pt))\<lparr>rq_Namespace := js_ns c, rq_Resource := ''slurmbridgejobs'',
          rq_Name := Some name, rq_SubResource := subresources, rq_Params := TextParams opts,
          rq_Body := DataBody data\<rparr>)) w"

section \<open>Making a client\<close>

text \<open>
  The parts of \<^verbatim>\<open>rest.Config\<close> that the code reads or sets; \<^verbatim>\<open>QPS\<close> is a 32-bit float, here its value in some
  linear order is enough: whether it is positive is \<open>rc_positive_QPS\<close>. A rate limiter is the burst it was made with.
\<close>

record rest_config =
  rc_Host :: string
  rc_APIPath :: string
  rc_GroupVersion :: "GroupVersion option"
  rc_NegotiatedSerializer :: string
  rc_UserAgent :: string
  rc_positive_QPS :: bool
  rc_Burst :: int64
  rc_RateLimiter :: "int64 option"

text \<open>
  The functions of \<^verbatim>\<open>client-go\<close>: the default user agent, the HTTP client of a configuration and the
  REST client made with both; the discovery client, of which only the error matters here; and the text of
  an error.
\<close>

record ('t, 'w) rest_lib =
  rl_DefaultKubernetesUserAgent :: string
  rl_HTTPClientFor :: "rest_config \<Rightarrow> 't result"
  rl_RESTClientForConfigAndClient :: "rest_config \<Rightarrow> 't \<Rightarrow> 'w rest_client result"
  rl_DiscoveryError :: "rest_config \<Rightarrow> 't \<Rightarrow> go_error option"
  rl_error_text :: "go_error \<Rightarrow> string"

definition setConfigDefaults :: "('t, 'w) rest_lib \<Rightarrow> rest_config \<Rightarrow> rest_config" where
  "setConfigDefaults L config =
     (let c1 = config\<lparr>rc_GroupVersion := Some SchemeGroupVersion, rc_APIPath := ''/apis'',
                 rc_NegotiatedSerializer := ''scheme.Codecs.WithoutConversion''\<rparr>
      in if rc_UserAgent c1 = [] then c1\<lparr>rc_UserAgent := rl_DefaultKubernetesUserAgent L\<rparr> else c1)"

definition group_NewForConfigAndClient ::
    "('t, 'w) rest_lib \<Rightarrow> rest_config \<Rightarrow> 't \<Rightarrow> 'w KubeclusterV1alpha1Client result" where
  "group_NewForConfigAndClient L c t =
     (case rl_RESTClientForConfigAndClient L (setConfigDefaults L c) t of
        Inl err \<Rightarrow> Inl err
      | Inr client \<Rightarrow> Inr \<lparr>kc_restClient = client\<rparr>)"

definition group_NewForConfig :: "('t, 'w) rest_lib \<Rightarrow> rest_config \<Rightarrow> 'w KubeclusterV1alpha1Client result" where
  "group_NewForConfig L c =
     (let config = setConfigDefaults L c in
      case rl_HTTPClientFor L config of
        Inl err \<Rightarrow> Inl err
      | Inr httpClient \<Rightarrow> group_NewForConfigAndClient L config httpClient)"

definition group_NewForConfigOrDie :: "('t, 'w) rest_lib \<Rightarrow> rest_config \<Rightarrow> 'w KubeclusterV1alpha1Client outcome" where
  "group_NewForConfigOrDie L c =
     (case group_NewForConfig L c of Inl err \<Rightarrow> Panic (PanicMessage (rl_error_text L err)) | Inr client \<Rightarrow> Value client)"

definition group_New :: "'w rest_client \<Rightarrow> 'w KubeclusterV1alpha1Client" where
  "group_New c = \<lparr>kc_restClient = c\<rparr>"

text \<open>The client set: the clients of its groups, of which there is one, beside the discovery client.\<close>

record 'w Clientset =
  ct_kubeclusterV1alpha1 :: "'w KubeclusterV1alpha1Client"

definition KubeclusterV1alpha1 :: "'w Clientset \<Rightarrow> 'w KubeclusterV1alpha1Client" where
  "KubeclusterV1alpha1 c = ct_kubeclusterV1alpha1 c"

definition burst_required :: go_error where
  "burst_required = ErrorString
     (''burst is required to be greater than 0 when RateLimiter is not set and QPS is set to greater than 0'')"

definition NewForConfigAndClient ::
    "('t, 'w) rest_lib \<Rightarrow> rest_config \<Rightarrow> 't \<Rightarrow> 'w Clientset result" where
  "NewForConfigAndClient L c httpClient =
     (let limited = rc_RateLimiter c = None \<and> rc_positive_QPS c in
      if limited \<and> sint (rc_Burst c) \<le> 0 then Inl burst_required
      else
        let copy = (if limited then c\<lparr>rc_RateLimiter := Some (rc_Burst c)\<rparr> else c) in
        case group_NewForConfigAndClient L copy httpClient of
          Inl err \<Rightarrow> Inl err
        | Inr client \<Rightarrow>
            (case rl_DiscoveryError L copy httpClient of
               Some err \<Rightarrow> Inl err
             | None \<Rightarrow> Inr \<lparr>ct_kubeclusterV1alpha1 = client\<rparr>))"

definition NewForConfig :: "('t, 'w) rest_lib \<Rightarrow> rest_config \<Rightarrow> 'w Clientset result" where
  "NewForConfig L c =
     (let copy = (if rc_UserAgent c = [] then c\<lparr>rc_UserAgent := rl_DefaultKubernetesUserAgent L\<rparr> else c) in
      case rl_HTTPClientFor L copy of
        Inl err \<Rightarrow> Inl err
      | Inr httpClient \<Rightarrow> NewForConfigAndClient L copy httpClient)"

definition NewForConfigOrDie :: "('t, 'w) rest_lib \<Rightarrow> rest_config \<Rightarrow> 'w Clientset outcome" where
  "NewForConfigOrDie L c = (case NewForConfig L c of Inl err \<Rightarrow> Panic (PanicMessage (rl_error_text L err)) | Inr cs \<Rightarrow> Value cs)"

definition clientset_New :: "'w rest_client \<Rightarrow> 'w Clientset" where
  "clientset_New c = \<lparr>ct_kubeclusterV1alpha1 = group_New c\<rparr>"

section \<open>The fake client\<close>

text \<open>
  The actions of \<^verbatim>\<open>k8s.io/client-go/testing\<close> with what their constructors are given, and a fake that
  records an action and answers with what its reactors say: an object or nil, and an error.
\<close>

datatype fake_action =
    NewGetAction GroupVersionResource string string
  | NewListAction GroupVersionResource string string ListOptions
  | NewWatchAction GroupVersionResource string ListOptions
  | NewCreateAction GroupVersionResource string SlurmBridgeJob
  | NewUpdateAction GroupVersionResource string SlurmBridgeJob
  | NewUpdateSubresourceAction GroupVersionResource string string SlurmBridgeJob
  | NewDeleteActionWithOptions GroupVersionResource string string string
  | NewDeleteCollectionAction GroupVersionResource string ListOptions
  | NewPatchSubresourceAction GroupVersionResource string string string string "string list"

datatype fake_object = FakeJob SlurmBridgeJob | FakeList string "SlurmBridgeJob list"

record 'w fake =
  fk_Invokes :: "fake_action \<Rightarrow> 'w \<Rightarrow> (fake_object option \<times> go_error option) \<times> 'w"
  fk_InvokesWatch :: "fake_action \<Rightarrow> 'w \<Rightarrow> string result \<times> 'w"
  fk_label_selector :: "ListOptions \<Rightarrow> ((string \<rightharpoonup> string) \<Rightarrow> bool) option"

definition slurmbridgejobsResource :: GroupVersionResource where
  "slurmbridgejobsResource = WithResource SchemeGroupVersion ''slurmbridgejobs''"

definition slurmbridgejobsKind :: string where "slurmbridgejobsKind = ''SlurmBridgeJob''"

record 'w FakeSlurmBridgeJobs =
  fj_Fake :: "'w fake"
  fj_ns :: string

text \<open>A nil object gives nil and the error; an object of another type fails the type assertion.\<close>

definition fake_job ::
    "(fake_object option \<times> go_error option) \<times> 'w \<Rightarrow> (SlurmBridgeJob option \<times> go_error option) outcome \<times> 'w" where
  "fake_job r =
     (case r of ((obj, err), w') \<Rightarrow>
        (case obj of
           None \<Rightarrow> (Value (None, err), w')
         | Some (FakeJob j) \<Rightarrow> (Value (Some j, err), w')
         | Some (FakeList m js) \<Rightarrow> (Panic (PanicMessage ''interface conversion''), w')))"

definition Fake_Get ::
    "'w FakeSlurmBridgeJobs \<Rightarrow> string \<Rightarrow> string \<Rightarrow> 'w \<Rightarrow> (SlurmBridgeJob option \<times> go_error option) outcome \<times> 'w" where
  "Fake_Get c name options w =
     fake_job (fk_Invokes (fj_Fake c) (NewGetAction slurmbridgejobsResource (fj_ns c) name) w)"

definition Fake_List ::
    "'w FakeSlurmBridgeJobs \<Rightarrow> ListOptions \<Rightarrow> 'w \<Rightarrow> ((string \<times> SlurmBridgeJob list) option \<times> go_error option) outcome \<times> 'w" where
  "Fake_List c opts w =
     (case fk_Invokes (fj_Fake c) (NewListAction slurmbridgejobsResource slurmbridgejobsKind (fj_ns c) opts) w of
        ((obj, err), w') \<Rightarrow>
          (case obj of
             None \<Rightarrow> (Value (None, err), w')
           | Some (FakeJob j) \<Rightarrow> (Panic (PanicMessage ''interface conversion''), w')
           | Some (FakeList listMeta jobs) \<Rightarrow>
               (let matches = (case fk_label_selector (fj_Fake c) opts of None \<Rightarrow> (\<lambda>l. True) | Some m \<Rightarrow> m)
                in (Value (Some (listMeta, filter (\<lambda>j. matches (om_Labels (sbj_Meta j))) jobs), err), w'))))"

definition Fake_Watch :: "'w FakeSlurmBridgeJobs \<Rightarrow> ListOptions \<Rightarrow> 'w \<Rightarrow> string result \<times> 'w" where
  "Fake_Watch c opts w = fk_InvokesWatch (fj_Fake c) (NewWatchAction slurmbridgejobsResource (fj_ns c) opts) w"

definition Fake_Create ::
    "'w FakeSlurmBridgeJobs \<Rightarrow> SlurmBridgeJob \<Rightarrow> string \<Rightarrow> 'w \<Rightarrow> (SlurmBridgeJob option \<times> go_error option) outcome \<times> 'w" where
  "Fake_Create c job opts w =
     fake_job (fk_Invokes (fj_Fake c) (NewCreateAction slurmbridgejobsResource (fj_ns c) job) w)"

definition Fake_Update ::
    "'w FakeSlurmBridgeJobs \<Rightarrow> SlurmBridgeJob \<Rightarrow> string \<Rightarrow> 'w \<Rightarrow> (SlurmBridgeJob option \<times> go_error option) outcome \<times> 'w" where
  "Fake_Update c job opts w =
     fake_job (fk_Invokes (fj_Fake c) (NewUpdateAction slurmbridgejobsResource (fj_ns c) job) w)"

definition Fake_UpdateStatus ::
    "'w FakeSlurmBridgeJobs \<Rightarrow> SlurmBridgeJob \<Rightarrow> string \<Rightarrow> 'w \<Rightarrow> (SlurmBridgeJob option \<times> go_error option) outcome \<times> 'w" where
  "Fake_UpdateStatus c job opts w =
     fake_job (fk_Invokes (fj_Fake c) (NewUpdateSubresourceAction slurmbridgejobsResource ''status'' (fj_ns c) job) w)"

definition Fake_Delete :: "'w FakeSlurmBridgeJobs \<Rightarrow> string \<Rightarrow> string \<Rightarrow> 'w \<Rightarrow> go_error option \<times> 'w" where
  "Fake_Delete c name opts w =
     (case fk_Invokes (fj_Fake c) (NewDeleteActionWithOptions slurmbridgejobsResource (fj_ns c) name opts) w of
        ((obj, err), w') \<Rightarrow> (err, w'))"

definition Fake_DeleteCollection ::
    "'w FakeSlurmBridgeJobs \<Rightarrow> string \<Rightarrow> ListOptions \<Rightarrow> 'w \<Rightarrow> go_error option \<times> 'w" where
  "Fake_DeleteCollection c opts listOpts w =
     (case fk_Invokes (fj_Fake c) (NewDeleteCollectionAction slurmbridgejobsResource (fj_ns c) listOpts) w of
        ((obj, err), w') \<Rightarrow> (err, w'))"

definition Fake_Patch ::
    "'w FakeSlurmBridgeJobs \<Rightarrow> string \<Rightarrow> string \<Rightarrow> string \<Rightarrow> string \<Rightarrow> string list \<Rightarrow> 'w \<Rightarrow>
     (SlurmBridgeJob option \<times> go_error option) outcome \<times> 'w" where
  "Fake_Patch c name pt data opts subresources w =
     fake_job (fk_Invokes (fj_Fake c)
       (NewPatchSubresourceAction slurmbridgejobsResource (fj_ns c) name pt data subresources) w)"

text \<open>
  The fake client set: an object tracker with the given objects (one that it refuses is a panic), which
  reacts to every action and to watches.
\<close>

record 'w tracker =
  tk_Add :: "SlurmBridgeJob \<Rightarrow> 'w \<Rightarrow> go_error option \<times> 'w"
  tk_ObjectReaction :: "fake_action \<Rightarrow> 'w \<Rightarrow> (fake_object option \<times> go_error option) \<times> 'w"
  tk_Watch :: "GroupVersionResource \<Rightarrow> string \<Rightarrow> 'w \<Rightarrow> string result \<times> 'w"
  tk_label_selector :: "ListOptions \<Rightarrow> ((string \<rightharpoonup> string) \<Rightarrow> bool) option"
  tk_unhandled_watch :: "fake_action \<Rightarrow> string result"
  tk_error_text :: "go_error \<Rightarrow> string"

fun add_objects :: "'w tracker \<Rightarrow> SlurmBridgeJob list \<Rightarrow> 'w \<Rightarrow> go_error option \<times> 'w" where
  "add_objects T [] w = (None, w)"
| "add_objects T (obj # r) w =
     (case tk_Add T obj w of (Some err, w') \<Rightarrow> (Some err, w') | (None, w') \<Rightarrow> add_objects T r w')"

text \<open>The reactor for watches; one that fails leaves the action unhandled.\<close>

definition watch_reactor :: "'w tracker \<Rightarrow> fake_action \<Rightarrow> 'w \<Rightarrow> string result \<times> 'w" where
  "watch_reactor T action w =
     (case action of
        NewWatchAction gvr ns opts \<Rightarrow>
          (case tk_Watch T gvr ns w of
             (Inl err, w') \<Rightarrow> (tk_unhandled_watch T action, w')
           | (Inr watch, w') \<Rightarrow> (Inr watch, w'))
      | _ \<Rightarrow> (tk_unhandled_watch T action, w))"

definition NewSimpleClientset :: "'w tracker \<Rightarrow> SlurmBridgeJob list \<Rightarrow> 'w \<Rightarrow> 'w fake outcome \<times> 'w" where
  "NewSimpleClientset T objects w =
     (case add_objects T objects w of
        (Some err, w') \<Rightarrow> (Panic (PanicMessage (tk_error_text T err)), w')
      | (None, w') \<Rightarrow>
          (Value \<lparr>fk_Invokes = tk_ObjectReaction T, fk_InvokesWatch = watch_reactor T,
                  fk_label_selector = tk_label_selector T\<rparr>, w'))"

definition fake_SlurmBridgeJobs :: "'w fake \<Rightarrow> string \<Rightarrow> 'w FakeSlurmBridgeJobs" where
  "fake_SlurmBridgeJobs c namespace = \<lparr>fj_Fake = c, fj_ns = namespace\<rparr>"

end
