(* ===== verification/Informers.thy ===== *)
theory Informers
  imports Clientset Operator
begin

text \<open>
  The shared informers and listers of the \<^verbatim>\<open>SlurmBridgeJob\<close> resource (\<^verbatim>\<open>pkg/client/informers\<close>,
  \<^verbatim>\<open>pkg/client/listers\<close>). The factory keeps one informer per type and starts each once; its methods hold its
  lock, so each is one step, and the goroutines it starts end on their own. The inside of an informer and its
  indexer are \<^verbatim>\<open>client-go\<close>'s.
\<close>

section \<open>Listers\<close>

record indexer =
  ix_GetByKey :: "string \<Rightarrow> (SlurmBridgeJob option) result"
  ix_ListAll :: "string \<Rightarrow> SlurmBridgeJob list \<times> go_error option"
  ix_ListAllByNamespace :: "string \<Rightarrow> string \<Rightarrow> SlurmBridgeJob list \<times> go_error option"

record slurmBridgeJobNamespaceLister =
  nl_indexer :: indexer
  nl_namespace :: string

text \<open>A lister of all namespaces is the indexer.\<close>

definition lister_List :: "indexer \<Rightarrow> string \<Rightarrow> SlurmBridgeJob list \<times> go_error option" where
  "lister_List s selector = ix_ListAll s selector"

definition lister_SlurmBridgeJobs :: "indexer \<Rightarrow> string \<Rightarrow> slurmBridgeJobNamespaceLister" where
  "lister_SlurmBridgeJobs s namespace = \<lparr>nl_indexer = s, nl_namespace = namespace\<rparr>"

definition namespace_List :: "slurmBridgeJobNamespaceLister \<Rightarrow> string \<Rightarrow> SlurmBridgeJob list \<times> go_error option" where
  "namespace_List s selector = ix_ListAllByNamespace (nl_indexer s) (nl_namespace s) selector"

definition NewNotFound :: "string \<times> string \<Rightarrow> string \<Rightarrow> go_error" where
  "NewNotFound resource name = Status ''NotFound'' name"

definition namespace_Get :: "slurmBridgeJobNamespaceLister \<Rightarrow> string \<Rightarrow> SlurmBridgeJob result" where
  "namespace_Get s name =
     (case ix_GetByKey (nl_indexer s) (nl_namespace s @ ''/'' @ name) of
        Inl err \<Rightarrow> Inl err
      | Inr None \<Rightarrow> Inl (NewNotFound (Resource ''slurmbridgejob'') name)
      | Inr (Some obj) \<Rightarrow> Inr obj)"

section \<open>Informers\<close>

text \<open>
  A shared informer: which one it is, how it lists and watches, the type of its objects, its resync period and
  the names of its indexers.
\<close>

record 'w informer =
  in_id :: nat
  in_ListFunc :: "ListOptions \<Rightarrow> 'w \<Rightarrow> (SlurmBridgeJob list \<times> go_error option) outcome \<times> 'w"
  in_WatchFunc :: "ListOptions \<Rightarrow> 'w \<Rightarrow> string result outcome \<times> 'w"
  in_objType :: string
  in_resyncPeriod :: duration
  in_indexers :: "string list"

type_synonym tweak_func = "(ListOptions \<Rightarrow> ListOptions) option"

definition tweaked :: "tweak_func \<Rightarrow> ListOptions \<Rightarrow> ListOptions" where
  "tweaked tweak options = (case tweak of None \<Rightarrow> options | Some f \<Rightarrow> f options)"

definition NewFilteredSlurmBridgeJobInformer ::
    "'w Clientset \<Rightarrow> string \<Rightarrow> duration \<Rightarrow> string list \<Rightarrow> tweak_func \<Rightarrow> nat \<Rightarrow> 'w informer" where
  "NewFilteredSlurmBridgeJobInformer client namespace resyncPeriod indexers tweak i =
     \<lparr>in_id = i,
      in_ListFunc = (\<lambda>options.
        Jobs_List (SlurmBridgeJobs (Some (KubeclusterV1alpha1 client)) namespace) (tweaked tweak options)),
      in_WatchFunc = (\<lambda>options.
        Jobs_Watch (SlurmBridgeJobs (Some (KubeclusterV1alpha1 client)) namespace) (tweaked tweak options)),
      in_objType = ''*v1alpha1.SlurmBridgeJob'', in_resyncPeriod = resyncPeriod, in_indexers = indexers\<rparr>"

definition NewSlurmBridgeJobInformer ::
    "'w Clientset \<Rightarrow> string \<Rightarrow> duration \<Rightarrow> string list \<Rightarrow> nat \<Rightarrow> 'w informer" where
  "NewSlurmBridgeJobInformer client namespace resyncPeriod indexers i =
     NewFilteredSlurmBridgeJobInformer client namespace resyncPeriod indexers None i"

section \<open>The factory\<close>

text \<open>
  The maps are lists in the order of an iteration; \<open>sf_running\<close> are the goroutines the wait group waits for, by
  the informer each runs.
\<close>

record 'w sharedInformerFactory =
  sf_client :: "'w Clientset"
  sf_namespace :: string
  sf_tweakListOptions :: tweak_func
  sf_defaultResync :: duration
  sf_customResync :: "string \<rightharpoonup> duration"
  sf_informers :: "(string \<times> 'w informer) list"
  sf_startedInformers :: "string list"
  sf_running :: "nat list"
  sf_shuttingDown :: bool

type_synonym 'w factory_option = "'w sharedInformerFactory \<Rightarrow> 'w sharedInformerFactory"

definition WithCustomResyncConfig :: "(string \<times> duration) list \<Rightarrow> 'w factory_option" where
  "WithCustomResyncConfig resyncConfig factory =
     factory\<lparr>sf_customResync := fold (\<lambda>(k, v) m. m(k \<mapsto> v)) resyncConfig (sf_customResync factory)\<rparr>"

definition WithTweakListOptions :: "tweak_func \<Rightarrow> 'w factory_option" where
  "WithTweakListOptions tweak factory = factory\<lparr>sf_tweakListOptions := tweak\<rparr>"

definition WithNamespace :: "string \<Rightarrow> 'w factory_option" where
  "WithNamespace namespace factory = factory\<lparr>sf_namespace := namespace\<rparr>"

definition NewSharedInformerFactoryWithOptions ::
    "'w Clientset \<Rightarrow> duration \<Rightarrow> 'w factory_option list \<Rightarrow> 'w sharedInformerFactory" where
  "NewSharedInformerFactoryWithOptions client defaultResync options =
     fold (\<lambda>opt factory. opt factory) options
       \<lparr>sf_client = client, sf_namespace = [], sf_tweakListOptions = None, sf_defaultResync = defaultResync,
        sf_customResync = Map.empty, sf_informers = [], sf_startedInformers = [], sf_running = [],
        sf_shuttingDown = False\<rparr>"

definition NewSharedInformerFactory :: "'w Clientset \<Rightarrow> duration \<Rightarrow> 'w sharedInformerFactory" where
  "NewSharedInformerFactory client defaultResync = NewSharedInformerFactoryWithOptions client defaultResync []"

definition NewFilteredSharedInformerFactory ::
    "'w Clientset \<Rightarrow> duration \<Rightarrow> string \<Rightarrow> tweak_func \<Rightarrow> 'w sharedInformerFactory" where
  "NewFilteredSharedInformerFactory client defaultResync namespace tweak =
     NewSharedInformerFactoryWithOptions client defaultResync [WithNamespace namespace, WithTweakListOptions tweak]"

text \<open>The informers that are started, in a loop over all.\<close>

fun start_informers :: "(string \<times> 'w informer) list \<Rightarrow> 'w sharedInformerFactory \<Rightarrow> 'w sharedInformerFactory" where
  "start_informers [] f = f"
| "start_informers ((informerType, informer) # r) f =
     start_informers r
       (if informerType \<in> set (sf_startedInformers f) then f
        else f\<lparr>sf_running := in_id informer # sf_running f,
               sf_startedInformers := informerType # sf_startedInformers f\<rparr>)"

definition factory_Start :: "'w sharedInformerFactory \<Rightarrow> 'w sharedInformerFactory" where
  "factory_Start f = (if sf_shuttingDown f then f else start_informers (sf_informers f) f)"

text \<open>\<^verbatim>\<open>Shutdown\<close> marks the factory and returns when the wait group is empty.\<close>

definition factory_Shutdown :: "'w sharedInformerFactory \<Rightarrow> 'w sharedInformerFactory" where
  "factory_Shutdown f = f\<lparr>sf_shuttingDown := True\<rparr>"

definition Shutdown_returns :: "'w sharedInformerFactory \<Rightarrow> bool" where
  "Shutdown_returns f \<longleftrightarrow> sf_running f = []"

definition WaitForCacheSync ::
    "('w informer \<Rightarrow> bool) \<Rightarrow> 'w sharedInformerFactory \<Rightarrow> (string \<times> bool) list" where
  "WaitForCacheSync synced f =
     map (\<lambda>(t, informer). (t, synced informer))
       (filter (\<lambda>(t, informer). t \<in> set (sf_startedInformers f)) (sf_informers f))"

text \<open>A new informer is given the next number.\<close>

definition InformerFor ::
    "string \<Rightarrow> ('w Clientset \<Rightarrow> duration \<Rightarrow> nat \<Rightarrow> 'w informer) \<Rightarrow> 'w sharedInformerFactory \<Rightarrow>
     'w informer \<times> 'w sharedInformerFactory" where
  "InformerFor informerType newFunc f =
     (case map_of (sf_informers f) informerType of
        Some informer \<Rightarrow> (informer, f)
      | None \<Rightarrow>
          (let resyncPeriod =
                 (case sf_customResync f informerType of Some r \<Rightarrow> r | None \<Rightarrow> sf_defaultResync f);
               informer = newFunc (sf_client f) resyncPeriod (length (sf_informers f))
           in (informer, f\<lparr>sf_informers := sf_informers f @ [(informerType, informer)]\<rparr>)))"

section \<open>The informer of the resource\<close>

record slurmBridgeJobInformer =
  si_tweakListOptions :: tweak_func
  si_namespace :: string

definition defaultInformer :: "slurmBridgeJobInformer \<Rightarrow> 'w Clientset \<Rightarrow> duration \<Rightarrow> nat \<Rightarrow> 'w informer" where
  "defaultInformer f client resyncPeriod i =
     NewFilteredSlurmBridgeJobInformer client (si_namespace f) resyncPeriod [''namespace'']
       (si_tweakListOptions f) i"

definition Informer ::
    "slurmBridgeJobInformer \<Rightarrow> 'w sharedInformerFactory \<Rightarrow> 'w informer \<times> 'w sharedInformerFactory" where
  "Informer s f = InformerFor ''*v1alpha1.SlurmBridgeJob'' (defaultInformer s) f"

text \<open>The lister reads the indexer of the informer.\<close>

definition Lister ::
    "('w informer \<Rightarrow> indexer) \<Rightarrow> slurmBridgeJobInformer \<Rightarrow> 'w sharedInformerFactory \<Rightarrow>
     indexer \<times> 'w sharedInformerFactory" where
  "Lister GetIndexer s f = (case Informer s f of (informer, f') \<Rightarrow> (GetIndexer informer, f'))"

text \<open>The interfaces of the group and its version pass the options of the factory on.\<close>

record informer_group =
  ig_namespace :: string
  ig_tweakListOptions :: tweak_func

definition group_interface :: "string \<Rightarrow> tweak_func \<Rightarrow> informer_group" where
  "group_interface namespace tweak = \<lparr>ig_namespace = namespace, ig_tweakListOptions = tweak\<rparr>"

definition version_interface :: "string \<Rightarrow> tweak_func \<Rightarrow> informer_group" where
  "version_interface namespace tweak = \<lparr>ig_namespace = namespace, ig_tweakListOptions = tweak\<rparr>"

definition V1alpha1 :: "informer_group \<Rightarrow> informer_group" where
  "V1alpha1 g = version_interface (ig_namespace g) (ig_tweakListOptions g)"

definition version_SlurmBridgeJobs :: "informer_group \<Rightarrow> slurmBridgeJobInformer" where
  "version_SlurmBridgeJobs v = \<lparr>si_tweakListOptions = ig_tweakListOptions v, si_namespace = ig_namespace v\<rparr>"

definition Kubecluster :: "'w sharedInformerFactory \<Rightarrow> informer_group" where
  "Kubecluster f = group_interface (sf_namespace f) (sf_tweakListOptions f)"

record 'w genericInformer =
  gi_informer :: "'w informer"
  gi_resource :: "string \<times> string"

definition generic_Informer :: "'w genericInformer \<Rightarrow> 'w informer" where
  "generic_Informer f = gi_informer f"

text \<open>A generic lister: its indexer and its resource.\<close>

definition generic_Lister :: "('w informer \<Rightarrow> indexer) \<Rightarrow> 'w genericInformer \<Rightarrow> indexer \<times> string \<times> string" where
  "generic_Lister GetIndexer f = (GetIndexer (generic_Informer f), gi_resource f)"

definition resource_text :: "GroupVersionResource \<Rightarrow> string" where
  "resource_text r = gv_Group (gvr_GroupVersion r) @ ''/'' @ gv_Version (gvr_GroupVersion r) @
     '', Resource='' @ gvr_Resource r"

definition ForResource ::
    "GroupVersionResource \<Rightarrow> 'w sharedInformerFactory \<Rightarrow> 'w genericInformer result \<times> 'w sharedInformerFactory" where
  "ForResource resource f =
     (if resource = WithResource SchemeGroupVersion ''slurmbridgejobs'' then
        (case Informer (version_SlurmBridgeJobs (V1alpha1 (Kubecluster f))) f of
           (informer, f') \<Rightarrow>
             (Inr \<lparr>gi_informer = informer,
                   gi_resource = (gv_Group (gvr_GroupVersion resource), gvr_Resource resource)\<rparr>, f'))
      else (Inl (ErrorString (''no informer found for '' @ resource_text resource)), f))"

section \<open>The factory as a step relation\<close>

text \<open>
  Between the calls, which hold the lock, a goroutine may end. The functions that make informers give the
  new one the number they are handed.
\<close>

inductive factory_step :: "'w sharedInformerFactory \<Rightarrow> 'w sharedInformerFactory \<Rightarrow> bool" where
  inform: "InformerFor t newFunc f = (i, f') \<Longrightarrow> (\<And>c r n. in_id (newFunc c r n) = n) \<Longrightarrow> factory_step f f'"
| start: "factory_step f (factory_Start f)"
| shutdown: "factory_step f (factory_Shutdown f)"
| ended: "n \<in> set (sf_running f) \<Longrightarrow> factory_step f (f\<lparr>sf_running := remove1 n (sf_running f)\<rparr>)"

definition fresh_factory :: "'w sharedInformerFactory \<Rightarrow> bool" where
  "fresh_factory f \<longleftrightarrow> sf_informers f = [] \<and> sf_startedInformers f = [] \<and> sf_running f = [] \<and> \<not> sf_shuttingDown f"

lemma new_factories_fresh:
  "fresh_factory (NewSharedInformerFactory client resync)"
  "fresh_factory (NewFilteredSharedInformerFactory client resync ns tweak)"
  "fresh_factory (NewSharedInformerFactoryWithOptions client resync [WithCustomResyncConfig cfg, WithNamespace ns])"
  by (simp_all add: fresh_factory_def NewSharedInformerFactory_def NewFilteredSharedInformerFactory_def
      NewSharedInformerFactoryWithOptions_def WithNamespace_def WithTweakListOptions_def WithCustomResyncConfig_def)

definition factory_inv :: "'w sharedInformerFactory \<Rightarrow> bool" where
  "factory_inv f \<longleftrightarrow>
     distinct (map fst (sf_informers f)) \<and> map (in_id \<circ> snd) (sf_informers f) = [0..<length (sf_informers f)] \<and>
     distinct (sf_startedInformers f) \<and> distinct (sf_running f) \<and>
     (\<forall>n \<in> set (sf_running f). \<exists>t i. (t, i) \<in> set (sf_informers f) \<and> t \<in> set (sf_startedInformers f) \<and> in_id i = n)"

lemma fresh_factory_inv: "fresh_factory f \<Longrightarrow> factory_inv f"
  by (simp add: fresh_factory_def factory_inv_def)

lemma start_informers_keeps [simp]:
  "sf_informers (start_informers is' f) = sf_informers f"
  "sf_shuttingDown (start_informers is' f) = sf_shuttingDown f"
  by (induction is' arbitrary: f) (simp_all split: if_splits prod.splits add: split_paired_all)

lemma informer_ids:
  assumes "map (in_id \<circ> snd) is' = [0..<length is']" and "(t, i) \<in> set is'" and "(t', i') \<in> set is'"
    and "in_id i = in_id i'"
  shows "(t, i) = (t', i')"
proof -
  have "inj_on (in_id \<circ> snd) (set is')"
    using assms(1) by (metis distinct_map distinct_upt)
  from inj_onD [OF this, of "(t, i)" "(t', i')"] show ?thesis using assms(2-4) by simp
qed

lemma start_informers_inv:
  "factory_inv f \<Longrightarrow> set is' \<subseteq> set (sf_informers f) \<Longrightarrow> factory_inv (start_informers is' f)"
proof (induction is' arbitrary: f)
  case (Cons x is')
  obtain t i where x: "x = (t, i)" by (cases x)
  show ?case
  proof (cases "t \<in> set (sf_startedInformers f)")
    case False
    let ?f = "f\<lparr>sf_running := in_id i # sf_running f, sf_startedInformers := t # sf_startedInformers f\<rparr>"
    have ti: "(t, i) \<in> set (sf_informers f)" using Cons.prems(2) x by simp
    have "in_id i \<notin> set (sf_running f)"
    proof
      assume "in_id i \<in> set (sf_running f)"
      then obtain t' i' where "(t', i') \<in> set (sf_informers f)" "t' \<in> set (sf_startedInformers f)" "in_id i' = in_id i"
        using Cons.prems(1) by (auto simp: factory_inv_def)
      then show False using informer_ids [OF _ ti] False Cons.prems(1) by (fastforce simp: factory_inv_def)
    qed
    moreover have "\<exists>t' i'. (t', i') \<in> set (sf_informers f) \<and> t' \<in> set (t # sf_startedInformers f) \<and> in_id i' = n"
      if "n \<in> set (in_id i # sf_running f)" for n
      using that ti Cons.prems(1) unfolding factory_inv_def set_simps by blast
    ultimately have "factory_inv ?f" using Cons.prems(1) False unfolding factory_inv_def by simp
    then show ?thesis using Cons.IH [of ?f] Cons.prems(2) False x by simp
  qed (use Cons x in simp)
qed simp

lemma InformerFor_inv:
  assumes "factory_inv f" and "InformerFor t newFunc f = (i, f')" and "\<And>c r n. in_id (newFunc c r n) = n"
  shows "factory_inv f'"
proof (cases "map_of (sf_informers f) t")
  case None
  then have "t \<notin> fst ` set (sf_informers f)" by (simp add: map_of_eq_None_iff)
  then show ?thesis
    using assms None by (fastforce simp: factory_inv_def InformerFor_def Let_def)
next
  case (Some j)
  then show ?thesis using assms by (simp add: InformerFor_def)
qed

lemma factory_step_inv: "factory_step f f' \<Longrightarrow> factory_inv f \<Longrightarrow> factory_inv f'"
proof (induction rule: factory_step.induct)
  case (inform t newFunc f i f')
  then show ?case using InformerFor_inv by blast
next
  case (start f)
  then show ?case by (simp add: factory_Start_def start_informers_inv)
next
  case (shutdown f)
  then show ?case by (simp add: factory_Shutdown_def factory_inv_def)
next
  case (ended n f)
  then show ?case by (auto simp: factory_inv_def dest: in_set_remove1 [THEN iffD1, rotated] notin_set_remove1)
qed

lemma factory_steps_inv: "factory_step\<^sup>*\<^sup>* f f' \<Longrightarrow> factory_inv f \<Longrightarrow> factory_inv f'"
  by (induction rule: rtranclp_induct) (auto intro: factory_step_inv)

text \<open>An informer that was handed out stays the informer of its type.\<close>

lemma factory_step_informer:
  "factory_step f f' \<Longrightarrow> map_of (sf_informers f) t = Some i \<Longrightarrow> map_of (sf_informers f') t = Some i"
  by (induction rule: factory_step.induct)
     (auto simp: InformerFor_def factory_Start_def factory_Shutdown_def Let_def map_add_def split: option.splits)

lemma factory_steps_informer:
  "factory_step\<^sup>*\<^sup>* f f' \<Longrightarrow> map_of (sf_informers f) t = Some i \<Longrightarrow> map_of (sf_informers f') t = Some i"
  by (induction rule: rtranclp_induct) (auto intro: factory_step_informer)

lemma factory_step_shutdown:
  "factory_step f f' \<Longrightarrow> sf_shuttingDown f \<Longrightarrow>
     sf_shuttingDown f' \<and> set (sf_running f') \<subseteq> set (sf_running f) \<and> sf_startedInformers f' = sf_startedInformers f"
  by (induction rule: factory_step.induct)
     (auto simp: InformerFor_def factory_Start_def factory_Shutdown_def Let_def dest!: set_remove1_subset [THEN subsetD] split: option.splits)

lemma factory_steps_shutdown:
  "factory_step\<^sup>*\<^sup>* f f' \<Longrightarrow> sf_shuttingDown f \<Longrightarrow>
     sf_shuttingDown f' \<and> set (sf_running f') \<subseteq> set (sf_running f) \<and> sf_startedInformers f' = sf_startedInformers f"
  by (induction rule: rtranclp_induct) (auto dest!: factory_step_shutdown)

lemma InformerFor_known:
  "InformerFor t newFunc f = (i, f') \<Longrightarrow> map_of (sf_informers f') t = Some i"
  by (auto simp: InformerFor_def Let_def map_add_def split: option.splits)

text \<open>\<^verbatim>\<open>Start\<close> starts every informer that was not, and a second call nothing.\<close>

lemma start_informers_started:
  "set (sf_startedInformers (start_informers is' f)) = set (sf_startedInformers f) \<union> fst ` set is'"
proof (induction is' arbitrary: f)
  case (Cons x is')
  then show ?case by (cases x) auto
qed simp

lemma start_informers_idle: "fst ` set is' \<subseteq> set (sf_startedInformers f) \<Longrightarrow> start_informers is' f = f"
proof (induction is')
  case (Cons x is')
  then show ?case by (cases x) auto
qed simp

lemma factory_Start_started:
  assumes "\<not> sf_shuttingDown f" and "map_of (sf_informers f) t = Some i"
  shows "t \<in> set (sf_startedInformers (factory_Start f))"
  using assms by (force simp: factory_Start_def start_informers_started dest: map_of_SomeD)

lemma factory_Start_idle: "factory_Start (factory_Start f) = factory_Start f"
  by (simp add: factory_Start_def start_informers_idle start_informers_started)

text \<open>
  C36. The informers of a factory are shared and each runs once. Whatever calls and ends of goroutines come
  between, in any order, a second request for the informer of a type is answered with the one that was handed
  out first and changes nothing; no informer is started twice or runs in two goroutines; \<^verbatim>\<open>Start\<close> leaves no
  informer that was handed out unstarted and does nothing when called again; and once \<^verbatim>\<open>Shutdown\<close> has marked the
  factory no goroutine is added, so that those it waits for only become fewer.
\<close>

theorem shared_informers_once:
  assumes fresh: "fresh_factory f0" and before: "factory_step\<^sup>*\<^sup>* f0 f"
    and first: "InformerFor t newFunc f = (i, f1)" and numbered: "\<And>c r n. in_id (newFunc c r n) = n"
    and between: "factory_step\<^sup>*\<^sup>* f1 f2"
  shows "InformerFor t newFunc' f2 = (i, f2) \<and>
     distinct (sf_startedInformers f2) \<and> distinct (sf_running f2) \<and>
     (sf_shuttingDown f2 \<or> t \<in> set (sf_startedInformers (factory_Start f2))) \<and> factory_Start (factory_Start f2) = factory_Start f2 \<and>
     (sf_shuttingDown f1 \<longrightarrow> factory_Start f2 = f2 \<and> set (sf_running f2) \<subseteq> set (sf_running f1))"
proof -
  have "factory_inv f1"
    using InformerFor_inv [OF factory_steps_inv [OF before fresh_factory_inv [OF fresh]] first numbered] .
  then have inv: "factory_inv f2" using factory_steps_inv [OF between] by simp
  have known: "map_of (sf_informers f2) t = Some i"
    using factory_steps_informer [OF between InformerFor_known [OF first]] .
  have "factory_Start f2 = f2 \<and> set (sf_running f2) \<subseteq> set (sf_running f1)" if "sf_shuttingDown f1"
    using factory_steps_shutdown [OF between that] by (simp add: factory_Start_def)
  then show ?thesis
    using inv known factory_Start_started [OF _ known] by (auto simp: InformerFor_def factory_inv_def factory_Start_idle)
qed

lemma fresh_informer_runs:
  assumes "fresh_factory f" and "InformerFor t newFunc f = (i, f1)" and "\<And>c r n. in_id (newFunc c r n) = n"
  shows "sf_running (factory_Shutdown (factory_Start f1)) = [0]"
  using assms by (auto simp: fresh_factory_def InformerFor_def factory_Start_def factory_Shutdown_def Let_def)

lemma start_shutdown_steps: "factory_step\<^sup>*\<^sup>* f (factory_Shutdown (factory_Start f))"
  using factory_step.start [of f] factory_step.shutdown [of "factory_Start f"] by simp

text \<open>A client that answers nothing, for the example.\<close>

definition idle_client :: "unit rest_client" where
  "idle_client = \<lparr>re_GroupVersion = SchemeGroupVersion, re_Job = (\<lambda>r w. ((sample_sbj [], None), w)),
     re_List = (\<lambda>r w. (([], None), w)), re_Error = (\<lambda>r w. (None, w)), re_Watch = (\<lambda>r w. (Inr ''watch'', w))\<rparr>"

theorem shared_informers_once_witness:
  "\<exists>f1 f2 i. InformerFor ''*v1alpha1.SlurmBridgeJob'' (defaultInformer \<lparr>si_tweakListOptions = None, si_namespace = []\<rparr>)
      (NewSharedInformerFactory (clientset_New idle_client) 0) = (i, f1) \<and> f2 = factory_Shutdown (factory_Start f1) \<and>
     sf_running f2 = [0] \<and> InformerFor ''*v1alpha1.SlurmBridgeJob''
        (defaultInformer \<lparr>si_tweakListOptions = None, si_namespace = ''other''\<rparr>) f2 = (i, f2)"
proof -
  let ?t = "''*v1alpha1.SlurmBridgeJob''"
  let ?new = "defaultInformer \<lparr>si_tweakListOptions = None, si_namespace = []\<rparr>"
  let ?f0 = "NewSharedInformerFactory (clientset_New idle_client) 0"
  obtain i f1 where first: "InformerFor ?t ?new ?f0 = (i, f1)" by (cases "InformerFor ?t ?new ?f0")
  have numbered: "in_id (?new c r n) = n" for c :: "unit Clientset" and r n
    by (simp add: defaultInformer_def NewFilteredSlurmBridgeJobInformer_def)
  note fresh = new_factories_fresh(1) [of "clientset_New idle_client" 0]
  have "InformerFor ?t newFunc' (factory_Shutdown (factory_Start f1)) = (i, factory_Shutdown (factory_Start f1))" for newFunc'
    using shared_informers_once [OF fresh rtranclp.rtrancl_refl first numbered start_shutdown_steps] by (rule conjunct1)
  then show ?thesis
    using first fresh_informer_runs [OF fresh first numbered] by (intro exI conjI) (assumption | rule refl)+
qed

section \<open>The version the client speaks\<close>

text \<open>
  A client set made from a configuration always asks the API server for the version \<^verbatim>\<open>__internal\<close> of the
  group, whatever version the configuration names, because the version of the generated client is the one of
  \<^verbatim>\<open>SchemeGroupVersion\<close>; the resource definition serves \<^verbatim>\<open>v1alpha1\<close> only. For the same reason a factory has no
  informer for the version that is served: \<^verbatim>\<open>ForResource\<close> is an error for it. That a REST client speaks the
  version of its configuration is \<^verbatim>\<open>client-go\<close>'s contract.
\<close>

theorem generated_client_version:
  assumes lib: "\<And>c t k. rl_RESTClientForConfigAndClient L c t = Inr k \<Longrightarrow> rc_GroupVersion c = Some (re_GroupVersion k)"
    and made: "NewForConfig L c = Inr cs"
  shows "(\<exists>k. js_client (SlurmBridgeJobs (Some (KubeclusterV1alpha1 cs)) ns) = Some k \<and>
       re_GroupVersion k = \<lparr>gv_Group = ''kubecluster.org'', gv_Version = ''__internal''\<rparr>) \<and>
     ForResource (WithResource api_GroupVersion ''slurmbridgejobs'') (NewSharedInformerFactory cs resync) =
       (Inl (ErrorString ''no informer found for kubecluster.org/v1alpha1, Resource=slurmbridgejobs''),
        NewSharedInformerFactory cs resync)"
proof
  obtain t c' k where k: "rl_RESTClientForConfigAndClient L (setConfigDefaults L c') t = Inr k"
    and cs: "cs = \<lparr>ct_kubeclusterV1alpha1 = \<lparr>kc_restClient = k\<rparr>\<rparr>"
    using made by (auto simp: NewForConfig_def NewForConfigAndClient_def group_NewForConfigAndClient_def Let_def
        split: sum.splits if_splits option.splits)
  have "rc_GroupVersion (setConfigDefaults L c') = Some SchemeGroupVersion" by (simp add: setConfigDefaults_def Let_def)
  then have "re_GroupVersion k = SchemeGroupVersion" using lib [OF k] by simp
  then show "\<exists>k. js_client (SlurmBridgeJobs (Some (KubeclusterV1alpha1 cs)) ns) = Some k \<and>
       re_GroupVersion k = \<lparr>gv_Group = ''kubecluster.org'', gv_Version = ''__internal''\<rparr>"
    by (simp add: cs SlurmBridgeJobs_def newSlurmBridgeJobs_def RESTClient_def KubeclusterV1alpha1_def
        SchemeGroupVersion_def GroupName_def)
qed (simp add: ForResource_def WithResource_def resource_text_def api_GroupVersion_def SchemeGroupVersion_def)

text \<open>A library that connects every configuration, and a configuration that names the served version.\<close>

definition example_rest_lib :: "(unit, unit) rest_lib" where
  "example_rest_lib = \<lparr>rl_DefaultKubernetesUserAgent = ''operator'', rl_HTTPClientFor = (\<lambda>c. Inr ()),
     rl_RESTClientForConfigAndClient = (\<lambda>c t. case rc_GroupVersion c of
        None \<Rightarrow> Inl (ErrorString ''GroupVersion is required'') | Some gv \<Rightarrow> Inr (idle_client\<lparr>re_GroupVersion := gv\<rparr>)),
     rl_DiscoveryError = (\<lambda>c t. None), rl_error_text = (\<lambda>e. [])\<rparr>"

definition example_rest_config :: rest_config where
  "example_rest_config = \<lparr>rc_Host = ''https://10.0.0.1'', rc_APIPath = [], rc_GroupVersion = Some api_GroupVersion,
     rc_NegotiatedSerializer = [], rc_UserAgent = [], rc_positive_QPS = True, rc_Burst = 10, rc_RateLimiter = None\<rparr>"

theorem generated_client_version_witness:
  "\<exists>cs k. NewForConfig example_rest_lib example_rest_config = Inr cs \<and>
     js_client (SlurmBridgeJobs (Some (KubeclusterV1alpha1 cs)) ''default'') = Some k \<and>
     gv_Version (re_GroupVersion k) = ''__internal''"
proof -
  have lib: "rc_GroupVersion c = Some (re_GroupVersion k)"
    if "rl_RESTClientForConfigAndClient example_rest_lib c t = Inr k" for c t k
    using that by (auto simp: example_rest_lib_def split: option.splits)
  obtain cs where made: "NewForConfig example_rest_lib example_rest_config = Inr cs"
    by (simp add: NewForConfig_def NewForConfigAndClient_def group_NewForConfigAndClient_def setConfigDefaults_def
        example_rest_lib_def example_rest_config_def Let_def)
  then show ?thesis using generated_client_version [OF lib made, where ns = "''default''"] by fastforce
qed

end
