(* ===== verification/OpenApi.thy ===== *)
theory OpenApi
  imports Prelude
begin

text \<open>
  The OpenAPI definitions of the API types (\<^verbatim>\<open>openapi_generated.go\<close>): the schema of a job and of the
  configuration of the virtual kubelet, as the server publishes them. A reference to another definition is made by a
  function that the caller gives.
\<close>

section \<open>Schemas\<close>

datatype default_value = EmptyMap | StringValue string | BoolValue bool | IntValue int

datatype schema = Schema
  (sc_Description: string) (sc_Type: "string list") (sc_Format: string) (sc_Default: "default_value option")
  (sc_Ref: "string option") (sc_Properties: "(string \<times> schema) list") (sc_Items: "schema option")
  (sc_AdditionalProperties: "schema option") (sc_Required: "string list")

record openapi_definition =
  od_Schema :: schema
  od_Dependencies :: "string list"

definition leaf_schema ::
    "string \<Rightarrow> string list \<Rightarrow> string \<Rightarrow> default_value option \<Rightarrow> string option \<Rightarrow> schema" where
  "leaf_schema description types format dflt ref = Schema description types format dflt ref [] None None []"

fun with_items :: "schema \<Rightarrow> schema \<Rightarrow> schema" where
  "with_items it (Schema d t f v r ps _ a q) = Schema d t f v r ps (Some it) a q"

fun with_additional :: "schema \<Rightarrow> schema \<Rightarrow> schema" where
  "with_additional ad (Schema d t f v r ps i _ q) = Schema d t f v r ps i (Some ad) q"

definition object_schema :: "string \<Rightarrow> (string \<times> schema) list \<Rightarrow> string list \<Rightarrow> schema" where
  "object_schema description properties required =
     Schema description [''object''] [] None None properties None None required"

definition string_schema :: schema where
  "string_schema = leaf_schema [] [''string''] [] (Some (StringValue [])) None"

definition api_package :: string where
  "api_package = ''github.com/chriskery/slurm-bridge-operator/apis/kubecluster.org/v1alpha1.''"

definition meta_package :: string where
  "meta_package = ''k8s.io/apimachinery/pkg/apis/meta/v1.''"

section \<open>The definitions\<close>

definition schema_SlurmBridgeJob :: "(string \<Rightarrow> string) \<Rightarrow> openapi_definition" where
  "schema_SlurmBridgeJob ref =
    \<lparr>od_Schema = object_schema ''SlurmBridgeJob is the Schema for the slurmbridgejobs API''
     [(''kind'', leaf_schema ''Kind is a string value representing the REST resource this object represents. Servers may infer this from the endpoint the client submits requests to. Cannot be updated. In CamelCase. More info: https://git.k8s.io/community/contributors/devel/sig-architecture/api-conventions.md#types-kinds'' [''string''] [] None None),
      (''apiVersion'', leaf_schema ''APIVersion defines the versioned schema of this representation of an object. Servers should convert recognized schemas to the latest internal value, and may reject unrecognized values. More info: https://git.k8s.io/community/contributors/devel/sig-architecture/api-conventions.md#resources'' [''string''] [] None None),
      (''metadata'', leaf_schema [] [] [] (Some EmptyMap) (Some (ref (meta_package @ ''ObjectMeta'')))),
      (''spec'', leaf_schema [] [] [] (Some EmptyMap) (Some (ref (api_package @ ''SlurmBridgeJobSpec'')))),
      (''status'', leaf_schema [] [] [] (Some EmptyMap) (Some (ref (api_package @ ''SlurmBridgeJobStatus''))))]
     [],
     od_Dependencies = [api_package @ ''SlurmBridgeJobSpec'', api_package @ ''SlurmBridgeJobStatus'', meta_package @ ''ObjectMeta'']\<rparr>"

text \<open>The properties of the configuration, in two halves.\<close>

definition configuration_properties_server :: "(string \<Rightarrow> string) \<Rightarrow> (string \<times> schema) list" where
  "configuration_properties_server ref =
     [(''kind'', leaf_schema ''Kind is a string value representing the REST resource this object represents. Servers may infer this from the endpoint the client submits requests to. Cannot be updated. In CamelCase. More info: https://git.k8s.io/community/contributors/devel/sig-architecture/api-conventions.md#types-kinds'' [''string''] [] None None),
      (''apiVersion'', leaf_schema ''APIVersion defines the versioned schema of this representation of an object. Servers should convert recognized schemas to the latest internal value, and may reject unrecognized values. More info: https://git.k8s.io/community/contributors/devel/sig-architecture/api-conventions.md#resources'' [''string''] [] None None),
      (''metadata'', leaf_schema [] [] [] (Some EmptyMap) (Some (ref (meta_package @ ''ListMeta'')))),
      (''Pods'', leaf_schema [] [''string''] [] (Some (StringValue [])) None),
      (''EnableServer'', leaf_schema ''enableServer enables Kubelet's secured server. Note: Kubelet's insecure port is controlled by the readOnlyPort option.'' [''boolean''] [] (Some (BoolValue False)) None),
      (''StaticPodPath'', leaf_schema ''staticPodPath is the path to the directory containing local (static) pods to run, or the path to a single static pod file.'' [''string''] [] (Some (StringValue [])) None),
      (''SyncFrequency'', leaf_schema ''syncFrequency is the max period between synchronizing running containers and config'' [] [] (Some (IntValue 0)) (Some (ref (meta_package @ ''Duration'')))),
      (''FileCheckFrequency'', leaf_schema ''fileCheckFrequency is the duration between checking config files for new data'' [] [] (Some (IntValue 0)) (Some (ref (meta_package @ ''Duration'')))),
      (''HTTPCheckFrequency'', leaf_schema ''httpCheckFrequency is the duration between checking http for new data'' [] [] (Some (IntValue 0)) (Some (ref (meta_package @ ''Duration'')))),
      (''StaticPodURL'', leaf_schema ''staticPodURL is the URL for accessing static pods to run'' [''string''] [] (Some (StringValue [])) None),
      (''StaticPodURLHeader'', with_additional (with_items string_schema (leaf_schema [] [''array''] [] None None)) (leaf_schema ''staticPodURLHeader is a map of slices with HTTP headers to use when accessing the podURL'' [''object''] [] None None)),
      (''Address'', leaf_schema ''address is the IP address for the Kubelet to serve on (set to 0.0.0.0 for all interfaces)'' [''string''] [] (Some (StringValue [])) None),
      (''Port'', leaf_schema ''port is the port for the Kubelet to serve on.'' [''integer''] ''int32'' (Some (IntValue 0)) None),
      (''ReadOnlyPort'', leaf_schema ''readOnlyPort is the read-only port for the Kubelet to serve on with no authentication/authorization (set to 0 to disable)'' [''integer''] ''int32'' (Some (IntValue 0)) None)]"

definition configuration_properties_security :: "(string \<times> schema) list" where
  "configuration_properties_security =
     [(''VolumePluginDir'', leaf_schema ''volumePluginDir is the full path of the directory in which to search for additional third party volume plugins.'' [''string''] [] (Some (StringValue [])) None),
      (''ProviderID'', leaf_schema ''providerID, if set, sets the unique id of the instance that an external provider (i.e. cloudprovider) can use to identify a specific node'' [''string''] [] (Some (StringValue [])) None),
      (''TLSCertFile'', leaf_schema ''tlsCertFile is the file containing x509 Certificate for HTTPS.  (CA cert, if any, concatenated after server cert). If tlsCertFile and tlsPrivateKeyFile are not provided, a self-signed certificate and key are generated for the public address and saved to the directory passed to the Kubelet's --cert-dir flag.'' [''string''] [] (Some (StringValue [])) None),
      (''TLSPrivateKeyFile'', leaf_schema ''tlsPrivateKeyFile is the file containing x509 private key matching tlsCertFile'' [''string''] [] (Some (StringValue [])) None),
      (''TLSCipherSuites'', with_items string_schema (leaf_schema ''TLSCipherSuites is the list of allowed cipher suites for the server. Note that TLS 1.3 ciphersuites are not configurable. Values are from tls package constants (https://golang.org/pkg/crypto/tls/#pkg-constants).'' [''array''] [] None None)),
      (''TLSMinVersion'', leaf_schema ''TLSMinVersion is the minimum TLS version supported. Values are from tls package constants (https://golang.org/pkg/crypto/tls/#pkg-constants).'' [''string''] [] (Some (StringValue [])) None),
      (''RotateCertificates'', leaf_schema ''rotateCertificates enables client certificate rotation. The Kubelet will request a new certificate from the certificates.k8s.io API. This requires an approver to approve the certificate signing requests.'' [''boolean''] [] (Some (BoolValue False)) None),
      (''ServerTLSBootstrap'', leaf_schema ''serverTLSBootstrap enables server certificate bootstrap. Instead of self signing a serving certificate, the Kubelet will request a certificate from the certificates.k8s.io API. This requires an approver to approve the certificate signing requests. The RotateKubeletServerCertificate feature must be enabled.'' [''boolean''] [] (Some (BoolValue False)) None)]"

definition schema_SlurmVirtualKubeletConfiguration :: "(string \<Rightarrow> string) \<Rightarrow> openapi_definition" where
  "schema_SlurmVirtualKubeletConfiguration ref =
    \<lparr>od_Schema = object_schema ''SlurmVirtualKubeletConfiguration contains the configuration for the Kubelet''
     (configuration_properties_server ref @ configuration_properties_security)
     [''Pods'', ''EnableServer'', ''StaticPodPath'', ''SyncFrequency'', ''FileCheckFrequency'', ''HTTPCheckFrequency'', ''StaticPodURL'', ''StaticPodURLHeader'', ''Address'', ''Port'', ''ReadOnlyPort'', ''VolumePluginDir'', ''ProviderID'', ''TLSCertFile'', ''TLSPrivateKeyFile'', ''TLSCipherSuites'', ''TLSMinVersion'', ''RotateCertificates'', ''ServerTLSBootstrap''],
     od_Dependencies = [meta_package @ ''Duration'', meta_package @ ''ListMeta'']\<rparr>"

definition GetOpenAPIDefinitions :: "(string \<Rightarrow> string) \<Rightarrow> string \<rightharpoonup> openapi_definition" where
  "GetOpenAPIDefinitions ref =
     [api_package @ ''SlurmBridgeJob'' \<mapsto> schema_SlurmBridgeJob ref,
      api_package @ ''SlurmVirtualKubeletConfiguration'' \<mapsto> schema_SlurmVirtualKubeletConfiguration ref]"

section \<open>What they refer to\<close>

text \<open>The references of the properties, and whether the parts of a schema fit: what is required is a property,
  no property stands twice, and a default is of the type of its property.\<close>

definition schema_refs :: "schema \<Rightarrow> string list" where
  "schema_refs s = concat (map (\<lambda>(n, p). case sc_Ref p of None \<Rightarrow> [] | Some r \<Rightarrow> [r]) (sc_Properties s))"

fun default_fits :: "default_value option \<Rightarrow> string list \<Rightarrow> bool" where
  "default_fits None t = True"
| "default_fits (Some (StringValue v)) t = (t = [''string''])"
| "default_fits (Some (BoolValue v)) t = (t = [''boolean''])"
| "default_fits (Some (IntValue v)) t = (t = [''integer''] \<or> t = [])"
| "default_fits (Some EmptyMap) t = (t = [])"

definition schema_fits :: "schema \<Rightarrow> bool" where
  "schema_fits s \<longleftrightarrow>
     distinct (map fst (sc_Properties s)) \<and> list_all (\<lambda>n. n \<in> fst ` set (sc_Properties s)) (sc_Required s) \<and>
     list_all (\<lambda>(n, p). default_fits (sc_Default p) (sc_Type p)) (sc_Properties s)"

lemma schemas_fit:
  "schema_fits (od_Schema (schema_SlurmBridgeJob ref))"
  "schema_fits (od_Schema (schema_SlurmVirtualKubeletConfiguration ref))"
  by (simp_all add: schema_fits_def schema_SlurmBridgeJob_def schema_SlurmVirtualKubeletConfiguration_def object_schema_def
      leaf_schema_def configuration_properties_server_def configuration_properties_security_def)

text \<open>The dependencies of a definition are what its properties refer to.\<close>

lemma dependencies_are_refs:
  "set (schema_refs (od_Schema (schema_SlurmBridgeJob ref))) = ref ` set (od_Dependencies (schema_SlurmBridgeJob ref))"
  "set (schema_refs (od_Schema (schema_SlurmVirtualKubeletConfiguration ref))) =
     ref ` set (od_Dependencies (schema_SlurmVirtualKubeletConfiguration ref))"
  by (auto simp: schema_refs_def schema_SlurmBridgeJob_def schema_SlurmVirtualKubeletConfiguration_def object_schema_def
      leaf_schema_def configuration_properties_server_def configuration_properties_security_def)

text \<open>A job depends on definitions of this package that are not among those it gives.\<close>

lemma job_definition_incomplete:
  "api_package @ ''SlurmBridgeJobSpec'' \<in> set (od_Dependencies (schema_SlurmBridgeJob ref))"
  "GetOpenAPIDefinitions ref (api_package @ ''SlurmBridgeJobSpec'') = None"
  by (simp_all add: schema_SlurmBridgeJob_def GetOpenAPIDefinitions_def)

end
