(* ===== verification/Spec2Isabelle.thy ===== *)
theory Spec2Isabelle
  imports JobJourney BridgeSystem TrackerLoop TailControl FsWatcher WinFile ResultPipeline Commands KubeletTracing KubeletConfigIO GlobalFlags DeepCopy Informers OpenApi
begin

text \<open>
  \<^bold>\<open>A bridge from Kubernetes to Slurm.\<close> The repository runs Slurm batch jobs for Kubernetes users. A user
  creates a \<^verbatim>\<open>SlurmBridgeJob\<close>; the \<^emph>\<open>operator\<close> (\<^verbatim>\<open>pkg/slurm-bridge-operator\<close>) turns it into a sizecar pod
  whose only container carries the batch script; the scheduler binds the pod to the node of a
  \<^emph>\<open>virtual kubelet\<close> (\<^verbatim>\<open>pkg/slurm-virtual-kubelet\<close>), one per Slurm partition, kept running by the
  \<^emph>\<open>configurator\<close> (\<^verbatim>\<open>pkg/configurator\<close>); the kubelet's provider submits the pod to the \<^emph>\<open>agent\<close>
  (\<^verbatim>\<open>pkg/slurm-agent\<close>), a gRPC service on a Slurm login node that runs \<^verbatim>\<open>sbatch\<close>, \<^verbatim>\<open>scontrol\<close> and
  \<^verbatim>\<open>sacct\<close> and parses what they print. States and logs travel back the same way: the kubelet asks
  the agent about the job, reports the pod's status with the answer as its message, and the operator
  decodes the message into the status of the job, creates a worker pod with a container per Slurm
  job, and at the end a batch job that fetches results.

  \<^bold>\<open>Theories.\<close> In the order of their imports, with the sources (under \<^verbatim>\<open>src/\<close>) each one models:

  \<^item> \<^verbatim>\<open>Prelude\<close>: integers at Go's widths as words, error values, results and panics, maps.
    \<^verbatim>\<open>GoStrings\<close>, \<^verbatim>\<open>GoTime\<close>, \<^verbatim>\<open>GoPath\<close>: the functions of Go's \<^verbatim>\<open>strings\<close>, \<^verbatim>\<open>strconv\<close>, \<^verbatim>\<open>bufio\<close>,
    \<^verbatim>\<open>time\<close> and \<^verbatim>\<open>path/filepath\<close> the code calls, as executable functions on byte strings, with
    their round trips (split and join, print and parse of numbers and times).
  \<^item> \<^verbatim>\<open>Workload\<close>: the messages of \<^verbatim>\<open>pkg/workload/workload.proto\<close>.
  \<^item> \<^verbatim>\<open>SlurmParse\<close> (\<^verbatim>\<open>pkg/slurm-agent/parse.go\<close>): parsers of durations, partitions, nodes and job
    steps. The lemmas print a value the way Slurm does and show that parsing gives it back.
  \<^item> \<^verbatim>\<open>GoIO\<close>: the contract of an \<^verbatim>\<open>io.Reader\<close> as the locales \<open>io_reader\<close>, \<open>finite_reader\<close> and
    \<open>clean_reader\<close>; \<^verbatim>\<open>TailReader\<close> (\<^verbatim>\<open>pkg/common/tail/reader.go\<close>) and \<^verbatim>\<open>VKReader\<close>
    (\<^verbatim>\<open>pkg/slurm-virtual-kubelet/reader.go\<close>) are instances.
  \<^item> \<^verbatim>\<open>SlurmClient\<close> (\<^verbatim>\<open>pkg/slurm-agent/slurm.go\<close>): the client; a record of functions stands for
    running a binary and opening a file, over a state \<open>'w\<close> of the machine.
  \<^item> \<^verbatim>\<open>SlurmServer\<close> (\<^verbatim>\<open>pkg/slurm-agent/api/slurm.go\<close>): the RPC handlers over the client and the map
    of known jobs. \<^verbatim>\<open>SubmitService\<close>: the contract of keyed submission as the locale
    \<open>keyed_submit\<close>, its instance \<^const>\<open>SubmitJob\<close>, and the interleavings of several handlers as a
    step relation: sequential submission is idempotent, concurrent submission is not.
  \<^item> \<^verbatim>\<open>KubeTypes\<close> (\<^verbatim>\<open>apis/kubecluster.org/v1alpha1\<close>, \<^verbatim>\<open>pkg/common\<close>): the Kubernetes objects with the
    fields the code uses, the resource and its validation, and what the scheduler asks of a node.
  \<^item> \<^verbatim>\<open>OperatorParse\<close>, \<^verbatim>\<open>OperatorPod\<close>, \<^verbatim>\<open>Operator\<close> (\<^verbatim>\<open>parse.go\<close>, \<^verbatim>\<open>pod.go\<close>, \<^verbatim>\<open>result.go\<close>,
    \<^verbatim>\<open>slurmbridgejob_controller.go\<close>): the operator; its calls to the API server are logged to state
    what one reconciliation may write.
  \<^item> \<^verbatim>\<open>VKOptions\<close> (\<^verbatim>\<open>options.go\<close>, \<^verbatim>\<open>well_known_labels.go\<close>, \<^verbatim>\<open>validation.go\<close>, \<^verbatim>\<open>server.go\<close>): flags,
    configuration, defaults, validation and the labels of the kubelet's node.
  \<^item> \<^verbatim>\<open>VKStatus\<close> (\<^verbatim>\<open>status.go\<close>): Slurm states to pod phases and container states. \<^verbatim>\<open>VKProvider\<close>
    (\<^verbatim>\<open>provider.go\<close>, \<^verbatim>\<open>node.go\<close>): the provider and the node; \<^verbatim>\<open>VKLifecycle\<close>: their lemmas.
  \<^item> \<^verbatim>\<open>Configurator\<close> (\<^verbatim>\<open>pkg/configurator\<close>): the pods of the kubelets; the locale \<open>pod_api\<close> is what it
    relies on of the API server.
  \<^item> \<^verbatim>\<open>LeakyBucket\<close>, \<^verbatim>\<open>TailWatch\<close>, \<^verbatim>\<open>TailLib\<close> (\<^verbatim>\<open>pkg/tail\<close>): the rate limiter over \<^verbatim>\<open>float64\<close> with a
    rounding function; the polling and inotify watchers and the tracker they share, its states under any
    interleaving as an inductive relation; and the tailing loop in rounds, with the lemmas that what
    is sent is the file line by line. \<^verbatim>\<open>TrackerLoop\<close> (\<^verbatim>\<open>inotify_tracker.go\<close>): the goroutine of the tracker and its
    callers, who meet on channels, as a labelled step function; what the callers see is the tracker of
    \<^verbatim>\<open>TailWatch\<close>, one operation after the other, and when they are served. \<^verbatim>\<open>TailControl\<close> (\<^verbatim>\<open>tail.go\<close>, \<^verbatim>\<open>gotail.go\<close>):
    stopping and closing a tail, and its command; \<^verbatim>\<open>WinFile\<close> (\<^verbatim>\<open>pkg/tail/winfile\<close>): the opener for Windows.
  \<^item> \<^verbatim>\<open>FileSystem\<close> (\<^verbatim>\<open>pkg/filesystem\<close>): the file system interface, its contract as the locale
    \<open>filesystem\<close>, and \<^verbatim>\<open>DefaultFs\<close> as an instance, on an operating system that may fail at any call.
    \<^verbatim>\<open>FileUtils\<close> (\<^verbatim>\<open>util/files/files.go\<close>): files are replaced as a whole, proved in the locale.
    \<^verbatim>\<open>FsWatcher\<close> (\<^verbatim>\<open>watcher.go\<close>): the callbacks over \<^verbatim>\<open>fsnotify\<close>.
  \<^item> \<^verbatim>\<open>GoFlag\<close>: command lines as Go's \<^verbatim>\<open>flag\<close> package reads them; \<^verbatim>\<open>FlagValues\<close> (\<^verbatim>\<open>pkg/common/flag\<close>):
    addresses and ports on a command line.
  \<^item> \<^verbatim>\<open>ResultFetcher\<close> (\<^verbatim>\<open>cmd/result-fetcher\<close>): the program that copies a job's output from the agent;
    \<^verbatim>\<open>ResultPipeline\<close>: from the status of a finished job over the shell command of its result job to the
    file in the volume.
  \<^item> \<^verbatim>\<open>KubeletFlags\<close> (\<^verbatim>\<open>options.go\<close>, \<^verbatim>\<open>server.go\<close>): the flags of the kubelet and what setting them does;
    the command line wins over the configuration file. \<^verbatim>\<open>KubeletProcess\<close> (\<^verbatim>\<open>server.go\<close>,
    \<^verbatim>\<open>virtual-kubelet.go\<close>, \<^verbatim>\<open>configfiles.go\<close>, \<^verbatim>\<open>tracing.go\<close>): from the command line to the kubelet that
    serves; \<^verbatim>\<open>KubeletRun\<close> (\<^verbatim>\<open>virtual-kubelet.go\<close>, \<^verbatim>\<open>manager/resource.go\<close>): the order in which it starts its
    informers, its node and its pods, and when it comes up. \<^verbatim>\<open>KubeletTracing\<close> (\<^verbatim>\<open>tracing_register*.go\<close>): the
    trace exporters; \<^verbatim>\<open>KubeletConfigIO\<close> (\<^verbatim>\<open>codec.go\<close>, \<^verbatim>\<open>configfiles.go\<close>): writing a configuration and reading it back;
    \<^verbatim>\<open>GlobalFlags\<close> (\<^verbatim>\<open>globalflags*.go\<close>): the flags of the libraries.
  \<^item> \<^verbatim>\<open>AgentProcess\<close> (\<^verbatim>\<open>cmd/slurm-agent\<close>): the start of the agent. \<^verbatim>\<open>Commands\<close> (\<^verbatim>\<open>cmd/bridge-operator\<close>,
    \<^verbatim>\<open>cmd/configurator\<close>, \<^verbatim>\<open>cmd/slurm-agent\<close>): the programs from their arguments to what they run, what wakes the
    operator, and the chain from the configurator's command line over the pod it makes to the node of the
    kubelet in that pod.
  \<^item> \<^verbatim>\<open>BridgeSystem\<close>: operator, kubelets and agent as one step relation over the pods of the
    cluster. A step is a reconciliation, a call of a provider, an edit by a user or another controller, the
    restart of a kubelet, or a call of somebody else to the agent. The invariant gives that the whole
    refines a ledger of submissions and that a pod has at most one Slurm job. Handlers are atomic here (their
    interleavings are in \<^verbatim>\<open>SubmitService\<close>), the agent is not restarted (\<^verbatim>\<open>AgentProcess\<close> shows what
    happens then), identifiers of pods are fresh, users do not write the label of the job, and other callers of
    the agent only read.
  \<^item> \<^verbatim>\<open>JobRequest\<close>: from a job to the request its pod becomes. \<^verbatim>\<open>JobJourney\<close>: operator, kubelet and agent run
    one after the other on a store of jobs and pods, from a new job to its final state, under the contracts
    \<open>job_store\<close> and \<open>kubelet_store\<close> of the API server, which the store meets.
  \<^item> Code that generators wrote: \<^verbatim>\<open>DeepCopy\<close> (\<^verbatim>\<open>zz_generated.deepcopy.go\<close>) copies objects in a memory of cells;
    \<^verbatim>\<open>Clientset\<close> (\<^verbatim>\<open>pkg/client/clientset\<close>): the typed client, its construction, and the fake for tests;
    \<^verbatim>\<open>Informers\<close> (\<^verbatim>\<open>pkg/client/informers\<close>, \<^verbatim>\<open>pkg/client/listers\<close>): the factory of shared informers as a step relation;
    \<^verbatim>\<open>OpenApi\<close> (\<^verbatim>\<open>openapi_generated.go\<close>): the published schemas.
  \<^item> This theory: the properties that span components. From the specification of a job to the
    command line of \<^verbatim>\<open>sbatch\<close>; scheduling; submission across restarts of the kubelet; from the
    states of Slurm to the status of the job; logs from the files to the bytes a user reads.

  \<^bold>\<open>Conventions.\<close> A fallible call returns a \<open>result\<close> (\<^const>\<open>Inl\<close> the error) or, where the code can
  panic, an \<open>outcome\<close>. Third-party code is a parameter: the API server, gRPC, JSON and protobuf
  conversions and the validation of apimachinery are functions in records, and a property that
  relies on their documented behaviour says so in its assumptions. Goroutines and \<^verbatim>\<open>select\<close> loops
  run on explicit sequences of events. There is no fuel: loops are structural recursions or come
  with a termination proof; a reader that may never end is handled by the sequence of reads made
  of it, and the bound on the number of reads is part of the statement.

  \<^bold>\<open>Not modelled.\<close> The registration of the types in schemes (\<^verbatim>\<open>register.go\<close>, \<^verbatim>\<open>scheme.go\<close>) and the generated
  serialisation and stubs of protobuf and gRPC; the inside of the managers, informers and controllers of
  controller-runtime, of \<^verbatim>\<open>client-go\<close> and of the virtual-kubelet library, which are parameters; the cutting of a kubelet's
  arguments by \<^verbatim>\<open>pflag\<close>; the texts of usage messages and the names of events; the queue that does nothing
  (\<^verbatim>\<open>fake_workqueue.go\<close>); and the operations of the file system interface that nothing calls (\<^verbatim>\<open>Chtimes\<close>, \<^verbatim>\<open>ReadDir\<close>,
  \<^verbatim>\<open>Walk\<close>). Logging has no effect in the model. Fields of Kubernetes objects that the code neither reads nor
  writes are left out.
\<close>

section \<open>From the job's specification to the command line of sbatch\<close>

text \<open>
  C1. What the user asks for reaches Slurm: for the pod the operator makes of a job, as the API server
  stores it, the virtual kubelet sends the job's script and the agent calls \<^verbatim>\<open>sbatch\<close> with exactly the
  options of the specification, for the partition the kubelet serves. The group of the
  specification is not among them.
\<close>

theorem spec_reaches_sbatch:
  assumes "newSizeCarPodForSJ set_owner sjb = Value pod" and "keeps_owner_labels set_owner"
    and "ps_Containers (pod_Spec pod') = ps_Containers (pod_Spec pod)"
    and "om_Labels (pod_Meta pod') = om_Labels (pod_Meta pod)"
  shows "\<exists>q. newSubmitRequestForPod s pod' = Value q \<and> sj_Uid q = pod_UID pod' \<and>
    sb_Script (sbatch_request q) = sp_SbatchScript (sbj_Spec sjb) \<and>
    opt_value (getSbatchOpts (sbatch_request q)) = job_options (pv_SlurmPartition s) sjb"
  using request_for_sizecar [OF assms, of s] by (auto simp: getSbatchOpts_spec sbatch_request_def)

theorem spec_reaches_sbatch_witness:
  "\<exists>pod q. newSizeCarPodForSJ (\<lambda>sjb m. Inr m) grouped_job = Value pod \<and>
     newSubmitRequestForPod sample_provider pod = Value q \<and>
     opt_value (getSbatchOpts (sbatch_request q)) ''--uid'' = Some ''1000'' \<and>
     opt_value (getSbatchOpts (sbatch_request q)) ''--gid'' = None"
proof -
  obtain pod where p: "newSizeCarPodForSJ (\<lambda>sjb m. Inr m) grouped_job = Value pod"
    using grouped_job_pod by blast
  have "keeps_owner_labels (\<lambda>sjb m. Inr m)" by (simp add: keeps_owner_labels_def)
  from spec_reaches_sbatch [OF p this refl refl, of sample_provider] p
  obtain q where "newSubmitRequestForPod sample_provider pod = Value q"
    "opt_value (getSbatchOpts (sbatch_request q)) = job_options (pv_SlurmPartition sample_provider) grouped_job"
    by blast
  moreover have "FormatInt64 1000 = ''1000''" by code_simp
  ultimately show ?thesis
    using p by (simp add: job_options_def grouped_job_def Let_def map_add_def)
qed

section \<open>Scheduling\<close>

lemma affinityForSj_terms:
  "affinityForSj sjb rr = Inr a \<Longrightarrow>
     a = [[\<lparr>nsr_Key = ''type'', nsr_Operator = ''In'', nsr_Values = [''virtual-kubelet'']\<rparr>,
           \<lparr>nsr_Key = PartitionLabel, nsr_Operator = ''In'', nsr_Values = [sp_Partition (sbj_Spec sjb)]\<rparr>]]"
  by (simp add: affinityForSj_def AffinityForResources_def DefaultNodeSelectors_def Let_def)

lemma sizecar_tolerates: "t \<in> set getDefaultTaints \<Longrightarrow> tolerated DefaultTolerations t"
  by (simp add: getDefaultTaints_def tolerated_def DefaultTolerations_def)

lemma NewNodeOrDie_node:
  "NewNodeOrDie e server ni w = (Inr node, w') \<Longrightarrow>
     kn_Labels node = fl_NodeLabels (ks_Flags server) \<and> kn_Taints node = getDefaultTaints"
  by (auto simp: NewNodeOrDie_def split: prod.splits sum.splits)

text \<open>
  C11. The pod of a job is scheduled to the virtual kubelet of its partition: on the node that a kubelet
  registers, whatever command line started it, the pod tolerates every taint, and its required
  affinity holds just when the job asks for the partition the kubelet observes.
\<close>

theorem sizecar_schedulable:
  assumes "newSizeCarPodForSJ set_owner sjb = Value pod" and "keeps_owner_labels set_owner"
    and "NewSlurmVirtualKubeltCommand P env args s = (Running vk srv, s')"
    and "vk_Run L vk w = (e, steps, w')" and "RunNode node \<in> set steps"
  shows "(\<forall>t \<in> set (kn_Taints node). tolerated (ps_Tolerations (pod_Spec pod)) t) \<and>
    (\<exists>aff. ps_Affinity (pod_Spec pod) = Some aff \<and>
       (affinity_holds (map_of (kn_Labels node)) aff \<longleftrightarrow>
          fl_SlurmPartition (ks_Flags (vk_KubeletServer vk)) = sp_Partition (sbj_Spec sjb)))"
proof -
  obtain aff where p: "ps_Tolerations (pod_Spec pod) = DefaultTolerations"
    "ps_Affinity (pod_Spec pod) = Some aff" "affinityForSj sjb undefined = Inr aff"
    by (rule newSizeCarPodForSJ_shape [OF assms(1,2)])
  obtain w1 where n: "NewNodeOrDie (ru_env L) (vk_KubeletServer vk) (ru_inputs L) w = (Inr node, w1)"
    using vk_Run_node [OF assms(4,5)] by blast
  have labels: "kn_Labels node = vk_node_labels (fl_NodeName (ks_Flags (vk_KubeletServer vk)))
      (fl_SlurmPartition (ks_Flags (vk_KubeletServer vk)))"
    using NewNodeOrDie_node [OF n] Running_node_labels [OF assms(3) refl] by simp
  have "affinity_holds (map_of (kn_Labels node)) aff \<longleftrightarrow>
      fl_SlurmPartition (ks_Flags (vk_KubeletServer vk)) = sp_Partition (sbj_Spec sjb)"
    unfolding affinityForSj_terms [OF p(3)] labels
    by (simp add: affinity_holds_def requirement_holds_def vk_node_labels_def DefaultNodeSelectors_def
        PartitionLabel_def)
  then show ?thesis using p(1,2) NewNodeOrDie_node [OF n] sizecar_tolerates by simp
qed

theorem sizecar_schedulable_witness:
  "\<exists>pod vk srv s' node steps w' aff. newSizeCarPodForSJ (\<lambda>sjb m. Inr m) grouped_job = Value pod \<and>
     NewSlurmVirtualKubeltCommand sample_process sample_env [] kubelet_os = (Running vk srv, s') \<and>
     vk_Run sample_run_lib vk [] = (Up, steps, w') \<and> RunNode node \<in> set steps \<and>
     ps_Affinity (pod_Spec pod) = Some aff \<and> affinity_holds (map_of (kn_Labels node)) aff"
proof -
  obtain pod where p: "newSizeCarPodForSJ (\<lambda>sjb m. Inr m) grouped_job = Value pod"
    using grouped_job_pod by blast
  have k: "keeps_owner_labels (\<lambda>sjb m. Inr m)" by (simp add: keeps_owner_labels_def)
  obtain vk srv s' where r: "NewSlurmVirtualKubeltCommand sample_process sample_env [] kubelet_os = (Running vk srv, s')"
    and f: "fl_SlurmPartition (ks_Flags (vk_KubeletServer vk)) = ''debug''"
    and up: "\<exists>steps node w'. vk_Run sample_run_lib vk [] = (Up, steps, w') \<and> RunNode node \<in> set steps"
    using sample_up by blast
  from up obtain steps node w' where u: "vk_Run sample_run_lib vk [] = (Up, steps, w')" "RunNode node \<in> set steps"
    by blast
  have "sp_Partition (sbj_Spec grouped_job) = ''debug''" by (simp add: grouped_job_def)
  with sizecar_schedulable [OF p k r u] f p r u show ?thesis by auto
qed

section \<open>Submission across restarts\<close>

text \<open>
  A pod is submitted to Slurm once, also when the kubelet forgets: if it restarts after a
  submission (its own map lost, the label of the pod not stored) and the pod is created again, by any
  later state of the agent, the agent hands out the same job and runs nothing.
\<close>

theorem restart_submits_nothing:
  assumes "needReconcile pod" and "validateCreatePod pod = None"
    and "newSubmitRequestForPod s pod = Value q" and "SubmitJob h (Some q) a = (Inr r, a1)"
    and "pv_KubeletServer t = pv_KubeletServer s"
  shows "\<exists>pod1 k1 pod2 k2.
    VKProvider.CreatePod (connect g h e) s pod (a, k) =
      (Value (), pod1, s\<lparr>pv_knownPods := (pv_knownPods s)(pod_UID pod \<mapsto> FormatInt64 (sjr_JobId r))\<rparr>, a1, k1) \<and>
    VKProvider.CreatePod (connect g h e) t pod (serve_calls h cs a1, k') =
      (Value (), pod2, t\<lparr>pv_knownPods := (pv_knownPods t)(pod_UID pod \<mapsto> FormatInt64 (sjr_JobId r))\<rparr>,
       serve_calls h cs a1, k2)"
proof -
  have q': "newSubmitRequestForPod t pod = Value q"
    using assms(3) unfolding newSubmitRequestForPod_def assms(5) .
  have "valid_request q"
    using assms(4) by (auto simp: SubmitJob_def Let_def split: prod.splits if_splits)
  then have again: "SubmitJob h (Some q) (serve_calls h cs a1) = (Inr r, serve_calls h cs a1)"
    by (rule SubmitJob_repeat [OF assms(4)]) simp
  from CreatePod_agent [OF assms(1-4), of g e k] CreatePod_agent [OF assms(1,2) q' again, of g e k']
  show ?thesis by (elim exE) (intro exI conjI)
qed

lemma sample_sizecar_request:
  "newSubmitRequestForPod sample_provider sample_sizecar =
     Value (zero_SubmitJobRequest\<lparr>sj_Uid := ''u1'', sj_Partition := ''debug'', sj_JobName := ''j'',
       sj_Script := ''#!/bin/sh''\<rparr>)"
  by (simp add: newSubmitRequestForPod_def sample_provider_def NewSlurmVirtualKubeletProvider_def
      sample_sizecar_def zero_Pod_def new_meta_def new_container_def zero_Flags_def label_fields_def
      int_from_label_def container_user_def zero_SubmitJobRequest_def Let_def)

theorem restart_submits_nothing_witness:
  "\<exists>pod2 s2 k2. VKProvider.CreatePod (connect (\<lambda>x. x) counting_agent sample_vk_env) sample_provider sample_sizecar
      ((NewSlurm Map.empty 0 \<lparr>s_knownJobs := [''u1'' \<mapsto> 7]\<rparr>, 8), []) =
     (Value (), pod2, s2, (NewSlurm Map.empty 0 \<lparr>s_knownJobs := [''u1'' \<mapsto> 7]\<rparr>, 8), k2) \<and>
     getSlurmJobId s2 sample_sizecar = ''7''"
proof -
  let ?q = "zero_SubmitJobRequest\<lparr>sj_Uid := ''u1'', sj_Partition := ''debug'', sj_JobName := ''j'',
       sj_Script := ''#!/bin/sh''\<rparr>"
  have sub: "SubmitJob counting_agent (Some ?q) (NewSlurm Map.empty 0, 7) =
      (Inr \<lparr>sjr_JobId = 7\<rparr>, NewSlurm Map.empty 0 \<lparr>s_knownJobs := [''u1'' \<mapsto> 7]\<rparr>, 8)"
    by (simp add: SubmitJob_def zero_SubmitJobRequest_def valid_request_def NewSlurm_def)
  have "FormatInt64 7 = ''7''" by code_simp
  with restart_submits_nothing [OF sample_sizecar_ready sample_sizecar_request sub refl,
      of "\<lambda>x. x" sample_vk_env "[]" "[]" "[]"]
  show ?thesis
    by (auto simp: getSlurmJobId_def sample_sizecar_def new_meta_def)
qed

section \<open>Status\<close>

text \<open>
  What Slurm says about a job becomes the status of its \<^verbatim>\<open>SlurmBridgeJob\<close>: when the virtual
  kubelet has turned the agent's answer into the status of the sizecar pod and the pod is stored
  with it, the operator's state of the job is the phase of the Slurm jobs, and each of them is
  recorded with its state; this uses that decoding undoes encoding.
\<close>

theorem slurm_state_reaches_job:
  assumes "fits pod info" and "sl_Marshal l info = Inr text" and "text \<noteq> []"
    and "kb_Unmarshal k text = Inr info" and "jr_Info info \<noteq> []" and "distinct (map ji_Id (jr_Info info))"
  shows "\<exists>st sjb' w'. convertJobInfo2PodStatus l pod info = Value st \<and>
    UpdateSBJStatus k sjb (Some (pod\<lparr>pod_Status := st\<rparr>)) w = (Value (), sjb', w') \<and>
    bs_State (sbj_Status sjb') = phase_name (slurmState2PodPhase info) \<and>
    (\<forall>ji \<in> set (jr_Info info). \<exists>u. map_of (bs_SubjobStatus (sbj_Status sjb')) (ji_Id ji) = Some u \<and>
       ub_State u = JobStatus_name (ji_Status ji))"
proof -
  obtain st where st: "convertJobInfo2PodStatus l pod info = Value st"
    "pt_Phase st = slurmState2PodPhase info" "pt_Message st = text"
    using convertJobInfo2PodStatus_value [OF assms(1,2)] assms(5) by auto
  obtain r sjb' w' where u: "UpdateSBJStatus k sjb (Some (pod\<lparr>pod_Status := st\<rparr>)) w = (r, sjb', w')"
    by (metis surj_pair)
  have "r = Value () \<and> bs_State (sbj_Status sjb') = phase_name (slurmState2PodPhase info) \<and>
    (\<forall>ji \<in> set (jr_Info info). map_of (bs_SubjobStatus (sbj_Status sjb')) (ji_Id ji) = Some (subjob_status k ji))"
    using UpdateSBJStatus_pod [OF _ _ assms(6) u] assms(3,4) st(2,3) by simp
  then show ?thesis using st(1) u by (auto simp: subjob_status_def)
qed

theorem slurm_state_reaches_job_witness:
  "\<exists>st sjb' w'. convertJobInfo2PodStatus sample_lib (worker_pod [''7''])
      \<lparr>jr_Info = [sample_info\<lparr>ji_Status := COMPLETED\<rparr>]\<rparr> = Value st \<and>
    UpdateSBJStatus (sample_kube (sample_sbj []) [] \<lparr>jr_Info = [sample_info\<lparr>ji_Status := COMPLETED\<rparr>]\<rparr>) (sample_sbj [])
      (Some (worker_pod [''7'']\<lparr>pod_Status := st\<rparr>)) () = (Value (), sjb', w') \<and>
    bs_State (sbj_Status sjb') = ''Succeeded''"
proof -
  let ?i = "\<lparr>jr_Info = [sample_info\<lparr>ji_Status := COMPLETED\<rparr>]\<rparr>"
  have "fits (worker_pod [''7'']) ?i" "sl_Marshal sample_lib ?i = Inr ''{}''"
    "kb_Unmarshal (sample_kube (sample_sbj []) [] ?i) ''{}'' = Inr ?i"
    by (simp_all add: fits_def worker_pod_def new_meta_def new_container_def sample_lib_def sample_kube_def
        sample_info_def)
  moreover have "slurmState2PodPhase ?i = PodSucceeded" by (simp add: phase_of_statuses)
  ultimately show ?thesis
    using slurm_state_reaches_job [of "worker_pod [''7'']" ?i sample_lib "''{}''"
        "sample_kube (sample_sbj []) [] ?i" "sample_sbj []" "()"] by auto
qed

text \<open>
  The worker pod the operator makes for the jobs of a message has a container for each of them,
  so the virtual kubelet reports its status without a panic as long as Slurm still knows these jobs.
\<close>

theorem worker_pod_has_status:
  assumes "newWorkerPodForSJ set_owner sizecar sjb info = Inr pod" and "keeps_owner_labels set_owner"
    and "ji_Id ` set (jr_Info info) \<subseteq> ji_Id ` set (jr_Info info')" and "sl_Marshal l info' = Inr text"
  shows "map c_Name (ps_Containers (pod_Spec pod)) = map ji_Id (jr_Info info) \<and>
    (\<exists>st. convertJobInfo2PodStatus l pod info' = Value st)"
proof -
  have c: "ps_Containers (pod_Spec pod) = map worker_container (jr_Info info)"
    and r: "pod_label pod LabelsRole = Some RoleWorker"
    using assms(1,2)
    by (auto simp: newWorkerPodForSJ_def keeps_owner_labels_def Let_def new_meta_def split: sum.splits)
  have n: "c_Name (worker_container i) = ji_Id i" for i
    by (simp add: worker_container_def new_container_def)
  then have "fits pod info'" using c r assms(3) by (auto simp: fits_def)
  then show ?thesis
    using convertJobInfo2PodStatus_value [OF _ assms(4)] c n by (auto simp: comp_def)
qed

theorem worker_pod_has_status_witness:
  "\<exists>pod st. newWorkerPodForSJ (\<lambda>sjb m. Inr m) (sample_pod PodRunning ''m'') (sample_sbj [])
      \<lparr>jr_Info = [sample_info]\<rparr> = Inr pod \<and>
    convertJobInfo2PodStatus sample_lib pod \<lparr>jr_Info = [sample_info]\<rparr> = Value st"
proof -
  obtain pod where p: "newWorkerPodForSJ (\<lambda>sjb m. Inr m) (sample_pod PodRunning ''m'') (sample_sbj [])
      \<lparr>jr_Info = [sample_info]\<rparr> = Inr pod"
    by (simp add: newWorkerPodForSJ_def Let_def)
  have "keeps_owner_labels (\<lambda>sjb m. Inr m)" by (simp add: keeps_owner_labels_def)
  from worker_pod_has_status [OF p this subset_refl, of sample_lib "''{}''"] p show ?thesis
    by (auto simp: sample_lib_def)
qed

section \<open>Logs\<close>

lemma GetPod_labelled:
  assumes "vk_get_pod e ns name w = (Inr pod, w1)" and "pod_label pod LabelSlurmBridgeJobId = Some jid" "jid \<noteq> []"
  shows "GetPod e s ns name w = (Inr (Some pod), w1)"
  using assms by (simp add: GetPod_def getSlurmJobId_def)

text \<open>
  C9. The logs of a pod are the output files of its job: for a job with separate files, whose agent
  serves both, the reader that the virtual kubelet returns (not following) delivers the standard
  output, then the standard error, then the end, in finitely many reads of any positive sizes.
\<close>

theorem logs_are_job_output:
  assumes "vk_get_pod e ns name w = (Inr pod, w1)" and "pod_label pod LabelSlurmBridgeJobId = Some jid" "jid \<noteq> []"
    and "pt_Message (pod_Status pod) \<noteq> []"
    and "vk_Unmarshal e (pt_Message (pod_Status pod)) = Inr \<lparr>jr_Info = ji # jis\<rparr>"
    and "ji_StdOut ji \<noteq> ji_StdErr ji"
    and "os_Open h (ji_StdOut ji) hw = Opened (file_reads out)"
    and "os_Open h (ji_StdErr ji) hw = Opened (file_reads err)"
    and "\<forall>p cs v. OpenFile h \<lparr>of_Path = p\<rparr> (\<lambda>cs x. None) hw = Some (cs, None) \<longrightarrow>
      vk_OpenFile e \<lparr>of_Path = p\<rparr> v = (Inr (cs, EOF), v)"
  shows "\<exists>rd N. GetContainerLogs e s ns name container False w = (Inr (FileLogs rd), w1) \<and>
    (\<forall>ns. N < length ns \<and> (\<forall>n \<in> set ns. 0 < n) \<longrightarrow>
       (\<exists>rd'. reads OpenFileReader_Read ns rd = ((out @ err, Some EOF), rd')))"
proof -
  obtain cs1 cs2 where cs: "vk_OpenFile e \<lparr>of_Path = ji_StdOut ji\<rparr> w1 = (Inr (cs1, EOF), w1)" "bytes_of cs1 = out"
    "vk_OpenFile e \<lparr>of_Path = ji_StdErr ji\<rparr> w1 = (Inr (cs2, EOF), w1)" "bytes_of cs2 = err"
    using OpenFile_stream [OF assms(7)] OpenFile_stream [OF assms(8)] assms(9) by metis
  let ?rd = "\<lparr>ofr_OpenFileClient = [(cs1, EOF), (cs2, EOF)], ofr_readIndex = 0, ofr_buff = []\<rparr>"
  have g: "GetContainerLogs e s ns name container False w = (Inr (FileLogs ?rd), w1)"
    using GetPod_labelled [OF assms(1-3)] assms(4-6) cs(1,3)
    by (simp add: GetContainerLogs_def getJobInfo_def log_job_def log_files_def Let_def)
  have "ofr_clean ?rd" "ofr_content ?rd = out @ err"
    using cs(2,4) by (simp_all add: ofr_clean_def ofr_content_def stream_bytes_def)
  then have "\<exists>rd'. reads OpenFileReader_Read ns ?rd = ((out @ err, Some EOF), rd')"
    if "ofr_left ?rd < length ns" "\<forall>n \<in> set ns. 0 < n" for ns
    using ofr_all.reads_all [of ?rd ns] that by simp
  with g show ?thesis by blast
qed

definition file_host :: "int64 agent_host" where
  "file_host = counting_agent\<lparr>os_Open := (\<lambda>p w.
     if p = ''/out'' then Opened (file_reads ''ab'')
     else if p = ''/err'' then Opened (file_reads ''c'') else open_result.NotExist (ErrorString p))\<rparr>"

definition log_env :: "int64 list vk_env" where
  "log_env = sample_vk_env
     \<lparr>vk_get_pod := (\<lambda>ns n w. (Inr (zero_Pod
        \<lparr>pod_Meta := new_meta n ns [LabelSlurmBridgeJobId \<mapsto> ''7''],
         pod_Status := zero_PodStatus\<lparr>pt_Message := ''{}''\<rparr>\<rparr>), w)),
      vk_Unmarshal := (\<lambda>t. Inr \<lparr>jr_Info = [sample_info]\<rparr>),
      vk_OpenFile := (\<lambda>q v. case OpenFile file_host q (\<lambda>cs x. None) 0 of
         Some (cs, None) \<Rightarrow> (Inr (cs, EOF), v) | _ \<Rightarrow> (Inl (Sentinel ''unavailable''), v))\<rparr>"

theorem logs_are_job_output_witness:
  "\<exists>rd ns rd'. GetContainerLogs log_env sample_provider ''ns'' ''p'' ''c'' False [] = (Inr (FileLogs rd), []) \<and>
     reads OpenFileReader_Read ns rd = ((''abc'', Some EOF), rd')"
proof -
  let ?pod = "zero_Pod\<lparr>pod_Meta := new_meta ''p'' ''ns'' [LabelSlurmBridgeJobId \<mapsto> ''7''],
      pod_Status := zero_PodStatus\<lparr>pt_Message := ''{}''\<rparr>\<rparr>"
  have 1: "vk_get_pod log_env ''ns'' ''p'' [] = (Inr ?pod, [])" by (simp add: log_env_def)
  have 2: "pod_label ?pod LabelSlurmBridgeJobId = Some ''7''" by (simp add: new_meta_def)
  have 3: "pt_Message (pod_Status ?pod) \<noteq> []" by simp
  have 4: "vk_Unmarshal log_env (pt_Message (pod_Status ?pod)) = Inr \<lparr>jr_Info = [sample_info]\<rparr>"
    by (simp add: log_env_def)
  have 5: "ji_StdOut sample_info \<noteq> ji_StdErr sample_info" by (simp add: sample_info_def)
  have 6: "os_Open file_host (ji_StdOut sample_info) 0 = Opened (file_reads ''ab'')"
    "os_Open file_host (ji_StdErr sample_info) 0 = Opened (file_reads ''c'')"
    by (simp_all add: file_host_def sample_info_def)
  have 7: "\<forall>p cs v. OpenFile file_host \<lparr>of_Path = p\<rparr> (\<lambda>cs x. None) 0 = Some (cs, None) \<longrightarrow>
      vk_OpenFile log_env \<lparr>of_Path = p\<rparr> v = (Inr (cs, EOF), v)"
    by (simp add: log_env_def)
  obtain rd N where l: "GetContainerLogs log_env sample_provider ''ns'' ''p'' ''c'' False [] = (Inr (FileLogs rd), [])"
    "\<forall>ns. N < length ns \<and> (\<forall>n \<in> set ns. 0 < n) \<longrightarrow>
       (\<exists>rd'. reads OpenFileReader_Read ns rd = ((''ab'' @ ''c'', Some EOF), rd'))"
    using logs_are_job_output [OF 1 2 _ 3 4 5 6 7] by blast
  from l(2) have "\<exists>rd'. reads OpenFileReader_Read (replicate (Suc N) 1) rd = ((''ab'' @ ''c'', Some EOF), rd')"
    by (metis length_replicate lessI in_set_replicate zero_less_one)
  with l(1) show ?thesis by (simp only: append_Cons append_Nil) blast
qed

section \<open>Following a log\<close>

text \<open>What the goroutine of the agent's reader receives during the events of a \<^verbatim>\<open>TailFile\<close> call.\<close>

definition event_lines :: "tail_event list \<Rightarrow> tail_line list" where
  "event_lines evs = concat (map (\<lambda>ev. case ev of Lines l \<Rightarrow> [l] | _ \<Rightarrow> []) evs)"

lemma tail_text_event_lines: "tail_text cl evs = tail_text cl (map Lines (event_lines evs))"
  by (induction cl evs rule: tail_text.induct) (simp_all add: event_lines_def)

lemma tail_text_received:
  "tail_text False (map Lines (received (map (\<lambda>l. (l, None)) ts))) = concat (map (\<lambda>l. l @ [newline]) ts)"
  by (induction ts) (simp_all add: received_def)


lemma followed_lines:
  "tailFileSync ''f'' reader_config None (Inr 0) (still_env [] DyingSignal None)
     ([still_env ''a'' Modified None, still_env two_lines Modified None] @
      replicate 3 (still_env two_lines DyingSignal (Some errStopAtEOF))) =
   ([(''a'', None), (''bc'', None)], Return None)"
  by code_simp

lemma followed_stream:
  "TailFile (\<lambda>p. None) (Inr \<lparr>tf_Action = Start, tf_Path = ''f''\<rparr>) (\<lambda>cs c. None)
     [Lines (TextLine ''a''), tail_event.Tick, Lines (TextLine ''bc''), Lines Closed, tail_event.Tick, tail_event.Tick] =
   (\<lparr>ta_reader = \<lparr>tr_isClosed = True, tr_buff = []\<rparr>,
     ta_sent = [\<lparr>ch_Content = ''a'' @ [newline]\<rparr>, \<lparr>ch_Content = ''bc'' @ [newline]\<rparr>], ta_stop = False\<rparr>, Some EOF)"
  by (simp add: TailFile_def SlurmClient.Tail_def NewReader_def new_reader_def Reader_Read_eq)


end
